(* ===== verification/Prelude.thy ===== *)
theory Prelude
  imports Main
begin

text \<open>
  The vocabulary every component shares: Python's exceptions as values, the sequencing of
  fallible steps, rows selected and rewritten in a table, and the interfaces (locales) that
  several components implement.

  \<^item> \<open>exn\<close>: the exception classes the modelled code raises. Only the class is kept, because a
    caller of this code catches by class; message texts are not modelled.
  \<^item> \<open>ebind\<close>: run a step, stop at the first exception.
  \<^item> \<open>find_row\<close>, \<open>put_row\<close>: \<^verbatim>\<open>SELECT .. WHERE key = k\<close> with \<^verbatim>\<open>one_or_none()\<close> and the flush of
    one changed row.
  \<^item> \<open>lifecycle\<close>, \<open>transactional\<close>, \<open>codec\<close>: the contracts. A status machine with closed terminal
    states; database transactions that commit or roll back; stored forms that can be read back.
\<close>

named_theorems res_simps \<open>unfolding and inversion rules for fallible computations\<close>

section \<open>Exceptions as values\<close>

datatype (plugins only: code) exn =
    ValueError | TypeError | KeyError | AttributeError | AssertionError | IndexError
  | MultipleResultsFound | IntegrityError
  | CronExpressionError | ZoneInfoNotFoundError
  | ScheduleInvalidError | InvalidScheduleTransitionError | ScheduleOccurrenceConflictError
  | InvalidRunTransitionError | ConcurrentRunUpdateError | RunNotFoundError
  | RunNotCancellableError | LeaseValidationError | RunCancellationRequestedError
  | IdempotencyConflictError | PublishedTaskNotFoundError
  | DocumentSnapshotError | EffectLeaseValidationError | LookupError
  | ChangeProposalNotFoundError | ChangeProposalConflictError | ChangeProposalExpiredError
  | ChangeProposalApprovalForbiddenError | ChangeProposalValidationError
  | ExecutionFeatureDisabledError | InlineUnavailable | DBAPIError | NoResultFound
  | InteractionConflictError | InteractionExpiredError | InteractionNotFoundError
  | InteractionResponseInvalidError
  | BudgetError | BudgetConflictError | BudgetUnavailableError | BudgetExhaustedError
  | BudgetStartUncertainError
  | ScheduleNotFoundError | ScheduleConflictError | ScheduleClaimLostError | ScheduleOverlapError
  | ScheduleOwnerUnavailableError | ScheduleActivityUnavailableError
  | TaskSourceSelectionError | TaskInputInvalidError | DatabaseTimeoutError | OSError | TimeoutError

type_synonym 'a res = "exn + 'a"

text \<open>
  The subclasses of \<^verbatim>\<open>ValueError\<close> among them: what an \<^verbatim>\<open>except ValueError\<close> clause of the code
  also catches.
\<close>

definition value_error :: "exn \<Rightarrow> bool" where
  "value_error e \<longleftrightarrow> e \<in> {ValueError, CronExpressionError, ScheduleInvalidError,
     InvalidScheduleTransitionError, ScheduleOccurrenceConflictError,
     InvalidRunTransitionError, RunNotCancellableError, IdempotencyConflictError,
     DocumentSnapshotError, ChangeProposalConflictError, ChangeProposalExpiredError,
     ChangeProposalValidationError, ExecutionFeatureDisabledError, InteractionConflictError,
     InteractionExpiredError, InteractionResponseInvalidError, ScheduleConflictError,
     TaskSourceSelectionError, TaskInputInvalidError}"

text \<open>The subclasses of \<^verbatim>\<open>BudgetError\<close>, itself a \<^verbatim>\<open>RuntimeError\<close>.\<close>

definition budget_error :: "exn \<Rightarrow> bool" where
  "budget_error e \<longleftrightarrow> e \<in> {BudgetError, BudgetConflictError, BudgetUnavailableError,
     BudgetExhaustedError, BudgetStartUncertainError}"

section \<open>Sequencing fallible steps\<close>

definition ebind :: "'a res \<Rightarrow> ('a \<Rightarrow> 'b res) \<Rightarrow> 'b res" where
  "ebind m f = (case m of Inl e \<Rightarrow> Inl e | Inr x \<Rightarrow> f x)"

lemma ebind_simps [simp]:
  "ebind (Inl e) f = Inl e"
  "ebind (Inr x) f = f x"
  by (simp_all add: ebind_def)

lemma ebind_Inr_iff [res_simps]:
  "ebind m f = Inr y \<longleftrightarrow> (\<exists>x. m = Inr x \<and> f x = Inr y)"
  by (cases m) auto

lemma ebind_Inl_iff:
  "ebind m f = Inl e \<longleftrightarrow> m = Inl e \<or> (\<exists>x. m = Inr x \<and> f x = Inl e)"
  by (cases m) auto

lemma ebind_cong [fundef_cong]:
  "m = m' \<Longrightarrow> (\<And>x. m' = Inr x \<Longrightarrow> f x = g x) \<Longrightarrow> ebind m f = ebind m' g"
  by (cases m') auto

lemma ebind_assoc: "ebind (ebind m f) g = ebind m (\<lambda>x. ebind (f x) g)"
  by (cases m) auto

text \<open>\<^verbatim>\<open>if c: raise e\<close>, as a step.\<close>

definition raise_if :: "bool \<Rightarrow> exn \<Rightarrow> unit res" where
  "raise_if c e = (if c then Inl e else Inr ())"

lemma raise_if_simps [simp, res_simps]:
  "raise_if c e = Inr u \<longleftrightarrow> \<not> c"
  "raise_if c e = Inl e' \<longleftrightarrow> c \<and> e = e'"
  by (auto simp: raise_if_def)

text \<open>
  \<^verbatim>\<open>try: m  except handled: raise e\<close>: every exception that \<open>h\<close> accepts is replaced.
\<close>

definition rethrow :: "(exn \<Rightarrow> bool) \<Rightarrow> exn \<Rightarrow> 'a res \<Rightarrow> 'a res" where
  "rethrow h e m = (case m of Inl e' \<Rightarrow> Inl (if h e' then e else e') | Inr x \<Rightarrow> Inr x)"

lemma rethrow_Inr_iff [simp, res_simps]: "rethrow h e m = Inr x \<longleftrightarrow> m = Inr x"
  by (cases m) (auto simp: rethrow_def)

lemma rethrow_simps [simp]:
  "rethrow h e (Inr x) = Inr x"
  "rethrow h e (Inl e') = Inl (if h e' then e else e')"
  by (simp_all add: rethrow_def)

text \<open>A fallible map over a list, left to right, stopping at the first exception.\<close>

fun emap :: "('a \<Rightarrow> 'b res) \<Rightarrow> 'a list \<Rightarrow> 'b list res" where
  "emap f [] = Inr []"
| "emap f (x # xs) = ebind (f x) (\<lambda>y. ebind (emap f xs) (\<lambda>ys. Inr (y # ys)))"

lemma emap_Inr_iff:
  "emap f xs = Inr ys \<longleftrightarrow> list_all2 (\<lambda>x y. f x = Inr y) xs ys"
proof (induction xs arbitrary: ys)
  case Nil
  show ?case by auto
next
  case (Cons x xs)
  show ?case by (cases ys) (auto simp: ebind_Inr_iff Cons.IH)
qed

lemma emap_cong [fundef_cong]:
  "xs = ys \<Longrightarrow> (\<And>x. x \<in> set ys \<Longrightarrow> f x = g x) \<Longrightarrow> emap f xs = emap g ys"
proof (induction xs arbitrary: ys)
  case Nil
  then show ?case by simp
next
  case (Cons x xs)
  then show ?case by (cases ys) (auto intro!: ebind_cong)
qed

section \<open>Tables\<close>

definition find_row :: "('r \<Rightarrow> 'k) \<Rightarrow> 'k \<Rightarrow> 'r list \<Rightarrow> 'r option" where
  "find_row key k rows = find (\<lambda>r. key r = k) rows"

definition put_row :: "('r \<Rightarrow> 'k) \<Rightarrow> 'r \<Rightarrow> 'r list \<Rightarrow> 'r list" where
  "put_row key r rows = map (\<lambda>x. if key x = key r then r else x) rows"

lemma find_row_SomeD:
  assumes "find_row key k rows = Some r"
  shows "r \<in> set rows" and "key r = k"
  using assms by (auto simp: find_row_def find_Some_iff)

lemma find_row_None_iff: "find_row key k rows = None \<longleftrightarrow> k \<notin> key ` set rows"
  by (auto simp: find_row_def find_None_iff)

lemma find_row_unique:
  assumes "distinct (map key rows)" and "r \<in> set rows"
  shows "find_row key (key r) rows = Some r"
  using assms
proof (induction rows)
  case Nil
  then show ?case by simp
next
  case (Cons x xs)
  then show ?case by (auto simp: find_row_def)
qed

lemma map_put_row [simp]: "map key (put_row key r rows) = map key rows"
  by (simp add: put_row_def comp_def if_distrib cong: if_cong)

lemma length_put_row [simp]: "length (put_row key r rows) = length rows"
  by (simp add: put_row_def)

lemma find_put_row:
  "find_row key k (put_row key r rows)
     = (if k = key r then (if k \<in> key ` set rows then Some r else None)
        else find_row key k rows)"
  by (induction rows) (auto simp: find_row_def put_row_def)

lemma set_put_rowD: "x \<in> set (put_row key r rows) \<Longrightarrow> x = r \<or> x \<in> set rows \<and> key x \<noteq> key r"
  by (auto simp: put_row_def)

lemma set_put_row_subset: "set (put_row key r rows) \<subseteq> insert r (set rows)"
  by (auto simp: put_row_def)

lemma in_put_row: "key r \<in> key ` set rows \<Longrightarrow> r \<in> set (put_row key r rows)"
  by (auto simp: put_row_def)

lemma put_row_keeps: "x \<in> set rows \<Longrightarrow> key x \<noteq> key r \<Longrightarrow> x \<in> set (put_row key r rows)"
  by (auto simp: put_row_def intro: rev_image_eqI)

text \<open>Replacing the row with a given key moves a sum by the difference of the two rows.\<close>

lemma put_row_absent: "key r \<notin> key ` set rows \<Longrightarrow> put_row key r rows = rows"
  by (induction rows) (auto simp: put_row_def)

lemma sum_put_row:
  fixes f :: "'r \<Rightarrow> int"
  assumes "distinct (map key rows)" and "r \<in> set rows" and "key r' = key r"
  shows "sum_list (map f (put_row key r' rows)) = sum_list (map f rows) - f r + f r'"
  using assms
proof (induction rows)
  case Nil
  then show ?case by simp
next
  case (Cons x xs)
  show ?case
  proof (cases "x = r")
    case True
    with Cons.prems have "put_row key r' xs = xs"
      by (intro put_row_absent) auto
    with True Cons.prems show ?thesis
      by (simp add: put_row_def)
  next
    case False
    with Cons.prems have "key x \<noteq> key r'" by (auto simp: image_iff)
    with False Cons show ?thesis by (simp add: put_row_def)
  qed
qed

lemma filter_put_row:
  assumes "\<And>x. x \<in> set rows \<Longrightarrow> key x = key r' \<Longrightarrow> P x = P r'"
  shows "filter P (put_row key r' rows) = put_row key r' (filter P rows)"
  using assms by (induction rows) (auto simp: put_row_def)

lemma distinct_key_eq:
  "distinct (map key rows) \<Longrightarrow> x \<in> set rows \<Longrightarrow> y \<in> set rows \<Longrightarrow> key x = key y \<Longrightarrow> x = y"
  by (metis distinct_map inj_on_eq_iff)

subsection \<open>Tables over time\<close>

text \<open>A value that is set at most once.\<close>

definition kept :: "'a option \<Rightarrow> 'a option \<Rightarrow> bool" where
  "kept v v' \<longleftrightarrow> v = None \<or> v' = v"

lemma kept_refl [simp]: "kept v v"
  by (simp add: kept_def)

lemma kept_Some [simp]: "kept (Some x) v \<longleftrightarrow> v = Some x" "kept None v"
  by (simp_all add: kept_def)


text \<open>
  Every row of a table is still there, possibly changed within \<open>le\<close>; and a table that only grows.
\<close>

definition table_le :: "('r \<Rightarrow> 'r \<Rightarrow> bool) \<Rightarrow> 'r list \<Rightarrow> 'r list \<Rightarrow> bool" where
  "table_le le xs ys \<longleftrightarrow> (\<forall>x \<in> set xs. \<exists>y \<in> set ys. le x y)"

definition appended :: "'r list \<Rightarrow> 'r list \<Rightarrow> bool" where
  "appended xs ys \<longleftrightarrow> take (length xs) ys = xs"

lemma table_le_refl: "(\<And>x. le x x) \<Longrightarrow> table_le le xs xs"
  by (auto simp: table_le_def)

lemma table_le_trans:
  assumes "\<And>x y z. le x y \<Longrightarrow> le y z \<Longrightarrow> le x z" "table_le le xs ys" "table_le le ys zs"
  shows "table_le le xs zs"
  using assms unfolding table_le_def by meson

lemma table_le_append: "(\<And>x. le x x) \<Longrightarrow> table_le le xs (xs @ ys)"
  by (auto simp: table_le_def)

lemma table_le_put_row:
  assumes "\<And>x. le x x" "\<And>x. x \<in> set xs \<Longrightarrow> key x = key y \<Longrightarrow> le x y"
  shows "table_le le xs (put_row key y xs)"
  unfolding table_le_def
proof
  fix x assume x: "x \<in> set xs"
  show "\<exists>z \<in> set (put_row key y xs). le x z"
  proof (cases "key x = key y")
    case True
    then have "y \<in> set (put_row key y xs)" using x by (intro in_put_row) (metis image_eqI)
    with assms(2) [OF x True] show ?thesis by blast
  next
    case False
    with put_row_keeps [OF x False] assms(1) show ?thesis by blast
  qed
qed

lemma appended_simps [simp]: "appended xs xs" "appended xs (xs @ ys)"
  by (simp_all add: appended_def)

lemma appended_trans: "appended xs ys \<Longrightarrow> appended ys zs \<Longrightarrow> appended xs zs"
  unfolding appended_def by (metis append_eq_conv_conj append_take_drop_id append.assoc)

section \<open>Interfaces shared by the components\<close>

subsection \<open>Status machines\<close>

text \<open>
  \<open>allowed s\<close> lists the statuses the code lets a row in status \<open>s\<close> move to; \<open>path_ok\<close> follows
  a sequence of moves.
\<close>

fun path_ok :: "('s \<Rightarrow> 's list) \<Rightarrow> 's \<Rightarrow> 's list \<Rightarrow> bool" where
  "path_ok allowed s [] = True"
| "path_ok allowed s (t # ts) = (t \<in> set (allowed s) \<and> path_ok allowed t ts)"

lemma path_ok_append:
  "path_ok allowed s (xs @ ys) \<longleftrightarrow>
     path_ok allowed s xs \<and> path_ok allowed (if xs = [] then s else last xs) ys"
  by (induction xs arbitrary: s) auto

locale lifecycle =
  fixes allowed :: "'s \<Rightarrow> 's list"
    and terminal :: "'s \<Rightarrow> bool"
  assumes terminal_closed: "terminal s \<Longrightarrow> allowed s = []"
begin

lemma terminal_stays: "terminal s \<Longrightarrow> path_ok allowed s ts \<Longrightarrow> ts = []"
  by (cases ts) (auto dest: terminal_closed)

lemma terminal_is_last: "path_ok allowed s (xs @ t # ys) \<Longrightarrow> terminal t \<Longrightarrow> ys = []"
  by (auto simp: path_ok_append dest: terminal_stays)

end

subsection \<open>Transactions\<close>

text \<open>
  Each operation of a repository runs inside \<^verbatim>\<open>async with session.begin()\<close>: when it raises, the
  session rolls back and the database is what it was. \<open>commit_all\<close> runs a sequence of
  transactions in that way, an exception leaving the database unchanged.
\<close>

fun commit_all :: "('c \<Rightarrow> 'd \<Rightarrow> ('r \<times> 'd) res) \<Rightarrow> 'c list \<Rightarrow> 'd \<Rightarrow> 'd" where
  "commit_all exec [] d = d"
| "commit_all exec (c # cs) d =
     commit_all exec cs (case exec c d of Inl e \<Rightarrow> d | Inr (r, d') \<Rightarrow> d')"

lemma commit_all_append: "commit_all exec (xs @ ys) d = commit_all exec ys (commit_all exec xs d)"
  by (induction xs arbitrary: d) auto

locale transactional =
  fixes exec :: "'c \<Rightarrow> 'd \<Rightarrow> ('r \<times> 'd) res"
    and inv :: "'d \<Rightarrow> bool"
  assumes exec_inv: "inv d \<Longrightarrow> exec c d = Inr (r, d') \<Longrightarrow> inv d'"
begin

lemma step_inv: "inv d \<Longrightarrow> inv (case exec c d of Inl e \<Rightarrow> d | Inr (r, d') \<Rightarrow> d')"
  by (auto split: sum.split dest: exec_inv)

lemma commit_all_inv: "inv d \<Longrightarrow> inv (commit_all exec cs d)"
proof (induction cs arbitrary: d)
  case Nil
  then show ?case by simp
next
  case (Cons c cs)
  show ?case
    by (simp, rule Cons.IH, rule step_inv, rule Cons.prems)
qed

end

text \<open>
  A history: an order on databases that every committed transaction respects. What is once
  recorded stays recorded over any later sequence.
\<close>

locale transactional_history = transactional exec inv
  for exec :: "'c \<Rightarrow> 'd \<Rightarrow> ('r \<times> 'd) res" and inv :: "'d \<Rightarrow> bool" +
  fixes le :: "'d \<Rightarrow> 'd \<Rightarrow> bool"
  assumes le_refl: "le d d"
    and le_trans: "le d d' \<Longrightarrow> le d' d'' \<Longrightarrow> le d d''"
    and exec_le: "inv d \<Longrightarrow> exec c d = Inr (r, d') \<Longrightarrow> le d d'"
begin

lemma commit_all_le: "inv d \<Longrightarrow> le d (commit_all exec cs d)"
proof (induction cs arbitrary: d)
  case Nil
  show ?case by (simp add: le_refl)
next
  case (Cons c cs)
  define d1 where "d1 = (case exec c d of Inl e \<Rightarrow> d | Inr (r, d') \<Rightarrow> d')"
  have "inv d1" unfolding d1_def using Cons.prems by (rule step_inv)
  then have "le d1 (commit_all exec cs d1)" by (rule Cons.IH)
  moreover have "le d d1"
    using Cons.prems by (auto simp: d1_def le_refl split: sum.split dest: exec_le)
  ultimately show ?case by (auto simp: d1_def intro: le_trans)
qed

end

subsection \<open>Stored forms\<close>

text \<open>
  A dataclass with \<^verbatim>\<open>to_json\<close> and \<^verbatim>\<open>from_json\<close>: reading back what was written gives the value
  again, and only well-formed values are ever read.
\<close>

locale codec =
  fixes enc :: "'a \<Rightarrow> 'j"
    and dec :: "'j \<Rightarrow> 'a res"
    and valid :: "'a \<Rightarrow> bool"
  assumes dec_enc: "valid x \<Longrightarrow> dec (enc x) = Inr x"
    and dec_valid: "dec j = Inr x \<Longrightarrow> valid x"
begin

lemma enc_inject: "valid x \<Longrightarrow> valid y \<Longrightarrow> enc x = enc y \<longleftrightarrow> x = y"
  using dec_enc by (metis Inr_inject)

lemma dec_stable: "dec j = Inr x \<Longrightarrow> dec (enc x) = Inr x"
  by (rule dec_enc, rule dec_valid)

end

end
