(* ===== verification/Pytext.thy ===== *)
theory Pytext
  imports Prelude
begin

text \<open>
  The operations of Python's \<^verbatim>\<open>str\<close> that the modelled code uses. A Python string is modelled as
  \<^typ>\<open>string\<close>, one \<^typ>\<open>char\<close> per code point, so the code points \<open>0 .. 255\<close> are covered: all of
  ASCII, and the Latin-1 block with the superscript digits on which \<^verbatim>\<open>str.isdigit\<close> and \<^verbatim>\<open>int\<close>
  disagree and the two further white-space characters of \<^verbatim>\<open>str.split\<close>.
\<close>

section \<open>Characters\<close>

abbreviation code :: "char \<Rightarrow> nat" where
  "code c \<equiv> of_char c"

definition ascii_digit :: "char \<Rightarrow> bool" where
  "ascii_digit c \<longleftrightarrow> 48 \<le> code c \<and> code c \<le> 57"

definition ascii_lower :: "char \<Rightarrow> bool" where
  "ascii_lower c \<longleftrightarrow> 97 \<le> code c \<and> code c \<le> 122"

definition ascii_upper :: "char \<Rightarrow> bool" where
  "ascii_upper c \<longleftrightarrow> 65 \<le> code c \<and> code c \<le> 90"

definition ascii_alnum :: "char \<Rightarrow> bool" where
  "ascii_alnum c \<longleftrightarrow> ascii_digit c \<or> ascii_lower c \<or> ascii_upper c"

definition lower_hex :: "char \<Rightarrow> bool" where
  "lower_hex c \<longleftrightarrow> ascii_digit c \<or> 97 \<le> code c \<and> code c \<le> 102"

text \<open>\<^verbatim>\<open>str.isspace\<close> for one code point below 256: what \<^verbatim>\<open>split()\<close> and \<^verbatim>\<open>strip()\<close> drop.\<close>

definition py_space :: "char \<Rightarrow> bool" where
  "py_space c \<longleftrightarrow> code c \<in> {9, 10, 11, 12, 13, 28, 29, 30, 31, 32, 133, 160}"

text \<open>\<^verbatim>\<open>str.isdigit\<close> for one code point below 256: also the superscripts one, two and three.\<close>

definition digit_char :: "char \<Rightarrow> bool" where
  "digit_char c \<longleftrightarrow> ascii_digit c \<or> code c \<in> {178, 179, 185}"

definition py_isdigit :: "string \<Rightarrow> bool" where
  "py_isdigit s \<longleftrightarrow> s \<noteq> [] \<and> list_all digit_char s"

section \<open>Splitting\<close>

text \<open>\<^verbatim>\<open>s.partition(c)\<close> for a single character: the part before, and the rest if \<open>c\<close> occurs.\<close>

definition py_partition :: "char \<Rightarrow> string \<Rightarrow> string \<times> string" where
  "py_partition c s = (takeWhile (\<lambda>x. x \<noteq> c) s, drop 1 (dropWhile (\<lambda>x. x \<noteq> c) s))"

text \<open>\<^verbatim>\<open>s.split(c)\<close> for a single character: never empty.\<close>

fun py_split_on :: "char \<Rightarrow> string \<Rightarrow> string list" where
  "py_split_on c [] = [[]]"
| "py_split_on c (x # xs) =
     (if x = c then [] # py_split_on c xs
      else (case py_split_on c xs of [] \<Rightarrow> [[x]] | p # ps \<Rightarrow> (x # p) # ps))"

text \<open>\<^verbatim>\<open>s.split()\<close>: the maximal runs of non-space characters.\<close>

fun py_words :: "string \<Rightarrow> string list" where
  "py_words [] = []"
| "py_words (x # xs) =
     (if py_space x then py_words xs
      else case xs of
        [] \<Rightarrow> [[x]]
      | y # _ \<Rightarrow>
          (if py_space y then [x] # py_words xs
           else case py_words xs of [] \<Rightarrow> [[x]] | w # ws \<Rightarrow> (x # w) # ws))"

text \<open>\<^verbatim>\<open>" ".join(ws)\<close>.\<close>

fun join_space :: "string list \<Rightarrow> string" where
  "join_space [] = []"
| "join_space [w] = w"
| "join_space (w # v # ws) = w @ CHR '' '' # join_space (v # ws)"

definition py_strip :: "string \<Rightarrow> string" where
  "py_strip s = rev (dropWhile py_space (rev (dropWhile py_space s)))"

lemma py_split_on_ne [simp]: "py_split_on c s \<noteq> []"
  by (induction s) (auto split: list.split)

lemma py_split_on_no_sep:
  "w \<in> set (py_split_on c s) \<Longrightarrow> c \<notin> set w"
  by (induction s arbitrary: w) (auto split: if_splits list.splits)

definition plain_word :: "string \<Rightarrow> bool" where
  "plain_word w \<longleftrightarrow> w \<noteq> [] \<and> list_all (\<lambda>c. \<not> py_space c) w"

lemma py_words_nonempty: "xs \<noteq> [] \<Longrightarrow> \<not> py_space (hd xs) \<Longrightarrow>
    \<exists>w ws. py_words xs = w # ws"
  by (cases xs) (auto split: list.split)

lemma py_words_plain: "w \<in> set (py_words s) \<Longrightarrow> plain_word w"
proof (induction s arbitrary: w)
  case Nil
  then show ?case by simp
next
  case (Cons x xs)
  show ?case
  proof (cases "py_space x")
    case True
    with Cons show ?thesis by simp
  next
    case sx: False
    show ?thesis
    proof (cases xs)
      case Nil
      with Cons.prems sx show ?thesis by (simp add: plain_word_def)
    next
      case (Cons y ys)
      note xs = Cons
      show ?thesis
      proof (cases "py_space y")
        case True
        with Cons.prems sx xs Cons.IH show ?thesis by (auto simp: plain_word_def)
      next
        case False
        then obtain v vs where v: "py_words xs = v # vs"
          using py_words_nonempty [of xs] xs by auto
        have "w = x # v \<or> w \<in> set vs"
          using Cons.prems sx False v xs by (auto simp del: py_words.simps simp: py_words.simps(2) [of x])
        moreover have "plain_word v" "\<And>u. u \<in> set vs \<Longrightarrow> plain_word u"
          using \<open>\<And>w. w \<in> set (py_words xs) \<Longrightarrow> plain_word w\<close> v by auto
        ultimately show ?thesis using sx by (auto simp: plain_word_def)
      qed
    qed
  qed
qed

lemma py_words_space_append:
  "plain_word w \<Longrightarrow> py_words (w @ CHR '' '' # s) = w # py_words s"
proof (induction w)
  case Nil
  then show ?case by (simp add: plain_word_def)
next
  case (Cons x xs)
  have sp: "py_space CHR '' ''" by (simp add: py_space_def)
  show ?case
  proof (cases xs)
    case Nil
    with Cons.prems sp show ?thesis by (simp add: plain_word_def)
  next
    case (Cons y ys)
    with Cons.prems have "plain_word xs" by (auto simp: plain_word_def)
    with Cons.IH have "py_words (xs @ CHR '' '' # s) = xs # py_words s" by simp
    with Cons.prems Cons show ?thesis by (auto simp: plain_word_def)
  qed
qed

lemma py_words_plain_word: "plain_word w \<Longrightarrow> py_words w = [w]"
proof (induction w)
  case Nil
  then show ?case by (simp add: plain_word_def)
next
  case (Cons x xs)
  show ?case
  proof (cases xs)
    case Nil
    with Cons.prems show ?thesis by (simp add: plain_word_def)
  next
    case (Cons y ys)
    with Cons.prems have "plain_word xs" by (auto simp: plain_word_def)
    with Cons.IH have "py_words xs = [xs]" by simp
    with Cons.prems Cons show ?thesis by (auto simp: plain_word_def)
  qed
qed

text \<open>Joining words with single spaces and splitting again gives the words.\<close>

lemma py_words_join: "list_all plain_word ws \<Longrightarrow> py_words (join_space ws) = ws"
  by (induction ws rule: join_space.induct)
     (simp_all add: py_words_plain_word py_words_space_append)

section \<open>Decimal numbers\<close>

definition dig :: "nat \<Rightarrow> char" where
  "dig d = ''0123456789'' ! d"

definition dig_val :: "char \<Rightarrow> nat" where
  "dig_val c = code c - 48"

fun show_nat :: "nat \<Rightarrow> string" where
  "show_nat n = (if n < 10 then [dig n] else show_nat (n div 10) @ [dig (n mod 10)])"

declare show_nat.simps [simp del]

definition show_int :: "int \<Rightarrow> string" where
  "show_int i = (if i < 0 then CHR ''-'' # show_nat (nat (- i)) else show_nat (nat i))"

definition read_nat :: "string \<Rightarrow> nat" where
  "read_nat s = foldl (\<lambda>a c. 10 * a + dig_val c) 0 s"

text \<open>
  \<^verbatim>\<open>int(s)\<close> on a text that \<^verbatim>\<open>s.isdigit()\<close> accepted: a superscript digit is no decimal digit and
  \<^verbatim>\<open>int\<close> raises \<^verbatim>\<open>ValueError\<close>.
\<close>

definition int_of_digits :: "string \<Rightarrow> int res" where
  "int_of_digits s = (if list_all ascii_digit s then Inr (int (read_nat s)) else Inl ValueError)"

lemma less_10_cases: "(d::nat) < 10 \<Longrightarrow> d \<in> {0, 1, 2, 3, 4, 5, 6, 7, 8, 9}"
  by auto

lemma dig_val_dig: "d < 10 \<Longrightarrow> dig_val (dig d) = d"
  using less_10_cases [of d] by (auto simp: dig_def dig_val_def)

lemma ascii_digit_dig: "d < 10 \<Longrightarrow> ascii_digit (dig d)"
  using less_10_cases [of d] by (auto simp: dig_def ascii_digit_def)

lemma read_nat_snoc: "read_nat (s @ [c]) = 10 * read_nat s + dig_val c"
  by (simp add: read_nat_def)

lemma read_show_nat [simp]: "read_nat (show_nat n) = n"
proof (induction n rule: show_nat.induct)
  case (1 n)
  show ?case
  proof (cases "n < 10")
    case True
    then show ?thesis
      by (simp add: show_nat.simps [of n] read_nat_def dig_val_dig)
  next
    case False
    with 1 show ?thesis
      by (simp add: show_nat.simps [of n] read_nat_snoc dig_val_dig)
  qed
qed

lemma show_nat_digits: "list_all ascii_digit (show_nat n)"
proof (induction n rule: show_nat.induct)
  case (1 n)
  then show ?case
    by (cases "n < 10") (simp_all add: show_nat.simps [of n] ascii_digit_dig)
qed

lemma show_nat_ne [simp]: "show_nat n \<noteq> []"
  by (subst show_nat.simps) simp

lemma show_nat_inject [simp]: "show_nat m = show_nat n \<longleftrightarrow> m = n"
  by (metis read_show_nat)

lemma show_nat_not_minus: "show_nat n \<noteq> CHR ''-'' # s"
proof
  assume "show_nat n = CHR ''-'' # s"
  then have "ascii_digit CHR ''-''" using show_nat_digits [of n] by simp
  then show False by (simp add: ascii_digit_def)
qed

lemma show_int_inject [simp]: "show_int i = show_int j \<longleftrightarrow> i = j"
  using show_nat_not_minus by (auto simp: show_int_def dest: sym)

lemma int_of_digits_show [simp]: "int_of_digits (show_nat n) = Inr (int n)"
  by (simp add: int_of_digits_def show_nat_digits)

lemma py_isdigit_show [simp]: "py_isdigit (show_nat n)"
  using show_nat_digits [of n]
  by (auto simp: py_isdigit_def digit_char_def list_all_iff)

section \<open>Identifiers\<close>

text \<open>The pattern \<^verbatim>\<open>[A-Za-z0-9][A-Za-z0-9_.:/-]{0,127}\<close>, matched against the whole text.\<close>

definition key_char :: "char \<Rightarrow> bool" where
  "key_char c \<longleftrightarrow> ascii_alnum c \<or> c \<in> set ''_.:/-''"

definition key_text :: "string \<Rightarrow> bool" where
  "key_text s \<longleftrightarrow> (case s of [] \<Rightarrow> False
     | c # cs \<Rightarrow> ascii_alnum c \<and> length cs \<le> 127 \<and> list_all key_char cs)"

text \<open>\<^verbatim>\<open>[0-9a-f]{64}\<close>, matched against the whole text.\<close>

definition hex64 :: "string \<Rightarrow> bool" where
  "hex64 s \<longleftrightarrow> length s = 64 \<and> list_all lower_hex s"

end
