(* ===== verification/Pytime.thy ===== *)
theory Pytime
  imports Pytext
begin

text \<open>
  The parts of Python's \<^verbatim>\<open>datetime\<close> that the modelled code uses.

  An aware \<^verbatim>\<open>datetime\<close> is its instant, in microseconds of UTC since the start of 1 January of
  year 1 (so that day numbers are \<^verbatim>\<open>date.toordinal()\<close> less one). A naive local time is the same
  count on the local clock. Years past 9999, where Python overflows, are not cut off.

  A time zone is a pair of functions (\<open>zone\<close>): the offset in force at an instant, and the offset
  that PEP 495 gives a naive time with \<^verbatim>\<open>fold=0\<close>. The tz database behind them is outside this code.
\<close>

type_synonym time = int

text \<open>A \<^verbatim>\<open>datetime\<close> of either kind.\<close>

datatype py_datetime = Aware time | Naive int

abbreviation (input) usec_second :: int where "usec_second \<equiv> 1000000"
abbreviation (input) usec_minute :: int where "usec_minute \<equiv> 60000000"
abbreviation (input) usec_hour :: int where "usec_hour \<equiv> 3600000000"
abbreviation (input) usec_day :: int where "usec_day \<equiv> 86400000000"

definition seconds :: "int \<Rightarrow> time" where
  "seconds n = n * usec_second"

section \<open>The Gregorian calendar\<close>

definition is_leap :: "int \<Rightarrow> bool" where
  "is_leap y \<longleftrightarrow> y mod 4 = 0 \<and> (y mod 100 \<noteq> 0 \<or> y mod 400 = 0)"

definition month_days :: "bool \<Rightarrow> int list" where
  "month_days leap = [31, if leap then 29 else 28, 31, 30, 31, 30, 31, 31, 30, 31, 30, 31]"

text \<open>Days before month \<open>m\<close> (from 1), and the month and day of a day number in the year.\<close>

definition before_month :: "bool \<Rightarrow> int \<Rightarrow> int" where
  "before_month leap m = sum_list (take (nat (m - 1)) (month_days leap))"

fun month_of :: "int \<Rightarrow> int list \<Rightarrow> int \<Rightarrow> int \<times> int" where
  "month_of m [] n = (m, n + 1)"
| "month_of m (l # ls) n = (if n < l \<or> ls = [] then (m, n + 1) else month_of (m + 1) ls (n - l))"

definition before_year :: "int \<Rightarrow> int" where
  "before_year y = (let p = y - 1 in p * 365 + p div 4 - p div 100 + p div 400)"

text \<open>\<^verbatim>\<open>date(y, m, d).toordinal() - 1\<close>.\<close>

definition day_number :: "int \<Rightarrow> int \<Rightarrow> int \<Rightarrow> int" where
  "day_number y m d = before_year y + before_month (is_leap y) m + (d - 1)"

text \<open>\<^verbatim>\<open>date.fromordinal(n + 1)\<close> as year, month and day.\<close>

definition civil :: "int \<Rightarrow> int \<times> int \<times> int" where
  "civil n =
     (let n400 = n div 146097; a = n mod 146097;
          n100 = a div 36524; b = a mod 36524;
          n4 = b div 1461; c = b mod 1461;
          n1 = c div 365; e = c mod 365;
          y = n400 * 400 + n100 * 100 + n4 * 4 + n1 + 1
      in if n1 = 4 \<or> n100 = 4 then (y - 1, 12, 31)
         else (case month_of 1 (month_days (is_leap y)) e of (m, d) \<Rightarrow> (y, m, d)))"

definition civil_year :: "int \<Rightarrow> int" where "civil_year n = fst (civil n)"
definition civil_month :: "int \<Rightarrow> int" where "civil_month n = fst (snd (civil n))"
definition civil_day :: "int \<Rightarrow> int" where "civil_day n = snd (snd (civil n))"

text \<open>\<^verbatim>\<open>date.isoweekday() % 7\<close>: 1 January of year 1 was a Monday, Sunday is 0.\<close>

definition weekday7 :: "int \<Rightarrow> int" where
  "weekday7 n = (n + 1) mod 7"

lemma month_of_bounds:
  assumes "month_of m ls n = (m', d)" and "ls \<noteq> []" and "0 \<le> n" and "n < sum_list ls"
    and "\<And>l. l \<in> set ls \<Longrightarrow> 0 \<le> l \<and> l \<le> 31"
  shows "m \<le> m' \<and> m' < m + int (length ls) \<and> 1 \<le> d \<and> d \<le> 31
    \<and> n = sum_list (take (nat (m' - m)) ls) + (d - 1)"
  using assms
proof (induction m ls n rule: month_of.induct)
  case (1 m n)
  then show ?case by simp
next
  case (2 m l ls n)
  show ?case
  proof (cases "n < l \<or> ls = []")
    case True
    with 2 have "m' = m \<and> d = n + 1 \<and> n < l" by auto
    moreover have "l \<le> 31" using "2.prems"(5) [of l] by simp
    ultimately show ?thesis using "2.prems"(3) by simp
  next
    case False
    with "2.prems" have pre: "month_of (m + 1) ls (n - l) = (m', d)" "ls \<noteq> []" "0 \<le> n - l"
      "n - l < sum_list ls" by auto
    have IH: "m + 1 \<le> m' \<and> m' < m + 1 + int (length ls) \<and> 1 \<le> d \<and> d \<le> 31
      \<and> n - l = sum_list (take (nat (m' - (m + 1))) ls) + (d - 1)"
      using "2.IH" [OF False pre] "2.prems"(5) by simp
    then have "nat (m' - m) = Suc (nat (m' - (m + 1)))" by linarith
    with IH show ?thesis by simp
  qed
qed

lemma sum_month_days: "sum_list (month_days leap) = (if leap then 366 else 365)"
  by (simp add: month_days_def)

lemma civil_split:
  fixes n :: int
  obtains n400 n100 n4 n1 e where
    "n = 146097 * n400 + 36524 * n100 + 1461 * n4 + 365 * n1 + e"
    "n400 = n div 146097" "n100 = (n mod 146097) div 36524" "n4 = n mod 146097 mod 36524 div 1461"
    "n1 = n mod 146097 mod 36524 mod 1461 div 365" "e = n mod 146097 mod 36524 mod 1461 mod 365"
    "0 \<le> n100" "n100 \<le> 4" "0 \<le> n4" "n4 \<le> 24" "0 \<le> n1" "n1 \<le> 4" "0 \<le> e" "e < 365"
    "n100 = 4 \<longrightarrow> n4 = 0 \<and> n1 = 0 \<and> e = 0" "n1 = 4 \<longrightarrow> e = 0 \<and> n4 < 24"
proof -
  define a where "a = n mod 146097"
  define b where "b = a mod 36524"
  define c where "c = b mod 1461"
  have n: "n = 146097 * (n div 146097) + a" by (simp add: a_def)
  have a: "a = 36524 * (a div 36524) + b" by (simp add: b_def)
  have b: "b = 1461 * (b div 1461) + c" by (simp add: c_def)
  have c: "c = 365 * (c div 365) + c mod 365" by simp
  have ra: "0 \<le> a" "a < 146097" and rb: "0 \<le> b" "b < 36524" and rc: "0 \<le> c" "c < 1461"
    and re: "0 \<le> c mod 365" "c mod 365 < 365"
    by (simp_all add: a_def b_def c_def)
  have d1: "0 \<le> a div 36524" "a div 36524 \<le> 4" using ra by auto
  have d2: "0 \<le> b div 1461" "b div 1461 \<le> 24" using rb by auto
  have d3: "0 \<le> c div 365" "c div 365 \<le> 4" using rc by auto
  have x1: "a div 36524 = 4 \<Longrightarrow> b = 0" using a ra rb by linarith
  have x2: "c div 365 = 4 \<longrightarrow> c mod 365 = 0 \<and> b div 1461 < 24" using b c rb rc re d2 by linarith
  have eq: "n = 146097 * (n div 146097) + 36524 * (a div 36524) + 1461 * (b div 1461)
      + 365 * (c div 365) + c mod 365"
    using n a b c by linarith
  have top: "a div 36524 = 4 \<longrightarrow> b div 1461 = 0 \<and> c div 365 = 0 \<and> c mod 365 = 0"
    using x1 by (simp add: c_def)
  show thesis
    by (rule that [OF eq refl _ _ _ _ d1 d2 d3 re top x2]) (simp_all only: a_def b_def c_def)
qed

lemma year_parts:
  fixes n400 n100 n4 n1 :: int
  assumes "0 \<le> n100" "n100 \<le> 3" "0 \<le> n4" "n4 \<le> 24" "0 \<le> n1" "n1 \<le> 3"
  defines "y \<equiv> n400 * 400 + n100 * 100 + n4 * 4 + n1 + 1"
  shows "before_year y = 146097 * n400 + 36524 * n100 + 1461 * n4 + 365 * n1"
    and "is_leap y \<longleftrightarrow> n1 = 3 \<and> (n4 \<noteq> 24 \<or> n100 = 3)"
proof -
  let ?p = "y - 1"
  have p4: "?p div 4 = 100 * n400 + 25 * n100 + n4"
    using assms by (simp add: y_def)
  have p100: "?p div 100 = 4 * n400 + n100"
    using assms by (simp add: y_def)
  have p400: "?p div 400 = n400"
    using assms by (simp add: y_def)
  show "before_year y = 146097 * n400 + 36524 * n100 + 1461 * n4 + 365 * n1"
    unfolding before_year_def Let_def p4 p100 p400 by (simp add: y_def)
  have "y = (n1 + 1) + 4 * (100 * n400 + 25 * n100 + n4)" by (simp add: y_def)
  then have m4: "y mod 4 = (n1 + 1) mod 4" by (simp only: mod_mult_self2)
  have "y = (n4 * 4 + n1 + 1) + 100 * (4 * n400 + n100)" by (simp add: y_def)
  then have m100: "y mod 100 = (n4 * 4 + n1 + 1) mod 100" by (simp only: mod_mult_self2)
  have "y = (n100 * 100 + n4 * 4 + n1 + 1) + 400 * n400" by (simp add: y_def)
  then have m400: "y mod 400 = (n100 * 100 + n4 * 4 + n1 + 1) mod 400"
    by (simp only: mod_mult_self2)
  have mod0: "x mod k = 0 \<longleftrightarrow> x = k" if "0 < x" "x \<le> k" for x k :: int
    using that by (cases "x = k") auto
  have e4: "(n1 + 1) mod 4 = 0 \<longleftrightarrow> n1 = 3"
    using assms(5,6) mod0 [of "n1 + 1" 4] by auto
  have "n4 * 4 + n1 + 1 = 100 \<longleftrightarrow> n4 = 24 \<and> n1 = 3"
    using assms(3-6) by linarith
  then have e100: "(n4 * 4 + n1 + 1) mod 100 = 0 \<longleftrightarrow> n4 = 24 \<and> n1 = 3"
    using assms(3-6) mod0 [of "n4 * 4 + n1 + 1" 100] by auto
  have "n100 * 100 + n4 * 4 + n1 + 1 = 400 \<longleftrightarrow> n100 = 3 \<and> n4 = 24 \<and> n1 = 3"
    using assms(1-6) by linarith
  then have e400: "(n100 * 100 + n4 * 4 + n1 + 1) mod 400 = 0 \<longleftrightarrow> n100 = 3 \<and> n4 = 24 \<and> n1 = 3"
    using assms(1-6) mod0 [of "n100 * 100 + n4 * 4 + n1 + 1" 400] by auto
  show "is_leap y \<longleftrightarrow> n1 = 3 \<and> (n4 \<noteq> 24 \<or> n100 = 3)"
    unfolding is_leap_def m4 m100 m400 e4 e100 e400 by blast
qed

lemma before_month_12 [simp]: "before_month leap 12 = (if leap then 335 else 334)"
  by (simp add: before_month_def month_days_def)

lemma civil_correct:
  assumes "civil n = (y, m, d)"
  shows "day_number y m d = n" and "1 \<le> m" and "m \<le> 12" and "1 \<le> d" and "d \<le> 31"
proof -
  obtain n400 n100 n4 n1 e where n: "n = 146097 * n400 + 36524 * n100 + 1461 * n4 + 365 * n1 + e"
    and defs: "n400 = n div 146097" "n100 = (n mod 146097) div 36524"
      "n4 = n mod 146097 mod 36524 div 1461" "n1 = n mod 146097 mod 36524 mod 1461 div 365"
      "e = n mod 146097 mod 36524 mod 1461 mod 365"
    and r: "0 \<le> n100" "n100 \<le> 4" "0 \<le> n4" "n4 \<le> 24" "0 \<le> n1" "n1 \<le> 4" "0 \<le> e" "e < 365"
    and x100: "n100 = 4 \<longrightarrow> n4 = 0 \<and> n1 = 0 \<and> e = 0" and x1: "n1 = 4 \<longrightarrow> e = 0 \<and> n4 < 24"
    by (rule civil_split [of n])
  define y0 where "y0 = n400 * 400 + n100 * 100 + n4 * 4 + n1 + 1"
  have c: "civil n = (if n1 = 4 \<or> n100 = 4 then (y0 - 1, 12, 31)
      else (case month_of 1 (month_days (is_leap y0)) e of (m, d) \<Rightarrow> (y0, m, d)))"
    by (simp only: civil_def Let_def defs y0_def)
  consider (century) "n100 = 4" | (leap_day) "n1 = 4" "n100 \<le> 3" | (plain) "n1 \<le> 3" "n100 \<le> 3"
    using r by linarith
  then have "day_number y m d = n \<and> 1 \<le> m \<and> m \<le> 12 \<and> 1 \<le> d \<and> d \<le> 31"
  proof cases
    case century
    with x100 have z: "n4 = 0" "n1 = 0" "e = 0" by simp_all
    have "y0 - 1 = n400 * 400 + 3 * 100 + 24 * 4 + 3 + 1" using century z by (simp add: y0_def)
    with year_parts [of 3 24 3 n400]
    have "before_year (y0 - 1) = 146097 * n400 + 145731" and "is_leap (y0 - 1)" by simp_all
    then show ?thesis using c century assms n z by (simp add: day_number_def)
  next
    case leap_day
    with x1 have z: "e = 0" "n4 < 24" by simp_all
    have "y0 - 1 = n400 * 400 + n100 * 100 + n4 * 4 + 3 + 1" using leap_day by (simp add: y0_def)
    with year_parts [of n100 n4 3 n400] leap_day r z
    have "before_year (y0 - 1) = 146097 * n400 + 36524 * n100 + 1461 * n4 + 1095"
      and "is_leap (y0 - 1)" by simp_all
    then show ?thesis using c leap_day assms n z by (simp add: day_number_def)
  next
    case plain
    from year_parts(1) [of n100 n4 n1 n400] plain r
    have by0: "before_year y0 = 146097 * n400 + 36524 * n100 + 1461 * n4 + 365 * n1"
      by (simp add: y0_def)
    have md: "month_of 1 (month_days (is_leap y0)) e = (m, d)" and y: "y = y0"
      using c plain assms by (auto split: prod.splits)
    have "e < sum_list (month_days (is_leap y0))" using r by (simp add: sum_month_days)
    moreover have "0 \<le> l \<and> l \<le> 31" if "l \<in> set (month_days (is_leap y0))" for l
      using that by (auto simp: month_days_def split: if_splits)
    moreover have "month_days (is_leap y0) \<noteq> []" "length (month_days (is_leap y0)) = 12"
      by (simp_all add: month_days_def)
    ultimately have "1 \<le> m \<and> m < 13 \<and> 1 \<le> d \<and> d \<le> 31
        \<and> e = sum_list (take (nat (m - 1)) (month_days (is_leap y0))) + (d - 1)"
      using month_of_bounds [OF md] r by simp
    then show ?thesis using y by0 n by (simp add: day_number_def before_month_def)
  qed
  then show "day_number y m d = n" "1 \<le> m" "m \<le> 12" "1 \<le> d" "d \<le> 31" by simp_all
qed

lemma civil_inject: "civil m = civil n \<longleftrightarrow> m = n"
  by (metis civil_correct(1) prod_cases3)

end
