(* ===== verification/Json.thy ===== *)
theory Json
  imports Complex_Main Pytext "HOL-Library.Word" "HOL-Library.Char_ord" "HOL-Library.List_Lexorder"
    "HOL-Library.Product_Lexorder"
begin

text \<open>
  JSON values as the code handles them (\<^verbatim>\<open>dict\<close>, \<^verbatim>\<open>list\<close>, \<^verbatim>\<open>str\<close>, \<^verbatim>\<open>int\<close>, \<^verbatim>\<open>float\<close>, \<^verbatim>\<open>bool\<close>, \<^verbatim>\<open>None\<close>), the
  canonical text of \<^verbatim>\<open>core/hashing.py\<close> and the text form of UUIDs.

  A \<^verbatim>\<open>dict\<close> is an association list in insertion order with distinct keys; a float carries its value
  and the text \<^verbatim>\<open>repr\<close> gives it. The digest \<^verbatim>\<open>sha256\<close> is a parameter \<open>sha\<close> of every definition that
  uses it: the code relies on it being a function of the text and on nothing else.
\<close>

datatype json =
    JNull
  | JBool bool
  | JInt int
  | JFloat rat string
  | JStr string
  | JArr "json list"
  | JObj "(string \<times> json) list"

section \<open>Objects\<close>

fun is_obj :: "json \<Rightarrow> bool" where
  "is_obj (JObj _) = True"
| "is_obj _ = False"

fun is_str :: "json \<Rightarrow> bool" where
  "is_str (JStr _) = True"
| "is_str _ = False"

fun obj_fields :: "json \<Rightarrow> (string \<times> json) list" where
  "obj_fields (JObj kvs) = kvs"
| "obj_fields _ = []"

text \<open>\<^verbatim>\<open>value.get(k)\<close> of a \<^verbatim>\<open>dict\<close>, and \<^verbatim>\<open>set(value) == expected\<close>.\<close>

definition jget :: "string \<Rightarrow> json \<Rightarrow> json option" where
  "jget k j = map_of (obj_fields j) k"

definition has_keys :: "string list \<Rightarrow> json \<Rightarrow> bool" where
  "has_keys ks j \<longleftrightarrow> set (map fst (obj_fields j)) = set ks"

text \<open>\<^verbatim>\<open>value[k]\<close>: a missing key raises.\<close>

definition jfield :: "string \<Rightarrow> json \<Rightarrow> json res" where
  "jfield k j = (case jget k j of None \<Rightarrow> Inl KeyError | Some v \<Rightarrow> Inr v)"

text \<open>\<^verbatim>\<open>{**value, k: v}\<close>: an existing key keeps its place.\<close>

fun assoc_set :: "string \<Rightarrow> json \<Rightarrow> (string \<times> json) list \<Rightarrow> (string \<times> json) list" where
  "assoc_set k v [] = [(k, v)]"
| "assoc_set k v ((k', v') # kvs) = (if k' = k then (k, v) # kvs else (k', v') # assoc_set k v kvs)"

definition jset :: "string \<Rightarrow> json \<Rightarrow> json \<Rightarrow> json" where
  "jset k v j = JObj (assoc_set k v (obj_fields j))"

lemma map_of_assoc_set: "map_of (assoc_set k v kvs) = (map_of kvs)(k \<mapsto> v)"
  by (induction k v kvs rule: assoc_set.induct) auto

lemma jget_jset [simp]: "jget k' (jset k v j) = (if k' = k then Some v else jget k' j)"
  by (simp add: jget_def jset_def map_of_assoc_set)

lemma jget_JObj [simp]: "jget k (JObj kvs) = map_of kvs k"
  by (simp add: jget_def)

text \<open>A decoded optional value: \<^verbatim>\<open>None\<close> is \<^const>\<open>JNull\<close>.\<close>

definition jopt :: "('a \<Rightarrow> json) \<Rightarrow> 'a option \<Rightarrow> json" where
  "jopt f x = (case x of None \<Rightarrow> JNull | Some y \<Rightarrow> f y)"

lemma jopt_simps [simp]: "jopt f None = JNull" "jopt f (Some y) = f y"
  by (simp_all add: jopt_def)

primrec wf_json :: "json \<Rightarrow> bool" where
  "wf_json JNull = True"
| "wf_json (JBool b) = True"
| "wf_json (JInt i) = True"
| "wf_json (JFloat r t) = True"
| "wf_json (JStr s) = True"
| "wf_json (JArr js) = list_all id (map wf_json js)"
| "wf_json (JObj kvs) =
     (distinct (map fst kvs) \<and> list_all snd (map (map_prod id wf_json) kvs))"

section \<open>Equality and canonical order\<close>

text \<open>
  The value with the keys of every object in code point order: two \<^verbatim>\<open>dict\<close>s that differ in
  insertion order only have the same canonical form.
\<close>

primrec canon :: "json \<Rightarrow> json" where
  "canon JNull = JNull"
| "canon (JBool b) = JBool b"
| "canon (JInt i) = JInt i"
| "canon (JFloat r t) = JFloat r t"
| "canon (JStr s) = JStr s"
| "canon (JArr js) = JArr (map canon js)"
| "canon (JObj kvs) = JObj (sort_key fst (map (map_prod id canon) kvs))"

text \<open>
  Python's \<^verbatim>\<open>==\<close> on decoded JSON: objects without regard to order, and numbers by value, so that
  \<^verbatim>\<open>1 == True == 1.0\<close>.
\<close>

definition num_norm :: "rat \<Rightarrow> json" where
  "num_norm r = (if of_int (floor r) = r then JInt (floor r) else JFloat r [])"

primrec loose :: "json \<Rightarrow> json" where
  "loose JNull = JNull"
| "loose (JBool b) = JInt (if b then 1 else 0)"
| "loose (JInt i) = JInt i"
| "loose (JFloat r t) = num_norm r"
| "loose (JStr s) = JStr s"
| "loose (JArr js) = JArr (map loose js)"
| "loose (JObj kvs) = JObj (sort_key fst (map (map_prod id loose) kvs))"

definition py_eq :: "json \<Rightarrow> json \<Rightarrow> bool" where
  "py_eq a b \<longleftrightarrow> loose a = loose b"

lemma py_eq_refl [simp]: "py_eq a a"
  by (simp add: py_eq_def)

lemma py_eq_sym: "py_eq a b \<Longrightarrow> py_eq b a"
  by (simp add: py_eq_def)

lemma py_eq_trans: "py_eq a b \<Longrightarrow> py_eq b c \<Longrightarrow> py_eq a c"
  by (simp add: py_eq_def)

section \<open>Canonical text\<close>

definition hex_dig :: "nat \<Rightarrow> char" where
  "hex_dig d = ''0123456789abcdef'' ! d"

definition hex_fixed :: "nat \<Rightarrow> nat \<Rightarrow> string" where
  "hex_fixed w n = map (\<lambda>i. hex_dig (n div 16 ^ i mod 16)) (rev [0..<w])"

text \<open>
  The escapes of \<^verbatim>\<open>json.dumps(.., ensure_ascii=False)\<close>: quote, backslash and the control characters.
\<close>

definition esc_char :: "char \<Rightarrow> string" where
  "esc_char c =
     (if code c = 34 then [CHR 0x5C, CHR 0x22]
      else if code c = 92 then [CHR 0x5C, CHR 0x5C]
      else if code c = 8 then [CHR 0x5C, CHR ''b'']
      else if code c = 12 then [CHR 0x5C, CHR ''f'']
      else if code c = 10 then [CHR 0x5C, CHR ''n'']
      else if code c = 13 then [CHR 0x5C, CHR ''r'']
      else if code c = 9 then [CHR 0x5C, CHR ''t'']
      else if code c < 32 then [CHR 0x5C, CHR ''u''] @ hex_fixed 4 (code c)
      else [c])"

definition json_quote :: "string \<Rightarrow> string" where
  "json_quote s = CHR 0x22 # concat (map esc_char s) @ [CHR 0x22]"

fun join_comma :: "string list \<Rightarrow> string" where
  "join_comma [] = []"
| "join_comma [t] = t"
| "join_comma (t # u # ts) = t @ CHR '','' # join_comma (u # ts)"

primrec canonical_json :: "json \<Rightarrow> string" where
  "canonical_json JNull = ''null''"
| "canonical_json (JBool b) = (if b then ''true'' else ''false'')"
| "canonical_json (JInt i) = show_int i"
| "canonical_json (JFloat r t) = t"
| "canonical_json (JStr s) = json_quote s"
| "canonical_json (JArr js) = ''['' @ join_comma (map canonical_json js) @ '']''"
| "canonical_json (JObj kvs) =
     ''{'' @ join_comma (map (\<lambda>(k, t). json_quote k @ CHR '':'' # t)
              (sort_key fst (map (map_prod id canonical_json) kvs))) @ ''}''"

type_synonym digest = "string \<Rightarrow> string"

definition sha256_hex :: "digest \<Rightarrow> string \<Rightarrow> string" where
  "sha256_hex sha text = sha text"

text \<open>\<^verbatim>\<open>sha256_hex(canonical_json(value))\<close>, the checksum used everywhere.\<close>

abbreviation json_digest :: "digest \<Rightarrow> json \<Rightarrow> string" where
  "json_digest sha v \<equiv> sha256_hex sha (canonical_json v)"

section \<open>UUIDs\<close>

type_synonym uuid = "128 word"

definition str_uuid :: "uuid \<Rightarrow> string" where
  "str_uuid u = (let h = hex_fixed 32 (unat u) in
     take 8 h @ CHR ''-'' # take 4 (drop 8 h) @ CHR ''-'' # take 4 (drop 12 h) @
     CHR ''-'' # take 4 (drop 16 h) @ CHR ''-'' # drop 20 h)"

text \<open>\<^verbatim>\<open>int(s, 16)\<close>: white space around, a sign, a \<^verbatim>\<open>0x\<close> prefix and single underscores are allowed.\<close>

definition hex_val :: "char \<Rightarrow> nat option" where
  "hex_val c =
     (if ascii_digit c then Some (code c - 48)
      else if 97 \<le> code c \<and> code c \<le> 102 then Some (code c - 87)
      else if 65 \<le> code c \<and> code c \<le> 70 then Some (code c - 55) else None)"

fun hex_run :: "nat \<Rightarrow> string \<Rightarrow> nat option" where
  "hex_run a [] = Some a"
| "hex_run a (c # cs) =
     (case hex_val c of
        Some d \<Rightarrow> hex_run (16 * a + d) cs
      | None \<Rightarrow>
          if c = CHR ''_'' then
            (case cs of [] \<Rightarrow> None
             | c' # cs' \<Rightarrow> (case hex_val c' of None \<Rightarrow> None
                            | Some d \<Rightarrow> hex_run (16 * a + d) cs'))
          else None)"

definition hex_body :: "string \<Rightarrow> nat option" where
  "hex_body s =
     (let t = (if take 2 s = ''0x'' \<or> take 2 s = ''0X''
               then (if take 1 (drop 2 s) = ''_'' then drop 3 s else drop 2 s) else s)
      in case t of [] \<Rightarrow> None
         | c # cs \<Rightarrow> (case hex_val c of None \<Rightarrow> None | Some d \<Rightarrow> hex_run d cs))"

definition py_int16 :: "string \<Rightarrow> int option" where
  "py_int16 s =
     (case py_strip s of
        [] \<Rightarrow> None
      | c # cs \<Rightarrow>
          if c = CHR ''-'' then map_option (\<lambda>n. - int n) (hex_body cs)
          else if c = CHR ''+'' then map_option int (hex_body cs)
          else map_option int (hex_body (c # cs)))"

text \<open>\<^verbatim>\<open>s.replace(pat, "")\<close> for a non-empty pattern.\<close>

function (sequential) py_remove :: "string \<Rightarrow> string \<Rightarrow> string" where
  "py_remove pat [] = []"
| "py_remove pat (c # cs) =
     (if pat \<noteq> [] \<and> take (length pat) (c # cs) = pat
      then py_remove pat (drop (length pat) (c # cs)) else c # py_remove pat cs)"
  by pat_completeness auto
termination
  by (relation "measure (\<lambda>(pat, s). length s)") auto

text \<open>\<^verbatim>\<open>UUID(s)\<close>: the constructor of the standard library on a text.\<close>

definition uuid_hex :: "string \<Rightarrow> string" where
  "uuid_hex s =
     (let a = py_remove ''uuid:'' (py_remove ''urn:'' s);
          brace = (\<lambda>c. c = CHR ''{'' \<or> c = CHR ''}'');
          b = rev (dropWhile brace (rev (dropWhile brace a)))
      in filter (\<lambda>c. c \<noteq> CHR ''-'') b)"

definition parse_uuid :: "string \<Rightarrow> uuid res" where
  "parse_uuid s =
     (let h = uuid_hex s in
      if length h \<noteq> 32 then Inl ValueError
      else case py_int16 h of
        None \<Rightarrow> Inl ValueError
      | Some i \<Rightarrow> if 0 \<le> i \<and> i < 2 ^ 128 then Inr (word_of_int i) else Inl ValueError)"


lemma hex_fixed_0 [simp]: "hex_fixed 0 n = []"
  by (simp add: hex_fixed_def)

lemma hex_fixed_Suc: "hex_fixed (Suc w) n = hex_dig (n div 16 ^ w mod 16) # hex_fixed w n"
  by (simp add: hex_fixed_def)

lemma length_hex_fixed [simp]: "length (hex_fixed w n) = w"
  by (simp add: hex_fixed_def)

lemma less_16_cases:
  "(d::nat) < 16 \<Longrightarrow> d \<in> {0, 1, 2, 3, 4, 5, 6, 7, 8, 9, 10, 11, 12, 13, 14, 15}"
  by simp presburger

lemma hex_dig_facts:
  assumes "d < 16"
  shows "hex_val (hex_dig d) = Some d" and "lower_hex (hex_dig d)"
proof -
  have "list_all (\<lambda>d. hex_val (hex_dig d) = Some d \<and> lower_hex (hex_dig d)) [0..<16]" by code_simp
  with assms show "hex_val (hex_dig d) = Some d" "lower_hex (hex_dig d)" by (simp_all add: list_all_iff)
qed

lemma hex_fixed_lower: "list_all lower_hex (hex_fixed w n)"
  by (auto simp: hex_fixed_def list_all_iff hex_dig_facts)

lemma lower_hex_not:
  assumes "lower_hex c"
  shows "c \<noteq> CHR ''-''" "c \<noteq> CHR ''+''" "c \<noteq> CHR ''u''" "c \<noteq> CHR ''x''" "c \<noteq> CHR ''X''"
    "c \<noteq> CHR ''{''" "c \<noteq> CHR ''}''" "\<not> py_space c"
  using assms by (auto simp: lower_hex_def ascii_digit_def py_space_def)

lemma hex_run_fixed: "hex_run a (hex_fixed w n) = Some (a * 16 ^ w + n mod 16 ^ w)"
proof (induction w arbitrary: a)
  case 0
  show ?case by simp
next
  case (Suc w)
  have "n mod 16 ^ Suc w = 16 ^ w * (n div 16 ^ w mod 16) + n mod 16 ^ w"
    using mod_mult2_eq [of n "16 ^ w" 16] by (simp add: mult.commute)
  with Suc show ?case
    by (simp add: hex_fixed_Suc hex_dig_facts algebra_simps)
qed

lemma dropWhile_none: "list_all (\<lambda>c. \<not> p c) s \<Longrightarrow> dropWhile p s = s"
  by (cases s) auto

lemma dropWhile_rev_none: "list_all (\<lambda>c. \<not> p c) s \<Longrightarrow> rev (dropWhile p (rev s)) = s"
  using dropWhile_none [of p "rev s"] by (simp add: list_all_rev)

lemma py_strip_none: "list_all (\<lambda>c. \<not> py_space c) s \<Longrightarrow> py_strip s = s"
  by (simp add: py_strip_def dropWhile_none dropWhile_rev_none)

lemma hex_body_fixed:
  assumes "0 < w"
  shows "hex_body (hex_fixed w n) = Some (n mod 16 ^ w)"
proof -
  obtain v where w: "w = Suc v" using assms by (cases w) auto
  have no_x: "take 2 (hex_fixed w n) \<noteq> ''0x'' \<and> take 2 (hex_fixed w n) \<noteq> ''0X''"
  proof (cases v)
    case 0
    then show ?thesis by (simp add: w hex_fixed_Suc)
  next
    case (Suc u)
    have "lower_hex (hex_dig (n div 16 ^ u mod 16))" by (simp add: hex_dig_facts)
    then show ?thesis by (auto simp: w Suc hex_fixed_Suc dest: lower_hex_not)
  qed
  have run: "hex_run 0 (hex_fixed w n) = Some (n mod 16 ^ w)" by (simp add: hex_run_fixed)
  let ?d = "n div 16 ^ v mod 16"
  have h: "hex_fixed w n = hex_dig ?d # hex_fixed v n" by (simp add: w hex_fixed_Suc)
  have val: "hex_val (hex_dig ?d) = Some ?d" by (simp add: hex_dig_facts)
  have "hex_run ?d (hex_fixed v n) = Some (n mod 16 ^ w)"
    using run h val by simp
  moreover have "hex_body (hex_fixed w n) = (case hex_fixed w n of [] \<Rightarrow> None
      | c # cs \<Rightarrow> (case hex_val c of None \<Rightarrow> None | Some d \<Rightarrow> hex_run d cs))"
    using no_x by (simp only: hex_body_def Let_def if_False simp_thms)
  ultimately show ?thesis by (simp only: h list.case val option.case)
qed

lemma py_int16_fixed:
  assumes "0 < w"
  shows "py_int16 (hex_fixed w n) = Some (int (n mod 16 ^ w))"
proof -
  have "list_all (\<lambda>c. \<not> py_space c) (hex_fixed w n)"
    using hex_fixed_lower [of w n] by (auto simp: list_all_iff dest: lower_hex_not)
  then have strip: "py_strip (hex_fixed w n) = hex_fixed w n" by (rule py_strip_none)
  obtain c cs where h: "hex_fixed w n = c # cs"
    using assms by (cases "hex_fixed w n") (metis length_hex_fixed list.size(3) not_gr_zero, auto)
  with hex_fixed_lower [of w n] have "lower_hex c" by simp
  with strip h hex_body_fixed [OF assms, of n] show ?thesis
    by (auto simp: py_int16_def dest: lower_hex_not)
qed

lemma py_remove_absent: "p \<notin> set s \<Longrightarrow> py_remove (p # ps) s = s"
  by (induction s) auto

lemma set_str_uuid: "set (str_uuid u) \<subseteq> insert CHR ''-'' (set (hex_fixed 32 (unat u)))"
  by (auto simp: str_uuid_def Let_def dest: in_set_takeD in_set_dropD)

lemma str_uuid_lower: "c \<in> set (str_uuid u) \<Longrightarrow> c = CHR ''-'' \<or> lower_hex c"
  using set_str_uuid [of u] hex_fixed_lower [of 32 "unat u"] by (auto simp: list_all_iff)

lemma filter_dash_hex:
  assumes "list_all lower_hex s"
  shows "filter (\<lambda>c. c \<noteq> CHR ''-'') s = s"
  using assms by (auto simp: list_all_iff filter_id_conv dest: lower_hex_not)

lemma list_all_take_drop:
  "list_all P xs \<Longrightarrow> list_all P (take n xs)" "list_all P xs \<Longrightarrow> list_all P (drop n xs)"
  by (auto simp: list_all_iff dest: in_set_takeD in_set_dropD)

lemma uuid_hex_str: "uuid_hex (str_uuid u) = hex_fixed 32 (unat u)"
proof -
  let ?h = "hex_fixed 32 (unat u)" and ?s = "str_uuid u"
  have chars: "list_all (\<lambda>c. c \<noteq> CHR ''u'' \<and> c \<noteq> CHR ''{'' \<and> c \<noteq> CHR ''}'') ?s"
    unfolding list_all_iff using str_uuid_lower [of _ u] by (auto dest: lower_hex_not)
  then have "CHR ''u'' \<notin> set ?s" by (auto simp: list_all_iff)
  then have rem: "py_remove ''uuid:'' (py_remove ''urn:'' ?s) = ?s"
    by (simp add: py_remove_absent)
  let ?brace = "\<lambda>c. c = CHR ''{'' \<or> c = CHR ''}''"
  have nb: "list_all (\<lambda>c. \<not> ?brace c) ?s" using chars by (auto simp: list_all_iff)
  have low: "list_all lower_hex ?h" by (rule hex_fixed_lower)
  have "take 8 ?h @ drop 8 ?h = ?h" "take 4 (drop 8 ?h) @ drop 12 ?h = drop 8 ?h"
    "take 4 (drop 12 ?h) @ drop 16 ?h = drop 12 ?h" "take 4 (drop 16 ?h) @ drop 20 ?h = drop 16 ?h"
    using append_take_drop_id [of 8 ?h] append_take_drop_id [of 4 "drop 8 ?h"]
      append_take_drop_id [of 4 "drop 12 ?h"] append_take_drop_id [of 4 "drop 16 ?h"]
    by simp_all
  then have parts: "take 8 ?h @ take 4 (drop 8 ?h) @ take 4 (drop 12 ?h) @ take 4 (drop 16 ?h)
      @ drop 20 ?h = ?h"
    by simp
  have "filter (\<lambda>c. c \<noteq> CHR ''-'') ?s = ?h"
    using low parts
    by (simp add: str_uuid_def Let_def filter_dash_hex list_all_take_drop)
  with rem dropWhile_none [OF nb] dropWhile_rev_none [OF nb] show ?thesis
    by (simp add: uuid_hex_def Let_def)
qed

theorem parse_str_uuid [simp]: "parse_uuid (str_uuid u) = Inr u"
proof -
  have lt: "unat u < 16 ^ 32" using unsigned_less [of u, where 'a = nat] by simp
  then have "py_int16 (uuid_hex (str_uuid u)) = Some (int (unat u))"
    by (simp add: uuid_hex_str py_int16_fixed)
  moreover have "uint u < 2 ^ 128" using unsigned_less [of u, where 'a = int] by simp
  ultimately show ?thesis
    by (simp add: parse_uuid_def Let_def uuid_hex_str)
qed

lemma str_uuid_inject [simp]: "str_uuid u = str_uuid v \<longleftrightarrow> u = v"
  by (metis parse_str_uuid sum.inject(2))

text \<open>Texts taken apart at the character they were joined with.\<close>

lemma py_partition_append:
  assumes "c \<notin> set s"
  shows "py_partition c (s @ c # t) = (s, t)" and "py_partition c s = (s, [])"
proof -
  have "takeWhile (\<lambda>x. x \<noteq> c) s = s" "dropWhile (\<lambda>x. x \<noteq> c) s = []"
    using assms by (auto simp: takeWhile_eq_all_conv dropWhile_eq_Nil_conv)
  moreover have "takeWhile (\<lambda>x. x \<noteq> c) (s @ c # t) = s" "dropWhile (\<lambda>x. x \<noteq> c) (s @ c # t) = c # t"
    using assms by (induction s) auto
  ultimately show "py_partition c (s @ c # t) = (s, t)" "py_partition c s = (s, [])"
    by (simp_all add: py_partition_def del: dropWhile_eq_Nil_conv takeWhile_eq_all_conv)
qed

lemma split_on_join_comma:
  assumes "ts \<noteq> []" and "\<And>t. t \<in> set ts \<Longrightarrow> CHR '','' \<notin> set t"
  shows "py_split_on CHR '','' (join_comma ts) = ts"
proof -
  have one: "py_split_on c t = [t]" if "c \<notin> set t" for c and t :: string
    using that by (induction t) auto
  have app: "py_split_on c (t @ c # s) = t # py_split_on c s" if "c \<notin> set t" for c and t s :: string
    using that by (induction t) auto
  show ?thesis using assms by (induction ts rule: join_comma.induct) (simp_all add: one app)
qed

end
