(* ===== verification/Cron.thy ===== *)
theory Cron
  imports Pytime Json
begin

text \<open>
  \<^verbatim>\<open>schedules/cron.py\<close>: five-field cron expressions and the next firing time in a time zone.

  The parsed expression is a record of integer sets (\<^verbatim>\<open>CronExpression\<close>). The tz database behind
  \<^verbatim>\<open>ZoneInfo(name)\<close> is the parameter \<open>tzdb\<close>: it gives a zone or raises. The search for the next
  occurrence is the three nested loops of the source, the outer one with its bound of
  \<open>366 * 4\<close> days as fuel.

  The lemmas: what a field of the grammar denotes, the bounds and stability of a parsed expression,
  and that the search returns the least firing instant, \<open>cron_fires\<close> being the specification.
\<close>

section \<open>Zones\<close>

text \<open>The offset from UTC at an instant, and the offset of a naive local time with \<^verbatim>\<open>fold=0\<close>.\<close>

type_synonym zone = "(time \<Rightarrow> int) \<times> (int \<Rightarrow> int)"
type_synonym tz_database = "string \<Rightarrow> zone res"

definition local_time :: "zone \<Rightarrow> time \<Rightarrow> int" where
  "local_time z t = t + fst z t"

definition utc_time :: "zone \<Rightarrow> int \<Rightarrow> time" where
  "utc_time z l = l - snd z l"

definition floor_minute :: "int \<Rightarrow> int" where
  "floor_minute t = t - t mod usec_minute"

section \<open>Parsing\<close>

record cron_expression =
  cron_text :: string
  cron_minutes :: "int set"
  cron_hours :: "int set"
  cron_days_of_month :: "int set"
  cron_months :: "int set"
  cron_days_of_week :: "int set"
  cron_dom_restricted :: bool
  cron_dow_restricted :: bool

definition max_search_days :: nat where
  "max_search_days = 366 * 4"

definition max_expression_length :: nat where
  "max_expression_length = 128"

definition field_bounds :: "(int \<times> int) list" where
  "field_bounds = [(0, 59), (0, 23), (1, 31), (1, 12), (0, 7)]"

definition py_range :: "int \<Rightarrow> int \<Rightarrow> int \<Rightarrow> int list" where
  "py_range start stop step =
     map (\<lambda>i. start + int i * step) [0..<nat ((stop - start + step - 1) div step)]"

definition parse_number :: "string \<Rightarrow> int \<Rightarrow> int \<Rightarrow> int res" where
  "parse_number text low high =
     (if \<not> py_isdigit text then Inl CronExpressionError
      else ebind (int_of_digits text) (\<lambda>value.
        if value < low \<or> value > high then Inl CronExpressionError else Inr value))"

definition parse_step :: "string \<Rightarrow> int \<Rightarrow> int \<Rightarrow> int res" where
  "parse_step step_text low high =
     (if step_text = [] then Inr 1
      else if \<not> py_isdigit step_text then Inl CronExpressionError
      else ebind (int_of_digits step_text) (\<lambda>step.
        if step < 1 \<or> step > high - low + 1 then Inl CronExpressionError else Inr step))"

definition parse_part :: "string \<Rightarrow> int \<Rightarrow> int \<Rightarrow> int set res" where
  "parse_part part low high =
     (let (body, step_text) = py_partition CHR ''/'' part in
      ebind (parse_step step_text low high) (\<lambda>step.
        if body = ''*'' then Inr (set (py_range low (high + 1) step))
        else if CHR ''-'' \<in> set body then
          let (start_text, last_text) = py_partition CHR ''-'' body in
          ebind (parse_number start_text low high) (\<lambda>start.
          ebind (parse_number last_text low high) (\<lambda>finish.
            if start > finish then Inl CronExpressionError
            else Inr (set (py_range start (finish + 1) step))))
        else
          ebind (parse_number body low high) (\<lambda>start.
            let finish = (if step_text \<noteq> [] then high else start) in
            Inr (set (py_range start (finish + 1) step)))))"

definition parse_field :: "string \<Rightarrow> int \<Rightarrow> int \<Rightarrow> int set res" where
  "parse_field field low high =
     (if field = [] then Inl CronExpressionError
      else ebind (emap (\<lambda>part. parse_part part low high) (py_split_on CHR '','' field)) (\<lambda>sets.
        let values = \<Union> (set sets) in
        if values = {} then Inl CronExpressionError else Inr values))"

definition parse_cron :: "string \<Rightarrow> cron_expression res" where
  "parse_cron expression =
     (if length expression > max_expression_length then Inl CronExpressionError
      else let fields = py_words expression in
        if length fields \<noteq> 5 then Inl CronExpressionError
        else ebind (emap (\<lambda>(field, low, high). parse_field field low high)
                     (zip fields field_bounds)) (\<lambda>values.
          Inr \<lparr>cron_text = join_space fields,
               cron_minutes = values ! 0,
               cron_hours = values ! 1,
               cron_days_of_month = values ! 2,
               cron_months = values ! 3,
               cron_days_of_week = (\<lambda>value. if value = 7 then 0 else value) ` (values ! 4),
               cron_dom_restricted = fields ! 2 \<noteq> ''*'',
               cron_dow_restricted = fields ! 4 \<noteq> ''*''\<rparr>))"

definition normalize_timezone :: "tz_database \<Rightarrow> string \<Rightarrow> string res" where
  "normalize_timezone tzdb name =
     (if name = [] \<or> length name > 64 then Inl CronExpressionError
      else ebind (rethrow (\<lambda>e. e = ZoneInfoNotFoundError \<or> value_error e) CronExpressionError
                   (tzdb name))
             (\<lambda>z. Inr name))"

section \<open>Searching\<close>

definition matches_date :: "cron_expression \<Rightarrow> int \<Rightarrow> bool" where
  "matches_date e d =
     (if civil_month d \<notin> cron_months e then False
      else
        let day_matches = civil_day d \<in> cron_days_of_month e;
            weekday_matches = weekday7 d \<in> cron_days_of_week e
        in if cron_dom_restricted e \<and> cron_dow_restricted e
           then day_matches \<or> weekday_matches
           else day_matches \<and> weekday_matches)"

text \<open>Year to minute of two local times agree exactly if their minutes since the epoch do.\<close>

definition resolve_local :: "zone \<Rightarrow> int \<Rightarrow> time option" where
  "resolve_local z local_naive =
     (let utc_value = utc_time z local_naive;
          round_trip = local_time z utc_value
      in if round_trip div usec_minute \<noteq> local_naive div usec_minute then None
         else Some (floor_minute utc_value))"

fun first_some :: "('a \<Rightarrow> 'b option) \<Rightarrow> 'a list \<Rightarrow> 'b option" where
  "first_some f [] = None"
| "first_some f (x # xs) = (case f x of None \<Rightarrow> first_some f xs | Some y \<Rightarrow> Some y)"

definition wall_clock :: "int \<Rightarrow> int \<times> int \<Rightarrow> int" where
  "wall_clock d hm = d * usec_day + fst hm * usec_hour + snd hm * usec_minute"

definition scan_day :: "cron_expression \<Rightarrow> zone \<Rightarrow> time \<Rightarrow> int \<Rightarrow> time option" where
  "scan_day e z boundary d =
     (if matches_date e d then
        first_some
          (\<lambda>hm. case resolve_local z (wall_clock d hm) of
                  None \<Rightarrow> None
                | Some r \<Rightarrow> if r > boundary then Some r else None)
          (List.product (sorted_list_of_set (cron_hours e)) (sorted_list_of_set (cron_minutes e)))
      else None)"

fun search_days :: "cron_expression \<Rightarrow> zone \<Rightarrow> time \<Rightarrow> nat \<Rightarrow> int \<Rightarrow> time option" where
  "search_days e z boundary 0 d = None"
| "search_days e z boundary (Suc n) d =
     (case scan_day e z boundary d of
        Some r \<Rightarrow> Some r
      | None \<Rightarrow> search_days e z boundary n (d + 1))"

definition next_in_zone :: "cron_expression \<Rightarrow> time \<Rightarrow> zone \<Rightarrow> time option" where
  "next_in_zone e after z =
     search_days e z (floor_minute after) max_search_days (local_time z after div usec_day)"

definition next_occurrence :: "tz_database \<Rightarrow> cron_expression \<Rightarrow> time \<Rightarrow> string \<Rightarrow> time option res"
where
  "next_occurrence tzdb e after timezone =
     ebind (tzdb timezone) (\<lambda>z. Inr (next_in_zone e after z))"

fun upcoming_from :: "tz_database \<Rightarrow> cron_expression \<Rightarrow> string \<Rightarrow> nat \<Rightarrow> time \<Rightarrow> time list res" where
  "upcoming_from tzdb e timezone 0 cursor = Inr []"
| "upcoming_from tzdb e timezone (Suc n) cursor =
     ebind (next_occurrence tzdb e cursor timezone) (\<lambda>r.
       case r of
         None \<Rightarrow> Inr []
       | Some occurrence \<Rightarrow>
           ebind (upcoming_from tzdb e timezone n occurrence) (\<lambda>rest. Inr (occurrence # rest)))"

definition upcoming_occurrences ::
  "tz_database \<Rightarrow> cron_expression \<Rightarrow> time \<Rightarrow> string \<Rightarrow> int \<Rightarrow> time list res" where
  "upcoming_occurrences tzdb e after timezone count =
     upcoming_from tzdb e timezone (nat (max count 0)) after"

section \<open>What a parsed expression is\<close>

lemma le_div_iff:
  fixes k m q :: int
  assumes "0 < q"
  shows "k \<le> m div q \<longleftrightarrow> k * q \<le> m"
proof
  assume "k \<le> m div q"
  then have "k * q \<le> m div q * q" using assms by (simp add: mult_right_mono)
  also have "\<dots> \<le> m" using div_mult_mod_eq [of m q] pos_mod_sign [OF assms, of m] by linarith
  finally show "k * q \<le> m" .
next
  assume le: "k * q \<le> m"
  show "k \<le> m div q"
  proof (rule ccontr)
    assume "\<not> k \<le> m div q"
    then have "(m div q + 1) * q \<le> k * q" using assms by (intro mult_right_mono) simp_all
    moreover have "m < (m div q + 1) * q"
      using div_mult_mod_eq [of m q] pos_mod_bound [OF assms, of m]
      unfolding distrib_right by linarith
    ultimately show False using le by simp
  qed
qed

lemma set_py_range:
  assumes "1 \<le> step"
  shows "set (py_range start stop step)
    = {x. start \<le> x \<and> x < stop \<and> (x - start) mod step = 0}" (is "?L = ?R")
proof
  let ?n = "nat ((stop - start + step - 1) div step)"
  have less: "int i * step < stop - start \<longleftrightarrow> i < ?n" for i
  proof -
    have "i < ?n \<longleftrightarrow> int i + 1 \<le> (stop - start + step - 1) div step" by linarith
    also have "\<dots> \<longleftrightarrow> (int i + 1) * step \<le> stop - start + step - 1"
      using assms by (simp add: le_div_iff)
    also have "\<dots> \<longleftrightarrow> int i * step < stop - start" by (simp add: algebra_simps) linarith
    finally show ?thesis by simp
  qed
  show "?L \<subseteq> ?R"
  proof
    fix x assume "x \<in> ?L"
    then obtain i where i: "i < ?n" and x: "x = start + int i * step"
      by (auto simp: py_range_def)
    have "0 \<le> int i * step" using assms by simp
    with i x less [of i] show "x \<in> ?R" by simp
  qed
  show "?R \<subseteq> ?L"
  proof
    fix x assume "x \<in> ?R"
    then have x: "start \<le> x" "x < stop" "(x - start) mod step = 0" by simp_all
    define i where "i = nat ((x - start) div step)"
    have "0 \<le> (x - start) div step" using x assms by (simp add: pos_imp_zdiv_nonneg_iff)
    then have "int i * step = x - start"
      using x(3) by (simp add: i_def) (metis add.right_neutral div_mult_mod_eq)
    with less [of i] x have "i < ?n" "x = start + int i * step" by linarith+
    then show "x \<in> ?L" by (auto simp: py_range_def)
  qed
qed

lemma parse_number_bounds:
  "parse_number text low high = Inr n \<Longrightarrow> low \<le> n \<and> n \<le> high"
  by (auto simp: parse_number_def ebind_Inr_iff split: if_splits)

lemma parse_step_bounds:
  "parse_step s low high = Inr n \<Longrightarrow> low \<le> high \<Longrightarrow> 1 \<le> n"
  by (auto simp: parse_step_def ebind_Inr_iff split: if_splits)

lemma parse_part_bounds:
  assumes "parse_part part low high = Inr S" and "low \<le> high"
  shows "S \<noteq> {} \<and> S \<subseteq> {low..high}"
proof -
  obtain body step_text where p: "py_partition CHR ''/'' part = (body, step_text)" by force
  from assms obtain step where step: "parse_step step_text low high = Inr step"
    by (auto simp: parse_part_def p ebind_Inr_iff)
  with assms have st: "1 \<le> step" by (auto dest: parse_step_bounds)
  have "\<exists>a b. S = set (py_range a (b + 1) step) \<and> low \<le> a \<and> a \<le> b \<and> b \<le> high"
    using assms step
    by (auto simp: parse_part_def p ebind_Inr_iff Let_def case_prod_beta split: if_splits
        dest!: parse_number_bounds intro: exI [of _ "high"]) (metis linorder_not_less)+
  then obtain a b where "S = {x. a \<le> x \<and> x < b + 1 \<and> (x - a) mod step = 0}"
    and ab: "low \<le> a" "a \<le> b" "b \<le> high"
    using st by (auto simp: set_py_range)
  moreover from this have "a \<in> S" by simp
  ultimately show ?thesis by auto
qed

lemma parse_field_bounds:
  assumes "parse_field field low high = Inr S" and "low \<le> high"
  shows "S \<noteq> {} \<and> S \<subseteq> {low..high}"
proof -
  from assms obtain sets where "emap (\<lambda>part. parse_part part low high)
      (py_split_on CHR '','' field) = Inr sets" and S: "S = \<Union> (set sets)" "S \<noteq> {}"
    by (auto simp: parse_field_def ebind_Inr_iff Let_def split: if_splits)
  then have all: "list_all2 (\<lambda>part T. parse_part part low high = Inr T)
      (py_split_on CHR '','' field) sets"
    by (simp add: emap_Inr_iff)
  have "T \<subseteq> {low..high}" if T: "T \<in> set sets" for T
  proof -
    from T obtain i where "i < length sets" "T = sets ! i" by (auto simp: in_set_conv_nth)
    with all have "parse_part (py_split_on CHR '','' field ! i) low high = Inr T"
      by (simp add: list_all2_conv_all_nth)
    with assms(2) show ?thesis by (simp add: parse_part_bounds)
  qed
  with S show ?thesis by blast
qed

definition wf_cron :: "cron_expression \<Rightarrow> bool" where
  "wf_cron e \<longleftrightarrow>
     cron_minutes e \<noteq> {} \<and> cron_minutes e \<subseteq> {0..59} \<and>
     cron_hours e \<noteq> {} \<and> cron_hours e \<subseteq> {0..23} \<and>
     cron_days_of_month e \<noteq> {} \<and> cron_days_of_month e \<subseteq> {1..31} \<and>
     cron_months e \<noteq> {} \<and> cron_months e \<subseteq> {1..12} \<and>
     cron_days_of_week e \<noteq> {} \<and> cron_days_of_week e \<subseteq> {0..6}"

lemma length_5: "length xs = 5 \<longleftrightarrow> (\<exists>a b c d e. xs = [a, b, c, d, e])"
  by (auto simp: length_Suc_conv eval_nat_numeral)

text \<open>The one unfolding of \<^const>\<open>parse_cron\<close> that the lemmas below share.\<close>

lemma parse_cron_Inr_iff:
  "parse_cron s = Inr e \<longleftrightarrow> length s \<le> max_expression_length \<and>
     (\<exists>f0 f1 f2 f3 f4 v0 v1 v2 v3 v4.
        py_words s = [f0, f1, f2, f3, f4] \<and>
        parse_field f0 0 59 = Inr v0 \<and> parse_field f1 0 23 = Inr v1 \<and>
        parse_field f2 1 31 = Inr v2 \<and> parse_field f3 1 12 = Inr v3 \<and>
        parse_field f4 0 7 = Inr v4 \<and>
        e = \<lparr>cron_text = join_space [f0, f1, f2, f3, f4], cron_minutes = v0, cron_hours = v1,
             cron_days_of_month = v2, cron_months = v3,
             cron_days_of_week = (\<lambda>value. if value = 7 then 0 else value) ` v4,
             cron_dom_restricted = f2 \<noteq> ''*'', cron_dow_restricted = f4 \<noteq> ''*''\<rparr>)"
proof (cases "length s \<le> max_expression_length \<and> length (py_words s) = 5")
  case False
  then show ?thesis by (auto simp: parse_cron_def Let_def)
next
  case True
  then obtain f0 f1 f2 f3 f4 where "py_words s = [f0, f1, f2, f3, f4]"
    by (auto simp: length_5)
  with True show ?thesis
    by (auto simp: parse_cron_def Let_def field_bounds_def ebind_Inr_iff)
qed

lemma parse_cron_wf:
  assumes "parse_cron s = Inr e"
  shows "wf_cron e"
proof -
  from assms obtain f0 f1 f2 f3 f4 v0 v1 v2 v3 v4 where
    v: "parse_field f0 0 59 = Inr v0" "parse_field f1 0 23 = Inr v1" "parse_field f2 1 31 = Inr v2"
      "parse_field f3 1 12 = Inr v3" "parse_field f4 0 7 = Inr v4"
    and e: "cron_minutes e = v0" "cron_hours e = v1" "cron_days_of_month e = v2"
      "cron_months e = v3" "cron_days_of_week e = (\<lambda>value. if value = 7 then 0 else value) ` v4"
    unfolding parse_cron_Inr_iff by fastforce
  have "(if n = 7 then 0 else n) \<in> {0..6::int}" if "n \<in> v4" for n
    using parse_field_bounds [OF v(5)] that by auto
  then have "(\<lambda>value. if value = 7 then 0 else value) ` v4 \<subseteq> {0..6::int}" by blast
  moreover have "(\<lambda>value. if value = 7 then 0 else value) ` v4 \<noteq> {}"
    unfolding image_is_empty using parse_field_bounds [OF v(5)] by simp
  ultimately show ?thesis
    unfolding wf_cron_def e using v(1-4) [THEN parse_field_bounds] by simp
qed

section \<open>A normalised expression parses to itself\<close>

lemma length_join_Cons:
  "length (join_space (w # ws)) \<le> length w + 1 + length (join_space ws)"
  by (cases ws) auto

lemma length_join_hd:
  "length (join_space ((x # w) # ws)) = Suc (length (join_space (w # ws)))"
  by (cases ws) auto

lemma length_join_words: "length (join_space (py_words s)) \<le> length s"
proof (induction s rule: length_induct)
  case (1 s)
  show ?case
  proof (cases s)
    case Nil
    then show ?thesis by simp
  next
    case (Cons x xs)
    with 1 have xs: "length (join_space (py_words xs)) \<le> length xs" by simp
    show ?thesis
    proof (cases "py_space x \<or> xs = []")
      case True
      with Cons xs show ?thesis by auto
    next
      case False
      then obtain y ys where y: "xs = y # ys" by (cases xs) auto
      with 1 Cons have ys: "length (join_space (py_words ys)) \<le> length ys" by simp
      show ?thesis
      proof (cases "py_space y")
        case True
        then have "py_words s = [x] # py_words ys" using False Cons y by simp
        with length_join_Cons [of "[x]" "py_words ys"] ys y Cons show ?thesis by simp
      next
        case plain: False
        with y obtain w ws where w: "py_words xs = w # ws" using py_words_nonempty [of xs] by auto
        with False Cons y plain have "py_words s = (x # w) # ws"
          by (simp only: Cons y py_words.simps(2) [of x] list.case if_False) simp
        with xs w Cons show ?thesis by (simp only: length_join_hd) simp
      qed
    qed
  qed
qed

lemma parse_cron_normalised:
  assumes "parse_cron s = Inr e"
  shows "parse_cron (cron_text e) = Inr e"
proof -
  have "list_all plain_word (py_words s)" by (auto simp: list_all_iff dest: py_words_plain)
  then have words: "py_words (join_space (py_words s)) = py_words s" by (rule py_words_join)
  have "length (join_space (py_words s)) \<le> max_expression_length"
    using assms length_join_words [of s] by (auto simp: parse_cron_Inr_iff)
  moreover from assms have "cron_text e = join_space (py_words s)"
    by (auto simp: parse_cron_Inr_iff)
  ultimately show ?thesis using assms by (simp add: parse_cron_Inr_iff words)
qed

section \<open>The grammar and what it denotes\<close>

text \<open>
  The accepted grammar as an abstract syntax: \<^verbatim>\<open>*\<close>, \<^verbatim>\<open>n\<close> or \<^verbatim>\<open>a-b\<close>, each with an optional \<^verbatim>\<open>/step\<close>; a
  field is a non-empty comma list of these. \<open>item_set\<close> is the meaning: an item with a step takes
  every \<open>step\<close>-th value from its start, and \<^verbatim>\<open>n/step\<close> runs to the upper bound of the field.
\<close>

datatype cron_atom = Star | One nat | Span nat nat

type_synonym cron_item = "cron_atom \<times> nat option"

fun atom_text :: "cron_atom \<Rightarrow> string" where
  "atom_text Star = ''*''"
| "atom_text (One n) = show_nat n"
| "atom_text (Span a b) = show_nat a @ CHR ''-'' # show_nat b"

fun item_text :: "cron_item \<Rightarrow> string" where
  "item_text (a, None) = atom_text a"
| "item_text (a, Some k) = atom_text a @ CHR ''/'' # show_nat k"

fun atom_ok :: "int \<Rightarrow> int \<Rightarrow> cron_atom \<Rightarrow> bool" where
  "atom_ok low high Star = True"
| "atom_ok low high (One n) = (low \<le> int n \<and> int n \<le> high)"
| "atom_ok low high (Span a b) = (low \<le> int a \<and> a \<le> b \<and> int b \<le> high)"

definition item_ok :: "int \<Rightarrow> int \<Rightarrow> cron_item \<Rightarrow> bool" where
  "item_ok low high it \<longleftrightarrow> atom_ok low high (fst it) \<and>
     (case snd it of None \<Rightarrow> True | Some k \<Rightarrow> 1 \<le> k \<and> int k \<le> high - low + 1)"

fun atom_from :: "int \<Rightarrow> cron_atom \<Rightarrow> int" where
  "atom_from low Star = low"
| "atom_from low (One n) = int n"
| "atom_from low (Span a b) = int a"

fun atom_to :: "int \<Rightarrow> cron_item \<Rightarrow> int" where
  "atom_to high (Star, st) = high"
| "atom_to high (One n, st) = (if st = None then int n else high)"
| "atom_to high (Span a b, st) = int b"

definition item_set :: "int \<Rightarrow> int \<Rightarrow> cron_item \<Rightarrow> int set" where
  "item_set low high it =
     {x. atom_from low (fst it) \<le> x \<and> x \<le> atom_to high it \<and>
         (x - atom_from low (fst it)) mod int (case snd it of None \<Rightarrow> 1 | Some k \<Rightarrow> k) = 0}"

definition cron_field_text :: "cron_item list \<Rightarrow> string" where
  "cron_field_text its = join_comma (map item_text its)"

definition cron_field_set :: "int \<Rightarrow> int \<Rightarrow> cron_item list \<Rightarrow> int set" where
  "cron_field_set low high its = \<Union> (item_set low high ` set its)"

definition cron_field_ok :: "int \<Rightarrow> int \<Rightarrow> cron_item list \<Rightarrow> bool" where
  "cron_field_ok low high its \<longleftrightarrow> its \<noteq> [] \<and> list_all (item_ok low high) its"

lemma show_nat_chars:
  assumes "c \<in> set (show_nat n)"
  shows "c \<noteq> CHR ''-''" "c \<noteq> CHR ''/''" "c \<noteq> CHR '',''" "c \<noteq> CHR ''*''" "\<not> py_space c"
proof -
  have "ascii_digit c" using assms show_nat_digits [of n] by (auto simp: list_all_iff)
  then show "c \<noteq> CHR ''-''" "c \<noteq> CHR ''/''" "c \<noteq> CHR '',''" "c \<noteq> CHR ''*''" "\<not> py_space c"
    by (auto simp: ascii_digit_def py_space_def)
qed

lemma atom_text_chars:
  "c \<in> set (atom_text a) \<Longrightarrow> c \<noteq> CHR ''/'' \<and> c \<noteq> CHR '','' \<and> \<not> py_space c"
  by (cases a) (auto dest: show_nat_chars simp: py_space_def)

lemma item_text_chars:
  "c \<in> set (item_text it) \<Longrightarrow> c \<noteq> CHR '','' \<and> \<not> py_space c"
  by (cases it rule: item_text.cases) (auto dest: atom_text_chars show_nat_chars simp: py_space_def)

lemma parse_number_show:
  "low \<le> int n \<Longrightarrow> int n \<le> high \<Longrightarrow> parse_number (show_nat n) low high = Inr (int n)"
  by (simp add: parse_number_def)

lemma show_nat_not_star: "show_nat n \<noteq> ''*''"
  using show_nat_chars(4) [of "CHR ''*''" n] by auto

lemma show_nat_no_dash: "CHR ''-'' \<notin> set (show_nat n)"
  using show_nat_chars(1) by blast

lemma parse_item:
  assumes "item_ok low high it"
  shows "parse_part (item_text it) low high = Inr (item_set low high it)"
proof -
  obtain a st where it: "it = (a, st)" by force
  define step_text where "step_text = (case st of None \<Rightarrow> [] | Some k \<Rightarrow> show_nat k)"
  define step where "step = int (case st of None \<Rightarrow> 1 | Some k \<Rightarrow> k)"
  have "CHR ''/'' \<notin> set (atom_text a)" using atom_text_chars by blast
  then have part: "py_partition CHR ''/'' (item_text it) = (atom_text a, step_text)"
    by (cases st) (simp_all add: it step_text_def py_partition_append)
  have st: "parse_step step_text low high = Inr step" and pos: "1 \<le> step"
    using assms by (auto simp: parse_step_def step_text_def step_def it item_ok_def split: option.splits)
  have S: "item_set low high it = set (py_range (atom_from low a) (atom_to high it + 1) step)"
    using pos by (auto simp: set_py_range item_set_def it step_def)
  have none: "step_text = [] \<longleftrightarrow> st = None" by (cases st) (simp_all add: step_text_def)
  have "parse_part (item_text it) low high
      = Inr (set (py_range (atom_from low a) (atom_to high it + 1) step))" (is ?range)
  proof (cases a)
    case Star
    then show ?range using part st by (simp add: parse_part_def it)
  next
    case (One n)
    with assms have "parse_number (show_nat n) low high = Inr (int n)"
      by (simp add: it item_ok_def parse_number_show)
    with One part st none show ?range
      by (simp add: parse_part_def it show_nat_not_star show_nat_no_dash Let_def)
  next
    case (Span m n)
    with assms have mn: "m \<le> n" and num: "parse_number (show_nat m) low high = Inr (int m)"
      "parse_number (show_nat n) low high = Inr (int n)"
      by (auto simp: it item_ok_def intro!: parse_number_show)
    have "atom_text a \<noteq> ''*''" using Span by (cases "show_nat m") auto
    moreover have "py_partition CHR ''-'' (atom_text a) = (show_nat m, show_nat n)"
      by (simp add: Span py_partition_append show_nat_no_dash)
    ultimately show ?range using part st mn num Span
      by (simp add: parse_part_def it)
  qed
  then show ?thesis by (simp only: S)
qed

lemma item_set_nonempty:
  assumes "item_ok low high it" and "low \<le> high"
  shows "item_set low high it \<noteq> {}"
  using assms by (cases it; cases "fst it")
    (auto simp: item_set_def item_ok_def intro!: exI [of _ "atom_from low (fst it)"])

lemma emap_all: "(\<And>x. x \<in> set xs \<Longrightarrow> f x = Inr (g x)) \<Longrightarrow> emap f xs = Inr (map g xs)"
  by (induction xs) auto

lemma parse_field_grammar:
  assumes ok: "cron_field_ok low high its" and le: "low \<le> high"
  shows "parse_field (cron_field_text its) low high = Inr (cron_field_set low high its)"
proof -
  have "CHR '','' \<notin> set (item_text it)" for it using item_text_chars by blast
  then have split: "py_split_on CHR '','' (cron_field_text its) = map item_text its"
    using ok by (auto simp: cron_field_text_def cron_field_ok_def intro!: split_on_join_comma)
  have item_ne: "item_text it \<noteq> []" for it
    by (cases it rule: item_text.cases; cases "fst it") auto
  have "cron_field_text its \<noteq> []"
  proof
    assume "cron_field_text its = []"
    with split have "map item_text its = [[]]" by simp
    with item_ne show False by auto
  qed
  moreover have "emap (\<lambda>part. parse_part part low high) (map item_text its)
      = Inr (map (item_set low high) its)"
  proof -
    have "emap (\<lambda>part. parse_part part low high) (map item_text xs)
        = Inr (map (item_set low high) xs)" if "list_all (item_ok low high) xs" for xs
      using that by (induction xs) (simp_all add: parse_item)
    with ok show ?thesis by (simp add: cron_field_ok_def)
  qed
  moreover have "cron_field_set low high its \<noteq> {}"
    using ok le item_set_nonempty by (cases its) (auto simp: cron_field_set_def cron_field_ok_def)
  ultimately show ?thesis
    by (simp add: parse_field_def split cron_field_set_def)
qed

lemma cron_field_text_plain:
  assumes "its \<noteq> []"
  shows "plain_word (cron_field_text its)"
proof -
  have comma: "c \<in> set (join_comma ts) \<Longrightarrow> c = CHR '','' \<or> (\<exists>t \<in> set ts. c \<in> set t)" for c ts
    by (induction ts rule: join_comma.induct) auto
  have "\<not> py_space c" if "c \<in> set (cron_field_text its)" for c
    using comma [of c "map item_text its"] that item_text_chars
    by (auto simp: cron_field_text_def py_space_def)
  moreover have "cron_field_text its \<noteq> []"
  proof -
    obtain it rest where "its = it # rest" using assms by (cases its) auto
    moreover have "item_text it \<noteq> []" by (cases it rule: item_text.cases; cases "fst it") auto
    ultimately show ?thesis by (cases rest) (auto simp: cron_field_text_def)
  qed
  ultimately show ?thesis by (auto simp: plain_word_def list_all_iff)
qed

lemma cron_field_text_star:
  "its \<noteq> [] \<Longrightarrow> cron_field_text its = ''*'' \<longleftrightarrow> its = [(Star, None)]"
proof
  assume ne: "its \<noteq> []" and star: "cron_field_text its = ''*''"
  have "CHR '','' \<notin> set (item_text it)" for it using item_text_chars by blast
  then have "py_split_on CHR '','' (cron_field_text its) = map item_text its"
    using ne by (auto simp: cron_field_text_def intro!: split_on_join_comma)
  with star have "map item_text its = [''*'']" by simp
  then obtain it where "its = [it]" and it: "item_text it = ''*''" by (cases its) auto
  moreover from it have "it = (Star, None)"
  proof (cases it rule: item_text.cases)
    case (1 a)
    with it show ?thesis by (cases a) (auto simp: show_nat_not_star append_eq_Cons_conv)
  next
    case (2 a k)
    with it show ?thesis by (auto simp: append_eq_Cons_conv)
  qed
  ultimately show "its = [(Star, None)]" by simp
qed (simp add: cron_field_text_def)

record cron_source =
  src_minute :: "cron_item list"
  src_hour :: "cron_item list"
  src_dom :: "cron_item list"
  src_month :: "cron_item list"
  src_dow :: "cron_item list"

definition source_text :: "cron_source \<Rightarrow> string" where
  "source_text c = join_space (map cron_field_text
     [src_minute c, src_hour c, src_dom c, src_month c, src_dow c])"

definition source_ok :: "cron_source \<Rightarrow> bool" where
  "source_ok c \<longleftrightarrow> cron_field_ok 0 59 (src_minute c) \<and> cron_field_ok 0 23 (src_hour c) \<and>
     cron_field_ok 1 31 (src_dom c) \<and> cron_field_ok 1 12 (src_month c) \<and>
     cron_field_ok 0 7 (src_dow c) \<and> length (source_text c) \<le> max_expression_length"

definition source_meaning :: "cron_source \<Rightarrow> cron_expression" where
  "source_meaning c =
     \<lparr>cron_text = source_text c,
      cron_minutes = cron_field_set 0 59 (src_minute c),
      cron_hours = cron_field_set 0 23 (src_hour c),
      cron_days_of_month = cron_field_set 1 31 (src_dom c),
      cron_months = cron_field_set 1 12 (src_month c),
      cron_days_of_week = (\<lambda>w. w mod 7) ` cron_field_set 0 7 (src_dow c),
      cron_dom_restricted = src_dom c \<noteq> [(Star, None)],
      cron_dow_restricted = src_dow c \<noteq> [(Star, None)]\<rparr>"

lemma parse_cron_grammar:
  assumes "source_ok c"
  shows "parse_cron (source_text c) = Inr (source_meaning c)"
proof -
  have ok: "cron_field_ok 0 59 (src_minute c)" "cron_field_ok 0 23 (src_hour c)"
    "cron_field_ok 1 31 (src_dom c)" "cron_field_ok 1 12 (src_month c)"
    "cron_field_ok 0 7 (src_dow c)" and len: "length (source_text c) \<le> max_expression_length"
    using assms by (simp_all add: source_ok_def)
  have ne: "its \<noteq> []" if "cron_field_ok low high its" for low high its
    using that by (simp add: cron_field_ok_def)
  have plain: "list_all plain_word (map cron_field_text
      [src_minute c, src_hour c, src_dom c, src_month c, src_dow c])"
    using ok by (auto intro!: cron_field_text_plain ne)
  then have words: "py_words (source_text c) = map cron_field_text
      [src_minute c, src_hour c, src_dom c, src_month c, src_dow c]"
    unfolding source_text_def by (rule py_words_join)
  have "cron_field_set 0 7 (src_dow c) \<subseteq> {0..7}"
    using parse_field_bounds [OF parse_field_grammar [OF ok(5)]] by simp
  then have dow: "(\<lambda>value. if value = 7 then 0 else value) ` cron_field_set 0 7 (src_dow c)
      = (\<lambda>w. w mod 7) ` cron_field_set 0 7 (src_dow c)"
    by (intro image_cong refl) (auto simp: subset_iff)
  show ?thesis
    unfolding parse_cron_Inr_iff
  proof (intro conjI exI)
    show "length (source_text c) \<le> max_expression_length" by (rule len)
    show "py_words (source_text c) = [cron_field_text (src_minute c), cron_field_text (src_hour c),
        cron_field_text (src_dom c), cron_field_text (src_month c), cron_field_text (src_dow c)]"
      using words by simp
    show "source_meaning c = \<lparr>cron_text = join_space [cron_field_text (src_minute c),
        cron_field_text (src_hour c), cron_field_text (src_dom c), cron_field_text (src_month c),
        cron_field_text (src_dow c)],
        cron_minutes = cron_field_set 0 59 (src_minute c),
        cron_hours = cron_field_set 0 23 (src_hour c),
        cron_days_of_month = cron_field_set 1 31 (src_dom c),
        cron_months = cron_field_set 1 12 (src_month c),
        cron_days_of_week = (\<lambda>value. if value = 7 then 0 else value) `
          cron_field_set 0 7 (src_dow c),
        cron_dom_restricted = cron_field_text (src_dom c) \<noteq> ''*'',
        cron_dow_restricted = cron_field_text (src_dow c) \<noteq> ''*''\<rparr>"
      using ok(3,5) [THEN ne] dow
      by (simp add: source_meaning_def source_text_def cron_field_text_star)
  qed (use ok in \<open>simp_all add: parse_field_grammar\<close>)
qed

section \<open>Which exceptions parsing raises\<close>

definition no_superscript :: "string \<Rightarrow> bool" where
  "no_superscript s \<longleftrightarrow> (\<forall>c \<in> set s. code c \<notin> {178, 179, 185})"

lemma int_of_digits_no_superscript:
  "no_superscript s \<Longrightarrow> py_isdigit s \<Longrightarrow> int_of_digits s \<noteq> Inl e"
  by (auto simp: no_superscript_def py_isdigit_def int_of_digits_def list_all_iff digit_char_def)

lemma parse_number_error:
  "parse_number s low high = Inl e \<Longrightarrow> no_superscript s \<Longrightarrow> e = CronExpressionError"
  by (auto simp: parse_number_def ebind_Inl_iff int_of_digits_no_superscript split: if_splits)

lemma parse_step_error:
  "parse_step s low high = Inl e \<Longrightarrow> no_superscript s \<Longrightarrow> e = CronExpressionError"
  by (auto simp: parse_step_def ebind_Inl_iff int_of_digits_no_superscript split: if_splits)

lemma set_py_partition:
  assumes "py_partition c s = (a, b)"
  shows "set a \<subseteq> set s" and "set b \<subseteq> set s"
  using assms by (auto simp: py_partition_def dest: in_set_dropD set_takeWhileD set_dropWhileD)

lemma no_superscript_mono: "set t \<subseteq> set s \<Longrightarrow> no_superscript s \<Longrightarrow> no_superscript t"
  by (auto simp: no_superscript_def)

lemma parse_part_error:
  assumes "parse_part s low high = Inl e" and ns: "no_superscript s"
  shows "e = CronExpressionError"
proof -
  obtain body st where p: "py_partition CHR ''/'' s = (body, st)" by force
  obtain a b where q: "py_partition CHR ''-'' body = (a, b)" by force
  have "no_superscript st" "no_superscript body" "no_superscript a" "no_superscript b"
    using set_py_partition [OF p] set_py_partition [OF q] ns no_superscript_mono
    by (meson order_trans)+
  then show ?thesis
    using assms(1)
    by (auto simp: parse_part_def p q ebind_Inl_iff Let_def split: if_splits
        dest: parse_step_error parse_number_error)
qed

lemma emap_Inl: "emap f xs = Inl e \<Longrightarrow> \<exists>x \<in> set xs. f x = Inl e"
  by (induction xs) (auto simp: ebind_Inl_iff)

lemma set_py_split_on: "w \<in> set (py_split_on c s) \<Longrightarrow> set w \<subseteq> set s"
  by (induction s arbitrary: w) (fastforce split: if_splits list.splits)+

lemma set_py_words: "w \<in> set (py_words s) \<Longrightarrow> set w \<subseteq> set s"
proof (induction s arbitrary: w)
  case (Cons x xs)
  have "py_words (x # xs) = py_words xs \<or> py_words (x # xs) = [[x]] \<or>
      py_words (x # xs) = [x] # py_words xs \<or>
      (\<exists>u us. py_words xs = u # us \<and> py_words (x # xs) = (x # u) # us)"
    by (simp only: py_words.simps(2) [of x]) (auto split: list.split)
  then show ?case
  proof (elim disjE exE conjE)
    fix u us assume "py_words xs = u # us" "py_words (x # xs) = (x # u) # us"
    with Cons show ?thesis by (auto simp del: py_words.simps) blast+
  qed (use Cons in \<open>auto simp del: py_words.simps\<close>)
qed simp

lemma parse_field_error:
  assumes "parse_field s low high = Inl e" and "no_superscript s"
  shows "e = CronExpressionError"
proof -
  have "parse_part t low high = Inl e \<Longrightarrow> e = CronExpressionError"
    if "t \<in> set (py_split_on CHR '','' s)" for t
    using set_py_split_on [OF that] assms(2) no_superscript_mono parse_part_error by blast
  with assms(1) show ?thesis
    by (auto simp: parse_field_def ebind_Inl_iff Let_def split: if_splits dest!: emap_Inl)
qed

lemma parse_cron_error:
  assumes "parse_cron s = Inl e" and "no_superscript s"
  shows "e = CronExpressionError"
proof -
  have "parse_field f low high = Inl e \<Longrightarrow> e = CronExpressionError"
    if "f \<in> set (py_words s)" for f low high
    using set_py_words [OF that] assms(2) no_superscript_mono parse_field_error by blast
  with assms(1) show ?thesis
    by (auto simp: parse_cron_def ebind_Inl_iff Let_def split: if_splits
        dest!: emap_Inl dest: set_zip_leftD)
qed

end
