(* ===== verification/Cron_Search.thy ===== *)
theory Cron_Search
  imports Cron
begin

text \<open>
  The search of \<^verbatim>\<open>schedules/cron.py\<close> against its specification. \<open>on_schedule\<close> says which wall
  clock readings an expression names, \<open>cron_fires\<close> which instants it fires at: whole minutes whose
  local reading is named and which are the first instant with that reading (\<^verbatim>\<open>fold=0\<close>). The loops
  return the least firing instant after \<open>after\<close>, or none within the day bound.
\<close>

section \<open>Wall clock readings\<close>

definition on_schedule :: "cron_expression \<Rightarrow> int \<Rightarrow> bool" where
  "on_schedule e l \<longleftrightarrow> matches_date e (l div usec_day)
     \<and> l mod usec_day div usec_hour \<in> cron_hours e
     \<and> l mod usec_hour div usec_minute \<in> cron_minutes e
     \<and> l mod usec_minute = 0"

lemma wall_clock_parts:
  assumes "0 \<le> h" "h < 24" "0 \<le> m" "m < 60"
  shows "wall_clock d (h, m) div usec_day = d"
    and "wall_clock d (h, m) mod usec_day div usec_hour = h"
    and "wall_clock d (h, m) mod usec_hour div usec_minute = m"
    and "wall_clock d (h, m) mod usec_minute = 0"
proof -
  let ?r = "h * usec_hour + m * usec_minute"
  have r: "0 \<le> ?r" "?r < usec_day" using assms by linarith+
  have w: "wall_clock d (h, m) = ?r + d * usec_day" by (simp add: wall_clock_def)
  show "wall_clock d (h, m) div usec_day = d"
    unfolding w using r by (subst div_mult_self1) simp_all
  have "wall_clock d (h, m) mod usec_day = ?r"
    unfolding w using r by (subst mod_mult_self1) (simp add: mod_pos_pos_trivial)
  then show "wall_clock d (h, m) mod usec_day div usec_hour = h"
    using assms by simp
  have "wall_clock d (h, m) = m * usec_minute + (h + d * 24) * usec_hour"
    by (simp add: wall_clock_def)
  moreover have "0 \<le> m * usec_minute" "m * usec_minute < usec_hour" using assms by linarith+
  ultimately have "wall_clock d (h, m) mod usec_hour = m * usec_minute"
    by (simp only: mod_mult_self1 mod_pos_pos_trivial)
  then show "wall_clock d (h, m) mod usec_hour div usec_minute = m" by simp
  have "wall_clock d (h, m) = 0 + (m + h * 60 + d * 1440) * usec_minute"
    by (simp add: wall_clock_def)
  then show "wall_clock d (h, m) mod usec_minute = 0" by (simp only: mod_mult_self1) simp
qed

lemma wall_clock_of:
  assumes "l mod usec_minute = 0"
  shows "wall_clock (l div usec_day) (l mod usec_day div usec_hour, l mod usec_hour div usec_minute)
    = l"
proof -
  define a where "a = l mod usec_day"
  have la: "l = l div usec_day * usec_day + a" by (simp add: a_def)
  have lh: "l mod usec_hour = a mod usec_hour" unfolding a_def by (simp add: mod_mod_cancel)
  define b where "b = a mod usec_hour"
  have ab: "a = a div usec_hour * usec_hour + b" by (simp add: b_def)
  have "b mod usec_minute = 0"
    using assms unfolding b_def a_def by (simp add: mod_mod_cancel)
  then have bm: "b = b div usec_minute * usec_minute" by (metis add.right_neutral div_mult_mod_eq)
  show ?thesis
    unfolding wall_clock_def fst_conv snd_conv lh a_def [symmetric] b_def [symmetric]
    using la ab bm by linarith
qed

lemma wf_cron_clock:
  assumes "wf_cron e"
  shows "finite (cron_hours e)" "finite (cron_minutes e)"
    "h \<in> cron_hours e \<Longrightarrow> 0 \<le> h \<and> h < 24" "m \<in> cron_minutes e \<Longrightarrow> 0 \<le> m \<and> m < 60"
proof -
  have sub: "cron_hours e \<subseteq> {0..23}" "cron_minutes e \<subseteq> {0..59}" using assms by (simp_all add: wf_cron_def)
  then show "finite (cron_hours e)" "finite (cron_minutes e)"
    by (auto intro: finite_subset)
  show "h \<in> cron_hours e \<Longrightarrow> 0 \<le> h \<and> h < 24" "m \<in> cron_minutes e \<Longrightarrow> 0 \<le> m \<and> m < 60"
    using sub by force+
qed

lemma on_schedule_wall_clock:
  assumes "wf_cron e" "h \<in> cron_hours e" "m \<in> cron_minutes e"
  shows "on_schedule e (wall_clock d (h, m)) \<longleftrightarrow> matches_date e d"
proof -
  have "0 \<le> h" "h < 24" "0 \<le> m" "m < 60" using assms wf_cron_clock by auto
  note p = wall_clock_parts [OF this, of d]
  show ?thesis unfolding on_schedule_def p using assms(2,3) by simp
qed

lemma on_schedule_split:
  assumes "on_schedule e l"
  obtains h m where "l = wall_clock (l div usec_day) (h, m)" "h \<in> cron_hours e" "m \<in> cron_minutes e"
    "matches_date e (l div usec_day)"
  using assms wall_clock_of [of l] unfolding on_schedule_def by metis

section \<open>The loops\<close>

lemma first_some_Some:
  "first_some f xs = Some r \<Longrightarrow>
     \<exists>ys x zs. xs = ys @ x # zs \<and> f x = Some r \<and> (\<forall>y \<in> set ys. f y = None)"
proof (induction xs)
  case Nil
  then show ?case by simp
next
  case (Cons x xs)
  show ?case
  proof (cases "f x")
    case None
    with Cons obtain ys y zs where "xs = ys @ y # zs" "f y = Some r" "\<forall>y \<in> set ys. f y = None"
      by auto
    with None show ?thesis by (intro exI [of _ "x # ys"]) auto
  next
    case (Some s)
    with Cons.prems show ?thesis by (intro exI [of _ "[]"]) auto
  qed
qed

lemma first_some_None: "first_some f xs = None \<longleftrightarrow> (\<forall>x \<in> set xs. f x = None)"
  by (induction xs) (auto split: option.splits)

text \<open>The two inner loops run through the day in the order of the clock.\<close>

lemma sorted_clock:
  assumes "sorted_wrt (<) hs" "sorted_wrt (<) ms" "\<And>m. m \<in> set ms \<Longrightarrow> 0 \<le> m \<and> m < (60::int)"
  shows "sorted_wrt (\<lambda>p q. wall_clock d p < wall_clock d q) (List.product hs ms)"
  using assms(1)
proof (induction hs)
  case Nil
  then show ?case by simp
next
  case (Cons h hs)
  have row: "sorted_wrt (\<lambda>p q. wall_clock d p < wall_clock d q) (map (Pair h) xs)"
    if "sorted_wrt (<) xs" for xs
    using that by (induction xs) (auto simp: wall_clock_def)
  have "wall_clock d (h, m) < wall_clock d (h', m')" if "h' \<in> set hs" "m \<in> set ms" "m' \<in> set ms"
    for m h' m'
  proof -
    have "h + 1 \<le> h'" "m < 60" "0 \<le> m'" using Cons.prems that assms(3) by auto
    then show ?thesis by (simp add: wall_clock_def)
  qed
  with Cons row assms(2) show ?case
    by (auto simp: sorted_wrt_append)
qed

text \<open>One day of the search, in terms of readings.\<close>

definition hit :: "zone \<Rightarrow> time \<Rightarrow> int \<Rightarrow> time \<Rightarrow> bool" where
  "hit z boundary l r \<longleftrightarrow> resolve_local z l = Some r \<and> boundary < r"

lemma scan_day_None:
  assumes "wf_cron e" "scan_day e z b d = None" "on_schedule e l" "l div usec_day = d"
  shows "\<not> hit z b l r"
proof -
  obtain h m where l: "l = wall_clock d (h, m)" "h \<in> cron_hours e" "m \<in> cron_minutes e"
    "matches_date e d"
    using assms(3,4) by (auto elim: on_schedule_split)
  with assms(1,2) have "(case resolve_local z (wall_clock d (h, m)) of None \<Rightarrow> None
      | Some r \<Rightarrow> if r > b then Some r else None) = None"
    by (auto simp: scan_day_def first_some_None wf_cron_clock)
  with l show ?thesis by (auto simp: hit_def split: option.splits if_splits)
qed

lemma scan_day_Some:
  assumes wf: "wf_cron e" and s: "scan_day e z b d = Some r"
  obtains l where "on_schedule e l" "l div usec_day = d" "hit z b l r"
    "\<And>l' r'. on_schedule e l' \<Longrightarrow> l' div usec_day = d \<Longrightarrow> l' < l \<Longrightarrow> \<not> hit z b l' r'"
proof -
  let ?f = "\<lambda>hm. case resolve_local z (wall_clock d hm) of None \<Rightarrow> None
      | Some r \<Rightarrow> if r > b then Some r else None"
  let ?hs = "sorted_list_of_set (cron_hours e)" and ?ms = "sorted_list_of_set (cron_minutes e)"
  have md: "matches_date e d" and fs: "first_some ?f (List.product ?hs ?ms) = Some r"
    using s by (auto simp: scan_day_def split: if_splits)
  from first_some_Some [OF fs] obtain ys x zs where xs: "List.product ?hs ?ms = ys @ x # zs"
    and fx: "?f x = Some r" and none: "\<forall>y \<in> set ys. ?f y = None" by blast
  have "sorted_wrt (\<lambda>p q. wall_clock d p < wall_clock d q) (List.product ?hs ?ms)"
    by (rule sorted_clock) (auto simp: wf_cron_clock [OF wf])
  then have after: "wall_clock d x < wall_clock d q" if "q \<in> set zs" for q
    using that by (simp add: xs sorted_wrt_append)
  have "x \<in> set (List.product ?hs ?ms)" by (simp add: xs)
  then have x: "fst x \<in> cron_hours e" "snd x \<in> cron_minutes e"
    by (auto simp: wf_cron_clock [OF wf])
  then have cx: "0 \<le> fst x" "fst x < 24" "0 \<le> snd x" "snd x < 60"
    using wf_cron_clock [OF wf] by auto
  show thesis
  proof (rule that)
    show "on_schedule e (wall_clock d x)"
      using on_schedule_wall_clock [OF wf x, of d] md by simp
    show "wall_clock d x div usec_day = d"
      using wall_clock_parts(1) [OF cx, of d] by simp
    show "hit z b (wall_clock d x) r"
      using fx by (auto simp: hit_def split: option.splits if_splits)
    fix l' r' assume l': "on_schedule e l'" "l' div usec_day = d" "l' < wall_clock d x"
    obtain h m where hm: "l' = wall_clock d (h, m)" "h \<in> cron_hours e" "m \<in> cron_minutes e"
      using l'(1,2) by (auto elim: on_schedule_split)
    then have "(h, m) \<in> set (ys @ x # zs)"
      unfolding xs [symmetric] by (simp add: wf_cron_clock [OF wf])
    with l'(3) hm after have "(h, m) \<in> set ys" by force
    with none hm show "\<not> hit z b l' r'" by (force simp: hit_def split: option.splits if_splits)
  qed
qed

lemma search_days_None:
  assumes "wf_cron e" "search_days e z b n d = None" "on_schedule e l"
    "d \<le> l div usec_day" "l div usec_day < d + int n"
  shows "\<not> hit z b l r"
  using assms
proof (induction n arbitrary: d)
  case 0
  then show ?case by simp
next
  case (Suc n)
  show ?case
  proof (cases "l div usec_day = d")
    case True
    from Suc.prems have "scan_day e z b d = None" by (simp split: option.splits)
    with True Suc.prems show ?thesis by (intro scan_day_None [of e z b d l]) simp_all
  next
    case False
    with Suc.prems show ?thesis by (intro Suc.IH [of "d + 1"]) (auto split: option.splits)
  qed
qed

lemma search_days_Some:
  assumes "wf_cron e" "search_days e z b n d = Some r"
  shows "\<exists>l. on_schedule e l \<and> d \<le> l div usec_day \<and> hit z b l r \<and>
    (\<forall>l' r'. on_schedule e l' \<longrightarrow> d \<le> l' div usec_day \<longrightarrow> l' < l \<longrightarrow> \<not> hit z b l' r')"
  using assms(2)
proof (induction n arbitrary: d)
  case 0
  then show ?case by simp
next
  case (Suc n)
  show ?case
  proof (cases "scan_day e z b d")
    case None
    with Suc.prems have "search_days e z b n (d + 1) = Some r" by simp
    from Suc.IH [OF this] obtain l where l: "on_schedule e l" "d + 1 \<le> l div usec_day" "hit z b l r"
      and before: "\<And>l' r'. on_schedule e l' \<Longrightarrow> d + 1 \<le> l' div usec_day \<Longrightarrow> l' < l \<Longrightarrow> \<not> hit z b l' r'"
      by blast
    have "\<not> hit z b l' r'" if "on_schedule e l'" "d \<le> l' div usec_day" "l' < l" for l' r'
    proof (cases "l' div usec_day = d")
      case True
      with None that show ?thesis by (intro scan_day_None [OF assms(1)])
    next
      case False
      with that show ?thesis by (intro before) simp_all
    qed
    with l show ?thesis by (intro exI [of _ l]) auto
  next
    case (Some s)
    with Suc.prems have sd: "scan_day e z b d = Some r" by simp
    from scan_day_Some [OF assms(1) this] obtain l where l: "on_schedule e l" "l div usec_day = d"
      "hit z b l r" and before: "\<And>l' r'. on_schedule e l' \<Longrightarrow> l' div usec_day = d \<Longrightarrow> l' < l
        \<Longrightarrow> \<not> hit z b l' r'"
      by blast
    have "\<not> hit z b l' r'" if "on_schedule e l'" "d \<le> l' div usec_day" "l' < l" for l' r'
    proof (rule before [OF that(1) _ that(3)])
      have "l' div usec_day \<le> l div usec_day" using that(3) by (simp add: zdiv_mono1)
      with that(2) l(2) show "l' div usec_day = d" by simp
    qed
    with l show ?thesis by (intro exI [of _ l]) auto
  qed
qed

section \<open>Firing instants\<close>

definition cron_fires :: "cron_expression \<Rightarrow> zone \<Rightarrow> time \<Rightarrow> bool" where
  "cron_fires e z t \<longleftrightarrow> t mod usec_minute = 0 \<and> on_schedule e (local_time z t)
     \<and> utc_time z (local_time z t) = t"

text \<open>
  What PEP 495 and the tz database promise of a zone: offsets of whole minutes; \<^verbatim>\<open>fold=0\<close> gives the
  first instant with a reading that the clock shows; and these instants are in the order of the
  readings. A reading is shown if resolving it and reading the clock gives it back.
\<close>

definition shown :: "zone \<Rightarrow> int \<Rightarrow> bool" where
  "shown z l \<longleftrightarrow> local_time z (utc_time z l) = l"

definition zone_ok :: "zone \<Rightarrow> bool" where
  "zone_ok z \<longleftrightarrow>
     (\<forall>t. fst z t mod usec_minute = 0) \<and> (\<forall>l. snd z l mod usec_minute = 0) \<and>
     (\<forall>t. utc_time z (local_time z t) \<le> t \<and> shown z (local_time z t)) \<and>
     (\<forall>l l'. shown z l \<longrightarrow> shown z l' \<longrightarrow> l < l' \<longrightarrow> utc_time z l < utc_time z l')"

lemma floor_minute_facts:
  "floor_minute t mod usec_minute = 0" "floor_minute t \<le> t" "t < floor_minute t + usec_minute"
  unfolding floor_minute_def
  using pos_mod_bound [of usec_minute t] pos_mod_sign [of usec_minute t]
  by (simp_all add: mod_diff_left_eq [symmetric])

lemma floor_minute_less:
  assumes "r mod usec_minute = 0"
  shows "floor_minute t < r \<longleftrightarrow> t < r"
proof
  assume "floor_minute t < r"
  moreover obtain a where a: "r = usec_minute * a" using assms by (auto elim: dvdE simp: mod_0_imp_dvd)
  moreover obtain b where b: "floor_minute t = usec_minute * b"
    using floor_minute_facts(1) [of t] by (auto elim: dvdE simp: mod_0_imp_dvd)
  ultimately have "b + 1 \<le> a" by simp
  then have "usec_minute * b + usec_minute \<le> r" unfolding a by simp
  then show "t < r" using floor_minute_facts(3) [of t] unfolding b by simp
qed (use floor_minute_facts(2) [of t] in linarith)

lemma hit_aligned:
  "hit z b l r \<Longrightarrow> r mod usec_minute = 0"
  by (auto simp: hit_def resolve_local_def Let_def floor_minute_facts split: if_splits)

lemma floor_minute_id: "t mod usec_minute = 0 \<Longrightarrow> floor_minute t = t"
  by (simp add: floor_minute_def)

lemma mod_add_zero: "(a::int) mod m = 0 \<Longrightarrow> b mod m = 0 \<Longrightarrow> (a + b) mod m = 0 \<and> (a - b) mod m = 0"
  by (metis add_0 diff_self mod_add_eq mod_diff_eq mod_0)

lemma resolve_shown:
  assumes "zone_ok z" "l mod usec_minute = 0"
  shows "resolve_local z l = Some r \<longleftrightarrow> shown z l \<and> r = utc_time z l"
proof -
  have off: "fst z t mod usec_minute = 0" "snd z k mod usec_minute = 0" for t k
    using assms(1) by (simp_all add: zone_ok_def)
  have u: "utc_time z l mod usec_minute = 0"
    using mod_add_zero [OF assms(2) off(2)] by (simp add: utc_time_def)
  have v: "local_time z (utc_time z l) mod usec_minute = 0"
    using mod_add_zero [OF u off(1)] by (simp add: local_time_def)
  have "local_time z (utc_time z l) div usec_minute = l div usec_minute \<longleftrightarrow> shown z l"
    unfolding shown_def using v assms(2)
    by (metis div_mult_mod_eq)
  then show ?thesis
    unfolding resolve_local_def Let_def floor_minute_id [OF u] by (simp split: if_split) blast
qed

lemma cron_fires_iff_resolved:
  assumes "zone_ok z" "on_schedule e l"
  shows "resolve_local z l = Some r \<longleftrightarrow> cron_fires e z r \<and> local_time z r = l"
proof -
  have al: "l mod usec_minute = 0" using assms(2) by (simp add: on_schedule_def)
  have off: "snd z l mod usec_minute = 0" using assms(1) by (simp add: zone_ok_def)
  have "utc_time z l mod usec_minute = 0"
    using mod_add_zero [OF al off] by (simp add: utc_time_def)
  then show ?thesis
    unfolding resolve_shown [OF assms(1) al] cron_fires_def shown_def using assms(2) by auto
qed

text \<open>No firing instant after \<open>after\<close> has a reading before the reading at \<open>after\<close>.\<close>

lemma later_reading:
  assumes z: "zone_ok z" and t: "utc_time z (local_time z t) = t" and "after < t"
  shows "local_time z after \<le> local_time z t"
proof (rule ccontr)
  assume "\<not> local_time z after \<le> local_time z t"
  then have "utc_time z (local_time z t) < utc_time z (local_time z after)"
    using z by (simp add: zone_ok_def)
  moreover have "utc_time z (local_time z after) \<le> after" using z by (simp add: zone_ok_def)
  ultimately show False using t \<open>after < t\<close> by simp
qed

lemma next_in_zone_after:
  assumes "wf_cron e" "next_in_zone e after z = Some r"
  shows "after < r \<and> r mod usec_minute = 0"
proof -
  from search_days_Some [OF assms(1) assms(2) [unfolded next_in_zone_def]]
  obtain l where "hit z (floor_minute after) l r" by blast
  with floor_minute_less [OF hit_aligned [OF this], of after] hit_aligned [OF this]
  show ?thesis by (simp add: hit_def)
qed

lemma next_in_zone_least:
  assumes wf: "wf_cron e" and z: "zone_ok z" and s: "next_in_zone e after z = Some r"
  shows "cron_fires e z r" "after < r" "\<And>t. cron_fires e z t \<Longrightarrow> after < t \<Longrightarrow> r \<le> t"
proof -
  let ?d = "local_time z after div usec_day"
  from search_days_Some [OF wf s [unfolded next_in_zone_def]]
  obtain l where l: "on_schedule e l" "hit z (floor_minute after) l r"
    and before: "\<And>l' r'. on_schedule e l' \<Longrightarrow> ?d \<le> l' div usec_day \<Longrightarrow> l' < l
      \<Longrightarrow> \<not> hit z (floor_minute after) l' r'" by blast
  from l show fires: "cron_fires e z r" using cron_fires_iff_resolved [OF z l(1)] by (simp add: hit_def)
  have lr: "local_time z r = l" using l cron_fires_iff_resolved [OF z l(1)] by (simp add: hit_def)
  show "after < r" using next_in_zone_after [OF wf s] by simp
  fix t assume t: "cron_fires e z t" "after < t"
  let ?l = "local_time z t"
  have sched: "on_schedule e ?l" using t(1) by (simp add: cron_fires_def)
  have "local_time z after \<le> ?l" using later_reading [OF z _ t(2)] t(1) by (simp add: cron_fires_def)
  then have "?d \<le> ?l div usec_day" by (simp add: zdiv_mono1)
  moreover have "hit z (floor_minute after) ?l t"
    using cron_fires_iff_resolved [OF z sched] t floor_minute_less [of t after]
    by (simp add: hit_def cron_fires_def)
  ultimately have "\<not> ?l < l" using before sched by blast
  show "r \<le> t"
  proof (cases "?l = l")
    case True
    with fires t lr show ?thesis by (simp add: cron_fires_def)
  next
    case False
    with \<open>\<not> ?l < l\<close> have "local_time z r < ?l" using lr by simp
    moreover have "shown z (local_time z r)" "shown z ?l"
      using fires t(1) by (simp_all add: shown_def cron_fires_def)
    ultimately have "utc_time z (local_time z r) < utc_time z ?l"
      using z by (simp add: zone_ok_def)
    then show ?thesis using fires t(1) by (simp add: cron_fires_def)
  qed
qed

lemma next_in_zone_none:
  assumes wf: "wf_cron e" and z: "zone_ok z" and s: "next_in_zone e after z = None"
    and t: "cron_fires e z t" "after < t"
  shows "local_time z after div usec_day + int max_search_days \<le> local_time z t div usec_day"
proof (rule ccontr)
  let ?l = "local_time z t"
  assume "\<not> ?thesis"
  then have lt: "?l div usec_day < local_time z after div usec_day + int max_search_days" by simp
  have sched: "on_schedule e ?l" using t(1) by (simp add: cron_fires_def)
  have "local_time z after \<le> ?l" using later_reading [OF z _ t(2)] t(1) by (simp add: cron_fires_def)
  then have "local_time z after div usec_day \<le> ?l div usec_day" by (simp add: zdiv_mono1)
  from search_days_None [OF wf s [unfolded next_in_zone_def] sched this lt]
  have "\<not> hit z (floor_minute after) ?l t" .
  moreover have "hit z (floor_minute after) ?l t"
    using cron_fires_iff_resolved [OF z sched] t floor_minute_less [of t after]
    by (simp add: hit_def cron_fires_def)
  ultimately show False by simp
qed

section \<open>Several occurrences\<close>

lemma upcoming_from_Suc:
  assumes "tzdb name = Inr z"
  shows "upcoming_from tzdb e name (Suc n) t
    = (case next_in_zone e t z of None \<Rightarrow> Inr []
       | Some r \<Rightarrow> ebind (upcoming_from tzdb e name n r) (\<lambda>rest. Inr (r # rest)))"
  by (simp add: next_occurrence_def assms split: option.split)

lemma upcoming_from_total:
  "tzdb name = Inr z \<Longrightarrow> \<exists>ts. upcoming_from tzdb e name n t = Inr ts"
proof (induction n arbitrary: t)
  case (Suc n)
  then have "\<exists>ts. upcoming_from tzdb e name n r = Inr ts" for r by blast
  then show ?case
    unfolding upcoming_from_Suc [where tzdb = tzdb and name = name, OF Suc.prems] by (auto split: option.split) (metis ebind_simps(2))
qed simp

lemma upcoming_from_facts:
  assumes "wf_cron e" "tzdb name = Inr z" "upcoming_from tzdb e name n t = Inr ts"
  shows "length ts \<le> n" "sorted_wrt (<) (t # ts)"
    "zone_ok z \<Longrightarrow> u \<in> set ts \<Longrightarrow> cron_fires e z u"
    "zone_ok z \<Longrightarrow> ts \<noteq> [] \<Longrightarrow> cron_fires e z u \<Longrightarrow> t < u \<Longrightarrow> u \<le> last ts \<Longrightarrow> u \<in> set ts"
proof -
  have "length ts \<le> n \<and> sorted_wrt (<) (t # ts)
    \<and> (zone_ok z \<longrightarrow> (\<forall>u \<in> set ts. cron_fires e z u))
    \<and> (zone_ok z \<longrightarrow> ts \<noteq> [] \<longrightarrow> (\<forall>u. cron_fires e z u \<longrightarrow> t < u \<longrightarrow> u \<le> last ts \<longrightarrow> u \<in> set ts))"
    using assms(3)
  proof (induction n arbitrary: t ts)
    case 0
    then show ?case by simp
  next
    case (Suc n)
    show ?case
    proof (cases "next_in_zone e t z")
      case None
      with Suc.prems show ?thesis
        by (simp only: upcoming_from_Suc [where tzdb = tzdb and name = name, OF assms(2)]) simp
    next
      case (Some r)
      with Suc.prems obtain rest where rest: "upcoming_from tzdb e name n r = Inr rest"
        and ts: "ts = r # rest"
        by (auto simp only: upcoming_from_Suc [where tzdb = tzdb and name = name, OF assms(2)]
            option.case ebind_Inr_iff sum.inject)
      note IH = Suc.IH [OF rest]
      have "t < r" using next_in_zone_after [OF assms(1) Some] by simp
      moreover have "cron_fires e z r" if "zone_ok z"
        using next_in_zone_least(1) [OF assms(1) that Some] .
      moreover have "u \<in> set ts" if "zone_ok z" "cron_fires e z u" "t < u" "u \<le> last ts" for u
      proof -
        have "r \<le> u" using next_in_zone_least(3) [OF assms(1) that(1) Some that(2,3)] .
        show ?thesis
        proof (cases "u = r")
          case True
          then show ?thesis by (simp add: ts)
        next
          case False
          with \<open>r \<le> u\<close> have lt: "r < u" by simp
          with that(4) have ne: "rest \<noteq> []" by (auto simp: ts)
          with that(4) have "u \<le> last rest" by (simp add: ts)
          with IH that(1,2) lt ne show ?thesis by (simp add: ts)
        qed
      qed
      moreover have "\<forall>x \<in> set rest. r < x" using IH by simp
      ultimately show ?thesis using IH by (auto simp: ts)
    qed
  qed
  then show "length ts \<le> n" "sorted_wrt (<) (t # ts)"
    "zone_ok z \<Longrightarrow> u \<in> set ts \<Longrightarrow> cron_fires e z u"
    "zone_ok z \<Longrightarrow> ts \<noteq> [] \<Longrightarrow> cron_fires e z u \<Longrightarrow> t < u \<Longrightarrow> u \<le> last ts \<Longrightarrow> u \<in> set ts"
    by blast+
qed

section \<open>Two concrete zones\<close>

text \<open>A zone without transitions, and one whose clock jumps from \<open>o1\<close> forward to \<open>o2\<close> at \<open>tr\<close>.\<close>

definition fixed_zone :: "int \<Rightarrow> zone" where
  "fixed_zone off = (\<lambda>t. off, \<lambda>l. off)"

definition spring_zone :: "time \<Rightarrow> int \<Rightarrow> int \<Rightarrow> zone" where
  "spring_zone tr o1 o2 = (\<lambda>t. if t < tr then o1 else o2, \<lambda>l. if l < tr + o2 then o1 else o2)"

definition autumn_zone :: "time \<Rightarrow> int \<Rightarrow> int \<Rightarrow> zone" where
  "autumn_zone tr o1 o2 = (\<lambda>t. if t < tr then o1 else o2, \<lambda>l. if l < tr + o1 then o1 else o2)"

lemma fixed_zone_ok: "off mod usec_minute = 0 \<Longrightarrow> zone_ok (fixed_zone off)"
  by (simp add: zone_ok_def fixed_zone_def utc_time_def local_time_def shown_def)

lemma spring_zone_ok:
  assumes "o1 mod usec_minute = 0" "o2 mod usec_minute = 0" "o1 \<le> o2"
  shows "zone_ok (spring_zone tr o1 o2)"
  using assms by (auto simp: zone_ok_def spring_zone_def utc_time_def local_time_def shown_def
      split: if_splits)

lemma autumn_zone_ok:
  assumes "o1 mod usec_minute = 0" "o2 mod usec_minute = 0" "o2 \<le> o1"
  shows "zone_ok (autumn_zone tr o1 o2)"
  using assms by (auto simp: zone_ok_def autumn_zone_def utc_time_def local_time_def shown_def
      split: if_splits)

end
