(* ===== verification/Schedule_Plan.thy ===== *)
theory Schedule_Plan
  imports Cron_Search
begin

text \<open>
  \<^verbatim>\<open>schedules/domain.py\<close> and \<^verbatim>\<open>schedules/planning.py\<close>: the schedule state machine, the validated
  definition of a schedule and the rules that turn a definition into occurrences.

  \<open>py_datetime\<close> is a \<^verbatim>\<open>datetime\<close> argument, with a UTC offset (its instant) or without. The clock
  readings the source takes with \<^verbatim>\<open>datetime.now(UTC)\<close> are arguments.
\<close>

section \<open>Statuses\<close>

datatype schedule_kind = ONCE | CRON

datatype schedule_status = ACTIVE | PAUSED | COMPLETED | ERROR | ARCHIVED

datatype schedule_outcome =
  RUN_CREATED | SKIPPED_OVERLAP | FAILED_PRECONDITION | OUTCOME_COMPLETED

definition terminal_schedule_statuses :: "schedule_status list" where
  "terminal_schedule_statuses = [COMPLETED, ARCHIVED]"

fun allowed_schedule_transitions :: "schedule_status \<Rightarrow> schedule_status list" where
  "allowed_schedule_transitions ACTIVE = [PAUSED, COMPLETED, ERROR, ARCHIVED]"
| "allowed_schedule_transitions PAUSED = [ACTIVE, COMPLETED, ARCHIVED]"
| "allowed_schedule_transitions ERROR = [ACTIVE, ARCHIVED]"
| "allowed_schedule_transitions COMPLETED = [ARCHIVED]"
| "allowed_schedule_transitions ARCHIVED = []"

definition plan_schedule_transition :: "schedule_status \<Rightarrow> schedule_status \<Rightarrow> schedule_status res"
where
  "plan_schedule_transition current target =
     (if target \<notin> set (allowed_schedule_transitions current)
      then Inl InvalidScheduleTransitionError else Inr target)"

text \<open>\<^verbatim>\<open>strftime("%Y-%m-%dT%H:%M:%SZ")\<close> of a UTC instant.\<close>

definition pad2 :: "int \<Rightarrow> string" where
  "pad2 n = [dig (nat n div 10), dig (nat n mod 10)]"

definition utc_stamp :: "time \<Rightarrow> string" where
  "utc_stamp t =
     (let d = t div usec_day; s = t mod usec_day div usec_second in
      show_nat (nat (civil_year d)) @ CHR ''-'' # pad2 (civil_month d) @ CHR ''-'' # pad2 (civil_day d)
      @ CHR ''T'' # pad2 (s div 3600) @ CHR '':'' # pad2 (s div 60 mod 60)
      @ CHR '':'' # pad2 (s mod 60) @ ''Z'')"

definition schedule_idempotency_key :: "uuid \<Rightarrow> time \<Rightarrow> string" where
  "schedule_idempotency_key schedule_id occurrence_at =
     ''schedule:'' @ str_uuid schedule_id @ CHR '':'' # utc_stamp occurrence_at"

section \<open>Definitions\<close>

record schedule_definition =
  sd_kind :: schedule_kind
  sd_timezone :: string
  sd_cron_expression :: "string option"
  sd_run_at :: "time option"
  sd_end_at :: "time option"
  sd_max_runs :: "int option"

definition max_schedule_name_length :: nat where
  "max_schedule_name_length = 200"

definition past_tolerance :: time where
  "past_tolerance = usec_minute"

fun aware :: "py_datetime \<Rightarrow> time res" where
  "aware (Aware t) = Inr t"
| "aware (Naive l) = Inl ScheduleInvalidError"

definition aware_opt :: "py_datetime option \<Rightarrow> time option res" where
  "aware_opt v = (case v of None \<Rightarrow> Inr None | Some d \<Rightarrow> ebind (aware d) (\<lambda>t. Inr (Some t)))"

definition read_schedule_kind :: "string \<Rightarrow> schedule_kind res" where
  "read_schedule_kind s =
     (if s = ''ONCE'' then Inr ONCE else if s = ''CRON'' then Inr CRON else Inl ScheduleInvalidError)"

text \<open>\<^verbatim>\<open>max_runs\<close> is checked with \<^verbatim>\<open>type(max_runs) is not int\<close>, so it is a dynamic value here.\<close>

definition read_max_runs :: "json \<Rightarrow> int option res" where
  "read_max_runs v =
     (case v of
        JNull \<Rightarrow> Inr None
      | JInt n \<Rightarrow> if 1 \<le> n \<and> n \<le> 100000 then Inr (Some n) else Inl ScheduleInvalidError
      | _ \<Rightarrow> Inl ScheduleInvalidError)"

definition is_cron_error :: "exn \<Rightarrow> bool" where
  "is_cron_error e \<longleftrightarrow> e = CronExpressionError"

text \<open>The branch on the kind: the normalised expression and the normalised instant.\<close>

definition schedule_rule ::
  "schedule_kind \<Rightarrow> string option \<Rightarrow> time option \<Rightarrow> time \<Rightarrow> (string option \<times> time option) res" where
  "schedule_rule schedule_kind cron_expression run_at reference =
     (if schedule_kind = CRON then
        (if cron_expression = None \<or> cron_expression = Some [] then Inl ScheduleInvalidError
         else if run_at \<noteq> None then Inl ScheduleInvalidError
         else ebind (rethrow is_cron_error ScheduleInvalidError (parse_cron (the cron_expression)))
           (\<lambda>_. Inr (Some (join_space (py_words (the cron_expression))), None)))
      else
        (case run_at of
           None \<Rightarrow> Inl ScheduleInvalidError
         | Some instant \<Rightarrow>
             if \<not> (cron_expression = None \<or> cron_expression = Some []) then Inl ScheduleInvalidError
             else let normalized_run_at = floor_minute instant in
               if normalized_run_at < reference - past_tolerance then Inl ScheduleInvalidError
               else Inr (None, Some normalized_run_at)))"

definition build_definition ::
  "tz_database \<Rightarrow> time \<Rightarrow> string \<Rightarrow> string \<Rightarrow> string option \<Rightarrow> py_datetime option \<Rightarrow>
   py_datetime option \<Rightarrow> json \<Rightarrow> py_datetime option \<Rightarrow> schedule_definition res" where
  "build_definition tzdb clock kind timezone cron_expression run_at end_at max_runs now =
     ebind (aware (case now of None \<Rightarrow> Aware clock | Some d \<Rightarrow> d)) (\<lambda>reference.
     ebind (aware_opt run_at) (\<lambda>run_at.
     ebind (aware_opt end_at) (\<lambda>end_at.
     ebind (read_schedule_kind kind) (\<lambda>schedule_kind.
     ebind (rethrow is_cron_error ScheduleInvalidError (normalize_timezone tzdb timezone)) (\<lambda>zone.
     ebind (schedule_rule schedule_kind cron_expression run_at reference)
       (\<lambda>(normalized_cron, normalized_run_at).
     ebind (read_max_runs max_runs) (\<lambda>max_runs.
     ebind (raise_if (\<exists>e \<in> set_option end_at. e \<le> reference) ScheduleInvalidError) (\<lambda>_.
       Inr \<lparr>sd_kind = schedule_kind, sd_timezone = zone, sd_cron_expression = normalized_cron,
            sd_run_at = normalized_run_at, sd_end_at = end_at, sd_max_runs = max_runs\<rparr>))))))))"

definition validate_name :: "string \<Rightarrow> string res" where
  "validate_name name =
     (let cleaned = py_strip name in
      if cleaned = [] \<or> length cleaned > max_schedule_name_length then Inl ScheduleInvalidError
      else Inr cleaned)"

section \<open>Occurrences\<close>

record occurrence_plan =
  op_next_run_at :: "time option"
  op_missed :: nat
  op_exhausted :: bool

text \<open>\<^verbatim>\<open>end_at is not None and t > end_at\<close>.\<close>

definition past_end :: "schedule_definition \<Rightarrow> time \<Rightarrow> bool" where
  "past_end d t \<longleftrightarrow> (\<exists>e \<in> set_option (sd_end_at d). t > e)"

definition cron_source_of :: "schedule_definition \<Rightarrow> string" where
  "cron_source_of d = (case sd_cron_expression d of None \<Rightarrow> [] | Some s \<Rightarrow> s)"

definition occurrences :: "tz_database \<Rightarrow> schedule_definition \<Rightarrow> time \<Rightarrow> int \<Rightarrow> time list res" where
  "occurrences tzdb d after count =
     (if sd_kind d = ONCE then
        (case sd_run_at d of
           None \<Rightarrow> Inr []
         | Some instant \<Rightarrow>
             if instant \<le> after then Inr []
             else if past_end d instant then Inr []
             else Inr [instant])
      else
        ebind (parse_cron (cron_source_of d)) (\<lambda>e.
          let limit = (case sd_max_runs d of None \<Rightarrow> count | Some m \<Rightarrow> min count m) in
          ebind (upcoming_occurrences tzdb e after (sd_timezone d) limit) (\<lambda>candidates.
            Inr (filter (\<lambda>t. \<not> past_end d t) candidates))))"

definition next_from_definition ::
  "tz_database \<Rightarrow> schedule_definition \<Rightarrow> time \<Rightarrow> time option res" where
  "next_from_definition tzdb d after =
     ebind (occurrences tzdb d after 1) (\<lambda>candidates.
       Inr (case candidates of [] \<Rightarrow> None | t # _ \<Rightarrow> Some t))"

definition first_occurrence :: "tz_database \<Rightarrow> time \<Rightarrow> schedule_definition \<Rightarrow> time res" where
  "first_occurrence tzdb clock d =
     ebind (occurrences tzdb d clock 1) (\<lambda>candidates.
       case candidates of [] \<Rightarrow> Inl ScheduleInvalidError | t # _ \<Rightarrow> Inr t)"

definition max_missed :: nat where
  "max_missed = 1000"

text \<open>The loop \<^verbatim>\<open>while missed < 1000\<close>, with \<open>n\<close> rounds left.\<close>

fun missed_loop ::
  "tz_database \<Rightarrow> cron_expression \<Rightarrow> schedule_definition \<Rightarrow> time \<Rightarrow> nat \<Rightarrow> time \<Rightarrow> nat \<Rightarrow> nat res" where
  "missed_loop tzdb e d until 0 cursor missed = Inr missed"
| "missed_loop tzdb e d until (Suc n) cursor missed =
     ebind (next_occurrence tzdb e cursor (sd_timezone d)) (\<lambda>r.
       case r of
         None \<Rightarrow> Inr missed
       | Some upcoming \<Rightarrow>
           if upcoming > until \<or> past_end d upcoming then Inr missed
           else missed_loop tzdb e d until n upcoming (missed + 1))"

definition count_missed :: "tz_database \<Rightarrow> schedule_definition \<Rightarrow> time \<Rightarrow> time \<Rightarrow> nat res" where
  "count_missed tzdb d start until =
     (if sd_kind d = ONCE then Inr 0
      else ebind (parse_cron (cron_source_of d)) (\<lambda>e. missed_loop tzdb e d until max_missed start 0))"

definition plan_occurrence ::
  "tz_database \<Rightarrow> schedule_definition \<Rightarrow> time \<Rightarrow> time \<Rightarrow> occurrence_plan res" where
  "plan_occurrence tzdb d occurrence now =
     ebind (next_from_definition tzdb d now) (\<lambda>following.
     ebind (count_missed tzdb d occurrence now) (\<lambda>missed.
       let exhausted = (sd_kind d = ONCE \<or> following = None
                        \<or> (\<exists>t \<in> set_option following. past_end d t)) in
       Inr \<lparr>op_next_run_at = following, op_missed = missed, op_exhausted = exhausted\<rparr>))"

section \<open>The state machine\<close>

text \<open>Only an archived schedule is final; \<^const>\<open>COMPLETED\<close> can still be archived.\<close>

interpretation schedule_life: lifecycle allowed_schedule_transitions "\<lambda>s. s = ARCHIVED"
  by unfold_locales simp

lemma plan_schedule_transition_Inr [simp]:
  "plan_schedule_transition s t = Inr u \<longleftrightarrow> u = t \<and> t \<in> set (allowed_schedule_transitions s)"
  by (auto simp: plan_schedule_transition_def)

section \<open>Validated definitions\<close>

definition rule_ok :: "time \<Rightarrow> schedule_kind \<Rightarrow> string option \<Rightarrow> time option \<Rightarrow> bool" where
  "rule_ok reference kind cron run_at \<longleftrightarrow>
     (if kind = CRON then run_at = None \<and>
        (\<exists>s e. cron = Some s \<and> parse_cron s = Inr e \<and> cron_text e = s)
      else cron = None \<and>
        (\<exists>t. run_at = Some t \<and> t mod usec_minute = 0 \<and> reference - past_tolerance \<le> t))"

definition wf_definition :: "time \<Rightarrow> schedule_definition \<Rightarrow> bool" where
  "wf_definition reference d \<longleftrightarrow>
     rule_ok reference (sd_kind d) (sd_cron_expression d) (sd_run_at d) \<and>
     (\<forall>n \<in> set_option (sd_max_runs d). 1 \<le> n \<and> n \<le> 100000) \<and>
     (\<forall>t \<in> set_option (sd_end_at d). reference < t) \<and>
     sd_timezone d \<noteq> [] \<and> length (sd_timezone d) \<le> 64"

lemma schedule_rule_ok:
  assumes "schedule_rule kind cron run_at reference = Inr (c, r)"
  shows "rule_ok reference kind c r"
proof (cases "kind = CRON")
  case True
  with assms obtain s e where cron: "cron = Some s" "parse_cron s = Inr e"
    and c: "c = Some (join_space (py_words s))" "r = None"
    by (auto simp: schedule_rule_def ebind_Inr_iff split: if_splits)
  have "cron_text e = join_space (py_words s)" using cron(2) by (auto simp: parse_cron_Inr_iff)
  with parse_cron_normalised [OF cron(2)] c True show ?thesis by (simp add: rule_ok_def)
next
  case False
  with assms show ?thesis
    by (auto simp: schedule_rule_def rule_ok_def floor_minute_facts Let_def
        split: if_splits option.splits)
qed

lemma read_max_runs_Inr:
  "read_max_runs v = Inr m \<Longrightarrow> (\<forall>n \<in> set_option m. 1 \<le> n \<and> n \<le> 100000)"
  by (cases v) (auto simp: read_max_runs_def split: if_splits)

lemma normalize_timezone_Inr:
  "normalize_timezone tzdb name = Inr n \<longleftrightarrow>
     n = name \<and> name \<noteq> [] \<and> length name \<le> 64 \<and> (\<exists>z. tzdb name = Inr z)"
  by (auto simp: normalize_timezone_def ebind_Inr_iff)

lemma build_definition_wf:
  assumes "build_definition tzdb clock kind tz cron run_at end_at max_runs (Some (Aware reference))
    = Inr d"
  shows "wf_definition reference d" and "\<exists>z. tzdb (sd_timezone d) = Inr z"
proof -
  from assms obtain k c r m e run where rule: "schedule_rule k cron run reference = Inr (c, r)"
    and m: "read_max_runs max_runs = Inr m" and e: "\<forall>t \<in> set_option e. reference < t"
    and tz: "normalize_timezone tzdb tz = Inr tz"
    and d: "d = \<lparr>sd_kind = k, sd_timezone = tz, sd_cron_expression = c, sd_run_at = r,
      sd_end_at = e, sd_max_runs = m\<rparr>"
    by (auto simp: build_definition_def ebind_Inr_iff normalize_timezone_Inr not_le)
  then show "wf_definition reference d" "\<exists>z. tzdb (sd_timezone d) = Inr z"
    using schedule_rule_ok [OF rule] read_max_runs_Inr [OF m]
    by (simp_all add: wf_definition_def normalize_timezone_Inr)
qed

section \<open>Planning\<close>

lemma missed_loop_takeWhile:
  assumes tz: "tzdb (sd_timezone d) = Inr z"
    and "upcoming_from tzdb e (sd_timezone d) n cursor = Inr ts"
  shows "missed_loop tzdb e d until n cursor missed
    = Inr (missed + length (takeWhile (\<lambda>t. t \<le> until \<and> \<not> past_end d t) ts))"
  using assms(2)
proof (induction n arbitrary: cursor missed ts)
  case 0
  then show ?case by simp
next
  case (Suc n)
  have nx: "next_occurrence tzdb e cursor (sd_timezone d) = Inr (next_in_zone e cursor z)"
    by (simp add: next_occurrence_def tz)
  show ?case
  proof (cases "next_in_zone e cursor z")
    case None
    with Suc.prems nx show ?thesis by simp
  next
    case (Some r)
    with Suc.prems nx obtain rest where "upcoming_from tzdb e (sd_timezone d) n r = Inr rest"
      and ts: "ts = r # rest" by (auto simp: ebind_Inr_iff)
    from Suc.IH [OF this(1)] Some nx show ?thesis by (simp add: ts not_less)
  qed
qed

lemma upcoming_occurrences_facts:
  assumes "wf_cron e" "tzdb name = Inr z" "upcoming_occurrences tzdb e after name count = Inr ts"
  shows "length ts \<le> nat count" "sorted_wrt (<) (after # ts)"
    "zone_ok z \<Longrightarrow> t \<in> set ts \<Longrightarrow> cron_fires e z t"
  using upcoming_from_facts [OF assms(1,2) assms(3) [unfolded upcoming_occurrences_def]]
  by auto

lemma occurrences_total:
  assumes "wf_definition reference d" "tzdb (sd_timezone d) = Inr z"
  shows "\<exists>ts. occurrences tzdb d after count = Inr ts"
proof (cases "sd_kind d = ONCE")
  case True
  then show ?thesis by (auto simp: occurrences_def split: option.split)
next
  case False
  then have "sd_kind d = CRON" by (cases "sd_kind d") auto
  with assms(1) obtain s e where s: "sd_cron_expression d = Some s" "parse_cron s = Inr e"
    by (auto simp: wf_definition_def rule_ok_def)
  define limit where "limit = (case sd_max_runs d of None \<Rightarrow> count | Some m \<Rightarrow> min count m)"
  obtain ts where "upcoming_occurrences tzdb e after (sd_timezone d) limit = Inr ts"
    unfolding upcoming_occurrences_def
    using upcoming_from_total [where tzdb = tzdb and name = "sd_timezone d", OF assms(2)] by blast
  with False s show ?thesis
    by (simp add: occurrences_def cron_source_of_def limit_def [symmetric])
qed

lemma occurrences_facts:
  assumes tz: "tzdb (sd_timezone d) = Inr z" and occ: "occurrences tzdb d after count = Inr ts"
    and "1 \<le> count"
  shows "sorted_wrt (<) (after # ts)" and "\<And>t. t \<in> set ts \<Longrightarrow> \<not> past_end d t"
    and "int (length ts) \<le> count"
proof -
  have "sorted_wrt (<) (after # ts) \<and> (\<forall>t \<in> set ts. \<not> past_end d t) \<and> int (length ts) \<le> count"
  proof (cases "sd_kind d = ONCE")
    case True
    with occ \<open>1 \<le> count\<close> show ?thesis
      by (auto simp: occurrences_def split: option.splits if_splits)
  next
    case False
    define limit where "limit = (case sd_max_runs d of None \<Rightarrow> count | Some m \<Rightarrow> min count m)"
    from occ False obtain e us where e: "parse_cron (cron_source_of d) = Inr e"
      and us: "upcoming_occurrences tzdb e after (sd_timezone d) limit = Inr us"
      and ts: "ts = filter (\<lambda>t. \<not> past_end d t) us"
      by (auto simp: occurrences_def limit_def ebind_Inr_iff Let_def)
    note f = upcoming_occurrences_facts [OF parse_cron_wf [OF e] tz us]
    have "limit \<le> count" by (simp add: limit_def split: option.split)
    then have "nat limit \<le> nat count" by simp
    with f(1) have "length ts \<le> nat count"
      using length_filter_le [of "\<lambda>t. \<not> past_end d t" us] unfolding ts by linarith
    moreover have "sorted_wrt (<) ts" using f(2) by (simp add: ts sorted_wrt_filter)
    ultimately show ?thesis using f(2) \<open>1 \<le> count\<close> by (auto simp: ts)
  qed
  then show "sorted_wrt (<) (after # ts)" "\<And>t. t \<in> set ts \<Longrightarrow> \<not> past_end d t"
    "int (length ts) \<le> count" by blast+
qed

lemma next_from_definition_after:
  assumes "tzdb (sd_timezone d) = Inr z" "next_from_definition tzdb d now = Inr (Some t)"
  shows "now < t" and "\<not> past_end d t"
proof -
  from assms(2) obtain us where "occurrences tzdb d now 1 = Inr us"
    and "(case us of [] \<Rightarrow> None | u # _ \<Rightarrow> Some u) = Some t"
    by (auto simp: next_from_definition_def ebind_Inr_iff)
  then obtain ts where "occurrences tzdb d now 1 = Inr (t # ts)" by (cases us) auto
  from occurrences_facts [OF assms(1) this] show "now < t" "\<not> past_end d t" by simp_all
qed

lemma count_missed_facts:
  assumes "tzdb (sd_timezone d) = Inr z" "count_missed tzdb d start until = Inr n"
  shows "n \<le> max_missed"
    and "sd_kind d = CRON \<Longrightarrow> \<exists>e ts. parse_cron (cron_source_of d) = Inr e
      \<and> upcoming_from tzdb e (sd_timezone d) max_missed start = Inr ts
      \<and> n = length (takeWhile (\<lambda>t. t \<le> until \<and> \<not> past_end d t) ts)"
proof -
  have cron: "\<exists>e ts. parse_cron (cron_source_of d) = Inr e
      \<and> upcoming_from tzdb e (sd_timezone d) max_missed start = Inr ts
      \<and> n = length (takeWhile (\<lambda>t. t \<le> until \<and> \<not> past_end d t) ts)" if "sd_kind d = CRON"
  proof -
    from assms(2) that obtain e where e: "parse_cron (cron_source_of d) = Inr e"
      and loop: "missed_loop tzdb e d until max_missed start 0 = Inr n"
      by (auto simp: count_missed_def ebind_Inr_iff)
    obtain ts where ts: "upcoming_from tzdb e (sd_timezone d) max_missed start = Inr ts"
      using upcoming_from_total [where tzdb = tzdb and name = "sd_timezone d", OF assms(1)] by blast
    from missed_loop_takeWhile [where tzdb = tzdb and d = d, OF assms(1) ts, of until 0] loop e ts
    show ?thesis by auto
  qed
  then show "sd_kind d = CRON \<Longrightarrow> \<exists>e ts. parse_cron (cron_source_of d) = Inr e
      \<and> upcoming_from tzdb e (sd_timezone d) max_missed start = Inr ts
      \<and> n = length (takeWhile (\<lambda>t. t \<le> until \<and> \<not> past_end d t) ts)" .
  show "n \<le> max_missed"
  proof (cases "sd_kind d")
    case ONCE
    with assms(2) show ?thesis by (simp add: count_missed_def)
  next
    case CRON
    with cron obtain e ts where e: "parse_cron (cron_source_of d) = Inr e"
      and ts: "upcoming_from tzdb e (sd_timezone d) max_missed start = Inr ts"
      and n: "n = length (takeWhile (\<lambda>t. t \<le> until \<and> \<not> past_end d t) ts)" by blast
    have "length ts \<le> max_missed"
      using upcoming_from_facts(1) [OF parse_cron_wf [OF e] assms(1) ts] .
    then show ?thesis using length_takeWhile_le order_trans unfolding n by blast
  qed
qed

section \<open>Idempotency keys\<close>

lemma pad2_inject:
  assumes "0 \<le> a" "a < 100" "0 \<le> b" "b < 100" "pad2 a = pad2 b"
  shows "a = b"
proof -
  have "nat a div 10 < 10" "nat b div 10 < 10" using assms by simp_all
  moreover have "dig (nat a div 10) = dig (nat b div 10)" "dig (nat a mod 10) = dig (nat b mod 10)"
    using assms(5) by (simp_all add: pad2_def)
  ultimately have "nat a div 10 = nat b div 10" "nat a mod 10 = nat b mod 10"
    using dig_val_dig by (metis, metis mod_less_divisor zero_less_numeral)
  then have "nat a = nat b" by (metis div_mult_mod_eq)
  with assms show ?thesis by simp
qed

lemma append_dash_inject:
  assumes "CHR ''-'' \<notin> set a" "CHR ''-'' \<notin> set b" "a @ CHR ''-'' # s = b @ CHR ''-'' # t"
  shows "a = b \<and> s = t"
  using assms by (induction a arbitrary: b) (case_tac b, auto)+

lemma length_pad2 [simp]: "length (pad2 n) = 2"
  by (simp add: pad2_def)

lemma clock_parts:
  fixes s s' :: int
  assumes "s div 3600 = s' div 3600" "s div 60 mod 60 = s' div 60 mod 60" "s mod 60 = s' mod 60"
  shows "s = s'"
proof -
  have h: "x div 60 div 60 = x div 3600" for x :: int by (simp add: zdiv_zmult2_eq [symmetric])
  have "s div 60 = s' div 60" using assms(1,2) h by (metis div_mult_mod_eq)
  with assms(3) show ?thesis by (metis div_mult_mod_eq)
qed

lemma clock_text_inject:
  fixes s s' :: int
  assumes "0 \<le> s" "s < 86400" "0 \<le> s'" "s' < 86400" "pad2 (s div 3600) = pad2 (s' div 3600)"
    "pad2 (s div 60 mod 60) = pad2 (s' div 60 mod 60)" "pad2 (s mod 60) = pad2 (s' mod 60)"
  shows "s = s'"
proof -
  have r: "0 \<le> x mod 60" "x mod 60 < 100" for x :: int
    using pos_mod_bound [of 60 x] pos_mod_sign [of 60 x] by linarith+
  have h: "0 \<le> s div 3600" "s div 3600 < 100" "0 \<le> s' div 3600" "s' div 3600 < 100"
    using assms(1-4) by auto
  have "s div 3600 = s' div 3600" using pad2_inject [OF h assms(5)] .
  moreover have "s div 60 mod 60 = s' div 60 mod 60" using pad2_inject [OF r r assms(6)] .
  moreover have "s mod 60 = s' mod 60" using pad2_inject [OF r r assms(7)] .
  ultimately show ?thesis by (rule clock_parts)
qed

lemma civil_bounds:
  "1 \<le> civil_month n" "civil_month n \<le> 12" "1 \<le> civil_day n" "civil_day n \<le> 31"
  using civil_correct [of n "civil_year n" "civil_month n" "civil_day n"]
  by (simp_all add: civil_year_def civil_month_def civil_day_def)

lemma civil_parts_inject:
  "civil_year m = civil_year n \<Longrightarrow> civil_month m = civil_month n \<Longrightarrow> civil_day m = civil_day n \<Longrightarrow> m = n"
  using civil_inject [of m n] by (simp add: civil_year_def civil_month_def civil_day_def prod_eq_iff)

lemma civil_year_nonneg:
  assumes "0 \<le> n"
  shows "0 \<le> civil_year n"
proof -
  have "0 \<le> n div 146097" "0 \<le> n mod 146097 div 36524" "0 \<le> n mod 146097 mod 36524 div 1461"
    "0 \<le> n mod 146097 mod 36524 mod 1461 div 365"
    using assms by (simp_all add: pos_imp_zdiv_nonneg_iff)
  then have y: "1 \<le> n div 146097 * 400 + n mod 146097 div 36524 * 100
      + n mod 146097 mod 36524 div 1461 * 4 + n mod 146097 mod 36524 mod 1461 div 365 + 1"
    by linarith
  have "0 \<le> fst (if c then (y - 1, 12, 31) else (case p of (m, d) \<Rightarrow> (y, m, d)))"
    if "1 \<le> y" for c and y :: int and p :: "int \<times> int"
    using that by (simp split: prod.split)
  from this [OF y] show ?thesis unfolding civil_year_def civil_def Let_def .
qed

lemma utc_stamp_inject:
  assumes "0 \<le> t" "0 \<le> u" "utc_stamp t = utc_stamp u"
  shows "t div usec_second = u div usec_second"
proof -
  let ?d = "\<lambda>t. t div usec_day" and ?s = "\<lambda>t. t mod usec_day div usec_second"
  let ?rest = "\<lambda>t. pad2 (civil_month (?d t)) @ CHR ''-'' # pad2 (civil_day (?d t))
      @ CHR ''T'' # pad2 (?s t div 3600) @ CHR '':'' # pad2 (?s t div 60 mod 60)
      @ CHR '':'' # pad2 (?s t mod 60) @ ''Z''"
  have nn: "0 \<le> ?d t" "0 \<le> ?d u" using assms by (simp_all add: pos_imp_zdiv_nonneg_iff)
  have eq: "show_nat (nat (civil_year (?d t))) @ CHR ''-'' # ?rest t
      = show_nat (nat (civil_year (?d u))) @ CHR ''-'' # ?rest u"
    using assms(3) unfolding utc_stamp_def Let_def .
  have nodash: "CHR ''-'' \<notin> set (show_nat n)" for n by (rule show_nat_no_dash)
  from append_dash_inject [OF nodash nodash eq]
  have y: "nat (civil_year (?d t)) = nat (civil_year (?d u))" and rest: "?rest t = ?rest u" by simp_all
  have year: "civil_year (?d t) = civil_year (?d u)"
    using y civil_year_nonneg [OF nn(1)] civil_year_nonneg [OF nn(2)] by simp
  have parts: "pad2 (civil_month (?d t)) = pad2 (civil_month (?d u))"
    "pad2 (civil_day (?d t)) = pad2 (civil_day (?d u))" "pad2 (?s t div 3600) = pad2 (?s u div 3600)"
    "pad2 (?s t div 60 mod 60) = pad2 (?s u div 60 mod 60)" "pad2 (?s t mod 60) = pad2 (?s u mod 60)"
    using rest by (simp_all only: append_eq_append_conv length_pad2 list.inject simp_thms append_same_eq)
  have sod: "0 \<le> ?s x \<and> ?s x < 86400" for x :: int
  proof -
    have "0 \<le> x mod usec_day" "x mod usec_day < usec_day" by simp_all
    then show ?thesis by auto
  qed
  have sec: "0 \<le> ?s t" "?s t < 86400" "0 \<le> ?s u" "?s u < 86400"
    using sod [of t] sod [of u] by blast+
  have "?d t = ?d u"
    using civil_parts_inject [OF year] parts(1,2) civil_bounds [of "?d t"] civil_bounds [of "?d u"]
    by (smt (verit) pad2_inject)
  moreover have "?s t = ?s u"
    using clock_text_inject [OF sec parts(3,4,5)] .
  moreover have "x div usec_second = ?d x * 86400 + ?s x" for x :: int
  proof -
    have "x = x mod usec_day + (?d x * 86400) * usec_second"
      using div_mult_mod_eq [of x usec_day] by simp
    then have "x div usec_second = (x mod usec_day + (?d x * 86400) * usec_second) div usec_second"
      by (rule arg_cong)
    then show ?thesis by (subst (asm) div_mult_self1) simp_all
  qed
  ultimately show ?thesis by metis
qed

end
