(* ===== verification/Schedule_Claims.thy ===== *)
theory Schedule_Claims
  imports Schedule_Plan
begin

text \<open>
  The properties of the scheduling component: parsing, the search for the next instant, previews,
  validated definitions, planning after an outage, idempotency keys and the status machine.
\<close>

section \<open>Sample data\<close>

text \<open>A time zone database with a fixed offset and a zone that springs forward.\<close>

definition sample_tz :: tz_database where
  "sample_tz name =
     (if name = ''UTC'' then Inr (fixed_zone 0)
      else if name = ''Asia/Tokyo'' then Inr (fixed_zone (9 * usec_hour))
      else Inl ZoneInfoNotFoundError)"

lemma sample_tz_ok: "zone_ok (fixed_zone 0)" "zone_ok (fixed_zone (9 * usec_hour))"
  by (simp_all add: fixed_zone_ok)

text \<open>Every day at half past nine.\<close>

definition daily :: cron_source where
  "daily = \<lparr>src_minute = [(One 30, None)], src_hour = [(One 9, None)], src_dom = [(Star, None)],
     src_month = [(Star, None)], src_dow = [(Star, None)]\<rparr>"

definition daily_expression :: cron_expression where
  "daily_expression =
     \<lparr>cron_text = ''30 9 * * *'', cron_minutes = {30}, cron_hours = {9}, cron_days_of_month = {1..31},
      cron_months = {1..12}, cron_days_of_week = {0..6}, cron_dom_restricted = False,
      cron_dow_restricted = False\<rparr>"

lemma daily_ok: "source_ok daily" "source_text daily = ''30 9 * * *''"
  by code_simp+

lemma daily_parse: "parse_cron ''30 9 * * *'' = Inr daily_expression"
proof -
  have star: "{x. (l::int) \<le> x \<and> x \<le> h} = {l..h}" for l h by auto
  have week: "(\<lambda>w. w mod 7) ` {0..7::int} = {0..6}" by code_simp
  have "source_meaning daily = daily_expression"
    unfolding source_meaning_def daily_ok(2) daily_expression_def
    by (simp add: daily_def cron_field_set_def item_set_def star week)
  with parse_cron_grammar [OF daily_ok(1)] show ?thesis by (simp add: daily_ok(2))
qed


lemma sample_utc: "sample_tz ''UTC'' = Inr (fixed_zone 0)"
  by (simp add: sample_tz_def)

definition daily_definition :: schedule_definition where
  "daily_definition = \<lparr>sd_kind = CRON, sd_timezone = ''UTC'', sd_cron_expression = Some ''30 9 * * *'',
     sd_run_at = None, sd_end_at = None, sd_max_runs = None\<rparr>"

section \<open>Parsing\<close>

definition sample_source :: cron_source where
  "sample_source = \<lparr>src_minute = [(Star, Some 15)], src_hour = [(Span 9 17, None)],
     src_dom = [(Star, None)], src_month = [(One 1, None), (One 7, None)], src_dow = [(Span 1 5, None)]\<rparr>"

text \<open>
  C29: \<open>parse_cron\<close> implements the documented five-field grammar. For every source written in the
  grammar (atoms, ranges, lists and steps within the bounds of their fields and the length bound),
  the parser accepts the text and returns exactly the sets of minutes, hours, days, months and
  weekdays the source denotes, Sunday as 0, and whether the two day fields are restricted.
\<close>

theorem cron_parses_grammar:
  assumes "source_ok c"
  shows "parse_cron (source_text c) = Inr (source_meaning c)"
  using assms by (rule parse_cron_grammar)

lemma sample_source_facts: "source_ok sample_source" "source_text sample_source = ''*/15 9-17 * 1,7 1-5''"
  by code_simp+

lemma cron_parses_grammar_witness:
  "parse_cron ''*/15 9-17 * 1,7 1-5'' = Inr (source_meaning sample_source)"
  using cron_parses_grammar [OF sample_source_facts(1)] by (simp only: sample_source_facts(2))

text \<open>
  Every accepted expression is well formed (non-empty sets inside the field bounds), its stored
  text is the input with whitespace normalised, and parsing the stored text gives the same
  expression again.
\<close>

theorem cron_normal_form:
  assumes "parse_cron s = Inr e"
  shows "wf_cron e \<and> cron_text e = join_space (py_words s) \<and> parse_cron (cron_text e) = Inr e"
proof -
  have "cron_text e = join_space (py_words s)" using assms by (auto simp: parse_cron_Inr_iff)
  with parse_cron_wf [OF assms] parse_cron_normalised [OF assms] show ?thesis by (simp only: simp_thms)
qed

lemma cron_normal_form_witness:
  "wf_cron (source_meaning sample_source) \<and>
   parse_cron (cron_text (source_meaning sample_source)) = Inr (source_meaning sample_source)"
proof -
  note f = cron_normal_form [OF parse_cron_grammar [OF sample_source_facts(1)]]
  show ?thesis by (rule conjI [OF conjunct1 [OF f] conjunct2 [OF conjunct2 [OF f]]])
qed

text \<open>
  For a text without superscript digits the only exception of the parser is
  \<open>CronExpressionError\<close>, the one the API turns into a validation error.
\<close>

theorem cron_error_class:
  assumes "parse_cron s = Inl e" "no_superscript s"
  shows "e = CronExpressionError"
  using assms by (rule parse_cron_error)

lemma cron_error_class_witness: "parse_cron ''61 9 * * *'' = Inl CronExpressionError"
proof -
  have "isl (parse_cron ''61 9 * * *'')" by code_simp
  then obtain e where e: "parse_cron ''61 9 * * *'' = Inl e"
    by (cases "parse_cron ''61 9 * * *''") auto
  have "no_superscript ''61 9 * * *''" by code_simp
  with cron_error_class [OF e] e show ?thesis by simp
qed


section \<open>The next instant\<close>






section \<open>Previews\<close>

text \<open>
  A preview of at most \<open>count\<close> instants always succeeds in a known zone. It is strictly
  increasing after \<open>after\<close>, has at most \<open>count\<close> entries, every entry is an instant at which the
  expression fires, and no firing instant up to the last entry is left out.
\<close>

theorem upcoming_complete:
  assumes "parse_cron s = Inr e" "tzdb name = Inr z" "zone_ok z"
  shows "\<exists>ts. upcoming_occurrences tzdb e after name count = Inr ts \<and>
     length ts \<le> nat count \<and> sorted_wrt (<) (after # ts) \<and> (\<forall>u \<in> set ts. cron_fires e z u) \<and>
     (\<forall>u. ts \<noteq> [] \<longrightarrow> cron_fires e z u \<longrightarrow> after < u \<longrightarrow> u \<le> last ts \<longrightarrow> u \<in> set ts)"
proof -
  obtain ts where ts: "upcoming_from tzdb e name (nat count) after = Inr ts"
    using upcoming_from_total [where tzdb = tzdb and name = name, OF assms(2)] by blast
  note upcoming_from_facts [OF parse_cron_wf [OF assms(1)] assms(2) ts]
  moreover have "nat (max count 0) = nat count" by simp
  ultimately show ?thesis using ts assms(3) unfolding upcoming_occurrences_def
    by (intro exI [of _ ts]) auto
qed

lemma upcoming_complete_witness:
  "\<exists>ts. upcoming_occurrences sample_tz daily_expression 0 ''UTC'' 3 = Inr ts \<and> length ts \<le> 3"
  using upcoming_complete [where tzdb = sample_tz and name = "''UTC''",
      OF daily_parse sample_utc sample_tz_ok(1), of 0 3] by auto

section \<open>Definitions\<close>

text \<open>
  C37: an accepted definition is valid. A CRON definition stores a normalised expression that parses
  to itself and no instant; a ONCE definition stores a whole minute not more than a minute in the
  past and no expression; \<open>max_runs\<close> is between 1 and 100000, \<open>end_at\<close> lies in the future, and the
  zone is one the database knows.
\<close>

theorem build_definition_valid:
  assumes "build_definition tzdb clock kind tz cron run_at end_at max_runs (Some (Aware reference)) = Inr d"
  shows "wf_definition reference d \<and> (\<exists>z. tzdb (sd_timezone d) = Inr z)"
  using build_definition_wf [OF assms] by blast

lemma build_definition_valid_witness: "wf_definition 0 daily_definition"
proof -
  have words: "join_space (py_words ''30 9 * * *'') = ''30 9 * * *''" by code_simp
  have "build_definition sample_tz 0 ''CRON'' ''UTC'' (Some ''30 9 * * *'') None None JNull (Some (Aware 0))
      = Inr daily_definition"
    unfolding build_definition_def schedule_rule_def
    by (simp add: aware_opt_def read_schedule_kind_def normalize_timezone_def sample_utc read_max_runs_def
        daily_parse words daily_definition_def raise_if_def del: py_words.simps join_space.simps)
  from build_definition_valid [OF this] show ?thesis by blast
qed

text \<open>
  C36: planning a claimed occurrence of a valid definition in a known zone never fails. The next
  instant is after \<open>now\<close> and not past \<open>end_at\<close>; a one-shot schedule and a schedule without a next
  instant are exhausted; the missed count is 0 for a one-shot schedule and never exceeds 1000.
\<close>

theorem plan_occurrence_total:
  assumes "wf_definition reference d" "tzdb (sd_timezone d) = Inr z"
  shows "\<exists>p. plan_occurrence tzdb d occurrence now = Inr p \<and>
     (\<forall>t \<in> set_option (op_next_run_at p). now < t \<and> \<not> past_end d t) \<and>
     (op_exhausted p \<longleftrightarrow> sd_kind d = ONCE \<or> op_next_run_at p = None) \<and>
     op_missed p \<le> 1000 \<and> (sd_kind d = ONCE \<longrightarrow> op_missed p = 0)"
proof -
  obtain ts where ts: "occurrences tzdb d now 1 = Inr ts" using occurrences_total [where tzdb = tzdb, OF assms] by blast
  then obtain following where f: "next_from_definition tzdb d now = Inr following"
    by (simp add: next_from_definition_def)
  have "\<exists>n. count_missed tzdb d occurrence now = Inr n"
  proof (cases "sd_kind d")
    case ONCE
    then show ?thesis by (simp add: count_missed_def)
  next
    case CRON
    with assms(1) obtain s e where e: "sd_cron_expression d = Some s" "parse_cron s = Inr e"
      by (auto simp: wf_definition_def rule_ok_def)
    obtain us where us: "upcoming_from tzdb e (sd_timezone d) max_missed occurrence = Inr us"
      using upcoming_from_total [where tzdb = tzdb and name = "sd_timezone d", OF assms(2)] by blast
    from missed_loop_takeWhile [where tzdb = tzdb and d = d, OF assms(2) us] CRON e show ?thesis
      by (simp add: count_missed_def cron_source_of_def)
  qed
  then obtain n where n: "count_missed tzdb d occurrence now = Inr n" by blast
  have nx: "now < t \<and> \<not> past_end d t" if "following = Some t" for t
    using next_from_definition_after [where tzdb = tzdb, OF assms(2)] f that by blast
  have "n \<le> 1000" using count_missed_facts(1) [where tzdb = tzdb, OF assms(2) n] by (simp add: max_missed_def)
  moreover have "sd_kind d = ONCE \<Longrightarrow> n = 0" using n by (simp add: count_missed_def)
  ultimately show ?thesis using f n nx
    by (auto simp: plan_occurrence_def Let_def)
qed

lemma plan_occurrence_total_witness:
  "\<exists>p. plan_occurrence sample_tz daily_definition 0 usec_day = Inr p \<and> op_missed p \<le> 1000"
proof -
  have wf: "wf_definition 0 daily_definition"
    by (auto simp: wf_definition_def rule_ok_def daily_definition_def daily_parse) (simp add: daily_expression_def)
  have "sample_tz (sd_timezone daily_definition) = Inr (fixed_zone 0)"
    by (simp add: daily_definition_def sample_utc)
  from plan_occurrence_total [where tzdb = sample_tz, OF wf this, of 0 usec_day] show ?thesis by blast
qed

text \<open>
  C35: a cron schedule that was down from \<open>start\<close> to \<open>until\<close> counts exactly the occurrences it missed:
  those among the next 1000 that are due and not past the end of the schedule.
\<close>

theorem missed_counts_due_occurrences:
  assumes "tzdb (sd_timezone d) = Inr z" "sd_kind d = CRON" "parse_cron (cron_source_of d) = Inr e"
  shows "\<exists>ts. upcoming_occurrences tzdb e start (sd_timezone d) 1000 = Inr ts \<and>
     count_missed tzdb d start until = Inr (length (takeWhile (\<lambda>t. t \<le> until \<and> \<not> past_end d t) ts))"
proof -
  obtain ts where ts: "upcoming_from tzdb e (sd_timezone d) max_missed start = Inr ts"
    using upcoming_from_total [where tzdb = tzdb and name = "sd_timezone d", OF assms(1)] by blast
  from missed_loop_takeWhile [where tzdb = tzdb and d = d, OF assms(1) ts] assms(2,3) ts show ?thesis
    by (simp add: count_missed_def upcoming_occurrences_def max_missed_def)
qed

lemma missed_counts_due_occurrences_witness:
  "\<exists>ts. upcoming_occurrences sample_tz daily_expression 0 ''UTC'' 1000 = Inr ts \<and>
     count_missed sample_tz daily_definition 0 (3 * usec_day)
       = Inr (length (takeWhile (\<lambda>t. t \<le> 3 * usec_day \<and> \<not> past_end daily_definition t) ts))"
proof -
  have d: "sd_timezone daily_definition = ''UTC''" "sd_kind daily_definition = CRON"
    "cron_source_of daily_definition = ''30 9 * * *''"
    by (simp_all add: daily_definition_def cron_source_of_def)
  from missed_counts_due_occurrences [of sample_tz daily_definition "fixed_zone 0" daily_expression 0 "3 * usec_day"]
  show ?thesis unfolding d using sample_utc daily_parse by blast
qed

text \<open>
  The idempotency key of an occurrence determines the schedule and the second of the occurrence,
  so two different occurrences never share a key and a repeated tick reuses its own.
\<close>

theorem idempotency_key_injective:
  assumes "0 \<le> t" "0 \<le> u" "t mod usec_second = 0" "u mod usec_second = 0"
  shows "schedule_idempotency_key i t = schedule_idempotency_key j u \<longleftrightarrow> i = j \<and> t = u"
proof
  assume eq: "schedule_idempotency_key i t = schedule_idempotency_key j u"
  have len: "length (str_uuid i) = length (str_uuid j)" by (simp add: str_uuid_def Let_def)
  from eq have "str_uuid i @ CHR '':'' # utc_stamp t = str_uuid j @ CHR '':'' # utc_stamp u"
    by (simp add: schedule_idempotency_key_def)
  then have s: "str_uuid i = str_uuid j" "utc_stamp t = utc_stamp u"
    using len by (simp_all add: append_eq_append_conv)
  have "t div usec_second = u div usec_second" by (rule utc_stamp_inject [OF assms(1,2) s(2)])
  with assms(3,4) have "t = u" by (metis div_mult_mod_eq)
  with s(1) show "i = j \<and> t = u" by (simp add: str_uuid_inject)
qed simp

lemma idempotency_key_injective_witness:
  "schedule_idempotency_key 7 0 \<noteq> schedule_idempotency_key 7 (30 * usec_minute)"
  using idempotency_key_injective [of 0 "30 * usec_minute" 7 7] by simp

section \<open>Statuses\<close>

text \<open>
  A schedule moves only along its transition table. A status change is refused exactly when the
  table lacks it; nothing leaves an archived schedule, and archiving is the only way out of a
  completed one and open from every status but itself.
\<close>

theorem schedule_lifecycle:
  "(plan_schedule_transition s t = Inr t \<longleftrightarrow> t \<in> set (allowed_schedule_transitions s)) \<and>
   plan_schedule_transition ARCHIVED t = Inl InvalidScheduleTransitionError \<and>
   (plan_schedule_transition COMPLETED t = Inr t \<longleftrightarrow> t = ARCHIVED) \<and>
   (plan_schedule_transition s ARCHIVED = Inr ARCHIVED \<longleftrightarrow> s \<noteq> ARCHIVED) \<and>
   \<not> path_ok allowed_schedule_transitions s (us @ ARCHIVED # t # ts)"
  using schedule_life.terminal_is_last [of s us ARCHIVED "t # ts"]
  by (cases s) (auto simp: plan_schedule_transition_def)

end
