(* ===== verification/Run_Domain.thy ===== *)
theory Run_Domain
  imports Json Pytime
begin

text \<open>
  \<^verbatim>\<open>runs/domain.py\<close>: the statuses of runs, attempts, segments, sessions and interactions, the run
  state machine and the small pure rules on identities. The enumerations keep the source's names;
  where two of them share a name the attempt's, segment's or interaction's carries a prefix.
\<close>

section \<open>Statuses\<close>

datatype run_status =
    QUEUED | PREPARING | RUNNING | RETRY_PENDING | WAITING_FOR_INPUT | WAITING_FOR_APPROVAL
  | WAITING_PERMISSION | SUCCEEDED | FAILED | CANCELLED

datatype attempt_status =
    ATT_CREATED | ATT_LEASED | ATT_RUNNING | ATT_DEFERRED | ATT_SUCCEEDED | ATT_FAILED
  | ATT_CANCELLED | ATT_LEASE_EXPIRED

datatype segment_status =
  SEG_CREATED | SEG_RUNNING | SEG_WAITING | SEG_COMPLETED | SEG_FAILED | SEG_CANCELLED

datatype segment_trigger =
  TRIG_INITIAL | INTERACTION_RESPONSE | INTERACTION_TIMEOUT | APPROVAL_RESPONSE | APPROVAL_TIMEOUT

datatype continuation_mode = INITIAL | RESUME | FORK | REPLACE | BRANCH

datatype session_kind = PRIMARY | SUBAGENT

datatype interaction_type = CLARIFICATION | CHOICE | REVIEW | EFFECT_APPROVAL

datatype interaction_status = INT_OPEN | INT_RESPONDED | INT_EXPIRED | INT_CANCELLED

datatype cancellation_state = CANCEL_REQUESTED | CANCEL_DONE

definition terminal_run_statuses :: "run_status list" where
  "terminal_run_statuses = [SUCCEEDED, FAILED, CANCELLED]"

fun allowed_run_transitions :: "run_status \<Rightarrow> run_status list" where
  "allowed_run_transitions QUEUED = [PREPARING, CANCELLED]"
| "allowed_run_transitions PREPARING = [RUNNING, RETRY_PENDING, FAILED, CANCELLED]"
| "allowed_run_transitions RUNNING =
     [RETRY_PENDING, WAITING_FOR_INPUT, WAITING_FOR_APPROVAL, WAITING_PERMISSION, SUCCEEDED,
      FAILED, CANCELLED]"
| "allowed_run_transitions RETRY_PENDING = [PREPARING, FAILED, CANCELLED]"
| "allowed_run_transitions WAITING_PERMISSION = [QUEUED, PREPARING, FAILED, CANCELLED]"
| "allowed_run_transitions WAITING_FOR_INPUT = [QUEUED, FAILED, CANCELLED]"
| "allowed_run_transitions WAITING_FOR_APPROVAL = [QUEUED, FAILED, CANCELLED]"
| "allowed_run_transitions SUCCEEDED = []"
| "allowed_run_transitions FAILED = []"
| "allowed_run_transitions CANCELLED = []"

definition is_terminal :: "run_status \<Rightarrow> bool" where
  "is_terminal s \<longleftrightarrow> s \<in> set terminal_run_statuses"

lemma is_terminal_simps [simp]:
  "is_terminal s \<longleftrightarrow> s = SUCCEEDED \<or> s = FAILED \<or> s = CANCELLED"
  by (simp add: is_terminal_def terminal_run_statuses_def)

section \<open>Transitions\<close>

record run_transition =
  tr_status :: run_status
  tr_row_version :: int
  tr_started_at :: "time option"
  tr_finished_at :: "time option"

definition plan_run_transition ::
  "run_status \<Rightarrow> run_status \<Rightarrow> int \<Rightarrow> time option \<Rightarrow> time option \<Rightarrow> time \<Rightarrow> run_transition res" where
  "plan_run_transition current target row_version started_at finished_at now =
     (if target \<notin> set (allowed_run_transitions current) then Inl InvalidRunTransitionError
      else
        let next_started_at = (if target = RUNNING \<and> started_at = None then Some now else started_at);
            next_finished_at = (if is_terminal target then Some now else finished_at)
        in Inr \<lparr>tr_status = target, tr_row_version = row_version + 1,
                tr_started_at = next_started_at, tr_finished_at = next_finished_at\<rparr>)"

lemma plan_run_transition_Inr:
  "plan_run_transition s t v st fi now = Inr tr \<longleftrightarrow>
     t \<in> set (allowed_run_transitions s) \<and>
     tr = \<lparr>tr_status = t, tr_row_version = v + 1,
           tr_started_at = (if t = RUNNING \<and> st = None then Some now else st),
           tr_finished_at = (if is_terminal t then Some now else fi)\<rparr>"
  by (auto simp: plan_run_transition_def Let_def)

lemma plan_run_transition_Inl [simp]:
  "plan_run_transition s t v st fi now = Inl e \<longleftrightarrow>
     t \<notin> set (allowed_run_transitions s) \<and> e = InvalidRunTransitionError"
  by (auto simp: plan_run_transition_def Let_def)

interpretation run_life: lifecycle allowed_run_transitions is_terminal
  by unfold_locales auto

text \<open>A run whose timestamps agree with its status; every allowed transition keeps this.\<close>

definition run_times_ok :: "run_status \<Rightarrow> time option \<Rightarrow> time option \<Rightarrow> bool" where
  "run_times_ok s started finished \<longleftrightarrow>
     (finished \<noteq> None \<longleftrightarrow> is_terminal s) \<and>
     (s \<in> {RUNNING, WAITING_FOR_INPUT, WAITING_FOR_APPROVAL, WAITING_PERMISSION, SUCCEEDED}
        \<longrightarrow> started \<noteq> None)"

lemma run_times_kept:
  assumes "run_times_ok s st fi" and "plan_run_transition s t v st fi now = Inr tr"
  shows "run_times_ok (tr_status tr) (tr_started_at tr) (tr_finished_at tr)"
  using assms by (cases s) (auto simp: plan_run_transition_Inr run_times_ok_def)

section \<open>Identities\<close>

text \<open>
  \<^verbatim>\<open>uuid5(NAMESPACE_URL, name)\<close>: \<open>sha1\<close> gives the leading 128 bits of the SHA-1 digest of the
  namespace bytes followed by the name, into which the version and variant bits are written.
\<close>

type_synonym digest128 = "string \<Rightarrow> uuid"

definition uuid5_url :: "digest128 \<Rightarrow> string \<Rightarrow> uuid" where
  "uuid5_url sha1 name =
     (let i = sha1 name;
          i = or (and i (not (push_bit 48 0xC000))) (push_bit 48 0x8000);
          i = or (and i (not (push_bit 64 0xF000))) (push_bit 76 5)
      in i)"

definition derive_task_id :: "digest128 \<Rightarrow> uuid \<Rightarrow> string \<Rightarrow> uuid" where
  "derive_task_id sha1 skill_version_id task_key =
     uuid5_url sha1 (''skillmind:task:'' @ str_uuid skill_version_id @ CHR '':'' # task_key)"

definition lease_token_hash :: "digest \<Rightarrow> string \<Rightarrow> string" where
  "lease_token_hash sha lease_token = sha256_hex sha lease_token"

section \<open>Values passed between the components\<close>

record created_run =
  cr_run_id :: uuid
  cr_project_id :: uuid
  cr_task_id :: uuid
  cr_status :: run_status
  cr_row_version :: int
  cr_created_at :: time
  cr_idempotent_replay :: bool

record cancelled_run =
  cn_run :: created_run
  cn_cancellation :: cancellation_state

record claimed_run =
  cl_run_id :: uuid
  cl_run_attempt_id :: uuid
  cl_project_id :: uuid
  cl_actor_id :: uuid
  cl_attempt_no :: int
  cl_lease_token :: string
  cl_lease_expires_at :: time
  cl_row_version :: int
  cl_input_json :: json
  cl_task_snapshot_json :: json
  cl_permission_snapshot_json :: json
  cl_selected_sources_json :: json
  cl_limits_snapshot_json :: json
  cl_skill_snapshots_json :: "json list"
  cl_run_segment_id :: "uuid option"
  cl_segment_no :: int
  cl_continuation_mode :: continuation_mode
  cl_parent_agent_session_id :: "uuid option"
  cl_parent_sdk_session_id :: "uuid option"
  cl_parent_run_attempt_id :: "uuid option"
  cl_checkpoint_json :: "json option"
  cl_checkpoint_checksum :: "string option"
  cl_segment_objective_json :: "json option"
  cl_frozen_brief_json :: "json option"
  cl_frozen_brief_checksum :: string

record prepared_execution =
  px_row_version :: int
  px_next_sequence :: int

record session_metadata =
  sm_cwd :: string
  sm_engine :: string
  sm_sdk_version :: string
  sm_cli_version :: string
  sm_model :: string
  sm_session_kind :: session_kind
  sm_parent_session_id :: "uuid option"
  sm_continuation_mode :: continuation_mode
  sm_checkpoint_checksum :: "string option"
  sm_engine_options_checksum :: "string option"

record run_result_record =
  rs_output_schema :: string
  rs_result_kind :: string
  rs_data :: json
  rs_evidence_refs :: "string list"
  rs_artifact_refs :: "string list"
  rs_change_proposal_refs :: "string list"
  rs_optional_schema_identity :: json
  rs_summary :: string
  rs_confidence :: "rat option"
  rs_needs_review :: bool
  rs_usage :: json
  rs_cost :: json
  rs_validation :: json

fun run_status_text :: "run_status \<Rightarrow> string" where
  "run_status_text QUEUED = ''QUEUED''"
| "run_status_text PREPARING = ''PREPARING''"
| "run_status_text RUNNING = ''RUNNING''"
| "run_status_text RETRY_PENDING = ''RETRY_PENDING''"
| "run_status_text WAITING_FOR_INPUT = ''WAITING_FOR_INPUT''"
| "run_status_text WAITING_FOR_APPROVAL = ''WAITING_FOR_APPROVAL''"
| "run_status_text WAITING_PERMISSION = ''WAITING_PERMISSION''"
| "run_status_text SUCCEEDED = ''SUCCEEDED''"
| "run_status_text FAILED = ''FAILED''"
| "run_status_text CANCELLED = ''CANCELLED''"

fun trigger_text :: "segment_trigger \<Rightarrow> string" where
  "trigger_text TRIG_INITIAL = ''INITIAL''"
| "trigger_text INTERACTION_RESPONSE = ''INTERACTION_RESPONSE''"
| "trigger_text INTERACTION_TIMEOUT = ''INTERACTION_TIMEOUT''"
| "trigger_text APPROVAL_RESPONSE = ''APPROVAL_RESPONSE''"
| "trigger_text APPROVAL_TIMEOUT = ''APPROVAL_TIMEOUT''"

end
