(* ===== verification/Canonical.thy ===== *)
theory Canonical
  imports Json
begin

text \<open>
  The canonical text of \<^verbatim>\<open>core/hashing.py\<close> identifies a JSON value up to the order of object keys:
  two values have the same text exactly if their canonical forms are equal. Every fingerprint and
  checksum of the program is a digest of such a text.

  \<open>rv\<close> is the value a float's \<^verbatim>\<open>repr\<close> stands for; \<^verbatim>\<open>repr\<close> of a finite float is a token of digits,
  signs, a point or an exponent, and determines the float.
\<close>

section \<open>Sorting objects by key\<close>

lemma insort_key_map:
  assumes "\<And>p. fst (h p) = fst p"
  shows "insort_key fst (h x) (map h xs) = map h (insort_key fst x xs)"
  by (induction xs) (simp_all add: assms)

lemma sort_key_map:
  assumes "\<And>p. fst (h p) = fst p"
  shows "sort_key fst (map h xs) = map h (sort_key fst xs)"
  by (induction xs) (simp_all add: insort_key_map assms)

lemma sort_key_map_snd:
  "sort_key fst (map (map_prod id f) xs) = map (map_prod id f) (sort_key fst xs)"
  by (rule sort_key_map) simp

definition field_text :: "string \<times> json \<Rightarrow> string" where
  "field_text p = json_quote (fst p) @ CHR '':'' # canonical_json (snd p)"

lemma canonical_json_obj:
  "canonical_json (JObj kvs) = ''{'' @ join_comma (map field_text (sort_key fst kvs)) @ ''}''"
proof -
  have "map (\<lambda>(k, t). json_quote k @ CHR '':'' # t) (map (map_prod id canonical_json) ps)
      = map field_text ps" for ps
    by (simp add: comp_def case_prod_beta field_text_def)
  then show ?thesis by (simp only: canonical_json.simps sort_key_map_snd)
qed

lemma canon_obj: "canon (JObj kvs) = JObj (map (map_prod id canon) (sort_key fst kvs))"
  by (simp only: canon.simps sort_key_map_snd)

declare canonical_json.simps(7) [simp del] canon.simps(7) [simp del]

lemma sort_key_idem: "sort_key fst (sort_key fst kvs) = sort_key fst (kvs :: (string \<times> 'a) list)"
  by (rule sort_key_id_if_sorted) simp

lemma canonical_json_canon: "canonical_json (canon v) = canonical_json v"
proof (induction v)
  case (JArr js)
  then have "map canonical_json (map canon js) = map canonical_json js" by simp
  then show ?case by (simp only: canon.simps canonical_json.simps)
next
  case (JObj kvs)
  let ?xs = "sort_key fst kvs" and ?c = "map_prod id canon"
  have "sort_key fst (map ?c ?xs) = map ?c ?xs"
    by (simp only: sort_key_map_snd sort_key_idem)
  moreover have "map field_text (map ?c ?xs) = map field_text ?xs"
    using JObj by (fastforce simp: field_text_def snds.simps)
  ultimately show ?case
    by (simp only: canon_obj canonical_json_obj)
qed simp_all

section \<open>Tokens\<close>

definition num_char :: "char \<Rightarrow> bool" where
  "num_char c \<longleftrightarrow> ascii_digit c \<or> c \<in> set ''+-.e''"

text \<open>\<^verbatim>\<open>repr\<close> of a finite float.\<close>

definition float_text :: "string \<Rightarrow> bool" where
  "float_text t \<longleftrightarrow> t \<noteq> [] \<and> list_all num_char t \<and> (CHR ''.'' \<in> set t \<or> CHR ''e'' \<in> set t)"

primrec json_ok :: "(string \<Rightarrow> rat) \<Rightarrow> json \<Rightarrow> bool" where
  "json_ok rv JNull = True"
| "json_ok rv (JBool b) = True"
| "json_ok rv (JInt i) = True"
| "json_ok rv (JFloat r t) = (float_text t \<and> r = rv t)"
| "json_ok rv (JStr s) = True"
| "json_ok rv (JArr js) = list_all id (map (json_ok rv) js)"
| "json_ok rv (JObj kvs) = list_all snd (map (map_prod id (json_ok rv)) kvs)"

definition delim :: "string \<Rightarrow> bool" where
  "delim s \<longleftrightarrow> s = [] \<or> hd s \<in> {CHR '','', CHR '']'', CHR ''}''}"

lemma delim_simps [simp]:
  "delim []" "delim (CHR '','' # s)" "delim (CHR '']'' # s)" "delim (CHR ''}'' # s)"
  by (simp_all add: delim_def)

lemma num_token_unique:
  assumes "x @ s = y @ t" and "list_all num_char x" and "list_all num_char y"
    and "delim s" and "delim t"
  shows "x = y \<and> s = t"
proof -
  have tw: "takeWhile num_char (u @ v) = u" if "list_all num_char u" "delim v" for u v
  proof -
    have "takeWhile num_char v = []"
      using that(2) by (cases v) (auto simp: delim_def num_char_def ascii_digit_def)
    with that(1) show ?thesis by (simp add: takeWhile_append2 list_all_iff)
  qed
  have "takeWhile num_char (x @ s) = x" using assms(2,4) by (rule tw)
  moreover have "takeWhile num_char (y @ t) = y" using assms(3,5) by (rule tw)
  ultimately have "x = y" using assms(1) by simp
  with assms(1) show ?thesis by simp
qed

lemma digit_num_char: "ascii_digit c \<Longrightarrow> num_char c"
  by (simp add: num_char_def)

lemma show_int_chars: "c \<in> set (show_int i) \<Longrightarrow> c = CHR ''-'' \<or> ascii_digit c"
  using show_nat_digits by (auto simp: show_int_def list_all_iff split: if_splits)

lemma show_int_num: "list_all num_char (show_int i)"
  using show_int_chars by (auto simp: list_all_iff num_char_def)

lemma show_int_not_float: "\<not> float_text (show_int i)"
proof
  assume "float_text (show_int i)"
  then have "CHR ''.'' \<in> set (show_int i) \<or> CHR ''e'' \<in> set (show_int i)"
    by (simp add: float_text_def)
  then show False
    using show_int_chars [of "CHR ''.''" i] show_int_chars [of "CHR ''e''" i]
    by (auto simp: ascii_digit_def)
qed

lemma show_int_ne [simp]: "show_int i \<noteq> []"
  by (simp add: show_int_def)

subsection \<open>Quoted strings\<close>

text \<open>Reading one escaped character back.\<close>

definition unesc :: "string \<Rightarrow> char \<times> string" where
  "unesc s =
     (if hd s \<noteq> CHR 0x5C then (hd s, tl s)
      else let y = hd (tl s); r = tl (tl s) in
        if y = CHR 0x22 then (char_of (34::nat), r)
        else if y = CHR 0x5C then (char_of (92::nat), r)
        else if y = CHR ''b'' then (char_of (8::nat), r)
        else if y = CHR ''f'' then (char_of (12::nat), r)
        else if y = CHR ''n'' then (char_of (10::nat), r)
        else if y = CHR ''r'' then (char_of (13::nat), r)
        else if y = CHR ''t'' then (char_of (9::nat), r)
        else (char_of (the (hex_run 0 (take 4 r))), drop 4 r))"

lemma char_of_code: "code c = n \<Longrightarrow> char_of n = c"
  by (metis char_of_char)

lemma unesc_esc_char: "unesc (esc_char c @ s) = (c, s)"
proof (cases "code c \<in> {34, 92, 8, 12, 10, 13, 9}")
  case True
  then show ?thesis
    by (auto simp: esc_char_def unesc_def Let_def intro: char_of_code)
next
  case nospecial: False
  show ?thesis
  proof (cases "code c < 32")
    case True
    have "hex_run 0 (take 4 (hex_fixed 4 (code c) @ s)) = Some (code c)"
      using True by (simp add: hex_run_fixed)
    moreover have "esc_char c @ s = CHR 0x5C # CHR ''u'' # hex_fixed 4 (code c) @ s"
      using nospecial True by (simp add: esc_char_def)
    ultimately show ?thesis by (simp add: unesc_def Let_def)
  next
    case False
    have "code (CHR 0x5C) = 92" by simp
    then have "c \<noteq> CHR 0x5C" using nospecial by auto
    moreover have "esc_char c = [c]" using nospecial False by (simp add: esc_char_def)
    ultimately show ?thesis by (simp add: unesc_def)
  qed
qed

lemma esc_char_unique: "esc_char c @ s = esc_char d @ t \<Longrightarrow> c = d \<and> s = t"
  by (metis unesc_esc_char prod.inject)

lemma esc_char_start: "\<exists>h u. esc_char c = h # u \<and> h \<noteq> CHR 0x22"
proof (cases "esc_char c = [c]")
  case True
  have "code (CHR 0x22) = 34" by simp
  with True have "c \<noteq> CHR 0x22" by (auto simp: esc_char_def)
  with True show ?thesis by simp
next
  case False
  then have "\<exists>u. esc_char c = CHR 0x5C # u"
    by (auto simp: esc_char_def split: if_splits)
  then show ?thesis by force
qed

lemma quote_body_unique:
  "concat (map esc_char a) @ CHR 0x22 # s = concat (map esc_char b) @ CHR 0x22 # t
     \<Longrightarrow> a = b \<and> s = t"
proof (induction a arbitrary: b)
  case Nil
  then show ?case
    using esc_char_start by (cases b) (auto, metis append_Cons list.inject)
next
  case (Cons c a)
  show ?case
  proof (cases b)
    case Nil
    with Cons.prems show ?thesis using esc_char_start [of c] by auto
  next
    case (Cons d b')
    with Cons.prems have "esc_char c @ (concat (map esc_char a) @ CHR 0x22 # s)
        = esc_char d @ (concat (map esc_char b') @ CHR 0x22 # t)" by simp
    then have "c = d" and "concat (map esc_char a) @ CHR 0x22 # s
        = concat (map esc_char b') @ CHR 0x22 # t"
      using esc_char_unique by blast+
    with Cons.IH Cons show ?thesis by simp
  qed
qed

lemma json_quote_unique: "json_quote a @ s = json_quote b @ t \<Longrightarrow> a = b \<and> s = t"
  by (intro quote_body_unique) (simp add: json_quote_def)

section \<open>Unique reading\<close>

text \<open>The first character of a text decides its kind.\<close>

datatype kind = KNull | KTrue | KFalse | KNum | KStr | KArr | KObj

definition kind_of :: "json \<Rightarrow> kind" where
  "kind_of v = (case v of JNull \<Rightarrow> KNull | JBool b \<Rightarrow> (if b then KTrue else KFalse)
     | JInt i \<Rightarrow> KNum | JFloat r t \<Rightarrow> KNum | JStr s \<Rightarrow> KStr | JArr js \<Rightarrow> KArr | JObj kvs \<Rightarrow> KObj)"

definition start_kind :: "char \<Rightarrow> kind option" where
  "start_kind h =
     (if num_char h then Some KNum
      else if h = CHR ''n'' then Some KNull else if h = CHR ''t'' then Some KTrue
      else if h = CHR ''f'' then Some KFalse else if h = CHR 0x22 then Some KStr
      else if h = CHR ''['' then Some KArr else if h = CHR ''{'' then Some KObj else None)"

lemma start_kind_simps [simp]:
  "start_kind CHR ''n'' = Some KNull" "start_kind CHR ''t'' = Some KTrue"
  "start_kind CHR ''f'' = Some KFalse" "start_kind CHR 0x22 = Some KStr"
  "start_kind CHR ''['' = Some KArr" "start_kind CHR ''{'' = Some KObj"
  "start_kind CHR '','' = None" "start_kind CHR '']'' = None" "start_kind CHR ''}'' = None"
  by (simp_all add: start_kind_def num_char_def ascii_digit_def)

lemma start_kind_num: "num_char h \<Longrightarrow> start_kind h = Some KNum"
  by (simp add: start_kind_def)

lemma text_start:
  assumes "json_ok rv v"
  shows "\<exists>h u. canonical_json v = h # u \<and> start_kind h = Some (kind_of v)"
proof (cases v)
  case (JInt i)
  then show ?thesis
    using show_int_num [of i] by (cases "show_int i") (auto simp: kind_of_def start_kind_num)
next
  case (JFloat r t)
  with assms show ?thesis
    by (cases t) (auto simp: float_text_def kind_of_def start_kind_num)
qed (simp_all add: json_quote_def canonical_json_obj kind_of_def)

lemma text_not_close:
  assumes "json_ok rv v"
  shows "\<exists>h u. canonical_json v = h # u \<and> h \<notin> {CHR '','', CHR '']'', CHR ''}''}"
proof -
  obtain h u where h: "canonical_json v = h # u" "start_kind h = Some (kind_of v)"
    using text_start [OF assms] by blast
  then have "h \<notin> {CHR '','', CHR '']'', CHR ''}''}" by auto
  with h(1) show ?thesis by blast
qed

text \<open>
  A list printed with commas up to a closing bracket can be read in one way only, when each
  element can.
\<close>

lemma join_unique:
  assumes read: "\<And>x y s t. x \<in> set xs \<Longrightarrow> y \<in> set ys \<Longrightarrow> f x @ s = f y @ t \<Longrightarrow>
      delim s \<Longrightarrow> delim t \<Longrightarrow> g x = g y \<and> s = t"
    and start: "\<And>x. x \<in> set xs \<union> set ys \<Longrightarrow>
      \<exists>h u. f x = h # u \<and> h \<notin> {CHR '','', CHR '']'', CHR ''}''}"
    and close: "c = CHR '']'' \<or> c = CHR ''}''"
    and eq: "join_comma (map f xs) @ c # s = join_comma (map f ys) @ c # t"
  shows "map g xs = map g ys \<and> s = t"
  using read start eq
proof (induction xs arbitrary: ys)
  case Nil
  show ?case
  proof (cases ys)
    case Nil
    with Nil.prems(3) show ?thesis by simp
  next
    case (Cons y ys')
    obtain h u where "f y = h # u" "h \<notin> {CHR '','', CHR '']'', CHR ''}''}"
      using Nil.prems(2) [of y] Cons by auto
    with Nil.prems(3) Cons close have False by (cases ys') auto
    then show ?thesis ..
  qed
next
  case (Cons x xs)
  obtain h u where hx: "f x = h # u" "h \<notin> {CHR '','', CHR '']'', CHR ''}''}"
    using Cons.prems(2) [of x] by auto
  show ?case
  proof (cases ys)
    case Nil
    with Cons.prems(3) hx close have False by (cases xs) auto
    then show ?thesis ..
  next
    case ys: (Cons y ys')
    let ?r = "\<lambda>zs v. (if zs = [] then c # v else CHR '','' # join_comma (map f zs) @ c # v)"
    have split: "join_comma (map f (z # zs)) @ c # v = f z @ ?r zs v" for z zs v
      by (cases zs) auto
    have dl: "delim (?r zs v)" for zs v using close by auto
    have fe: "f x @ ?r xs s = f y @ ?r ys' t"
      using Cons.prems(3) unfolding ys by (simp only: split)
    have "x \<in> set (x # xs)" "y \<in> set ys" using ys by simp_all
    from Cons.prems(1) [OF this fe dl dl] have gxy: "g x = g y" and rest: "?r xs s = ?r ys' t"
      by simp_all
    have "map g xs = map g ys' \<and> s = t"
    proof (cases "xs = [] \<or> ys' = []")
      case True
      with rest close show ?thesis by (auto split: if_splits)
    next
      case False
      with rest have "join_comma (map f xs) @ c # s = join_comma (map f ys') @ c # t" by simp
      then show ?thesis
        using Cons.prems(1,2) ys by (intro Cons.IH) auto
    qed
    with gxy ys show ?thesis by simp
  qed
qed

lemma json_ok_obj_iff: "json_ok rv (JObj kvs) \<longleftrightarrow> (\<forall>(k, v) \<in> set kvs. json_ok rv v)"
  by (auto simp: list_all_iff)

lemma json_ok_arr_iff: "json_ok rv (JArr js) \<longleftrightarrow> (\<forall>v \<in> set js. json_ok rv v)"
  by (auto simp: list_all_iff)

lemma same_kind:
  assumes "canonical_json v @ s = canonical_json w @ t" and "json_ok rv v" and "json_ok rv w"
  shows "kind_of v = kind_of w"
proof -
  obtain h u where "canonical_json v = h # u" "start_kind h = Some (kind_of v)"
    using text_start [OF assms(2)] by blast
  moreover obtain h' u' where "canonical_json w = h' # u'" "start_kind h' = Some (kind_of w)"
    using text_start [OF assms(3)] by blast
  ultimately show ?thesis using assms(1) by simp
qed

lemma kind_of_D:
  "kind_of w = KNull \<Longrightarrow> w = JNull"
  "kind_of w = KTrue \<Longrightarrow> w = JBool True"
  "kind_of w = KFalse \<Longrightarrow> w = JBool False"
  "kind_of w = KStr \<Longrightarrow> \<exists>x. w = JStr x"
  "kind_of w = KArr \<Longrightarrow> \<exists>js. w = JArr js"
  "kind_of w = KObj \<Longrightarrow> \<exists>kvs. w = JObj kvs"
  "kind_of w = KNum \<Longrightarrow> (\<exists>i. w = JInt i) \<or> (\<exists>r x. w = JFloat r x)"
  by (auto simp: kind_of_def split: json.splits if_splits)

lemma num_text_unique:
  assumes "kind_of v = KNum" and "kind_of w = KNum" and "json_ok rv v" and "json_ok rv w"
    and "canonical_json v @ s = canonical_json w @ t" and "delim s" and "delim t"
  shows "v = w \<and> s = t"
proof -
  have num: "list_all num_char (canonical_json z)" if "kind_of z = KNum" "json_ok rv z" for z
    using kind_of_D(7) [OF that(1)] that(2) by (auto simp: show_int_num float_text_def)
  have eq: "canonical_json v = canonical_json w" and st: "s = t"
    using num_token_unique [OF assms(5)] num assms by blast+
  have "v = w"
    using kind_of_D(7) [OF assms(1)] kind_of_D(7) [OF assms(2)] eq assms(3,4)
      show_int_not_float by auto
  with st show ?thesis by simp
qed

lemma field_text_start: "\<exists>h u. field_text p = h # u \<and> h \<notin> {CHR '','', CHR '']'', CHR ''}''}"
  by (auto simp: field_text_def json_quote_def)

lemma canonical_read:
  assumes "json_ok rv v" and "json_ok rv w"
    and "canonical_json v @ s = canonical_json w @ t" and "delim s" and "delim t"
  shows "canon v = canon w \<and> s = t"
  using assms
proof (induction v arbitrary: w s t)
  case JNull
  then have "kind_of w = KNull"
    using same_kind [OF JNull.prems(3,1,2)] by (simp add: kind_of_def)
  then have "w = JNull" by (rule kind_of_D(1))
  with JNull show ?case by simp
next
  case (JBool b)
  then have "kind_of w = (if b then KTrue else KFalse)"
    using same_kind [OF JBool.prems(3,1,2)] by (simp add: kind_of_def)
  then have "w = JBool b" by (auto dest: kind_of_D split: if_splits)
  with JBool show ?case by simp
next
  case (JInt i)
  then have "kind_of w = KNum"
    using same_kind [OF JInt.prems(3,1,2)] by (simp add: kind_of_def)
  with num_text_unique [OF _ this JInt.prems] show ?case by (simp add: kind_of_def)
next
  case (JFloat r x)
  then have "kind_of w = KNum"
    using same_kind [OF JFloat.prems(3,1,2)] by (simp add: kind_of_def)
  with num_text_unique [OF _ this JFloat.prems] show ?case by (simp add: kind_of_def)
next
  case (JStr x)
  then have "kind_of w = KStr"
    using same_kind [OF JStr.prems(3,1,2)] by (simp add: kind_of_def)
  then obtain y where w: "w = JStr y" using kind_of_D(4) by blast
  with JStr.prems(3) have "json_quote x @ s = json_quote y @ t" by simp
  then have "x = y \<and> s = t" by (rule json_quote_unique)
  with w show ?case by simp
next
  case (JArr js)
  then have "kind_of w = KArr"
    using same_kind [OF JArr.prems(3,1,2)] by (simp add: kind_of_def)
  then obtain ks where w: "w = JArr ks" using kind_of_D(5) by blast
  have ok: "json_ok rv x" if "x \<in> set js \<union> set ks" for x
    using that JArr.prems(1,2) by (auto simp: w json_ok_arr_iff simp del: json_ok.simps)
  have "map canon js = map canon ks \<and> s = t"
  proof (rule join_unique [where f = canonical_json and c = "CHR '']''"])
    fix x y u v
    assume "x \<in> set js" "y \<in> set ks" "canonical_json x @ u = canonical_json y @ v"
      "delim u" "delim v"
    then show "canon x = canon y \<and> u = v" using JArr.IH [of x y u v] ok by blast
  next
    fix x
    assume "x \<in> set js \<union> set ks"
    then show "\<exists>h u. canonical_json x = h # u \<and> h \<notin> {CHR '','', CHR '']'', CHR ''}''}"
      using text_not_close [OF ok] by blast
  next
    show "join_comma (map canonical_json js) @ CHR '']'' # s
        = join_comma (map canonical_json ks) @ CHR '']'' # t"
      using JArr.prems(3) by (simp add: w)
  qed simp
  then show ?case by (simp add: w)
next
  case (JObj kvs)
  then have "kind_of w = KObj"
    using same_kind [OF JObj.prems(3,1,2)] by (simp add: kind_of_def)
  then obtain lvs where w: "w = JObj lvs" using kind_of_D(6) by blast
  let ?g = "map_prod id canon" and ?xs = "sort_key fst kvs" and ?ys = "sort_key fst lvs"
  have ok: "json_ok rv (snd p)" if "p \<in> set kvs \<union> set lvs" for p
    using that JObj.prems(1,2) by (force simp: w json_ok_obj_iff simp del: json_ok.simps)
  have "map ?g ?xs = map ?g ?ys \<and> s = t"
  proof (rule join_unique [where f = field_text and c = "CHR ''}''"])
    fix p q u v
    assume p: "p \<in> set ?xs" and q: "q \<in> set ?ys"
      and eq: "field_text p @ u = field_text q @ v" and d: "delim u" "delim v"
    from eq have "json_quote (fst p) @ CHR '':'' # canonical_json (snd p) @ u
        = json_quote (fst q) @ CHR '':'' # canonical_json (snd q) @ v"
      by (simp add: field_text_def)
    then have k: "fst p = fst q" and tx: "canonical_json (snd p) @ u = canonical_json (snd q) @ v"
      using json_quote_unique by blast+
    have "p \<in> set kvs" and "q \<in> set lvs" using p q by simp_all
    then have "canon (snd p) = canon (snd q) \<and> u = v"
      using JObj.IH [OF _ _ ok ok tx d, of p] by (auto simp: snds.simps)
    with k show "?g p = ?g q \<and> u = v" by (simp add: prod_eq_iff)
  next
    show "join_comma (map field_text ?xs) @ CHR ''}'' # s
        = join_comma (map field_text ?ys) @ CHR ''}'' # t"
      using JObj.prems(3) by (simp add: w canonical_json_obj)
  qed (use field_text_start in auto)
  then show ?case by (simp add: w canon_obj)
qed

text \<open>The canonical text determines the value up to key order, and conversely.\<close>

lemma canonical_json_eq_iff:
  assumes "json_ok rv v" and "json_ok rv w"
  shows "canonical_json v = canonical_json w \<longleftrightarrow> canon v = canon w"
proof
  assume "canonical_json v = canonical_json w"
  with canonical_read [OF assms, of "[]" "[]"] show "canon v = canon w" by simp
next
  assume "canon v = canon w"
  then have "canonical_json (canon v) = canonical_json (canon w)" by simp
  then show "canonical_json v = canonical_json w" by (simp only: canonical_json_canon)
qed

end
