(* ===== verification/Budget.thy ===== *)
theory Budget
  imports Run_Domain Canonical
begin

text \<open>
  \<^verbatim>\<open>runs/budget.py\<close>: the values of the run budget. Amounts are integers (turns, and nano-USD), never
  floats; a value that cannot be represented exactly is an error.

  \<open>budget_units\<close> and \<open>budget_key\<close> test the dynamic type of their argument, so they take a decoded
  JSON value. A \<^verbatim>\<open>Decimal\<close> is \<open>Dec s c e\<close> (sign, coefficient, exponent) or not finite; \<open>py_decimal\<close>
  is \<^verbatim>\<open>Decimal(str)\<close>, \<^verbatim>\<open>None\<close> where it raises \<^verbatim>\<open>InvalidOperation\<close>.
\<close>

definition max_units :: int where
  "max_units = 2 ^ 63 - 1"

definition usd_scale :: int where
  "usd_scale = 1000000000"

datatype metering_mode = INCREMENTAL | CUMULATIVE

datatype budget_status = BUD_RESERVED | START_INTENT | SETTLED | RELEASED

fun mode_text :: "metering_mode \<Rightarrow> string" where
  "mode_text INCREMENTAL = ''INCREMENTAL''"
| "mode_text CUMULATIVE = ''CUMULATIVE''"

definition read_mode :: "json \<Rightarrow> metering_mode res" where
  "read_mode v =
     (if v = JStr ''INCREMENTAL'' then Inr INCREMENTAL
      else if v = JStr ''CUMULATIVE'' then Inr CUMULATIVE else Inl ValueError)"

section \<open>Keys and units\<close>

fun budget_key :: "json \<Rightarrow> string res" where
  "budget_key (JStr s) = (if key_text s then Inr s else Inl BudgetError)"
| "budget_key _ = Inl BudgetError"

text \<open>\<^verbatim>\<open>[A-Za-z0-9_-]{43}\<close>.\<close>

definition owner_token :: "string \<Rightarrow> bool" where
  "owner_token s \<longleftrightarrow> length s = 43 \<and> list_all (\<lambda>c. ascii_alnum c \<or> c \<in> set ''_-'') s"

definition budget_start_owner_hash :: "digest \<Rightarrow> string \<Rightarrow> string res" where
  "budget_start_owner_hash sha token =
     (if \<not> owner_token token then Inl BudgetError
      else Inr (''sha256:'' @ json_digest sha
        (JObj [(''version'', JStr ''skillmind.budget-start-owner/v1''), (''token'', JStr token)])))"

fun budget_units :: "json \<Rightarrow> bool \<Rightarrow> int res" where
  "budget_units (JInt n) positive =
     (if (if positive then 1 else 0) \<le> n \<and> n \<le> max_units then Inr n else Inl BudgetError)"
| "budget_units _ positive = Inl BudgetError"

definition budget_checksum :: "digest \<Rightarrow> json \<Rightarrow> string" where
  "budget_checksum sha v = sha256_hex sha (canonical_json v)"

section \<open>Exact amounts\<close>

datatype decimal = Dec bool nat int | NotFinite

definition lower_char :: "char \<Rightarrow> char" where
  "lower_char c = (if ascii_upper c then char_of (code c + 32) else c)"

definition read_exponent :: "string \<Rightarrow> int option" where
  "read_exponent s =
     (case s of
        [] \<Rightarrow> Some 0
      | c # cs \<Rightarrow>
          if lower_char c \<noteq> CHR ''e'' then None
          else let neg = (take 1 cs = ''-'');
                   ds = (if neg \<or> take 1 cs = ''+'' then drop 1 cs else cs)
               in if ds = [] \<or> \<not> list_all ascii_digit ds then None
                  else Some (if neg then - int (read_nat ds) else int (read_nat ds)))"

definition read_decimal :: "bool \<Rightarrow> string \<Rightarrow> decimal option" where
  "read_decimal sign s =
     (let whole = takeWhile ascii_digit s;
          r = dropWhile ascii_digit s;
          dot = (take 1 r = ''.'');
          fraction = (if dot then takeWhile ascii_digit (drop 1 r) else []);
          r' = (if dot then dropWhile ascii_digit (drop 1 r) else r)
      in if whole = [] \<and> fraction = [] then None
         else (case read_exponent r' of
             None \<Rightarrow> None
           | Some e \<Rightarrow> Some (Dec sign (read_nat (whole @ fraction)) (e - int (length fraction)))))"

definition special_text :: "string \<Rightarrow> bool" where
  "special_text t \<longleftrightarrow> t = ''inf'' \<or> t = ''infinity'' \<or>
     take 3 t = ''nan'' \<and> list_all ascii_digit (drop 3 t) \<or>
     take 4 t = ''snan'' \<and> list_all ascii_digit (drop 4 t)"

definition py_decimal :: "string \<Rightarrow> decimal option" where
  "py_decimal s =
     (let t = filter (\<lambda>c. c \<noteq> CHR ''_'') (py_strip s);
          neg = (take 1 t = ''-'');
          body = (if neg \<or> take 1 t = ''+'' then drop 1 t else t)
      in if special_text (map lower_char body) then Some NotFinite else read_decimal neg body)"

text \<open>The argument of \<^verbatim>\<open>usd_to_nanos\<close>: a text, a \<^verbatim>\<open>Decimal\<close>, or something else.\<close>

datatype usd_value = UsdText string | UsdDecimal decimal | UsdOther

definition decimal_to_nanos :: "decimal \<Rightarrow> int res" where
  "decimal_to_nanos amount =
     (case amount of
        NotFinite \<Rightarrow> Inl BudgetError
      | Dec sign c exponent \<Rightarrow>
          if sign \<and> c \<noteq> 0 then Inl BudgetError
          else if length (show_nat c) > 40 \<or> \<bar>exponent\<bar> > 40 then Inl BudgetError
          else
            let coefficient = int c * (if sign then - 1 else 1);
                shift = exponent + 9
            in if shift \<ge> 0 then budget_units (JInt (coefficient * 10 ^ nat shift)) False
               else if coefficient mod 10 ^ nat (- shift) \<noteq> 0 then Inl BudgetError
               else budget_units (JInt (coefficient div 10 ^ nat (- shift))) False)"

definition usd_to_nanos :: "usd_value \<Rightarrow> int res" where
  "usd_to_nanos v =
     (case v of
        UsdOther \<Rightarrow> Inl BudgetError
      | UsdDecimal amount \<Rightarrow> decimal_to_nanos amount
      | UsdText s \<Rightarrow> (case py_decimal s of None \<Rightarrow> Inl BudgetError
                    | Some amount \<Rightarrow> decimal_to_nanos amount))"

section \<open>Policies\<close>

record budget_policy =
  bp_max_turns :: int
  bp_max_cost_nanos :: "int option"
  bp_source :: string
  bp_metering_version :: string
  bp_mode :: metering_mode

text \<open>An optional amount as a decoded value, and its check.\<close>

definition opt_units :: "json \<Rightarrow> bool \<Rightarrow> int option res" where
  "opt_units v positive =
     (if v = JNull then Inr None else ebind (budget_units v positive) (\<lambda>n. Inr (Some n)))"

text \<open>The constructor with \<^verbatim>\<open>__post_init__\<close>.\<close>

definition mk_budget_policy ::
  "json \<Rightarrow> json \<Rightarrow> json \<Rightarrow> json \<Rightarrow> metering_mode \<Rightarrow> budget_policy res" where
  "mk_budget_policy max_turns max_cost_nanos source metering_version mode =
     ebind (budget_units max_turns True) (\<lambda>turns.
     ebind (opt_units max_cost_nanos True) (\<lambda>cost.
     ebind (budget_key source) (\<lambda>source.
     ebind (budget_key metering_version) (\<lambda>version.
       Inr \<lparr>bp_max_turns = turns, bp_max_cost_nanos = cost, bp_source = source,
            bp_metering_version = version, bp_mode = mode\<rparr>))))"

definition policy_to_json :: "budget_policy \<Rightarrow> json" where
  "policy_to_json p = JObj
     [(''version'', JStr ''run-budget/v1''),
      (''max_turns'', JInt (bp_max_turns p)),
      (''max_cost_nanos'', jopt JInt (bp_max_cost_nanos p)),
      (''source'', JStr (bp_source p)),
      (''metering_version'', JStr (bp_metering_version p)),
      (''mode'', JStr (mode_text (bp_mode p))),
      (''usd_scale'', JInt usd_scale)]"

definition policy_fields :: "string list" where
  "policy_fields = [''version'', ''max_turns'', ''max_cost_nanos'', ''source'', ''metering_version'',
     ''mode'', ''usd_scale'']"

definition policy_from_json :: "json \<Rightarrow> budget_policy res" where
  "policy_from_json v =
     (if \<not> is_obj v \<or> \<not> has_keys policy_fields v \<or>
         jget ''version'' v \<noteq> Some (JStr ''run-budget/v1'') \<or>
         \<not> py_eq (the (jget ''usd_scale'' v)) (JInt usd_scale)
      then Inl BudgetUnavailableError
      else rethrow (\<lambda>e. value_error e \<or> e = TypeError) BudgetUnavailableError
        (ebind (read_mode (the (jget ''mode'' v))) (\<lambda>mode.
           mk_budget_policy (the (jget ''max_turns'' v)) (the (jget ''max_cost_nanos'' v))
             (the (jget ''source'' v)) (the (jget ''metering_version'' v)) mode)))"

section \<open>Requests, reports and records\<close>

record reservation_request =
  rq_execution_key :: string
  rq_turns :: int
  rq_cost_nanos :: "int option"
  rq_parent_execution_key :: "string option"

definition request_init :: "reservation_request \<Rightarrow> unit res" where
  "request_init r =
     ebind (budget_key (JStr (rq_execution_key r))) (\<lambda>_.
     ebind (budget_units (JInt (rq_turns r)) True) (\<lambda>_.
     ebind (opt_units (jopt JInt (rq_cost_nanos r)) True) (\<lambda>_.
       case rq_parent_execution_key r of
         None \<Rightarrow> Inr ()
       | Some parent \<Rightarrow>
           ebind (budget_key (JStr parent)) (\<lambda>_.
             raise_if (parent = rq_execution_key r) BudgetError))))"

definition request_to_json :: "reservation_request \<Rightarrow> json" where
  "request_to_json r = JObj
     [(''execution_key'', JStr (rq_execution_key r)),
      (''turns'', JInt (rq_turns r)),
      (''cost_nanos'', jopt JInt (rq_cost_nanos r)),
      (''parent_execution_key'', jopt JStr (rq_parent_execution_key r))]"

record usage_report =
  ur_report_key :: string
  ur_source :: string
  ur_metering_version :: string
  ur_mode :: metering_mode
  ur_turns :: "int option"
  ur_cost_nanos :: "int option"
  ur_watermark :: "int option"
  ur_final :: bool

definition report_init :: "usage_report \<Rightarrow> unit res" where
  "report_init r =
     ebind (emap (\<lambda>k. budget_key (JStr k)) [ur_report_key r, ur_source r, ur_metering_version r]) (\<lambda>_.
     ebind (emap (\<lambda>v. opt_units (jopt JInt v) False) [ur_turns r, ur_cost_nanos r]) (\<lambda>_.
     ebind (raise_if (ur_turns r = None \<and> ur_cost_nanos r = None) BudgetError) (\<lambda>_.
       if ur_mode r = CUMULATIVE then
         (case ur_watermark r of
            None \<Rightarrow> Inl BudgetError
          | Some w \<Rightarrow> ebind (budget_units (JInt w) False) (\<lambda>_. Inr ()))
       else raise_if (ur_watermark r \<noteq> None) BudgetError)))"

definition report_to_json :: "usage_report \<Rightarrow> json" where
  "report_to_json r = JObj
     [(''source'', JStr (ur_source r)),
      (''metering_version'', JStr (ur_metering_version r)),
      (''mode'', JStr (mode_text (ur_mode r))),
      (''turns'', jopt JInt (ur_turns r)),
      (''cost_nanos'', jopt JInt (ur_cost_nanos r)),
      (''watermark'', jopt JInt (ur_watermark r)),
      (''final'', JBool (ur_final r))]"

record reconciliation_claim =
  rc_project_id :: uuid
  rc_run_id :: uuid
  rc_reservation_id :: uuid
  rc_worker_id :: string
  rc_token :: string
  rc_expires_at :: time

record invocation_binding =
  ib_reservation_id :: uuid
  ib_invocation_id :: uuid
  ib_invocation_checksum :: string

definition binding_init :: "invocation_binding \<Rightarrow> unit res" where
  "binding_init b = raise_if (\<not> hex64 (ib_invocation_checksum b)) BudgetError"

record execution_record =
  er_reservation_id :: uuid
  er_execution_key :: string
  er_status :: budget_status
  er_granted_turns :: int
  er_reserved_turns :: int
  er_consumed_turns :: int
  er_granted_cost_nanos :: "int option"
  er_reserved_cost_nanos :: "int option"
  er_consumed_cost_nanos :: "int option"
  er_stop_confirmed :: bool
  er_final_usage_confirmed :: bool

record account_record =
  ac_run_id :: uuid
  ac_policy :: budget_policy
  ac_consumed_turns :: int
  ac_reserved_turns :: int
  ac_consumed_cost_nanos :: "int option"
  ac_reserved_cost_nanos :: "int option"
  ac_block_code :: "string option"
  ac_row_version :: int

definition remaining_turns :: "account_record \<Rightarrow> int" where
  "remaining_turns a = bp_max_turns (ac_policy a) - ac_consumed_turns a - ac_reserved_turns a"

definition remaining_cost_nanos :: "account_record \<Rightarrow> int option res" where
  "remaining_cost_nanos a =
     (case bp_max_cost_nanos (ac_policy a) of
        None \<Rightarrow> Inr None
      | Some limit \<Rightarrow>
          (case (ac_consumed_cost_nanos a, ac_reserved_cost_nanos a) of
             (Some consumed, Some reserved) \<Rightarrow> Inr (Some (limit - consumed - reserved))
           | _ \<Rightarrow> Inl AssertionError))"

record receipt_result =
  rr_account :: account_record
  rr_execution :: execution_record
  rr_disposition :: string

section \<open>The amounts are exact\<close>

lemma jopt_inject [simp]:
  "jopt JInt a = jopt JInt b \<longleftrightarrow> a = b" "jopt JStr c = jopt JStr d \<longleftrightarrow> c = d"
  "JInt n = jopt JInt b \<longleftrightarrow> b = Some n" "JNull = jopt JInt b \<longleftrightarrow> b = None"
  "jopt JInt b = JInt n \<longleftrightarrow> b = Some n" "jopt JInt b = JNull \<longleftrightarrow> b = None"
  by (auto simp: jopt_def split: option.splits)

lemma budget_units_Inr:
  "budget_units v positive = Inr n \<longleftrightarrow>
     v = JInt n \<and> (if positive then 1 else 0) \<le> n \<and> n \<le> max_units"
  by (cases v) auto

lemma budget_units_Inl: "budget_units v positive = Inl e \<Longrightarrow> e = BudgetError"
  by (cases v) (auto split: if_splits)

lemma budget_key_Inr: "budget_key v = Inr s \<longleftrightarrow> v = JStr s \<and> key_text s"
  by (cases v) auto

lemma opt_units_Inr:
  "opt_units v positive = Inr x \<longleftrightarrow>
     v = jopt JInt x \<and> (\<forall>n \<in> set_option x. (if positive then 1 else 0) \<le> n \<and> n \<le> max_units)"
  by (cases x) (auto simp: opt_units_def ebind_Inr_iff budget_units_Inr)

definition decimal_value :: "bool \<Rightarrow> nat \<Rightarrow> int \<Rightarrow> rat" where
  "decimal_value sign c exponent = (if sign then - of_nat c else of_nat c) * 10 powi exponent"

lemma decimal_to_nanos_Inr:
  "decimal_to_nanos (Dec sign c exponent) = Inr u \<longleftrightarrow>
     length (show_nat c) \<le> 40 \<and> \<bar>exponent\<bar> \<le> 40 \<and> 0 \<le> u \<and> u \<le> max_units \<and>
     of_int u = decimal_value sign c exponent * of_int usd_scale"
proof -
  define k where "k = int c * (if sign then - 1 else 1)"
  define shift where "shift = exponent + 9"
  have k: "(if sign then - of_nat c else of_nat c :: rat) = of_int k" by (simp add: k_def)
  have "(10::rat) powi shift = 10 powi exponent * 10 powi 9"
    unfolding shift_def by (rule power_int_add) simp
  then have val: "decimal_value sign c exponent * of_int usd_scale = of_int k * 10 powi shift"
    unfolding decimal_value_def k by (simp add: usd_scale_def)
  have neg: "sign \<and> c \<noteq> 0 \<longleftrightarrow> k < 0" by (simp add: k_def)
  have pos: "(0::rat) < 10 powi shift" by simp
  show ?thesis
  proof (cases "0 \<le> shift")
    case True
    then have p: "(10::rat) powi shift = of_int (10 ^ nat shift)" by (simp add: power_int_def)
    have eq: "of_int u = of_int k * (10::rat) powi shift \<longleftrightarrow> u = k * 10 ^ nat shift"
      unfolding p by (simp only: of_int_mult [symmetric] of_int_eq_iff)
    have "k < 0 \<Longrightarrow> k * 10 ^ nat shift < 0" by (simp add: mult_neg_pos)
    then show ?thesis
      unfolding val eq
      using True neg by (auto simp: decimal_to_nanos_def Let_def budget_units_Inr k_def [symmetric]
          shift_def [symmetric] not_less)
  next
    case False
    let ?d = "10 ^ nat (- shift) :: int"
    have d: "0 < ?d" by simp
    have p: "(10::rat) powi shift = 1 / of_int ?d" using False by (simp add: power_int_def field_simps)
    have "of_int u = of_int k * (10::rat) powi shift \<longleftrightarrow> of_int (u * ?d) = (of_int k :: rat)"
      unfolding p using d by (simp add: field_simps)
    then have eq: "of_int u = of_int k * (10::rat) powi shift \<longleftrightarrow> k = u * ?d"
      by (simp only: of_int_eq_iff) auto
    have div: "k = u * ?d \<longleftrightarrow> k mod ?d = 0 \<and> u = k div ?d"
    proof
      assume "k mod ?d = 0 \<and> u = k div ?d"
      then show "k = u * ?d" using div_mult_mod_eq [of k ?d] by simp
    qed simp
    have "k < 0 \<Longrightarrow> k = u * ?d \<Longrightarrow> u < 0" using d by (metis linorder_not_less mult_nonneg_nonneg order_less_imp_le)
    then show ?thesis
      unfolding val eq div
      using False neg by (auto simp: decimal_to_nanos_def Let_def budget_units_Inr k_def [symmetric]
          shift_def [symmetric] not_less div)
  qed
qed

section \<open>Stored policies\<close>

definition units_ok :: "int \<Rightarrow> int \<Rightarrow> bool" where
  "units_ok low n \<longleftrightarrow> low \<le> n \<and> n \<le> max_units"

definition valid_policy :: "budget_policy \<Rightarrow> bool" where
  "valid_policy p \<longleftrightarrow> units_ok 1 (bp_max_turns p) \<and>
     (\<forall>n \<in> set_option (bp_max_cost_nanos p). units_ok 1 n) \<and>
     key_text (bp_source p) \<and> key_text (bp_metering_version p)"

lemma mk_budget_policy_Inr:
  "mk_budget_policy t c s v m = Inr p \<longleftrightarrow> valid_policy p \<and> t = JInt (bp_max_turns p) \<and>
     c = jopt JInt (bp_max_cost_nanos p) \<and> s = JStr (bp_source p) \<and>
     v = JStr (bp_metering_version p) \<and> m = bp_mode p"
  by (cases p) (auto simp: mk_budget_policy_def ebind_Inr_iff budget_units_Inr opt_units_Inr
      budget_key_Inr valid_policy_def units_ok_def)

lemma read_mode_text [simp]: "read_mode (JStr (mode_text m)) = Inr m"
  by (cases m) (simp_all add: read_mode_def)

lemma read_mode_Inr: "read_mode v = Inr m \<longleftrightarrow> v = JStr (mode_text m)"
  by (cases m) (auto simp: read_mode_def)

lemma policy_to_json_fields:
  "jget ''max_turns'' (policy_to_json p) = Some (JInt (bp_max_turns p))"
  "jget ''max_cost_nanos'' (policy_to_json p) = Some (jopt JInt (bp_max_cost_nanos p))"
  "jget ''source'' (policy_to_json p) = Some (JStr (bp_source p))"
  "jget ''metering_version'' (policy_to_json p) = Some (JStr (bp_metering_version p))"
  "jget ''mode'' (policy_to_json p) = Some (JStr (mode_text (bp_mode p)))"
  "jget ''version'' (policy_to_json p) = Some (JStr ''run-budget/v1'')"
  "jget ''usd_scale'' (policy_to_json p) = Some (JInt usd_scale)"
  "is_obj (policy_to_json p)" "has_keys policy_fields (policy_to_json p)"
  by (simp_all add: policy_to_json_def has_keys_def policy_fields_def)

lemma policy_from_to_json: "valid_policy p \<Longrightarrow> policy_from_json (policy_to_json p) = Inr p"
  by (simp add: policy_from_json_def policy_to_json_fields mk_budget_policy_Inr)

lemma policy_from_json_valid: "policy_from_json v = Inr p \<Longrightarrow> valid_policy p"
  by (auto simp: policy_from_json_def ebind_Inr_iff mk_budget_policy_Inr split: if_splits)

interpretation policy_codec: codec policy_to_json policy_from_json valid_policy
  by unfold_locales (simp_all add: policy_from_to_json policy_from_json_valid)

text \<open>A stored policy is read only if every field has the stored spelling.\<close>

lemma policy_from_json_fields:
  assumes "policy_from_json v = Inr p" and "k \<in> set policy_fields" and "k \<noteq> ''usd_scale''"
  shows "jget k v = jget k (policy_to_json p)"
proof -
  have some: "jget k v \<noteq> None" if "has_keys policy_fields v" "k \<in> set policy_fields" for k
    using that by (auto simp: has_keys_def jget_def map_of_eq_None_iff)
  have "k \<in> {''version'', ''max_turns'', ''max_cost_nanos'', ''source'', ''metering_version'', ''mode''}"
    using assms(2,3) by (auto simp: policy_fields_def)
  moreover have "the (jget ''mode'' v) = JStr (mode_text (bp_mode p))"
    "the (jget ''max_turns'' v) = JInt (bp_max_turns p)"
    "the (jget ''max_cost_nanos'' v) = jopt JInt (bp_max_cost_nanos p)"
    "the (jget ''source'' v) = JStr (bp_source p)"
    "the (jget ''metering_version'' v) = JStr (bp_metering_version p)"
    "jget ''version'' v = Some (JStr ''run-budget/v1'')" "has_keys policy_fields v"
    using assms(1)
    by (auto simp: policy_from_json_def ebind_Inr_iff mk_budget_policy_Inr read_mode_Inr
        split: if_splits)
  ultimately show ?thesis
    using some [of k] assms(2) by (auto simp: policy_to_json_fields) 
qed

section \<open>Requests and reports\<close>

definition request_ok :: "reservation_request \<Rightarrow> bool" where
  "request_ok r \<longleftrightarrow> key_text (rq_execution_key r) \<and> units_ok 1 (rq_turns r) \<and>
     (\<forall>n \<in> set_option (rq_cost_nanos r). units_ok 1 n) \<and>
     (\<forall>k \<in> set_option (rq_parent_execution_key r). key_text k \<and> k \<noteq> rq_execution_key r)"

lemma request_init_Inr: "request_init r = Inr u \<longleftrightarrow> request_ok r"
  by (auto simp: request_init_def ebind_Inr_iff budget_units_Inr budget_key_Inr opt_units_Inr
      request_ok_def units_ok_def split: option.splits)

definition report_ok :: "usage_report \<Rightarrow> bool" where
  "report_ok r \<longleftrightarrow> key_text (ur_report_key r) \<and> key_text (ur_source r) \<and>
     key_text (ur_metering_version r) \<and>
     (\<forall>n \<in> set_option (ur_turns r). units_ok 0 n) \<and> (\<forall>n \<in> set_option (ur_cost_nanos r). units_ok 0 n) \<and>
     (ur_turns r \<noteq> None \<or> ur_cost_nanos r \<noteq> None) \<and>
     (if ur_mode r = CUMULATIVE then \<exists>w. ur_watermark r = Some w \<and> units_ok 0 w
      else ur_watermark r = None)"

lemma report_init_Inr: "report_init r = Inr u \<longleftrightarrow> report_ok r"
  by (auto simp: report_init_def ebind_Inr_iff budget_units_Inr budget_key_Inr opt_units_Inr
      report_ok_def units_ok_def split: option.splits)

lemma request_to_json_inject: "request_to_json r = request_to_json r' \<longleftrightarrow> r = r'"
  by (cases r; cases r') (auto simp: request_to_json_def)

end
