(* ===== verification/Metering.thy ===== *)
theory Metering
  imports Budget
begin

text \<open>
  \<^verbatim>\<open>agent/metering.py\<close>: observed usage values, the metered options of an SDK call, the identity of
  one call and the observation of its result, each with its stored form.

  Every constructor validates in \<^verbatim>\<open>__post_init__\<close> and every failure is a \<^verbatim>\<open>ValueError\<close>. The
  constructors take decoded values, because they test the dynamic type of what they get; the
  records hold the validated values. \<open>hex_float\<close> is the set of texts that \<^verbatim>\<open>float.hex\<close> gives for a
  finite float not below zero, which is what \<^verbatim>\<open>number.hex() == value\<close> accepts.
\<close>

section \<open>Stored shapes\<close>

definition stored_fields :: "json \<Rightarrow> string list \<Rightarrow> json res" where
  "stored_fields v expected = (if \<not> is_obj v \<or> \<not> has_keys expected v then Inl ValueError else Inr v)"

definition field_of :: "string \<Rightarrow> json \<Rightarrow> json" where
  "field_of k v = (case jget k v of None \<Rightarrow> JNull | Some x \<Rightarrow> x)"

fun read_checksum :: "json \<Rightarrow> string res" where
  "read_checksum (JStr s) = (if hex64 s then Inr s else Inl ValueError)"
| "read_checksum _ = Inl ValueError"

fun read_session :: "json \<Rightarrow> string option res" where
  "read_session JNull = Inr None"
| "read_session (JStr s) = ebind (parse_uuid s) (\<lambda>_. Inr (Some s))"
| "read_session _ = Inl ValueError"

fun read_bool :: "json \<Rightarrow> bool res" where
  "read_bool (JBool b) = Inr b"
| "read_bool _ = Inl ValueError"

section \<open>Usage values\<close>

datatype usage_kind = MISSING | INTEGER | BINARY64 | INVALID

fun kind_text :: "usage_kind \<Rightarrow> string" where
  "kind_text MISSING = ''MISSING''"
| "kind_text INTEGER = ''INTEGER''"
| "kind_text BINARY64 = ''BINARY64''"
| "kind_text INVALID = ''INVALID''"

definition read_kind :: "json \<Rightarrow> usage_kind res" where
  "read_kind v =
     (if v = JStr ''MISSING'' then Inr MISSING else if v = JStr ''INTEGER'' then Inr INTEGER
      else if v = JStr ''BINARY64'' then Inr BINARY64 else if v = JStr ''INVALID'' then Inr INVALID
      else Inl ValueError)"

record usage_value =
  uv_kind :: usage_kind
  uv_value :: json

definition exponent_text :: "int \<Rightarrow> string" where
  "exponent_text e = (if e < 0 then CHR ''-'' # show_nat (nat (- e)) else CHR ''+'' # show_nat (nat e))"

definition hex_float :: "string \<Rightarrow> bool" where
  "hex_float s \<longleftrightarrow>
     s = ''0x0.0p+0'' \<or> s = ''-0x0.0p+0'' \<or>
     (let m = take 13 (drop 4 s); e = drop 18 s in
      17 < length s \<and> list_all lower_hex m \<and> take 1 (drop 17 s) = ''p'' \<and>
      (take 4 s = ''0x1.'' \<and> e \<in> exponent_text ` set [-1022..1023] \<or>
       take 4 s = ''0x0.'' \<and> e = exponent_text (-1022) \<and> m \<noteq> ''0000000000000''))"

definition usage_value_ok :: "usage_kind \<Rightarrow> json \<Rightarrow> bool" where
  "usage_value_ok kind v =
     (case kind of
        MISSING \<Rightarrow> v = JNull
      | INVALID \<Rightarrow> v = JNull
      | INTEGER \<Rightarrow> (case v of JInt n \<Rightarrow> 0 \<le> n \<and> n \<le> max_units | _ \<Rightarrow> False)
      | BINARY64 \<Rightarrow> (case v of JStr s \<Rightarrow> hex_float s | _ \<Rightarrow> False))"

definition mk_usage_value :: "usage_kind \<Rightarrow> json \<Rightarrow> usage_value res" where
  "mk_usage_value kind v =
     (if \<not> usage_value_ok kind v then Inl ValueError else Inr \<lparr>uv_kind = kind, uv_value = v\<rparr>)"

text \<open>
  \<^verbatim>\<open>float.hex\<close> of a finite float not below zero: its binary exponent (at least \<open>-1022\<close>) and its 52
  fraction bits.
\<close>

definition float_exponent :: "rat \<Rightarrow> int" where
  "float_exponent r =
     (case find (\<lambda>e. 2 powi e \<le> r) (rev [-1022..1023]) of None \<Rightarrow> -1022 | Some e \<Rightarrow> e)"

definition float_hex :: "rat \<Rightarrow> string \<Rightarrow> string" where
  "float_hex r repr =
     (if r = 0 then (if take 1 repr = ''-'' then ''-0x0.0p+0'' else ''0x0.0p+0'')
      else let e = float_exponent r; m = nat (floor (r * 2 powi (52 - e))) in
        (if 2 ^ 52 \<le> m then ''0x1.'' else ''0x0.'') @ hex_fixed 13 (m mod 2 ^ 52) @ CHR ''p'' #
        exponent_text e)"

definition capture :: "json \<Rightarrow> bool \<Rightarrow> usage_value res" where
  "capture v allow_binary64 =
     (case v of
        JNull \<Rightarrow> mk_usage_value MISSING JNull
      | JInt n \<Rightarrow> (if 0 \<le> n \<and> n \<le> max_units then mk_usage_value INTEGER (JInt n)
                  else mk_usage_value INVALID JNull)
      | JFloat r t \<Rightarrow> (if allow_binary64 \<and> 0 \<le> r then mk_usage_value BINARY64 (JStr (float_hex r t))
                      else mk_usage_value INVALID JNull)
      | _ \<Rightarrow> mk_usage_value INVALID JNull)"

definition usage_value_to_json :: "usage_value \<Rightarrow> json" where
  "usage_value_to_json u = JObj [(''kind'', JStr (kind_text (uv_kind u))), (''value'', uv_value u)]"

definition usage_value_from_json :: "json \<Rightarrow> usage_value res" where
  "usage_value_from_json v =
     ebind (stored_fields v [''kind'', ''value'']) (\<lambda>d.
     ebind (read_kind (field_of ''kind'' d)) (\<lambda>k. mk_usage_value k (field_of ''value'' d)))"

section \<open>Invocation options\<close>

datatype invocation_mode = INV_INITIAL | INV_RESUME | INV_FORK

fun invocation_mode_text :: "invocation_mode \<Rightarrow> string" where
  "invocation_mode_text INV_INITIAL = ''INITIAL''"
| "invocation_mode_text INV_RESUME = ''RESUME''"
| "invocation_mode_text INV_FORK = ''FORK''"

definition read_invocation_mode :: "json \<Rightarrow> invocation_mode res" where
  "read_invocation_mode v =
     (if v = JStr ''INITIAL'' then Inr INV_INITIAL else if v = JStr ''RESUME'' then Inr INV_RESUME
      else if v = JStr ''FORK'' then Inr INV_FORK else Inl ValueError)"

record invocation_options =
  io_model :: "string option"
  io_max_turns :: int
  io_max_budget_usd :: usage_value
  io_session_id :: "string option"
  io_resume :: "string option"
  io_fork_session :: bool
  io_continue_conversation :: bool
  io_output_format_checksum :: string
  io_cli_checksum :: "string option"

definition model_text :: "string \<Rightarrow> bool" where
  "model_text s \<longleftrightarrow> 1 \<le> length s \<and> length s \<le> 256 \<and> list_all (\<lambda>c. 32 \<le> code c) s"

fun read_model :: "json \<Rightarrow> string option res" where
  "read_model JNull = Inr None"
| "read_model (JStr s) = (if model_text s then Inr (Some s) else Inl ValueError)"
| "read_model _ = Inl ValueError"

fun read_turns :: "json \<Rightarrow> int res" where
  "read_turns (JInt n) = (if 1 \<le> n \<and> n \<le> max_units then Inr n else Inl ValueError)"
| "read_turns _ = Inl ValueError"

definition read_opt_checksum :: "json \<Rightarrow> string option res" where
  "read_opt_checksum v =
     (if v = JNull then Inr None else ebind (read_checksum v) (\<lambda>s. Inr (Some s)))"

definition mk_options ::
  "json \<Rightarrow> json \<Rightarrow> usage_value \<Rightarrow> json \<Rightarrow> json \<Rightarrow> json \<Rightarrow> json \<Rightarrow> json \<Rightarrow> json \<Rightarrow>
   invocation_options res" where
  "mk_options model max_turns max_budget_usd session_id resume fork_session
     continue_conversation output_format_checksum cli_checksum =
     ebind (read_turns max_turns) (\<lambda>max_turns.
     ebind (raise_if (continue_conversation \<noteq> JBool False) ValueError) (\<lambda>_.
     ebind (read_bool fork_session) (\<lambda>fork_session.
     ebind (read_model model) (\<lambda>model.
     ebind (read_session session_id) (\<lambda>session_id.
     ebind (read_session resume) (\<lambda>resume.
     ebind (read_checksum output_format_checksum) (\<lambda>output_format_checksum.
     ebind (read_opt_checksum cli_checksum) (\<lambda>cli_checksum.
       Inr \<lparr>io_model = model, io_max_turns = max_turns, io_max_budget_usd = max_budget_usd,
            io_session_id = session_id, io_resume = resume, io_fork_session = fork_session,
            io_continue_conversation = False, io_output_format_checksum = output_format_checksum,
            io_cli_checksum = cli_checksum\<rparr>))))))))"

definition options_to_json :: "invocation_options \<Rightarrow> json" where
  "options_to_json o' = JObj
     ([(''model'', jopt JStr (io_model o')),
       (''max_turns'', JInt (io_max_turns o')),
       (''max_budget_usd'', usage_value_to_json (io_max_budget_usd o')),
       (''session_id'', jopt JStr (io_session_id o')),
       (''resume'', jopt JStr (io_resume o')),
       (''fork_session'', JBool (io_fork_session o')),
       (''continue_conversation'', JBool (io_continue_conversation o')),
       (''output_format_checksum'', JStr (io_output_format_checksum o'))] @
      (case io_cli_checksum o' of None \<Rightarrow> [] | Some c \<Rightarrow> [(''cli_checksum'', JStr c)]))"

definition options_checksum :: "digest \<Rightarrow> invocation_options \<Rightarrow> string" where
  "options_checksum sha o' = json_digest sha (options_to_json o')"

definition options_fields :: "string list" where
  "options_fields = [''model'', ''max_turns'', ''max_budget_usd'', ''session_id'', ''resume'',
     ''fork_session'', ''continue_conversation'', ''output_format_checksum'']"

definition options_from_json :: "json \<Rightarrow> invocation_options res" where
  "options_from_json v =
     ebind (stored_fields v (options_fields @ (if jget ''cli_checksum'' v \<noteq> None then [''cli_checksum''] else [])))
       (\<lambda>d.
     ebind (case jget ''cli_checksum'' d of None \<Rightarrow> Inr () | Some c \<Rightarrow> ebind (read_checksum c) (\<lambda>_. Inr ()))
       (\<lambda>_.
     ebind (usage_value_from_json (field_of ''max_budget_usd'' d)) (\<lambda>budget.
       mk_options (field_of ''model'' d) (field_of ''max_turns'' d) budget
         (field_of ''session_id'' d) (field_of ''resume'' d) (field_of ''fork_session'' d)
         (field_of ''continue_conversation'' d) (field_of ''output_format_checksum'' d)
         (field_of ''cli_checksum'' d))))"

section \<open>Invocations\<close>

record agent_invocation =
  iv_invocation_id :: uuid
  iv_project_id :: uuid
  iv_run_id :: uuid
  iv_run_attempt_id :: uuid
  iv_user_id :: uuid
  iv_session_id :: string
  iv_mode :: invocation_mode
  iv_parent_session_id :: "string option"
  iv_prompt_checksum :: string
  iv_options :: invocation_options
  iv_sdk_version :: string
  iv_cli_version :: string

definition mode_matches :: "invocation_mode \<Rightarrow> string \<Rightarrow> invocation_options \<Rightarrow> bool" where
  "mode_matches mode session_id o' =
     (case mode of
        INV_INITIAL \<Rightarrow> io_session_id o' = Some session_id \<and> io_resume o' = None \<and> \<not> io_fork_session o'
      | INV_RESUME \<Rightarrow> io_session_id o' = None \<and> io_resume o' = Some session_id \<and> \<not> io_fork_session o'
      | INV_FORK \<Rightarrow> io_session_id o' = Some session_id \<and> io_resume o' \<noteq> None \<and>
          io_resume o' \<noteq> Some session_id \<and> io_fork_session o')"

fun read_version :: "json \<Rightarrow> string res" where
  "read_version (JStr s) = (if key_text s then Inr s else Inl ValueError)"
| "read_version _ = Inl ValueError"

fun read_required_session :: "json \<Rightarrow> string res" where
  "read_required_session (JStr s) = ebind (parse_uuid s) (\<lambda>_. Inr s)"
| "read_required_session _ = Inl ValueError"

definition mk_invocation ::
  "uuid \<Rightarrow> uuid \<Rightarrow> uuid \<Rightarrow> uuid \<Rightarrow> uuid \<Rightarrow> json \<Rightarrow> invocation_mode \<Rightarrow> json \<Rightarrow> json \<Rightarrow>
   invocation_options \<Rightarrow> json \<Rightarrow> json \<Rightarrow> agent_invocation res" where
  "mk_invocation invocation_id project_id run_id run_attempt_id user_id session_id mode
     parent_session_id prompt_checksum options sdk_version cli_version =
     ebind (read_required_session session_id) (\<lambda>session_id.
     ebind (read_session parent_session_id) (\<lambda>parent_session_id.
     ebind (read_checksum prompt_checksum) (\<lambda>prompt_checksum.
     ebind (read_version sdk_version) (\<lambda>sdk_version.
     ebind (read_version cli_version) (\<lambda>cli_version.
     ebind (raise_if (\<not> mode_matches mode session_id options \<or>
              parent_session_id \<noteq> io_resume options) ValueError) (\<lambda>_.
       Inr \<lparr>iv_invocation_id = invocation_id, iv_project_id = project_id, iv_run_id = run_id,
            iv_run_attempt_id = run_attempt_id, iv_user_id = user_id, iv_session_id = session_id,
            iv_mode = mode, iv_parent_session_id = parent_session_id,
            iv_prompt_checksum = prompt_checksum, iv_options = options,
            iv_sdk_version = sdk_version, iv_cli_version = cli_version\<rparr>))))))"

definition invocation_to_json :: "agent_invocation \<Rightarrow> json" where
  "invocation_to_json i = JObj
     [(''version'', JStr ''agent-invocation/v1''),
      (''invocation_id'', JStr (str_uuid (iv_invocation_id i))),
      (''project_id'', JStr (str_uuid (iv_project_id i))),
      (''run_id'', JStr (str_uuid (iv_run_id i))),
      (''run_attempt_id'', JStr (str_uuid (iv_run_attempt_id i))),
      (''user_id'', JStr (str_uuid (iv_user_id i))),
      (''session_id'', JStr (iv_session_id i)),
      (''mode'', JStr (invocation_mode_text (iv_mode i))),
      (''parent_session_id'', jopt JStr (iv_parent_session_id i)),
      (''prompt_checksum'', JStr (iv_prompt_checksum i)),
      (''options'', options_to_json (iv_options i)),
      (''sdk_version'', JStr (iv_sdk_version i)),
      (''cli_version'', JStr (iv_cli_version i))]"

definition invocation_checksum :: "digest \<Rightarrow> agent_invocation \<Rightarrow> string" where
  "invocation_checksum sha i = json_digest sha (invocation_to_json i)"

definition invocation_fields :: "string list" where
  "invocation_fields = [''version'', ''invocation_id'', ''project_id'', ''run_id'', ''run_attempt_id'',
     ''user_id'', ''session_id'', ''mode'', ''parent_session_id'', ''prompt_checksum'', ''options'',
     ''sdk_version'', ''cli_version'']"

fun read_identity :: "json \<Rightarrow> uuid res" where
  "read_identity (JStr s) = parse_uuid s"
| "read_identity _ = Inl ValueError"

definition invocation_from_json :: "json \<Rightarrow> agent_invocation res" where
  "invocation_from_json v =
     ebind (stored_fields v invocation_fields) (\<lambda>d.
     ebind (raise_if (field_of ''version'' d \<noteq> JStr ''agent-invocation/v1'') ValueError) (\<lambda>_.
     ebind (read_identity (field_of ''invocation_id'' d)) (\<lambda>invocation_id.
     ebind (read_identity (field_of ''project_id'' d)) (\<lambda>project_id.
     ebind (read_identity (field_of ''run_id'' d)) (\<lambda>run_id.
     ebind (read_identity (field_of ''run_attempt_id'' d)) (\<lambda>run_attempt_id.
     ebind (read_identity (field_of ''user_id'' d)) (\<lambda>user_id.
     ebind (read_invocation_mode (field_of ''mode'' d)) (\<lambda>mode.
     ebind (options_from_json (field_of ''options'' d)) (\<lambda>options.
       mk_invocation invocation_id project_id run_id run_attempt_id user_id
         (field_of ''session_id'' d) mode (field_of ''parent_session_id'' d)
         (field_of ''prompt_checksum'' d) options (field_of ''sdk_version'' d)
         (field_of ''cli_version'' d))))))))))"

section \<open>Observations of a result\<close>

record result_termination =
  rt_subtype :: string
  rt_is_error :: bool
  rt_stop_reason :: "string option"
  rt_has_structured_output :: bool

text \<open>\<^verbatim>\<open>[a-z][a-z0-9_]{0,127}\<close>.\<close>

definition label_text :: "string \<Rightarrow> bool" where
  "label_text s \<longleftrightarrow> (case s of [] \<Rightarrow> False
     | c # cs \<Rightarrow> ascii_lower c \<and> length cs \<le> 127 \<and>
         list_all (\<lambda>c. ascii_lower c \<or> ascii_digit c \<or> c = CHR ''_'') cs)"

fun read_label :: "json \<Rightarrow> string res" where
  "read_label (JStr s) = (if label_text s then Inr s else Inl ValueError)"
| "read_label _ = Inl ValueError"

definition read_opt_label :: "json \<Rightarrow> string option res" where
  "read_opt_label v = (if v = JNull then Inr None else ebind (read_label v) (\<lambda>s. Inr (Some s)))"

definition mk_termination :: "json \<Rightarrow> json \<Rightarrow> json \<Rightarrow> json \<Rightarrow> result_termination res" where
  "mk_termination subtype is_error stop_reason has_structured_output =
     ebind (read_bool is_error) (\<lambda>is_error.
     ebind (read_bool has_structured_output) (\<lambda>has_structured_output.
     ebind (read_label subtype) (\<lambda>subtype.
     ebind (read_opt_label stop_reason) (\<lambda>stop_reason.
       Inr \<lparr>rt_subtype = subtype, rt_is_error = is_error, rt_stop_reason = stop_reason,
            rt_has_structured_output = has_structured_output\<rparr>))))"

definition termination_to_json :: "result_termination \<Rightarrow> json" where
  "termination_to_json t = JObj
     [(''subtype'', JStr (rt_subtype t)), (''is_error'', JBool (rt_is_error t)),
      (''stop_reason'', jopt JStr (rt_stop_reason t)),
      (''has_structured_output'', JBool (rt_has_structured_output t))]"

definition termination_from_json :: "json \<Rightarrow> result_termination res" where
  "termination_from_json v =
     ebind (stored_fields v [''subtype'', ''is_error'', ''stop_reason'', ''has_structured_output'']) (\<lambda>d.
       mk_termination (field_of ''subtype'' d) (field_of ''is_error'' d)
         (field_of ''stop_reason'' d) (field_of ''has_structured_output'' d))"

record usage_observation =
  uo_invocation :: agent_invocation
  uo_turns :: usage_value
  uo_cost_usd :: usage_value
  uo_termination :: "result_termination option"

definition mk_observation ::
  "agent_invocation \<Rightarrow> usage_value \<Rightarrow> usage_value \<Rightarrow> result_termination option \<Rightarrow>
   usage_observation res" where
  "mk_observation invocation turns cost_usd termination =
     (if uv_kind turns = BINARY64 then Inl ValueError
      else Inr \<lparr>uo_invocation = invocation, uo_turns = turns, uo_cost_usd = cost_usd,
                uo_termination = termination\<rparr>)"

definition observation_key :: "usage_observation \<Rightarrow> string" where
  "observation_key ob = ''claude-result/'' @ str_uuid (iv_invocation_id (uo_invocation ob))"

definition observation_to_json :: "usage_observation \<Rightarrow> json" where
  "observation_to_json ob = JObj
     ([(''version'', JStr ''sdk-result-observation/v1''),
       (''invocation'', invocation_to_json (uo_invocation ob)),
       (''turns'', usage_value_to_json (uo_turns ob)),
       (''cost_usd'', usage_value_to_json (uo_cost_usd ob))] @
      (case uo_termination ob of None \<Rightarrow> [] | Some t \<Rightarrow> [(''termination'', termination_to_json t)]))"

definition observation_from_json :: "json \<Rightarrow> usage_observation res" where
  "observation_from_json v =
     ebind (stored_fields v ([''version'', ''invocation'', ''turns'', ''cost_usd''] @
              (if jget ''termination'' v \<noteq> None then [''termination''] else []))) (\<lambda>d.
     ebind (raise_if (field_of ''version'' d \<noteq> JStr ''sdk-result-observation/v1'') ValueError) (\<lambda>_.
     ebind (invocation_from_json (field_of ''invocation'' d)) (\<lambda>invocation.
     ebind (usage_value_from_json (field_of ''turns'' d)) (\<lambda>turns.
     ebind (usage_value_from_json (field_of ''cost_usd'' d)) (\<lambda>cost_usd.
     ebind (case jget ''termination'' d of None \<Rightarrow> Inr None
            | Some t \<Rightarrow> ebind (termination_from_json t) (\<lambda>t. Inr (Some t))) (\<lambda>termination.
       mk_observation invocation turns cost_usd termination))))))"

section \<open>What the readers accept\<close>

lemma read_checksum_Inr: "read_checksum v = Inr s \<longleftrightarrow> v = JStr s \<and> hex64 s"
  by (cases v) auto

lemma read_bool_Inr: "read_bool v = Inr b \<longleftrightarrow> v = JBool b"
  by (cases v) auto

definition session_text :: "string \<Rightarrow> bool" where
  "session_text s \<longleftrightarrow> (\<exists>u. parse_uuid s = Inr u)"

lemma read_session_Inr:
  "read_session v = Inr x \<longleftrightarrow> v = jopt JStr x \<and> (\<forall>s \<in> set_option x. session_text s)"
  by (cases v; cases x) (auto simp: ebind_Inr_iff session_text_def)

lemma read_model_Inr:
  "read_model v = Inr x \<longleftrightarrow> v = jopt JStr x \<and> (\<forall>s \<in> set_option x. model_text s)"
  by (cases v; cases x) auto

lemma read_turns_Inr: "read_turns v = Inr n \<longleftrightarrow> v = JInt n \<and> 1 \<le> n \<and> n \<le> max_units"
  by (cases v) auto

lemma read_opt_checksum_Inr:
  "read_opt_checksum v = Inr x \<longleftrightarrow> v = jopt JStr x \<and> (\<forall>s \<in> set_option x. hex64 s)"
  by (cases x) (auto simp: read_opt_checksum_def ebind_Inr_iff read_checksum_Inr)

lemma read_version_Inr: "read_version v = Inr s \<longleftrightarrow> v = JStr s \<and> key_text s"
  by (cases v) auto

lemma read_required_session_Inr:
  "read_required_session v = Inr s \<longleftrightarrow> v = JStr s \<and> session_text s"
  by (cases v) (auto simp: ebind_Inr_iff session_text_def)

lemma read_label_Inr: "read_label v = Inr s \<longleftrightarrow> v = JStr s \<and> label_text s"
  by (cases v) auto

lemma read_opt_label_Inr:
  "read_opt_label v = Inr x \<longleftrightarrow> v = jopt JStr x \<and> (\<forall>s \<in> set_option x. label_text s)"
  by (cases x) (auto simp: read_opt_label_def ebind_Inr_iff read_label_Inr)

lemma read_kind_Inr: "read_kind v = Inr k \<longleftrightarrow> v = JStr (kind_text k)"
  by (cases k) (auto simp: read_kind_def)

lemma read_invocation_mode_Inr:
  "read_invocation_mode v = Inr m \<longleftrightarrow> v = JStr (invocation_mode_text m)"
  by (cases m) (auto simp: read_invocation_mode_def)

lemma stored_fields_Inr: "stored_fields v ks = Inr d \<longleftrightarrow> d = v \<and> is_obj v \<and> has_keys ks v"
  by (auto simp: stored_fields_def)

lemmas reader_Inr = read_checksum_Inr read_bool_Inr read_session_Inr read_model_Inr read_turns_Inr
  read_opt_checksum_Inr read_version_Inr read_required_session_Inr read_label_Inr
  read_opt_label_Inr read_kind_Inr read_invocation_mode_Inr stored_fields_Inr

text \<open>Reading a field of an object that was just built.\<close>

lemma field_of_JObj [simp]:
  "field_of k (JObj ((k', v) # kvs)) = (if k = k' then v else field_of k (JObj kvs))"
  by (simp add: field_of_def)

section \<open>Round trips\<close>

definition valid_usage :: "usage_value \<Rightarrow> bool" where
  "valid_usage u \<longleftrightarrow> usage_value_ok (uv_kind u) (uv_value u)"

lemma mk_usage_value_Inr:
  "mk_usage_value k v = Inr u \<longleftrightarrow> valid_usage u \<and> uv_kind u = k \<and> uv_value u = v"
  by (cases u) (auto simp: mk_usage_value_def valid_usage_def)

interpretation usage_codec: codec usage_value_to_json usage_value_from_json valid_usage
  by unfold_locales
    (auto simp: usage_value_from_json_def usage_value_to_json_def ebind_Inr_iff reader_Inr
      has_keys_def mk_usage_value_Inr)

definition valid_options :: "invocation_options \<Rightarrow> bool" where
  "valid_options o' \<longleftrightarrow> (\<forall>s \<in> set_option (io_model o'). model_text s) \<and>
     1 \<le> io_max_turns o' \<and> io_max_turns o' \<le> max_units \<and> valid_usage (io_max_budget_usd o') \<and>
     (\<forall>s \<in> set_option (io_session_id o'). session_text s) \<and>
     (\<forall>s \<in> set_option (io_resume o'). session_text s) \<and>
     \<not> io_continue_conversation o' \<and> hex64 (io_output_format_checksum o') \<and>
     (\<forall>s \<in> set_option (io_cli_checksum o'). hex64 s)"

lemma mk_options_Inr:
  assumes "valid_usage b"
  shows "mk_options m t b s r f c oc cc = Inr o' \<longleftrightarrow> valid_options o' \<and>
     m = jopt JStr (io_model o') \<and> t = JInt (io_max_turns o') \<and> b = io_max_budget_usd o' \<and>
     s = jopt JStr (io_session_id o') \<and> r = jopt JStr (io_resume o') \<and>
     f = JBool (io_fork_session o') \<and> c = JBool (io_continue_conversation o') \<and>
     oc = JStr (io_output_format_checksum o') \<and> cc = jopt JStr (io_cli_checksum o')"
  using assms
  by (cases o') (auto simp: mk_options_def ebind_Inr_iff reader_Inr valid_options_def)

lemma options_from_json_valid: "options_from_json v = Inr o' \<Longrightarrow> valid_options o'"
  using usage_codec.dec_valid mk_options_Inr
  by (fastforce simp: options_from_json_def ebind_Inr_iff)

lemma options_from_to_json:
  assumes "valid_options o'"
  shows "options_from_json (options_to_json o') = Inr o'"
proof -
  have u: "usage_value_from_json (usage_value_to_json (io_max_budget_usd o')) = Inr (io_max_budget_usd o')"
    using assms by (intro usage_codec.dec_enc) (simp add: valid_options_def)
  have v: "valid_usage (io_max_budget_usd o')" using assms by (simp add: valid_options_def)
  show ?thesis
  proof (cases "io_cli_checksum o'")
    case None
    then show ?thesis
      using assms u by (simp add: options_from_json_def options_to_json_def ebind_Inr_iff reader_Inr
          has_keys_def options_fields_def mk_options_Inr [OF v]) (simp add: field_of_def)
  next
    case (Some c)
    then have "hex64 c" using assms by (simp add: valid_options_def)
    with Some show ?thesis
      using assms u by (simp add: options_from_json_def options_to_json_def ebind_Inr_iff reader_Inr
          has_keys_def options_fields_def mk_options_Inr [OF v]) blast?
  qed
qed

interpretation options_codec: codec options_to_json options_from_json valid_options
  by unfold_locales (simp_all add: options_from_to_json options_from_json_valid)

definition valid_invocation :: "agent_invocation \<Rightarrow> bool" where
  "valid_invocation i \<longleftrightarrow> session_text (iv_session_id i) \<and>
     (\<forall>s \<in> set_option (iv_parent_session_id i). session_text s) \<and>
     hex64 (iv_prompt_checksum i) \<and> key_text (iv_sdk_version i) \<and> key_text (iv_cli_version i) \<and>
     valid_options (iv_options i) \<and> mode_matches (iv_mode i) (iv_session_id i) (iv_options i) \<and>
     iv_parent_session_id i = io_resume (iv_options i)"

lemma mk_invocation_Inr:
  assumes "valid_options o'"
  shows "mk_invocation a b c d e s m p pc o' sv cv = Inr i \<longleftrightarrow> valid_invocation i \<and>
     a = iv_invocation_id i \<and> b = iv_project_id i \<and> c = iv_run_id i \<and> d = iv_run_attempt_id i \<and>
     e = iv_user_id i \<and> s = JStr (iv_session_id i) \<and> m = iv_mode i \<and>
     p = jopt JStr (iv_parent_session_id i) \<and> pc = JStr (iv_prompt_checksum i) \<and>
     o' = iv_options i \<and> sv = JStr (iv_sdk_version i) \<and> cv = JStr (iv_cli_version i)"
  using assms
  by (cases i) (auto simp: mk_invocation_def ebind_Inr_iff reader_Inr valid_invocation_def)

lemma invocation_from_json_valid: "invocation_from_json v = Inr i \<Longrightarrow> valid_invocation i"
  using options_codec.dec_valid mk_invocation_Inr
  by (fastforce simp: invocation_from_json_def ebind_Inr_iff)

lemma invocation_from_to_json:
  assumes "valid_invocation i"
  shows "invocation_from_json (invocation_to_json i) = Inr i"
proof -
  have v: "valid_options (iv_options i)" using assms by (simp add: valid_invocation_def)
  have o': "options_from_json (options_to_json (iv_options i)) = Inr (iv_options i)"
    by (rule options_codec.dec_enc) (rule v)
  have m: "read_invocation_mode (JStr (invocation_mode_text (iv_mode i))) = Inr (iv_mode i)"
    by (simp add: reader_Inr)
  show ?thesis
    using assms o' m
    by (simp add: invocation_from_json_def invocation_to_json_def stored_fields_def
        has_keys_def invocation_fields_def raise_if_def mk_invocation_Inr [OF v])
qed

interpretation invocation_codec: codec invocation_to_json invocation_from_json valid_invocation
  by unfold_locales (simp_all add: invocation_from_to_json invocation_from_json_valid)

definition valid_termination :: "result_termination \<Rightarrow> bool" where
  "valid_termination t \<longleftrightarrow> label_text (rt_subtype t) \<and>
     (\<forall>s \<in> set_option (rt_stop_reason t). label_text s)"

lemma mk_termination_Inr:
  "mk_termination s e r h = Inr t \<longleftrightarrow> valid_termination t \<and> s = JStr (rt_subtype t) \<and>
     e = JBool (rt_is_error t) \<and> r = jopt JStr (rt_stop_reason t) \<and>
     h = JBool (rt_has_structured_output t)"
  by (cases t) (auto simp: mk_termination_def ebind_Inr_iff reader_Inr valid_termination_def)

interpretation termination_codec: codec termination_to_json termination_from_json valid_termination
  by unfold_locales
    (auto simp: termination_from_json_def termination_to_json_def ebind_Inr_iff stored_fields_Inr
      has_keys_def mk_termination_Inr)

definition valid_observation :: "usage_observation \<Rightarrow> bool" where
  "valid_observation ob \<longleftrightarrow> valid_invocation (uo_invocation ob) \<and> valid_usage (uo_turns ob) \<and>
     valid_usage (uo_cost_usd ob) \<and> uv_kind (uo_turns ob) \<noteq> BINARY64 \<and>
     (\<forall>t \<in> set_option (uo_termination ob). valid_termination t)"

lemma observation_from_json_valid: "observation_from_json v = Inr ob \<Longrightarrow> valid_observation ob"
  using usage_codec.dec_valid invocation_codec.dec_valid termination_codec.dec_valid
  by (auto simp: observation_from_json_def ebind_Inr_iff mk_observation_def valid_observation_def
      split: if_splits option.splits)

lemma observation_from_to_json:
  assumes "valid_observation ob"
  shows "observation_from_json (observation_to_json ob) = Inr ob"
proof -
  have i: "invocation_from_json (invocation_to_json (uo_invocation ob)) = Inr (uo_invocation ob)"
    and t: "usage_value_from_json (usage_value_to_json (uo_turns ob)) = Inr (uo_turns ob)"
    and c: "usage_value_from_json (usage_value_to_json (uo_cost_usd ob)) = Inr (uo_cost_usd ob)"
    and e: "\<And>x. uo_termination ob = Some x \<Longrightarrow> termination_from_json (termination_to_json x) = Inr x"
    using assms
    by (auto simp: valid_observation_def intro!: invocation_codec.dec_enc usage_codec.dec_enc
        termination_codec.dec_enc)
  show ?thesis
  proof (cases "uo_termination ob")
    case None
    then show ?thesis using assms i t c
      by (simp add: observation_from_json_def observation_to_json_def stored_fields_def has_keys_def
          raise_if_def mk_observation_def valid_observation_def)
  next
    case (Some x)
    then show ?thesis using assms i t c e [OF Some]
      by (simp add: observation_from_json_def observation_to_json_def stored_fields_def has_keys_def
          raise_if_def mk_observation_def valid_observation_def)
  qed
qed

interpretation observation_codec: codec observation_to_json observation_from_json valid_observation
  by unfold_locales (simp_all add: observation_from_to_json observation_from_json_valid)

end
