(* ===== verification/Tables.thy ===== *)
theory Tables
  imports Metering
begin

text \<open>
  The rows of \<^verbatim>\<open>db/models.py\<close> that the run components read and write, and the database as the lists
  of its tables.

  Columns keep their order and meaning; \<^verbatim>\<open>NULL\<close> is \<^const>\<open>None\<close>. A status column that the code only
  ever reads through its enumeration has that enumeration as type. \<^verbatim>\<open>Numeric(38, 0)\<close> amounts are
  integers. The book-keeping column \<^verbatim>\<open>updated_at\<close>, which no modelled code reads, is left out. Check
  constraints are predicates on rows.
\<close>

section \<open>Runs\<close>

record run_row =
  run_id :: uuid
  run_project_id :: uuid
  run_task_id :: uuid
  run_trigger_type :: string
  run_idempotency_key :: string
  run_request_hash :: string
  run_status :: run_status
  run_input_json :: json
  run_task_snapshot_json :: json
  run_permission_snapshot_json :: json
  run_selected_sources_json :: json
  run_limits_snapshot_json :: json
  run_row_version :: int
  run_started_at :: "time option"
  run_finished_at :: "time option"
  run_error_json :: "json option"
  run_deleted_at :: "time option"
  run_deleted_by :: "uuid option"
  run_created_at :: time

record deletion_audit_row =
  da_id :: uuid
  da_idempotency_key :: string
  da_project_id :: uuid
  da_run_id :: uuid
  da_task_id :: uuid
  da_actor_id :: uuid
  da_request_id :: uuid
  da_output_count :: int
  da_created_at :: time

record segment_row =
  sg_id :: uuid
  sg_run_id :: uuid
  sg_segment_no :: int
  sg_trigger_type :: segment_trigger
  sg_trigger_ref :: "uuid option"
  sg_status :: segment_status
  sg_objective_json :: json
  sg_checkpoint_json :: json
  sg_continuation_mode :: continuation_mode
  sg_parent_agent_session_id :: "uuid option"
  sg_instruction_snapshot_id :: "uuid option"
  sg_started_at :: "time option"
  sg_finished_at :: "time option"
  sg_created_at :: time

record brief_row =
  br_id :: uuid
  br_run_id :: uuid
  br_run_segment_id :: uuid
  br_brief_version :: string
  br_brief_json :: json
  br_checksum :: string
  br_created_at :: time

record attempt_row =
  at_id :: uuid
  at_inline_proposal_id :: "uuid option"
  at_run_id :: uuid
  at_run_segment_id :: "uuid option"
  at_attempt_no :: int
  at_reason :: string
  at_status :: attempt_status
  at_worker_id :: "string option"
  at_lease_token_hash :: "string option"
  at_lease_expires_at :: "time option"
  at_heartbeat_at :: "time option"
  at_started_at :: "time option"
  at_finished_at :: "time option"
  at_error_json :: "json option"
  at_created_at :: time

record skill_snapshot_row =
  sk_id :: uuid
  sk_run_id :: uuid
  sk_skill_version_id :: uuid
  sk_sort_order :: int
  sk_config_snapshot_json :: json
  sk_manifest_checksum :: string
  sk_created_at :: time

record session_row =
  se_id :: uuid
  se_run_id :: uuid
  se_run_attempt_id :: uuid
  se_run_segment_id :: "uuid option"
  se_sdk_session_id :: "uuid option"
  se_parent_session_id :: "uuid option"
  se_continuation_mode :: continuation_mode
  se_checkpoint_checksum :: "string option"
  se_engine_options_checksum :: "string option"
  se_engine :: string
  se_session_kind :: session_kind
  se_cwd :: string
  se_sdk_version :: string
  se_cli_version :: string
  se_model :: string
  se_status :: string
  se_usage_json :: json
  se_cost_json :: json
  se_created_at :: time

record event_row =
  ev_id :: uuid
  ev_run_id :: uuid
  ev_run_attempt_id :: "uuid option"
  ev_agent_session_id :: "uuid option"
  ev_sequence :: int
  ev_event_type :: string
  ev_payload_json :: json
  ev_occurred_at :: time
  ev_trace_id :: "string option"
  ev_summary :: "string option"

record outbox_row =
  ob_id :: uuid
  ob_aggregate_type :: string
  ob_aggregate_id :: uuid
  ob_topic :: string
  ob_payload_json :: json
  ob_occurred_at :: time
  ob_published_at :: "time option"
  ob_publish_attempts :: int
  ob_error_json :: "json option"

record result_row =
  re_id :: uuid
  re_run_id :: uuid
  re_agent_session_id :: uuid
  re_output_schema :: string
  re_result_kind :: string
  re_data_json :: json
  re_evidence_refs_json :: "string list"
  re_artifact_refs_json :: "string list"
  re_change_proposal_refs_json :: "string list"
  re_optional_schema_identity_json :: json
  re_summary :: string
  re_confidence :: "rat option"
  re_needs_review :: bool
  re_usage_json :: json
  re_cost_json :: json
  re_validation_json :: json
  re_created_at :: time

section \<open>Interactions, proposals and effects\<close>

record interaction_row =
  ui_id :: uuid
  ui_run_id :: uuid
  ui_run_segment_id :: uuid
  ui_agent_session_id :: uuid
  ui_interaction_type :: interaction_type
  ui_prompt_json :: json
  ui_options_json :: json
  ui_required :: bool
  ui_expires_at :: time
  ui_status :: interaction_status
  ui_version :: int
  ui_continuation_mode :: continuation_mode
  ui_checkpoint_json :: json
  ui_checkpoint_checksum :: string
  ui_change_proposal_id :: "uuid option"
  ui_created_at :: time

record response_row =
  ir_id :: uuid
  ir_interaction_id :: uuid
  ir_run_id :: uuid
  ir_actor_id :: uuid
  ir_interaction_version :: int
  ir_idempotency_key :: string
  ir_request_hash :: string
  ir_response_json :: json
  ir_created_at :: time

record proposal_row =
  pr_id :: uuid
  pr_inline_owner_json :: "json option"
  pr_proposal_ref :: string
  pr_project_id :: uuid
  pr_run_id :: uuid
  pr_run_segment_id :: uuid
  pr_run_attempt_id :: uuid
  pr_agent_session_id :: uuid
  pr_skill_version_id :: uuid
  pr_target_binding_id :: uuid
  pr_integration_id :: "uuid option"
  pr_effect_intent_key :: string
  pr_capability_version :: string
  pr_operation :: string
  pr_target_json :: json
  pr_summary :: string
  pr_preview_json :: json
  pr_precondition_json :: json
  pr_evidence_refs_json :: "string list"
  pr_risk_level :: string
  pr_reversible :: bool
  pr_rollback_json :: json
  pr_verification_json :: json
  pr_continuation_mode :: continuation_mode
  pr_checkpoint_json :: json
  pr_checkpoint_checksum :: string
  pr_idempotency_key :: string
  pr_request_fingerprint :: string
  pr_status :: string
  pr_version :: int
  pr_checksum :: string
  pr_expires_at :: time
  pr_created_at :: time

definition proposal_row_ok :: "proposal_row \<Rightarrow> bool" where
  "proposal_row_ok p \<longleftrightarrow>
     (pr_capability_version p = ''document.write/v1'' \<and>
      pr_operation p \<in> set [''CREATE'', ''UPDATE'', ''MOVE'', ''MOVE_FOLDER'', ''CREATE_FOLDER'',
        ''DELETE_FOLDER'', ''TRASH'', ''RESTORE''] \<and> pr_integration_id p = None \<or>
      pr_capability_version p \<noteq> ''document.write/v1'' \<and> pr_integration_id p \<noteq> None) \<and>
     pr_risk_level p \<in> set [''LOW'', ''MEDIUM'', ''HIGH''] \<and>
     pr_status p \<in> set [''DRAFT'', ''PENDING_APPROVAL'', ''APPROVED'', ''APPLYING'', ''APPLIED'',
       ''REJECTED'', ''STALE'', ''FAILED'']"

record approval_row =
  ap_id :: uuid
  ap_proposal_id :: uuid
  ap_run_id :: uuid
  ap_source :: string
  ap_decision :: string
  ap_actor_id :: "uuid option"
  ap_preauthorization_id :: "uuid option"
  ap_proposal_version :: int
  ap_proposal_checksum :: string
  ap_idempotency_key :: string
  ap_request_hash :: string
  ap_reason :: string
  ap_created_at :: time

definition approval_row_ok :: "approval_row \<Rightarrow> bool" where
  "approval_row_ok a \<longleftrightarrow>
     ap_source a \<in> set [''USER'', ''PREAUTHORIZATION'', ''RUN_START''] \<and>
     ap_decision a \<in> set [''APPROVED'', ''REJECTED'']"

record effect_row =
  ef_id :: uuid
  ef_proposal_id :: uuid
  ef_run_id :: uuid
  ef_approval_id :: uuid
  ef_tool_call_id :: "uuid option"
  ef_status :: string
  ef_provider :: string
  ef_provider_version :: string
  ef_idempotency_key :: string
  ef_request_fingerprint :: string
  ef_before_ref :: "string option"
  ef_after_ref :: "string option"
  ef_verification_json :: json
  ef_error_json :: "json option"
  ef_worker_id :: "string option"
  ef_lease_token_hash :: "string option"
  ef_lease_expires_at :: "time option"
  ef_heartbeat_at :: "time option"
  ef_attempt_no :: int
  ef_started_at :: "time option"
  ef_executed_at :: "time option"
  ef_created_at :: time

definition effect_row_ok :: "effect_row \<Rightarrow> bool" where
  "effect_row_ok e \<longleftrightarrow>
     ef_status e \<in> set [''REQUESTED'', ''LEASED'', ''APPLYING'', ''APPLIED'', ''STALE'', ''FAILED'',
       ''VERIFICATION_FAILED'']"

record tool_call_row =
  tc_id :: uuid
  tc_run_id :: uuid
  tc_run_attempt_id :: uuid
  tc_agent_session_id :: uuid
  tc_sdk_tool_use_id :: string
  tc_request_fingerprint :: string
  tc_tool_name :: string
  tc_capability_version :: string
  tc_provider :: string
  tc_integration_id :: "uuid option"
  tc_arguments_summary :: json
  tc_status :: string
  tc_duration_ms :: "int option"
  tc_result_json :: "json option"
  tc_error_json :: "json option"
  tc_created_at :: time

record permission_row =
  pd_id :: uuid
  pd_run_id :: uuid
  pd_tool_call_id :: uuid
  pd_policy :: string
  pd_decision :: string
  pd_decided_by :: "uuid option"
  pd_reason :: string
  pd_request_fingerprint :: string
  pd_request_json :: json
  pd_decided_at :: time

record evidence_row =
  ed_id :: uuid
  ed_evidence_ref :: string
  ed_run_id :: uuid
  ed_tool_call_id :: uuid
  ed_evidence_type :: string
  ed_source_uri :: string
  ed_source_locator :: json
  ed_content_hash :: string
  ed_snapshot_uri :: "string option"
  ed_excerpt :: "string option"
  ed_metadata_json :: json
  ed_artifact_ref :: "string option"
  ed_artifact_bytes :: "string option"
  ed_artifact_size :: "int option"
  ed_artifact_mime_type :: "string option"
  ed_artifact_path :: "string option"
  ed_created_at :: time

section \<open>Budgets\<close>

record account_row =
  ba_id :: uuid
  ba_run_id :: uuid
  ba_policy_json :: json
  ba_policy_checksum :: string
  ba_limits_checksum :: string
  ba_consumed_turns :: int
  ba_reserved_turns :: int
  ba_consumed_cost_nanos :: "int option"
  ba_reserved_cost_nanos :: "int option"
  ba_block_code :: "string option"
  ba_row_version :: int
  ba_created_at :: time

definition account_row_ok :: "account_row \<Rightarrow> bool" where
  "account_row_ok a \<longleftrightarrow>
     0 \<le> ba_consumed_turns a \<and> 0 \<le> ba_reserved_turns a \<and>
     (case (ba_consumed_cost_nanos a, ba_reserved_cost_nanos a) of
        (None, None) \<Rightarrow> True | (Some c, Some r) \<Rightarrow> 0 \<le> c \<and> 0 \<le> r | _ \<Rightarrow> False) \<and>
     1 \<le> ba_row_version a"

record reservation_row =
  rv_id :: uuid
  rv_run_id :: uuid
  rv_run_segment_id :: "uuid option"
  rv_run_attempt_id :: uuid
  rv_execution_key :: string
  rv_group_key :: string
  rv_group_checksum :: string
  rv_request_checksum :: string
  rv_invocation_id :: "uuid option"
  rv_invocation_json :: "json option"
  rv_invocation_checksum :: "string option"
  rv_invocation_start_owner_hash :: "string option"
  rv_parent_reservation_id :: "uuid option"
  rv_execution_lease_hash :: string
  rv_status :: budget_status
  rv_granted_turns :: int
  rv_reserved_turns :: int
  rv_consumed_turns :: int
  rv_granted_cost_nanos :: "int option"
  rv_reserved_cost_nanos :: "int option"
  rv_consumed_cost_nanos :: "int option"
  rv_turns_watermark :: int
  rv_cost_watermark :: int
  rv_start_intent_at :: "time option"
  rv_stop_confirmed_at :: "time option"
  rv_final_usage_at :: "time option"
  rv_reconcile_worker_id :: "string option"
  rv_reconcile_token_hash :: "string option"
  rv_reconcile_expires_at :: "time option"
  rv_created_at :: time

text \<open>\<^verbatim>\<open>^sha256:[0-9a-f]{64}$\<close>.\<close>

definition owner_hash_text :: "string \<Rightarrow> bool" where
  "owner_hash_text s \<longleftrightarrow> take 7 s = ''sha256:'' \<and> hex64 (drop 7 s)"

text \<open>The check constraints of \<^verbatim>\<open>run_budget_reservations\<close>, in their order.\<close>

definition reservation_row_ok :: "reservation_row \<Rightarrow> bool" where
  "reservation_row_ok r \<longleftrightarrow>
     ((rv_invocation_id r = None \<and> rv_invocation_json r = None \<and> rv_invocation_checksum r = None) \<or>
      (rv_invocation_id r \<noteq> None \<and> rv_invocation_json r \<noteq> None \<and> rv_invocation_checksum r \<noteq> None)) \<and>
     (\<forall>h \<in> set_option (rv_invocation_start_owner_hash r).
        rv_invocation_id r \<noteq> None \<and> rv_invocation_json r \<noteq> None \<and> rv_invocation_checksum r \<noteq> None \<and>
        owner_hash_text h) \<and>
     0 < rv_granted_turns r \<and> 0 \<le> rv_reserved_turns r \<and> 0 \<le> rv_consumed_turns r \<and>
     rv_reserved_turns r \<le> rv_granted_turns r \<and>
     (case (rv_granted_cost_nanos r, rv_reserved_cost_nanos r, rv_consumed_cost_nanos r) of
        (None, None, None) \<Rightarrow> True
      | (Some g, Some h, Some c) \<Rightarrow> 0 < g \<and> 0 \<le> h \<and> 0 \<le> c \<and> h \<le> g
      | _ \<Rightarrow> False) \<and>
     (if rv_status r = BUD_RESERVED \<or> rv_status r = RELEASED then rv_start_intent_at r = None
      else rv_start_intent_at r \<noteq> None) \<and>
     (rv_status r = SETTLED \<or> rv_status r = RELEASED \<longrightarrow>
        rv_reserved_turns r = 0 \<and> (\<forall>h \<in> set_option (rv_reserved_cost_nanos r). h = 0)) \<and>
     (rv_status r = SETTLED \<longrightarrow> rv_stop_confirmed_at r \<noteq> None \<and> rv_final_usage_at r \<noteq> None) \<and>
     (rv_status r = RELEASED \<longrightarrow>
        rv_consumed_turns r = 0 \<and> (\<forall>c \<in> set_option (rv_consumed_cost_nanos r). c = 0))"

datatype receipt_kind = USAGE | STOP | UNSTARTED | UNVERIFIABLE

fun receipt_kind_text :: "receipt_kind \<Rightarrow> string" where
  "receipt_kind_text USAGE = ''USAGE''"
| "receipt_kind_text STOP = ''STOP''"
| "receipt_kind_text UNSTARTED = ''UNSTARTED''"
| "receipt_kind_text UNVERIFIABLE = ''UNVERIFIABLE''"

record receipt_row =
  rp_id :: uuid
  rp_reservation_id :: uuid
  rp_receipt_key :: string
  rp_kind :: receipt_kind
  rp_payload_json :: json
  rp_payload_checksum :: string
  rp_reconcile_worker_id :: string
  rp_disposition :: string
  rp_created_at :: time

record observation_row =
  bo_id :: uuid
  bo_reservation_id :: uuid
  bo_invocation_id :: uuid
  bo_observation_key :: string
  bo_payload_json :: json
  bo_payload_checksum :: string
  bo_reconcile_worker_id :: string
  bo_created_at :: time

section \<open>Projects and skills\<close>

record project_row =
  pj_id :: uuid
  pj_organization_id :: uuid
  pj_key :: string
  pj_name :: string
  pj_description :: string
  pj_status :: string
  pj_settings_json :: json
  pj_retention_days :: int
  pj_row_version :: int
  pj_created_at :: time

record skill_source_row =
  so_id :: uuid
  so_organization_id :: uuid
  so_name :: string
  so_source_type :: string
  so_storage_uri :: string
  so_content_hash :: string
  so_source_version :: "string option"
  so_entry_path :: "string option"
  so_imported_by :: uuid
  so_source_snapshot_json :: json
  so_source_file_index_json :: json
  so_created_at :: time

record skill_row =
  sl_id :: uuid
  sl_organization_id :: uuid
  sl_key :: string
  sl_name :: string
  sl_description :: string
  sl_status :: string
  sl_created_at :: time

record skill_version_row =
  sv_id :: uuid
  sv_skill_id :: uuid
  sv_version :: string
  sv_skill_source_id :: uuid
  sv_interpretation_id :: uuid
  sv_status :: string
  sv_gate_report_json :: json
  sv_published_by :: "uuid option"
  sv_published_at :: "time option"
  sv_created_at :: time

record manifest_row =
  mf_id :: uuid
  mf_interpretation_id :: uuid
  mf_skill_version_id :: uuid
  mf_manifest_version :: string
  mf_manifest_json :: json
  mf_checksum :: string
  mf_created_at :: time

record project_skill_row =
  ps_id :: uuid
  ps_project_id :: uuid
  ps_skill_version_id :: uuid
  ps_enabled_by :: uuid
  ps_enabled_at :: time
  ps_disabled_at :: "time option"

record integration_row =
  in_id :: uuid
  in_project_id :: uuid
  in_name :: string
  in_kind :: string
  in_provider :: string
  in_status :: string
  in_revision :: int
  in_capabilities_json :: "string list"
  in_scope_json :: json
  in_config_json :: json
  in_secret_reference_id :: "uuid option"
  in_created_by :: uuid
  in_disabled_at :: "time option"

definition integration_row_ok :: "integration_row \<Rightarrow> bool" where
  "integration_row_ok i \<longleftrightarrow> in_status i = ''ACTIVE'' \<or> in_status i = ''DISABLED''"

record binding_row =
  bd_id :: uuid
  bd_project_id :: uuid
  bd_scope_level :: string
  bd_scope_key :: string
  bd_requirement_key :: string
  bd_resource_kind :: string
  bd_integration_id :: "uuid option"
  bd_run_id :: "uuid option"
  bd_source_binding_id :: "uuid option"
  bd_provider :: string
  bd_capability_version :: string
  bd_revision :: string
  bd_scope_json :: json
  bd_checksum :: string
  bd_created_by :: uuid
  bd_disabled_at :: "time option"

definition binding_row_ok :: "binding_row \<Rightarrow> bool" where
  "binding_row_ok b \<longleftrightarrow> bd_scope_level b \<in> set [''PROJECT_DEFAULT'', ''TASK'', ''RUN'']"

section \<open>The database\<close>

record db =
  db_runs :: "run_row list"
  db_deletion_audits :: "deletion_audit_row list"
  db_segments :: "segment_row list"
  db_briefs :: "brief_row list"
  db_attempts :: "attempt_row list"
  db_skill_snapshots :: "skill_snapshot_row list"
  db_sessions :: "session_row list"
  db_events :: "event_row list"
  db_outbox :: "outbox_row list"
  db_results :: "result_row list"
  db_interactions :: "interaction_row list"
  db_responses :: "response_row list"
  db_proposals :: "proposal_row list"
  db_approvals :: "approval_row list"
  db_effects :: "effect_row list"
  db_tool_calls :: "tool_call_row list"
  db_permissions :: "permission_row list"
  db_evidence :: "evidence_row list"
  db_accounts :: "account_row list"
  db_reservations :: "reservation_row list"
  db_receipts :: "receipt_row list"
  db_observations :: "observation_row list"
  db_projects :: "project_row list"
  db_skill_sources :: "skill_source_row list"
  db_skills :: "skill_row list"
  db_skill_versions :: "skill_version_row list"
  db_manifests :: "manifest_row list"
  db_project_skills :: "project_skill_row list"
  db_integrations :: "integration_row list"
  db_bindings :: "binding_row list"

text \<open>The flush of one changed row, table by table.\<close>

definition put_run :: "run_row \<Rightarrow> db \<Rightarrow> db" where
  "put_run r d = d\<lparr>db_runs := put_row run_id r (db_runs d)\<rparr>"

definition put_segment :: "segment_row \<Rightarrow> db \<Rightarrow> db" where
  "put_segment r d = d\<lparr>db_segments := put_row sg_id r (db_segments d)\<rparr>"

definition put_attempt :: "attempt_row \<Rightarrow> db \<Rightarrow> db" where
  "put_attempt r d = d\<lparr>db_attempts := put_row at_id r (db_attempts d)\<rparr>"

definition put_session :: "session_row \<Rightarrow> db \<Rightarrow> db" where
  "put_session r d = d\<lparr>db_sessions := put_row se_id r (db_sessions d)\<rparr>"

definition put_account :: "account_row \<Rightarrow> db \<Rightarrow> db" where
  "put_account r d = d\<lparr>db_accounts := put_row ba_id r (db_accounts d)\<rparr>"

definition put_reservation :: "reservation_row \<Rightarrow> db \<Rightarrow> db" where
  "put_reservation r d = d\<lparr>db_reservations := put_row rv_id r (db_reservations d)\<rparr>"

definition put_interaction :: "interaction_row \<Rightarrow> db \<Rightarrow> db" where
  "put_interaction r d = d\<lparr>db_interactions := put_row ui_id r (db_interactions d)\<rparr>"

definition put_proposal :: "proposal_row \<Rightarrow> db \<Rightarrow> db" where
  "put_proposal r d = d\<lparr>db_proposals := put_row pr_id r (db_proposals d)\<rparr>"

definition put_effect :: "effect_row \<Rightarrow> db \<Rightarrow> db" where
  "put_effect r d = d\<lparr>db_effects := put_row ef_id r (db_effects d)\<rparr>"

definition put_tool_call :: "tool_call_row \<Rightarrow> db \<Rightarrow> db" where
  "put_tool_call r d = d\<lparr>db_tool_calls := put_row tc_id r (db_tool_calls d)\<rparr>"

text \<open>
  The flush of new rows into a table whose later updates go by primary key: a key that is already
  there violates the primary key.
\<close>

definition insert_rows :: "('r \<Rightarrow> 'k) \<Rightarrow> 'r list \<Rightarrow> 'r list \<Rightarrow> 'r list res" where
  "insert_rows key added rows =
     (if distinct (map key (rows @ added)) then Inr (rows @ added) else Inl IntegrityError)"

lemma insert_rows_Inr:
  "insert_rows key added rows = Inr rows' \<longleftrightarrow>
     rows' = rows @ added \<and> distinct (map key (rows @ added))"
  by (auto simp: insert_rows_def)

text \<open>Readings of the clock and fresh identifiers of one transaction, in the order of the code.\<close>

type_synonym clock = "nat \<Rightarrow> time"
type_synonym fresh = "nat \<Rightarrow> uuid"

lemmas put_defs = put_run_def put_segment_def put_attempt_def put_session_def put_account_def
  put_reservation_def put_interaction_def put_proposal_def put_effect_def put_tool_call_def

end
