(* ===== verification/Run_Base.thy ===== *)
theory Run_Base
  imports Tables
begin

text \<open>
  \<^verbatim>\<open>runs/repository_base.py\<close>: the locked reads, lease checks, event numbering and message
  constructors that all repositories of a run share, and the agent event of \<^verbatim>\<open>agent/domain.py\<close>.

  A query on a primary key is \<^const>\<open>find_row\<close>. Inside one transaction the rows do not change under
  the code, so \<^verbatim>\<open>FOR UPDATE\<close> and \<^verbatim>\<open>populate_existing\<close> have no counterpart.
\<close>

section \<open>Agent events\<close>

datatype agent_event_type =
    SESSION_STARTED | STEP_STARTED | STEP_COMPLETED | STEP_FAILED | TEXT_DELTA | TEXT_COMPLETED
  | TOOL_REQUESTED | TOOL_COMPLETED | TOOL_FAILED | PERMISSION_REQUIRED | PERMISSION_RESOLVED
  | EVIDENCE_CREATED | ARTIFACT_CREATED | USAGE_UPDATED | SESSION_DEFERRED | SESSION_INTERRUPTED
  | SESSION_STORE_DEGRADED | SEGMENT_STARTED | SEGMENT_COMPLETED | INTERACTION_REQUESTED
  | INTERACTION_RESPONDED | INTERACTION_EXPIRED | CHANGE_PROPOSED | EFFECT_APPROVED
  | EFFECT_REJECTED | EFFECT_APPLIED | EFFECT_FAILED | CHECKPOINT_CREATED | SESSION_RESUMED
  | SESSION_FORKED | SESSION_REPLACED | RESULT_COMPLETED | ENGINE_FAILED

fun event_type_text :: "agent_event_type \<Rightarrow> string" where
  "event_type_text SESSION_STARTED = ''SESSION_STARTED''"
| "event_type_text STEP_STARTED = ''STEP_STARTED''"
| "event_type_text STEP_COMPLETED = ''STEP_COMPLETED''"
| "event_type_text STEP_FAILED = ''STEP_FAILED''"
| "event_type_text TEXT_DELTA = ''TEXT_DELTA''"
| "event_type_text TEXT_COMPLETED = ''TEXT_COMPLETED''"
| "event_type_text TOOL_REQUESTED = ''TOOL_REQUESTED''"
| "event_type_text TOOL_COMPLETED = ''TOOL_COMPLETED''"
| "event_type_text TOOL_FAILED = ''TOOL_FAILED''"
| "event_type_text PERMISSION_REQUIRED = ''PERMISSION_REQUIRED''"
| "event_type_text PERMISSION_RESOLVED = ''PERMISSION_RESOLVED''"
| "event_type_text EVIDENCE_CREATED = ''EVIDENCE_CREATED''"
| "event_type_text ARTIFACT_CREATED = ''ARTIFACT_CREATED''"
| "event_type_text USAGE_UPDATED = ''USAGE_UPDATED''"
| "event_type_text SESSION_DEFERRED = ''SESSION_DEFERRED''"
| "event_type_text SESSION_INTERRUPTED = ''SESSION_INTERRUPTED''"
| "event_type_text SESSION_STORE_DEGRADED = ''SESSION_STORE_DEGRADED''"
| "event_type_text SEGMENT_STARTED = ''SEGMENT_STARTED''"
| "event_type_text SEGMENT_COMPLETED = ''SEGMENT_COMPLETED''"
| "event_type_text INTERACTION_REQUESTED = ''INTERACTION_REQUESTED''"
| "event_type_text INTERACTION_RESPONDED = ''INTERACTION_RESPONDED''"
| "event_type_text INTERACTION_EXPIRED = ''INTERACTION_EXPIRED''"
| "event_type_text CHANGE_PROPOSED = ''CHANGE_PROPOSED''"
| "event_type_text EFFECT_APPROVED = ''EFFECT_APPROVED''"
| "event_type_text EFFECT_REJECTED = ''EFFECT_REJECTED''"
| "event_type_text EFFECT_APPLIED = ''EFFECT_APPLIED''"
| "event_type_text EFFECT_FAILED = ''EFFECT_FAILED''"
| "event_type_text CHECKPOINT_CREATED = ''CHECKPOINT_CREATED''"
| "event_type_text SESSION_RESUMED = ''SESSION_RESUMED''"
| "event_type_text SESSION_FORKED = ''SESSION_FORKED''"
| "event_type_text SESSION_REPLACED = ''SESSION_REPLACED''"
| "event_type_text RESULT_COMPLETED = ''RESULT_COMPLETED''"
| "event_type_text ENGINE_FAILED = ''ENGINE_FAILED''"

record agent_event =
  ae_run_id :: uuid
  ae_run_attempt_id :: uuid
  ae_agent_session_id :: string
  ae_sequence :: int
  ae_occurred_at :: time
  ae_event_type :: agent_event_type
  ae_payload :: "(string \<times> json) list"

text \<open>\<^verbatim>\<open>AgentEvent.__post_init__\<close>.\<close>

definition agent_event_init :: "agent_event \<Rightarrow> unit res" where
  "agent_event_init e =
     ebind (raise_if (ae_sequence e \<le> 0) ValueError) (\<lambda>_.
     ebind (parse_uuid (ae_agent_session_id e)) (\<lambda>_. Inr ()))"

section \<open>Locked reads\<close>

definition cancel_event_type :: string where
  "cancel_event_type = ''RUN_CANCEL_REQUESTED''"

definition is_cancellation_requested :: "uuid \<Rightarrow> db \<Rightarrow> bool" where
  "is_cancellation_requested rid d \<longleftrightarrow>
     list_ex (\<lambda>e. ev_run_id e = rid \<and> ev_event_type e = cancel_event_type) (db_events d)"

definition reject_cancelled_execution :: "uuid \<Rightarrow> db \<Rightarrow> unit res" where
  "reject_cancelled_execution rid d =
     raise_if (is_cancellation_requested rid d) RunCancellationRequestedError"

definition lock_run_row :: "uuid \<Rightarrow> uuid option \<Rightarrow> db \<Rightarrow> run_row option" where
  "lock_run_row rid project_id d =
     find (\<lambda>r. run_id r = rid \<and> (\<forall>p \<in> set_option project_id. run_project_id r = p)) (db_runs d)"

definition lock_segment_row :: "uuid \<Rightarrow> uuid \<Rightarrow> db \<Rightarrow> segment_row option" where
  "lock_segment_row sid rid d = find (\<lambda>s. sg_id s = sid \<and> sg_run_id s = rid) (db_segments d)"

definition lock_claimed_execution ::
  "claimed_run \<Rightarrow> db \<Rightarrow> (run_row \<times> segment_row option \<times> attempt_row) res" where
  "lock_claimed_execution claimed d =
     (case lock_run_row (cl_run_id claimed) None d of
        None \<Rightarrow> Inl RunNotFoundError
      | Some run \<Rightarrow>
          ebind
            (case cl_run_segment_id claimed of
               None \<Rightarrow> Inr None
             | Some sid \<Rightarrow>
                 (case lock_segment_row sid (cl_run_id claimed) d of
                    None \<Rightarrow> Inl LeaseValidationError
                  | Some s \<Rightarrow> Inr (Some s))) (\<lambda>segment.
          (case find (\<lambda>a. at_id a = cl_run_attempt_id claimed \<and> at_run_id a = cl_run_id claimed \<and>
                     (cl_run_segment_id claimed \<noteq> None \<longrightarrow>
                        at_run_segment_id a = cl_run_segment_id claimed)) (db_attempts d) of
             None \<Rightarrow> Inl LeaseValidationError
           | Some attempt \<Rightarrow> Inr (run, segment, attempt))))"

definition attempt_active :: "attempt_row \<Rightarrow> bool" where
  "attempt_active a \<longleftrightarrow> at_status a = ATT_LEASED \<or> at_status a = ATT_RUNNING"

text \<open>\<^verbatim>\<open>hmac.compare_digest(stored or "", digest)\<close>.\<close>

definition digest_matches :: "string option \<Rightarrow> string \<Rightarrow> bool" where
  "digest_matches stored h \<longleftrightarrow> (case stored of None \<Rightarrow> [] | Some s \<Rightarrow> s) = h"

definition validate_claimed_lease ::
  "digest \<Rightarrow> attempt_row \<Rightarrow> claimed_run \<Rightarrow> time \<Rightarrow> unit res" where
  "validate_claimed_lease sha attempt claimed now =
     (let token_hash = lease_token_hash sha (cl_lease_token claimed) in
      ebind (raise_if (\<not> digest_matches (at_lease_token_hash attempt) token_hash)
               LeaseValidationError) (\<lambda>_.
      ebind (raise_if (\<not> attempt_active attempt) LeaseValidationError) (\<lambda>_.
        raise_if (case at_lease_expires_at attempt of None \<Rightarrow> True | Some t \<Rightarrow> t \<le> now)
          LeaseValidationError)))"

definition validate_agent_event :: "agent_event \<Rightarrow> claimed_run \<Rightarrow> unit res" where
  "validate_agent_event e claimed =
     raise_if (ae_run_id e \<noteq> cl_run_id claimed \<or> ae_run_attempt_id e \<noteq> cl_run_attempt_id claimed)
       ValueError"

section \<open>Sessions\<close>

text \<open>\<^verbatim>\<open>one_or_none()\<close> on a query that no primary key decides.\<close>

definition one_or_none :: "'r list \<Rightarrow> 'r option res" where
  "one_or_none rows =
     (case rows of [] \<Rightarrow> Inr None | [r] \<Rightarrow> Inr (Some r) | _ \<Rightarrow> Inl MultipleResultsFound)"

definition find_primary_agent_session :: "claimed_run \<Rightarrow> db \<Rightarrow> session_row option res" where
  "find_primary_agent_session claimed d =
     one_or_none (filter (\<lambda>s. se_run_id s = cl_run_id claimed \<and>
         se_run_attempt_id s = cl_run_attempt_id claimed \<and> se_session_kind s = PRIMARY)
       (db_sessions d))"

definition new_agent_session ::
  "uuid \<Rightarrow> claimed_run \<Rightarrow> uuid \<Rightarrow> session_metadata \<Rightarrow> time \<Rightarrow> session_row" where
  "new_agent_session new_id claimed sdk_session_id metadata now =
     \<lparr>se_id = new_id, se_run_id = cl_run_id claimed, se_run_attempt_id = cl_run_attempt_id claimed,
      se_run_segment_id = cl_run_segment_id claimed, se_sdk_session_id = Some sdk_session_id,
      se_parent_session_id = sm_parent_session_id metadata,
      se_continuation_mode = sm_continuation_mode metadata,
      se_checkpoint_checksum = sm_checkpoint_checksum metadata,
      se_engine_options_checksum = sm_engine_options_checksum metadata,
      se_engine = sm_engine metadata, se_session_kind = sm_session_kind metadata,
      se_cwd = sm_cwd metadata, se_sdk_version = sm_sdk_version metadata,
      se_cli_version = sm_cli_version metadata, se_model = sm_model metadata,
      se_status = ''ACTIVE'', se_usage_json = JObj [], se_cost_json = JObj [], se_created_at = now\<rparr>"

text \<open>
  What the table refuses: a second active primary session of the run, and a primary session that
  branches.
\<close>

definition session_refused :: "session_row \<Rightarrow> db \<Rightarrow> bool" where
  "session_refused s d \<longleftrightarrow>
     list_ex (\<lambda>x. se_run_id x = se_run_id s \<and> se_status x = ''ACTIVE'' \<and> se_session_kind x = PRIMARY)
       (db_sessions d) \<or> se_continuation_mode s = BRANCH"

text \<open>The session of the attempt, and the database with it.\<close>

definition ensure_agent_session ::
  "uuid \<Rightarrow> claimed_run \<Rightarrow> uuid \<Rightarrow> session_metadata \<Rightarrow> time \<Rightarrow> db \<Rightarrow> (session_row \<times> db) res" where
  "ensure_agent_session new_id claimed sdk_session_id metadata now d =
     (if sm_session_kind metadata \<noteq> PRIMARY then Inl ValueError
      else ebind (find_primary_agent_session claimed d) (\<lambda>existing.
        case existing of
          Some s \<Rightarrow> if se_sdk_session_id s \<noteq> Some sdk_session_id then Inl ValueError else Inr (s, d)
        | None \<Rightarrow>
            let s = new_agent_session new_id claimed sdk_session_id metadata now in
            ebind (raise_if (session_refused s d) IntegrityError) (\<lambda>_.
            ebind (insert_rows se_id [s] (db_sessions d)) (\<lambda>sessions.
              Inr (s, d\<lparr>db_sessions := sessions\<rparr>)))))"

text \<open>
  \<^verbatim>\<open>float(total_cost)\<close> of an \<^verbatim>\<open>int\<close>, a \<^verbatim>\<open>bool\<close> or a \<^verbatim>\<open>float\<close>. \<open>fl\<close> is the conversion of an integer to a
  float with its \<^verbatim>\<open>repr\<close>.
\<close>

type_synonym to_float = "int \<Rightarrow> json"

definition py_float :: "to_float \<Rightarrow> json \<Rightarrow> json option" where
  "py_float fl v =
     (case v of
        JInt n \<Rightarrow> Some (fl n)
      | JBool b \<Rightarrow> Some (fl (if b then 1 else 0))
      | JFloat r t \<Rightarrow> Some (JFloat r t)
      | _ \<Rightarrow> None)"

definition merge_session_usage :: "to_float \<Rightarrow> session_row \<Rightarrow> agent_event \<Rightarrow> session_row" where
  "merge_session_usage fl s e =
     (let s1 = (if ae_event_type e = USAGE_UPDATED then
                  (case map_of (ae_payload e) ''usage'' of
                     Some (JObj kvs) \<Rightarrow> s\<lparr>se_usage_json := JObj kvs\<rparr>
                   | _ \<Rightarrow> s)
                else s)
      in case map_of (ae_payload e) ''total_cost_usd'' of
           None \<Rightarrow> s1
         | Some v \<Rightarrow>
             (case py_float fl v of
                None \<Rightarrow> s1
              | Some c \<Rightarrow> s1\<lparr>se_cost_json := JObj [(''total_cost_usd'', c)]\<rparr>))"

section \<open>Events and messages\<close>

definition run_sequences :: "uuid \<Rightarrow> db \<Rightarrow> int list" where
  "run_sequences rid d = map ev_sequence (filter (\<lambda>e. ev_run_id e = rid) (db_events d))"

text \<open>\<^verbatim>\<open>coalesce(max(sequence), 0) + 1\<close>; the result 0 of a query counts as missing and becomes 1.\<close>

definition coalesce_max :: "int list \<Rightarrow> int" where
  "coalesce_max xs = (if xs = [] then 0 else Max (set xs))"

definition next_sequence :: "uuid \<Rightarrow> db \<Rightarrow> int" where
  "next_sequence rid d =
     (let n = coalesce_max (run_sequences rid d) + 1 in if n = 0 then 1 else n)"

definition stored_agent_event :: "uuid \<Rightarrow> agent_event \<Rightarrow> event_row res" where
  "stored_agent_event new_id e =
     (let payload = filter (\<lambda>(k, v). k \<noteq> ''structured_output'' \<and> k \<noteq> ''result'') (ae_payload e) in
      ebind (parse_uuid (ae_agent_session_id e)) (\<lambda>session.
        Inr \<lparr>ev_id = new_id, ev_run_id = ae_run_id e, ev_run_attempt_id = Some (ae_run_attempt_id e),
             ev_agent_session_id = Some session, ev_sequence = ae_sequence e,
             ev_event_type = event_type_text (ae_event_type e), ev_payload_json = JObj payload,
             ev_occurred_at = ae_occurred_at e, ev_trace_id = None,
             ev_summary = Some (event_type_text (ae_event_type e))\<rparr>))"

definition event_outbox :: "uuid \<Rightarrow> event_row \<Rightarrow> string \<Rightarrow> outbox_row" where
  "event_outbox new_id e status =
     \<lparr>ob_id = new_id, ob_aggregate_type = ''run'', ob_aggregate_id = ev_run_id e,
      ob_topic = ''run.lifecycle.changed/v1'',
      ob_payload_json = JObj [(''run_id'', JStr (str_uuid (ev_run_id e))),
        (''sequence'', JInt (ev_sequence e)), (''event_type'', JStr (ev_event_type e)),
        (''status'', JStr status)],
      ob_occurred_at = ev_occurred_at e, ob_published_at = None, ob_publish_attempts = 0,
      ob_error_json = None\<rparr>"

definition snapshot_event ::
  "uuid \<Rightarrow> uuid \<Rightarrow> int \<Rightarrow> json \<Rightarrow> string \<Rightarrow> time \<Rightarrow> uuid option \<Rightarrow> uuid option \<Rightarrow> string option \<Rightarrow>
   event_row" where
  "snapshot_event new_id rid sequence payload summary occurred_at run_attempt_id agent_session_id
     trace_id =
     \<lparr>ev_id = new_id, ev_run_id = rid, ev_run_attempt_id = run_attempt_id,
      ev_agent_session_id = agent_session_id, ev_sequence = sequence,
      ev_event_type = ''RUN_SNAPSHOT'', ev_payload_json = payload, ev_occurred_at = occurred_at,
      ev_trace_id = trace_id, ev_summary = Some summary\<rparr>"

definition dispatch_outbox :: "uuid \<Rightarrow> uuid \<Rightarrow> json \<Rightarrow> time \<Rightarrow> outbox_row" where
  "dispatch_outbox new_id rid payload occurred_at =
     \<lparr>ob_id = new_id, ob_aggregate_type = ''run'', ob_aggregate_id = rid,
      ob_topic = ''run.dispatch.requested/v1'', ob_payload_json = payload,
      ob_occurred_at = occurred_at, ob_published_at = None, ob_publish_attempts = 0,
      ob_error_json = None\<rparr>"

definition effect_dispatch_outbox :: "uuid \<Rightarrow> effect_row \<Rightarrow> time \<Rightarrow> outbox_row" where
  "effect_dispatch_outbox new_id execution occurred_at =
     \<lparr>ob_id = new_id, ob_aggregate_type = ''effect_execution'', ob_aggregate_id = ef_id execution,
      ob_topic = ''effect.apply.requested/v1'',
      ob_payload_json = JObj [(''effect_execution_id'', JStr (str_uuid (ef_id execution))),
        (''proposal_id'', JStr (str_uuid (ef_proposal_id execution))),
        (''run_id'', JStr (str_uuid (ef_run_id execution)))],
      ob_occurred_at = occurred_at, ob_published_at = None, ob_publish_attempts = 0,
      ob_error_json = None\<rparr>"

definition to_created_run :: "run_row \<Rightarrow> bool \<Rightarrow> created_run" where
  "to_created_run r replay =
     \<lparr>cr_run_id = run_id r, cr_project_id = run_project_id r, cr_task_id = run_task_id r,
      cr_status = run_status r, cr_row_version = run_row_version r, cr_created_at = run_created_at r,
      cr_idempotent_replay = replay\<rparr>"

text \<open>The rows that \<^verbatim>\<open>session.add_all\<close> adds for an event: the event and its notification.\<close>

definition add_event :: "event_row \<Rightarrow> outbox_row list \<Rightarrow> db \<Rightarrow> db" where
  "add_event e obs d = d\<lparr>db_events := db_events d @ [e], db_outbox := db_outbox d @ obs\<rparr>"

section \<open>Facts\<close>

lemma validate_claimed_lease_Inr:
  "validate_claimed_lease sha a c now = Inr u \<longleftrightarrow>
     digest_matches (at_lease_token_hash a) (lease_token_hash sha (cl_lease_token c)) \<and>
     attempt_active a \<and> (\<exists>t. at_lease_expires_at a = Some t \<and> now < t)"
  by (auto simp: validate_claimed_lease_def ebind_Inr_iff Let_def not_le split: option.splits)

lemma lock_claimed_execution_Inr:
  assumes "lock_claimed_execution claimed d = Inr (run, segment, attempt)"
  shows "run \<in> set (db_runs d)" "run_id run = cl_run_id claimed"
    "attempt \<in> set (db_attempts d)" "at_id attempt = cl_run_attempt_id claimed"
    "at_run_id attempt = cl_run_id claimed"
    "\<And>s. segment = Some s \<Longrightarrow> s \<in> set (db_segments d) \<and> cl_run_segment_id claimed = Some (sg_id s)
       \<and> sg_run_id s = cl_run_id claimed \<and> at_run_segment_id attempt = Some (sg_id s)"
    "segment = None \<longleftrightarrow> cl_run_segment_id claimed = None"
  using assms
  by (auto simp: lock_claimed_execution_def lock_run_row_def lock_segment_row_def ebind_Inr_iff
      find_Some_iff split: option.splits)

lemma next_sequence_greater:
  assumes "e \<in> set (db_events d)" "ev_run_id e = rid" "\<forall>e \<in> set (db_events d). 0 < ev_sequence e"
  shows "ev_sequence e < next_sequence rid d"
proof -
  have "ev_sequence e \<in> set (run_sequences rid d)" using assms by (auto simp: run_sequences_def)
  then have "ev_sequence e \<le> coalesce_max (run_sequences rid d)" by (auto simp: coalesce_max_def)
  then show ?thesis using assms(1,3) by (auto simp: next_sequence_def Let_def)
qed

lemma next_sequence_pos:
  assumes "\<forall>e \<in> set (db_events d). 0 < ev_sequence e"
  shows "0 < next_sequence rid d"
proof -
  have "0 \<le> coalesce_max (run_sequences rid d)"
  proof (cases "run_sequences rid d")
    case Nil
    then show ?thesis by (simp add: coalesce_max_def)
  next
    case (Cons n ns)
    have "\<forall>n \<in> set (run_sequences rid d). 0 < n" using assms by (auto simp: run_sequences_def)
    moreover have "Max (set (run_sequences rid d)) \<in> set (run_sequences rid d)"
      using Cons by (intro Max_in) simp_all
    ultimately have "0 < Max (set (run_sequences rid d))" by blast
    then show ?thesis by (simp add: coalesce_max_def)
  qed
  then show ?thesis by (simp add: next_sequence_def Let_def)
qed

end
