(* ===== verification/Pyvalue.thy ===== *)
theory Pyvalue
  imports Pytime Json
begin

text \<open>
  Python's conversions between decoded JSON values, text, integers and times: \<^verbatim>\<open>str()\<close> and \<^verbatim>\<open>repr()\<close>,
  \<^verbatim>\<open>int()\<close>, \<^verbatim>\<open>dict()\<close>, truth values, \<^verbatim>\<open>UUID(str(..))\<close>, \<^verbatim>\<open>datetime.isoformat\<close> of a UTC time and
  \<^verbatim>\<open>datetime.fromisoformat\<close>.

  Of the formats \<^verbatim>\<open>fromisoformat\<close> reads, the extended calendar format (the one \<^verbatim>\<open>isoformat\<close> writes,
  with every optional part) is modelled; the basic and week formats, which no code under \<^verbatim>\<open>src\<close>
  writes, raise here. Times past the year 9999, where Python overflows, are not cut off.

  The lemma: the text of a time is read back as that time.
\<close>

section \<open>Truth, text and integers\<close>

text \<open>\<^verbatim>\<open>bool(v)\<close>.\<close>

fun truthy :: "json \<Rightarrow> bool" where
  "truthy JNull = False"
| "truthy (JBool b) = b"
| "truthy (JInt i) = (i \<noteq> 0)"
| "truthy (JFloat r t) = (r \<noteq> 0)"
| "truthy (JStr s) = (s \<noteq> [])"
| "truthy (JArr js) = (js \<noteq> [])"
| "truthy (JObj kvs) = (kvs \<noteq> [])"

fun join_list :: "string list \<Rightarrow> string" where
  "join_list [] = []"
| "join_list [t] = t"
| "join_list (t # u # ts) = t @ '', '' @ join_list (u # ts)"

text \<open>\<^verbatim>\<open>repr\<close> of a text: single quotes unless only they occur in it.\<close>

definition repr_char :: "char \<Rightarrow> char \<Rightarrow> string" where
  "repr_char q c =
     (if c = q \<or> code c = 92 then [CHR 0x5C, c]
      else if code c = 9 then [CHR 0x5C, CHR ''t'']
      else if code c = 10 then [CHR 0x5C, CHR ''n'']
      else if code c = 13 then [CHR 0x5C, CHR ''r'']
      else if code c < 32 \<or> 127 \<le> code c \<and> code c \<le> 160 \<or> code c = 173
      then [CHR 0x5C, CHR ''x''] @ hex_fixed 2 (code c)
      else [c])"

definition repr_text :: "string \<Rightarrow> string" where
  "repr_text s =
     (let q = (if CHR 0x27 \<in> set s \<and> CHR 0x22 \<notin> set s then CHR 0x22 else CHR 0x27)
      in q # concat (map (repr_char q) s) @ [q])"

primrec py_repr :: "json \<Rightarrow> string" where
  "py_repr JNull = ''None''"
| "py_repr (JBool b) = (if b then ''True'' else ''False'')"
| "py_repr (JInt i) = show_int i"
| "py_repr (JFloat r t) = t"
| "py_repr (JStr s) = repr_text s"
| "py_repr (JArr js) = ''['' @ join_list (map py_repr js) @ '']''"
| "py_repr (JObj kvs) =
     ''{'' @ join_list (map (\<lambda>(k, t). repr_text k @ '': '' @ t) (map (map_prod id py_repr) kvs)) @ ''}''"

fun py_str :: "json \<Rightarrow> string" where
  "py_str (JStr s) = s"
| "py_str v = py_repr v"

text \<open>
  \<^verbatim>\<open>int(s)\<close> of a text: white space around, a sign and single underscores are allowed, and at most
  4300 digits.
\<close>

fun dec_run :: "nat \<Rightarrow> string \<Rightarrow> nat option" where
  "dec_run a [] = Some a"
| "dec_run a (c # cs) =
     (if ascii_digit c then dec_run (10 * a + dig_val c) cs
      else if c = CHR ''_'' then
        (case cs of [] \<Rightarrow> None
         | c' # cs' \<Rightarrow> if ascii_digit c' then dec_run (10 * a + dig_val c') cs' else None)
      else None)"

definition dec_body :: "string \<Rightarrow> nat option" where
  "dec_body s =
     (case s of [] \<Rightarrow> None
      | c # cs \<Rightarrow> if ascii_digit c \<and> length (filter ascii_digit s) \<le> 4300 then dec_run 0 s else None)"

definition int_text :: "string \<Rightarrow> int option" where
  "int_text s =
     (case py_strip s of
        [] \<Rightarrow> None
      | c # cs \<Rightarrow>
          if c = CHR ''-'' then map_option (\<lambda>n. - int n) (dec_body cs)
          else if c = CHR ''+'' then map_option int (dec_body cs)
          else map_option int (dec_body (c # cs)))"

definition int_of_json :: "json \<Rightarrow> int res" where
  "int_of_json v =
     (case v of
        JInt n \<Rightarrow> Inr n
      | JBool b \<Rightarrow> Inr (if b then 1 else 0)
      | JFloat r t \<Rightarrow> Inr (if 0 \<le> r then floor r else - floor (- r))
      | JStr s \<Rightarrow> (case int_text s of None \<Rightarrow> Inl ValueError | Some n \<Rightarrow> Inr n)
      | _ \<Rightarrow> Inl TypeError)"

text \<open>\<^verbatim>\<open>UUID(str(v))\<close>.\<close>

definition uuid_of_json :: "json \<Rightarrow> uuid res" where
  "uuid_of_json v = parse_uuid (py_str v)"

text \<open>\<^verbatim>\<open>dict(v)\<close> of a column that is declared to hold objects.\<close>

fun py_dict :: "json \<Rightarrow> json res" where
  "py_dict (JObj kvs) = Inr (JObj kvs)"
| "py_dict _ = Inl TypeError"

text \<open>\<^verbatim>\<open>tuple(v)\<close>.\<close>

fun py_tuple :: "json \<Rightarrow> json list res" where
  "py_tuple (JArr js) = Inr js"
| "py_tuple (JObj kvs) = Inr (map (JStr \<circ> fst) kvs)"
| "py_tuple (JStr s) = Inr (map (\<lambda>c. JStr [c]) s)"
| "py_tuple _ = Inl TypeError"

text \<open>\<^verbatim>\<open>error.get(k)\<close> of an optional object; a missing key reads as \<^verbatim>\<open>None\<close>.\<close>

definition jnull :: "string \<Rightarrow> json \<Rightarrow> json" where
  "jnull k v = (case jget k v of None \<Rightarrow> JNull | Some w \<Rightarrow> w)"

lemma jnull_JObj [simp]: "jnull k (JObj kvs) = (case map_of kvs k of None \<Rightarrow> JNull | Some w \<Rightarrow> w)"
  by (simp add: jnull_def)

section \<open>Times as text\<close>

definition dec_fixed :: "nat \<Rightarrow> nat \<Rightarrow> string" where
  "dec_fixed w n = map (\<lambda>i. dig (n div 10 ^ i mod 10)) (rev [0..<w])"

definition isoformat :: "time \<Rightarrow> string" where
  "isoformat t =
     (let d = t div usec_day; u = t mod usec_day; s = u div usec_second; f = u mod usec_second in
      dec_fixed 4 (nat (civil_year d)) @ CHR ''-'' # dec_fixed 2 (nat (civil_month d)) @
      CHR ''-'' # dec_fixed 2 (nat (civil_day d)) @ CHR ''T'' # dec_fixed 2 (nat (s div 3600)) @
      CHR '':'' # dec_fixed 2 (nat (s div 60 mod 60)) @ CHR '':'' # dec_fixed 2 (nat (s mod 60)) @
      (if f = 0 then [] else CHR ''.'' # dec_fixed 6 (nat f)) @ ''+00:00'')"

definition days_in_month :: "int \<Rightarrow> int \<Rightarrow> int" where
  "days_in_month y m = month_days (is_leap y) ! nat (m - 1)"

text \<open>The number in front of a text, with a fixed count of digits.\<close>

definition take_digits :: "nat \<Rightarrow> string \<Rightarrow> (int \<times> string) option" where
  "take_digits w s =
     (if length (take w s) = w \<and> list_all ascii_digit (take w s)
      then Some (int (read_nat (take w s)), drop w s) else None)"

definition take_char :: "string \<Rightarrow> string \<Rightarrow> string option" where
  "take_char cs s = (case s of [] \<Rightarrow> None | c # r \<Rightarrow> if c \<in> set cs then Some r else None)"

definition iso_date :: "string \<Rightarrow> (int \<times> string) option" where
  "iso_date s =
     Option.bind (take_digits 4 s) (\<lambda>(y, s). Option.bind (take_char ''-'' s) (\<lambda>s.
     Option.bind (take_digits 2 s) (\<lambda>(m, s). Option.bind (take_char ''-'' s) (\<lambda>s.
     Option.bind (take_digits 2 s) (\<lambda>(d, s).
       if 1 \<le> y \<and> 1 \<le> m \<and> m \<le> 12 \<and> 1 \<le> d \<and> d \<le> days_in_month y m
       then Some (day_number y m d, s) else None)))))"

text \<open>\<^verbatim>\<open>HH[:MM[:SS[.f..]]]\<close> as hours, minutes, seconds and microseconds; digits past the sixth are cut.\<close>

definition iso_fraction :: "string \<Rightarrow> int option" where
  "iso_fraction s =
     (if s = [] \<or> \<not> list_all ascii_digit s then None
      else Some (int (read_nat (take 6 (s @ ''00000'')))))"

definition iso_clock :: "string \<Rightarrow> (int \<times> int \<times> int \<times> int) option" where
  "iso_clock s =
     Option.bind (take_digits 2 s) (\<lambda>(h, s). if s = [] then Some (h, 0, 0, 0) else
     Option.bind (take_char '':'' s) (\<lambda>s. Option.bind (take_digits 2 s) (\<lambda>(m, s).
     if s = [] then Some (h, m, 0, 0) else
     Option.bind (take_char '':'' s) (\<lambda>s. Option.bind (take_digits 2 s) (\<lambda>(x, s).
     if s = [] then Some (h, m, x, 0) else
     Option.bind (take_char ''.,'' s) (\<lambda>s. Option.bind (iso_fraction s) (\<lambda>f. Some (h, m, x, f))))))))"

definition clock_usec :: "int \<times> int \<times> int \<times> int \<Rightarrow> int" where
  "clock_usec c = (case c of (h, m, x, f) \<Rightarrow>
     h * usec_hour + m * usec_minute + x * usec_second + f)"

definition zone_char :: "char \<Rightarrow> bool" where
  "zone_char c \<longleftrightarrow> c = CHR ''+'' \<or> c = CHR ''-'' \<or> c = CHR ''Z''"

text \<open>The offset written after the time; \<^verbatim>\<open>timezone\<close> accepts less than a day either way.\<close>

definition iso_offset :: "string \<Rightarrow> int option" where
  "iso_offset s =
     (case s of
        [] \<Rightarrow> None
      | c # r \<Rightarrow>
          if c = CHR ''Z'' then (if r = [] then Some 0 else None)
          else Option.bind (iso_clock r) (\<lambda>z.
            let u = clock_usec z in
            if u < usec_day then Some (if c = CHR ''-'' then - u else u) else None))"

definition from_isoformat :: "string \<Rightarrow> py_datetime res" where
  "from_isoformat s =
     (case iso_date s of
        None \<Rightarrow> Inl ValueError
      | Some (n, rest) \<Rightarrow>
          let clock_text = takeWhile (\<lambda>c. \<not> zone_char c) (drop 1 rest);
              zone_text = dropWhile (\<lambda>c. \<not> zone_char c) (drop 1 rest) in
          if drop 1 rest = [] then Inr (Naive (n * usec_day))
          else case iso_clock clock_text of
            None \<Rightarrow> Inl ValueError
          | Some (h, m, x, f) \<Rightarrow>
              if h < 24 \<and> m < 60 \<and> x < 60 then
                let local = n * usec_day + clock_usec (h, m, x, f) in
                if zone_text = [] then Inr (Naive local)
                else case iso_offset zone_text of
                  None \<Rightarrow> Inl ValueError
                | Some u \<Rightarrow> Inr (Aware (local - u))
              else Inl ValueError)"

section \<open>Reading back a written time\<close>

lemma length_dec_fixed [simp]: "length (dec_fixed w n) = w"
  by (simp add: dec_fixed_def)

lemma dec_fixed_Suc: "dec_fixed (Suc w) n = dig (n div 10 ^ w mod 10) # dec_fixed w n"
  by (simp add: dec_fixed_def)

lemma dec_fixed_digits: "list_all ascii_digit (dec_fixed w n)"
  by (auto simp: dec_fixed_def list_all_iff ascii_digit_dig)

lemma foldl_dec_fixed:
  "foldl (\<lambda>a c. 10 * a + dig_val c) a (dec_fixed w n) = a * 10 ^ w + n mod 10 ^ w"
proof (induction w arbitrary: a)
  case 0
  show ?case by (simp add: dec_fixed_def)
next
  case (Suc w)
  have "n mod 10 ^ Suc w = 10 ^ w * (n div 10 ^ w mod 10) + n mod 10 ^ w"
    using mod_mult2_eq [of n "10 ^ w" 10] by (simp add: mult.commute)
  with Suc show ?case by (simp add: dec_fixed_Suc dig_val_dig algebra_simps)
qed

lemma read_dec_fixed: "n < 10 ^ w \<Longrightarrow> read_nat (dec_fixed w n) = n"
  using foldl_dec_fixed [of 0 w n] by (simp add: read_nat_def)

lemma take_digits_fixed:
  assumes "0 \<le> n" "n < 10 ^ w"
  shows "take_digits w (dec_fixed w (nat n) @ s) = Some (n, s)"
proof -
  have "nat n < nat (10 ^ w)" using assms by linarith
  then have "nat n < 10 ^ w" by (simp add: nat_power_eq)
  then show ?thesis using assms by (simp add: take_digits_def dec_fixed_digits read_dec_fixed)
qed

lemma take_char_Cons [simp]: "take_char cs (c # r) = (if c \<in> set cs then Some r else None)"
  by (simp add: take_char_def)

lemma month_of_length:
  assumes "month_of m ls n = (m', d)" "ls \<noteq> []" "n < sum_list ls"
  shows "d \<le> ls ! nat (m' - m)"
  using assms
proof (induction m ls n rule: month_of.induct)
  case (1 m n)
  then show ?case by simp
next
  case (2 m l ls n)
  show ?case
  proof (cases "n < l \<or> ls = []")
    case True
    with 2 show ?thesis by auto
  next
    case False
    with "2.prems" have "month_of (m + 1) ls (n - l) = (m', d)" by simp
    moreover have "m + 1 \<le> m'"
    proof -
      have "k \<le> fst (month_of k xs j)" for k xs j
        by (induction k xs j rule: month_of.induct) auto
      with calculation show ?thesis by (metis fst_conv)
    qed
    ultimately have "d \<le> ls ! nat (m' - (m + 1))" "nat (m' - m) = Suc (nat (m' - (m + 1)))"
      using "2.IH" False "2.prems" by auto
    then show ?thesis by simp
  qed
qed

lemma civil_days_in_month:
  assumes "civil n = (y, m, d)"
  shows "d \<le> days_in_month y m"
proof -
  obtain n400 n100 n4 n1 e where defs: "n400 = n div 146097" "n100 = (n mod 146097) div 36524"
      "n4 = n mod 146097 mod 36524 div 1461" "n1 = n mod 146097 mod 36524 mod 1461 div 365"
      "e = n mod 146097 mod 36524 mod 1461 mod 365" and e: "e < 365"
    by (rule civil_split [of n])
  define y0 where "y0 = n400 * 400 + n100 * 100 + n4 * 4 + n1 + 1"
  have c: "civil n = (if n1 = 4 \<or> n100 = 4 then (y0 - 1, 12, 31)
      else (case month_of 1 (month_days (is_leap y0)) e of (m, d) \<Rightarrow> (y0, m, d)))"
    by (simp only: civil_def Let_def defs y0_def)
  show ?thesis
  proof (cases "n1 = 4 \<or> n100 = 4")
    case True
    with c assms show ?thesis by (simp add: days_in_month_def month_days_def)
  next
    case False
    with c assms have "month_of 1 (month_days (is_leap y0)) e = (m, d)" "y = y0"
      by (auto split: prod.splits)
    moreover have "month_days (is_leap y0) \<noteq> []" by (simp add: month_days_def)
    moreover have "e < sum_list (month_days (is_leap y0))" using e by (simp add: sum_month_days)
    ultimately show ?thesis using month_of_length by (simp add: days_in_month_def)
  qed
qed

text \<open>The first day past the year 9999, where Python stops.\<close>

definition end_of_time :: time where
  "end_of_time = 3652059 * usec_day"

lemma year_days_before:
  fixes p :: int
  assumes "p \<le> - 1"
  shows "365 * p + p div 4 - p div 100 + p div 400 \<le> - 366"
proof -
  have "p div 4 \<le> - 1" "p div 400 \<le> - 1" using assms by linarith+
  moreover have "p \<le> p div 100 * 100 + 99" by linarith
  ultimately show ?thesis using assms by linarith
qed

lemma year_days_after:
  fixes p :: int
  assumes "9999 \<le> p"
  shows "3652059 \<le> 365 * p + p div 4 - p div 100 + p div 400"
proof -
  have "p div 100 = p div 4 div 25" by (simp flip: zdiv_zmult2_eq)
  then have "2400 \<le> p div 4 - p div 100" "24 \<le> p div 400"
    using assms by linarith+
  with assms show ?thesis by linarith
qed

lemma civil_year_range:
  assumes "civil n = (y, m, d)" "0 \<le> n" "n < 3652059"
  shows "1 \<le> y \<and> y \<le> 9999"
proof -
  note c = civil_correct [OF assms(1)]
  have n: "n = before_year y + before_month (is_leap y) m + (d - 1)" using c(1) by (simp add: day_number_def)
  have "month_days l = [31, if l then 29 else 28, 31, 30, 31, 30, 31, 31, 30, 31, 30, 31]" for l
    by (simp add: month_days_def)
  have bm: "0 \<le> before_month l m \<and> before_month l m \<le> 335" for l
  proof -
    have "m \<in> {1, 2, 3, 4, 5, 6, 7, 8, 9, 10, 11, 12}" using c(2,3) by simp presburger
    then show ?thesis by (auto simp: before_month_def month_days_def numeral_eq_Suc)
  qed
  have p: "before_year y = 365 * (y - 1) + (y - 1) div 4 - (y - 1) div 100 + (y - 1) div 400"
    by (simp add: before_year_def Let_def)
  have "1 \<le> y"
  proof (rule ccontr)
    assume "\<not> 1 \<le> y"
    then have "before_year y \<le> - 366" unfolding p by (intro year_days_before) simp
    with n bm [of "is_leap y"] c assms(2) show False by linarith
  qed
  moreover have "y \<le> 9999"
  proof (rule ccontr)
    assume "\<not> y \<le> 9999"
    then have "3652059 \<le> before_year y" unfolding p by (intro year_days_after) simp
    with n bm [of "is_leap y"] c assms(3) show False by linarith
  qed
  ultimately show ?thesis ..
qed

lemma takeWhile_zone:
  "list_all (\<lambda>c. \<not> zone_char c) s \<Longrightarrow> zone_char c \<Longrightarrow>
    takeWhile (\<lambda>c. \<not> zone_char c) (s @ c # r) = s \<and> dropWhile (\<lambda>c. \<not> zone_char c) (s @ c # r) = c # r"
  by (induction s) auto

lemma digits_no_zone: "list_all ascii_digit s \<Longrightarrow> list_all (\<lambda>c. \<not> zone_char c) s"
  by (induction s) (auto simp: ascii_digit_def zone_char_def)

lemma iso_fraction_fixed:
  assumes "0 \<le> f" "f < 1000000"
  shows "iso_fraction (dec_fixed 6 (nat f)) = Some f"
proof -
  have "nat f < 10 ^ 6" using assms by simp
  moreover have "dec_fixed 6 (nat f) \<noteq> []" by (metis length_dec_fixed list.size(3) zero_neq_numeral)
  ultimately show ?thesis using assms
    by (simp add: iso_fraction_def dec_fixed_digits read_dec_fixed)
qed

lemma iso_clock_written:
  assumes "0 \<le> h" "h < 100" "0 \<le> m" "m < 100" "0 \<le> x" "x < 100" "0 \<le> f" "f < 1000000"
  shows "iso_clock (dec_fixed 2 (nat h) @ CHR '':'' # dec_fixed 2 (nat m) @ CHR '':'' # dec_fixed 2 (nat x) @
     (if f = 0 then [] else CHR ''.'' # dec_fixed 6 (nat f))) = Some (h, m, x, f)"
proof -
  have x: "take_digits 2 (dec_fixed 2 (nat x)) = Some (x, [])"
    using take_digits_fixed [of x 2 "[]"] assms by simp
  show ?thesis using assms
    by (simp add: iso_clock_def take_digits_fixed x iso_fraction_fixed)
qed

theorem from_isoformat_isoformat:
  assumes "0 \<le> t" "t < end_of_time"
  shows "from_isoformat (isoformat t) = Inr (Aware t)"
proof -
  define n where "n = t div usec_day"
  define u where "u = t mod usec_day"
  define s where "s = u div usec_second"
  define f where "f = u mod usec_second"
  obtain y m d where c: "civil n = (y, m, d)" by (cases "civil n")
  note cc = civil_correct [OF c]
  have n: "0 \<le> n" "n < 3652059" using assms by (simp_all add: n_def end_of_time_def)
  have y: "1 \<le> y" "y \<le> 9999" using civil_year_range [OF c n] by simp_all
  have dm: "d \<le> days_in_month y m" by (rule civil_days_in_month [OF c])
  have u: "0 \<le> u" "u < usec_day" by (simp_all add: u_def)
  have s: "0 \<le> s" "s < 86400" using u by (simp_all add: s_def)
  have f: "0 \<le> f" "f < 1000000" by (simp_all add: f_def)
  let ?h = "s div 3600" and ?m = "s div 60 mod 60" and ?x = "s mod 60"
  have h: "0 \<le> ?h" "?h < 24" using s by auto
  let ?clock = "dec_fixed 2 (nat ?h) @ CHR '':'' # dec_fixed 2 (nat ?m) @ CHR '':'' # dec_fixed 2 (nat ?x) @
     (if f = 0 then [] else CHR ''.'' # dec_fixed 6 (nat f))"
  have iso: "isoformat t = dec_fixed 4 (nat y) @ CHR ''-'' # dec_fixed 2 (nat m) @ CHR ''-'' #
      dec_fixed 2 (nat d) @ CHR ''T'' # ?clock @ ''+00:00''"
    by (simp add: isoformat_def Let_def civil_year_def civil_month_def civil_day_def c
        flip: n_def u_def s_def f_def)
  have date: "iso_date (isoformat t) = Some (n, CHR ''T'' # ?clock @ ''+00:00'')"
    unfolding iso iso_date_def using y cc dm by (simp add: take_digits_fixed)
  have clk: "iso_clock ?clock = Some (?h, ?m, ?x, f)"
    by (rule iso_clock_written) (use h f in simp_all)
  have "list_all (\<lambda>c. \<not> zone_char c) ?clock"
    by (simp add: digits_no_zone [OF dec_fixed_digits] zone_char_def [of "CHR '':''"] zone_char_def [of "CHR ''.''"])
  from takeWhile_zone [OF this, of "CHR ''+''" "''00:00''"]
  have split: "takeWhile (\<lambda>c. \<not> zone_char c) (?clock @ ''+00:00'') = ?clock"
    "dropWhile (\<lambda>c. \<not> zone_char c) (?clock @ ''+00:00'') = ''+00:00''"
    by (simp_all add: zone_char_def)
  have zero: "iso_offset ''+00:00'' = Some 0" by code_simp
  have "n * usec_day + clock_usec (?h, ?m, ?x, f) = t"
  proof -
    have "s = 60 * (s div 60) + ?x" "s div 60 = 60 * (s div 60 div 60) + ?m" by simp_all
    moreover have "s div 60 div 60 = ?h" by (simp flip: zdiv_zmult2_eq)
    ultimately have "?h * 3600 + ?m * 60 + ?x = s" by linarith
    then have "clock_usec (?h, ?m, ?x, f) = s * usec_second + f" by (simp add: clock_usec_def)
    also have "\<dots> = u" by (simp add: s_def f_def)
    finally show ?thesis by (simp add: n_def u_def)
  qed
  moreover have "?m < 60" "?x < 60" by simp_all
  moreover have "?clock @ ''+00:00'' \<noteq> []" by simp
  ultimately show ?thesis using h
    unfolding from_isoformat_def date
    by (simp only: option.case prod.case drop_Suc_Cons drop_0 One_nat_def list.distinct split clk zero
        Let_def if_True if_False simp_thms) simp
qed

end
