(* ===== verification/Run_Lifecycle.thy ===== *)
theory Run_Lifecycle
  imports Run_Base Pyvalue
begin

text \<open>
  \<^verbatim>\<open>runs/repository.py\<close> up to a running attempt, with the capacity rule of \<^verbatim>\<open>runs/capacity_retry.py\<close>:
  generic transitions, cancellation, the claim of a queued run by a worker, the start of execution,
  appended agent events and the frozen task brief.

  Each operation takes the clock readings \<open>clk\<close> and fresh identifiers \<open>ids\<close> of its transaction and
  the database, and returns its result with the new database, or raises. \<^verbatim>\<open>ORDER BY .. DESC LIMIT 1\<close>
  is \<open>pick_max\<close>; of several rows with the greatest key, which the database leaves open, it takes the first.
\<close>

section \<open>Rows and payloads\<close>

fun pick_max :: "('r \<Rightarrow> int) \<Rightarrow> 'r list \<Rightarrow> 'r option" where
  "pick_max key [] = None"
| "pick_max key (r # rs) =
     (case pick_max key rs of
        None \<Rightarrow> Some r
      | Some s \<Rightarrow> if key r < key s then Some s else Some r)"

definition latest_segment :: "uuid \<Rightarrow> db \<Rightarrow> segment_row option" where
  "latest_segment rid d = pick_max sg_segment_no (filter (\<lambda>s. sg_run_id s = rid) (db_segments d))"

definition plan_run :: "run_row \<Rightarrow> run_status \<Rightarrow> time \<Rightarrow> run_transition res" where
  "plan_run run target now =
     plan_run_transition (run_status run) target (run_row_version run) (run_started_at run)
       (run_finished_at run) now"

definition status_payload :: "run_status \<Rightarrow> int \<Rightarrow> json option \<Rightarrow> json" where
  "status_payload status version error =
     JObj [(''status'', JStr (run_status_text status)), (''row_version'', JInt version),
           (''error'', jopt id error)]"

text \<open>Add an event and its notification.\<close>

definition announce :: "uuid \<Rightarrow> run_status \<Rightarrow> event_row \<Rightarrow> db \<Rightarrow> db" where
  "announce new_id status event = add_event event [event_outbox new_id event (run_status_text status)]"

section \<open>Transitions and cancellation\<close>

definition transition ::
  "clock \<Rightarrow> fresh \<Rightarrow> uuid \<Rightarrow> run_status \<Rightarrow> int \<Rightarrow> json option \<Rightarrow> uuid option \<Rightarrow> string option \<Rightarrow> db \<Rightarrow>
   (created_run \<times> db) res" where
  "transition clk ids rid target expected error attempt_id trace_id d =
     (case lock_run_row rid None d of
        None \<Rightarrow> Inl RunNotFoundError
      | Some run \<Rightarrow>
          ebind (raise_if (run_row_version run \<noteq> expected) ConcurrentRunUpdateError) (\<lambda>_.
          let now = clk 0 in
          ebind (plan_run run target now) (\<lambda>tr.
          let run' = run\<lparr>run_status := tr_status tr, run_row_version := tr_row_version tr,
                run_started_at := tr_started_at tr, run_finished_at := tr_finished_at tr,
                run_error_json := error\<rparr>;
              event = snapshot_event (ids 0) rid (next_sequence rid d)
                (status_payload (tr_status tr) (tr_row_version tr) error)
                (''Run transitioned to '' @ run_status_text (tr_status tr)) now attempt_id None trace_id in
          Inr (to_created_run run' False, announce (ids 1) (tr_status tr) event (put_run run' d)))))"

definition active_effect :: "uuid \<Rightarrow> db \<Rightarrow> effect_row option" where
  "active_effect rid d =
     pick_max ef_created_at (filter (\<lambda>e. ef_run_id e = rid \<and>
         (ef_status e = ''LEASED'' \<or> ef_status e = ''APPLYING'')) (db_effects d))"

definition active_attempt :: "uuid \<Rightarrow> db \<Rightarrow> attempt_row option" where
  "active_attempt rid d =
     pick_max at_attempt_no (filter (\<lambda>a. at_run_id a = rid \<and> attempt_active a) (db_attempts d))"

definition cancel_event ::
  "uuid \<Rightarrow> run_row \<Rightarrow> uuid option \<Rightarrow> int \<Rightarrow> time \<Rightarrow> string option \<Rightarrow> event_row" where
  "cancel_event new_id run attempt_id sequence now trace_id =
     \<lparr>ev_id = new_id, ev_run_id = run_id run, ev_run_attempt_id = attempt_id,
      ev_agent_session_id = None, ev_sequence = sequence, ev_event_type = cancel_event_type,
      ev_payload_json = JObj [(''status'', JStr (run_status_text (run_status run)))],
      ev_occurred_at = now, ev_trace_id = trace_id, ev_summary = Some ''Run cancellation requested''\<rparr>"

text \<open>A run that is executing is only asked to stop; the request is recorded once.\<close>

definition record_cancel_request ::
  "clock \<Rightarrow> fresh \<Rightarrow> run_row \<Rightarrow> effect_row option \<Rightarrow> string option \<Rightarrow> db \<Rightarrow> db" where
  "record_cancel_request clk ids run effect trace_id d =
     (if is_cancellation_requested (run_id run) d then d
      else
        let attempt_id =
          (case active_attempt (run_id run) d of
             Some a \<Rightarrow> Some (at_id a)
           | None \<Rightarrow>
               Option.bind effect (\<lambda>e.
                 map_option pr_run_attempt_id (find_row pr_id (ef_proposal_id e) (db_proposals d))));
            event = cancel_event (ids 0) run attempt_id (next_sequence (run_id run) d) (clk 0) trace_id in
        announce (ids 1) (run_status run) event d)"

definition waiting_status :: "run_status \<Rightarrow> bool" where
  "waiting_status s \<longleftrightarrow> s = WAITING_PERMISSION \<or> s = WAITING_FOR_INPUT \<or> s = WAITING_FOR_APPROVAL"

definition deferred_attempt :: "uuid \<Rightarrow> segment_row option \<Rightarrow> db \<Rightarrow> attempt_row option" where
  "deferred_attempt rid segment d =
     pick_max at_attempt_no (filter (\<lambda>a. at_run_id a = rid \<and>
         (\<forall>s \<in> set_option segment. at_run_segment_id a = Some (sg_id s)) \<and>
         at_status a = ATT_DEFERRED) (db_attempts d))"

definition cancel_segment :: "time \<Rightarrow> segment_row option \<Rightarrow> db \<Rightarrow> db" where
  "cancel_segment now segment d =
     (case segment of
        None \<Rightarrow> d
      | Some s \<Rightarrow> put_segment (s\<lparr>sg_status := SEG_CANCELLED, sg_finished_at := Some now\<rparr>) d)"

definition cancel_attempt :: "time \<Rightarrow> attempt_row option \<Rightarrow> db \<Rightarrow> db" where
  "cancel_attempt now attempt d =
     (case attempt of
        None \<Rightarrow> d
      | Some a \<Rightarrow> put_attempt (a\<lparr>at_status := ATT_CANCELLED, at_finished_at := Some now\<rparr>) d)"

definition cancel_interactions :: "uuid \<Rightarrow> db \<Rightarrow> db" where
  "cancel_interactions rid d = d\<lparr>db_interactions := map (\<lambda>i.
      if ui_run_id i = rid \<and> ui_status i = INT_OPEN then i\<lparr>ui_status := INT_CANCELLED\<rparr> else i)
      (db_interactions d)\<rparr>"

definition run_cancelled_error :: json where
  "run_cancelled_error = JObj [(''code'', JStr ''run_cancelled''), (''retryable'', JBool False)]"

definition requested_effect :: "uuid \<Rightarrow> effect_row \<Rightarrow> bool" where
  "requested_effect rid e \<longleftrightarrow> ef_run_id e = rid \<and> ef_status e = ''REQUESTED''"

definition fail_requested_effects :: "uuid \<Rightarrow> db \<Rightarrow> db" where
  "fail_requested_effects rid d =
     (let proposals = map ef_proposal_id (filter (requested_effect rid) (db_effects d)) in
      d\<lparr>db_effects := map (\<lambda>e. if requested_effect rid e
            then e\<lparr>ef_status := ''FAILED'', ef_error_json := Some run_cancelled_error\<rparr> else e) (db_effects d),
        db_proposals := map (\<lambda>p. if pr_id p \<in> set proposals
            then p\<lparr>pr_status := ''FAILED''\<rparr> else p) (db_proposals d)\<rparr>)"

text \<open>A waiting run closes its segment, its deferred attempt, its questions and its requested effects.\<close>

definition cancel_waiting :: "uuid \<Rightarrow> time \<Rightarrow> db \<Rightarrow> db" where
  "cancel_waiting rid now d =
     (let segment = latest_segment rid d; attempt = deferred_attempt rid segment d in
      fail_requested_effects rid (cancel_interactions rid
        (cancel_segment now segment (cancel_attempt now attempt d))))"

definition cancel_now :: "clock \<Rightarrow> fresh \<Rightarrow> run_row \<Rightarrow> string option \<Rightarrow> db \<Rightarrow> (cancelled_run \<times> db) res" where
  "cancel_now clk ids run trace_id d =
     (let now = clk 0; rid = run_id run in
      ebind (plan_run run CANCELLED now) (\<lambda>tr.
      let run' = run\<lparr>run_status := tr_status tr, run_row_version := tr_row_version tr,
            run_finished_at := tr_finished_at tr, run_error_json := None\<rparr>;
          d1 = put_run run' d;
          d2 = (if waiting_status (run_status run) then cancel_waiting rid now d1 else d1);
          d3 = (if run_status run = QUEUED \<or> run_status run = RETRY_PENDING
                then cancel_segment now (latest_segment rid d2) d2 else d2);
          event = snapshot_event (ids 0) rid (next_sequence rid d3)
            (status_payload CANCELLED (tr_row_version tr) None)
            ''Run cancelled before active execution'' now None None trace_id in
      Inr (\<lparr>cn_run = to_created_run run' False, cn_cancellation = CANCEL_DONE\<rparr>,
           announce (ids 1) CANCELLED event d3)))"

definition request_cancellation ::
  "clock \<Rightarrow> fresh \<Rightarrow> uuid \<Rightarrow> string option \<Rightarrow> db \<Rightarrow> (cancelled_run \<times> db) res" where
  "request_cancellation clk ids rid trace_id d =
     (case lock_run_row rid None d of
        None \<Rightarrow> Inl RunNotFoundError
      | Some run \<Rightarrow>
          if run_status run = CANCELLED
          then Inr (\<lparr>cn_run = to_created_run run False, cn_cancellation = CANCEL_DONE\<rparr>, d)
          else if run_status run = SUCCEEDED \<or> run_status run = FAILED then Inl RunNotCancellableError
          else
            let effect = (if run_status run = WAITING_FOR_APPROVAL then active_effect rid d else None) in
            if run_status run = PREPARING \<or> run_status run = RUNNING \<or> effect \<noteq> None
            then Inr (\<lparr>cn_run = to_created_run run False, cn_cancellation = CANCEL_REQUESTED\<rparr>,
                      record_cancel_request clk ids run effect trace_id d)
            else cancel_now clk ids run trace_id d)"

section \<open>The capacity rule\<close>

definition model_capacity_code :: string where
  "model_capacity_code = ''model_capacity_unavailable''"

definition capacity_max_attempts :: int where
  "capacity_max_attempts = 3"

definition capacity_retry_delay :: "int \<Rightarrow> int \<Rightarrow> int option" where
  "capacity_retry_delay attempt_no max_attempts =
     (if 1 \<le> attempt_no \<and> attempt_no < min max_attempts capacity_max_attempts
      then Some ([15, 30] ! nat (attempt_no - 1)) else None)"

definition capacity_retry_at :: "json option \<Rightarrow> time option res" where
  "capacity_retry_at error =
     (case error of
        None \<Rightarrow> Inr None
      | Some e \<Rightarrow>
          if \<not> truthy e \<or> jnull ''code'' e \<noteq> JStr model_capacity_code \<or>
             jnull ''retryable'' e \<noteq> JBool True
          then Inr None
          else (case jnull ''retry_at'' e of
              JStr s \<Rightarrow>
                ebind (from_isoformat s) (\<lambda>deadline.
                case deadline of Aware t \<Rightarrow> Inr (Some t) | Naive _ \<Rightarrow> Inl ValueError)
            | _ \<Rightarrow> Inl ValueError))"

end
