(* ===== verification/Run_Claim.thy ===== *)
theory Run_Claim
  imports Run_Lifecycle
begin

text \<open>
  \<^verbatim>\<open>runs/repository.py\<close>: \<^verbatim>\<open>claim_for_execution\<close> with its retry limit, \<^verbatim>\<open>prepare_execution\<close>,
  \<^verbatim>\<open>append_agent_event\<close>, \<^verbatim>\<open>verify_execution_start\<close> and \<^verbatim>\<open>freeze_agent_task_brief\<close>.

  A claim answers \<^const>\<open>None\<close> when there is nothing to claim. Every return point of the source is a
  branch here: the ones that answer \<^verbatim>\<open>None\<close> leave the database unchanged, except that an exhausted
  retry limit fails the run.
\<close>

section \<open>Claiming a run\<close>

text \<open>May a worker that kept its session continue the run it just worked on?\<close>

definition continues_previous :: "claimed_run \<Rightarrow> run_row \<Rightarrow> segment_row \<Rightarrow> bool" where
  "continues_previous previous run segment \<longleftrightarrow>
     run_status run = QUEUED \<and> cl_run_id previous = run_id run \<and>
     cl_project_id previous = run_project_id run \<and>
     sg_segment_no segment = cl_segment_no previous + 1 \<and> sg_continuation_mode segment = RESUME \<and>
     sg_trigger_type segment = APPROVAL_RESPONSE \<and> sg_parent_agent_session_id segment \<noteq> None \<and>
     sg_trigger_ref segment \<noteq> None \<and>
     jnull ''actor_id'' (run_permission_snapshot_json run) = JStr (str_uuid (cl_actor_id previous))"

definition no_effect_error :: "effect_row \<Rightarrow> bool" where
  "no_effect_error e \<longleftrightarrow> (case ef_error_json e of None \<Rightarrow> True | Some v \<Rightarrow> \<not> truthy v)"

definition applied_by_previous ::
  "claimed_run \<Rightarrow> run_row \<Rightarrow> session_row \<Rightarrow> effect_row \<Rightarrow> proposal_row \<Rightarrow> approval_row \<Rightarrow> bool" where
  "applied_by_previous previous run parent effect proposal approval \<longleftrightarrow>
     se_run_id parent = run_id run \<and> se_run_attempt_id parent = cl_run_attempt_id previous \<and>
     se_run_segment_id parent = cl_run_segment_id previous \<and>
     ef_run_id effect = run_id run \<and> ef_status effect = ''APPLIED'' \<and> no_effect_error effect \<and>
     pr_run_id proposal = run_id run \<and> pr_project_id proposal = run_project_id run \<and>
     pr_run_attempt_id proposal = cl_run_attempt_id previous \<and>
     Some (pr_run_segment_id proposal) = cl_run_segment_id previous \<and>
     ef_proposal_id effect = pr_id proposal \<and> ef_approval_id effect = ap_id approval \<and>
     pr_agent_session_id proposal = se_id parent \<and> pr_status proposal = ''APPLIED'' \<and>
     ap_run_id approval = run_id run \<and> ap_proposal_id approval = pr_id proposal \<and>
     ap_decision approval = ''APPROVED'' \<and> ap_source approval \<in> {''RUN_START'', ''PREAUTHORIZATION''} \<and>
     ap_proposal_version approval = pr_version proposal \<and>
     ap_proposal_checksum approval = pr_checksum proposal"

definition warm_claim_allowed :: "claimed_run \<Rightarrow> run_row \<Rightarrow> segment_row \<Rightarrow> db \<Rightarrow> bool" where
  "warm_claim_allowed previous run segment d \<longleftrightarrow>
     continues_previous previous run segment \<and>
     (case (Option.bind (sg_parent_agent_session_id segment) (\<lambda>i. find_row se_id i (db_sessions d)),
            Option.bind (sg_trigger_ref segment) (\<lambda>i. find_row ef_id i (db_effects d))) of
        (Some parent, Some effect) \<Rightarrow>
          (case (find_row pr_id (ef_proposal_id effect) (db_proposals d),
                 find_row ap_id (ef_approval_id effect) (db_approvals d)) of
             (Some proposal, Some approval) \<Rightarrow>
               applied_by_previous previous run parent effect proposal approval
           | _ \<Rightarrow> False)
      | _ \<Rightarrow> False)"

definition attempt_open :: "attempt_row \<Rightarrow> bool" where
  "attempt_open a \<longleftrightarrow> at_status a \<in> {ATT_CREATED, ATT_LEASED, ATT_RUNNING, ATT_DEFERRED}"

definition segment_attempts :: "uuid \<Rightarrow> db \<Rightarrow> attempt_row list" where
  "segment_attempts sid d = filter (\<lambda>a. at_run_segment_id a = Some sid) (db_attempts d)"

definition segment_busy :: "uuid \<Rightarrow> uuid \<Rightarrow> db \<Rightarrow> bool" where
  "segment_busy rid sid d \<longleftrightarrow>
     list_ex (\<lambda>a. at_run_id a = rid \<and> attempt_open a) (segment_attempts sid d)"

definition next_attempt_no :: "uuid \<Rightarrow> db \<Rightarrow> int" where
  "next_attempt_no sid d =
     (let n = coalesce_max (map at_attempt_no (segment_attempts sid d)) + 1 in if n = 0 then 1 else n)"

definition retry_exhausted_error :: "int \<Rightarrow> int \<Rightarrow> json" where
  "retry_exhausted_error attempt_no max_attempts =
     JObj [(''code'', JStr ''retry_exhausted''), (''retryable'', JBool False),
           (''attempts'', JInt (attempt_no - 1)), (''max_attempts'', JInt max_attempts)]"

definition exhaust_retries ::
  "fresh \<Rightarrow> run_row \<Rightarrow> segment_row \<Rightarrow> int \<Rightarrow> int \<Rightarrow> time \<Rightarrow> string option \<Rightarrow> db \<Rightarrow> db res" where
  "exhaust_retries ids run segment attempt_no max_attempts now trace_id d =
     (let error = retry_exhausted_error attempt_no max_attempts in
      ebind (plan_run run FAILED now) (\<lambda>tr.
      let run' = run\<lparr>run_status := tr_status tr, run_row_version := tr_row_version tr,
            run_started_at := tr_started_at tr, run_finished_at := tr_finished_at tr,
            run_error_json := Some error\<rparr>;
          d1 = put_segment (segment\<lparr>sg_status := SEG_FAILED, sg_finished_at := Some now\<rparr>) (put_run run' d);
          event = snapshot_event (ids 0) (run_id run) (next_sequence (run_id run) d1)
            (status_payload FAILED (tr_row_version tr) (Some error)) ''Run retry limit exhausted'' now
            None None trace_id in
      Inr (announce (ids 1) FAILED event d1)))"

text \<open>What the worker brings to a claim.\<close>

record claim_request =
  rq_worker_id :: string
  rq_lease_token :: string
  rq_lease_token_hash :: string
  rq_lease_expires_at :: time
  rq_max_attempts :: int
  rq_trace_id :: "string option"
  rq_expected_previous :: "claimed_run option"

definition new_attempt :: "uuid \<Rightarrow> uuid \<Rightarrow> segment_row \<Rightarrow> int \<Rightarrow> time \<Rightarrow> claim_request \<Rightarrow> attempt_row" where
  "new_attempt new_id rid segment attempt_no now rq =
     \<lparr>at_id = new_id, at_inline_proposal_id = None, at_run_id = rid,
      at_run_segment_id = Some (sg_id segment), at_attempt_no = attempt_no,
      at_reason = (if sg_segment_no segment = 1 \<and> attempt_no = 1 then ''INITIAL''
                   else if attempt_no = 1 then ''CONTINUATION'' else ''RETRY''),
      at_status = ATT_LEASED, at_worker_id = Some (rq_worker_id rq),
      at_lease_token_hash = Some (rq_lease_token_hash rq),
      at_lease_expires_at = Some (rq_lease_expires_at rq), at_heartbeat_at = Some now,
      at_started_at = Some now, at_finished_at = None, at_error_json = None, at_created_at = now\<rparr>"

definition or_else :: "'a option \<Rightarrow> 'a \<Rightarrow> 'a option" where
  "or_else x y = (case x of None \<Rightarrow> Some y | Some z \<Rightarrow> Some z)"

definition segment_started_event ::
  "uuid \<Rightarrow> uuid \<Rightarrow> uuid \<Rightarrow> segment_row \<Rightarrow> int \<Rightarrow> time \<Rightarrow> string option \<Rightarrow> event_row" where
  "segment_started_event new_id rid attempt_id segment sequence now trace_id =
     \<lparr>ev_id = new_id, ev_run_id = rid, ev_run_attempt_id = Some attempt_id, ev_agent_session_id = None,
      ev_sequence = sequence, ev_event_type = event_type_text SEGMENT_STARTED,
      ev_payload_json = JObj [(''run_segment_id'', JStr (str_uuid (sg_id segment))),
        (''segment_no'', JInt (sg_segment_no segment)),
        (''trigger_type'', JStr (trigger_text (sg_trigger_type segment)))],
      ev_occurred_at = now, ev_trace_id = trace_id, ev_summary = Some ''Run segment started''\<rparr>"

text \<open>The events of a claim: the start of the segment, the first time, and the snapshot.\<close>

definition claim_events ::
  "fresh \<Rightarrow> run_row \<Rightarrow> segment_row \<Rightarrow> attempt_row \<Rightarrow> int \<Rightarrow> time \<Rightarrow> string option \<Rightarrow> db \<Rightarrow> db" where
  "claim_events ids run segment attempt row_version now trace_id d =
     (let rid = run_id run;
          first = next_sequence rid d;
          started = sg_status segment = SEG_CREATED;
          d1 = (if started
                then announce (ids 1) PREPARING
                       (segment_started_event (ids 0) rid (at_id attempt) segment first now trace_id) d
                else d);
          snapshot = snapshot_event (ids 2) rid (if started then first + 1 else first)
            (JObj [(''status'', JStr ''PREPARING''), (''row_version'', JInt row_version),
                   (''attempt_no'', JInt (at_attempt_no attempt)),
                   (''run_segment_id'', JStr (str_uuid (sg_id segment))),
                   (''segment_no'', JInt (sg_segment_no segment))])
            ''Run claimed by Worker'' now (Some (at_id attempt)) None trace_id in
      announce (ids 3) PREPARING snapshot d1)"

text \<open>The session to continue: the segment's parent, or after a capacity failure the failed one.\<close>

definition failed_session :: "uuid \<Rightarrow> uuid \<Rightarrow> int \<Rightarrow> db \<Rightarrow> session_row option res" where
  "failed_session rid sid attempt_no d =
     one_or_none (filter (\<lambda>s. se_run_id s = rid \<and> se_session_kind s = PRIMARY \<and> se_status s = ''FAILED'' \<and>
         list_ex (\<lambda>a. at_id a = se_run_attempt_id s \<and> at_attempt_no a = attempt_no - 1 \<and>
             at_status a = ATT_FAILED) (segment_attempts sid d)) (db_sessions d))"

definition parent_session ::
  "uuid \<Rightarrow> segment_row \<Rightarrow> int \<Rightarrow> bool \<Rightarrow> db \<Rightarrow> session_row option res" where
  "parent_session rid segment attempt_no capacity_retry d =
     ebind
       (case sg_parent_agent_session_id segment of
          None \<Rightarrow> Inr None
        | Some pid \<Rightarrow>
            (case find_row se_id pid (db_sessions d) of
               None \<Rightarrow> Inl LeaseValidationError
             | Some s \<Rightarrow> if se_run_id s \<noteq> rid then Inl LeaseValidationError else Inr (Some s))) (\<lambda>parent.
     if capacity_retry then
       ebind (failed_session rid (sg_id segment) attempt_no d) (\<lambda>s.
         if s = None then Inl LeaseValidationError else Inr s)
     else Inr parent)"

definition frozen_brief :: "uuid \<Rightarrow> segment_row \<Rightarrow> db \<Rightarrow> brief_row option res" where
  "frozen_brief rid segment d =
     (case sg_instruction_snapshot_id segment of
        None \<Rightarrow> Inr None
      | Some bid \<Rightarrow>
          (case find_row br_id bid (db_briefs d) of
             None \<Rightarrow> Inl LeaseValidationError
           | Some b \<Rightarrow>
               if br_run_id b \<noteq> rid \<or> br_run_segment_id b \<noteq> sg_id segment then Inl LeaseValidationError
               else Inr (Some b)))"

text \<open>The claim handed to the worker, of the rows as the transaction leaves them.\<close>

definition claimed_of ::
  "digest \<Rightarrow> claim_request \<Rightarrow> run_row \<Rightarrow> segment_row \<Rightarrow> attempt_row \<Rightarrow> bool \<Rightarrow> session_row option \<Rightarrow>
   brief_row option \<Rightarrow> claimed_run res" where
  "claimed_of sha rq run segment attempt capacity_retry parent brief =
     ebind (py_dict (sg_checkpoint_json segment)) (\<lambda>checkpoint.
     ebind (jfield ''actor_id'' (run_permission_snapshot_json run)) (\<lambda>v.
     ebind (uuid_of_json v) (\<lambda>actor.
     ebind (case jget ''skill_snapshots'' (run_task_snapshot_json run) of
              None \<Rightarrow> Inr [] | Some v \<Rightarrow> py_tuple v) (\<lambda>skills.
     ebind (py_dict (sg_objective_json segment)) (\<lambda>objective.
     ebind (case brief of None \<Rightarrow> Inr None
            | Some b \<Rightarrow> ebind (py_dict (br_brief_json b)) (\<lambda>j. Inr (Some j))) (\<lambda>brief_json.
       Inr \<lparr>cl_run_id = run_id run, cl_run_attempt_id = at_id attempt,
            cl_project_id = run_project_id run, cl_actor_id = actor,
            cl_attempt_no = at_attempt_no attempt, cl_lease_token = rq_lease_token rq,
            cl_lease_expires_at = rq_lease_expires_at rq, cl_row_version = run_row_version run,
            cl_input_json = run_input_json run, cl_task_snapshot_json = run_task_snapshot_json run,
            cl_permission_snapshot_json = run_permission_snapshot_json run,
            cl_selected_sources_json = run_selected_sources_json run,
            cl_limits_snapshot_json = run_limits_snapshot_json run, cl_skill_snapshots_json = skills,
            cl_run_segment_id = Some (sg_id segment), cl_segment_no = sg_segment_no segment,
            cl_continuation_mode = (if capacity_retry then RESUME else sg_continuation_mode segment),
            cl_parent_agent_session_id = map_option se_id parent,
            cl_parent_sdk_session_id = Option.bind parent se_sdk_session_id,
            cl_parent_run_attempt_id = map_option se_run_attempt_id parent,
            cl_checkpoint_json = Some checkpoint,
            cl_checkpoint_checksum =
              (if 1 < sg_segment_no segment then Some (''sha256:'' @ json_digest sha checkpoint) else None),
            cl_segment_objective_json = Some objective, cl_frozen_brief_json = brief_json,
            cl_frozen_brief_checksum = (case brief of None \<Rightarrow> [] | Some b \<Rightarrow> br_checksum b)\<rparr>))))))"

text \<open>The claim proper: the lease, the run and segment in motion, the events, the claim.\<close>

definition lease_run ::
  "digest \<Rightarrow> fresh \<Rightarrow> claim_request \<Rightarrow> run_row \<Rightarrow> segment_row \<Rightarrow> int \<Rightarrow> time \<Rightarrow> bool \<Rightarrow> db \<Rightarrow>
   (claimed_run option \<times> db) res" where
  "lease_run sha ids rq run segment attempt_no now capacity_retry d =
     (let attempt = new_attempt (ids 0) (run_id run) segment attempt_no now rq in
      ebind (plan_run run PREPARING now) (\<lambda>tr.
      let run' = run\<lparr>run_status := tr_status tr, run_row_version := tr_row_version tr,
            run_started_at := tr_started_at tr, run_finished_at := tr_finished_at tr,
            run_error_json := None\<rparr>;
          segment' = segment\<lparr>sg_status := SEG_RUNNING,
            sg_started_at := or_else (sg_started_at segment) now\<rparr> in
      ebind (insert_rows at_id [attempt] (db_attempts d)) (\<lambda>attempts.
      let d1 = put_segment segment' (put_run run' (d\<lparr>db_attempts := attempts\<rparr>));
          d2 = claim_events (\<lambda>i. ids (i + 1)) run segment attempt (tr_row_version tr) now
            (rq_trace_id rq) d1 in
      ebind (parent_session (run_id run) segment attempt_no capacity_retry d2) (\<lambda>parent.
      ebind (frozen_brief (run_id run) segment d2) (\<lambda>brief.
      ebind (claimed_of sha rq run' segment' attempt capacity_retry parent brief) (\<lambda>claimed.
        Inr (Some claimed, d2)))))))"

definition claim_for_execution ::
  "digest \<Rightarrow> clock \<Rightarrow> fresh \<Rightarrow> uuid \<Rightarrow> claim_request \<Rightarrow> db \<Rightarrow> (claimed_run option \<times> db) res" where
  "claim_for_execution sha clk ids rid rq d =
     (case lock_run_row rid None d of
        None \<Rightarrow> Inl RunNotFoundError
      | Some run \<Rightarrow>
          if run_status run \<noteq> QUEUED \<and> run_status run \<noteq> RETRY_PENDING then Inr (None, d)
          else
          ebind (if run_status run = RETRY_PENDING then capacity_retry_at (run_error_json run)
                 else Inr None) (\<lambda>retry_at.
          if (case retry_at of None \<Rightarrow> False | Some t \<Rightarrow> clk 0 < t) then Inr (None, d)
          else case latest_segment rid d of
            None \<Rightarrow> Inl LeaseValidationError
          | Some segment \<Rightarrow>
              if sg_status segment \<noteq> SEG_CREATED \<and> sg_status segment \<noteq> SEG_RUNNING then Inr (None, d)
              else if (case rq_expected_previous rq of None \<Rightarrow> False
                       | Some previous \<Rightarrow> \<not> warm_claim_allowed previous run segment d)
              then Inr (None, d)
              else if segment_busy rid (sg_id segment) d then Inr (None, d)
              else
                let attempt_no = next_attempt_no (sg_id segment) d; now = clk 1 in
                if rq_max_attempts rq < attempt_no
                then ebind (exhaust_retries ids run segment attempt_no (rq_max_attempts rq) now
                             (rq_trace_id rq) d) (\<lambda>d'. Inr (None, d'))
                else lease_run sha ids rq run segment attempt_no now (retry_at \<noteq> None) d))"

section \<open>The start of execution\<close>

definition run_attempt_segment ::
  "digest \<Rightarrow> time \<Rightarrow> claimed_run \<Rightarrow> db \<Rightarrow> (run_row \<times> segment_row option \<times> attempt_row) res" where
  "run_attempt_segment sha now claimed d =
     ebind (lock_claimed_execution claimed d) (\<lambda>(run, segment, attempt).
     ebind (validate_claimed_lease sha attempt claimed now) (\<lambda>_. Inr (run, segment, attempt)))"

definition prepare_execution ::
  "digest \<Rightarrow> clock \<Rightarrow> fresh \<Rightarrow> claimed_run \<Rightarrow> db \<Rightarrow> (prepared_execution \<times> db) res" where
  "prepare_execution sha clk ids claimed d =
     (let now = clk 0 in
      ebind (run_attempt_segment sha now claimed d) (\<lambda>(run, segment, attempt).
      ebind (raise_if (run_status run \<noteq> PREPARING) LeaseValidationError) (\<lambda>_.
      ebind (raise_if (run_row_version run \<noteq> cl_row_version claimed) ConcurrentRunUpdateError) (\<lambda>_.
      ebind (plan_run run RUNNING now) (\<lambda>tr.
      let run' = run\<lparr>run_status := tr_status tr, run_row_version := tr_row_version tr,
            run_started_at := tr_started_at tr\<rparr>;
          d1 = put_attempt (attempt\<lparr>at_status := ATT_RUNNING\<rparr>) (put_run run' d);
          d2 = (case segment of
                  None \<Rightarrow> d1
                | Some s \<Rightarrow> put_segment (s\<lparr>sg_status := SEG_RUNNING,
                    sg_started_at := or_else (sg_started_at s) now\<rparr>) d1);
          sequence = next_sequence (run_id run) d2;
          event = snapshot_event (ids 0) (run_id run) sequence
            (JObj [(''status'', JStr ''RUNNING''), (''row_version'', JInt (tr_row_version tr)),
                   (''attempt_no'', JInt (at_attempt_no attempt))])
            ''Run execution started'' now (Some (at_id attempt)) None None in
      Inr (\<lparr>px_row_version = tr_row_version tr, px_next_sequence = sequence + 1\<rparr>,
           announce (ids 1) (run_status run') event d2))))))"

definition append_agent_event ::
  "digest \<Rightarrow> to_float \<Rightarrow> clock \<Rightarrow> fresh \<Rightarrow> claimed_run \<Rightarrow> agent_event \<Rightarrow> session_metadata \<Rightarrow> db \<Rightarrow>
   (unit \<times> db) res" where
  "append_agent_event sha fl clk ids claimed event metadata d =
     ebind (raise_if (ae_event_type event = TEXT_DELTA) ValueError) (\<lambda>_.
     let now = clk 0 in
     ebind (run_attempt_segment sha now claimed d) (\<lambda>(run, segment, attempt).
     ebind (raise_if (run_status run \<noteq> RUNNING) LeaseValidationError) (\<lambda>_.
     ebind (validate_agent_event event claimed) (\<lambda>_.
     ebind (reject_cancelled_execution (run_id run) d) (\<lambda>_.
     ebind (raise_if (ae_sequence event < next_sequence (run_id run) d) ConcurrentRunUpdateError) (\<lambda>_.
     ebind (parse_uuid (ae_agent_session_id event)) (\<lambda>sdk_session_id.
     ebind (ensure_agent_session (ids 0) claimed sdk_session_id metadata now d) (\<lambda>(session, d1).
     let d2 = put_session (merge_session_usage fl session event) d1 in
     ebind (stored_agent_event (ids 1) event) (\<lambda>stored.
       Inr ((), announce (ids 2) (run_status run) stored d2))))))))))"

definition verify_execution_start :: "digest \<Rightarrow> clock \<Rightarrow> claimed_run \<Rightarrow> db \<Rightarrow> bool res" where
  "verify_execution_start sha clk claimed d =
     ebind (run_attempt_segment sha (clk 0) claimed d) (\<lambda>(run, segment, attempt).
       if run_project_id run \<noteq> cl_project_id claimed \<or> run_status run \<noteq> RUNNING \<or>
          (\<exists>s \<in> set_option segment. sg_status s \<noteq> SEG_RUNNING)
       then Inl LeaseValidationError
       else Inr (\<not> is_cancellation_requested (run_id run) d))"

definition brief_matches :: "digest \<Rightarrow> json \<Rightarrow> string \<Rightarrow> run_row \<Rightarrow> segment_row \<Rightarrow> bool" where
  "brief_matches sha brief checksum run segment \<longleftrightarrow>
     (let identity = jnull ''identity'' brief in
      checksum = ''sha256:'' @ json_digest sha brief \<and> is_obj identity \<and>
      jnull ''run_id'' identity = JStr (str_uuid (run_id run)) \<and>
      py_eq (jnull ''segment_no'' identity) (JInt (sg_segment_no segment)))"

definition freeze_agent_task_brief ::
  "digest \<Rightarrow> clock \<Rightarrow> fresh \<Rightarrow> claimed_run \<Rightarrow> json \<Rightarrow> string \<Rightarrow> db \<Rightarrow> (unit \<times> db) res" where
  "freeze_agent_task_brief sha clk ids claimed brief checksum d =
     ebind (lock_claimed_execution claimed d) (\<lambda>(run, segment, attempt).
     case segment of
       None \<Rightarrow> Inl LeaseValidationError
     | Some segment \<Rightarrow>
         let now = clk 0 in
         ebind (validate_claimed_lease sha attempt claimed now) (\<lambda>_.
         ebind (raise_if (run_status run \<noteq> RUNNING) LeaseValidationError) (\<lambda>_.
         ebind (raise_if (is_cancellation_requested (run_id run) d) RunCancellationRequestedError) (\<lambda>_.
         ebind (raise_if (\<not> brief_matches sha brief checksum run segment) ValueError) (\<lambda>_.
         ebind (one_or_none (filter (\<lambda>b. br_run_segment_id b = sg_id segment) (db_briefs d))) (\<lambda>existing.
         case existing of
           Some b \<Rightarrow>
             if br_checksum b \<noteq> checksum \<or> canonical_json (br_brief_json b) \<noteq> canonical_json brief
             then Inl ConcurrentRunUpdateError else Inr ((), d)
         | None \<Rightarrow>
             let snapshot = \<lparr>br_id = ids 0, br_run_id = run_id run, br_run_segment_id = sg_id segment,
                   br_brief_version = py_str (case jget ''brief_version'' brief of
                     None \<Rightarrow> JStr [] | Some v \<Rightarrow> v),
                   br_brief_json = brief, br_checksum = checksum, br_created_at = now\<rparr> in
             ebind (insert_rows br_id [snapshot] (db_briefs d)) (\<lambda>briefs.
               Inr ((), put_segment (segment\<lparr>sg_instruction_snapshot_id := Some (ids 0)\<rparr>)
                     (d\<lparr>db_briefs := briefs\<rparr>)))))))))"

end
