(* ===== verification/Run_Final.thy ===== *)
theory Run_Final
  imports Run_Claim
begin

text \<open>
  \<^verbatim>\<open>runs/repository.py\<close>: the end of an attempt. \<^verbatim>\<open>finalize_execution\<close> with the cancellation event of
  \<^verbatim>\<open>runs/execution_outcome.py\<close>, \<^verbatim>\<open>heartbeat_attempt\<close>, and the recovery of attempts whose lease has
  expired; and from \<^verbatim>\<open>runs/repository_effects.py\<close> how an attempt with an inline effect under way is
  detached instead.

  What follows once a detached effect has already ended (\<^verbatim>\<open>_finish_effect_continuation\<close> and its
  receipt) belongs to the effect component: the argument \<open>finish\<close> stands for it.
\<close>

section \<open>Inline effects\<close>

definition owner_of :: "proposal_row \<Rightarrow> json" where
  "owner_of p = (case pr_inline_owner_json p of None \<Rightarrow> JObj [] | Some v \<Rightarrow> if truthy v then v else JObj [])"

definition owner_phase :: "proposal_row \<Rightarrow> json" where
  "owner_phase p = jnull ''phase'' (owner_of p)"

definition pending_inline_proposal :: "uuid \<Rightarrow> attempt_row \<Rightarrow> db \<Rightarrow> proposal_row option res" where
  "pending_inline_proposal rid attempt d =
     (case at_inline_proposal_id attempt of
        None \<Rightarrow> Inr None
      | Some i \<Rightarrow>
          (case find_row pr_id i (db_proposals d) of
             None \<Rightarrow> Inl EffectLeaseValidationError
           | Some p \<Rightarrow>
               if pr_run_id p \<noteq> rid \<or> pr_run_attempt_id p \<noteq> at_id attempt \<or>
                  owner_phase p \<noteq> JStr ''ACTIVE''
               then Inl EffectLeaseValidationError else Inr (Some p)))"

type_synonym effect_finish =
  "fresh \<Rightarrow> time \<Rightarrow> run_row \<Rightarrow> segment_row \<Rightarrow> proposal_row \<Rightarrow> effect_row \<Rightarrow> db \<Rightarrow> db res"

definition effect_ended :: "effect_row \<Rightarrow> bool" where
  "effect_ended e \<longleftrightarrow> ef_status e \<in> {''APPLIED'', ''FAILED'', ''STALE'', ''VERIFICATION_FAILED''}"

definition idle_session :: "uuid \<Rightarrow> db \<Rightarrow> db" where
  "idle_session sid d =
     (case find_row se_id sid (db_sessions d) of
        None \<Rightarrow> d
      | Some s \<Rightarrow> put_session (s\<lparr>se_status := ''IDLE''\<rparr>) d)"

definition detach_inline_effect ::
  "effect_finish \<Rightarrow> fresh \<Rightarrow> run_row \<Rightarrow> segment_row \<Rightarrow> attempt_row \<Rightarrow> proposal_row \<Rightarrow> time \<Rightarrow> db \<Rightarrow> db res" where
  "detach_inline_effect finish ids run segment attempt proposal now d =
     ebind (raise_if (pr_run_id proposal \<noteq> run_id run \<or> pr_run_segment_id proposal \<noteq> sg_id segment \<or>
              pr_run_attempt_id proposal \<noteq> at_id attempt \<or> owner_phase proposal \<noteq> JStr ''ACTIVE'')
              EffectLeaseValidationError) (\<lambda>_.
     ebind (plan_run run WAITING_FOR_APPROVAL now) (\<lambda>tr.
     let run' = run\<lparr>run_status := tr_status tr, run_row_version := tr_row_version tr\<rparr>;
         segment' = segment\<lparr>sg_status := SEG_WAITING\<rparr>;
         attempt' = attempt\<lparr>at_status := ATT_DEFERRED, at_finished_at := Some now,
           at_lease_token_hash := None, at_lease_expires_at := None, at_inline_proposal_id := None\<rparr>;
         proposal' = proposal\<lparr>pr_inline_owner_json :=
           Some (jset ''phase'' (JStr ''DETACHED'') (owner_of proposal))\<rparr>;
         d1 = idle_session (pr_agent_session_id proposal)
           (put_proposal proposal' (put_attempt attempt' (put_segment segment' (put_run run' d)))) in
     case find (\<lambda>e. ef_proposal_id e = pr_id proposal \<and> ef_run_id e = run_id run) (db_effects d1) of
       None \<Rightarrow> Inl EffectLeaseValidationError
     | Some execution \<Rightarrow>
         if effect_ended execution then finish (\<lambda>i. ids (i + 1)) now run' segment' proposal' execution d1
         else Inr (d1\<lparr>db_outbox := db_outbox d1 @ [effect_dispatch_outbox (ids 0) execution now]\<rparr>)))"

section \<open>Finalisation\<close>

definition session_status_for :: "run_status \<Rightarrow> string" where
  "session_status_for target =
     (if target = SUCCEEDED then ''CLOSED'' else if target = CANCELLED then ''INTERRUPTED''
      else if waiting_status target then ''IDLE'' else ''FAILED'')"

definition observed_keys :: "string list" where
  "observed_keys = [''subtype'', ''stop_reason'', ''num_turns'', ''duration_ms'', ''duration_api_ms'',
     ''total_cost_usd'', ''usage'']"

text \<open>The observed usage of a stopped execution is kept, its result is not.\<close>

definition user_cancellation_event :: "agent_event \<Rightarrow> int \<Rightarrow> agent_event" where
  "user_cancellation_event e sequence =
     (let observed = concat (map (\<lambda>k. case map_of (ae_payload e) k of None \<Rightarrow> [] | Some v \<Rightarrow> [(k, v)])
            observed_keys) in
      e\<lparr>ae_sequence := sequence, ae_event_type := SESSION_INTERRUPTED,
        ae_payload := observed @ [(''reason'', JStr ''user_interrupted'')]\<rparr>)"

text \<open>What a worker reports at the end of an attempt.\<close>

record outcome =
  oc_target :: run_status
  oc_attempt_status :: attempt_status
  oc_event :: "agent_event option"
  oc_metadata :: "session_metadata option"
  oc_result :: "run_result_record option"
  oc_error_json :: "json option"
  oc_retry_delay :: "int option"

definition payload_at :: "string \<Rightarrow> agent_event \<Rightarrow> json" where
  "payload_at k e = (case map_of (ae_payload e) k of None \<Rightarrow> JNull | Some v \<Rightarrow> v)"

definition capacity_failure :: "segment_row option \<Rightarrow> outcome \<Rightarrow> bool" where
  "capacity_failure segment oc \<longleftrightarrow>
     segment \<noteq> None \<and> oc_metadata oc \<noteq> None \<and>
     (case oc_event oc of
        None \<Rightarrow> False
      | Some e \<Rightarrow> ae_event_type e = ENGINE_FAILED \<and> payload_at ''code'' e = JStr model_capacity_code \<and>
          payload_at ''retryable'' e = JBool True) \<and>
     (case oc_error_json oc of
        None \<Rightarrow> False
      | Some v \<Rightarrow> truthy v \<and> jnull ''code'' v = JStr model_capacity_code) \<and>
     oc_attempt_status oc = ATT_FAILED \<and> oc_retry_delay oc \<in> {Some 15, Some 30}"

text \<open>The error to store: a retry carries its deadline.\<close>

definition final_error :: "segment_row option \<Rightarrow> outcome \<Rightarrow> time \<Rightarrow> json option res" where
  "final_error segment oc now =
     (if oc_target oc = RETRY_PENDING then
        (if \<not> capacity_failure segment oc then Inl ValueError
         else case (oc_error_json oc, oc_retry_delay oc) of
           (Some v, Some n) \<Rightarrow>
             Inr (Some (jset ''retry_at'' (JStr (isoformat (now + seconds n)))
               (jset ''retryable'' (JBool True) v)))
         | _ \<Rightarrow> Inl ValueError)
      else if oc_retry_delay oc \<noteq> None then Inl ValueError
      else Inr (oc_error_json oc))"

text \<open>A recorded cancellation wins over whatever the worker reports.\<close>

definition decide_outcome :: "bool \<Rightarrow> json option \<Rightarrow> outcome \<Rightarrow> outcome res" where
  "decide_outcome cancelled error oc =
     (if cancelled then Inr (oc\<lparr>oc_target := CANCELLED, oc_attempt_status := ATT_CANCELLED,
        oc_result := None, oc_error_json := None\<rparr>)
      else if oc_target oc = CANCELLED then Inl ValueError
      else Inr (oc\<lparr>oc_error_json := error\<rparr>))"

definition check_outcome :: "claimed_run \<Rightarrow> outcome \<Rightarrow> unit res" where
  "check_outcome claimed oc =
     ebind (raise_if (oc_target oc = SUCCEEDED \<and> oc_result oc = None) ValueError) (\<lambda>_.
     ebind (raise_if (oc_target oc \<noteq> SUCCEEDED \<and> oc_result oc \<noteq> None) ValueError) (\<lambda>_.
       case oc_event oc of None \<Rightarrow> Inr () | Some e \<Rightarrow> validate_agent_event e claimed))"

definition close_segment :: "run_status \<Rightarrow> time \<Rightarrow> segment_row \<Rightarrow> segment_row" where
  "close_segment target now s =
     (let s1 = (if target = SUCCEEDED then s\<lparr>sg_status := SEG_COMPLETED\<rparr>
                else if target = CANCELLED then s\<lparr>sg_status := SEG_CANCELLED\<rparr>
                else if waiting_status target then s\<lparr>sg_status := SEG_WAITING\<rparr>
                else if target \<noteq> RETRY_PENDING then s\<lparr>sg_status := SEG_FAILED\<rparr> else s) in
      if target \<noteq> RETRY_PENDING \<and> \<not> waiting_status target then s1\<lparr>sg_finished_at := Some now\<rparr> else s1)"

definition close_rows ::
  "run_row \<Rightarrow> run_transition \<Rightarrow> segment_row option \<Rightarrow> attempt_row \<Rightarrow> outcome \<Rightarrow> time \<Rightarrow> db \<Rightarrow> db" where
  "close_rows run tr segment attempt oc now d =
     (let run' = run\<lparr>run_status := tr_status tr, run_row_version := tr_row_version tr,
            run_finished_at := tr_finished_at tr, run_error_json := oc_error_json oc\<rparr>;
          attempt' = attempt\<lparr>at_status := oc_attempt_status oc, at_finished_at := Some now,
            at_error_json := oc_error_json oc, at_lease_expires_at := None, at_lease_token_hash := None\<rparr>;
          d1 = put_attempt attempt' (put_run run' d) in
      case segment of None \<Rightarrow> d1 | Some s \<Rightarrow> put_segment (close_segment (oc_target oc) now s) d1)"

text \<open>
  The session of the attempt is closed and the final agent event, if there is one, is stored. The
  result: the SDK session, the next sequence number and the database.
\<close>

definition final_event ::
  "to_float \<Rightarrow> fresh \<Rightarrow> bool \<Rightarrow> claimed_run \<Rightarrow> outcome \<Rightarrow> time \<Rightarrow> db \<Rightarrow> (uuid option \<times> int \<times> db) res" where
  "final_event fl ids cancelled claimed oc now d =
     (let next = next_sequence (cl_run_id claimed) d in
      case oc_event oc of
        None \<Rightarrow>
          ebind (find_primary_agent_session claimed d) (\<lambda>existing.
          case existing of
            None \<Rightarrow> Inr (None, next, d)
          | Some s \<Rightarrow> Inr (se_sdk_session_id s, next,
              put_session (s\<lparr>se_status := session_status_for (oc_target oc)\<rparr>) d))
      | Some e \<Rightarrow>
          let event = (if cancelled then user_cancellation_event e (max next (ae_sequence e)) else e) in
          ebind (raise_if (ae_sequence event < next) ConcurrentRunUpdateError) (\<lambda>_.
          ebind (parse_uuid (ae_agent_session_id event)) (\<lambda>sdk_session_id.
          case oc_metadata oc of
            None \<Rightarrow> Inl ValueError
          | Some metadata \<Rightarrow>
              ebind (ensure_agent_session (ids 0) claimed sdk_session_id metadata now d) (\<lambda>(s, d1).
              let d2 = put_session ((merge_session_usage fl s event)\<lparr>se_status :=
                    session_status_for (oc_target oc)\<rparr>) d1 in
              ebind (stored_agent_event (ids 1) event) (\<lambda>stored.
                Inr (Some sdk_session_id, ae_sequence event + 1,
                     announce (ids 2) (oc_target oc) stored d2))))))"

definition result_row_of :: "uuid \<Rightarrow> uuid \<Rightarrow> uuid \<Rightarrow> run_result_record \<Rightarrow> time \<Rightarrow> result_row" where
  "result_row_of new_id rid sdk_session_id rs now =
     \<lparr>re_id = new_id, re_run_id = rid, re_agent_session_id = sdk_session_id,
      re_output_schema = rs_output_schema rs, re_result_kind = rs_result_kind rs,
      re_data_json = rs_data rs, re_evidence_refs_json = rs_evidence_refs rs,
      re_artifact_refs_json = rs_artifact_refs rs,
      re_change_proposal_refs_json = rs_change_proposal_refs rs,
      re_optional_schema_identity_json = rs_optional_schema_identity rs, re_summary = rs_summary rs,
      re_confidence = rs_confidence rs, re_needs_review = rs_needs_review rs,
      re_usage_json = rs_usage rs, re_cost_json = rs_cost rs, re_validation_json = rs_validation rs,
      re_created_at = now\<rparr>"

text \<open>At most one result per run.\<close>

definition add_result ::
  "uuid \<Rightarrow> uuid \<Rightarrow> uuid option \<Rightarrow> run_result_record option \<Rightarrow> time \<Rightarrow> db \<Rightarrow> db res" where
  "add_result new_id rid sdk_session_id result now d =
     (case result of
        None \<Rightarrow> Inr d
      | Some rs \<Rightarrow>
          (case sdk_session_id of
             None \<Rightarrow> Inl ValueError
           | Some sid \<Rightarrow>
               if list_ex (\<lambda>x. re_run_id x = rid) (db_results d) then Inl IntegrityError
               else Inr (d\<lparr>db_results := db_results d @ [result_row_of new_id rid sid rs now]\<rparr>)))"

definition segment_completed_event ::
  "uuid \<Rightarrow> uuid \<Rightarrow> uuid \<Rightarrow> uuid option \<Rightarrow> segment_row \<Rightarrow> int \<Rightarrow> time \<Rightarrow> event_row" where
  "segment_completed_event new_id rid attempt_id sdk_session_id segment sequence now =
     \<lparr>ev_id = new_id, ev_run_id = rid, ev_run_attempt_id = Some attempt_id,
      ev_agent_session_id = sdk_session_id, ev_sequence = sequence,
      ev_event_type = event_type_text SEGMENT_COMPLETED,
      ev_payload_json = JObj [(''run_segment_id'', JStr (str_uuid (sg_id segment))),
        (''segment_no'', JInt (sg_segment_no segment))],
      ev_occurred_at = now, ev_trace_id = None, ev_summary = Some ''Run segment completed''\<rparr>"

text \<open>The closing events: the completed segment of a success, the snapshot, a retry's dispatch.\<close>

definition closing_events ::
  "fresh \<Rightarrow> run_row \<Rightarrow> run_transition \<Rightarrow> segment_row option \<Rightarrow> attempt_row \<Rightarrow> outcome \<Rightarrow> uuid option \<Rightarrow> int \<Rightarrow>
   time \<Rightarrow> db \<Rightarrow> db" where
  "closing_events ids run tr segment attempt oc sdk_session_id next now d =
     (let target = oc_target oc; rid = run_id run;
          (next', d1) =
            (case (if target = SUCCEEDED then segment else None) of
               None \<Rightarrow> (next, d)
             | Some s \<Rightarrow> (next + 1, announce (ids 1) target
                 (segment_completed_event (ids 0) rid (at_id attempt) sdk_session_id s next now) d));
          snapshot = snapshot_event (ids 2) rid next'
            (status_payload target (tr_row_version tr) (oc_error_json oc))
            (''Run finalized as '' @ run_status_text target) now (Some (at_id attempt)) sdk_session_id None;
          d2 = announce (ids 3) target snapshot d1 in
      if target = RETRY_PENDING then
        d2\<lparr>db_outbox := db_outbox d2 @ [dispatch_outbox (ids 4) rid
          (JObj [(''run_id'', JStr (str_uuid rid)),
                 (''retry_at'', case oc_error_json oc of None \<Rightarrow> JNull | Some v \<Rightarrow> jnull ''retry_at'' v)]) now]\<rparr>
      else d2)"

definition finalize_running ::
  "to_float \<Rightarrow> fresh \<Rightarrow> claimed_run \<Rightarrow> outcome \<Rightarrow> time \<Rightarrow> run_row \<Rightarrow> segment_row option \<Rightarrow> attempt_row \<Rightarrow> db \<Rightarrow>
   (run_status \<times> db) res" where
  "finalize_running fl ids claimed oc now run segment attempt d =
     ebind (check_outcome claimed oc) (\<lambda>_.
     ebind (final_error segment oc now) (\<lambda>error.
     let cancelled = is_cancellation_requested (run_id run) d in
     ebind (decide_outcome cancelled error oc) (\<lambda>oc.
     ebind (plan_run run (oc_target oc) now) (\<lambda>tr.
     let d1 = close_rows run tr segment attempt oc now d in
     ebind (final_event fl ids cancelled claimed oc now d1) (\<lambda>(sdk_session_id, next, d2).
     ebind (add_result (ids 3) (run_id run) sdk_session_id (oc_result oc) now d2) (\<lambda>d3.
       Inr (oc_target oc, closing_events (\<lambda>i. ids (i + 4)) run tr segment attempt oc sdk_session_id
              next now d3)))))))"

definition stored_status :: "uuid \<Rightarrow> db \<Rightarrow> run_status res" where
  "stored_status rid d =
     (case find_row run_id rid (db_runs d) of
        None \<Rightarrow> Inl RunNotFoundError | Some run \<Rightarrow> Inr (run_status run))"

definition finalize_execution ::
  "digest \<Rightarrow> effect_finish \<Rightarrow> to_float \<Rightarrow> clock \<Rightarrow> fresh \<Rightarrow> claimed_run \<Rightarrow> outcome \<Rightarrow> db \<Rightarrow>
   (run_status \<times> db) res" where
  "finalize_execution sha finish fl clk ids claimed oc d =
     (let now = clk 0 in
      ebind (run_attempt_segment sha now claimed d) (\<lambda>(run, segment, attempt).
      ebind (pending_inline_proposal (run_id run) attempt d) (\<lambda>pending.
      case (if run_status run = RUNNING then (pending, segment) else (None, None)) of
        (Some proposal, Some s) \<Rightarrow>
          ebind (detach_inline_effect finish ids run s attempt proposal now d) (\<lambda>d'.
          ebind (stored_status (run_id run) d') (\<lambda>status. Inr (status, d')))
      | _ \<Rightarrow>
          if run_status run \<noteq> RUNNING then
            (if run_status run = oc_target oc \<and> at_status attempt = oc_attempt_status oc
             then Inr (run_status run, d) else Inl LeaseValidationError)
          else finalize_running fl ids claimed oc now run segment attempt d)))"

section \<open>Heartbeats\<close>

definition heartbeat_attempt :: "clock \<Rightarrow> uuid \<Rightarrow> string \<Rightarrow> time \<Rightarrow> time \<Rightarrow> db \<Rightarrow> (unit \<times> db) res" where
  "heartbeat_attempt clk attempt_id token_hash expires_at now d =
     (case find_row at_id attempt_id (db_attempts d) of
        None \<Rightarrow> Inl LeaseValidationError
      | Some attempt \<Rightarrow>
          if lock_run_row (at_run_id attempt) None d = None then Inl RunNotFoundError
          else if (\<exists>sid \<in> set_option (at_run_segment_id attempt).
                     lock_segment_row sid (at_run_id attempt) d = None)
          then Inl LeaseValidationError
          else
            let extension = expires_at - now; now = clk 0 in
            ebind (raise_if (\<not> digest_matches (at_lease_token_hash attempt) token_hash)
                     LeaseValidationError) (\<lambda>_.
            ebind (raise_if (\<not> attempt_active attempt) LeaseValidationError) (\<lambda>_.
            ebind (raise_if (case at_lease_expires_at attempt of None \<Rightarrow> True | Some t \<Rightarrow> t \<le> now)
                     LeaseValidationError) (\<lambda>_.
              Inr ((), put_attempt (attempt\<lparr>at_heartbeat_at := Some now,
                         at_lease_expires_at := Some (now + extension)\<rparr>) d)))))"

section \<open>Recovery\<close>

definition lease_expired :: "time \<Rightarrow> attempt_row \<Rightarrow> bool" where
  "lease_expired now a \<longleftrightarrow>
     attempt_active a \<and> (case at_lease_expires_at a of None \<Rightarrow> False | Some t \<Rightarrow> t \<le> now)"

definition expired_candidates :: "time \<Rightarrow> int \<Rightarrow> db \<Rightarrow> attempt_row list" where
  "expired_candidates now limit d =
     take (nat limit) (sort_key (\<lambda>a. case at_lease_expires_at a of None \<Rightarrow> 0 | Some t \<Rightarrow> t)
       (filter (lease_expired now) (db_attempts d)))"

definition close_attempt_sessions :: "uuid \<Rightarrow> string \<Rightarrow> db \<Rightarrow> db" where
  "close_attempt_sessions attempt_id status d =
     d\<lparr>db_sessions := map (\<lambda>s. if se_run_attempt_id s = attempt_id \<and> se_status s = ''ACTIVE''
         then s\<lparr>se_status := status\<rparr> else s) (db_sessions d)\<rparr>"

definition lease_expired_error :: json where
  "lease_expired_error = JObj [(''code'', JStr ''lease_expired''), (''retryable'', JBool True)]"

text \<open>The expired attempt of a run that has moved on is closed, the run is left alone.\<close>

definition expire_attempt :: "time \<Rightarrow> attempt_row \<Rightarrow> db \<Rightarrow> db" where
  "expire_attempt now attempt d =
     close_attempt_sessions (at_id attempt) ''FAILED''
       (put_attempt (attempt\<lparr>at_status := ATT_LEASE_EXPIRED, at_finished_at := Some now\<rparr>) d)"

definition recover_cancelled ::
  "fresh \<Rightarrow> run_row \<Rightarrow> segment_row option \<Rightarrow> attempt_row \<Rightarrow> time \<Rightarrow> db \<Rightarrow> db res" where
  "recover_cancelled ids run segment attempt now d =
     ebind (plan_run run CANCELLED now) (\<lambda>tr.
     let run' = run\<lparr>run_status := tr_status tr, run_row_version := tr_row_version tr,
           run_finished_at := tr_finished_at tr, run_error_json := None\<rparr>;
         attempt' = attempt\<lparr>at_status := ATT_CANCELLED, at_finished_at := Some now, at_error_json := None\<rparr>;
         d1 = close_attempt_sessions (at_id attempt) ''INTERRUPTED''
           (cancel_segment now segment (put_run run' (put_attempt attempt' d)));
         event = snapshot_event (ids 0) (run_id run) (next_sequence (run_id run) d1)
           (status_payload CANCELLED (tr_row_version tr) None)
           ''Run cancellation recovered after lease expiry'' now (Some (at_id attempt)) None None in
     Inr (announce (ids 1) CANCELLED event d1))"

definition recover_retry ::
  "fresh \<Rightarrow> run_row \<Rightarrow> segment_row option \<Rightarrow> attempt_row \<Rightarrow> time \<Rightarrow> db \<Rightarrow> db res" where
  "recover_retry ids run segment attempt now d =
     ebind (plan_run run RETRY_PENDING now) (\<lambda>tr.
     let run' = run\<lparr>run_status := tr_status tr, run_row_version := tr_row_version tr,
           run_error_json := Some lease_expired_error\<rparr>;
         attempt' = attempt\<lparr>at_status := ATT_LEASE_EXPIRED, at_finished_at := Some now,
           at_error_json := Some lease_expired_error\<rparr>;
         d1 = put_run run' (put_attempt attempt' d);
         d2 = (case segment of None \<Rightarrow> d1 | Some s \<Rightarrow> put_segment (s\<lparr>sg_status := SEG_RUNNING\<rparr>) d1);
         d3 = close_attempt_sessions (at_id attempt) ''FAILED'' d2;
         event = snapshot_event (ids 0) (run_id run) (next_sequence (run_id run) d3)
           (status_payload RETRY_PENDING (tr_row_version tr) (Some lease_expired_error))
           ''Run lease expired'' now (Some (at_id attempt)) None None;
         d4 = announce (ids 1) RETRY_PENDING event d3 in
     Inr (d4\<lparr>db_outbox := db_outbox d4 @ [dispatch_outbox (ids 2) (run_id run)
       (JObj [(''run_id'', JStr (str_uuid (run_id run))), (''reason'', JStr ''lease_recovery'')]) now]\<rparr>))"

text \<open>One candidate: does it count as recovered, and the database.\<close>

definition recover_one ::
  "effect_finish \<Rightarrow> fresh \<Rightarrow> time \<Rightarrow> attempt_row \<Rightarrow> db \<Rightarrow> (bool \<times> db) res" where
  "recover_one finish ids now candidate d =
     (case lock_run_row (at_run_id candidate) None d of
        None \<Rightarrow> Inl RunNotFoundError
      | Some run \<Rightarrow>
          ebind
            (case at_run_segment_id candidate of
               None \<Rightarrow> Inr None
             | Some sid \<Rightarrow>
                 (case lock_segment_row sid (at_run_id candidate) d of
                    None \<Rightarrow> Inl LeaseValidationError
                  | Some s \<Rightarrow> Inr (Some s))) (\<lambda>segment.
          case find_row at_id (at_id candidate) (db_attempts d) of
            None \<Rightarrow> Inr (False, d)
          | Some attempt \<Rightarrow>
              if \<not> lease_expired now attempt then Inr (False, d)
              else if run_status run \<noteq> PREPARING \<and> run_status run \<noteq> RUNNING
              then Inr (False, expire_attempt now attempt d)
              else
              ebind (pending_inline_proposal (run_id run) attempt d) (\<lambda>pending.
              case (if run_status run = RUNNING then (pending, segment) else (None, None)) of
                (Some proposal, Some s) \<Rightarrow>
                  ebind (detach_inline_effect finish ids run s attempt proposal now d) (\<lambda>d'. Inr (True, d'))
              | _ \<Rightarrow>
                  ebind (if is_cancellation_requested (run_id run) d
                         then recover_cancelled ids run segment attempt now d
                         else recover_retry ids run segment attempt now d) (\<lambda>d'. Inr (True, d')))))"

fun recover_all ::
  "effect_finish \<Rightarrow> (nat \<Rightarrow> fresh) \<Rightarrow> time \<Rightarrow> attempt_row list \<Rightarrow> db \<Rightarrow> (int \<times> db) res" where
  "recover_all finish ids now [] d = Inr (0, d)"
| "recover_all finish ids now (c # cs) d =
     ebind (recover_one finish (ids 0) now c d) (\<lambda>(recovered, d1).
     ebind (recover_all finish (\<lambda>i. ids (i + 1)) now cs d1) (\<lambda>(n, d2).
       Inr ((if recovered then 1 else 0) + n, d2)))"

definition recover_expired_attempts ::
  "effect_finish \<Rightarrow> (nat \<Rightarrow> fresh) \<Rightarrow> time \<Rightarrow> int \<Rightarrow> db \<Rightarrow> (int \<times> db) res" where
  "recover_expired_attempts finish ids now limit d =
     recover_all finish ids now (expired_candidates now limit d) d"

end
