(* ===== verification/Outbox.thy ===== *)
theory Outbox
  imports Run_Base
begin

text \<open>
  The transactional outbox: \<^verbatim>\<open>OutboxRepository\<close> of \<^verbatim>\<open>runs/repository.py\<close> and \<^verbatim>\<open>OutboxRelay.relay_once\<close>
  of \<^verbatim>\<open>runs/outbox.py\<close>.

  \<open>publish\<close> stands for the callback that hands a message to the queue: \<^const>\<open>None\<close> when it returns,
  the class name of the exception when it raises. \<open>held\<close> are the rows another transaction has locked,
  which \<^verbatim>\<open>SKIP LOCKED\<close> passes over. The locked messages of the repository are a list of rows.
\<close>

record pending_message =
  pm_message_id :: uuid
  pm_aggregate_type :: string
  pm_aggregate_id :: uuid
  pm_topic :: string
  pm_payload :: json
  pm_publish_attempts :: int

definition pending_of :: "outbox_row \<Rightarrow> pending_message" where
  "pending_of m =
     \<lparr>pm_message_id = ob_id m, pm_aggregate_type = ob_aggregate_type m,
      pm_aggregate_id = ob_aggregate_id m, pm_topic = ob_topic m, pm_payload = ob_payload_json m,
      pm_publish_attempts = ob_publish_attempts m\<rparr>"

definition awaits :: "string list \<Rightarrow> outbox_row \<Rightarrow> bool" where
  "awaits topics m \<longleftrightarrow> ob_published_at m = None \<and> ob_topic m \<in> set topics"

definition lock_pending :: "(uuid \<Rightarrow> bool) \<Rightarrow> string list \<Rightarrow> int \<Rightarrow> db \<Rightarrow> outbox_row list" where
  "lock_pending held topics limit d =
     take (nat limit) (sort_key (\<lambda>m. (ob_occurred_at m, ob_id m))
       (filter (\<lambda>m. awaits topics m \<and> \<not> held (ob_id m)) (db_outbox d)))"

definition locked_message :: "outbox_row list \<Rightarrow> uuid \<Rightarrow> outbox_row res" where
  "locked_message locked mid =
     (case find_row ob_id mid locked of None \<Rightarrow> Inl KeyError | Some m \<Rightarrow> Inr m)"

definition put_message :: "outbox_row \<Rightarrow> db \<Rightarrow> db" where
  "put_message m d = d\<lparr>db_outbox := put_row ob_id m (db_outbox d)\<rparr>"

definition mark_published :: "outbox_row list \<Rightarrow> uuid \<Rightarrow> time \<Rightarrow> db \<Rightarrow> db res" where
  "mark_published locked mid published_at d =
     ebind (locked_message locked mid) (\<lambda>m.
       Inr (put_message (m\<lparr>ob_publish_attempts := ob_publish_attempts m + 1,
         ob_published_at := Some published_at, ob_error_json := None\<rparr>) d))"

definition mark_failed :: "outbox_row list \<Rightarrow> uuid \<Rightarrow> string \<Rightarrow> db \<Rightarrow> db res" where
  "mark_failed locked mid error_type d =
     ebind (locked_message locked mid) (\<lambda>m.
       Inr (put_message (m\<lparr>ob_publish_attempts := ob_publish_attempts m + 1,
         ob_error_json := Some (JObj [(''type'', JStr error_type),
           (''message'', JStr ''outbox_publish_failed'')])\<rparr>) d))"

record relay_result =
  rr_selected :: int
  rr_published :: int
  rr_failed :: int

fun relay_messages ::
  "(pending_message \<Rightarrow> string option) \<Rightarrow> clock \<Rightarrow> outbox_row list \<Rightarrow> outbox_row list \<Rightarrow> int \<Rightarrow> int \<Rightarrow> db \<Rightarrow>
   (relay_result \<times> db) res" where
  "relay_messages publish clk locked [] published failed d =
     Inr (\<lparr>rr_selected = published + failed, rr_published = published, rr_failed = failed\<rparr>, d)"
| "relay_messages publish clk locked (m # ms) published failed d =
     (case publish (pending_of m) of
        None \<Rightarrow>
          ebind (mark_published locked (ob_id m) (clk 0) d) (\<lambda>d'.
            relay_messages publish (\<lambda>i. clk (i + 1)) locked ms (published + 1) failed d')
      | Some error_type \<Rightarrow>
          ebind (mark_failed locked (ob_id m) error_type d) (\<lambda>d'.
            relay_messages publish clk locked ms published (failed + 1) d'))"

definition relay_once ::
  "(uuid \<Rightarrow> bool) \<Rightarrow> (pending_message \<Rightarrow> string option) \<Rightarrow> clock \<Rightarrow> string list \<Rightarrow> int \<Rightarrow> db \<Rightarrow>
   (relay_result \<times> db) res" where
  "relay_once held publish clk topics batch_size d =
     (let messages = lock_pending held topics batch_size d in
      relay_messages publish clk messages messages 0 0 d)"

end
