(* ===== verification/Run_Inv.thy ===== *)
theory Run_Inv
  imports Run_Final Outbox
begin

text \<open>
  The invariant of the run tables and their history, and the primitive updates that the operations
  are made of.

  \<^item> \<open>run_inv\<close>: keys are unique, timestamps follow the status, an attempt belongs to a segment of its
    run, a segment has at most one open attempt and its attempt numbers differ, events of a run are
    numbered in increasing order, and results belong to succeeded runs, one each.
  \<^item> \<open>run_le\<close>: what no transaction undoes. Runs keep their identity, move along the transition table
    and are frozen in a final status; closed attempts are frozen; events, results, briefs and messages
    are only appended.
  \<^item> \<open>safe d d'\<close>: the update keeps the one and respects the other. Each primitive update is safe, safe
    updates compose, so an operation is safe by following its code.
\<close>

section \<open>The invariant\<close>

definition run_row_inv :: "run_row \<Rightarrow> bool" where
  "run_row_inv r \<longleftrightarrow> run_times_ok (run_status r) (run_started_at r) (run_finished_at r) \<and>
     1 \<le> run_row_version r"

definition run_key :: "run_row \<Rightarrow> uuid \<times> uuid \<times> string" where
  "run_key r = (run_project_id r, run_task_id r, run_idempotency_key r)"

definition attempt_home :: "db \<Rightarrow> attempt_row \<Rightarrow> bool" where
  "attempt_home d a \<longleftrightarrow> (\<forall>sid \<in> set_option (at_run_segment_id a).
     \<exists>s \<in> set (db_segments d). sg_id s = sid \<and> sg_run_id s = at_run_id a)"

text \<open>Two attempts of one segment that are both open, or have the same number, are the same.\<close>

definition attempt_alone :: "attempt_row \<Rightarrow> attempt_row \<Rightarrow> bool" where
  "attempt_alone a b \<longleftrightarrow>
     at_run_segment_id a \<noteq> None \<and> at_run_segment_id b = at_run_segment_id a \<and>
     (attempt_open a \<and> attempt_open b \<or> at_attempt_no a = at_attempt_no b) \<longrightarrow> at_id a = at_id b"

definition numbered :: "db \<Rightarrow> bool" where
  "numbered d \<longleftrightarrow> (\<forall>e \<in> set (db_events d). 0 < ev_sequence e \<and> ev_run_id e \<in> run_id ` set (db_runs d)) \<and>
     (\<forall>rid. sorted_wrt (<) (run_sequences rid d))"

definition results_ok :: "db \<Rightarrow> bool" where
  "results_ok d \<longleftrightarrow> distinct (map re_run_id (db_results d)) \<and>
     (\<forall>x \<in> set (db_results d). \<exists>r \<in> set (db_runs d). run_id r = re_run_id x \<and> run_status r = SUCCEEDED)"

definition run_inv :: "db \<Rightarrow> bool" where
  "run_inv d \<longleftrightarrow>
     distinct (map run_id (db_runs d)) \<and> distinct (map run_key (db_runs d)) \<and>
     distinct (map at_id (db_attempts d)) \<and> distinct (map sg_id (db_segments d)) \<and>
     (\<forall>r \<in> set (db_runs d). run_row_inv r) \<and>
     (\<forall>a \<in> set (db_attempts d). attempt_home d a \<and> (\<forall>b \<in> set (db_attempts d). attempt_alone a b)) \<and>
     numbered d \<and> results_ok d"

section \<open>The history\<close>

definition reach :: "run_status \<Rightarrow> run_status \<Rightarrow> bool" where
  "reach s t \<longleftrightarrow> (\<exists>path. path_ok allowed_run_transitions s path \<and> last (s # path) = t)"

definition run_row_le :: "run_row \<Rightarrow> run_row \<Rightarrow> bool" where
  "run_row_le r r' \<longleftrightarrow>
     run_id r' = run_id r \<and> run_key r' = run_key r \<and> run_request_hash r' = run_request_hash r \<and>
     run_input_json r' = run_input_json r \<and> run_task_snapshot_json r' = run_task_snapshot_json r \<and>
     run_permission_snapshot_json r' = run_permission_snapshot_json r \<and>
     run_limits_snapshot_json r' = run_limits_snapshot_json r \<and>
     (1 < run_row_version r \<longrightarrow> run_selected_sources_json r' = run_selected_sources_json r) \<and>
     run_row_version r \<le> run_row_version r' \<and>
     (run_status r' \<noteq> run_status r \<longrightarrow> run_row_version r < run_row_version r') \<and>
     reach (run_status r) (run_status r') \<and> kept (run_started_at r) (run_started_at r') \<and>
     (is_terminal (run_status r) \<longrightarrow> r' = r)"

fun attempt_rank :: "attempt_status \<Rightarrow> nat" where
  "attempt_rank ATT_CREATED = 0"
| "attempt_rank ATT_LEASED = 1"
| "attempt_rank ATT_RUNNING = 2"
| "attempt_rank ATT_DEFERRED = 3"
| "attempt_rank _ = 4"

definition attempt_le :: "attempt_row \<Rightarrow> attempt_row \<Rightarrow> bool" where
  "attempt_le a a' \<longleftrightarrow>
     at_id a' = at_id a \<and> at_run_id a' = at_run_id a \<and> at_run_segment_id a' = at_run_segment_id a \<and>
     at_attempt_no a' = at_attempt_no a \<and> attempt_rank (at_status a) \<le> attempt_rank (at_status a') \<and>
     (\<not> attempt_open a \<longrightarrow> a' = a)"

definition segment_le :: "segment_row \<Rightarrow> segment_row \<Rightarrow> bool" where
  "segment_le s s' \<longleftrightarrow> sg_id s' = sg_id s \<and> sg_run_id s' = sg_run_id s \<and>
     sg_segment_no s' = sg_segment_no s"

definition run_le :: "db \<Rightarrow> db \<Rightarrow> bool" where
  "run_le d d' \<longleftrightarrow>
     table_le run_row_le (db_runs d) (db_runs d') \<and> table_le attempt_le (db_attempts d) (db_attempts d') \<and>
     table_le segment_le (db_segments d) (db_segments d') \<and>
     appended (db_events d) (db_events d') \<and> appended (db_results d) (db_results d') \<and>
     appended (db_briefs d) (db_briefs d') \<and> appended (db_outbox d) (db_outbox d')"

lemma reach_refl [simp]: "reach s s"
  unfolding reach_def by (rule exI [of _ "[]"]) simp

lemma reach_step: "t \<in> set (allowed_run_transitions s) \<Longrightarrow> reach s t"
  unfolding reach_def by (rule exI [of _ "[t]"]) simp

lemma reach_trans:
  assumes "reach s t" "reach t u"
  shows "reach s u"
proof -
  obtain p where p: "path_ok allowed_run_transitions s p" "last (s # p) = t"
    using assms(1) by (auto simp: reach_def)
  obtain q where q: "path_ok allowed_run_transitions t q" "last (t # q) = u"
    using assms(2) by (auto simp: reach_def)
  have "path_ok allowed_run_transitions s (p @ q)" using p q by (auto simp: path_ok_append)
  moreover have "last (s # p @ q) = u" using p(2) q(2) by (cases "q = []") auto
  ultimately show ?thesis unfolding reach_def by blast
qed

lemma run_row_le_refl [simp]: "run_row_le r r"
  by (simp add: run_row_le_def)

lemma run_row_le_trans: "run_row_le r r1 \<Longrightarrow> run_row_le r1 r2 \<Longrightarrow> run_row_le r r2"
proof -
  assume a: "run_row_le r r1" "run_row_le r1 r2"
  have "1 < run_row_version r \<Longrightarrow> 1 < run_row_version r1" "run_row_version r \<le> run_row_version r2"
    using a by (auto simp: run_row_le_def)
  moreover have "reach (run_status r) (run_status r2)"
    using a reach_trans by (auto simp: run_row_le_def)
  moreover have "kept (run_started_at r) (run_started_at r2)"
    using a by (auto simp: run_row_le_def kept_def)
  moreover have "run_status r2 \<noteq> run_status r \<Longrightarrow> run_row_version r < run_row_version r2"
    using a by (cases "run_status r1 = run_status r") (auto simp: run_row_le_def)
  ultimately show ?thesis using a unfolding run_row_le_def by auto
qed

lemma attempt_le_refl [simp]: "attempt_le a a"
  by (simp add: attempt_le_def)

lemma attempt_le_trans: "attempt_le a b \<Longrightarrow> attempt_le b c \<Longrightarrow> attempt_le a c"
  unfolding attempt_le_def by (metis order_trans)

lemma segment_le_refl [simp]: "segment_le s s"
  by (simp add: segment_le_def)

lemma segment_le_trans: "segment_le a b \<Longrightarrow> segment_le b c \<Longrightarrow> segment_le a c"
  unfolding segment_le_def by simp

lemma run_le_refl [simp]: "run_le d d"
  by (simp add: run_le_def table_le_refl)

lemma run_le_trans: "run_le d d1 \<Longrightarrow> run_le d1 d2 \<Longrightarrow> run_le d d2"
  unfolding run_le_def
  by (meson table_le_trans run_row_le_trans attempt_le_trans segment_le_trans appended_trans)

section \<open>Safe updates\<close>

definition safe :: "db \<Rightarrow> db \<Rightarrow> bool" where
  "safe d d' \<longleftrightarrow> (run_inv d \<longrightarrow> run_inv d' \<and> run_le d d')"

lemma safe_refl [simp]: "safe d d"
  by (simp add: safe_def)

lemma safe_trans [trans]: "safe d d1 \<Longrightarrow> safe d1 d2 \<Longrightarrow> safe d d2"
  unfolding safe_def using run_le_trans by blast

text \<open>Updates of other tables.\<close>

definition same_core :: "db \<Rightarrow> db \<Rightarrow> bool" where
  "same_core d d' \<longleftrightarrow> db_runs d' = db_runs d \<and> db_attempts d' = db_attempts d \<and>
     db_segments d' = db_segments d \<and> db_events d' = db_events d \<and> db_results d' = db_results d"

lemma safe_other:
  assumes "same_core d d'" "appended (db_briefs d) (db_briefs d')" "appended (db_outbox d) (db_outbox d')"
  shows "safe d d'"
proof -
  have "run_inv d' = run_inv d" using assms(1)
    unfolding same_core_def run_inv_def attempt_home_def numbered_def results_ok_def run_sequences_def by simp
  moreover have "run_le d d'" using assms
    unfolding same_core_def run_le_def by (simp add: table_le_refl)
  ultimately show ?thesis by (simp add: safe_def)
qed

lemma safe_session [simp]: "safe d (put_session s d)"
  by (rule safe_other) (simp_all add: same_core_def put_session_def)

lemma map_put_row_same:
  assumes "\<And>x. x \<in> set rows \<Longrightarrow> key x = key r \<Longrightarrow> f x = f r"
  shows "map f (put_row key r rows) = map f rows"
  using assms by (induction rows) (auto simp: put_row_def)

lemma safe_segment:
  assumes "s \<in> set (db_segments d)" "sg_id s' = sg_id s" "sg_run_id s' = sg_run_id s"
    "sg_segment_no s' = sg_segment_no s"
  shows "safe d (put_segment s' d)"
  unfolding safe_def
proof (intro impI conjI)
  assume inv: "run_inv d"
  let ?rows = "put_row sg_id s' (db_segments d)"
  have same: "segment_le x s'" if "x \<in> set (db_segments d)" "sg_id x = sg_id s'" for x
  proof -
    have "x = s" using inv that assms
      by (intro distinct_key_eq [of sg_id "db_segments d"]) (simp_all add: run_inv_def)
    with assms show ?thesis by (simp add: segment_le_def)
  qed
  have "\<exists>y \<in> set ?rows. sg_id y = sg_id x \<and> sg_run_id y = sg_run_id x" if "x \<in> set (db_segments d)" for x
    using table_le_put_row [of segment_le "db_segments d" sg_id s'] same that
    by (auto simp: table_le_def segment_le_def)
  then have "attempt_home (put_segment s' d) a" if "attempt_home d a" for a
    using that unfolding attempt_home_def put_segment_def by fastforce
  then show "run_inv (put_segment s' d)" using inv
    unfolding run_inv_def by (simp add: put_segment_def numbered_def results_ok_def run_sequences_def)
  show "run_le d (put_segment s' d)"
    using table_le_put_row [of segment_le "db_segments d" sg_id s'] same
    by (simp add: run_le_def put_segment_def table_le_refl)
qed

lemma safe_attempt:
  assumes "a \<in> set (db_attempts d)" "attempt_le a a'"
  shows "safe d (put_attempt a' d)"
  unfolding safe_def
proof (intro impI conjI)
  assume inv: "run_inv d"
  let ?rows = "put_row at_id a' (db_attempts d)"
  have id: "at_id a' = at_id a" using assms(2) by (simp add: attempt_le_def)
  have same: "x = a" if "x \<in> set (db_attempts d)" "at_id x = at_id a'" for x
    using inv that assms id by (intro distinct_key_eq [of at_id "db_attempts d"]) (simp_all add: run_inv_def)
  have opened: "attempt_open a" if "attempt_open a'" using assms(2) that by (auto simp: attempt_le_def)
  have home: "attempt_home d a'" using inv assms
    by (auto simp: run_inv_def attempt_le_def attempt_home_def)
  have alone: "attempt_alone x y" if "x \<in> set ?rows" "y \<in> set ?rows" for x y
  proof -
    define old where "old = (\<lambda>z. if z = a' then a else z)"
    have o: "old z \<in> set (db_attempts d) \<and> at_id (old z) = at_id z \<and>
        at_run_segment_id (old z) = at_run_segment_id z \<and> at_attempt_no (old z) = at_attempt_no z \<and>
        (attempt_open z \<longrightarrow> attempt_open (old z))" if "z \<in> set ?rows" for z
      using set_put_rowD [OF that] assms id opened by (auto simp: old_def attempt_le_def)
    have "attempt_alone (old x) (old y)" using inv o [OF that(1)] o [OF that(2)] by (simp add: run_inv_def)
    then show ?thesis using o [OF that(1)] o [OF that(2)] by (auto simp: attempt_alone_def)
  qed
  show "run_inv (put_attempt a' d)" using inv home alone
    unfolding run_inv_def
    by (auto simp: put_attempt_def numbered_def results_ok_def run_sequences_def attempt_home_def
        dest!: set_put_rowD)
  show "run_le d (put_attempt a' d)"
    using table_le_put_row [of attempt_le "db_attempts d" at_id a'] same assms(2)
    by (auto simp: run_le_def put_attempt_def table_le_refl)
qed

lemma safe_run:
  assumes "r \<in> set (db_runs d)" "run_row_le r r'" "run_row_inv r \<Longrightarrow> run_row_inv r'"
  shows "safe d (put_run r' d)"
  unfolding safe_def
proof (intro impI conjI)
  assume inv: "run_inv d"
  let ?rows = "put_row run_id r' (db_runs d)"
  have id: "run_id r' = run_id r" using assms(2) by (simp add: run_row_le_def)
  have same: "x = r" if "x \<in> set (db_runs d)" "run_id x = run_id r'" for x
    using inv that assms id by (intro distinct_key_eq [of run_id "db_runs d"]) (simp_all add: run_inv_def)
  have keys: "map run_key ?rows = map run_key (db_runs d)"
    using same assms(2) by (intro map_put_row_same) (auto simp: run_row_le_def)
  have ids: "run_id ` set ?rows = run_id ` set (db_runs d)" by (metis list.set_map map_put_row)
  have succeeded: "\<exists>y \<in> set ?rows. run_id y = run_id x \<and> run_status y = SUCCEEDED"
    if "x \<in> set (db_runs d)" "run_status x = SUCCEEDED" for x
  proof (cases "run_id x = run_id r'")
    case True
    with same that have "x = r" by blast
    with that(2) assms(2) have "r' = x" by (simp add: run_row_le_def)
    with True that show ?thesis by (metis in_put_row image_eqI)
  next
    case False
    with that put_row_keeps [of x "db_runs d" run_id r'] show ?thesis by auto
  qed
  have "results_ok (put_run r' d)" using inv succeeded
    unfolding run_inv_def results_ok_def put_run_def by (simp; metis)
  moreover have "numbered (put_run r' d)" using inv ids
    by (simp add: run_inv_def numbered_def put_run_def run_sequences_def)
  moreover have "run_row_inv x" if "x \<in> set ?rows" for x
    using set_put_rowD [OF that] inv assms by (auto simp: run_inv_def)
  ultimately show "run_inv (put_run r' d)" using inv keys
    unfolding run_inv_def by (simp add: put_run_def attempt_home_def)
  show "run_le d (put_run r' d)"
    using table_le_put_row [of run_row_le "db_runs d" run_id r'] same assms(2)
    by (auto simp: run_le_def put_run_def table_le_refl)
qed

text \<open>New rows.\<close>

lemma safe_new_attempt:
  assumes "at_id a \<notin> at_id ` set (db_attempts d)" "attempt_home d a"
    and "\<And>b. b \<in> set (db_attempts d) \<Longrightarrow> at_run_segment_id b = at_run_segment_id a \<Longrightarrow>
       at_run_segment_id a \<noteq> None \<Longrightarrow> \<not> attempt_open b \<and> at_attempt_no b \<noteq> at_attempt_no a"
  shows "safe d (d\<lparr>db_attempts := db_attempts d @ [a]\<rparr>)"
  unfolding safe_def
proof (intro impI conjI)
  assume inv: "run_inv d"
  have "attempt_alone a b \<and> attempt_alone b a" if "b \<in> set (db_attempts d)" for b
    using assms(3) [OF that] by (auto simp: attempt_alone_def)
  moreover have "attempt_alone a a" by (simp add: attempt_alone_def)
  ultimately show "run_inv (d\<lparr>db_attempts := db_attempts d @ [a]\<rparr>)" using inv assms(1,2)
    unfolding run_inv_def by (auto simp: attempt_home_def numbered_def results_ok_def run_sequences_def)
  show "run_le d (d\<lparr>db_attempts := db_attempts d @ [a]\<rparr>)"
    by (simp add: run_le_def table_le_refl table_le_append)
qed

lemma safe_new_segment:
  assumes "sg_id s \<notin> sg_id ` set (db_segments d)"
  shows "safe d (d\<lparr>db_segments := db_segments d @ [s]\<rparr>)"
  using assms unfolding safe_def run_inv_def run_le_def
  by (auto simp: attempt_home_def numbered_def results_ok_def run_sequences_def table_le_refl table_le_append)

lemma safe_new_run:
  assumes "run_id r \<notin> run_id ` set (db_runs d)" "run_key r \<notin> run_key ` set (db_runs d)" "run_row_inv r"
  shows "safe d (d\<lparr>db_runs := db_runs d @ [r]\<rparr>)"
  using assms unfolding safe_def run_inv_def run_le_def
  by (auto simp: attempt_home_def numbered_def results_ok_def run_sequences_def table_le_refl table_le_append)

lemma safe_new_result:
  assumes "re_run_id x \<notin> re_run_id ` set (db_results d)"
    and "\<exists>r \<in> set (db_runs d). run_id r = re_run_id x \<and> run_status r = SUCCEEDED"
  shows "safe d (d\<lparr>db_results := db_results d @ [x]\<rparr>)"
  using assms unfolding safe_def run_inv_def run_le_def
  by (auto simp: attempt_home_def numbered_def results_ok_def run_sequences_def table_le_refl)

lemma coalesce_max_snoc: "0 \<le> n \<Longrightarrow> coalesce_max (ns @ [n]) = max (coalesce_max ns) n"
  by (cases "ns = []") (auto simp: coalesce_max_def max.commute)

lemma run_sequences_add_event [simp]:
  "run_sequences rid (add_event e obs d) = run_sequences rid d @ (if ev_run_id e = rid then [ev_sequence e] else [])"
  by (simp add: add_event_def run_sequences_def)

lemma run_sequences_announce [simp]:
  "run_sequences rid (announce i s e d) = run_sequences rid d @ (if ev_run_id e = rid then [ev_sequence e] else [])"
  by (simp add: announce_def)

text \<open>The number after an announced event.\<close>

lemma next_sequence_announce:
  assumes "0 < ev_sequence e" "next_sequence (ev_run_id e) d \<le> ev_sequence e"
  shows "next_sequence (ev_run_id e) (announce i s e d) = ev_sequence e + 1"
proof -
  have "coalesce_max (run_sequences (ev_run_id e) d) \<le> ev_sequence e"
    using assms by (auto simp: next_sequence_def Let_def split: if_splits)
  then show ?thesis using assms(1)
    by (simp add: next_sequence_def coalesce_max_snoc)
qed

lemma next_sequence_cong: "db_events d' = db_events d \<Longrightarrow> next_sequence rid d' = next_sequence rid d"
  by (simp add: next_sequence_def run_sequences_def)

lemma numbered_next_pos: "run_inv d \<Longrightarrow> 0 < next_sequence rid d"
  by (rule next_sequence_pos) (simp add: run_inv_def numbered_def)

lemma sorted_below_next:
  assumes "\<forall>n \<in> set (run_sequences rid d). (0::int) < n" "n \<in> set (run_sequences rid d)"
  shows "n < next_sequence rid d"
proof -
  have "n \<le> coalesce_max (run_sequences rid d)" using assms(2) by (auto simp: coalesce_max_def)
  with assms show ?thesis by (auto simp: next_sequence_def Let_def)
qed

lemma safe_add_event:
  assumes "ev_run_id e \<in> run_id ` set (db_runs d)" "next_sequence (ev_run_id e) d \<le> ev_sequence e"
  shows "safe d (add_event e obs d)"
  unfolding safe_def
proof (intro impI conjI)
  assume inv: "run_inv d"
  have pos: "0 < ev_sequence e" using numbered_next_pos [OF inv] assms(2) by (metis less_le_trans)
  have seqs: "\<forall>n \<in> set (run_sequences rid d). 0 < n" for rid
    using inv by (auto simp: run_inv_def numbered_def run_sequences_def)
  have "sorted_wrt (<) (run_sequences rid (add_event e obs d))" for rid
  proof (cases "ev_run_id e = rid")
    case True
    have "n < ev_sequence e" if "n \<in> set (run_sequences rid d)" for n
      using sorted_below_next [OF seqs that] assms(2) True by simp
    with inv True show ?thesis by (simp add: run_inv_def numbered_def sorted_wrt_append)
  next
    case False
    with inv show ?thesis by (simp add: run_inv_def numbered_def)
  qed
  then have "numbered (add_event e obs d)" using inv pos assms(1)
    by (auto simp: run_inv_def numbered_def add_event_def)
  then show "run_inv (add_event e obs d)" using inv
    unfolding run_inv_def by (simp add: add_event_def attempt_home_def results_ok_def)
  show "run_le d (add_event e obs d)"
    by (simp add: run_le_def add_event_def table_le_refl)
qed

lemma safe_announce:
  assumes "ev_run_id e \<in> run_id ` set (db_runs d)" "next_sequence (ev_run_id e) d \<le> ev_sequence e"
  shows "safe d (announce i s e d)"
  using assms unfolding announce_def by (rule safe_add_event)

section \<open>Planned transitions\<close>

lemma plan_run_Inr:
  assumes "plan_run r t now = Inr tr"
  shows "t \<in> set (allowed_run_transitions (run_status r))" "tr_status tr = t"
    "tr_row_version tr = run_row_version r + 1" "\<not> is_terminal (run_status r)"
  using assms by (cases "run_status r"; auto simp: plan_run_def plan_run_transition_Inr is_terminal_def
      terminal_run_statuses_def)+

text \<open>A run row with the planned status and version, however the operation copies the two times.\<close>

lemma planned_run:
  assumes p: "plan_run r t now = Inr tr"
    and r': "run_id r' = run_id r" "run_key r' = run_key r" "run_request_hash r' = run_request_hash r"
      "run_input_json r' = run_input_json r" "run_task_snapshot_json r' = run_task_snapshot_json r"
      "run_permission_snapshot_json r' = run_permission_snapshot_json r"
      "run_limits_snapshot_json r' = run_limits_snapshot_json r"
      "run_selected_sources_json r' = run_selected_sources_json r"
    and st: "run_status r' = tr_status tr" "run_row_version r' = tr_row_version tr"
    and times: "run_started_at r' = tr_started_at tr" "run_finished_at r' = tr_finished_at tr"
  shows "run_row_le r r'" "run_row_inv r \<Longrightarrow> run_row_inv r'"
proof -
  note q = plan_run_Inr [OF p]
  have s: "tr_started_at tr = (if t = RUNNING \<and> run_started_at r = None then Some now else run_started_at r)"
    using p by (auto simp: plan_run_def plan_run_transition_Inr)
  show "run_row_le r r'" using q r' st times s reach_step [OF q(1)]
    by (auto simp: run_row_le_def kept_def)
  show "run_row_inv r'" if "run_row_inv r"
    using that run_times_kept [OF _ p [unfolded plan_run_def]] q st times
    by (auto simp: run_row_inv_def)
qed

lemma plan_times:
  assumes "plan_run r t now = Inr tr"
  shows "t \<noteq> RUNNING \<Longrightarrow> tr_started_at tr = run_started_at r"
    "\<not> is_terminal t \<Longrightarrow> tr_finished_at tr = run_finished_at r"
  using assms by (auto simp: plan_run_def plan_run_transition_Inr)

end
