(* ===== verification/Creation.thy ===== *)
theory Creation
  imports Pyvalue Budget Run_Domain
begin

text \<open>
  The identity of a run request: \<^verbatim>\<open>runs/creation_request.py\<close> (the intent of the first request and its
  stored form), \<^verbatim>\<open>request_hash\<close> of \<^verbatim>\<open>runs/domain.py\<close>, \<^verbatim>\<open>runs/creation_replay.py\<close> (is a repeated
  request the stored one?) and the selection tokens of \<^verbatim>\<open>documents/snapshot.py\<close>.

  Snapshot columns are \<^typ>\<open>json\<close>; \<^verbatim>\<open>deepcopy\<close> has no counterpart, values being immutable here.
  The digest functions \<open>sha\<close> (SHA-256 as hexadecimal text) and \<open>sha1\<close> (of UUID version 5) are
  parameters.
\<close>

section \<open>Document selections\<close>

definition starts_with :: "string \<Rightarrow> string \<Rightarrow> bool" where
  "starts_with p s \<longleftrightarrow> take (length p) s = p"

definition all_documents_selection :: string where
  "all_documents_selection = ''project-documents:all''"

definition max_selected_documents :: nat where
  "max_selected_documents = 5000"

definition document_capabilities :: "string list" where
  "document_capabilities =
     [''document.read/v1'', ''document.convert/v1'', ''document.inspect/v1'', ''document.list/v1'']"

datatype selection_mode = SEL_SINGLE | SEL_SET | SEL_ALL

record document_selection =
  ds_mode :: selection_mode
  ds_document_ids :: "uuid list"

definition parse_document_selection :: "string \<Rightarrow> document_selection res" where
  "parse_document_selection token =
     (if token = all_documents_selection then Inr \<lparr>ds_mode = SEL_ALL, ds_document_ids = []\<rparr>
      else
        let (prefix, raw_ids) = py_partition CHR '':'' token; pieces = py_split_on CHR '','' raw_ids in
        if CHR '':'' \<notin> set token \<or> prefix \<noteq> ''document'' \<and> prefix \<noteq> ''documents''
        then Inl DocumentSnapshotError
        else if \<not> (1 \<le> length pieces \<and> length pieces \<le> max_selected_documents)
        then Inl DocumentSnapshotError
        else
          ebind (rethrow value_error DocumentSnapshotError (emap parse_uuid pieces)) (\<lambda>ids.
            if \<not> distinct ids \<or> prefix = ''document'' \<and> length ids \<noteq> 1
            then Inl DocumentSnapshotError
            else if prefix = ''documents'' \<and> length ids < 2 then Inl DocumentSnapshotError
            else Inr \<lparr>ds_mode = (if prefix = ''document'' then SEL_SINGLE else SEL_SET),
                      ds_document_ids = sort ids\<rparr>))"

section \<open>The intent of a request\<close>

definition creation_request_field :: string where
  "creation_request_field = ''creation_request''"

definition request_fields :: "string list" where
  "request_fields = [''request_version'', ''project_id'', ''skill_version_id'', ''task_key'',
     ''actor_id'', ''input'', ''sources'']"

definition normalize_token :: "string \<Rightarrow> string res" where
  "normalize_token token =
     (if token = all_documents_selection \<or> starts_with ''document:'' token \<or> starts_with ''documents:'' token
      then ebind (parse_document_selection token) (\<lambda>selection.
        if ds_mode selection = SEL_ALL then Inr all_documents_selection
        else Inr ((if ds_mode selection = SEL_SINGLE then ''document'' else ''documents'') @ CHR '':'' #
                  join_comma (map str_uuid (ds_document_ids selection))))
      else if starts_with ''integration:'' token
      then ebind (rethrow value_error ValueError (parse_uuid (drop 12 token))) (\<lambda>u.
        Inr (''integration:'' @ str_uuid u))
      else Inr token)"

definition normalize_choice :: "string \<times> json \<Rightarrow> (string \<times> string) res" where
  "normalize_choice kv =
     (case kv of (key, v) \<Rightarrow>
        (case v of
           JStr token \<Rightarrow>
             if key = [] then Inl ValueError
             else ebind (normalize_token token) (\<lambda>t. Inr (key, t))
         | _ \<Rightarrow> Inl ValueError))"

definition normalize_source_choices :: "(string \<times> json) list \<Rightarrow> (string \<times> string) list res" where
  "normalize_source_choices sources = emap normalize_choice sources"

record run_intent =
  it_project_id :: uuid
  it_skill_version_id :: uuid
  it_task_key :: string
  it_actor_id :: uuid
  it_input_json :: json
  it_sources :: "(string \<times> string) list"
  it_auto_approve :: bool
  it_auto_approve_git :: bool
  it_auto_approve_mcp :: bool

fun flag :: "json \<Rightarrow> bool res" where
  "flag (JBool b) = Inr b"
| "flag _ = Inl ValueError"

text \<open>\<^verbatim>\<open>TaskRunIntent.__post_init__\<close> on the decoded arguments.\<close>

definition mk_intent ::
  "uuid \<Rightarrow> uuid \<Rightarrow> string \<Rightarrow> uuid \<Rightarrow> json \<Rightarrow> json \<Rightarrow> json \<Rightarrow> json \<Rightarrow> json \<Rightarrow> run_intent res" where
  "mk_intent project_id skill_version_id task_key actor_id input sources approve approve_git approve_mcp =
     ebind (raise_if (task_key = []) ValueError) (\<lambda>_.
     ebind (raise_if (\<not> is_obj input \<or> \<not> is_obj sources) ValueError) (\<lambda>_.
     ebind (flag approve) (\<lambda>approve.
     ebind (flag approve_git) (\<lambda>git.
     ebind (raise_if (git \<and> \<not> approve) ValueError) (\<lambda>_.
     ebind (flag approve_mcp) (\<lambda>mcp.
     ebind (raise_if (mcp \<and> \<not> approve) ValueError) (\<lambda>_.
     ebind (normalize_source_choices (obj_fields sources)) (\<lambda>choices.
       Inr \<lparr>it_project_id = project_id, it_skill_version_id = skill_version_id, it_task_key = task_key,
            it_actor_id = actor_id, it_input_json = input, it_sources = choices,
            it_auto_approve = approve, it_auto_approve_git = git, it_auto_approve_mcp = mcp\<rparr>))))))))"

definition request_version :: "run_intent \<Rightarrow> string" where
  "request_version i =
     (if it_auto_approve_mcp i then ''v4'' else if it_auto_approve_git i then ''v3''
      else if it_auto_approve i then ''v2'' else ''v1'')"

definition intent_to_json :: "run_intent \<Rightarrow> json" where
  "intent_to_json i = JObj
     ([(''request_version'', JStr (request_version i))] @
      (if it_auto_approve_git i then [(''auto_approve_git'', JBool True)] else []) @
      (if it_auto_approve_mcp i then [(''auto_approve_mcp'', JBool True)] else []) @
      (if it_auto_approve i then [(''auto_approve'', JBool True)] else []) @
      [(''project_id'', JStr (str_uuid (it_project_id i))),
       (''skill_version_id'', JStr (str_uuid (it_skill_version_id i))),
       (''task_key'', JStr (it_task_key i)),
       (''actor_id'', JStr (str_uuid (it_actor_id i))),
       (''input'', it_input_json i),
       (''sources'', JObj (map (map_prod id JStr) (it_sources i)))])"

definition intent_fingerprint :: "digest \<Rightarrow> run_intent \<Rightarrow> string" where
  "intent_fingerprint sha i = json_digest sha (intent_to_json i)"

text \<open>The four stored formats.\<close>

definition stored_format :: "json \<Rightarrow> bool" where
  "stored_format v \<longleftrightarrow>
     (let version = jget ''request_version'' v; true = (\<lambda>k. jget k v = Some (JBool True)) in
      has_keys request_fields v \<and> version = Some (JStr ''v1'') \<or>
      has_keys (request_fields @ [''auto_approve'']) v \<and> version = Some (JStr ''v2'') \<and>
        true ''auto_approve'' \<or>
      has_keys (request_fields @ [''auto_approve'', ''auto_approve_git'']) v \<and>
        version = Some (JStr ''v3'') \<and> true ''auto_approve'' \<and> true ''auto_approve_git'' \<or>
      (has_keys (request_fields @ [''auto_approve'', ''auto_approve_mcp'']) v \<or>
       has_keys (request_fields @ [''auto_approve'', ''auto_approve_git'', ''auto_approve_mcp'']) v) \<and>
        version = Some (JStr ''v4'') \<and> true ''auto_approve'' \<and> true ''auto_approve_mcp'' \<and>
        (jget ''auto_approve_git'' v = None \<or> true ''auto_approve_git''))"

definition str_field :: "string \<Rightarrow> json \<Rightarrow> string res" where
  "str_field k v = (case jget k v of Some (JStr s) \<Rightarrow> Inr s | _ \<Rightarrow> Inl ValueError)"

definition flag_field :: "string \<Rightarrow> json \<Rightarrow> json" where
  "flag_field k v = (case jget k v of None \<Rightarrow> JBool False | Some w \<Rightarrow> w)"

definition intent_from_json :: "json \<Rightarrow> run_intent res" where
  "intent_from_json v =
     ebind (raise_if (\<not> is_obj v \<or> \<not> stored_format v) ValueError) (\<lambda>_.
     ebind (str_field ''project_id'' v) (\<lambda>project.
     ebind (str_field ''skill_version_id'' v) (\<lambda>version.
     ebind (str_field ''actor_id'' v) (\<lambda>actor.
     ebind (str_field ''task_key'' v) (\<lambda>task_key.
     ebind (parse_uuid project) (\<lambda>project.
     ebind (parse_uuid version) (\<lambda>version.
     ebind (parse_uuid actor) (\<lambda>actor.
     ebind (mk_intent project version task_key actor (jnull ''input'' v) (jnull ''sources'' v)
              (flag_field ''auto_approve'' v) (flag_field ''auto_approve_git'' v)
              (flag_field ''auto_approve_mcp'' v)) (\<lambda>intent.
       if canonical_json (intent_to_json intent) \<noteq> canonical_json v then Inl ValueError
       else Inr intent)))))))))"

section \<open>Commands and their fingerprint\<close>

record create_command =
  cm_project_id :: uuid
  cm_task_id :: uuid
  cm_idempotency_key :: string
  cm_input_json :: json
  cm_task_snapshot_json :: json
  cm_permission_snapshot_json :: json
  cm_selected_sources_json :: json
  cm_limits_snapshot_json :: json
  cm_trace_id :: "string option"
  cm_skill_snapshots_json :: "json list"
  cm_budget_policy :: "budget_policy option"

definition intent_matches :: "digest128 \<Rightarrow> create_command \<Rightarrow> run_intent \<Rightarrow> bool" where
  "intent_matches sha1 command i \<longleftrightarrow>
     it_project_id i = cm_project_id command \<and>
     derive_task_id sha1 (it_skill_version_id i) (it_task_key i) = cm_task_id command \<and>
     jget ''skill_version_id'' (cm_task_snapshot_json command) = Some (JStr (str_uuid (it_skill_version_id i))) \<and>
     jget ''task_key'' (cm_task_snapshot_json command) = Some (JStr (it_task_key i)) \<and>
     jget ''actor_id'' (cm_permission_snapshot_json command) = Some (JStr (str_uuid (it_actor_id i))) \<and>
     canonical_json (cm_input_json command) = canonical_json (it_input_json i)"

definition request_payload :: "create_command \<Rightarrow> json" where
  "request_payload command = JObj
     ([(''project_id'', JStr (str_uuid (cm_project_id command))),
       (''task_id'', JStr (str_uuid (cm_task_id command))),
       (''input'', cm_input_json command),
       (''task_snapshot'', cm_task_snapshot_json command),
       (''permission_snapshot'', cm_permission_snapshot_json command),
       (''selected_sources'', cm_selected_sources_json command),
       (''limits_snapshot'', cm_limits_snapshot_json command),
       (''skill_snapshots'', JArr (cm_skill_snapshots_json command))] @
      (case cm_budget_policy command of None \<Rightarrow> [] | Some p \<Rightarrow> [(''budget_policy'', policy_to_json p)]))"

definition request_hash :: "digest \<Rightarrow> digest128 \<Rightarrow> create_command \<Rightarrow> string res" where
  "request_hash sha sha1 command =
     (case jget creation_request_field (cm_task_snapshot_json command) of
        Some stored \<Rightarrow>
          ebind (intent_from_json stored) (\<lambda>intent.
            if \<not> intent_matches sha1 command intent then Inl ValueError
            else Inr (intent_fingerprint sha intent))
      | None \<Rightarrow> Inr (json_digest sha (request_payload command)))"

end
