(* ===== verification/Budget_Ledger.thy ===== *)
theory Budget_Ledger
  imports Run_Base
begin

text \<open>
  \<^verbatim>\<open>runs/repository_budgets.py\<close>: the budget account of a run and its reservations.

  Every public method is one transaction: a function of the database that gives a result and the
  next database, or the exception after which the session rolls back. Rows are read, changed as
  values and put back where the source flushes. \<open>clk i\<close> is the \<open>i\<close>-th reading of the clock and
  \<open>ids i\<close> the \<open>i\<close>-th fresh identifier of the transaction; \<open>sha\<close> is the digest.

  The two dimensions of an amount, turns and cost, are the values of \<open>dimension\<close>; the source
  reaches their columns with \<^verbatim>\<open>getattr\<close> and \<^verbatim>\<open>setattr\<close>. Reservations are listed in the order of their
  execution keys by code point.
\<close>

section \<open>Stored amounts\<close>

definition stored_units :: "int option \<Rightarrow> int res" where
  "stored_units v =
     (case v of None \<Rightarrow> Inl BudgetUnavailableError
      | Some n \<Rightarrow> if n < 0 then Inl BudgetUnavailableError else Inr n)"

text \<open>\<^verbatim>\<open>int(value)\<close> of a nullable amount.\<close>

definition py_int :: "int option \<Rightarrow> int res" where
  "py_int v = (case v of None \<Rightarrow> Inl TypeError | Some n \<Rightarrow> Inr n)"

datatype dimension = TURNS | COST

fun account_consumed :: "dimension \<Rightarrow> account_row \<Rightarrow> int option" where
  "account_consumed TURNS a = Some (ba_consumed_turns a)"
| "account_consumed COST a = ba_consumed_cost_nanos a"

fun account_reserved :: "dimension \<Rightarrow> account_row \<Rightarrow> int option" where
  "account_reserved TURNS a = Some (ba_reserved_turns a)"
| "account_reserved COST a = ba_reserved_cost_nanos a"

fun row_granted :: "dimension \<Rightarrow> reservation_row \<Rightarrow> int option" where
  "row_granted TURNS r = Some (rv_granted_turns r)"
| "row_granted COST r = rv_granted_cost_nanos r"

fun row_consumed :: "dimension \<Rightarrow> reservation_row \<Rightarrow> int option" where
  "row_consumed TURNS r = Some (rv_consumed_turns r)"
| "row_consumed COST r = rv_consumed_cost_nanos r"

fun row_reserved :: "dimension \<Rightarrow> reservation_row \<Rightarrow> int option" where
  "row_reserved TURNS r = Some (rv_reserved_turns r)"
| "row_reserved COST r = rv_reserved_cost_nanos r"

fun row_watermark :: "dimension \<Rightarrow> reservation_row \<Rightarrow> int" where
  "row_watermark TURNS r = rv_turns_watermark r"
| "row_watermark COST r = rv_cost_watermark r"

fun set_account :: "dimension \<Rightarrow> int \<Rightarrow> int \<Rightarrow> account_row \<Rightarrow> account_row" where
  "set_account TURNS consumed reserved a =
     a\<lparr>ba_consumed_turns := consumed, ba_reserved_turns := reserved\<rparr>"
| "set_account COST consumed reserved a =
     a\<lparr>ba_consumed_cost_nanos := Some consumed, ba_reserved_cost_nanos := Some reserved\<rparr>"

fun set_row :: "dimension \<Rightarrow> int \<Rightarrow> int \<Rightarrow> reservation_row \<Rightarrow> reservation_row" where
  "set_row TURNS consumed reserved r =
     r\<lparr>rv_consumed_turns := consumed, rv_reserved_turns := reserved\<rparr>"
| "set_row COST consumed reserved r =
     r\<lparr>rv_consumed_cost_nanos := Some consumed, rv_reserved_cost_nanos := Some reserved\<rparr>"

fun set_watermark :: "dimension \<Rightarrow> int \<Rightarrow> reservation_row \<Rightarrow> reservation_row" where
  "set_watermark TURNS w r = r\<lparr>rv_turns_watermark := w\<rparr>"
| "set_watermark COST w r = r\<lparr>rv_cost_watermark := w\<rparr>"

section \<open>Projections\<close>

definition execution_of :: "reservation_row \<Rightarrow> execution_record" where
  "execution_of r =
     \<lparr>er_reservation_id = rv_id r, er_execution_key = rv_execution_key r, er_status = rv_status r,
      er_granted_turns = rv_granted_turns r, er_reserved_turns = rv_reserved_turns r,
      er_consumed_turns = rv_consumed_turns r, er_granted_cost_nanos = rv_granted_cost_nanos r,
      er_reserved_cost_nanos = rv_reserved_cost_nanos r,
      er_consumed_cost_nanos = rv_consumed_cost_nanos r,
      er_stop_confirmed = (rv_stop_confirmed_at r \<noteq> None),
      er_final_usage_confirmed = (rv_final_usage_at r \<noteq> None)\<rparr>"

definition account_of :: "account_row \<Rightarrow> budget_policy \<Rightarrow> account_record" where
  "account_of a p =
     \<lparr>ac_run_id = ba_run_id a, ac_policy = p, ac_consumed_turns = ba_consumed_turns a,
      ac_reserved_turns = ba_reserved_turns a, ac_consumed_cost_nanos = ba_consumed_cost_nanos a,
      ac_reserved_cost_nanos = ba_reserved_cost_nanos a, ac_block_code = ba_block_code a,
      ac_row_version = ba_row_version a\<rparr>"

definition touch :: "account_row \<Rightarrow> account_row" where
  "touch a = a\<lparr>ba_row_version := ba_row_version a + 1\<rparr>"

section \<open>The account of a new run\<close>

text \<open>\<open>pending\<close>: the run row is not yet in the database. \<open>usd\<close> reads a limit as \<^verbatim>\<open>usd_to_nanos\<close> sees it.\<close>

definition usd_of_json :: "json \<Rightarrow> usd_value" where
  "usd_of_json v = (case v of JStr s \<Rightarrow> UsdText s | _ \<Rightarrow> UsdOther)"

definition limit_value :: "string \<Rightarrow> json \<Rightarrow> json" where
  "limit_value k v = (case jget k v of None \<Rightarrow> JNull | Some x \<Rightarrow> x)"

definition new_budget_account ::
  "digest \<Rightarrow> time \<Rightarrow> uuid \<Rightarrow> bool \<Rightarrow> uuid \<Rightarrow> run_status \<Rightarrow> time option \<Rightarrow> json \<Rightarrow> budget_policy \<Rightarrow>
   account_row res" where
  "new_budget_account sha now new_id pending rid status started_at limits policy =
     (if \<not> pending \<or> status \<noteq> QUEUED \<or> started_at \<noteq> None \<or>
         \<not> py_eq (JInt (bp_max_turns policy)) (limit_value ''max_turns'' limits)
      then Inl BudgetError
      else
        let raw_cost = limit_value ''max_budget_usd'' limits in
        ebind (raise_if ((raw_cost = JNull) \<noteq> (bp_max_cost_nanos policy = None)) BudgetError) (\<lambda>_.
        ebind (if raw_cost = JNull then Inr ()
               else ebind (usd_to_nanos (usd_of_json raw_cost)) (\<lambda>nanos.
                 raise_if (Some nanos \<noteq> bp_max_cost_nanos policy) BudgetError)) (\<lambda>_.
          let zero = (if bp_max_cost_nanos policy \<noteq> None then Some 0 else None) in
          Inr \<lparr>ba_id = new_id, ba_run_id = rid, ba_policy_json = policy_to_json policy,
               ba_policy_checksum = budget_checksum sha (policy_to_json policy),
               ba_limits_checksum = budget_checksum sha limits,
               ba_consumed_turns = 0, ba_reserved_turns = 0, ba_consumed_cost_nanos = zero,
               ba_reserved_cost_nanos = zero, ba_block_code = None, ba_row_version = 1,
               ba_created_at = now\<rparr>)))"

section \<open>Reading the ledger\<close>

definition account_rows :: "uuid \<Rightarrow> db \<Rightarrow> account_row list" where
  "account_rows rid d = filter (\<lambda>a. ba_run_id a = rid) (db_accounts d)"

definition reservation_rows :: "uuid \<Rightarrow> db \<Rightarrow> reservation_row list" where
  "reservation_rows rid d =
     sort_key rv_execution_key (filter (\<lambda>r. rv_run_id r = rid) (db_reservations d))"

text \<open>One of the four comparisons of the ledger check.\<close>

definition balance_agrees :: "bool \<Rightarrow> int option \<Rightarrow> int option list \<Rightarrow> unit res" where
  "balance_agrees enabled v vs =
     (if \<not> enabled then raise_if (v \<noteq> None \<or> list_ex (\<lambda>x. x \<noteq> None) vs) BudgetUnavailableError
      else if v = None then Inl BudgetUnavailableError
      else ebind (stored_units v) (\<lambda>total.
           ebind (emap stored_units vs) (\<lambda>parts.
             raise_if (total \<noteq> sum_list parts) BudgetUnavailableError)))"

definition check_dimension ::
  "dimension \<Rightarrow> bool \<Rightarrow> account_row \<Rightarrow> reservation_row list \<Rightarrow> unit res" where
  "check_dimension dm enabled a rows =
     ebind (balance_agrees enabled (account_consumed dm a) (map (row_consumed dm) rows)) (\<lambda>_.
       balance_agrees enabled (account_reserved dm a) (map (row_reserved dm) rows))"

definition ledger ::
  "digest \<Rightarrow> run_row \<Rightarrow> db \<Rightarrow> (account_row \<times> budget_policy \<times> reservation_row list) res" where
  "ledger sha run d =
     ebind (one_or_none (account_rows (run_id run) d)) (\<lambda>found.
       case found of
         None \<Rightarrow> Inl BudgetUnavailableError
       | Some account \<Rightarrow>
           ebind (policy_from_json (ba_policy_json account)) (\<lambda>policy.
             if ba_policy_checksum account \<noteq> budget_checksum sha (policy_to_json policy) \<or>
                ba_limits_checksum account \<noteq> budget_checksum sha (run_limits_snapshot_json run)
             then Inl BudgetUnavailableError
             else let rows = reservation_rows (run_id run) d in
               ebind (check_dimension TURNS True account rows) (\<lambda>_.
               ebind (check_dimension COST (bp_max_cost_nanos policy \<noteq> None) account rows) (\<lambda>_.
                 Inr (account, policy, rows)))))"

definition authorize ::
  "digest \<Rightarrow> clock \<Rightarrow> run_row \<Rightarrow> segment_row option \<Rightarrow> attempt_row \<Rightarrow> claimed_run \<Rightarrow> db \<Rightarrow> unit res"
where
  "authorize sha clk run segment attempt claimed d =
     ebind (validate_claimed_lease sha attempt claimed (clk 0)) (\<lambda>_.
     ebind (raise_if (run_project_id run \<noteq> cl_project_id claimed \<or> run_status run \<noteq> RUNNING \<or>
              cl_run_segment_id claimed = None \<or>
              (case segment of None \<Rightarrow> True | Some s \<Rightarrow> sg_status s \<noteq> SEG_RUNNING))
              LeaseValidationError) (\<lambda>_.
     ebind (reject_cancelled_execution (run_id run) d) (\<lambda>_.
       validate_claimed_lease sha attempt claimed (clk 1))))"

section \<open>Reserving\<close>

definition opt_text :: "('a \<Rightarrow> string) \<Rightarrow> 'a option \<Rightarrow> string" where
  "opt_text f v = (case v of None \<Rightarrow> ''None'' | Some x \<Rightarrow> f x)"

definition group_checksum ::
  "digest \<Rightarrow> claimed_run \<Rightarrow> string \<Rightarrow> reservation_request list \<Rightarrow> string" where
  "group_checksum sha claimed group_key ordered =
     budget_checksum sha (JObj
       [(''run_id'', JStr (str_uuid (cl_run_id claimed))),
        (''segment_id'', JStr (opt_text str_uuid (cl_run_segment_id claimed))),
        (''attempt_id'', JStr (str_uuid (cl_run_attempt_id claimed))),
        (''group_key'', JStr group_key),
        (''requests'', JArr (map request_to_json ordered))])"

definition find_execution :: "string \<Rightarrow> reservation_row list \<Rightarrow> reservation_row option" where
  "find_execution key rows = find (\<lambda>r. rv_execution_key r = key) rows"

text \<open>A parent that still runs: started, not stopped, no final usage.\<close>

definition parent_running :: "reservation_row \<Rightarrow> bool" where
  "parent_running p \<longleftrightarrow>
     rv_status p = START_INTENT \<and> rv_stop_confirmed_at p = None \<and> rv_final_usage_at p = None"

definition check_request ::
  "budget_policy \<Rightarrow> claimed_run \<Rightarrow> reservation_row list \<Rightarrow> reservation_request \<Rightarrow> unit res" where
  "check_request policy claimed rows item =
     ebind (raise_if (find_execution (rq_execution_key item) rows \<noteq> None) BudgetConflictError) (\<lambda>_.
     ebind (raise_if ((rq_cost_nanos item = None) \<noteq> (bp_max_cost_nanos policy = None)) BudgetError)
       (\<lambda>_.
     (case rq_parent_execution_key item of
        None \<Rightarrow> Inr ()
      | Some key \<Rightarrow>
          (case find_execution key rows of
             None \<Rightarrow> Inl BudgetConflictError
           | Some parent \<Rightarrow>
               raise_if (rv_run_attempt_id parent \<noteq> cl_run_attempt_id claimed \<or>
                         \<not> parent_running parent) BudgetConflictError))))"

definition new_reservation ::
  "digest \<Rightarrow> time \<Rightarrow> uuid \<Rightarrow> run_row \<Rightarrow> claimed_run \<Rightarrow> string \<Rightarrow> string \<Rightarrow> reservation_row list \<Rightarrow>
   reservation_request \<Rightarrow> reservation_row" where
  "new_reservation sha now new_id run claimed group_key checksum rows item =
     \<lparr>rv_id = new_id, rv_run_id = run_id run, rv_run_segment_id = cl_run_segment_id claimed,
      rv_run_attempt_id = cl_run_attempt_id claimed, rv_execution_key = rq_execution_key item,
      rv_group_key = group_key, rv_group_checksum = checksum,
      rv_request_checksum = budget_checksum sha (request_to_json item),
      rv_invocation_id = None, rv_invocation_json = None, rv_invocation_checksum = None,
      rv_invocation_start_owner_hash = None,
      rv_parent_reservation_id =
        (case rq_parent_execution_key item of
           None \<Rightarrow> None | Some key \<Rightarrow> map_option rv_id (find_execution key rows)),
      rv_execution_lease_hash = lease_token_hash sha (cl_lease_token claimed),
      rv_status = BUD_RESERVED,
      rv_granted_turns = rq_turns item, rv_reserved_turns = rq_turns item, rv_consumed_turns = 0,
      rv_granted_cost_nanos = rq_cost_nanos item, rv_reserved_cost_nanos = rq_cost_nanos item,
      rv_consumed_cost_nanos = map_option (\<lambda>_. 0) (rq_cost_nanos item),
      rv_turns_watermark = -1, rv_cost_watermark = -1, rv_start_intent_at = None,
      rv_stop_confirmed_at = None, rv_final_usage_at = None, rv_reconcile_worker_id = None,
      rv_reconcile_token_hash = None, rv_reconcile_expires_at = None, rv_created_at = now\<rparr>"

text \<open>\<^verbatim>\<open>item.cost_nanos or 0\<close>.\<close>

definition cost_or_zero :: "reservation_request \<Rightarrow> int" where
  "cost_or_zero item = (case rq_cost_nanos item of None \<Rightarrow> 0 | Some c \<Rightarrow> c)"

definition exceeds :: "int option \<Rightarrow> int option \<Rightarrow> int \<Rightarrow> int \<Rightarrow> bool res" where
  "exceeds consumed reserved amount limit =
     ebind (stored_units consumed) (\<lambda>c.
     ebind (stored_units reserved) (\<lambda>r. Inr (c + r + amount > limit)))"

text \<open>The limit check: cost is only looked at when turns fit.\<close>

definition group_exhausts :: "account_row \<Rightarrow> budget_policy \<Rightarrow> int \<Rightarrow> int \<Rightarrow> bool res" where
  "group_exhausts account policy turns cost =
     ebind (exceeds (account_consumed TURNS account) (account_reserved TURNS account) turns
              (bp_max_turns policy)) (\<lambda>over.
       if over then Inr True
       else (case bp_max_cost_nanos policy of
           None \<Rightarrow> Inr False
         | Some limit \<Rightarrow>
             exceeds (account_consumed COST account) (account_reserved COST account) cost limit))"

text \<open>The additions of the committed group to the account.\<close>

definition reserve_on_account :: "account_row \<Rightarrow> int \<Rightarrow> int \<Rightarrow> account_row res" where
  "reserve_on_account account turns cost =
     ebind (stored_units (Some (ba_reserved_turns account))) (\<lambda>held.
       let a1 = account\<lparr>ba_reserved_turns := held + turns\<rparr> in
       case ba_reserved_cost_nanos account of
         None \<Rightarrow> Inr (touch a1)
       | Some c \<Rightarrow> ebind (stored_units (Some c)) (\<lambda>c.
           Inr (touch (a1\<lparr>ba_reserved_cost_nanos := Some (c + cost)\<rparr>))))"

definition primary_busy :: "reservation_row list \<Rightarrow> bool" where
  "primary_busy rows \<longleftrightarrow>
     list_ex (\<lambda>r. rv_parent_reservation_id r = None \<and>
       (rv_status r = BUD_RESERVED \<or> rv_status r = START_INTENT) \<and> rv_stop_confirmed_at r = None) rows"

definition valid_group :: "string \<Rightarrow> reservation_request list \<Rightarrow> unit res" where
  "valid_group group_key requests =
     ebind (budget_key (JStr group_key)) (\<lambda>_.
     ebind (raise_if (requests = [] \<or> \<not> distinct (map rq_execution_key requests)) BudgetError) (\<lambda>_.
       let parents = remdups (map rq_parent_execution_key requests) in
       raise_if (length parents \<noteq> 1 \<or> (None \<in> set parents \<and> length requests \<noteq> 1)) BudgetError))"

definition blocked :: "account_row \<Rightarrow> bool" where
  "blocked account \<longleftrightarrow> ba_block_code account \<noteq> None \<and> ba_block_code account \<noteq> Some []"

definition reserve_group ::
  "digest \<Rightarrow> clock \<Rightarrow> fresh \<Rightarrow> claimed_run \<Rightarrow> string \<Rightarrow> reservation_request list \<Rightarrow> bool \<Rightarrow> db \<Rightarrow>
   (execution_record list \<times> db) res" where
  "reserve_group sha clk ids claimed group_key requests confirm_only d =
     ebind (valid_group group_key requests) (\<lambda>_.
     let ordered = sort_key rq_execution_key requests;
         checksum = group_checksum sha claimed group_key ordered in
     ebind (lock_claimed_execution claimed d) (\<lambda>(run, segment, attempt).
     ebind (ledger sha run d) (\<lambda>(account, policy, rows).
     ebind (authorize sha clk run segment attempt claimed d) (\<lambda>_.
     let existing = filter (\<lambda>r. rv_group_key r = group_key) rows in
     if existing \<noteq> [] then
       ebind (raise_if (length existing \<noteq> length ordered \<or>
                list_ex (\<lambda>r. rv_group_checksum r \<noteq> checksum) existing) BudgetConflictError)
         (\<lambda>_. Inr (map execution_of existing, d))
     else
     ebind (raise_if confirm_only BudgetUnavailableError) (\<lambda>_.
     ebind (raise_if (blocked account) BudgetUnavailableError) (\<lambda>_.
     ebind (raise_if (list_ex (\<lambda>q. rq_parent_execution_key q = None) requests \<and> primary_busy rows)
              BudgetUnavailableError) (\<lambda>_.
     ebind (emap (check_request policy claimed rows) ordered) (\<lambda>_.
     let turns = sum_list (map rq_turns ordered);
         cost = sum_list (map cost_or_zero ordered) in
     ebind (group_exhausts account policy turns cost) (\<lambda>over.
     ebind (raise_if over BudgetExhaustedError) (\<lambda>_.
     let added = map (\<lambda>(i, item).
           new_reservation sha (clk 2) (ids i) run claimed group_key checksum rows item)
           (enumerate 0 ordered) in
     ebind (reserve_on_account account turns cost) (\<lambda>account.
     ebind (insert_rows rv_id added (db_reservations d)) (\<lambda>reservations.
       Inr (map execution_of added,
            put_account account (d\<lparr>db_reservations := reservations\<rparr>))))))))))))))"

definition primary_group_key :: "claimed_run \<Rightarrow> string" where
  "primary_group_key claimed = ''primary:'' @ str_uuid (cl_run_attempt_id claimed)"

definition primary_request ::
  "bool \<Rightarrow> string \<Rightarrow> account_row \<Rightarrow> budget_policy \<Rightarrow> reservation_row list \<Rightarrow> reservation_request res" where
  "primary_request confirm_only group_key account policy original =
     (if original \<noteq> [] then
        ebind (raise_if (length original \<noteq> 1 \<or> rv_execution_key (hd original) \<noteq> group_key)
                 BudgetConflictError) (\<lambda>_.
        ebind (stored_units (Some (rv_granted_turns (hd original)))) (\<lambda>turns.
        ebind (case rv_granted_cost_nanos (hd original) of None \<Rightarrow> Inr None
               | Some c \<Rightarrow> ebind (stored_units (Some c)) (\<lambda>c. Inr (Some c))) (\<lambda>cost.
          Inr \<lparr>rq_execution_key = group_key, rq_turns = turns, rq_cost_nanos = cost,
               rq_parent_execution_key = None\<rparr>)))
      else
        ebind (raise_if confirm_only BudgetUnavailableError) (\<lambda>_.
        let balance = account_of account policy in
        ebind (remaining_cost_nanos balance) (\<lambda>remaining_cost.
        ebind (raise_if (remaining_turns balance \<le> 0 \<or>
                 (\<exists>c \<in> set_option remaining_cost. c \<le> 0)) BudgetExhaustedError) (\<lambda>_.
          Inr \<lparr>rq_execution_key = group_key, rq_turns = remaining_turns balance,
               rq_cost_nanos = remaining_cost, rq_parent_execution_key = None\<rparr>))))"

definition reserve_primary ::
  "digest \<Rightarrow> clock \<Rightarrow> fresh \<Rightarrow> claimed_run \<Rightarrow> budget_policy \<Rightarrow> bool \<Rightarrow> db \<Rightarrow>
   (execution_record \<times> db) res" where
  "reserve_primary sha clk ids claimed expected_policy confirm_only d =
     (let group_key = primary_group_key claimed in
      ebind (lock_claimed_execution claimed d) (\<lambda>(run, segment, attempt).
      ebind (ledger sha run d) (\<lambda>(account, policy, rows).
      ebind (raise_if (policy \<noteq> expected_policy) BudgetUnavailableError) (\<lambda>_.
      ebind (primary_request confirm_only group_key account policy
               (filter (\<lambda>r. rv_group_key r = group_key) rows)) (\<lambda>request.
      ebind (request_init request) (\<lambda>_.
      ebind (reserve_group sha clk ids claimed group_key [request] confirm_only d)
        (\<lambda>(records, d'). Inr (hd records, d'))))))))"

end
