(* ===== verification/Run_Create.thy ===== *)
theory Run_Create
  imports Creation Run_Base Budget_Ledger
begin

text \<open>
  Creating a run: the operations of \<^verbatim>\<open>runs/repository.py\<close> that insert a run or find the one an
  idempotency key stands for, the check of a repeated request (\<^verbatim>\<open>runs/creation_replay.py\<close>), and the
  availability of the task's skills (\<^verbatim>\<open>require_current_task_binding\<close> of \<^verbatim>\<open>skills/repository.py\<close>).

  \<open>ids\<close> and \<open>clk\<close> are the fresh identifiers and clock readings of the transaction.
\<close>

section \<open>Is a repeated request the stored one?\<close>

definition py_objects :: "json \<Rightarrow> json list res" where
  "py_objects v =
     (case v of
        JArr items \<Rightarrow> if list_all is_obj items then Inr items else Inl ValueError
      | _ \<Rightarrow> Inl ValueError)"

definition drop_keys :: "string list \<Rightarrow> json \<Rightarrow> json" where
  "drop_keys ks v = JObj (filter (\<lambda>(k, w). k \<notin> set ks) (obj_fields v))"

text \<open>What older creation code added to a selected source after the hash had been taken.\<close>

definition without_binding :: "json \<Rightarrow> json" where
  "without_binding source =
     (if is_obj source \<and> jget ''integration_id'' source \<noteq> None
      then drop_keys [''binding_id'', ''binding_checksum'', ''binding_capability''] source else source)"

definition stored_command :: "run_row \<Rightarrow> create_command res" where
  "stored_command run =
     ebind (raise_if (\<not> list_all is_obj [run_task_snapshot_json run, run_input_json run,
              run_permission_snapshot_json run, run_selected_sources_json run,
              run_limits_snapshot_json run]) ValueError) (\<lambda>_.
     let task = run_task_snapshot_json run in
     ebind (py_objects (case jget ''skill_snapshots'' task of None \<Rightarrow> JArr [] | Some v \<Rightarrow> v)) (\<lambda>skills.
     let selected =
       (if jget creation_request_field task = None
        then JObj (map (map_prod id without_binding) (obj_fields (run_selected_sources_json run)))
        else run_selected_sources_json run) in
     Inr \<lparr>cm_project_id = run_project_id run, cm_task_id = run_task_id run,
          cm_idempotency_key = run_idempotency_key run, cm_input_json = run_input_json run,
          cm_task_snapshot_json = task,
          cm_permission_snapshot_json = run_permission_snapshot_json run,
          cm_selected_sources_json = selected,
          cm_limits_snapshot_json = run_limits_snapshot_json run, cm_trace_id = None,
          cm_skill_snapshots_json = skills, cm_budget_policy = None\<rparr>))"

definition legacy_string :: "string \<Rightarrow> json \<Rightarrow> string res" where
  "legacy_string k v =
     (case jget k v of Some (JStr s) \<Rightarrow> if s = [] then Inl ValueError else Inr s | _ \<Rightarrow> Inl ValueError)"

text \<open>The choice one stored source proves; a default that was used proves none.\<close>

definition legacy_choice :: "string \<times> json \<Rightarrow> (string \<times> json) list res" where
  "legacy_choice kv =
     (case kv of (key, v) \<Rightarrow>
        let candidate = ebind (legacy_string ''candidate_key'' v) (\<lambda>s. Inr [(key, JStr s)]) in
        if \<not> is_obj v then Inl ValueError
        else if jnull ''capability'' v \<in> JStr ` set document_capabilities then candidate
        else
          (case (jget ''integration_id'' v, jget ''source_binding_id'' v) of
             (Some _, Some JNull) \<Rightarrow> candidate
           | (Some _, Some (JStr s)) \<Rightarrow> ebind (parse_uuid s) (\<lambda>_. Inr [])
           | _ \<Rightarrow> Inl ValueError))"

definition legacy_intent :: "run_row \<Rightarrow> create_command \<Rightarrow> run_intent res" where
  "legacy_intent run command =
     ebind (emap legacy_choice (obj_fields (cm_selected_sources_json command))) (\<lambda>choices.
     ebind (legacy_string ''skill_version_id'' (cm_task_snapshot_json command)) (\<lambda>version.
     ebind (parse_uuid version) (\<lambda>version.
     ebind (legacy_string ''task_key'' (cm_task_snapshot_json command)) (\<lambda>task_key.
     ebind (legacy_string ''actor_id'' (cm_permission_snapshot_json command)) (\<lambda>actor.
     ebind (parse_uuid actor) (\<lambda>actor.
       mk_intent (run_project_id run) version task_key actor (cm_input_json command)
         (JObj (concat choices)) (JBool False) (JBool False) (JBool False)))))))"

definition checked_intent :: "digest \<Rightarrow> digest128 \<Rightarrow> run_row \<Rightarrow> run_intent res" where
  "checked_intent sha sha1 run =
     ebind (stored_command run) (\<lambda>command.
     ebind (case jget creation_request_field (cm_task_snapshot_json command) of
              Some stored \<Rightarrow> intent_from_json stored
            | None \<Rightarrow> legacy_intent run command) (\<lambda>original.
     ebind (raise_if (it_project_id original \<noteq> run_project_id run \<or>
              derive_task_id sha1 (it_skill_version_id original) (it_task_key original) \<noteq> run_task_id run)
              ValueError) (\<lambda>_.
     ebind (request_hash sha sha1 command) (\<lambda>h.
       if h \<noteq> run_request_hash run then Inl ValueError else Inr original))))"

definition stored_creation_intent :: "digest \<Rightarrow> digest128 \<Rightarrow> run_row \<Rightarrow> run_intent res" where
  "stored_creation_intent sha sha1 run =
     rethrow (\<lambda>e. value_error e \<or> e = TypeError \<or> e = KeyError) IdempotencyConflictError
       (checked_intent sha sha1 run)"

definition validate_creation_replay :: "digest \<Rightarrow> digest128 \<Rightarrow> run_row \<Rightarrow> run_intent \<Rightarrow> unit res" where
  "validate_creation_replay sha sha1 run requested =
     ebind (stored_creation_intent sha sha1 run) (\<lambda>original.
       raise_if (intent_fingerprint sha original \<noteq> intent_fingerprint sha requested)
         IdempotencyConflictError)"

section \<open>The skills of a task\<close>

text \<open>Organization, source and skill of the version agree, it is published, and the project enabled it.\<close>

definition available_version :: "uuid \<Rightarrow> uuid \<Rightarrow> uuid \<Rightarrow> db \<Rightarrow> skill_version_row option" where
  "available_version organization_id project_id version_id d =
     find (\<lambda>v. sv_id v = version_id \<and> sv_status v = ''PUBLISHED'' \<and>
         list_ex (\<lambda>so. so_id so = sv_skill_source_id v \<and> so_organization_id so = organization_id)
           (db_skill_sources d) \<and>
         list_ex (\<lambda>sl. sl_id sl = sv_skill_id v \<and> sl_organization_id sl = organization_id \<and>
             list_ex (\<lambda>pj. pj_id pj = project_id \<and> pj_organization_id pj = sl_organization_id sl)
               (db_projects d)) (db_skills d))
       (db_skill_versions d)"

definition require_current_task_binding :: "uuid \<Rightarrow> uuid \<Rightarrow> uuid \<Rightarrow> db \<Rightarrow> unit res" where
  "require_current_task_binding organization_id project_id version_id d =
     (if available_version organization_id project_id version_id d = None
      then Inl PublishedTaskNotFoundError
      else case find (\<lambda>b. ps_project_id b = project_id \<and> ps_skill_version_id b = version_id)
             (db_project_skills d) of
        None \<Rightarrow> Inl PublishedTaskNotFoundError
      | Some b \<Rightarrow> raise_if (ps_disabled_at b \<noteq> None) PublishedTaskNotFoundError)"

record skill_binding =
  kb_skill_version_id :: uuid
  kb_sort_order :: int
  kb_manifest_checksum :: string
  kb_config_snapshot :: json

definition manifest_of :: "uuid \<Rightarrow> db \<Rightarrow> manifest_row option res" where
  "manifest_of version_id d =
     one_or_none (filter (\<lambda>m. mf_skill_version_id m = version_id) (db_manifests d))"

definition read_skill_snapshot :: "json \<Rightarrow> (uuid \<times> int \<times> string \<times> json \<times> json) res" where
  "read_skill_snapshot snapshot =
     rethrow (\<lambda>e. e = KeyError \<or> e = TypeError \<or> value_error e) ValueError
       (ebind (jfield ''skill_version_id'' snapshot) (\<lambda>v.
        ebind (uuid_of_json v) (\<lambda>version_id.
        ebind (jfield ''sort_order'' snapshot) (\<lambda>v.
        ebind (int_of_json v) (\<lambda>sort_order.
        ebind (jfield ''manifest_checksum'' snapshot) (\<lambda>v.
        let checksum = py_str v in
        ebind (jfield ''manifest'' snapshot) (\<lambda>manifest.
          Inr (version_id, sort_order, checksum, manifest,
               case jget ''config_snapshot'' snapshot of None \<Rightarrow> JObj [] | Some c \<Rightarrow> c)))))))) "

definition manifest_agrees :: "digest \<Rightarrow> manifest_row option \<Rightarrow> string \<Rightarrow> json \<Rightarrow> bool" where
  "manifest_agrees sha manifest checksum payload \<longleftrightarrow>
     (case manifest of
        None \<Rightarrow> False
      | Some m \<Rightarrow>
          mf_checksum m = checksum \<and>
          (if is_obj payload then ''sha256:'' @ json_digest sha payload else []) = checksum \<and>
          canonical_json (mf_manifest_json m) = canonical_json payload)"

definition validate_skill_snapshot :: "digest \<Rightarrow> uuid \<Rightarrow> uuid \<Rightarrow> db \<Rightarrow> json \<Rightarrow> skill_binding res" where
  "validate_skill_snapshot sha organization_id project_id d snapshot =
     ebind (read_skill_snapshot snapshot) (\<lambda>(version_id, sort_order, checksum, payload, config).
     ebind (require_current_task_binding organization_id project_id version_id d) (\<lambda>_.
     ebind (manifest_of version_id d) (\<lambda>manifest.
     ebind (raise_if (\<not> manifest_agrees sha manifest checksum payload) ValueError) (\<lambda>_.
     ebind (raise_if (\<not> is_obj config) ValueError) (\<lambda>_.
       Inr \<lparr>kb_skill_version_id = version_id, kb_sort_order = sort_order,
            kb_manifest_checksum = checksum, kb_config_snapshot = config\<rparr>)))))"

definition validate_skill_snapshots :: "digest \<Rightarrow> json list \<Rightarrow> uuid \<Rightarrow> db \<Rightarrow> skill_binding list res" where
  "validate_skill_snapshots sha snapshots project_id d =
     (if snapshots = [] then Inr []
      else case find_row pj_id project_id (db_projects d) of
        None \<Rightarrow> Inl PublishedTaskNotFoundError
      | Some project \<Rightarrow>
          emap (validate_skill_snapshot sha (pj_organization_id project) project_id d) snapshots)"

section \<open>Inserting a run\<close>

definition load_by_idempotency :: "uuid \<Rightarrow> uuid \<Rightarrow> string \<Rightarrow> db \<Rightarrow> run_row option res" where
  "load_by_idempotency project_id task_id key d =
     one_or_none (filter (\<lambda>r. run_project_id r = project_id \<and> run_task_id r = task_id \<and>
         run_idempotency_key r = key) (db_runs d))"

definition find_by_idempotency :: "create_command \<Rightarrow> db \<Rightarrow> run_row res" where
  "find_by_idempotency command d =
     ebind (load_by_idempotency (cm_project_id command) (cm_task_id command)
              (cm_idempotency_key command) d) (\<lambda>existing.
       case existing of None \<Rightarrow> Inl ConcurrentRunUpdateError | Some run \<Rightarrow> Inr run)"

definition was_deleted :: "create_command \<Rightarrow> db \<Rightarrow> bool" where
  "was_deleted command d \<longleftrightarrow>
     list_ex (\<lambda>a. da_project_id a = cm_project_id command \<and> da_task_id a = cm_task_id command \<and>
         da_idempotency_key a = cm_idempotency_key command) (db_deletion_audits d)"

definition new_run :: "create_command \<Rightarrow> string \<Rightarrow> uuid \<Rightarrow> time \<Rightarrow> run_row" where
  "new_run command fingerprint new_id now =
     \<lparr>run_id = new_id, run_project_id = cm_project_id command, run_task_id = cm_task_id command,
      run_trigger_type = ''immediate'', run_idempotency_key = cm_idempotency_key command,
      run_request_hash = fingerprint, run_status = QUEUED, run_input_json = cm_input_json command,
      run_task_snapshot_json = cm_task_snapshot_json command,
      run_permission_snapshot_json = cm_permission_snapshot_json command,
      run_selected_sources_json = cm_selected_sources_json command,
      run_limits_snapshot_json = cm_limits_snapshot_json command, run_row_version = 1,
      run_started_at = None, run_finished_at = None, run_error_json = None, run_deleted_at = None,
      run_deleted_by = None, run_created_at = now\<rparr>"

text \<open>\<^verbatim>\<open>INSERT .. ON CONFLICT DO NOTHING\<close>: \<^const>\<open>None\<close> when the three-part key is taken.\<close>

definition insert_run :: "run_row \<Rightarrow> db \<Rightarrow> db option res" where
  "insert_run run d =
     (if list_ex (\<lambda>r. run_project_id r = run_project_id run \<and> run_task_id r = run_task_id run \<and>
           run_idempotency_key r = run_idempotency_key run) (db_runs d)
      then Inr None
      else ebind (insert_rows run_id [run] (db_runs d)) (\<lambda>runs. Inr (Some (d\<lparr>db_runs := runs\<rparr>))))"

definition empty_checkpoint :: json where
  "empty_checkpoint = JObj [(''summary'', JNull), (''confirmed_facts'', JArr []),
     (''user_responses'', JArr []), (''evidence_refs'', JArr []), (''artifact_refs'', JArr []),
     (''change_proposal_refs'', JArr [])]"

definition initial_segment :: "uuid \<Rightarrow> uuid \<Rightarrow> time \<Rightarrow> segment_row" where
  "initial_segment new_id rid now =
     \<lparr>sg_id = new_id, sg_run_id = rid, sg_segment_no = 1, sg_trigger_type = TRIG_INITIAL,
      sg_trigger_ref = None, sg_status = SEG_CREATED,
      sg_objective_json = JObj [(''source'', JStr ''RUN_OBJECTIVE'')],
      sg_checkpoint_json = empty_checkpoint, sg_continuation_mode = INITIAL,
      sg_parent_agent_session_id = None, sg_instruction_snapshot_id = None,
      sg_started_at = None, sg_finished_at = None, sg_created_at = now\<rparr>"

definition skill_snapshot_rows :: "(nat \<Rightarrow> uuid) \<Rightarrow> uuid \<Rightarrow> time \<Rightarrow> skill_binding list \<Rightarrow> skill_snapshot_row list"
where
  "skill_snapshot_rows ids rid now bindings =
     map (\<lambda>(i, b). \<lparr>sk_id = ids i, sk_run_id = rid, sk_skill_version_id = kb_skill_version_id b,
            sk_sort_order = kb_sort_order b, sk_config_snapshot_json = kb_config_snapshot b,
            sk_manifest_checksum = kb_manifest_checksum b, sk_created_at = now\<rparr>)
       (zip [0..<length bindings] bindings)"

text \<open>
  The account of a new run: only for a command with a policy, whose marker must be in the limits.
\<close>

definition add_budget_account ::
  "digest \<Rightarrow> time \<Rightarrow> uuid \<Rightarrow> uuid \<Rightarrow> create_command \<Rightarrow> db \<Rightarrow> db res" where
  "add_budget_account sha now new_id rid command d =
     (case cm_budget_policy command of
        None \<Rightarrow> Inr d
      | Some policy \<Rightarrow>
          ebind (raise_if (\<not> py_eq (jnull ''budget_policy'' (cm_limits_snapshot_json command))
                             (policy_to_json policy)) BudgetError) (\<lambda>_.
          ebind (new_budget_account sha now new_id True rid QUEUED None (cm_limits_snapshot_json command)
                   policy) (\<lambda>account.
          ebind (raise_if (list_ex (\<lambda>a. ba_run_id a = rid) (db_accounts d)) IntegrityError) (\<lambda>_.
          ebind (insert_rows ba_id [account] (db_accounts d)) (\<lambda>accounts.
            Inr (d\<lparr>db_accounts := accounts\<rparr>))))))"

definition replayed_run ::
  "digest \<Rightarrow> digest128 \<Rightarrow> create_command \<Rightarrow> string \<Rightarrow> db \<Rightarrow> created_run res" where
  "replayed_run sha sha1 command fingerprint d =
     ebind (find_by_idempotency command d) (\<lambda>existing.
     ebind (case jget creation_request_field (cm_task_snapshot_json command) of
              Some stored \<Rightarrow>
                ebind (intent_from_json stored) (validate_creation_replay sha sha1 existing)
            | None \<Rightarrow> raise_if (run_request_hash existing \<noteq> fingerprint) IdempotencyConflictError) (\<lambda>_.
       Inr (to_created_run existing True)))"

definition create_idempotent ::
  "digest \<Rightarrow> digest128 \<Rightarrow> clock \<Rightarrow> fresh \<Rightarrow> create_command \<Rightarrow> db \<Rightarrow> (created_run \<times> db) res" where
  "create_idempotent sha sha1 clk ids command d =
     (let now = clk 0; rid = ids 0 in
      if was_deleted command d then Inl IdempotencyConflictError
      else
      ebind (request_hash sha sha1 command) (\<lambda>fingerprint.
      let run = new_run command fingerprint rid now in
      ebind (insert_run run d) (\<lambda>inserted.
      case inserted of
        None \<Rightarrow> ebind (replayed_run sha sha1 command fingerprint d) (\<lambda>r. Inr (r, d))
      | Some d1 \<Rightarrow>
          ebind (validate_skill_snapshots sha (cm_skill_snapshots_json command) (cm_project_id command) d1)
            (\<lambda>bindings.
          ebind (add_budget_account sha (clk 1) (ids 1) rid command d1) (\<lambda>d2.
          ebind (raise_if (\<not> distinct (map kb_sort_order bindings) \<or>
                   \<not> distinct (map kb_skill_version_id bindings)) IntegrityError) (\<lambda>_.
          let segment_id = ids 2;
              segment = initial_segment segment_id rid now;
              event = snapshot_event (ids 3) rid 1
                (JObj [(''status'', JStr ''QUEUED''), (''row_version'', JInt 1),
                       (''run_segment_id'', JStr (str_uuid segment_id)), (''segment_no'', JInt 1)])
                ''Run queued'' now None None (cm_trace_id command);
              dispatch = dispatch_outbox (ids 4) rid
                (JObj [(''run_id'', JStr (str_uuid rid)),
                       (''project_id'', JStr (str_uuid (cm_project_id command)))]) now;
              snapshots = skill_snapshot_rows (\<lambda>i. ids (i + 5)) rid now bindings in
          ebind (insert_rows sg_id [segment] (db_segments d2)) (\<lambda>segments.
          let d3 = add_event event [dispatch]
                (d2\<lparr>db_segments := segments,
                    db_skill_snapshots := db_skill_snapshots d2 @ snapshots\<rparr>) in
            Inr (\<lparr>cr_run_id = rid, cr_project_id = cm_project_id command,
                  cr_task_id = cm_task_id command, cr_status = QUEUED, cr_row_version = 1,
                  cr_created_at = now, cr_idempotent_replay = False\<rparr>, d3))))))))"

section \<open>Finding a run\<close>

definition find_task_run_replay ::
  "digest \<Rightarrow> digest128 \<Rightarrow> run_intent \<Rightarrow> string \<Rightarrow> db \<Rightarrow> created_run option res" where
  "find_task_run_replay sha sha1 intent key d =
     ebind (load_by_idempotency (it_project_id intent)
              (derive_task_id sha1 (it_skill_version_id intent) (it_task_key intent)) key d) (\<lambda>existing.
     case existing of
       None \<Rightarrow> Inr None
     | Some run \<Rightarrow>
         ebind (validate_creation_replay sha sha1 run intent) (\<lambda>_. Inr (Some (to_created_run run True))))"

definition get_run :: "uuid \<Rightarrow> db \<Rightarrow> created_run res" where
  "get_run rid d =
     (case find_row run_id rid (db_runs d) of
        None \<Rightarrow> Inl RunNotFoundError
      | Some run \<Rightarrow> Inr (to_created_run run False))"

definition replace_initial_selected_sources :: "uuid \<Rightarrow> json \<Rightarrow> db \<Rightarrow> (unit \<times> db) res" where
  "replace_initial_selected_sources rid selected d =
     (case find_row run_id rid (db_runs d) of
        None \<Rightarrow> Inl RunNotFoundError
      | Some run \<Rightarrow>
          if run_status run \<noteq> QUEUED \<or> run_row_version run \<noteq> 1 then Inl ConcurrentRunUpdateError
          else Inr ((), put_run (run\<lparr>run_selected_sources_json := selected\<rparr>) d))"

definition get_published_skill_binding :: "uuid \<Rightarrow> db \<Rightarrow> json res" where
  "get_published_skill_binding version_id d =
     (case find_row sv_id version_id (db_skill_versions d) of
        None \<Rightarrow> Inl ValueError
      | Some version \<Rightarrow>
          if sv_status version \<noteq> ''PUBLISHED'' then Inl ValueError
          else
            ebind (manifest_of version_id d) (\<lambda>manifest.
            case manifest of
              None \<Rightarrow> Inl ValueError
            | Some m \<Rightarrow>
                Inr (JObj [(''skill_version_id'', JStr (str_uuid (sv_id version))),
                  (''version'', JStr (sv_version version)),
                  (''manifest_checksum'', JStr (mf_checksum m)),
                  (''manifest'', mf_manifest_json m)])))"

end
