(* ===== verification/Creation_Codec.thy ===== *)
theory Creation_Codec
  imports Run_Inv Run_Create
begin

text \<open>
  The stored form of a run request (\<^verbatim>\<open>TaskRunIntent\<close> of \<^verbatim>\<open>runs/creation_request.py\<close>) can be read back:
  the interpretation \<open>intent_codec\<close>. It rests on the normal form of source tokens: normalising a
  normalised token changes nothing.
\<close>

section \<open>Source tokens have a normal form\<close>

lemma emap_parse_uuid [simp]: "emap parse_uuid (map str_uuid ids) = Inr ids"
  by (induction ids) simp_all

lemma str_uuid_no_sep: "CHR '','' \<notin> set (str_uuid u)" "CHR '':'' \<notin> set (str_uuid u)"
  using str_uuid_lower [of "CHR '',''" u] str_uuid_lower [of "CHR '':''" u]
  by (auto simp: lower_hex_def ascii_digit_def)

lemma split_uuids:
  "ids \<noteq> [] \<Longrightarrow> py_split_on CHR '','' (join_comma (map str_uuid ids)) = map str_uuid ids"
  by (rule split_on_join_comma) (auto simp: str_uuid_no_sep)

definition selection_text :: "uuid list \<Rightarrow> string" where
  "selection_text ids =
     (if length ids = 1 then ''document'' else ''documents'') @ CHR '':'' # join_comma (map str_uuid ids)"

lemma selection_text_parts:
  "py_partition CHR '':'' (selection_text ids) =
     (if length ids = 1 then ''document'' else ''documents'', join_comma (map str_uuid ids))"
  "CHR '':'' \<in> set (selection_text ids)" "selection_text ids \<noteq> all_documents_selection"
  by (simp_all add: selection_text_def py_partition_append all_documents_selection_def)

lemma parse_selection_text:
  assumes "ids \<noteq> []" "length ids \<le> max_selected_documents" "distinct ids" "sorted ids"
  shows "parse_document_selection (selection_text ids) =
    Inr \<lparr>ds_mode = (if length ids = 1 then SEL_SINGLE else SEL_SET), ds_document_ids = ids\<rparr>"
proof -
  have "1 \<le> length ids" "\<not> length ids < 2 \<or> length ids = 1" using assms(1) by (cases ids; auto)+
  then show ?thesis using assms
    by (auto simp: parse_document_selection_def selection_text_parts split_uuids sort_key_id_if_sorted
        Let_def map_idI)
qed

lemma parse_selection_Inr:
  assumes "parse_document_selection token = Inr sel" "ds_mode sel \<noteq> SEL_ALL"
  shows "ds_document_ids sel \<noteq> []" "length (ds_document_ids sel) \<le> max_selected_documents"
    "distinct (ds_document_ids sel)" "sorted (ds_document_ids sel)"
    "ds_mode sel = SEL_SINGLE \<longleftrightarrow> length (ds_document_ids sel) = 1"
proof -
  obtain prefix raw where parts: "py_partition CHR '':'' token = (prefix, raw)" by force
  let ?pieces = "py_split_on CHR '','' raw"
  have t: "token \<noteq> all_documents_selection" using assms by (auto simp: parse_document_selection_def)
  have p: "prefix = ''document'' \<or> prefix = ''documents''" and n: "length ?pieces \<le> max_selected_documents"
    and ok: "ebind (rethrow value_error DocumentSnapshotError (emap parse_uuid ?pieces)) (\<lambda>ids.
            if \<not> distinct ids \<or> prefix = ''document'' \<and> length ids \<noteq> 1
            then Inl DocumentSnapshotError
            else if prefix = ''documents'' \<and> length ids < 2 then Inl DocumentSnapshotError
            else Inr \<lparr>ds_mode = (if prefix = ''document'' then SEL_SINGLE else SEL_SET),
                      ds_document_ids = sort ids\<rparr>) = Inr sel"
    using assms(1) t unfolding parse_document_selection_def Let_def parts by (simp_all split: if_splits)
  from ok obtain ids where ids: "emap parse_uuid ?pieces = Inr ids" "distinct ids"
    "prefix = ''document'' \<Longrightarrow> length ids = 1" "prefix = ''documents'' \<Longrightarrow> 2 \<le> length ids"
    "sel = \<lparr>ds_mode = (if prefix = ''document'' then SEL_SINGLE else SEL_SET), ds_document_ids = sort ids\<rparr>"
    by (auto simp: ebind_Inr_iff not_less split: if_split_asm)
  have len: "length ids \<le> max_selected_documents"
    using n ids(1) by (auto simp: emap_Inr_iff dest: list_all2_lengthD)
  have ne: "sort ids \<noteq> []" using p ids(3,4) by (metis length_sort list.size(3) not_numeral_le_zero zero_neq_one)
  show "ds_document_ids sel \<noteq> []" "length (ds_document_ids sel) \<le> max_selected_documents"
    "distinct (ds_document_ids sel)" "sorted (ds_document_ids sel)"
    "ds_mode sel = SEL_SINGLE \<longleftrightarrow> length (ds_document_ids sel) = 1"
    using p ids(2-5) len ne by (cases "prefix = ''document''"; simp)+
qed

lemma normalize_token_stable:
  assumes "normalize_token token = Inr t"
  shows "normalize_token t = Inr t"
proof (cases "token = all_documents_selection \<or> starts_with ''document:'' token \<or> starts_with ''documents:'' token")
  case True
  then obtain sel where sel: "parse_document_selection token = Inr sel"
    and t: "t = (if ds_mode sel = SEL_ALL then all_documents_selection
      else (if ds_mode sel = SEL_SINGLE then ''document'' else ''documents'') @ CHR '':'' #
        join_comma (map str_uuid (ds_document_ids sel)))"
    using assms by (simp only: normalize_token_def if_True) (auto simp: ebind_Inr_iff split: if_splits)
  show ?thesis
  proof (cases "ds_mode sel = SEL_ALL")
    case True
    with t show ?thesis by (simp add: normalize_token_def parse_document_selection_def)
  next
    case False
    let ?ids = "ds_document_ids sel"
    note ids = parse_selection_Inr [OF sel False]
    have tt: "t = selection_text ?ids" using t False ids(5) by (auto simp: selection_text_def)
    have "starts_with ''document:'' t \<or> starts_with ''documents:'' t"
      by (simp add: tt selection_text_def starts_with_def)
    then show ?thesis using parse_selection_text [OF ids(1-4)] t False ids(5)
      by (simp add: normalize_token_def tt)
  qed
next
  case False
  show ?thesis
  proof (cases "starts_with ''integration:'' token")
    case True
    then obtain u where "t = ''integration:'' @ str_uuid u"
      using assms False by (auto simp: normalize_token_def ebind_Inr_iff)
    then show ?thesis
      by (simp add: normalize_token_def starts_with_def all_documents_selection_def)
  next
    case other: False
    with False assms have "t = token" by (simp add: normalize_token_def)
    with assms show ?thesis by simp
  qed
qed

section \<open>The stored form of a request\<close>

definition normal_sources :: "(string \<times> string) list \<Rightarrow> bool" where
  "normal_sources sources \<longleftrightarrow> (\<forall>(k, t) \<in> set sources. k \<noteq> [] \<and> normalize_token t = Inr t)"

definition valid_intent :: "run_intent \<Rightarrow> bool" where
  "valid_intent i \<longleftrightarrow>
     it_task_key i \<noteq> [] \<and> is_obj (it_input_json i) \<and>
     (it_auto_approve_git i \<or> it_auto_approve_mcp i \<longrightarrow> it_auto_approve i) \<and>
     normal_sources (it_sources i)"

lemma normalize_choice_Inr:
  "normalize_choice kv = Inr (k, t) \<longleftrightarrow>
     (\<exists>s. kv = (k, JStr s) \<and> k \<noteq> [] \<and> normalize_token s = Inr t)"
  by (cases kv; cases "snd kv") (auto simp: normalize_choice_def ebind_Inr_iff)

lemma normalize_stored_sources:
  assumes "normal_sources sources"
  shows "normalize_source_choices (map (map_prod id JStr) sources) = Inr sources"
  using assms by (induction sources) (auto simp: normal_sources_def normalize_source_choices_def normalize_choice_def)

lemma normalized_sources:
  assumes "normalize_source_choices kvs = Inr sources"
  shows "normal_sources sources"
proof -
  have "list_all2 (\<lambda>x y. normalize_choice x = Inr y) kvs sources"
    using assms by (simp add: normalize_source_choices_def emap_Inr_iff)
  then show ?thesis
    by (induction rule: list_all2_induct) (auto simp: normal_sources_def normalize_choice_Inr intro: normalize_token_stable)
qed

lemma flag_Inr [simp]: "flag v = Inr b \<longleftrightarrow> v = JBool b"
  by (cases v) auto

lemma mk_intent_Inr:
  "mk_intent project version task_key actor input sources approve git mcp = Inr i \<longleftrightarrow>
     valid_intent i \<and> it_project_id i = project \<and> it_skill_version_id i = version \<and> it_task_key i = task_key \<and>
     it_actor_id i = actor \<and> it_input_json i = input \<and> is_obj sources \<and>
     normalize_source_choices (obj_fields sources) = Inr (it_sources i) \<and>
     approve = JBool (it_auto_approve i) \<and> git = JBool (it_auto_approve_git i) \<and> mcp = JBool (it_auto_approve_mcp i)"
  (is "?mk = Inr i \<longleftrightarrow> ?spec")
proof
  assume "?mk = Inr i"
  then show ?spec
    by (auto simp: mk_intent_def ebind_Inr_iff valid_intent_def dest: normalized_sources)
next
  assume ?spec
  then show "?mk = Inr i"
    by (cases i) (auto simp: mk_intent_def valid_intent_def raise_if_def)
qed

lemma intent_fields:
  "is_obj (intent_to_json i)" "stored_format (intent_to_json i) \<or> \<not> valid_intent i"
  "jget ''project_id'' (intent_to_json i) = Some (JStr (str_uuid (it_project_id i)))"
  "jget ''skill_version_id'' (intent_to_json i) = Some (JStr (str_uuid (it_skill_version_id i)))"
  "jget ''actor_id'' (intent_to_json i) = Some (JStr (str_uuid (it_actor_id i)))"
  "jget ''task_key'' (intent_to_json i) = Some (JStr (it_task_key i))"
  "jget ''input'' (intent_to_json i) = Some (it_input_json i)"
  "jget ''sources'' (intent_to_json i) = Some (JObj (map (map_prod id JStr) (it_sources i)))"
  "flag_field ''auto_approve'' (intent_to_json i) = JBool (it_auto_approve i)"
  "flag_field ''auto_approve_git'' (intent_to_json i) = JBool (it_auto_approve_git i)"
  "flag_field ''auto_approve_mcp'' (intent_to_json i) = JBool (it_auto_approve_mcp i)"
  by (cases "it_auto_approve i"; cases "it_auto_approve_git i"; cases "it_auto_approve_mcp i";
      auto simp: intent_to_json_def flag_field_def stored_format_def has_keys_def request_fields_def
        request_version_def valid_intent_def Let_def)+

interpretation intent_codec: codec intent_to_json intent_from_json valid_intent
proof unfold_locales
  show "intent_from_json (intent_to_json i) = Inr i" if "valid_intent i" for i
  proof -
    have "mk_intent (it_project_id i) (it_skill_version_id i) (it_task_key i) (it_actor_id i) (it_input_json i)
        (JObj (map (map_prod id JStr) (it_sources i))) (JBool (it_auto_approve i)) (JBool (it_auto_approve_git i))
        (JBool (it_auto_approve_mcp i)) = Inr i"
      using that normalize_stored_sources [of "it_sources i"] by (simp add: mk_intent_Inr valid_intent_def)
    then show ?thesis using that intent_fields [of i]
      by (simp add: intent_from_json_def str_field_def jnull_def raise_if_def)
  qed
  show "valid_intent i" if "intent_from_json v = Inr i" for v i
    using that by (auto simp: intent_from_json_def ebind_Inr_iff mk_intent_Inr split: if_splits)
qed

section \<open>The request of a stored run\<close>

text \<open>
  The commands the service issues (\<^verbatim>\<open>CreateRunCommand\<close>): the snapshots are objects, and the task
  snapshot holds the request.
\<close>

definition snapshots_ok :: "create_command \<Rightarrow> bool" where
  "snapshots_ok c \<longleftrightarrow>
     is_obj (cm_task_snapshot_json c) \<and> is_obj (cm_input_json c) \<and> is_obj (cm_permission_snapshot_json c) \<and>
     is_obj (cm_selected_sources_json c) \<and> is_obj (cm_limits_snapshot_json c) \<and>
     jget creation_request_field (cm_task_snapshot_json c) \<noteq> None \<and>
     (\<forall>v. jget ''skill_snapshots'' (cm_task_snapshot_json c) = Some v \<longrightarrow> (\<exists>items. v = JArr items \<and> list_all is_obj items))"

lemma request_hash_stored:
  assumes "jget creation_request_field (cm_task_snapshot_json c) = Some stored"
  shows "request_hash sha sha1 c = Inr fp \<longleftrightarrow>
    (\<exists>i. intent_from_json stored = Inr i \<and> intent_matches sha1 c i \<and> fp = intent_fingerprint sha i)"
  using assms by (auto simp: request_hash_def ebind_Inr_iff)

text \<open>A run row that still carries what \<open>c\<close> asked for.\<close>

definition run_of_command :: "create_command \<Rightarrow> string \<Rightarrow> run_row \<Rightarrow> bool" where
  "run_of_command c fp r \<longleftrightarrow>
     run_key r = (cm_project_id c, cm_task_id c, cm_idempotency_key c) \<and> run_request_hash r = fp \<and>
     run_input_json r = cm_input_json c \<and> run_task_snapshot_json r = cm_task_snapshot_json c \<and>
     run_permission_snapshot_json r = cm_permission_snapshot_json c \<and>
     run_limits_snapshot_json r = cm_limits_snapshot_json c"

lemma stored_intent:
  assumes c: "snapshots_ok c" "request_hash sha sha1 c = Inr fp" and r: "run_of_command c fp r"
    and sources: "is_obj (run_selected_sources_json r)"
  shows "\<exists>i. stored_creation_intent sha sha1 r = Inr i \<and> intent_matches sha1 c i \<and> intent_fingerprint sha i = fp"
proof -
  obtain stored where stored: "jget creation_request_field (cm_task_snapshot_json c) = Some stored"
    using c(1) by (auto simp: snapshots_ok_def)
  then obtain i where i: "intent_from_json stored = Inr i" "intent_matches sha1 c i" "fp = intent_fingerprint sha i"
    using c(2) by (auto simp: request_hash_stored)
  have skills: "\<exists>skills. py_objects (case jget ''skill_snapshots'' (cm_task_snapshot_json c) of
      None \<Rightarrow> JArr [] | Some v \<Rightarrow> v) = Inr skills"
    using c(1) by (cases "jget ''skill_snapshots'' (cm_task_snapshot_json c)") (auto simp: snapshots_ok_def py_objects_def)
  then obtain command where command: "stored_command r = Inr command"
    "cm_task_snapshot_json command = cm_task_snapshot_json c" "cm_input_json command = cm_input_json c"
    "cm_permission_snapshot_json command = cm_permission_snapshot_json c"
    "cm_project_id command = cm_project_id c" "cm_task_id command = cm_task_id c"
    using c(1) r sources
    by (auto simp: stored_command_def run_of_command_def run_key_def snapshots_ok_def raise_if_def)
  have "request_hash sha sha1 command = Inr fp"
    using i stored command(2-6) by (simp add: request_hash_stored intent_matches_def)
  moreover have "it_project_id i = run_project_id r"
    "derive_task_id sha1 (it_skill_version_id i) (it_task_key i) = run_task_id r"
    using i(2) r by (simp_all add: intent_matches_def run_of_command_def run_key_def)
  ultimately have "checked_intent sha sha1 r = Inr i"
    using command stored i r by (simp add: checked_intent_def raise_if_def run_of_command_def)
  with i show ?thesis by (simp add: stored_creation_intent_def)
qed

end
