(* ===== verification/Schedule_Snapshot.thy ===== *)
theory Schedule_Snapshot
  imports Schedule_Plan Creation_Codec
begin

text \<open>
  \<^verbatim>\<open>schedules/occurrence.py\<close>: the stored snapshot of an occurrence, the original request and the rule
  that fired it, read back strictly. An instant is a \<open>time\<close>; a \<^verbatim>\<open>datetime\<close> read from a text may lack an
  offset (\<open>py_datetime\<close>). Outside the range of \<^verbatim>\<open>datetime\<close> the conversion to UTC overflows in Python; the
  instants here are unbounded, and such a text is refused because it is not the canonical one.
\<close>

section \<open>Times and bounded integers\<close>

definition max_integer :: int where
  "max_integer = 2147483647"

definition positive_integer :: "int \<Rightarrow> int \<Rightarrow> int res" where
  "positive_integer n maximum = (if 1 \<le> n \<and> n \<le> maximum then Inr n else Inl ValueError)"

definition read_positive :: "json \<Rightarrow> int res" where
  "read_positive v = (case v of JInt n \<Rightarrow> positive_integer n max_integer | _ \<Rightarrow> Inl ValueError)"

definition read_opt_positive :: "json \<Rightarrow> int option res" where
  "read_opt_positive v = (if v = JNull then Inr None else ebind (read_positive v) (\<lambda>n. Inr (Some n)))"

definition utc_instant :: "bool \<Rightarrow> time \<Rightarrow> time res" where
  "utc_instant minute t = (if minute \<and> t mod usec_minute \<noteq> 0 then Inl ValueError else Inr t)"

fun utc_datetime :: "bool \<Rightarrow> py_datetime \<Rightarrow> time res" where
  "utc_datetime minute (Aware t) = utc_instant minute t"
| "utc_datetime minute (Naive l) = Inl ValueError"

text \<open>\<^verbatim>\<open>s.replace(old, new)\<close> for a non-empty \<^verbatim>\<open>old\<close>.\<close>

function (sequential) py_replace :: "string \<Rightarrow> string \<Rightarrow> string \<Rightarrow> string" where
  "py_replace old new [] = []"
| "py_replace old new (c # cs) =
     (if old \<noteq> [] \<and> take (length old) (c # cs) = old
      then new @ py_replace old new (drop (length old) (c # cs)) else c # py_replace old new cs)"
  by pat_completeness auto
termination
  by (relation "measure (\<lambda>(old, new, s). length s)") auto

definition stamp :: "time \<Rightarrow> string" where
  "stamp t = py_replace ''+00:00'' ''Z'' (isoformat t)"

definition opt_stamp :: "time option \<Rightarrow> json" where
  "opt_stamp v = jopt (\<lambda>t. JStr (stamp t)) v"

definition read_stamp :: "bool \<Rightarrow> json \<Rightarrow> time res" where
  "read_stamp minute v =
     (case v of
        JStr s \<Rightarrow>
          ebind (from_isoformat (py_replace ''Z'' ''+00:00'' s)) (\<lambda>d.
          ebind (utc_datetime minute d) (\<lambda>t.
            if stamp t \<noteq> s then Inl ValueError else Inr t))
      | _ \<Rightarrow> Inl ValueError)"

definition read_opt_stamp :: "bool \<Rightarrow> json \<Rightarrow> time option res" where
  "read_opt_stamp minute v =
     (if v = JNull then Inr None else ebind (read_stamp minute v) (\<lambda>t. Inr (Some t)))"

section \<open>The rule of a schedule\<close>

text \<open>
  What is stored is read inside \<^verbatim>\<open>from_json\<close>, which turns every exception of the classes \<open>snapshot_error\<close> into
  \<open>ScheduleOccurrenceConflictError\<close>. A value of the wrong type is given one of these classes here: \<open>TypeError\<close> for
  a time zone, \<open>AttributeError\<close> for an identifier.
\<close>

fun schedule_kind_text :: "schedule_kind \<Rightarrow> string" where
  "schedule_kind_text ONCE = ''ONCE''"
| "schedule_kind_text CRON = ''CRON''"

definition kind_of_json :: "json \<Rightarrow> schedule_kind res" where
  "kind_of_json v =
     (if v = JStr ''ONCE'' then Inr ONCE else if v = JStr ''CRON'' then Inr CRON else Inl ValueError)"

definition definition_fields :: "string list" where
  "definition_fields = [''kind'', ''timezone'', ''cron_expression'', ''run_at'', ''end_at'', ''max_runs'']"

definition definition_json :: "schedule_definition \<Rightarrow> json" where
  "definition_json d =
     JObj [(''kind'', JStr (schedule_kind_text (sd_kind d))), (''timezone'', JStr (sd_timezone d)),
       (''cron_expression'', jopt JStr (sd_cron_expression d)), (''run_at'', opt_stamp (sd_run_at d)),
       (''end_at'', opt_stamp (sd_end_at d)), (''max_runs'', jopt JInt (sd_max_runs d))]"

text \<open>The branch on the kind; a stored expression must be its own normal form.\<close>

definition stored_rule :: "schedule_kind \<Rightarrow> json \<Rightarrow> time option \<Rightarrow> string option res" where
  "stored_rule kind cron run_at =
     (if kind = CRON then
        (case cron of
           JStr s \<Rightarrow>
             if run_at \<noteq> None then Inl ValueError
             else ebind (parse_cron s) (\<lambda>e. if cron_text e \<noteq> s then Inl ValueError else Inr (Some s))
         | _ \<Rightarrow> Inl ValueError)
      else if cron \<noteq> JNull \<or> run_at = None then Inl ValueError else Inr None)"

definition stored_definition :: "tz_database \<Rightarrow> json \<Rightarrow> schedule_definition res" where
  "stored_definition tzdb v =
     ebind (raise_if (\<not> is_obj v \<or> \<not> has_keys definition_fields v) ValueError) (\<lambda>_.
     ebind (kind_of_json (jnull ''kind'' v)) (\<lambda>kind.
     ebind (case jnull ''timezone'' v of JStr z \<Rightarrow> normalize_timezone tzdb z | _ \<Rightarrow> Inl TypeError) (\<lambda>zone.
     ebind (read_opt_stamp True (jnull ''run_at'' v)) (\<lambda>run_at.
     ebind (read_opt_stamp False (jnull ''end_at'' v)) (\<lambda>end_at.
     ebind (read_opt_positive (jnull ''max_runs'' v)) (\<lambda>maximum.
     ebind (stored_rule kind (jnull ''cron_expression'' v) run_at) (\<lambda>cron.
       Inr \<lparr>sd_kind = kind, sd_timezone = zone, sd_cron_expression = cron, sd_run_at = run_at,
            sd_end_at = end_at, sd_max_runs = maximum\<rparr>)))))))"

section \<open>The snapshot of an occurrence\<close>

record occurrence_snapshot =
  ss_schedule_id :: uuid
  ss_occurrence_at :: time
  ss_name :: string
  ss_configuration_version :: int
  ss_claim_row_version :: int
  ss_definition :: schedule_definition
  ss_intent :: run_intent
  ss_exhausted :: bool
  ss_missed :: int

definition snapshot_key :: "occurrence_snapshot \<Rightarrow> string" where
  "snapshot_key s = schedule_idempotency_key (ss_schedule_id s) (ss_occurrence_at s)"

definition snapshot_fields :: "string list" where
  "snapshot_fields = [''snapshot_version'', ''schedule_id'', ''occurrence_at'', ''idempotency_key'', ''name'',
     ''configuration_version'', ''claim_row_version'', ''definition'', ''request'', ''exhausted'', ''missed'']"

definition snapshot_to_json :: "occurrence_snapshot \<Rightarrow> json" where
  "snapshot_to_json s =
     JObj [(''snapshot_version'', JStr ''v1''), (''schedule_id'', JStr (str_uuid (ss_schedule_id s))),
       (''occurrence_at'', JStr (stamp (ss_occurrence_at s))), (''idempotency_key'', JStr (snapshot_key s)),
       (''name'', JStr (ss_name s)), (''configuration_version'', JInt (ss_configuration_version s)),
       (''claim_row_version'', JInt (ss_claim_row_version s)), (''definition'', definition_json (ss_definition s)),
       (''request'', intent_to_json (ss_intent s)), (''exhausted'', JBool (ss_exhausted s)),
       (''missed'', JInt (ss_missed s))]"

definition snapshot_checksum :: "digest \<Rightarrow> occurrence_snapshot \<Rightarrow> string" where
  "snapshot_checksum sha s = json_digest sha (snapshot_to_json s)"

definition read_name :: "json \<Rightarrow> string res" where
  "read_name v = (case v of JStr s \<Rightarrow> if 1 \<le> length s \<and> length s \<le> 200 then Inr s else Inl ValueError
     | _ \<Rightarrow> Inl ValueError)"

definition read_missed :: "json \<Rightarrow> int res" where
  "read_missed v = (case v of JInt n \<Rightarrow> if 0 \<le> n \<and> n \<le> max_integer then Inr n else Inl ValueError
     | _ \<Rightarrow> Inl ValueError)"

definition read_snapshot :: "tz_database \<Rightarrow> json \<Rightarrow> occurrence_snapshot res" where
  "read_snapshot tzdb v =
     ebind (raise_if (\<not> is_obj v \<or> \<not> has_keys snapshot_fields v \<or>
         jget ''snapshot_version'' v \<noteq> Some (JStr ''v1'')) ValueError) (\<lambda>_.
     ebind (flag (jnull ''exhausted'' v)) (\<lambda>exhausted.
     ebind (read_missed (jnull ''missed'' v)) (\<lambda>missed.
     ebind (read_name (jnull ''name'' v)) (\<lambda>name.
     ebind (case jnull ''schedule_id'' v of JStr s \<Rightarrow> parse_uuid s | _ \<Rightarrow> Inl AttributeError) (\<lambda>schedule_id.
     ebind (read_stamp True (jnull ''occurrence_at'' v)) (\<lambda>occurrence_at.
     ebind (read_positive (jnull ''configuration_version'' v)) (\<lambda>configuration_version.
     ebind (read_positive (jnull ''claim_row_version'' v)) (\<lambda>claim_row_version.
     ebind (stored_definition tzdb (jnull ''definition'' v)) (\<lambda>d.
     ebind (intent_from_json (jnull ''request'' v)) (\<lambda>intent.
       Inr \<lparr>ss_schedule_id = schedule_id, ss_occurrence_at = occurrence_at, ss_name = name,
            ss_configuration_version = configuration_version, ss_claim_row_version = claim_row_version,
            ss_definition = d, ss_intent = intent, ss_exhausted = exhausted, ss_missed = missed\<rparr>))))))))))"

definition snapshot_error :: "exn \<Rightarrow> bool" where
  "snapshot_error e \<longleftrightarrow> value_error e \<or> e \<in> {TypeError, KeyError, AttributeError, ZoneInfoNotFoundError}"

definition snapshot_from_json :: "digest \<Rightarrow> tz_database \<Rightarrow> json \<Rightarrow> string option \<Rightarrow> occurrence_snapshot res" where
  "snapshot_from_json sha tzdb v checksum =
     rethrow snapshot_error ScheduleOccurrenceConflictError
       (ebind (read_snapshot tzdb v) (\<lambda>s.
        ebind (raise_if (canonical_json v \<noteq> canonical_json (snapshot_to_json s)) ValueError) (\<lambda>_.
        ebind (raise_if (\<exists>c \<in> set_option checksum. json_digest sha v \<noteq> c) ValueError) (\<lambda>_. Inr s))))"


section \<open>Reading back\<close>

lemma py_replace_end:
  assumes "p \<notin> set xs"
  shows "py_replace (p # ps) new (xs @ p # ps) = xs @ new"
  using assms by (induction xs) auto

lemma isoformat_split:
  obtains xs where "isoformat t = xs @ ''+00:00''" "CHR ''+'' \<notin> set xs" "CHR ''Z'' \<notin> set xs"
proof -
  have digits: "CHR ''+'' \<notin> set (dec_fixed w n)" "CHR ''Z'' \<notin> set (dec_fixed w n)" for w n
    using dec_fixed_digits [of w n] by (auto simp: list_all_iff ascii_digit_def)
  let ?d = "t div usec_day" and ?u = "t mod usec_day"
  let ?s = "?u div usec_second" and ?f = "?u mod usec_second"
  show thesis
    by (rule that [of "dec_fixed 4 (nat (civil_year ?d)) @ CHR ''-'' # dec_fixed 2 (nat (civil_month ?d)) @
        CHR ''-'' # dec_fixed 2 (nat (civil_day ?d)) @ CHR ''T'' # dec_fixed 2 (nat (?s div 3600)) @
        CHR '':'' # dec_fixed 2 (nat (?s div 60 mod 60)) @ CHR '':'' # dec_fixed 2 (nat (?s mod 60)) @
        (if ?f = 0 then [] else CHR ''.'' # dec_fixed 6 (nat ?f))"])
      (simp_all add: isoformat_def Let_def digits)
qed

definition stamp_ok :: "bool \<Rightarrow> time \<Rightarrow> bool" where
  "stamp_ok minute t \<longleftrightarrow> read_stamp minute (JStr (stamp t)) = Inr t"

lemma stamp_in_range:
  assumes "0 \<le> t" "t < end_of_time" "minute \<longrightarrow> t mod usec_minute = 0"
  shows "stamp_ok minute t"
proof -
  obtain xs where xs: "isoformat t = xs @ ''+00:00''" "CHR ''+'' \<notin> set xs" "CHR ''Z'' \<notin> set xs"
    by (rule isoformat_split)
  have "stamp t = xs @ ''Z''" using py_replace_end [OF xs(2)] by (simp add: stamp_def xs(1))
  moreover have "py_replace ''Z'' ''+00:00'' (xs @ ''Z'') = isoformat t"
    using py_replace_end [OF xs(3), of "[]"] by (simp add: xs(1))
  ultimately show ?thesis
    using from_isoformat_isoformat [OF assms(1,2)] assms(3)
    by (simp add: stamp_ok_def read_stamp_def utc_instant_def)
qed

lemma read_stamp_Inr: "read_stamp minute v = Inr t \<longleftrightarrow> v = JStr (stamp t) \<and> stamp_ok minute t"
  by (cases v) (auto simp: stamp_ok_def read_stamp_def ebind_Inr_iff)

lemma read_opt_stamp_Inr:
  "read_opt_stamp minute v = Inr w \<longleftrightarrow> v = opt_stamp w \<and> (\<forall>t \<in> set_option w. stamp_ok minute t)"
  by (cases w) (auto simp: read_opt_stamp_def ebind_Inr_iff read_stamp_Inr opt_stamp_def)

lemma read_positive_Inr: "read_positive v = Inr n \<longleftrightarrow> v = JInt n \<and> 1 \<le> n \<and> n \<le> max_integer"
  by (cases v) (auto simp: read_positive_def positive_integer_def)

lemma read_opt_positive_Inr:
  "read_opt_positive v = Inr w \<longleftrightarrow> v = jopt JInt w \<and> (\<forall>n \<in> set_option w. 1 \<le> n \<and> n \<le> max_integer)"
  by (cases w) (auto simp: read_opt_positive_def ebind_Inr_iff read_positive_Inr)

definition valid_definition :: "tz_database \<Rightarrow> schedule_definition \<Rightarrow> bool" where
  "valid_definition tzdb d \<longleftrightarrow>
     normalize_timezone tzdb (sd_timezone d) = Inr (sd_timezone d) \<and>
     (\<forall>t \<in> set_option (sd_run_at d). stamp_ok True t) \<and> (\<forall>t \<in> set_option (sd_end_at d). stamp_ok False t) \<and>
     (\<forall>n \<in> set_option (sd_max_runs d). 1 \<le> n \<and> n \<le> max_integer) \<and>
     stored_rule (sd_kind d) (jopt JStr (sd_cron_expression d)) (sd_run_at d) = Inr (sd_cron_expression d)"

lemma definition_json_fields:
  "is_obj (definition_json d)" "has_keys definition_fields (definition_json d)"
  "jnull ''kind'' (definition_json d) = JStr (schedule_kind_text (sd_kind d))"
  "jnull ''timezone'' (definition_json d) = JStr (sd_timezone d)"
  "jnull ''cron_expression'' (definition_json d) = jopt JStr (sd_cron_expression d)"
  "jnull ''run_at'' (definition_json d) = opt_stamp (sd_run_at d)"
  "jnull ''end_at'' (definition_json d) = opt_stamp (sd_end_at d)"
  "jnull ''max_runs'' (definition_json d) = jopt JInt (sd_max_runs d)"
  by (auto simp: definition_json_def has_keys_def definition_fields_def jnull_def)

lemma schedule_kind_of_text: "kind_of_json (JStr (schedule_kind_text k)) = Inr k"
  by (cases k) (auto simp: kind_of_json_def)

lemma stored_definition_json:
  assumes "valid_definition tzdb d"
  shows "stored_definition tzdb (definition_json d) = Inr d"
proof -
  have "read_opt_stamp True (opt_stamp (sd_run_at d)) = Inr (sd_run_at d)"
    "read_opt_stamp False (opt_stamp (sd_end_at d)) = Inr (sd_end_at d)"
    using assms by (auto simp: read_opt_stamp_Inr valid_definition_def)
  moreover have "read_opt_positive (jopt JInt (sd_max_runs d)) = Inr (sd_max_runs d)"
    using assms by (auto simp: read_opt_positive_Inr valid_definition_def)
  ultimately show ?thesis
    using assms
    by (simp add: stored_definition_def definition_json_fields schedule_kind_of_text valid_definition_def raise_if_def)
qed

lemma stored_rule_Inr:
  "stored_rule kind cron run_at = Inr c \<Longrightarrow> stored_rule kind (jopt JStr c) run_at = Inr c"
  by (auto simp: stored_rule_def ebind_Inr_iff split: if_splits json.splits)

lemma stored_definition_Inr:
  assumes "stored_definition tzdb v = Inr d"
  shows "valid_definition tzdb d"
  using assms
  by (auto simp: stored_definition_def ebind_Inr_iff valid_definition_def read_opt_stamp_Inr normalize_timezone_def
      read_opt_positive_Inr dest: stored_rule_Inr split: json.splits if_splits)

definition valid_snapshot :: "tz_database \<Rightarrow> occurrence_snapshot \<Rightarrow> bool" where
  "valid_snapshot tzdb s \<longleftrightarrow>
     stamp_ok True (ss_occurrence_at s) \<and> 1 \<le> length (ss_name s) \<and> length (ss_name s) \<le> 200 \<and>
     1 \<le> ss_configuration_version s \<and> ss_configuration_version s \<le> max_integer \<and>
     1 \<le> ss_claim_row_version s \<and> ss_claim_row_version s \<le> max_integer \<and>
     valid_definition tzdb (ss_definition s) \<and> valid_intent (ss_intent s) \<and>
     0 \<le> ss_missed s \<and> ss_missed s \<le> max_integer"

lemma snapshot_json_fields:
  "is_obj (snapshot_to_json s)" "has_keys snapshot_fields (snapshot_to_json s)"
  "jget ''snapshot_version'' (snapshot_to_json s) = Some (JStr ''v1'')"
  "jnull ''schedule_id'' (snapshot_to_json s) = JStr (str_uuid (ss_schedule_id s))"
  "jnull ''occurrence_at'' (snapshot_to_json s) = JStr (stamp (ss_occurrence_at s))"
  "jnull ''name'' (snapshot_to_json s) = JStr (ss_name s)"
  "jnull ''configuration_version'' (snapshot_to_json s) = JInt (ss_configuration_version s)"
  "jnull ''claim_row_version'' (snapshot_to_json s) = JInt (ss_claim_row_version s)"
  "jnull ''definition'' (snapshot_to_json s) = definition_json (ss_definition s)"
  "jnull ''request'' (snapshot_to_json s) = intent_to_json (ss_intent s)"
  "jnull ''exhausted'' (snapshot_to_json s) = JBool (ss_exhausted s)"
  "jnull ''missed'' (snapshot_to_json s) = JInt (ss_missed s)"
  by (auto simp: snapshot_to_json_def has_keys_def snapshot_fields_def jnull_def)

lemma read_snapshot_json:
  assumes "valid_snapshot tzdb s"
  shows "read_snapshot tzdb (snapshot_to_json s) = Inr s"
  using assms intent_codec.dec_enc [of "ss_intent s"] stored_definition_json [of tzdb "ss_definition s"]
  by (simp add: read_snapshot_def snapshot_json_fields valid_snapshot_def stamp_ok_def read_missed_def read_name_def
      read_positive_def positive_integer_def raise_if_def)

lemma read_snapshot_Inr:
  assumes "read_snapshot tzdb v = Inr s"
  shows "valid_snapshot tzdb s"
  using assms
  by (auto simp: read_snapshot_def ebind_Inr_iff valid_snapshot_def read_stamp_Inr read_missed_def read_name_def
      read_positive_Inr stored_definition_Inr intent_codec.dec_valid
      split: json.splits if_splits)

interpretation snapshot_codec: codec snapshot_to_json "\<lambda>v. snapshot_from_json sha tzdb v None" "valid_snapshot tzdb"
  for sha tzdb
  by unfold_locales (auto simp: snapshot_from_json_def ebind_Inr_iff read_snapshot_json read_snapshot_Inr)

lemma snapshot_from_json_Inr:
  "snapshot_from_json sha tzdb v checksum = Inr s \<longleftrightarrow>
     read_snapshot tzdb v = Inr s \<and> canonical_json v = canonical_json (snapshot_to_json s) \<and>
     (\<forall>c \<in> set_option checksum. json_digest sha v = c)"
  by (auto simp: snapshot_from_json_def ebind_Inr_iff)

lemma snapshot_from_json_checked:
  assumes "valid_snapshot tzdb s"
  shows "snapshot_from_json sha tzdb (snapshot_to_json s) (Some (snapshot_checksum sha s)) = Inr s"
  using read_snapshot_json [OF assms] by (simp add: snapshot_from_json_Inr snapshot_checksum_def)

end
