(* ===== verification/Schedule_Store.thy ===== *)
theory Schedule_Store
  imports Schedule_Snapshot Run_Create
begin

text \<open>
  The tables of schedules and occurrences and the transactions on them: \<^verbatim>\<open>schedules/repository.py\<close>,
  \<^verbatim>\<open>schedules/repository_occurrences.py\<close> and the participation in the creation of a run
  (\<^verbatim>\<open>schedules/creation.py\<close>). A record the code hands out (\<^verbatim>\<open>ScheduleRecord\<close>) carries every column of its
  row, so the row stands for it. \<open>busy\<close> tells which rows other transactions hold locked: the recovery skips
  them. Foreign keys and the width of \<^verbatim>\<open>missed_count\<close> are not modelled.
\<close>

section \<open>Rows\<close>

record schedule_row =
  sr_id :: uuid
  sr_project_id :: uuid
  sr_name :: string
  sr_kind :: schedule_kind
  sr_status :: schedule_status
  sr_timezone :: string
  sr_cron_expression :: "string option"
  sr_run_at :: "time option"
  sr_end_at :: "time option"
  sr_max_runs :: "int option"
  sr_skill_version_id :: uuid
  sr_task_key :: string
  sr_input_json :: json
  sr_sources_json :: json
  sr_next_run_at :: "time option"
  sr_last_run_at :: "time option"
  sr_last_run_id :: "uuid option"
  sr_last_outcome :: "schedule_outcome option"
  sr_last_error :: "string option"
  sr_run_count :: int
  sr_missed_count :: int
  sr_created_by :: uuid
  sr_row_version :: int
  sr_configuration_version :: int
  sr_occurrence_protocol :: int
  sr_created_at :: time

definition schedule_row_ok :: "schedule_row \<Rightarrow> bool" where
  "schedule_row_ok r \<longleftrightarrow>
     (sr_kind r = CRON \<and> sr_cron_expression r \<noteq> None \<and> sr_run_at r = None \<or>
      sr_kind r = ONCE \<and> sr_run_at r \<noteq> None \<and> sr_cron_expression r = None) \<and>
     (\<forall>n \<in> set_option (sr_max_runs r). 0 < n) \<and> 0 \<le> sr_run_count r \<and> 0 \<le> sr_missed_count r \<and>
     1 \<le> sr_configuration_version r \<and> sr_occurrence_protocol r \<in> {0, 1}"

datatype occurrence_status = OCC_PENDING | OCC_SETTLED

record occurrence_row =
  oc_id :: uuid
  oc_schedule_id :: uuid
  oc_project_id :: uuid
  oc_created_by :: uuid
  oc_skill_version_id :: uuid
  oc_occurrence_at :: time
  oc_idempotency_key :: string
  oc_configuration_version :: int
  oc_snapshot_json :: json
  oc_snapshot_checksum :: string
  oc_status :: occurrence_status
  oc_worker_id :: string
  oc_lease_token_hash :: string
  oc_lease_generation :: int
  oc_lease_expires_at :: time
  oc_attempt_count :: int
  oc_run_id :: "uuid option"
  oc_outcome :: "schedule_outcome option"
  oc_detail :: "string option"
  oc_settled_at :: "time option"
  oc_created_at :: time

definition occurrence_row_ok :: "occurrence_row \<Rightarrow> bool" where
  "occurrence_row_ok o' \<longleftrightarrow>
     1 \<le> oc_configuration_version o' \<and> 1 \<le> oc_lease_generation o' \<and> 1 \<le> oc_attempt_count o' \<and>
     (oc_status o' = OCC_PENDING \<and> oc_run_id o' = None \<and> oc_outcome o' = None \<and> oc_settled_at o' = None \<or>
      oc_status o' = OCC_SETTLED \<and> oc_settled_at o' \<noteq> None \<and>
      (oc_outcome o' = Some Schedule_Plan.RUN_CREATED \<and> oc_run_id o' \<noteq> None \<or>
       oc_outcome o' \<in> {Some SKIPPED_OVERLAP, Some FAILED_PRECONDITION} \<and> oc_run_id o' = None))"

record schedule_store =
  sc_db :: db
  sc_schedules :: "schedule_row list"
  sc_occurrences :: "occurrence_row list"

definition pending_of_schedule :: "uuid \<Rightarrow> schedule_store \<Rightarrow> occurrence_row list" where
  "pending_of_schedule i st = filter (\<lambda>x. oc_schedule_id x = i \<and> oc_status x = OCC_PENDING) (sc_occurrences st)"

text \<open>What a flush writes, and what the tables refuse.\<close>

definition save_schedule :: "schedule_row \<Rightarrow> schedule_store \<Rightarrow> schedule_store res" where
  "save_schedule r st =
     ebind (raise_if (\<not> schedule_row_ok r) IntegrityError) (\<lambda>_.
       Inr (st\<lparr>sc_schedules := put_row sr_id r (sc_schedules st)\<rparr>))"

definition occurrence_conflict :: "occurrence_row \<Rightarrow> occurrence_row \<Rightarrow> bool" where
  "occurrence_conflict x y \<longleftrightarrow>
     oc_schedule_id x = oc_schedule_id y \<and> oc_occurrence_at x = oc_occurrence_at y \<or>
     oc_run_id x \<noteq> None \<and> oc_run_id x = oc_run_id y \<or>
     oc_schedule_id x = oc_schedule_id y \<and> oc_status x = OCC_PENDING \<and> oc_status y = OCC_PENDING"

definition insert_occurrence :: "occurrence_row \<Rightarrow> schedule_store \<Rightarrow> schedule_store res" where
  "insert_occurrence x st =
     ebind (raise_if (\<not> occurrence_row_ok x \<or> list_ex (occurrence_conflict x) (sc_occurrences st)) IntegrityError) (\<lambda>_.
     ebind (insert_rows oc_id [x] (sc_occurrences st)) (\<lambda>rows. Inr (st\<lparr>sc_occurrences := rows\<rparr>)))"

definition save_occurrence :: "occurrence_row \<Rightarrow> schedule_store \<Rightarrow> schedule_store res" where
  "save_occurrence x st =
     ebind (raise_if (\<not> occurrence_row_ok x \<or>
         list_ex (\<lambda>y. oc_id y \<noteq> oc_id x \<and> occurrence_conflict x y) (sc_occurrences st)) IntegrityError) (\<lambda>_.
       Inr (st\<lparr>sc_occurrences := put_row oc_id x (sc_occurrences st)\<rparr>))"

section \<open>Definitions and states\<close>

record create_schedule =
  xs_project_id :: uuid
  xs_name :: string
  xs_definition :: schedule_definition
  xs_skill_version_id :: uuid
  xs_task_key :: string
  xs_input_json :: json
  xs_sources :: json
  xs_created_by :: uuid
  xs_next_run_at :: time

record update_schedule =
  us_schedule_id :: uuid
  us_project_id :: uuid
  us_name :: string
  us_definition :: schedule_definition
  us_input_json :: json
  us_sources :: json
  us_next_run_at :: time
  us_expected_row_version :: int

definition bump :: "schedule_row \<Rightarrow> schedule_row res" where
  "bump r =
     ebind (positive_integer (sr_row_version r) max_integer) (\<lambda>_.
     if sr_row_version r = max_integer then Inl ScheduleConflictError
     else Inr (r\<lparr>sr_row_version := sr_row_version r + 1\<rparr>))"

definition check_version :: "schedule_row \<Rightarrow> int \<Rightarrow> unit res" where
  "check_version r expected =
     ebind (positive_integer expected max_integer) (\<lambda>_.
       raise_if (sr_row_version r \<noteq> expected) ScheduleConflictError)"

definition require_row :: "uuid \<Rightarrow> uuid \<Rightarrow> schedule_store \<Rightarrow> schedule_row res" where
  "require_row project_id schedule_id st =
     (case find (\<lambda>r. sr_id r = schedule_id \<and> sr_project_id r = project_id) (sc_schedules st) of
        None \<Rightarrow> Inl ScheduleNotFoundError | Some r \<Rightarrow> Inr r)"

definition pending_count :: "uuid \<Rightarrow> schedule_store \<Rightarrow> int" where
  "pending_count i st = int (length (pending_of_schedule i st))"

definition create_schedule_row :: "clock \<Rightarrow> fresh \<Rightarrow> create_schedule \<Rightarrow> schedule_store \<Rightarrow> (schedule_row \<times> schedule_store) res" where
  "create_schedule_row clk ids c st =
     ebind (utc_instant True (xs_next_run_at c)) (\<lambda>next_run_at.
     let d = xs_definition c;
         r = \<lparr>sr_id = ids 0, sr_project_id = xs_project_id c, sr_name = xs_name c, sr_kind = sd_kind d,
           sr_status = ACTIVE, sr_timezone = sd_timezone d, sr_cron_expression = sd_cron_expression d,
           sr_run_at = sd_run_at d, sr_end_at = sd_end_at d, sr_max_runs = sd_max_runs d,
           sr_skill_version_id = xs_skill_version_id c, sr_task_key = xs_task_key c,
           sr_input_json = xs_input_json c, sr_sources_json = xs_sources c, sr_next_run_at = Some next_run_at,
           sr_last_run_at = None, sr_last_run_id = None, sr_last_outcome = None, sr_last_error = None,
           sr_run_count = 0, sr_missed_count = 0, sr_created_by = xs_created_by c, sr_row_version = 1,
           sr_configuration_version = 1, sr_occurrence_protocol = 1, sr_created_at = clk 0\<rparr> in
     ebind (raise_if (\<not> schedule_row_ok r) IntegrityError) (\<lambda>_.
     ebind (insert_rows sr_id [r] (sc_schedules st)) (\<lambda>rows. Inr (r, st\<lparr>sc_schedules := rows\<rparr>))))"

text \<open>\<^verbatim>\<open>get\<close> and \<^verbatim>\<open>lock_schedule\<close> read the same row.\<close>

definition get_schedule :: "uuid \<Rightarrow> uuid \<Rightarrow> schedule_store \<Rightarrow> schedule_row res" where
  "get_schedule project_id schedule_id st = require_row project_id schedule_id st"

definition revised_schedule :: "update_schedule \<Rightarrow> time option \<Rightarrow> schedule_row \<Rightarrow> schedule_row" where
  "revised_schedule c next_run_at r =
     (let d = us_definition c in
      r\<lparr>sr_name := us_name c, sr_kind := sd_kind d, sr_timezone := sd_timezone d,
        sr_cron_expression := sd_cron_expression d, sr_run_at := sd_run_at d, sr_end_at := sd_end_at d,
        sr_max_runs := sd_max_runs d, sr_input_json := us_input_json c, sr_sources_json := us_sources c,
        sr_next_run_at := next_run_at, sr_configuration_version := sr_configuration_version r + 1\<rparr>)"

definition update_definition :: "update_schedule \<Rightarrow> schedule_store \<Rightarrow> (schedule_row \<times> schedule_store) res" where
  "update_definition c st =
     ebind (require_row (us_project_id c) (us_schedule_id c) st) (\<lambda>r.
     ebind (check_version r (us_expected_row_version c)) (\<lambda>_.
     ebind (raise_if (sr_status r \<in> set terminal_schedule_statuses) ScheduleInvalidError) (\<lambda>_.
     let pending = pending_count (sr_id r) st in
     ebind (case sd_max_runs (us_definition c) of
              None \<Rightarrow> Inr ()
            | Some n \<Rightarrow> ebind (positive_integer n max_integer) (\<lambda>_.
                raise_if (n < sr_run_count r + pending) ScheduleInvalidError)) (\<lambda>_.
     ebind (positive_integer (sr_configuration_version r + 1) max_integer) (\<lambda>_.
     ebind (if sr_status r = ACTIVE then ebind (utc_instant True (us_next_run_at c)) (\<lambda>t. Inr (Some t))
            else Inr None) (\<lambda>next_run_at.
     ebind (bump (revised_schedule c next_run_at r)) (\<lambda>r'.
     ebind (save_schedule r' st) (\<lambda>st'. Inr (r', st')))))))))"

definition set_schedule_status ::
  "uuid \<Rightarrow> uuid \<Rightarrow> schedule_status \<Rightarrow> time option \<Rightarrow> int \<Rightarrow> string option \<Rightarrow> schedule_store \<Rightarrow>
   (schedule_row \<times> schedule_store) res" where
  "set_schedule_status project_id schedule_id status next_run_at expected last_error st =
     ebind (require_row project_id schedule_id st) (\<lambda>r.
     ebind (check_version r expected) (\<lambda>_.
     ebind (plan_schedule_transition (sr_status r) status) (\<lambda>_.
     ebind (if status = ACTIVE then
              ebind (raise_if (sr_occurrence_protocol r \<noteq> 1) ScheduleInvalidError) (\<lambda>_.
              case next_run_at of
                None \<Rightarrow> Inl ScheduleInvalidError
              | Some t \<Rightarrow>
                  ebind (raise_if (\<exists>n \<in> set_option (sr_max_runs r). n \<le> sr_run_count r) ScheduleInvalidError) (\<lambda>_.
                  ebind (raise_if (\<exists>n \<in> set_option (sr_max_runs r). n < sr_run_count r + pending_count (sr_id r) st)
                           ScheduleInvalidError) (\<lambda>_.
                  ebind (utc_instant True t) (\<lambda>u. Inr (Some u)))))
            else Inr None) (\<lambda>next.
     ebind (bump (r\<lparr>sr_next_run_at := next, sr_status := status, sr_last_error := last_error\<rparr>)) (\<lambda>r'.
     ebind (save_schedule r' st) (\<lambda>st'. Inr (r', st')))))))"

definition schedule_due :: "time \<Rightarrow> schedule_store \<Rightarrow> schedule_row \<Rightarrow> bool" where
  "schedule_due now st r \<longleftrightarrow>
     sr_status r = ACTIVE \<and> (\<exists>t \<in> set_option (sr_next_run_at r). t \<le> now) \<and> pending_of_schedule (sr_id r) st = []"

definition list_due :: "time \<Rightarrow> int \<Rightarrow> schedule_store \<Rightarrow> schedule_row list" where
  "list_due now limit st =
     take (nat limit) (sort_key (\<lambda>r. case sr_next_run_at r of None \<Rightarrow> 0 | Some t \<Rightarrow> t)
       (filter (schedule_due now st) (sc_schedules st)))"


section \<open>Stored occurrences and claims\<close>

definition stored_snapshot :: "digest \<Rightarrow> tz_database \<Rightarrow> occurrence_row \<Rightarrow> occurrence_snapshot res" where
  "stored_snapshot sha tzdb x =
     ebind (snapshot_from_json sha tzdb (oc_snapshot_json x) (Some (oc_snapshot_checksum x))) (\<lambda>s.
     ebind (raise_if (oc_schedule_id x \<noteq> ss_schedule_id s \<or> oc_project_id x \<noteq> it_project_id (ss_intent s) \<or>
         oc_created_by x \<noteq> it_actor_id (ss_intent s) \<or>
         oc_skill_version_id x \<noteq> it_skill_version_id (ss_intent s) \<or>
         oc_occurrence_at x \<noteq> ss_occurrence_at s \<or> oc_idempotency_key x \<noteq> snapshot_key s \<or>
         oc_configuration_version x \<noteq> ss_configuration_version s) ScheduleOccurrenceConflictError) (\<lambda>_. Inr s))"

record claimed_schedule =
  cs_schedule_id :: uuid
  cs_project_id :: uuid
  cs_occurrence_at :: time
  cs_skill_version_id :: uuid
  cs_task_key :: string
  cs_input_json :: json
  cs_sources :: json
  cs_created_by :: uuid
  cs_exhausted :: bool
  cs_missed :: int
  cs_occurrence_id :: uuid
  cs_definition :: schedule_definition
  cs_configuration_version :: int
  cs_claim_row_version :: int
  cs_snapshot_checksum :: string
  cs_worker_id :: string
  cs_lease_token :: string
  cs_lease_generation :: int
  cs_lease_expires_at :: time
  cs_auto_approve :: bool

definition claimed_of_occurrence :: "digest \<Rightarrow> tz_database \<Rightarrow> string \<Rightarrow> occurrence_row \<Rightarrow> claimed_schedule res" where
  "claimed_of_occurrence sha tzdb token x =
     ebind (stored_snapshot sha tzdb x) (\<lambda>s. let i = ss_intent s in
       Inr \<lparr>cs_schedule_id = oc_schedule_id x, cs_project_id = oc_project_id x,
            cs_occurrence_at = oc_occurrence_at x, cs_skill_version_id = oc_skill_version_id x,
            cs_task_key = it_task_key i, cs_input_json = it_input_json i,
            cs_sources = JObj (map (map_prod id JStr) (it_sources i)), cs_created_by = oc_created_by x,
            cs_exhausted = ss_exhausted s, cs_missed = ss_missed s, cs_occurrence_id = oc_id x,
            cs_definition = ss_definition s, cs_configuration_version = oc_configuration_version x,
            cs_claim_row_version = ss_claim_row_version s, cs_snapshot_checksum = oc_snapshot_checksum x,
            cs_worker_id = oc_worker_id x, cs_lease_token = token, cs_lease_generation = oc_lease_generation x,
            cs_lease_expires_at = oc_lease_expires_at x, cs_auto_approve = it_auto_approve i\<rparr>)"

text \<open>The claim against the stored request, and the fence that every write needs.\<close>

definition match_json :: "run_intent \<Rightarrow> schedule_definition \<Rightarrow> bool \<Rightarrow> int \<Rightarrow> int \<Rightarrow> int \<Rightarrow> json" where
  "match_json intent d exhausted missed configuration_version claim_row_version =
     JObj [(''request'', intent_to_json intent), (''definition'', definition_json d),
       (''exhausted'', JBool exhausted), (''missed'', JInt missed),
       (''configuration_version'', JInt configuration_version), (''claim_row_version'', JInt claim_row_version)]"

definition match_claim :: "occurrence_row \<Rightarrow> occurrence_snapshot \<Rightarrow> claimed_schedule \<Rightarrow> unit res" where
  "match_claim x s c =
     ebind (mk_intent (cs_project_id c) (cs_skill_version_id c) (cs_task_key c) (cs_created_by c) (cs_input_json c)
              (cs_sources c) (JBool (cs_auto_approve c)) (JBool (cs_auto_approve c)) (JBool (cs_auto_approve c))) (\<lambda>i.
       raise_if (oc_snapshot_checksum x \<noteq> cs_snapshot_checksum c \<or> oc_occurrence_at x \<noteq> cs_occurrence_at c \<or>
         canonical_json (match_json (ss_intent s) (ss_definition s) (ss_exhausted s) (ss_missed s)
             (ss_configuration_version s) (ss_claim_row_version s)) \<noteq>
         canonical_json (match_json i (cs_definition c) (cs_exhausted c) (cs_missed c) (cs_configuration_version c)
             (cs_claim_row_version c))) ScheduleOccurrenceConflictError)"

definition require_fence :: "digest \<Rightarrow> occurrence_row \<Rightarrow> claimed_schedule \<Rightarrow> time \<Rightarrow> bool \<Rightarrow> unit res" where
  "require_fence sha x c now pending_write =
     raise_if (oc_worker_id x \<noteq> cs_worker_id c \<or> oc_lease_generation x \<noteq> cs_lease_generation c \<or>
       oc_lease_expires_at x \<noteq> cs_lease_expires_at c \<or>
       oc_lease_token_hash x \<noteq> lease_token_hash sha (cs_lease_token c) \<or>
       (oc_status x = OCC_PENDING \<or> pending_write) \<and> oc_lease_expires_at x \<le> now) ScheduleClaimLostError"

definition check_credentials :: "string \<Rightarrow> string \<Rightarrow> int \<Rightarrow> unit res" where
  "check_credentials worker_id token lease_seconds =
     ebind (raise_if (py_strip worker_id = [] \<or> 128 < length worker_id) ValueError) (\<lambda>_.
     ebind (raise_if (py_strip token = [] \<or> 512 < length token) ValueError) (\<lambda>_.
     ebind (positive_integer lease_seconds 3600) (\<lambda>_. Inr ())))"

section \<open>Claiming a due schedule\<close>

definition row_definition :: "schedule_row \<Rightarrow> schedule_definition" where
  "row_definition r =
     \<lparr>sd_kind = sr_kind r, sd_timezone = sr_timezone r, sd_cron_expression = sr_cron_expression r,
      sd_run_at = sr_run_at r, sd_end_at = sr_end_at r, sd_max_runs = sr_max_runs r\<rparr>"

definition planned_snapshot ::
  "digest \<Rightarrow> tz_database \<Rightarrow> schedule_row \<Rightarrow> time \<Rightarrow> occurrence_plan \<Rightarrow> occurrence_snapshot res" where
  "planned_snapshot sha tzdb r occurrence plan =
     ebind (mk_intent (sr_project_id r) (sr_skill_version_id r) (sr_task_key r) (sr_created_by r) (sr_input_json r)
              (sr_sources_json r) (JBool True) (JBool True) (JBool True)) (\<lambda>intent.
       snapshot_from_json sha tzdb (snapshot_to_json
         \<lparr>ss_schedule_id = sr_id r, ss_occurrence_at = occurrence, ss_name = sr_name r,
          ss_configuration_version = sr_configuration_version r, ss_claim_row_version = sr_row_version r + 1,
          ss_definition = row_definition r, ss_intent = intent, ss_exhausted = op_exhausted plan,
          ss_missed = int (op_missed plan)\<rparr>) None)"

definition new_occurrence ::
  "digest \<Rightarrow> uuid \<Rightarrow> schedule_row \<Rightarrow> time \<Rightarrow> occurrence_snapshot \<Rightarrow> string \<Rightarrow> string \<Rightarrow> time \<Rightarrow> time \<Rightarrow> occurrence_row" where
  "new_occurrence sha new_id r occurrence s worker_id token expires_at now =
     \<lparr>oc_id = new_id, oc_schedule_id = sr_id r, oc_project_id = sr_project_id r, oc_created_by = sr_created_by r,
      oc_skill_version_id = sr_skill_version_id r, oc_occurrence_at = occurrence, oc_idempotency_key = snapshot_key s,
      oc_configuration_version = sr_configuration_version r, oc_snapshot_json = snapshot_to_json s,
      oc_snapshot_checksum = snapshot_checksum sha s, oc_status = OCC_PENDING, oc_worker_id = worker_id,
      oc_lease_token_hash = lease_token_hash sha token, oc_lease_generation = 1,
      oc_lease_expires_at = expires_at, oc_attempt_count = 1, oc_run_id = None, oc_outcome = None,
      oc_detail = None, oc_settled_at = None, oc_created_at = now\<rparr>"

definition claim_current :: "schedule_row \<Rightarrow> schedule_row \<Rightarrow> time \<Rightarrow> bool" where
  "claim_current r seen now \<longleftrightarrow>
     sr_status r = ACTIVE \<and> sr_row_version r = sr_row_version seen \<and>
     sr_configuration_version r = sr_configuration_version seen \<and> sr_next_run_at r = sr_next_run_at seen \<and>
     (\<exists>t \<in> set_option (sr_next_run_at r). t \<le> now)"

text \<open>The row leaves the active state instead of being claimed.\<close>

definition stop_schedule :: "schedule_row \<Rightarrow> schedule_store \<Rightarrow> (claimed_schedule option \<times> schedule_store) res" where
  "stop_schedule r st =
     ebind (bump (r\<lparr>sr_next_run_at := None\<rparr>)) (\<lambda>r'. ebind (save_schedule r' st) (\<lambda>st'. Inr (None, st')))"

definition start_occurrence ::
  "digest \<Rightarrow> tz_database \<Rightarrow> clock \<Rightarrow> fresh \<Rightarrow> schedule_row \<Rightarrow> time \<Rightarrow> time \<Rightarrow> string \<Rightarrow> string \<Rightarrow> int \<Rightarrow> schedule_store \<Rightarrow>
   (claimed_schedule option \<times> schedule_store) res" where
  "start_occurrence sha tzdb clk ids r candidate now worker_id token lease_seconds st =
     ebind (utc_instant True candidate) (\<lambda>occurrence.
     ebind (next_from_definition tzdb (row_definition r) (occurrence - usec_minute)) (\<lambda>first.
     ebind (raise_if (first \<noteq> Some occurrence) ScheduleOccurrenceConflictError) (\<lambda>_.
     ebind (plan_occurrence tzdb (row_definition r) occurrence now) (\<lambda>plan.
     ebind (planned_snapshot sha tzdb r occurrence plan) (\<lambda>s.
     let x = new_occurrence sha (ids 0) r occurrence s worker_id token
               (max now (clk 0) + lease_seconds * 1000000) now in
     ebind (bump (r\<lparr>sr_next_run_at := op_next_run_at plan, sr_missed_count := sr_missed_count r + int (op_missed plan)\<rparr>)) (\<lambda>r'.
     ebind (insert_occurrence x st) (\<lambda>st1.
     ebind (save_schedule r' st1) (\<lambda>st2.
     ebind (claimed_of_occurrence sha tzdb token x) (\<lambda>c.
     ebind (require_fence sha x c (clk 1) False) (\<lambda>_. Inr (Some c, st2)))))))))))"

definition claim_due ::
  "digest \<Rightarrow> tz_database \<Rightarrow> clock \<Rightarrow> fresh \<Rightarrow> schedule_row \<Rightarrow> time \<Rightarrow> string \<Rightarrow> string \<Rightarrow> int \<Rightarrow> schedule_store \<Rightarrow>
   (claimed_schedule option \<times> schedule_store) res" where
  "claim_due sha tzdb clk ids seen now worker_id token lease_seconds st =
     ebind (check_credentials worker_id token lease_seconds) (\<lambda>_.
     ebind (require_row (sr_project_id seen) (sr_id seen) st) (\<lambda>r.
     case sr_next_run_at r of
       None \<Rightarrow> Inr (None, st)
     | Some candidate \<Rightarrow>
         if \<not> claim_current r seen now then Inr (None, st)
         else if sr_occurrence_protocol r \<noteq> 1 then
           stop_schedule (r\<lparr>sr_status := ERROR, sr_last_error :=
             Some ''Legacy schedule requires explicit migration before activation''\<rparr>) st
         else if pending_count (sr_id r) st \<noteq> 0 then Inr (None, st)
         else if \<exists>n \<in> set_option (sr_max_runs r). n \<le> sr_run_count r then
           stop_schedule (r\<lparr>sr_status := COMPLETED\<rparr>) st
         else start_occurrence sha tzdb clk ids r candidate now worker_id token lease_seconds st))"

section \<open>Recovering an abandoned occurrence\<close>

definition recoverable_occurrence :: "time \<Rightarrow> int \<Rightarrow> occurrence_row \<Rightarrow> bool" where
  "recoverable_occurrence now max_attempts x \<longleftrightarrow>
     oc_status x = OCC_PENDING \<and> oc_lease_expires_at x \<le> now \<and> oc_attempt_count x < max_attempts"

definition recovery_candidates :: "(uuid \<Rightarrow> bool) \<Rightarrow> time \<Rightarrow> int \<Rightarrow> int \<Rightarrow> schedule_store \<Rightarrow> schedule_row list" where
  "recovery_candidates busy now limit max_attempts st =
     take (nat limit) (map fst (sort_key (\<lambda>(r, x). (unat (sr_id r), oc_occurrence_at x))
       (concat (map (\<lambda>r. map (Pair r) (filter (\<lambda>x. oc_schedule_id x = sr_id r \<and> recoverable_occurrence now max_attempts x)
            (sc_occurrences st)))
          (filter (\<lambda>r. sr_occurrence_protocol r = 1 \<and> \<not> busy (sr_id r)) (sc_schedules st))))))"

definition recover_occurrence ::
  "digest \<Rightarrow> tz_database \<Rightarrow> (uuid \<Rightarrow> bool) \<Rightarrow> time \<Rightarrow> time \<Rightarrow> string \<Rightarrow> string \<Rightarrow> int \<Rightarrow> int \<Rightarrow> schedule_row \<Rightarrow>
   schedule_store \<Rightarrow> (claimed_schedule list \<times> schedule_store) res" where
  "recover_occurrence sha tzdb busy current now worker_id token lease_seconds max_attempts r st =
     (case find (\<lambda>x. \<not> busy (oc_id x)) (pending_of_schedule (sr_id r) st) of
        None \<Rightarrow> Inr ([], st)
      | Some x \<Rightarrow>
          if \<not> recoverable_occurrence now max_attempts x then Inr ([], st)
          else
          ebind (stored_snapshot sha tzdb x) (\<lambda>_.
          ebind (raise_if (oc_schedule_id x \<noteq> sr_id r \<or> oc_project_id x \<noteq> sr_project_id r)
                   ScheduleOccurrenceConflictError) (\<lambda>_.
          ebind (positive_integer (oc_lease_generation x + 1) max_integer) (\<lambda>_.
          let x' = x\<lparr>oc_worker_id := worker_id, oc_lease_token_hash := lease_token_hash sha token,
                oc_lease_generation := oc_lease_generation x + 1, oc_attempt_count := oc_attempt_count x + 1,
                oc_lease_expires_at := max now current + lease_seconds * 1000000\<rparr> in
          ebind (claimed_of_occurrence sha tzdb token x') (\<lambda>c.
          ebind (save_occurrence x' st) (\<lambda>st'. Inr ([c], st')))))))"

fun recover_occurrences ::
  "(time \<Rightarrow> schedule_row \<Rightarrow> schedule_store \<Rightarrow> (claimed_schedule list \<times> schedule_store) res) \<Rightarrow> clock \<Rightarrow>
   schedule_row list \<Rightarrow> schedule_store \<Rightarrow> (claimed_schedule list \<times> schedule_store) res" where
  "recover_occurrences step clk [] st = Inr ([], st)"
| "recover_occurrences step clk (r # rs) st =
     ebind (step (clk 0) r st) (\<lambda>(cs, st1).
     ebind (recover_occurrences step (\<lambda>n. clk (n + 1)) rs st1) (\<lambda>(cs', st2). Inr (cs @ cs', st2)))"

text \<open>The clock \<open>late\<close> is read for every claim once the rows are written.\<close>

definition claim_recoverable ::
  "digest \<Rightarrow> tz_database \<Rightarrow> (uuid \<Rightarrow> bool) \<Rightarrow> clock \<Rightarrow> clock \<Rightarrow> time \<Rightarrow> int \<Rightarrow> string \<Rightarrow> string \<Rightarrow> int \<Rightarrow> int \<Rightarrow>
   schedule_store \<Rightarrow> (claimed_schedule list \<times> schedule_store) res" where
  "claim_recoverable sha tzdb busy clk late now limit worker_id token lease_seconds max_attempts st =
     ebind (check_credentials worker_id token lease_seconds) (\<lambda>_.
     ebind (positive_integer limit 1000) (\<lambda>_.
     ebind (positive_integer max_attempts max_integer) (\<lambda>_.
     ebind (recover_occurrences (\<lambda>current. recover_occurrence sha tzdb busy current now worker_id token lease_seconds max_attempts)
              clk (recovery_candidates busy now limit max_attempts st) st) (\<lambda>(cs, st').
     ebind (raise_if (\<exists>(i, c) \<in> set (enumerate 0 cs). cs_lease_expires_at c \<le> late i) ScheduleClaimLostError) (\<lambda>_.
       Inr (cs, st'))))))"

section \<open>The claim under the locks\<close>

text \<open>
  \<open>lock_claim\<close> returns the locked rows with the snapshot of the occurrence; \<open>now\<close> is the reading of the
  clock once both are locked.
\<close>

definition find_occurrence :: "claimed_schedule \<Rightarrow> schedule_store \<Rightarrow> occurrence_row option" where
  "find_occurrence c st =
     find (\<lambda>x. oc_id x = cs_occurrence_id c \<and> oc_schedule_id x = cs_schedule_id c) (sc_occurrences st)"

definition lock_claim ::
  "digest \<Rightarrow> tz_database \<Rightarrow> claimed_schedule \<Rightarrow> time \<Rightarrow> schedule_store \<Rightarrow> (schedule_row \<times> occurrence_row) res" where
  "lock_claim sha tzdb c now st =
     ebind (require_row (cs_project_id c) (cs_schedule_id c) st) (\<lambda>r.
     case find_occurrence c st of
       None \<Rightarrow> Inl ScheduleClaimLostError
     | Some x \<Rightarrow>
         ebind (raise_if (sr_occurrence_protocol r \<noteq> 1) ScheduleClaimLostError) (\<lambda>_.
         ebind (stored_snapshot sha tzdb x) (\<lambda>s.
         ebind (match_claim x s c) (\<lambda>_.
         ebind (require_fence sha x c now False) (\<lambda>_. Inr (r, x))))))"

definition validate_original_request ::
  "digest \<Rightarrow> tz_database \<Rightarrow> occurrence_row \<Rightarrow> run_intent \<Rightarrow> string \<Rightarrow> unit res" where
  "validate_original_request sha tzdb x intent key =
     ebind (stored_snapshot sha tzdb x) (\<lambda>s.
       raise_if (snapshot_key s \<noteq> key \<or>
         canonical_json (intent_to_json (ss_intent s)) \<noteq> canonical_json (intent_to_json intent))
         ScheduleOccurrenceConflictError)"

definition overlapping_run :: "occurrence_row \<Rightarrow> schedule_store \<Rightarrow> run_row \<Rightarrow> bool" where
  "overlapping_run x st run \<longleftrightarrow> \<not> is_terminal (run_status run) \<and>
     list_ex (\<lambda>y. oc_run_id y = Some (run_id run) \<and> oc_schedule_id y = oc_schedule_id x \<and> oc_id y \<noteq> oc_id x)
       (sc_occurrences st)"

definition has_overlapping_run ::
  "digest \<Rightarrow> clock \<Rightarrow> occurrence_row \<Rightarrow> claimed_schedule \<Rightarrow> schedule_store \<Rightarrow> bool res" where
  "has_overlapping_run sha clk x c st =
     ebind (require_fence sha x c (clk 0) False) (\<lambda>_.
     let found = list_ex (overlapping_run x st) (db_runs (sc_db st)) in
     ebind (require_fence sha x c (clk 1) False) (\<lambda>_. Inr found))"

section \<open>Settling an occurrence\<close>

record schedule_result =
  rt_schedule_id :: uuid
  rt_occurrence_at :: time
  rt_outcome :: schedule_outcome
  rt_run_id :: "uuid option"
  rt_detail :: "string option"

definition validate_result :: "occurrence_row \<Rightarrow> schedule_result \<Rightarrow> unit res" where
  "validate_result x result =
     raise_if (rt_schedule_id result \<noteq> oc_schedule_id x \<or> rt_occurrence_at result \<noteq> oc_occurrence_at x \<or>
       rt_outcome result \<notin> {Schedule_Plan.RUN_CREATED, SKIPPED_OVERLAP, FAILED_PRECONDITION} \<or>
       (rt_outcome result = Schedule_Plan.RUN_CREATED) \<noteq> (rt_run_id result \<noteq> None) \<or>
       (\<exists>s \<in> set_option (rt_detail result). 512 < length s)) ScheduleOccurrenceConflictError"

definition stored_result :: "occurrence_row \<Rightarrow> schedule_result res" where
  "stored_result x =
     (case oc_outcome x of
        None \<Rightarrow> Inl ScheduleOccurrenceConflictError
      | Some outcome \<Rightarrow>
          ebind (raise_if (oc_settled_at x = None) ScheduleOccurrenceConflictError) (\<lambda>_.
          let result = \<lparr>rt_schedule_id = oc_schedule_id x, rt_occurrence_at = oc_occurrence_at x,
                rt_outcome = outcome, rt_run_id = oc_run_id x, rt_detail = oc_detail x\<rparr> in
          ebind (validate_result x result) (\<lambda>_. Inr result)))"

definition check_result_run ::
  "digest \<Rightarrow> digest128 \<Rightarrow> tz_database \<Rightarrow> occurrence_row \<Rightarrow> schedule_result \<Rightarrow> schedule_store \<Rightarrow> unit res" where
  "check_result_run sha sha1 tzdb x result st =
     (case rt_run_id result of
        None \<Rightarrow> Inr ()
      | Some rid \<Rightarrow>
          ebind (stored_snapshot sha tzdb x) (\<lambda>s.
          ebind (find_task_run_replay sha sha1 (ss_intent s) (snapshot_key s) (sc_db st)) (\<lambda>existing.
            raise_if (\<not> (\<exists>run \<in> set_option existing. cr_run_id run = rid)) ScheduleOccurrenceConflictError)))"

definition settled_occurrence :: "time \<Rightarrow> schedule_result \<Rightarrow> occurrence_row \<Rightarrow> occurrence_row" where
  "settled_occurrence now result x =
     x\<lparr>oc_status := OCC_SETTLED, oc_outcome := Some (rt_outcome result), oc_run_id := rt_run_id result,
       oc_detail := rt_detail result, oc_settled_at := Some now\<rparr>"

text \<open>The schedule after a settlement: its count, its summary, and the end of an unchanged generation.\<close>

definition counted_schedule :: "schedule_result \<Rightarrow> schedule_row \<Rightarrow> schedule_row" where
  "counted_schedule result r =
     (if rt_run_id result = None then r else r\<lparr>sr_run_count := sr_run_count r + 1\<rparr>)"

definition summarized_schedule :: "occurrence_row \<Rightarrow> schedule_result \<Rightarrow> schedule_row \<Rightarrow> schedule_row" where
  "summarized_schedule x result r =
     (if \<forall>t \<in> set_option (sr_last_run_at r). t < oc_occurrence_at x then
        let r' = r\<lparr>sr_last_run_at := Some (oc_occurrence_at x), sr_last_outcome := Some (rt_outcome result),
                   sr_last_error := rt_detail result\<rparr> in
        if rt_run_id result = None then r' else r'\<lparr>sr_last_run_id := rt_run_id result\<rparr>
      else r)"

definition finished_schedule :: "bool \<Rightarrow> claimed_schedule \<Rightarrow> schedule_result \<Rightarrow> schedule_row \<Rightarrow> schedule_row" where
  "finished_schedule unchanged c result r =
     (if unchanged \<and> sr_status r = ACTIVE then
        if rt_outcome result = FAILED_PRECONDITION then r\<lparr>sr_status := ERROR, sr_next_run_at := None\<rparr>
        else if cs_exhausted c \<or> (\<exists>n \<in> set_option (sr_max_runs r). n \<le> sr_run_count r)
        then r\<lparr>sr_status := COMPLETED, sr_next_run_at := None\<rparr> else r
      else r)"

definition settle_occurrence ::
  "digest \<Rightarrow> clock \<Rightarrow> schedule_row \<Rightarrow> occurrence_row \<Rightarrow> claimed_schedule \<Rightarrow> schedule_result \<Rightarrow> schedule_store \<Rightarrow>
   (schedule_result \<times> schedule_store) res" where
  "settle_occurrence sha clk r x c result st =
     ebind (require_fence sha x c (clk 1) False) (\<lambda>_.
     let unchanged = (sr_configuration_version r = cs_configuration_version c \<and>
                      sr_row_version r = cs_claim_row_version c);
         x' = settled_occurrence (clk 1) result x in
     ebind (bump (finished_schedule unchanged c result
              (summarized_schedule x result (counted_schedule result r)))) (\<lambda>r'.
     ebind (save_schedule r' st) (\<lambda>st1.
     ebind (save_occurrence x' st1) (\<lambda>st2.
     ebind (require_fence sha x' c (clk 2) True) (\<lambda>_. Inr (result, st2))))))"

definition record_outcome ::
  "digest \<Rightarrow> digest128 \<Rightarrow> tz_database \<Rightarrow> clock \<Rightarrow> claimed_schedule \<Rightarrow> schedule_result \<Rightarrow> schedule_store \<Rightarrow>
   (schedule_result \<times> schedule_store) res" where
  "record_outcome sha sha1 tzdb clk c result st =
     ebind (lock_claim sha tzdb c (clk 0) st) (\<lambda>(r, x).
     ebind (validate_result x result) (\<lambda>_.
     if oc_status x = OCC_SETTLED then
       ebind (stored_result x) (\<lambda>existing.
       ebind (raise_if (existing \<noteq> result) ScheduleOccurrenceConflictError) (\<lambda>_. Inr (existing, st)))
     else
       ebind (check_result_run sha sha1 tzdb x result st) (\<lambda>_.
         settle_occurrence sha clk r x c result st)))"

section \<open>Observing a schedule\<close>

datatype schedule_tracking = TRACKED | LEGACY_UNAVAILABLE

record pending_occurrence =
  po_occurrence_id :: uuid
  po_occurrence_at :: time
  po_configuration_version :: int
  po_created_at :: time
  po_attempt_count :: int
  po_lease_expires_at :: time

record schedule_activity =
  ac_schedule_id :: uuid
  ac_project_id :: uuid
  ac_row_version :: int
  ac_configuration_version :: int
  ac_tracking :: schedule_tracking
  ac_checked_at :: time
  ac_automatic_attempt_limit :: int
  ac_pending :: "pending_occurrence option"

definition default_schedule_max_attempts :: int where
  "default_schedule_max_attempts = 3"

definition pending_projection ::
  "digest \<Rightarrow> tz_database \<Rightarrow> schedule_row \<Rightarrow> occurrence_row \<Rightarrow> pending_occurrence res" where
  "pending_projection sha tzdb r x =
     ebind (stored_snapshot sha tzdb x) (\<lambda>s.
     ebind (raise_if (sr_occurrence_protocol r \<noteq> 1 \<or> oc_schedule_id x \<noteq> sr_id r \<or>
         oc_project_id x \<noteq> sr_project_id r \<or> oc_created_by x \<noteq> sr_created_by r \<or>
         oc_skill_version_id x \<noteq> sr_skill_version_id r \<or> it_task_key (ss_intent s) \<noteq> sr_task_key r \<or>
         sr_configuration_version r < oc_configuration_version x \<or> sr_row_version r < ss_claim_row_version s \<or>
         oc_status x \<noteq> OCC_PENDING \<or> oc_run_id x \<noteq> None \<or> oc_outcome x \<noteq> None \<or> oc_settled_at x \<noteq> None)
         ValueError) (\<lambda>_.
     ebind (positive_integer (oc_lease_generation x) max_integer) (\<lambda>_.
     ebind (utc_instant True (oc_occurrence_at x)) (\<lambda>instant.
     ebind (positive_integer (oc_attempt_count x) max_integer) (\<lambda>attempts.
       Inr \<lparr>po_occurrence_id = oc_id x, po_occurrence_at = instant,
            po_configuration_version = oc_configuration_version x, po_created_at = oc_created_at x,
            po_attempt_count = attempts, po_lease_expires_at = oc_lease_expires_at x\<rparr>)))))"

definition activity_of ::
  "digest \<Rightarrow> tz_database \<Rightarrow> time \<Rightarrow> schedule_row \<Rightarrow> occurrence_row option \<Rightarrow> schedule_activity res" where
  "activity_of sha tzdb checked_at r pending =
     ebind (raise_if (sr_occurrence_protocol r \<notin> {0, 1}) ValueError) (\<lambda>_.
     ebind (positive_integer (sr_row_version r) max_integer) (\<lambda>row_version.
     ebind (positive_integer (sr_configuration_version r) max_integer) (\<lambda>configuration_version.
     ebind (case pending of
              None \<Rightarrow> Inr None
            | Some x \<Rightarrow> ebind (pending_projection sha tzdb r x) (\<lambda>p. Inr (Some p))) (\<lambda>projection.
       Inr \<lparr>ac_schedule_id = sr_id r, ac_project_id = sr_project_id r, ac_row_version = row_version,
            ac_configuration_version = configuration_version,
            ac_tracking = (if sr_occurrence_protocol r = 1 then TRACKED else LEGACY_UNAVAILABLE),
            ac_checked_at = checked_at, ac_automatic_attempt_limit = default_schedule_max_attempts,
            ac_pending = projection\<rparr>))))"

definition activity_error :: "exn \<Rightarrow> bool" where
  "activity_error e \<longleftrightarrow> value_error e \<or> e \<in> {ScheduleOccurrenceConflictError, TypeError, AttributeError}"

definition get_activity ::
  "digest \<Rightarrow> tz_database \<Rightarrow> time \<Rightarrow> uuid \<Rightarrow> uuid \<Rightarrow> schedule_store \<Rightarrow> schedule_activity res" where
  "get_activity sha tzdb checked_at project_id schedule_id st =
     ebind (require_row project_id schedule_id st) (\<lambda>r.
     case pending_of_schedule schedule_id st of
       [] \<Rightarrow> rethrow activity_error ScheduleActivityUnavailableError (activity_of sha tzdb checked_at r None)
     | [x] \<Rightarrow> rethrow activity_error ScheduleActivityUnavailableError (activity_of sha tzdb checked_at r (Some x))
     | _ \<Rightarrow> Inl ScheduleActivityUnavailableError)"

section \<open>Taking part in the creation of a run\<close>

text \<open>
  \<open>owner\<close> is the status and the role of the creator as \<^verbatim>\<open>lock_creator\<close> finds them, \<open>access\<close> whether the
  creator may write in the active project (the code of \<^verbatim>\<open>projects/repository.py\<close>).
\<close>

record creation_authority =
  ca_actor_system_role :: string
  ca_project_membership :: string
  ca_auto_approval_allowed :: bool

definition authorize_creation ::
  "digest \<Rightarrow> tz_database \<Rightarrow> time \<Rightarrow> (string \<times> string) option \<Rightarrow> bool \<Rightarrow> claimed_schedule \<Rightarrow> run_intent \<Rightarrow> string \<Rightarrow>
   schedule_store \<Rightarrow> creation_authority res" where
  "authorize_creation sha tzdb now owner access c intent key st =
     (case owner of
        None \<Rightarrow> Inl ScheduleOwnerUnavailableError
      | Some (status, role) \<Rightarrow>
          ebind (raise_if (status \<noteq> ''ACTIVE'' \<or> role \<notin> {''ADMIN'', ''USER''}) ScheduleOwnerUnavailableError) (\<lambda>_.
          ebind (raise_if (\<not> access) ScheduleOwnerUnavailableError) (\<lambda>_.
          ebind (lock_claim sha tzdb c now st) (\<lambda>(r, x).
          ebind (validate_original_request sha tzdb x intent key) (\<lambda>_.
            Inr \<lparr>ca_actor_system_role = role,
                 ca_project_membership = (if role = ''ADMIN'' then ''ADMIN_BYPASS'' else ''ACTIVE''),
                 ca_auto_approval_allowed = it_auto_approve intent\<rparr>)))))"

definition before_create ::
  "digest \<Rightarrow> tz_database \<Rightarrow> clock \<Rightarrow> claimed_schedule \<Rightarrow> schedule_store \<Rightarrow> unit res" where
  "before_create sha tzdb clk c st =
     ebind (lock_claim sha tzdb c (clk 0) st) (\<lambda>(r, x).
     ebind (raise_if (oc_status x \<noteq> OCC_PENDING) ScheduleClaimLostError) (\<lambda>_.
     ebind (has_overlapping_run sha (\<lambda>n. clk (n + 1)) x c st) (\<lambda>found.
     ebind (raise_if found ScheduleOverlapError) (\<lambda>_.
     ebind (lock_claim sha tzdb c (clk 3) st) (\<lambda>_. Inr ())))))"

definition complete_creation ::
  "digest \<Rightarrow> digest128 \<Rightarrow> tz_database \<Rightarrow> clock \<Rightarrow> claimed_schedule \<Rightarrow> created_run \<Rightarrow> schedule_store \<Rightarrow>
   schedule_store res" where
  "complete_creation sha sha1 tzdb clk c created st =
     ebind (record_outcome sha sha1 tzdb clk c
              \<lparr>rt_schedule_id = cs_schedule_id c, rt_occurrence_at = cs_occurrence_at c,
               rt_outcome = Schedule_Plan.RUN_CREATED, rt_run_id = Some (cr_run_id created), rt_detail = None\<rparr> st)
       (\<lambda>(_, st'). Inr st')"

end
