(* ===== verification/Redaction.thy ===== *)
theory Redaction
  imports Pyvalue
begin

text \<open>
  Detection and removal of credentials: \<^verbatim>\<open>core/redaction.py\<close> and the projection of remote
  diagnostics in \<^verbatim>\<open>integrations/mcp_errors.py\<close>.

  The regular expressions are recognizers on texts: a search is a scan over the positions of the
  text that remembers whether the character before is a word character (\<^verbatim>\<open>\b\<close>). The generated
  identifier of \<^verbatim>\<open>local_diagnostic_id\<close> is an argument.

  The lemmas: the scans find exactly the occurrences the expressions describe, \<^verbatim>\<open>find_sensitive_key\<close>
  answers \<^const>\<open>None\<close> exactly when no entry at any depth is sensitive, and a cut text is sensitive only
  if the whole text was.
\<close>

section \<open>Characters and lengths\<close>

text \<open>\<^verbatim>\<open>\w\<close>, \<^verbatim>\<open>str.isprintable\<close> and \<^verbatim>\<open>str.lower\<close> for one code point below 256.\<close>

definition word_char :: "char \<Rightarrow> bool" where
  "word_char c \<longleftrightarrow> ascii_alnum c \<or> c = CHR ''_'' \<or>
     code c \<in> {170, 178, 179, 181, 185, 186, 188, 189, 190} \<or>
     192 \<le> code c \<and> code c \<noteq> 215 \<and> code c \<noteq> 247"

definition printable :: "char \<Rightarrow> bool" where
  "printable c \<longleftrightarrow> 32 \<le> code c \<and> code c \<le> 126 \<or> 161 \<le> code c \<and> code c \<noteq> 173"

definition to_lower :: "char \<Rightarrow> char" where
  "to_lower c =
     (if ascii_upper c \<or> 192 \<le> code c \<and> code c \<le> 222 \<and> code c \<noteq> 215
      then char_of (code c + 32) else c)"

text \<open>\<^verbatim>\<open>len(s.encode("utf-8"))\<close>.\<close>

definition utf8_len :: "string \<Rightarrow> nat" where
  "utf8_len s = sum_list (map (\<lambda>c. if code c < 128 then 1 else 2) s)"

definition prefix_rest :: "string \<Rightarrow> string \<Rightarrow> string option" where
  "prefix_rest w s = (if take (length w) s = w then Some (drop (length w) s) else None)"

text \<open>\<^verbatim>\<open>w in s\<close>.\<close>

fun contains_text :: "string \<Rightarrow> string \<Rightarrow> bool" where
  "contains_text w [] = (w = [])"
| "contains_text w (c # cs) = (prefix_rest w (c # cs) \<noteq> None \<or> contains_text w cs)"

section \<open>Texts that look like credentials\<close>

definition credential_words :: "string list" where
  "credential_words = [''api_key'', ''api-key'', ''apikey'', ''authorization'', ''credential'',
     ''password'', ''secret'', ''token'']"

definition assigns :: "string \<Rightarrow> bool" where
  "assigns s \<longleftrightarrow> (case dropWhile py_space s of [] \<Rightarrow> False | c # _ \<Rightarrow> c = CHR '':'' \<or> c = CHR ''='')"

text \<open>One of the words, in either case, followed by \<^verbatim>\<open>\s*[:=]\<close>.\<close>

definition credential_at :: "string \<Rightarrow> bool" where
  "credential_at s \<longleftrightarrow>
     list_ex (\<lambda>w. prefix_rest w (map to_lower s) \<noteq> None \<and> assigns (drop (length w) s)) credential_words"

fun credential_scan :: "bool \<Rightarrow> string \<Rightarrow> bool" where
  "credential_scan inside [] = False"
| "credential_scan inside (c # cs) =
     (\<not> inside \<and> credential_at (c # cs) \<or> credential_scan (word_char c) cs)"

definition marker_char :: "char \<Rightarrow> bool" where
  "marker_char c \<longleftrightarrow> ascii_upper c \<or> ascii_digit c \<or> c = CHR '' ''"

text \<open>\<^verbatim>\<open>(?:[A-Z0-9 ]+ )?PRIVATE KEY-----\<close>.\<close>

fun marker_kind :: "string \<Rightarrow> bool" where
  "marker_kind [] = False"
| "marker_kind (c # cs) = (marker_char c \<and> (prefix_rest '' PRIVATE KEY-----'' cs \<noteq> None \<or> marker_kind cs))"

definition marker_at :: "string \<Rightarrow> bool" where
  "marker_at s \<longleftrightarrow>
     (case prefix_rest ''-----BEGIN '' s of
        None \<Rightarrow> False
      | Some r \<Rightarrow> prefix_rest ''PRIVATE KEY-----'' r \<noteq> None \<or> marker_kind r)"

fun marker_scan :: "string \<Rightarrow> bool" where
  "marker_scan [] = False"
| "marker_scan (c # cs) = (marker_at (c # cs) \<or> marker_scan cs)"

definition contains_sensitive_content :: "string \<Rightarrow> bool" where
  "contains_sensitive_content s \<longleftrightarrow> credential_scan False s \<or> marker_scan s"

section \<open>Sensitive field names\<close>

definition sensitive_key_names :: "string list" where
  "sensitive_key_names = [''api_key'', ''auth'', ''authorization'', ''credential'', ''password'',
     ''secret'', ''token'']"

definition sensitive_key_fragments :: "string list" where
  "sensitive_key_fragments = [''password'', ''secret'', ''token'']"

definition sensitive_name :: "bool \<Rightarrow> string \<Rightarrow> bool" where
  "sensitive_name include_password key \<longleftrightarrow>
     (let normalized = map to_lower key in
      normalized \<in> set sensitive_key_names \<and> (include_password \<or> normalized \<noteq> ''password'') \<or>
      list_ex (\<lambda>f. (include_password \<or> f \<noteq> ''password'') \<and> contains_text f normalized)
        sensitive_key_fragments)"

text \<open>A reference to a control of a user interface is no credential, whatever its name.\<close>

definition control_identifier :: "string \<Rightarrow> json \<Rightarrow> bool" where
  "control_identifier key v \<longleftrightarrow>
     (let normalized = filter (\<lambda>c. c \<noteq> CHR ''_'' \<and> c \<noteq> CHR ''-'') (map to_lower key) in
      prefix_rest (rev ''automationid'') (rev normalized) \<noteq> None \<and>
      (case v of
         JStr s \<Rightarrow> 0 < length s \<and> length s \<le> 512 \<and> \<not> list_ex (\<lambda>c. code c < 32) s \<and>
           \<not> contains_sensitive_content s
       | _ \<Rightarrow> False))"

definition sensitive_entry :: "bool \<Rightarrow> string \<Rightarrow> json \<Rightarrow> bool" where
  "sensitive_entry include_password k v \<longleftrightarrow>
     sensitive_name include_password k \<and> \<not> control_identifier k v"

fun first_found :: "'a option list \<Rightarrow> 'a option" where
  "first_found [] = None"
| "first_found (None # xs) = first_found xs"
| "first_found (Some x # xs) = Some x"

primrec find_sensitive_key :: "bool \<Rightarrow> json \<Rightarrow> string option" where
  "find_sensitive_key p JNull = None"
| "find_sensitive_key p (JBool b) = None"
| "find_sensitive_key p (JInt i) = None"
| "find_sensitive_key p (JFloat r t) = None"
| "find_sensitive_key p (JStr s) = None"
| "find_sensitive_key p (JArr js) = first_found (map (find_sensitive_key p) js)"
| "find_sensitive_key p (JObj kvs) =
     first_found (map (\<lambda>((k, v), (_, found)). if sensitive_entry p k v then Some k else found)
       (zip kvs (map (map_prod id (find_sensitive_key p)) kvs)))"

section \<open>Remote diagnostics\<close>

fun scan_for :: "(bool \<Rightarrow> string \<Rightarrow> bool) \<Rightarrow> bool \<Rightarrow> string \<Rightarrow> bool" where
  "scan_for at_pos inside [] = False"
| "scan_for at_pos inside (c # cs) = (at_pos inside (c # cs) \<or> scan_for at_pos (word_char c) cs)"

text \<open>\<^verbatim>\<open>(?i)(?:\bbearer\s+\S+|https?://[^\s/]+@)\<close>.\<close>

definition bearer_at :: "bool \<Rightarrow> string \<Rightarrow> bool" where
  "bearer_at inside s \<longleftrightarrow> \<not> inside \<and>
     prefix_rest ''bearer'' (map to_lower s) \<noteq> None \<and>
     (case drop 6 s of [] \<Rightarrow> False | c # cs \<Rightarrow> py_space c \<and> \<not> list_all py_space cs)"

definition url_user :: "string \<Rightarrow> bool" where
  "url_user s \<longleftrightarrow> CHR ''@'' \<in> set (drop 1 (takeWhile (\<lambda>c. \<not> py_space c \<and> c \<noteq> CHR ''/'') s))"

definition url_at :: "bool \<Rightarrow> string \<Rightarrow> bool" where
  "url_at inside s \<longleftrightarrow>
     prefix_rest ''http://'' (map to_lower s) \<noteq> None \<and> url_user (drop 7 s) \<or>
     prefix_rest ''https://'' (map to_lower s) \<noteq> None \<and> url_user (drop 8 s)"

definition carries_access :: "string \<Rightarrow> bool" where
  "carries_access s \<longleftrightarrow> scan_for bearer_at False s \<or> scan_for url_at False s"

definition shows_credential :: "string option \<Rightarrow> string \<Rightarrow> bool" where
  "shows_credential credential s \<longleftrightarrow>
     (case credential of None \<Rightarrow> False | Some c \<Rightarrow> c \<noteq> [] \<and> contains_text c s)"

definition clean_text :: "string option \<Rightarrow> string \<Rightarrow> string" where
  "clean_text credential s =
     (if contains_sensitive_content s \<or> shows_credential credential s \<or> carries_access s
      then ''[redacted]''
      else take 768 (filter (\<lambda>c. printable c \<or> c = CHR 0x0A \<or> c = CHR 0x09) s))"

text \<open>\<^verbatim>\<open>re.sub(r"(?<!^)(?=[A-Z])", "_", key).lower().replace("-", "_")\<close>.\<close>

definition snake_name :: "string \<Rightarrow> string" where
  "snake_name key =
     map (\<lambda>c. if c = CHR ''-'' then CHR ''_'' else c)
       (map to_lower (take 1 key @ concat (map (\<lambda>c. if ascii_upper c then [CHR ''_'', c] else [c]) (drop 1 key))))"

definition redacts_key :: "string \<Rightarrow> bool" where
  "redacts_key key \<longleftrightarrow>
     find_sensitive_key True (JObj [(key, JNull)]) \<noteq> None \<or>
     find_sensitive_key True (JObj [(snake_name key, JNull)]) \<noteq> None"

definition skips_key :: "string option \<Rightarrow> string \<Rightarrow> bool" where
  "skips_key credential key \<longleftrightarrow>
     80 < length key \<or> contains_sensitive_content key \<or> shows_credential credential key"

text \<open>
  The recursion of \<^verbatim>\<open>clean\<close>. \<open>g\<close> cleans a value one level deeper; \<open>n\<close> is the remaining number of values,
  which the closure counts down over the whole tree.
\<close>

fun clean_items :: "(json \<Rightarrow> int \<Rightarrow> json \<times> int) \<Rightarrow> json list \<Rightarrow> int \<Rightarrow> json list \<times> int" where
  "clean_items g [] n = ([], n)"
| "clean_items g (v # vs) n =
     (let (w, n1) = g v n; (ws, n2) = clean_items g vs n1 in (w # ws, n2))"

fun clean_fields ::
  "string option \<Rightarrow> (json \<Rightarrow> int \<Rightarrow> json \<times> int) \<Rightarrow> (string \<times> json) list \<Rightarrow> int \<Rightarrow> (string \<times> json) list \<times> int" where
  "clean_fields credential g [] n = ([], n)"
| "clean_fields credential g ((k, v) # kvs) n =
     (if skips_key credential k then clean_fields credential g kvs n
      else
        let (w, n1) = (if redacts_key k then (JStr ''[redacted]'', n) else g v n);
            (rest, n2) = clean_fields credential g kvs n1 in
        ((k, w) # rest, n2))"

definition clean_item :: "string option \<Rightarrow> (json \<Rightarrow> int \<Rightarrow> json \<times> int) \<Rightarrow> json \<Rightarrow> int \<Rightarrow> json \<times> int" where
  "clean_item credential g v n =
     (case v of
        JStr s \<Rightarrow> (JStr (clean_text credential s), n)
      | JObj kvs \<Rightarrow> (let (r, n1) = clean_fields credential g (take 16 kvs) n in (JObj r, n1))
      | JArr vs \<Rightarrow> (let (r, n1) = clean_items g (take 8 vs) n in (JArr r, n1))
      | _ \<Rightarrow> (v, n))"

text \<open>The first argument is the number of levels left: the depth starts at 0 and 5 is too deep.\<close>

primrec clean :: "string option \<Rightarrow> nat \<Rightarrow> json \<Rightarrow> int \<Rightarrow> json \<times> int" where
  "clean credential 0 v n = (JStr ''[omitted]'', n - 1)"
| "clean credential (Suc l) v n =
     (if n - 1 < 0 then (JStr ''[omitted]'', n - 1) else clean_item credential (clean credential l) v (n - 1))"

definition safe_remote_detail :: "string option \<Rightarrow> json \<Rightarrow> json" where
  "safe_remote_detail credential v =
     (let result = fst (clean credential 5 v 64) in
      if \<not> is_obj result then JObj []
      else if 4096 < utf8_len (canonical_json result)
      then JObj [(''omitted'', JStr ''remote diagnostic exceeds limit'')]
      else result)"

definition remote_detail_message :: "json \<Rightarrow> string" where
  "remote_detail_message v =
     (let detail = safe_remote_detail None v in
      if truthy detail then '' Remote diagnostic data (untrusted): '' @ canonical_json detail else [])"

text \<open>\<^verbatim>\<open>[0-9a-f]{32}\<close>.\<close>

definition hex32 :: "string \<Rightarrow> bool" where
  "hex32 s \<longleftrightarrow> length s = 32 \<and> list_all lower_hex s"

definition local_diagnostic_id :: "string \<Rightarrow> json \<Rightarrow> string" where
  "local_diagnostic_id generated v =
     (case v of JStr s \<Rightarrow> if hex32 s then s else generated | _ \<Rightarrow> generated)"

section \<open>Occurrences\<close>

lemma prefix_rest_Some: "prefix_rest w s = Some r \<longleftrightarrow> s = w @ r"
  by (auto simp: prefix_rest_def) (metis append_take_drop_id)

lemma prefix_rest_ne: "prefix_rest w s \<noteq> None \<longleftrightarrow> (\<exists>r. s = w @ r)"
  using prefix_rest_Some by fastforce

lemma contains_text_iff: "contains_text w s \<longleftrightarrow> (\<exists>a b. s = a @ w @ b)"
proof (induction s)
  case (Cons c cs)
  have "(\<exists>a b. c # cs = a @ w @ b) \<longleftrightarrow> (\<exists>b. c # cs = w @ b) \<or> (\<exists>a b. cs = a @ w @ b)"
    by (metis Cons_eq_append_conv append_Cons append_Nil)
  with Cons show ?case by (simp add: prefix_rest_Some)
qed simp

lemma first_found_None [simp]: "first_found xs = None \<longleftrightarrow> (\<forall>x \<in> set xs. x = None)"
  by (induction xs rule: first_found.induct) auto

text \<open>All entries of a value, at any depth.\<close>

primrec json_entries :: "json \<Rightarrow> (string \<times> json) list" where
  "json_entries JNull = []"
| "json_entries (JBool b) = []"
| "json_entries (JInt i) = []"
| "json_entries (JFloat r t) = []"
| "json_entries (JStr s) = []"
| "json_entries (JArr js) = concat (map json_entries js)"
| "json_entries (JObj kvs) = kvs @ concat (map snd (map (map_prod id json_entries) kvs))"

lemma zip_map_self: "zip xs (map f xs) = map (\<lambda>x. (x, f x)) xs"
  by (induction xs) simp_all

lemma find_sensitive_key_None:
  "find_sensitive_key p v = None \<longleftrightarrow> (\<forall>(k, w) \<in> set (json_entries v). \<not> sensitive_entry p k w)"
proof (induction v)
  case (JArr js)
  then show ?case by auto
next
  case (JObj kvs)
  have "find_sensitive_key p (JObj kvs) = None \<longleftrightarrow>
      (\<forall>(k, w) \<in> set kvs. \<not> sensitive_entry p k w \<and> find_sensitive_key p w = None)"
    by (auto simp: zip_map_self split: if_splits)
  also have "\<dots> \<longleftrightarrow> (\<forall>(k, w) \<in> set kvs. \<not> sensitive_entry p k w \<and>
      (\<forall>(k', w') \<in> set (json_entries w). \<not> sensitive_entry p k' w'))"
    using JObj by (fastforce simp: snds.simps)
  also have "\<dots> \<longleftrightarrow> (\<forall>(k, w) \<in> set (json_entries (JObj kvs)). \<not> sensitive_entry p k w)"
    by fastforce
  finally show ?case .
qed simp_all

section \<open>What is in a part is in the whole\<close>

lemma prefix_rest_append: "prefix_rest w s \<noteq> None \<Longrightarrow> prefix_rest w (s @ t) \<noteq> None"
  by (auto simp: prefix_rest_Some)

lemma prefix_rest_length: "prefix_rest w s \<noteq> None \<Longrightarrow> length w \<le> length s"
  by (auto simp: prefix_rest_Some)

lemma assigns_append: "assigns s \<Longrightarrow> assigns (s @ t)"
  by (induction s) (auto simp: assigns_def)

lemma credential_at_append: "credential_at s \<Longrightarrow> credential_at (s @ t)"
proof -
  assume "credential_at s"
  then obtain w where w: "w \<in> set credential_words" "prefix_rest w (map to_lower s) \<noteq> None"
      "assigns (drop (length w) s)" by (auto simp: credential_at_def list_ex_iff)
  have "length w \<le> length s"
    using prefix_rest_length [OF w(2)] by simp
  then have "assigns (drop (length w) (s @ t))" using assigns_append [OF w(3)] by simp
  moreover have "prefix_rest w (map to_lower (s @ t)) \<noteq> None"
    using prefix_rest_append [OF w(2)] by simp
  ultimately show ?thesis using w(1) by (auto simp: credential_at_def list_ex_iff)
qed

lemma credential_scan_append: "credential_scan b s \<Longrightarrow> credential_scan b (s @ t)"
  by (induction b s rule: credential_scan.induct) (use credential_at_append in fastforce)+

lemma marker_kind_append: "marker_kind s \<Longrightarrow> marker_kind (s @ t)"
  by (induction s) (use prefix_rest_append in fastforce)+

lemma marker_at_append: "marker_at s \<Longrightarrow> marker_at (s @ t)"
proof -
  assume "marker_at s"
  then obtain r where r: "s = ''-----BEGIN '' @ r" "prefix_rest ''PRIVATE KEY-----'' r \<noteq> None \<or> marker_kind r"
    by (auto simp: marker_at_def prefix_rest_Some split: option.splits)
  then have "prefix_rest ''-----BEGIN '' (s @ t) = Some (r @ t)" by (simp add: prefix_rest_Some)
  with r(2) show ?thesis using prefix_rest_append marker_kind_append by (auto simp: marker_at_def)
qed

lemma marker_scan_append: "marker_scan s \<Longrightarrow> marker_scan (s @ t)"
  by (induction s) (use marker_at_append in fastforce)+

lemma contains_sensitive_content_append: "contains_sensitive_content s \<Longrightarrow> contains_sensitive_content (s @ t)"
  using credential_scan_append marker_scan_append by (auto simp: contains_sensitive_content_def)

lemma bearer_at_append: "bearer_at b s \<Longrightarrow> bearer_at b (s @ t)"
proof -
  assume a: "bearer_at b s"
  have "6 \<le> length s" using a by (cases "6 \<le> length s") (auto simp: bearer_at_def)
  then have "drop 6 (s @ t) = drop 6 s @ t" by simp
  with a show ?thesis using prefix_rest_append [of "''bearer''" "map to_lower s"]
    by (auto simp: bearer_at_def split: list.splits)
qed

lemma url_user_append:
  assumes "url_user s"
  shows "url_user (s @ t)"
proof -
  let ?P = "\<lambda>c. \<not> py_space c \<and> c \<noteq> CHR ''/''"
  have "takeWhile ?P (s @ t) = takeWhile ?P s @ (if \<forall>c \<in> set s. ?P c then takeWhile ?P t else [])"
    by (induction s) simp_all
  then obtain u where u: "takeWhile ?P (s @ t) = takeWhile ?P s @ u" by blast
  have "takeWhile ?P s \<noteq> []" using assms by (auto simp: url_user_def)
  then have "drop 1 (takeWhile ?P (s @ t)) = drop 1 (takeWhile ?P s) @ u"
    unfolding u by (cases "takeWhile ?P s") simp_all
  with assms show ?thesis by (simp add: url_user_def)
qed

lemma url_at_append: "url_at b s \<Longrightarrow> url_at b (s @ t)"
proof -
  assume a: "url_at b s"
  have "url_user (drop n (s @ t))" if "url_user (drop n s)" "n \<le> length s" for n
    using url_user_append [OF that(1)] that(2) by simp
  with a show ?thesis
    using prefix_rest_append [of _ "map to_lower s" "map to_lower t"] prefix_rest_length [of _ "map to_lower s"]
    unfolding url_at_def by fastforce
qed

lemma scan_for_append:
  assumes "\<And>b s. p b s \<Longrightarrow> p b (s @ t)" "scan_for p b s"
  shows "scan_for p b (s @ t)"
  using assms(2) by (induction s arbitrary: b) (use assms(1) in fastforce)+

lemma carries_access_append: "carries_access s \<Longrightarrow> carries_access (s @ t)"
  using scan_for_append [of bearer_at t, OF bearer_at_append] scan_for_append [of url_at t, OF url_at_append]
  unfolding carries_access_def by blast

section \<open>What a projected diagnostic shows\<close>

definition revealing :: "string \<Rightarrow> bool" where
  "revealing s \<longleftrightarrow> contains_sensitive_content s \<or> carries_access s"

definition plain_text :: "string \<Rightarrow> bool" where
  "plain_text s \<longleftrightarrow> list_all (\<lambda>c. printable c \<or> c = CHR 0x0A \<or> c = CHR 0x09) s"

text \<open>The texts of a value, without the names of its fields.\<close>

primrec json_texts :: "json \<Rightarrow> string list" where
  "json_texts JNull = []"
| "json_texts (JBool b) = []"
| "json_texts (JInt i) = []"
| "json_texts (JFloat r t) = []"
| "json_texts (JStr s) = [s]"
| "json_texts (JArr js) = concat (map json_texts js)"
| "json_texts (JObj kvs) = concat (map snd (map (map_prod id json_texts) kvs))"

lemma revealing_take: "revealing (take n s) \<Longrightarrow> revealing s"
  using contains_sensitive_content_append [of "take n s" "drop n s"]
    carries_access_append [of "take n s" "drop n s"] by (auto simp: revealing_def)

lemma redacted_not_revealing [simp]: "\<not> revealing ''[redacted]''" "\<not> revealing ''[omitted]''"
  "\<not> revealing ''remote diagnostic exceeds limit''"
proof -
  have "list_all (\<lambda>s. \<not> revealing s) [''[redacted]'', ''[omitted]'', ''remote diagnostic exceeds limit'']"
    by code_simp
  then show "\<not> revealing ''[redacted]''" "\<not> revealing ''[omitted]''"
    "\<not> revealing ''remote diagnostic exceeds limit''"
    by (simp_all only: list.pred_inject simp_thms)
qed

lemma clean_text_plain:
  assumes "plain_text s"
  shows "\<not> revealing (clean_text c s)"
proof -
  have "filter (\<lambda>c. printable c \<or> c = CHR 0x0A \<or> c = CHR 0x09) s = s"
    using assms by (simp add: plain_text_def list_all_iff)
  then show ?thesis using revealing_take [of 768 s] by (auto simp: clean_text_def revealing_def [of s])
qed

lemma clean_items_in:
  assumes "w \<in> set (fst (clean_items g vs n))"
  shows "\<exists>v \<in> set vs. \<exists>m. w = fst (g v m)"
  using assms
  by (induction vs arbitrary: n) (auto simp: Let_def split: prod.splits, (metis fst_conv)+)

lemma clean_fields_in:
  assumes "(k, w) \<in> set (fst (clean_fields c g kvs n))"
  shows "\<not> skips_key c k \<and> (if redacts_key k then w = JStr ''[redacted]''
      else \<exists>v m. (k, v) \<in> set kvs \<and> w = fst (g v m))"
  using assms
proof (induction kvs arbitrary: n)
  case (Cons kv kvs)
  obtain k' v' where kv: "kv = (k', v')" by fastforce
  show ?case
  proof (cases "skips_key c k'")
    case True
    with Cons.prems kv have "(k, w) \<in> set (fst (clean_fields c g kvs n))" by simp
    from Cons.IH [OF this] show ?thesis by (auto split: if_splits)
  next
    case False
    define wn where "wn = (if redacts_key k' then (JStr ''[redacted]'', n) else g v' n)"
    then consider "k = k'" "w = fst wn" | "(k, w) \<in> set (fst (clean_fields c g kvs (snd wn)))"
      using Cons.prems kv False by (cases "redacts_key k'") (auto simp: Let_def wn_def split: prod.splits)
    then show ?thesis
    proof cases
      case 1
      have "(k', v') \<in> set (kv # kvs)" by (simp add: kv)
      with 1 False show ?thesis unfolding wn_def by (cases "redacts_key k'") (simp, force)
    next
      case 2
      from Cons.IH [OF 2] show ?thesis by (auto split: if_splits)
    qed
  qed
qed simp

lemma take_texts:
  assumes "list_all P (json_texts (JObj kvs))" "(k, v) \<in> set (take n kvs)"
  shows "list_all P (json_texts v)"
  using assms in_set_takeD [OF assms(2)] by (fastforce simp: list_all_iff)

lemma clean_texts:
  assumes "list_all plain_text (json_texts v)"
  shows "list_all (\<lambda>s. \<not> revealing s) (json_texts (fst (clean c l v n)))"
  using assms
proof (induction l arbitrary: v n)
  case (Suc l)
  show ?case
  proof (cases v)
    case (JArr vs)
    have "list_all (\<lambda>s. \<not> revealing s) (json_texts w)"
      if w: "w \<in> set (fst (clean_items (clean c l) (take 8 vs) m))" for w m
    proof -
      obtain v' m' where "v' \<in> set (take 8 vs)" "w = fst (clean c l v' m')"
        using clean_items_in [OF w] by blast
      moreover have "list_all plain_text (json_texts v')"
        using Suc.prems JArr in_set_takeD [OF \<open>v' \<in> set (take 8 vs)\<close>] by (auto simp: list_all_iff)
      ultimately show ?thesis using Suc.IH by blast
    qed
    with JArr show ?thesis
      by (auto simp: clean_item_def Let_def list_all_iff split: prod.splits) (metis fst_conv)+
  next
    case (JObj kvs)
    have "list_all (\<lambda>s. \<not> revealing s) (json_texts w)"
      if w: "(k, w) \<in> set (fst (clean_fields c (clean c l) (take 16 kvs) m))" for k w m
    proof (cases "redacts_key k")
      case True
      with clean_fields_in [OF w] show ?thesis by simp
    next
      case False
      with clean_fields_in [OF w] obtain v' m' where "(k, v') \<in> set (take 16 kvs)" "w = fst (clean c l v' m')"
        by auto
      then show ?thesis using Suc.IH take_texts Suc.prems JObj by blast
    qed
    with JObj show ?thesis
      by (auto simp: clean_item_def Let_def list_all_iff split: prod.splits) (metis fst_conv)+
  qed (use Suc.prems clean_text_plain in \<open>auto simp: clean_item_def\<close>)
qed simp

definition shown_entry :: "string option \<Rightarrow> string \<times> json \<Rightarrow> bool" where
  "shown_entry c kv \<longleftrightarrow> \<not> skips_key c (fst kv) \<and> (redacts_key (fst kv) \<longrightarrow> snd kv = JStr ''[redacted]'')"

lemma clean_entries: "list_all (shown_entry c) (json_entries (fst (clean c l v n)))"
proof (induction l arbitrary: v n)
  case (Suc l)
  show ?case
  proof (cases v)
    case (JArr vs)
    have "list_all (shown_entry c) (json_entries w)"
      if w: "w \<in> set (fst (clean_items (clean c l) (take 8 vs) m))" for w m
      using clean_items_in [OF w] Suc.IH by blast
    with JArr show ?thesis
      by (auto simp: clean_item_def Let_def list_all_iff split: prod.splits) (metis fst_conv)+
  next
    case (JObj kvs)
    have "shown_entry c (k, w) \<and> list_all (shown_entry c) (json_entries w)"
      if w: "(k, w) \<in> set (fst (clean_fields c (clean c l) (take 16 kvs) m))" for k w m
    proof -
      note f = clean_fields_in [OF w]
      have "shown_entry c (k, w)" using f by (simp add: shown_entry_def)
      moreover have "list_all (shown_entry c) (json_entries w)"
        using f Suc.IH by (cases "redacts_key k") auto
      ultimately show ?thesis ..
    qed
    with JObj show ?thesis
      by (auto simp: clean_item_def Let_def list_all_iff split: prod.splits) (metis fst_conv)+
  qed (simp_all add: clean_item_def)
qed simp

end
