(* ===== verification/Effect_Outcome.thy ===== *)
theory Effect_Outcome
  imports Redaction Run_Domain
begin

text \<open>
  What is recorded about a controlled effect: the capabilities of \<^verbatim>\<open>effects/catalog.py\<close> and the
  deployment limits of \<^verbatim>\<open>effects/release.py\<close>, the diagnostics of \<^verbatim>\<open>effects/mcp_diagnostics.py\<close>, the failure
  record of \<^verbatim>\<open>effects/outcomes.py\<close>, the public tool error of \<^verbatim>\<open>effects/projections.py\<close>, and the result
  handed to the next segment (\<^verbatim>\<open>effects/continuation.py\<close>).

  The JSON schema library is outside: \<open>schema_ok\<close> stands for the validator of the result schema. The
  proposal validators that a capability carries belong to the proposal component and are left out of
  its record.
\<close>

section \<open>Capabilities\<close>

record effect_capability =
  ec_capability_version :: string
  ec_provider_versions :: "(string \<times> string) list"
  ec_preauthorizable :: bool
  ec_staged_authorization :: bool
  ec_run_auto_approvable :: bool
  ec_staged_providers :: "string list"
  ec_run_auto_approvable_providers :: "string list"

definition supports_run_approval :: "effect_capability \<Rightarrow> string option \<Rightarrow> bool" where
  "supports_run_approval c provider \<longleftrightarrow>
     ec_run_auto_approvable c \<or> provider \<in> Some ` set (ec_run_auto_approvable_providers c)"

definition supports_supervision :: "effect_capability \<Rightarrow> string option \<Rightarrow> bool" where
  "supports_supervision c provider \<longleftrightarrow>
     ec_staged_authorization c \<or> provider \<in> Some ` set (ec_staged_providers c)"

definition document_write :: string where
  "document_write = ''document.write/v1''"

definition database_write :: string where
  "database_write = ''database.write/v1''"

definition effect_capabilities :: "effect_capability list" where
  "effect_capabilities =
     [\<lparr>ec_capability_version = ''database.execute/v1'',
       ec_provider_versions = [(''postgres'', ''postgres-native/v2'')], ec_preauthorizable = False,
       ec_staged_authorization = True, ec_run_auto_approvable = True, ec_staged_providers = [],
       ec_run_auto_approvable_providers = []\<rparr>,
      \<lparr>ec_capability_version = ''http.write/v1'',
       ec_provider_versions = [(''http'', ''http-client/v2'')], ec_preauthorizable = False,
       ec_staged_authorization = True, ec_run_auto_approvable = True, ec_staged_providers = [],
       ec_run_auto_approvable_providers = []\<rparr>,
      \<lparr>ec_capability_version = ''mcp.call/v1'',
       ec_provider_versions = [(''mcp'', ''mcp-tools/v1'')], ec_preauthorizable = False,
       ec_staged_authorization = True, ec_run_auto_approvable = False, ec_staged_providers = [],
       ec_run_auto_approvable_providers = [''mcp'']\<rparr>,
      \<lparr>ec_capability_version = document_write,
       ec_provider_versions = [(''project-library'', ''project-library-receipt/v2'')],
       ec_preauthorizable = False, ec_staged_authorization = True, ec_run_auto_approvable = True,
       ec_staged_providers = [], ec_run_auto_approvable_providers = []\<rparr>,
      \<lparr>ec_capability_version = database_write,
       ec_provider_versions = [(''postgres'', ''postgres-receipt/v1'')], ec_preauthorizable = False,
       ec_staged_authorization = True, ec_run_auto_approvable = True, ec_staged_providers = [],
       ec_run_auto_approvable_providers = []\<rparr>,
      \<lparr>ec_capability_version = ''issue.update/v1'',
       ec_provider_versions = [(''redmine'', ''redmine-cas/v1'')], ec_preauthorizable = True,
       ec_staged_authorization = False, ec_run_auto_approvable = False, ec_staged_providers = [],
       ec_run_auto_approvable_providers = []\<rparr>,
      \<lparr>ec_capability_version = ''repository.write/v1'',
       ec_provider_versions = [(''git'', ''git-branch-commit/v2''), (''svn'', ''svn-branch-commit/v1'')],
       ec_preauthorizable = False, ec_staged_authorization = False, ec_run_auto_approvable = False,
       ec_staged_providers = [''git''], ec_run_auto_approvable_providers = [''git'']\<rparr>]"

definition resolve_effect_capability :: "string \<Rightarrow> effect_capability res" where
  "resolve_effect_capability version =
     (case find (\<lambda>c. ec_capability_version c = version) effect_capabilities of
        None \<Rightarrow> Inl ChangeProposalValidationError | Some c \<Rightarrow> Inr c)"

section \<open>Deployment limits\<close>

record execution_features =
  fe_deferred :: bool
  fe_database_writes :: bool
  fe_document_writes :: bool
  fe_git_writes :: bool
  fe_mcp_tools :: bool
  fe_http_writes :: bool

definition is_write_capability :: "string \<Rightarrow> bool" where
  "is_write_capability c \<longleftrightarrow>
     contains_text ''.update/'' c \<or> contains_text ''.apply/'' c \<or> contains_text ''.write/'' c \<or>
     c \<in> {''mcp.call/v1'', ''database.execute/v1''}"

definition is_deferred_execution_capability :: "string \<Rightarrow> bool" where
  "is_deferred_execution_capability c \<longleftrightarrow>
     c \<in> {''subagent.dispatch/v1'', ''change.propose/v1''} \<or>
     is_write_capability c \<and> prefix_rest ''workspace.'' c = None"

definition effects_enabled :: "execution_features \<Rightarrow> bool" where
  "effects_enabled f \<longleftrightarrow> fe_deferred f \<or> fe_database_writes f \<or> fe_document_writes f \<or> fe_git_writes f \<or>
     fe_mcp_tools f \<or> fe_http_writes f"

definition capability_enabled :: "execution_features \<Rightarrow> string \<Rightarrow> bool" where
  "capability_enabled f c \<longleftrightarrow>
     (if c = ''http.write/v1'' then fe_http_writes f
      else if c \<in> {''mcp.tools/v1'', ''mcp.query/v1'', ''mcp.download/v1'', ''mcp.call/v1''} then fe_mcp_tools f
      else if c \<in> {database_write, ''database.execute/v1''} then fe_database_writes f
      else if c = document_write then fe_document_writes f
      else if c = ''repository.write/v1'' then fe_deferred f \<or> fe_git_writes f
      else if c = ''change.propose/v1'' then effects_enabled f
      else fe_deferred f \<or> \<not> is_deferred_execution_capability c)"

definition write_capabilities :: "execution_features \<Rightarrow> string list" where
  "write_capabilities f = filter (capability_enabled f) (map ec_capability_version effect_capabilities)"

definition provider_enabled :: "execution_features \<Rightarrow> string \<Rightarrow> string option \<Rightarrow> bool" where
  "provider_enabled f c provider \<longleftrightarrow> capability_enabled f c \<and>
     (c \<noteq> ''repository.write/v1'' \<or> fe_deferred f \<or> provider \<in> {None, Some ''git''})"

definition document_operations :: "string list" where
  "document_operations = [''CREATE'', ''UPDATE'', ''MOVE'', ''MOVE_FOLDER'', ''CREATE_FOLDER'',
     ''DELETE_FOLDER'', ''TRASH'', ''RESTORE'']"

definition effect_enabled :: "execution_features \<Rightarrow> string \<Rightarrow> string \<Rightarrow> string option \<Rightarrow> bool" where
  "effect_enabled f c operation provider \<longleftrightarrow>
     c \<in> set (write_capabilities f) \<and>
     (c \<noteq> database_write \<or> operation \<in> {''INSERT'', ''UPDATE''}) \<and>
     (c \<noteq> document_write \<or> operation \<in> set document_operations) \<and>
     provider_enabled f c provider \<and>
     (c \<noteq> ''repository.write/v1'' \<or> operation = ''commit'') \<and>
     (c \<noteq> ''http.write/v1'' \<or> operation \<in> {''POST'', ''PUT'', ''PATCH'', ''DELETE''})"

definition require_effect :: "execution_features \<Rightarrow> string \<Rightarrow> string \<Rightarrow> string option \<Rightarrow> unit res" where
  "require_effect f c operation provider =
     raise_if (\<not> effect_enabled f c operation provider) ExecutionFeatureDisabledError"

section \<open>Diagnostics\<close>

definition mcp_stages :: "string list" where
  "mcp_stages = [''preflight'', ''authorize'', ''acquire'', ''call'', ''read_back'', ''verify'', ''confirm'']"

definition mcp_reasons :: "string list" where
  "mcp_reasons = [''remote_tool_error'', ''protocol_error'', ''transport_unconfirmed'', ''contract_changed'',
     ''invalid_arguments'', ''invalid_response'', ''read_back_path_missing'', ''read_back_mismatch'',
     ''desktop_busy'', ''operation_identity_unavailable'', ''authority_revoked'', ''invalid_contract'',
     ''output_schema_conflict'']"

definition id_field :: "string \<Rightarrow> json \<Rightarrow> (string \<times> json) list" where
  "id_field k v = (case jget k v of Some (JStr s) \<Rightarrow> if hex32 s then [(k, JStr s)] else [] | _ \<Rightarrow> [])"

text \<open>The required fields have the order of the code's set literal; a Python set has none.\<close>

definition safe_mcp_diagnostic :: "json \<Rightarrow> json option" where
  "safe_mcp_diagnostic v =
     (case (jget ''stage'' v, jget ''reason'' v, jget ''action_attempted'' v,
            jget ''call_response_received'' v, jget ''read_back_attempts'' v) of
        (Some (JStr stage), Some (JStr reason), Some (JBool attempted), Some (JBool received),
         Some (JInt attempts)) \<Rightarrow>
          if stage \<notin> set mcp_stages \<or> reason \<notin> set mcp_reasons \<or> attempts < 0 \<or> 3 < attempts then None
          else Some (JObj ([(''stage'', JStr stage), (''reason'', JStr reason),
              (''action_attempted'', JBool attempted), (''call_response_received'', JBool received),
              (''read_back_attempts'', JInt attempts)] @
              id_field ''diagnostic_id'' v @ id_field ''local_diagnostic_id'' v @
              (case jget ''remote_detail'' v of
                 Some (JObj kvs) \<Rightarrow> [(''remote_detail'', safe_remote_detail None (JObj kvs))] | _ \<Rightarrow> []) @
              (case jget ''check_index'' v of
                 Some (JInt i) \<Rightarrow> if 0 \<le> i \<and> i < 20 then [(''check_index'', JInt i)] else [] | _ \<Rightarrow> [])))
      | _ \<Rightarrow> None)"

definition diagnostic_message :: "json \<Rightarrow> string" where
  "diagnostic_message v =
     (case safe_mcp_diagnostic v of
        None \<Rightarrow> []
      | Some item \<Rightarrow>
          '' MCP stage='' @ py_str (jnull ''stage'' item) @ ''; reason='' @ py_str (jnull ''reason'' item) @ ''.'' @
          (case jget ''check_index'' item of
             Some (JInt i) \<Rightarrow> '' Read-back check '' @ show_int (i + 1) @ ''.'' | _ \<Rightarrow> []) @
          (case jget ''diagnostic_id'' item of
             Some d \<Rightarrow> '' Diagnostic ID: '' @ py_str d @ ''.'' | None \<Rightarrow> []) @
          (case jget ''local_diagnostic_id'' item of
             Some d \<Rightarrow> '' SKM diagnostic ID: '' @ py_str d @ ''.'' | None \<Rightarrow> []) @
          (if jnull ''action_attempted'' item = JBool True
           then '' Do not repeat the action; reconcile its original result.'' else []) @
          remote_detail_message (jnull ''remote_detail'' item))"

section \<open>Failures\<close>

definition sql_failure_messages :: "(string \<times> string) list" where
  "sql_failure_messages =
     [(''sql_request_not_sent'', ''The database request was not sent. Check the request, connection and execution configuration before proposing a corrected operation.''),
      (''sql_undefined_column'', ''The SQL references an unknown column. Inspect the table schema and correct the statement.''),
      (''sql_undefined_table'', ''The SQL references an unknown table. Verify its schema and table name.''),
      (''sql_permission_denied'', ''The database account denied this operation. Check its permissions.''),
      (''sql_invalid_parameter'', ''The SQL parameter or expression type is invalid. Check the actual column types and correct the statement.''),
      (''sql_constraint_violation'', ''The SQL violates a database constraint. Inspect the relevant data and table constraints.''),
      (''sql_syntax_error'', ''The database rejected the SQL syntax. Correct the statement.''),
      (''sql_transaction_rolled_back'', ''The SQL transaction was rolled back. Inspect the relevant schema and data before deciding the next operation.'')]"

definition sql_failure :: "string \<Rightarrow> bool" where
  "sql_failure c \<longleftrightarrow> c \<in> fst ` set sql_failure_messages"

definition sql_failure_message :: "string \<Rightarrow> string" where
  "sql_failure_message c =
     (case map_of sql_failure_messages c of
        None \<Rightarrow> []
      | Some m \<Rightarrow>
          if c \<noteq> ''sql_request_not_sent''
          then m @ '' The transaction was rolled back; no changes were committed.'' else m)"

definition unknown_effect_code :: string where
  "unknown_effect_code = ''effect_result_unknown''"

definition effect_requires_reconciliation :: "json option \<Rightarrow> bool" where
  "effect_requires_reconciliation err \<longleftrightarrow>
     (case err of None \<Rightarrow> False | Some e \<Rightarrow> jnull ''code'' e = JStr unknown_effect_code)"

text \<open>\<^verbatim>\<open>re.fullmatch(r"ev_[a-zA-Z0-9_-]{1,128}", ref)\<close>.\<close>

definition evidence_ref :: "string \<Rightarrow> bool" where
  "evidence_ref s \<longleftrightarrow>
     (case prefix_rest ''ev_'' s of
        None \<Rightarrow> False
      | Some r \<Rightarrow> 1 \<le> length r \<and> length r \<le> 128 \<and>
          list_all (\<lambda>c. ascii_alnum c \<or> c = CHR ''_'' \<or> c = CHR ''-'') r)"

definition evidence_ref_value :: "json \<Rightarrow> bool" where
  "evidence_ref_value v \<longleftrightarrow> (case v of JStr s \<Rightarrow> evidence_ref s | _ \<Rightarrow> False)"

text \<open>A cause is kept only as a plain code: ASCII letters, digits and underscores.\<close>

definition plain_cause :: "json \<Rightarrow> string" where
  "plain_cause v =
     (case v of
        JStr s \<Rightarrow>
          if list_all (\<lambda>c. code c < 128) s \<and> filter (\<lambda>c. c \<noteq> CHR ''_'') s \<noteq> [] \<and>
             list_all ascii_alnum (filter (\<lambda>c. c \<noteq> CHR ''_'') s)
          then s else ''effect_provider_failed''
      | _ \<Rightarrow> ''effect_provider_failed'')"

definition failure_cause :: "string \<Rightarrow> json option \<Rightarrow> string" where
  "failure_cause reason previous =
     plain_cause (case previous of
        None \<Rightarrow> JStr reason
      | Some p \<Rightarrow>
          (case jget (if effect_requires_reconciliation previous then ''cause_code'' else ''code'') p of
             None \<Rightarrow> JStr reason | Some v \<Rightarrow> v))"

text \<open>The call is known not to have reached the remote tool.\<close>

definition request_not_sent :: "json option \<Rightarrow> bool" where
  "request_not_sent safe \<longleftrightarrow>
     (case safe of
        None \<Rightarrow> False
      | Some d \<Rightarrow> jnull ''action_attempted'' d = JBool False \<and>
          jnull ''call_response_received'' d = JBool False \<and>
          jnull ''stage'' d \<in> {JStr ''preflight'', JStr ''acquire''})"

definition previous_refs :: "json option \<Rightarrow> json list" where
  "previous_refs previous =
     (case Option.bind previous (jget ''observation_refs'') of
        Some (JArr refs) \<Rightarrow> take 16 (filter evidence_ref_value refs) | _ \<Rightarrow> [])"

definition unresolved_record ::
  "string \<Rightarrow> string \<Rightarrow> bool \<Rightarrow> json option \<Rightarrow> json option \<Rightarrow> json" where
  "unresolved_record capability reason retryable previous diagnostic =
     JObj ([(''code'', JStr unknown_effect_code), (''retryable'', JBool retryable),
        (''cause_code'', JStr (take 80 (failure_cause reason previous))), (''reason_code'', JStr reason)] @
       (if capability = ''mcp.call/v1'' then
          (let shown = (case diagnostic of Some d \<Rightarrow> if truthy d then Some d else None | None \<Rightarrow> None);
               kept = (case shown of Some d \<Rightarrow> d
                  | None \<Rightarrow> (case previous of None \<Rightarrow> JNull | Some p \<Rightarrow> jnull ''diagnostic'' p));
               refs = previous_refs previous in
           (case safe_mcp_diagnostic kept of None \<Rightarrow> [] | Some d \<Rightarrow> [(''diagnostic'', d)]) @
           (if refs = [] then [] else [(''observation_refs'', JArr refs)]))
        else []))"

definition plain_failure :: "string \<Rightarrow> bool \<Rightarrow> json" where
  "plain_failure reason retryable = JObj [(''code'', JStr reason), (''retryable'', JBool retryable)]"

definition effect_failure_record ::
  "string \<Rightarrow> string option \<Rightarrow> int \<Rightarrow> string \<Rightarrow> bool \<Rightarrow> json option \<Rightarrow> json option \<Rightarrow> json res" where
  "effect_failure_record capability provider attempt_no reason retryable previous diagnostic =
     ebind (resolve_effect_capability capability) (\<lambda>c.
       let safe = Option.bind diagnostic safe_mcp_diagnostic in
       if \<not> supports_supervision c provider \<or> attempt_no = 0 then Inr (plain_failure reason retryable)
       else if capability = ''http.write/v1'' \<and> provider = Some ''http'' \<and> attempt_no = 1 \<and>
          previous = None \<and> reason = ''http_response_error''
       then Inr (plain_failure reason False)
       else if capability = ''database.execute/v1'' \<and> provider = Some ''postgres'' \<and> attempt_no = 1 \<and>
          previous = None \<and> sql_failure reason
       then Inr (plain_failure reason False)
       else if capability = ''mcp.call/v1'' \<and> attempt_no = 1 \<and> reason = ''mcp_request_not_sent'' \<and>
          \<not> effect_requires_reconciliation previous \<and> request_not_sent safe
       then Inr (JObj [(''code'', JStr reason), (''retryable'', JBool False),
              (''diagnostic'', case safe of None \<Rightarrow> JNull | Some d \<Rightarrow> d)])
       else Inr (unresolved_record capability reason retryable previous diagnostic))"

definition public_error_code :: "string \<Rightarrow> string" where
  "public_error_code c =
     (if sql_failure c then
        (if c = ''sql_request_not_sent'' then ''unavailable''
         else if c = ''sql_permission_denied'' then ''scope_denied''
         else if c = ''sql_undefined_table'' then ''not_found'' else ''invalid_request'')
      else if c \<in> {''mcp_request_not_sent'', ''http_response_error''} then ''invalid_request'' else c)"

definition effect_tool_error :: "string \<Rightarrow> bool \<Rightarrow> json option \<Rightarrow> json option \<Rightarrow> json" where
  "effect_tool_error c retryable diagnostic response =
     JObj [(''status'', JStr ''error''), (''code'', JStr (public_error_code c)),
       (''message'', JStr (
          (if c = unknown_effect_code then ''Original external write result requires reconciliation''
           else if sql_failure c then sql_failure_message c
           else ''Controlled effect could not be completed'') @
          diagnostic_message (case diagnostic of None \<Rightarrow> JNull | Some d \<Rightarrow> d) @
          (case response of None \<Rightarrow> [] | Some r \<Rightarrow> '' Original HTTP response: '' @ canonical_json r))),
       (''retryable'', JBool retryable)]"

section \<open>The result for the next segment\<close>

definition max_effect_result_bytes :: nat where
  "max_effect_result_bytes = 2 * 1024 * 1024"

definition validated_effect_result :: "digest \<Rightarrow> (json \<Rightarrow> bool) \<Rightarrow> json \<Rightarrow> json res" where
  "validated_effect_result sha schema_ok v =
     ebind (raise_if (max_effect_result_bytes < utf8_len (canonical_json v)) ValueError) (\<lambda>_.
     let copied = canon v in
     ebind (raise_if (\<not> schema_ok copied \<or> find_sensitive_key False copied \<noteq> None) ValueError) (\<lambda>_.
     ebind (jfield ''after_content_hash'' copied) (\<lambda>h.
     ebind (jfield ''after'' copied) (\<lambda>after.
     ebind (raise_if (h \<noteq> JStr (''sha256:'' @ json_digest sha after)) ValueError) (\<lambda>_.
       Inr copied)))))"

section \<open>Facts\<close>

lemma unresolved_requires_reconciliation [simp]:
  "effect_requires_reconciliation (Some (unresolved_record capability reason retryable previous diagnostic))"
  by (simp add: effect_requires_reconciliation_def unresolved_record_def)

lemma unresolved_cause [simp]:
  "jget ''cause_code'' (unresolved_record capability reason retryable previous diagnostic) =
     Some (JStr (take 80 (failure_cause reason previous)))"
  by (simp add: unresolved_record_def)

text \<open>An attempt that a provider supervises and whose result is unresolved stays unresolved.\<close>

lemma failure_record_sticky:
  assumes "effect_failure_record capability provider n reason retryable previous diagnostic = Inr r"
    and "effect_requires_reconciliation previous"
    and "resolve_effect_capability capability = Inr c" "supports_supervision c provider" "n \<noteq> 0"
  shows "r = unresolved_record capability reason retryable previous diagnostic"
proof -
  have "previous \<noteq> None" using assms(2) by (cases previous) (simp_all add: effect_requires_reconciliation_def)
  then show ?thesis using assms by (auto simp: effect_failure_record_def Let_def)
qed

end
