(* ===== verification/Effect_End.thy ===== *)
theory Effect_End
  imports Effect_Outcome Run_Final
begin

text \<open>
  The end of a controlled effect: \<^verbatim>\<open>runs/repository_effects.py\<close> from the result of a provider to the next
  segment of the run. \<^verbatim>\<open>finalize_effect_execution\<close>, \<^verbatim>\<open>_finish_effect_continuation\<close> with its four outcomes,
  \<^verbatim>\<open>_stop_run_for_unknown_effect\<close>, \<^verbatim>\<open>_close_effect_before_provider\<close>, \<^verbatim>\<open>_next_effect_segment\<close>, the receipt of an
  inline effect (\<^verbatim>\<open>inline_receipt\<close>, \<^verbatim>\<open>_inline_parent_active\<close>), and the recovery of effects and proposals whose
  time is over.

  The source hands mutable rows from one method to the next. Here a method receives the rows as its
  caller has changed them and a database that already holds those changes. \<open>schema_ok\<close> is the JSON
  schema validator.
\<close>

section \<open>Values\<close>

record evidence_draft =
  dr_evidence_type :: string
  dr_source_uri :: string
  dr_source_locator :: json
  dr_content :: json
  dr_excerpt :: "string option"
  dr_metadata :: json

record provider_result =
  pv_before :: evidence_draft
  pv_after :: evidence_draft
  pv_verification :: json
  pv_replayed :: bool

record effect_failure =
  ff_status :: string
  ff_code :: string
  ff_retryable :: bool
  ff_diagnostic :: "json option"
  ff_observations :: "evidence_draft list"

text \<open>The lease of a claimed effect; the snapshot a provider works on is not read here.\<close>

record effect_lease =
  cx_effect_execution_id :: uuid
  cx_run_id :: uuid
  cx_run_segment_id :: uuid
  cx_lease_token :: string

definition new_evidence_ref :: "uuid \<Rightarrow> string" where
  "new_evidence_ref u = ''ev_'' @ hex_fixed 32 (unat u)"

definition effect_evidence_row ::
  "digest \<Rightarrow> uuid \<Rightarrow> uuid \<Rightarrow> uuid \<Rightarrow> string \<Rightarrow> evidence_draft \<Rightarrow> time \<Rightarrow> evidence_row" where
  "effect_evidence_row sha new_id rid tool_call_id ref draft now =
     \<lparr>ed_id = new_id, ed_evidence_ref = ref, ed_run_id = rid, ed_tool_call_id = tool_call_id,
      ed_evidence_type = dr_evidence_type draft, ed_source_uri = dr_source_uri draft,
      ed_source_locator = dr_source_locator draft,
      ed_content_hash = ''sha256:'' @ json_digest sha (dr_content draft), ed_snapshot_uri = None,
      ed_excerpt = dr_excerpt draft, ed_metadata_json = jset ''snapshot'' (dr_content draft) (dr_metadata draft),
      ed_artifact_ref = None, ed_artifact_bytes = None, ed_artifact_size = None,
      ed_artifact_mime_type = None, ed_artifact_path = None, ed_created_at = now\<rparr>"

definition insert_evidence :: "evidence_row list \<Rightarrow> db \<Rightarrow> db res" where
  "insert_evidence rows d =
     ebind (raise_if (\<not> distinct (map ed_evidence_ref (db_evidence d @ rows))) IntegrityError) (\<lambda>_.
     ebind (insert_rows ed_id rows (db_evidence d)) (\<lambda>evidence. Inr (d\<lparr>db_evidence := evidence\<rparr>)))"

section \<open>Leases\<close>

definition validate_effect_lease :: "digest \<Rightarrow> effect_row \<Rightarrow> effect_lease \<Rightarrow> time \<Rightarrow> unit res" where
  "validate_effect_lease sha execution claimed now =
     raise_if (ef_id execution \<noteq> cx_effect_execution_id claimed \<or> ef_status execution \<noteq> ''APPLYING'' \<or>
         ef_lease_token_hash execution = None \<or>
         (case ef_lease_expires_at execution of None \<Rightarrow> True | Some t \<Rightarrow> t \<le> now) \<or>
         ef_lease_token_hash execution \<noteq> Some (lease_token_hash sha (cx_lease_token claimed)))
       EffectLeaseValidationError"

text \<open>
  Does the proposal belong to a running attempt that waits for it inside its own turn? An owner whose
  attempt no longer has that authority raises.
\<close>

definition inline_parent_active ::
  "time \<Rightarrow> run_row \<Rightarrow> segment_row \<Rightarrow> proposal_row \<Rightarrow> db \<Rightarrow> bool res" where
  "inline_parent_active now run segment proposal d =
     (let phase = owner_phase proposal in
      if phase \<noteq> JStr ''ACTIVE'' \<and> phase \<noteq> JStr ''DELIVERED'' then Inr False
      else case find_row at_id (pr_run_attempt_id proposal) (db_attempts d) of
        None \<Rightarrow> Inl EffectLeaseValidationError
      | Some parent \<Rightarrow>
          ebind (raise_if (at_run_id parent \<noteq> run_id run \<or> at_run_segment_id parent \<noteq> Some (sg_id segment) \<or>
              run_status run \<noteq> RUNNING \<or> sg_status segment \<noteq> SEG_RUNNING \<or> at_status parent \<noteq> ATT_RUNNING \<or>
              phase = JStr ''ACTIVE'' \<and> at_inline_proposal_id parent \<noteq> Some (pr_id proposal) \<or>
              phase = JStr ''DELIVERED'' \<and> at_inline_proposal_id parent \<notin> {None, Some (pr_id proposal)} \<or>
              (case at_lease_token_hash parent of
                 None \<Rightarrow> True
               | Some h \<Rightarrow> h = [] \<or> h \<noteq> py_str (case jget ''lease_hash'' (owner_of proposal) of
                   None \<Rightarrow> JStr [] | Some v \<Rightarrow> v)) \<or>
              (case at_lease_expires_at parent of None \<Rightarrow> True | Some t \<Rightarrow> t \<le> now))
            EffectLeaseValidationError) (\<lambda>_. Inr True))"

section \<open>The next segment\<close>

definition jpop :: "string \<Rightarrow> json \<Rightarrow> json" where
  "jpop k v = JObj (filter (\<lambda>(k', w). k' \<noteq> k) (obj_fields v))"

text \<open>\<^verbatim>\<open>[str(item) for item in checkpoint.get(k, []) if isinstance(item, str)]\<close>.\<close>

definition text_items :: "string \<Rightarrow> json \<Rightarrow> json list res" where
  "text_items k v =
     (case jget k v of None \<Rightarrow> Inr [] | Some w \<Rightarrow> ebind (py_tuple w) (\<lambda>items. Inr (filter is_str items)))"

definition add_new :: "json list \<Rightarrow> json list \<Rightarrow> json list" where
  "add_new added items = foldl (\<lambda>acc v. if v \<in> set acc then acc else acc @ [v]) items added"

text \<open>\<^verbatim>\<open>code in SQL_FAILURE_MESSAGES\<close>: a list or an object cannot be a key.\<close>

definition sql_failure_value :: "json \<Rightarrow> bool res" where
  "sql_failure_value v =
     (case v of JStr s \<Rightarrow> Inr (sql_failure s) | JArr _ \<Rightarrow> Inl TypeError | JObj _ \<Rightarrow> Inl TypeError | _ \<Rightarrow> Inr False)"

definition failure_facts :: "json option \<Rightarrow> json list res" where
  "failure_facts effect_error =
     (case effect_error of
        None \<Rightarrow> Inr []
      | Some e \<Rightarrow>
          ebind (sql_failure_value (jnull ''code'' e)) (\<lambda>sql.
            Inr (JStr (''Controlled effect failure: '' @
                py_str (case jget ''code'' e of None \<Rightarrow> JStr ''effect_provider_failed'' | Some v \<Rightarrow> v) @ ''.'' @
                diagnostic_message (jnull ''diagnostic'' e) @
                (if sql then '' '' @ sql_failure_message (py_str (jnull ''code'' e)) else [])) #
              (case jget ''response'' e of
                 None \<Rightarrow> [] | Some r \<Rightarrow> [JStr (''Original HTTP response: '' @ canonical_json r)]))))"

definition rejection_facts :: "proposal_row \<Rightarrow> string \<Rightarrow> string option \<Rightarrow> json list res" where
  "rejection_facts proposal outcome reason =
     (case reason of
        None \<Rightarrow> Inr []
      | Some r \<Rightarrow>
          ebind (raise_if (outcome \<noteq> ''REJECTED'') ValueError) (\<lambda>_.
            Inr [JStr (''User rejection feedback for ChangeProposal '' @ pr_proposal_ref proposal @
              '' (not write permission): '' @ canonical_json (JStr r))]))"

definition checkpoint_result ::
  "digest \<Rightarrow> (json \<Rightarrow> bool) \<Rightarrow> string \<Rightarrow> json option \<Rightarrow> json \<Rightarrow> json res" where
  "checkpoint_result sha schema_ok outcome effect_result checkpoint =
     (case effect_result of
        None \<Rightarrow> Inr (jpop ''effect_result'' checkpoint)
      | Some r \<Rightarrow>
          ebind (raise_if (outcome \<noteq> ''APPLIED'') ValueError) (\<lambda>_.
          ebind (validated_effect_result sha schema_ok r) (\<lambda>v.
            Inr (jset ''effect_result'' v (jpop ''effect_result'' checkpoint)))))"

definition next_effect_segment ::
  "digest \<Rightarrow> (json \<Rightarrow> bool) \<Rightarrow> uuid \<Rightarrow> run_row \<Rightarrow> segment_row \<Rightarrow> proposal_row \<Rightarrow> uuid \<Rightarrow> string \<Rightarrow> time \<Rightarrow>
   json list \<Rightarrow> json option \<Rightarrow> json option \<Rightarrow> string option \<Rightarrow> segment_trigger \<Rightarrow> segment_row res" where
  "next_effect_segment sha schema_ok new_id run segment proposal trigger_ref outcome now evidence_refs
     effect_result effect_error rejection_reason trigger =
     ebind (py_dict (pr_checkpoint_json proposal)) (\<lambda>c0.
     ebind (checkpoint_result sha schema_ok outcome effect_result c0) (\<lambda>c1.
     ebind (text_items ''confirmed_facts'' c1) (\<lambda>facts.
     ebind (failure_facts effect_error) (\<lambda>failures.
     ebind (rejection_facts proposal outcome rejection_reason) (\<lambda>rejections.
     let reached = JStr (''ChangeProposal '' @ pr_proposal_ref proposal @
           '' reached controlled effect outcome '' @ outcome @ ''.'');
         c2 = jset ''confirmed_facts'' (JArr (facts @ [reached] @ failures @ rejections)) c1 in
     ebind (text_items ''evidence_refs'' c2) (\<lambda>refs.
       Inr \<lparr>sg_id = new_id, sg_run_id = run_id run, sg_segment_no = sg_segment_no segment + 1,
            sg_trigger_type = trigger, sg_trigger_ref = Some trigger_ref, sg_status = SEG_CREATED,
            sg_objective_json = JObj [(''text'', JStr (''Continue the Run after ChangeProposal '' @
              pr_proposal_ref proposal @ '' finished with outcome '' @ outcome @ ''.''))],
            sg_checkpoint_json = jset ''evidence_refs'' (JArr (add_new evidence_refs refs)) c2,
            sg_continuation_mode = pr_continuation_mode proposal,
            sg_parent_agent_session_id = Some (pr_agent_session_id proposal),
            sg_instruction_snapshot_id = None, sg_started_at = None, sg_finished_at = None,
            sg_created_at = now\<rparr>))))))"

definition insert_segment :: "segment_row \<Rightarrow> db \<Rightarrow> db res" where
  "insert_segment s d =
     ebind (raise_if (list_ex (\<lambda>x. sg_run_id x = sg_run_id s \<and> sg_segment_no x = sg_segment_no s)
              (db_segments d)) IntegrityError) (\<lambda>_.
     ebind (insert_rows sg_id [s] (db_segments d)) (\<lambda>segments. Inr (d\<lparr>db_segments := segments\<rparr>)))"

section \<open>Transitions of a waiting run\<close>

definition plan_waiting :: "run_status \<Rightarrow> run_row \<Rightarrow> run_status \<Rightarrow> time \<Rightarrow> run_transition res" where
  "plan_waiting current run target now =
     plan_run_transition current target (run_row_version run) (run_started_at run) (run_finished_at run) now"

text \<open>An event of the run itself, and the announcement of events numbered from \<open>n\<close>.\<close>

definition run_event ::
  "uuid \<Rightarrow> uuid \<Rightarrow> agent_event_type \<Rightarrow> json \<Rightarrow> string \<Rightarrow> time \<Rightarrow> string option \<Rightarrow> int \<Rightarrow> event_row" where
  "run_event new_id rid etype payload summary now trace_id sequence =
     \<lparr>ev_id = new_id, ev_run_id = rid, ev_run_attempt_id = None, ev_agent_session_id = None,
      ev_sequence = sequence, ev_event_type = event_type_text etype, ev_payload_json = payload,
      ev_occurred_at = now, ev_trace_id = trace_id, ev_summary = Some summary\<rparr>"

definition run_snapshot ::
  "uuid \<Rightarrow> uuid \<Rightarrow> json \<Rightarrow> string \<Rightarrow> time \<Rightarrow> string option \<Rightarrow> int \<Rightarrow> event_row" where
  "run_snapshot new_id rid payload summary now trace_id sequence =
     snapshot_event new_id rid sequence payload summary now None None trace_id"

fun announce_events :: "fresh \<Rightarrow> run_status \<Rightarrow> (int \<Rightarrow> event_row) list \<Rightarrow> int \<Rightarrow> db \<Rightarrow> db" where
  "announce_events ids status [] n d = d"
| "announce_events ids status (e # es) n d =
     announce_events (\<lambda>i. ids (i + 1)) status es (n + 1) (announce (ids 0) status (e n) d)"

definition announce_next :: "fresh \<Rightarrow> run_row \<Rightarrow> run_status \<Rightarrow> (int \<Rightarrow> event_row) list \<Rightarrow> db \<Rightarrow> db" where
  "announce_next ids run status es d = announce_events ids status es (next_sequence (run_id run) d) d"

definition snapshot_payload :: "run_status \<Rightarrow> int \<Rightarrow> segment_row \<Rightarrow> (string \<times> json) list \<Rightarrow> json \<Rightarrow> json" where
  "snapshot_payload status version segment entries error =
     JObj ([(''status'', JStr (run_status_text status)), (''row_version'', JInt version),
        (''run_segment_id'', JStr (str_uuid (sg_id segment))), (''segment_no'', JInt (sg_segment_no segment))] @
        entries @ [(''error'', error)])"

definition effect_fields :: "proposal_row \<Rightarrow> effect_row \<Rightarrow> (string \<times> json) list" where
  "effect_fields proposal execution =
     [(''proposal_id'', JStr (str_uuid (pr_id proposal))),
      (''effect_execution_id'', JStr (str_uuid (ef_id execution)))]"

definition effect_payload :: "proposal_row \<Rightarrow> effect_row \<Rightarrow> (string \<times> json) list \<Rightarrow> json" where
  "effect_payload proposal execution entries =
     JObj ([(''proposal_id'', JStr (str_uuid (pr_id proposal))),
        (''proposal_ref'', JStr (pr_proposal_ref proposal)),
        (''effect_execution_id'', JStr (str_uuid (ef_id execution))),
        (''status'', JStr (ef_status execution))] @ entries)"

definition ref_fields :: "effect_row \<Rightarrow> (string \<times> json) list" where
  "ref_fields execution =
     [(''before_ref'', jopt JStr (ef_before_ref execution)), (''after_ref'', jopt JStr (ef_after_ref execution))]"

text \<open>The run is queued again for its next segment.\<close>

definition continue_run ::
  "run_status \<Rightarrow> fresh \<Rightarrow> run_row \<Rightarrow> segment_row \<Rightarrow> segment_row \<Rightarrow> (run_transition \<Rightarrow> (int \<Rightarrow> event_row) list) \<Rightarrow> string \<Rightarrow>
   time \<Rightarrow> db \<Rightarrow> db res" where
  "continue_run current ids run segment next_segment events reason now d =
     ebind (plan_waiting current run QUEUED now) (\<lambda>tr.
     let run' = run\<lparr>run_status := tr_status tr, run_row_version := tr_row_version tr, run_error_json := None\<rparr>;
         d1 = put_run run' (put_segment (segment\<lparr>sg_status := SEG_COMPLETED, sg_finished_at := Some now\<rparr>) d) in
     ebind (insert_segment next_segment d1) (\<lambda>d2.
     let d3 = announce_next (\<lambda>i. ids (i + 1)) run QUEUED (events tr) d2 in
       Inr (d3\<lparr>db_outbox := db_outbox d3 @ [dispatch_outbox (ids 0) (run_id run)
         (JObj [(''run_id'', JStr (str_uuid (run_id run))),
           (''project_id'', JStr (str_uuid (run_project_id run))), (''reason'', JStr reason),
           (''run_segment_id'', JStr (str_uuid (sg_id next_segment)))]) now]\<rparr>)))"

text \<open>The run ends, cancelled or failed, while its effect is concerned.\<close>

definition stop_run ::
  "fresh \<Rightarrow> run_row \<Rightarrow> segment_row \<Rightarrow> run_status \<Rightarrow> segment_status \<Rightarrow> json option \<Rightarrow>
   (run_transition \<Rightarrow> (int \<Rightarrow> event_row) list) \<Rightarrow> time \<Rightarrow> db \<Rightarrow> db res" where
  "stop_run ids run segment target segment_target error events now d =
     ebind (plan_waiting WAITING_FOR_APPROVAL run target now) (\<lambda>tr.
     let run' = run\<lparr>run_status := tr_status tr, run_row_version := tr_row_version tr,
           run_finished_at := tr_finished_at tr, run_error_json := error\<rparr>;
         d1 = put_run run' (put_segment (segment\<lparr>sg_status := segment_target, sg_finished_at := Some now\<rparr>) d) in
       Inr (announce_next ids run target (events tr) d1))"

definition unknown_effect_error :: "effect_row \<Rightarrow> json" where
  "unknown_effect_error execution =
     JObj [(''code'', JStr unknown_effect_code),
       (''message'', JStr ''Original external write result requires reconciliation''),
       (''effect_execution_id'', JStr (str_uuid (ef_id execution))), (''retryable'', JBool False)]"

definition stop_run_for_unknown_effect ::
  "fresh \<Rightarrow> run_row \<Rightarrow> segment_row \<Rightarrow> proposal_row \<Rightarrow> effect_row \<Rightarrow> bool \<Rightarrow> time \<Rightarrow> string option \<Rightarrow> db \<Rightarrow>
   db res" where
  "stop_run_for_unknown_effect ids run segment proposal execution cancelled now trace_id d =
     (let target = (if cancelled then CANCELLED else FAILED);
          error = unknown_effect_error execution in
      stop_run (\<lambda>i. ids (i + 2)) run segment target (if cancelled then SEG_CANCELLED else SEG_FAILED) (Some error)
        (\<lambda>tr. [run_event (ids 0) (run_id run) EFFECT_FAILED
             (effect_payload proposal execution (ref_fields execution @
                [(''cancel_requested'', JBool cancelled), (''error'', jopt id (ef_error_json execution))]))
             ''Controlled effect stopped with original write result unresolved'' now trace_id,
           run_snapshot (ids 1) (run_id run)
             (snapshot_payload target (tr_row_version tr) segment (effect_fields proposal execution) error)
             ''Run stopped pending original external write reconciliation'' now trace_id]) now d)"

section \<open>After a provider\<close>

definition finish_cancelled ::
  "fresh \<Rightarrow> run_row \<Rightarrow> segment_row \<Rightarrow> proposal_row \<Rightarrow> effect_row \<Rightarrow> agent_event_type \<Rightarrow> time \<Rightarrow> string option \<Rightarrow>
   db \<Rightarrow> db res" where
  "finish_cancelled ids run segment proposal execution etype now trace_id d =
     stop_run (\<lambda>i. ids (i + 2)) run segment CANCELLED SEG_CANCELLED None
       (\<lambda>tr. [run_event (ids 0) (run_id run) etype
            (effect_payload proposal execution (ref_fields execution @
               [(''cancel_requested'', JBool True), (''error'', jopt id (ef_error_json execution))]))
            (''Controlled effect '' @ ef_status execution @ '' before cancellation'') now trace_id,
          run_snapshot (ids 1) (run_id run)
            (snapshot_payload CANCELLED (tr_row_version tr) segment (effect_fields proposal execution) JNull)
            ''Run cancelled after active controlled effect'' now trace_id]) now d"

text \<open>A transient failure: the same effect is requested again and the run keeps waiting.\<close>

definition finish_retry ::
  "fresh \<Rightarrow> run_row \<Rightarrow> proposal_row \<Rightarrow> effect_row \<Rightarrow> time \<Rightarrow> string option \<Rightarrow> db \<Rightarrow> db" where
  "finish_retry ids run proposal execution now trace_id d =
     (let execution' = execution\<lparr>ef_status := ''REQUESTED'', ef_worker_id := None\<rparr>;
          d1 = put_proposal (proposal\<lparr>pr_status := ''APPROVED''\<rparr>) (put_effect execution' d);
          d2 = announce_next (\<lambda>i. ids (i + 2)) run (run_status run)
            [run_event (ids 0) (run_id run) EFFECT_FAILED
               (effect_payload proposal execution'
                 [(''attempt_no'', JInt (ef_attempt_no execution')), (''retry_scheduled'', JBool True),
                  (''error'', jopt id (ef_error_json execution'))])
               ''Controlled effect retry scheduled'' now trace_id] d1 in
      d2\<lparr>db_outbox := db_outbox d2 @ [effect_dispatch_outbox (ids 1) execution' now]\<rparr>)"

definition finish_continue ::
  "digest \<Rightarrow> (json \<Rightarrow> bool) \<Rightarrow> fresh \<Rightarrow> run_row \<Rightarrow> segment_row \<Rightarrow> proposal_row \<Rightarrow> effect_row \<Rightarrow>
   agent_event_type \<Rightarrow> json option \<Rightarrow> json list \<Rightarrow> time \<Rightarrow> string option \<Rightarrow> db \<Rightarrow> db res" where
  "finish_continue sha schema_ok ids run segment proposal execution etype effect_result evidence_refs now
     trace_id d =
     ebind (next_effect_segment sha schema_ok (ids 0) run segment proposal (ef_id execution)
              (ef_status execution) now evidence_refs effect_result (ef_error_json execution) None
              APPROVAL_RESPONSE) (\<lambda>next_segment.
       continue_run WAITING_FOR_APPROVAL (\<lambda>i. ids (i + 4)) run segment next_segment
         (\<lambda>tr. [run_event (ids 1) (run_id run) SEGMENT_COMPLETED
              (JObj ([(''run_segment_id'', JStr (str_uuid (sg_id segment))),
                 (''segment_no'', JInt (sg_segment_no segment))] @ effect_fields proposal execution))
              ''Run segment completed after controlled effect'' now trace_id,
            run_event (ids 2) (run_id run) etype
              (effect_payload proposal execution (ref_fields execution @
                 [(''next_run_segment_id'', JStr (str_uuid (sg_id next_segment))),
                  (''next_segment_no'', JInt (sg_segment_no next_segment)),
                  (''error'', jopt id (ef_error_json execution))]))
              (''Controlled effect '' @ ef_status execution) now trace_id,
            run_snapshot (ids 3) (run_id run)
              (snapshot_payload QUEUED (tr_row_version tr) next_segment (effect_fields proposal execution) JNull)
              ''Run queued after controlled effect'' now trace_id])
         ''effect_completed'' now d)"

definition finish_effect_continuation ::
  "digest \<Rightarrow> (json \<Rightarrow> bool) \<Rightarrow> fresh \<Rightarrow> run_row \<Rightarrow> segment_row \<Rightarrow> proposal_row \<Rightarrow> effect_row \<Rightarrow>
   effect_failure option \<Rightarrow> json option \<Rightarrow> json list \<Rightarrow> time \<Rightarrow> string option \<Rightarrow> db \<Rightarrow> db res" where
  "finish_effect_continuation sha schema_ok ids run segment proposal execution failure effect_result
     evidence_refs now trace_id d =
     (let etype = (if failure = None then EFFECT_APPLIED else EFFECT_FAILED);
          cancelled = is_cancellation_requested (run_id run) d;
          retryable = (case failure of None \<Rightarrow> False | Some f \<Rightarrow> ff_retryable f) in
      if failure \<noteq> None \<and> effect_requires_reconciliation (ef_error_json execution) \<and>
         (cancelled \<or> \<not> retryable)
      then stop_run_for_unknown_effect ids run segment proposal execution cancelled now trace_id d
      else if cancelled then finish_cancelled ids run segment proposal execution etype now trace_id d
      else if retryable then Inr (finish_retry ids run proposal execution now trace_id d)
      else finish_continue sha schema_ok ids run segment proposal execution etype effect_result
             evidence_refs now trace_id d)"

definition effect_receipt :: "proposal_row \<Rightarrow> uuid \<Rightarrow> string \<Rightarrow> string \<Rightarrow> json \<Rightarrow> json \<Rightarrow> json \<Rightarrow> json" where
  "effect_receipt proposal execution_id before_ref after_ref content_hash after verification =
     JObj [(''effect_execution_id'', JStr (str_uuid execution_id)),
       (''proposal_ref'', JStr (pr_proposal_ref proposal)),
       (''capability_version'', JStr (pr_capability_version proposal)), (''status'', JStr ''APPLIED''),
       (''before_ref'', JStr before_ref), (''after_ref'', JStr after_ref),
       (''after_content_hash'', content_hash), (''after'', after), (''verification'', verification)]"

text \<open>The stored evidence of an applied effect, read again and checked.\<close>

definition applied_receipt ::
  "digest \<Rightarrow> (json \<Rightarrow> bool) \<Rightarrow> proposal_row \<Rightarrow> effect_row \<Rightarrow> (evidence_row \<Rightarrow> bool) \<Rightarrow> db \<Rightarrow> (string \<times> string \<times> json) res" where
  "applied_receipt sha schema_ok proposal execution chosen d =
     (case (ef_before_ref execution, ef_after_ref execution) of
        (Some before_ref, Some after_ref) \<Rightarrow>
          (case find (\<lambda>x. ed_evidence_ref x = after_ref \<and> chosen x) (db_evidence d) of
             None \<Rightarrow> Inl EffectLeaseValidationError
           | Some after \<Rightarrow>
               ebind (raise_if (Some (ed_tool_call_id after) \<noteq> ef_tool_call_id execution)
                        EffectLeaseValidationError) (\<lambda>_.
               ebind (jfield ''snapshot'' (ed_metadata_json after)) (\<lambda>snapshot.
               ebind (raise_if (ed_content_hash after \<noteq> ''sha256:'' @ json_digest sha snapshot)
                        EffectLeaseValidationError) (\<lambda>_.
               ebind (py_dict (ef_verification_json execution)) (\<lambda>verification.
               ebind (validated_effect_result sha schema_ok
                        (effect_receipt proposal (ef_id execution) before_ref after_ref
                          (JStr (ed_content_hash after)) snapshot verification)) (\<lambda>result.
                 Inr (before_ref, after_ref, result)))))))
      | _ \<Rightarrow> Inl EffectLeaseValidationError)"

definition stored_failure :: "effect_row \<Rightarrow> effect_failure" where
  "stored_failure execution =
     \<lparr>ff_status = ef_status execution,
      ff_code = py_str (case Option.bind (ef_error_json execution) (jget ''code'') of
        None \<Rightarrow> JStr unknown_effect_code | Some v \<Rightarrow> v),
      ff_retryable = (Option.bind (ef_error_json execution) (jget ''retryable'') = Some (JBool True)),
      ff_diagnostic = None, ff_observations = []\<rparr>"

text \<open>
  What \<^verbatim>\<open>detach_inline_effect\<close> does with an effect that has already ended: the argument \<open>finish\<close> of
  \<^const>\<open>detach_inline_effect\<close>.
\<close>

definition resume_detached_effect :: "digest \<Rightarrow> (json \<Rightarrow> bool) \<Rightarrow> effect_finish" where
  "resume_detached_effect sha schema_ok ids now run segment proposal execution d =
     (if ef_status execution = ''APPLIED'' then
        ebind (applied_receipt sha schema_ok proposal execution (\<lambda>x. ed_run_id x = run_id run) d)
          (\<lambda>(before_ref, after_ref, result).
            finish_effect_continuation sha schema_ok ids run segment proposal execution None (Some result)
              [JStr before_ref, JStr after_ref] now None d)
      else
        finish_effect_continuation sha schema_ok ids run segment proposal execution
          (Some (stored_failure execution)) None [] now None d)"

end
