(* ===== verification/Approval.thy ===== *)
theory Approval
  imports Run_Create Effect_Outcome Effect_End
begin

text \<open>
  What an approved change is checked against: the consent a user gave when starting a run
  (\<^verbatim>\<open>effects/run_approval.py\<close>), the operations and lowest risks of the platform
  (\<^verbatim>\<open>effects/operation_policy.py\<close>), the declared effects of a skill (\<^verbatim>\<open>runs/effect_validation.py\<close>), the
  frozen resource binding (\<^verbatim>\<open>integrations/domain.py\<close>, \<^verbatim>\<open>_validate_effect_binding\<close>), and the checksum of a
  proposal over everything a user has seen (\<^verbatim>\<open>effects/proposal.py\<close>, \<^verbatim>\<open>_validate_proposal_row\<close>).

  Two arguments stand for components that are not modelled: \<open>documents\<close> checks the binding of the
  project's document library, \<open>provider_checks\<close> is the validator of the capability together with the three
  checks of \<^verbatim>\<open>effects/proposal_evidence.py\<close>; both read the database and change nothing.
\<close>

section \<open>Consent at the start of a run\<close>

text \<open>\<^verbatim>\<open>hmac.compare_digest\<close> of two texts, which must be ASCII.\<close>

definition compare_digest :: "string \<Rightarrow> string \<Rightarrow> bool res" where
  "compare_digest a b = (if list_all (\<lambda>c. code c < 128) (a @ b) then Inr (a = b) else Inl TypeError)"

definition run_auto_approval_actor ::
  "digest \<Rightarrow> digest128 \<Rightarrow> run_row \<Rightarrow> string \<Rightarrow> string option \<Rightarrow> uuid option res" where
  "run_auto_approval_actor sha sha1 run capability provider =
     ebind (resolve_effect_capability capability) (\<lambda>c.
     if \<not> supports_run_approval c provider then Inr None
     else case jget creation_request_field (run_task_snapshot_json run) of
       Some (JObj kvs) \<Rightarrow>
         if map_of kvs ''auto_approve'' \<noteq> Some (JBool True) then Inr None
         else
           ebind (rethrow (\<lambda>e. e = IdempotencyConflictError) EffectLeaseValidationError
                    (stored_creation_intent sha sha1 run)) (\<lambda>intent.
             Inr (if capability = ''repository.write/v1'' \<and> \<not> it_auto_approve_git intent then None
                  else if capability = ''mcp.call/v1'' \<and> \<not> it_auto_approve_mcp intent then None
                  else if it_auto_approve intent then Some (it_actor_id intent) else None))
     | _ \<Rightarrow> Inr None)"

definition has_actor_approval ::
  "digest \<Rightarrow> digest128 \<Rightarrow> run_row \<Rightarrow> approval_row \<Rightarrow> string \<Rightarrow> string option \<Rightarrow> bool res" where
  "has_actor_approval sha sha1 run approval capability provider =
     (if ap_source approval = ''USER'' then Inr (ap_actor_id approval \<noteq> None)
      else if ap_source approval \<noteq> ''RUN_START'' \<or> ap_actor_id approval = None \<or>
              ap_preauthorization_id approval \<noteq> None
      then Inr False
      else ebind (run_auto_approval_actor sha sha1 run capability provider) (\<lambda>actor.
        Inr (ap_actor_id approval = actor)))"

section \<open>Operations\<close>

definition write_operations :: "(string \<times> string list) list" where
  "write_operations =
     [(''database.execute/v1'', [''INSERT'', ''UPDATE'', ''DELETE'']),
      (''http.write/v1'', [''POST'', ''PUT'', ''PATCH'', ''DELETE'']),
      (''mcp.call/v1'', [''call'']),
      (''database.write/v1'', [''INSERT'', ''UPDATE'']),
      (''document.write/v1'', [''CREATE'', ''UPDATE'', ''MOVE'', ''MOVE_FOLDER'', ''CREATE_FOLDER'',
         ''DELETE_FOLDER'', ''TRASH'', ''RESTORE'']),
      (''repository.write/v1'', [''commit'']),
      (''issue.update/v1'', [''update''])]"

definition operation_authorization_key :: "digest \<Rightarrow> string \<Rightarrow> string \<Rightarrow> string \<Rightarrow> string" where
  "operation_authorization_key sha resource capability operation =
     ''op-'' @ json_digest sha (JArr [JStr resource, JStr capability, JStr operation])"

definition operation_risk :: "string \<Rightarrow> string" where
  "operation_risk capability =
     (if capability \<in> {''database.write/v1'', ''document.write/v1''} then ''MEDIUM'' else ''HIGH'')"

definition is_source_execution :: "json \<Rightarrow> bool" where
  "is_source_execution blueprint \<longleftrightarrow> jget ''execution_version'' blueprint = Some (JStr ''skillmind.skill-execution/v2'')"

definition resolve_skill_definition :: "json \<Rightarrow> json option res" where
  "resolve_skill_definition manifest =
     (case jget ''skill_execution'' manifest of
        Some v \<Rightarrow>
          if jget ''capability_blueprint'' manifest \<noteq> None \<or> \<not> is_obj v then Inl ValueError
          else if \<not> is_source_execution v then Inl ValueError else Inr (Some v)
      | None \<Rightarrow>
          Inr (case jget ''capability_blueprint'' manifest of
                 Some v \<Rightarrow> if is_obj v then Some v else None | None \<Rightarrow> None))"

definition risk_level_rank :: "string \<Rightarrow> int" where
  "risk_level_rank level =
     (if level = ''LOW'' then 0 else if level = ''MEDIUM'' then 1 else if level = ''HIGH'' then 2 else - 1)"

text \<open>\<^verbatim>\<open>str.upper\<close> on the characters modelled here.\<close>

definition upper_char :: "char \<Rightarrow> string" where
  "upper_char c =
     (if ascii_lower c then [char_of (code c - 32)]
      else if code c = 223 then ''SS''
      else if 224 \<le> code c \<and> code c \<le> 254 \<and> code c \<noteq> 247 then [char_of (code c - 32)] else [c])"

definition matches_operation :: "string \<Rightarrow> string \<Rightarrow> string \<Rightarrow> json \<Rightarrow> bool res" where
  "matches_operation resource capability operation op =
     ebind (jfield ''resource_key'' op) (\<lambda>r.
     if r \<noteq> JStr resource then Inr False
     else ebind (jfield ''capability_version'' op) (\<lambda>c.
       if c \<noteq> JStr capability then Inr False
       else ebind (jfield ''operation'' op) (\<lambda>o'. Inr (o' = JStr operation))))"

definition validate_effect_intent ::
  "digest \<Rightarrow> json \<Rightarrow> string \<Rightarrow> string \<Rightarrow> string \<Rightarrow> string \<Rightarrow> string \<Rightarrow> json list \<Rightarrow> json res" where
  "validate_effect_intent sha blueprint intent_key resource operation risk capability operations =
     (if is_source_execution blueprint then
        ebind (emap (\<lambda>op. ebind (matches_operation resource capability operation op) (\<lambda>b. Inr (b, op))) operations)
          (\<lambda>marked.
          case filter fst marked of
            [(_, op)] \<Rightarrow>
              if intent_key \<noteq> operation_authorization_key sha resource capability operation \<or>
                 risk_level_rank risk < risk_level_rank (operation_risk capability)
              then Inl ChangeProposalValidationError else Inr op
          | _ \<Rightarrow> Inl ChangeProposalValidationError)
      else
        ebind (case jget ''effect_intents'' blueprint of None \<Rightarrow> Inr [] | Some v \<Rightarrow> py_tuple v) (\<lambda>items.
        case filter (\<lambda>i. is_obj i \<and> jget ''key'' i = Some (JStr intent_key)) items of
          [intent] \<Rightarrow>
            if jget ''mode'' intent \<noteq> Some (JStr ''apply'') \<or> jget ''resource_key'' intent \<noteq> Some (JStr resource) \<or>
               jget ''operation'' intent \<noteq> Some (JStr operation) \<or>
               concat (map upper_char (py_str (case jget ''risk'' intent of None \<Rightarrow> JStr [] | Some v \<Rightarrow> v))) \<noteq> risk
            then Inl ChangeProposalValidationError else Inr intent
        | _ \<Rightarrow> Inl ChangeProposalValidationError))"

section \<open>The frozen binding\<close>

definition binding_checksum :: "digest \<Rightarrow> binding_row \<Rightarrow> string \<Rightarrow> uuid option \<Rightarrow> json \<Rightarrow> string" where
  "binding_checksum sha b level integration_id scope =
     ''sha256:'' @ json_digest sha (JObj
       [(''project_id'', JStr (str_uuid (bd_project_id b))), (''scope_level'', JStr level),
        (''scope_key'', JStr (bd_scope_key b)), (''requirement_key'', JStr (bd_requirement_key b)),
        (''resource_kind'', JStr (bd_resource_kind b)),
        (''integration_id'', jopt (\<lambda>u. JStr (str_uuid u)) integration_id),
        (''provider'', JStr (bd_provider b)), (''capability_version'', JStr (bd_capability_version b)),
        (''revision'', JStr (bd_revision b)), (''scope'', scope)])"

type_synonym document_check = "run_row \<Rightarrow> binding_row \<Rightarrow> bool \<Rightarrow> db \<Rightarrow> unit res"

definition validate_effect_binding ::
  "digest \<Rightarrow> document_check \<Rightarrow> run_row \<Rightarrow> binding_row \<Rightarrow> string \<Rightarrow> bool \<Rightarrow> db \<Rightarrow> integration_row option res" where
  "validate_effect_binding sha documents run b capability legacy d =
     (if capability = document_write then ebind (documents run b legacy d) (\<lambda>_. Inr None)
      else
        ebind (raise_if (bd_integration_id b = None \<or> bd_run_id b \<noteq> Some (run_id run) \<or>
            bd_project_id b \<noteq> run_project_id run \<or> bd_scope_level b \<noteq> ''RUN'' \<or>
            bd_scope_key b \<noteq> str_uuid (run_id run) \<or> bd_disabled_at b \<noteq> None \<or>
            bd_capability_version b \<noteq> capability) ChangeProposalValidationError) (\<lambda>_.
        ebind (py_dict (bd_scope_json b)) (\<lambda>scope.
        case Option.bind (bd_integration_id b) (\<lambda>i. find_row in_id i (db_integrations d)) of
          None \<Rightarrow> Inl ChangeProposalValidationError
        | Some i \<Rightarrow>
            ebind (raise_if (in_project_id i \<noteq> run_project_id run \<or> in_status i \<noteq> ''ACTIVE'' \<or>
                show_int (in_revision i) \<noteq> bd_revision b \<or> in_provider i \<noteq> bd_provider b \<or>
                capability \<notin> set (in_capabilities_json i) \<or>
                bd_checksum b \<noteq> binding_checksum sha b ''RUN'' (bd_integration_id b) scope)
              ChangeProposalValidationError) (\<lambda>_. Inr (Some i)))))"

section \<open>Proposals\<close>

record proposal_draft =
  df_effect_intent_key :: string
  df_resource_key :: string
  df_capability_version :: string
  df_operation :: string
  df_target :: json
  df_changes :: "json list"
  df_precondition :: json
  df_summary :: string
  df_evidence_refs :: "string list"
  df_risk_level :: string
  df_reversible :: bool
  df_rollback :: json
  df_verification :: json
  df_continuation_mode :: continuation_mode
  df_checkpoint :: json
  df_checkpoint_checksum :: string
  df_idempotency_key :: string
  df_request_fingerprint :: string
  df_expires_at :: time

definition proposal_content ::
  "uuid \<Rightarrow> uuid \<Rightarrow> uuid \<Rightarrow> uuid \<Rightarrow> uuid \<Rightarrow> uuid \<Rightarrow> uuid option \<Rightarrow> int \<Rightarrow> proposal_draft \<Rightarrow> json" where
  "proposal_content project_id rid segment_id session_id skill_version_id binding_id integration_id version draft =
     JObj [(''project_id'', JStr (str_uuid project_id)), (''run_id'', JStr (str_uuid rid)),
       (''run_segment_id'', JStr (str_uuid segment_id)), (''agent_session_id'', JStr (str_uuid session_id)),
       (''skill_version_id'', JStr (str_uuid skill_version_id)),
       (''target_binding_id'', JStr (str_uuid binding_id)),
       (''integration_id'', jopt (\<lambda>u. JStr (str_uuid u)) integration_id),
       (''effect_intent_key'', JStr (df_effect_intent_key draft)), (''resource_key'', JStr (df_resource_key draft)),
       (''capability_version'', JStr (df_capability_version draft)), (''operation'', JStr (df_operation draft)),
       (''target'', df_target draft), (''changes'', JArr (df_changes draft)),
       (''precondition'', df_precondition draft), (''summary'', JStr (df_summary draft)),
       (''evidence_refs'', JArr (map JStr (df_evidence_refs draft))), (''risk_level'', JStr (df_risk_level draft)),
       (''reversible'', JBool (df_reversible draft)), (''rollback'', df_rollback draft),
       (''verification'', df_verification draft), (''idempotency_key'', JStr (df_idempotency_key draft)),
       (''request_fingerprint'', JStr (df_request_fingerprint draft)),
       (''expires_at'', JStr (isoformat (df_expires_at draft))), (''version'', JInt version)]"

definition proposal_checksum :: "digest \<Rightarrow> json \<Rightarrow> string" where
  "proposal_checksum sha content = ''sha256:'' @ json_digest sha content"

text \<open>The stored form of a proposal, and the draft that a stored proposal describes.\<close>

definition new_proposal ::
  "digest \<Rightarrow> uuid \<Rightarrow> string \<Rightarrow> run_row \<Rightarrow> uuid \<Rightarrow> uuid \<Rightarrow> uuid \<Rightarrow> uuid \<Rightarrow> binding_row \<Rightarrow> json \<Rightarrow> string \<Rightarrow>
   proposal_draft \<Rightarrow> time \<Rightarrow> proposal_row" where
  "new_proposal sha new_id ref run segment_id attempt_id session_id skill_version_id b checkpoint status draft now =
     \<lparr>pr_id = new_id, pr_inline_owner_json = None, pr_proposal_ref = ref, pr_project_id = run_project_id run,
      pr_run_id = run_id run, pr_run_segment_id = segment_id, pr_run_attempt_id = attempt_id,
      pr_agent_session_id = session_id, pr_skill_version_id = skill_version_id, pr_target_binding_id = bd_id b,
      pr_integration_id = bd_integration_id b, pr_effect_intent_key = df_effect_intent_key draft,
      pr_capability_version = df_capability_version draft, pr_operation = df_operation draft,
      pr_target_json = df_target draft, pr_summary = df_summary draft,
      pr_preview_json = JObj [(''changes'', JArr (df_changes draft))],
      pr_precondition_json = df_precondition draft, pr_evidence_refs_json = df_evidence_refs draft,
      pr_risk_level = df_risk_level draft, pr_reversible = df_reversible draft,
      pr_rollback_json = df_rollback draft, pr_verification_json = df_verification draft,
      pr_continuation_mode = df_continuation_mode draft, pr_checkpoint_json = checkpoint,
      pr_checkpoint_checksum = ''sha256:'' @ json_digest sha checkpoint,
      pr_idempotency_key = df_idempotency_key draft, pr_request_fingerprint = df_request_fingerprint draft,
      pr_status = status, pr_version = 1,
      pr_checksum = proposal_checksum sha (proposal_content (run_project_id run) (run_id run) segment_id
        session_id skill_version_id (bd_id b) (bd_integration_id b) 1 draft),
      pr_expires_at = df_expires_at draft, pr_created_at = now\<rparr>"

definition risk_levels :: "string list" where
  "risk_levels = [''LOW'', ''MEDIUM'', ''HIGH'']"

definition row_draft :: "proposal_row \<Rightarrow> binding_row \<Rightarrow> json list \<Rightarrow> proposal_draft" where
  "row_draft p b changes =
     \<lparr>df_effect_intent_key = pr_effect_intent_key p, df_resource_key = bd_requirement_key b,
      df_capability_version = pr_capability_version p, df_operation = pr_operation p,
      df_target = pr_target_json p, df_changes = changes, df_precondition = pr_precondition_json p,
      df_summary = pr_summary p, df_evidence_refs = pr_evidence_refs_json p, df_risk_level = pr_risk_level p,
      df_reversible = pr_reversible p, df_rollback = pr_rollback_json p,
      df_verification = pr_verification_json p, df_continuation_mode = pr_continuation_mode p,
      df_checkpoint = pr_checkpoint_json p, df_checkpoint_checksum = pr_checkpoint_checksum p,
      df_idempotency_key = pr_idempotency_key p, df_request_fingerprint = pr_request_fingerprint p,
      df_expires_at = pr_expires_at p\<rparr>"

definition row_content :: "proposal_row \<Rightarrow> binding_row \<Rightarrow> json list \<Rightarrow> json" where
  "row_content p b changes =
     proposal_content (pr_project_id p) (pr_run_id p) (pr_run_segment_id p) (pr_agent_session_id p)
       (pr_skill_version_id p) (pr_target_binding_id p) (pr_integration_id p) (pr_version p)
       (row_draft p b changes)"

definition preview_changes :: "proposal_row \<Rightarrow> json list res" where
  "preview_changes p =
     (case jget ''changes'' (pr_preview_json p) of
        Some (JArr changes) \<Rightarrow> if list_all is_obj changes then Inr changes else Inl ChangeProposalValidationError
      | _ \<Rightarrow> Inl ChangeProposalValidationError)"

definition validate_evidence_refs :: "uuid \<Rightarrow> string list \<Rightarrow> db \<Rightarrow> unit res" where
  "validate_evidence_refs rid refs d =
     raise_if (length (filter (\<lambda>e. ed_run_id e = rid \<and> ed_evidence_ref e \<in> set refs) (db_evidence d)) \<noteq> length refs)
       ChangeProposalValidationError"

type_synonym provider_check =
  "run_row \<Rightarrow> proposal_draft \<Rightarrow> binding_row \<Rightarrow> integration_row option \<Rightarrow> db \<Rightarrow> json res"

definition validate_proposal_row ::
  "digest \<Rightarrow> document_check \<Rightarrow> provider_check \<Rightarrow> proposal_row \<Rightarrow> run_row \<Rightarrow> bool \<Rightarrow> db \<Rightarrow> json res" where
  "validate_proposal_row sha documents provider_checks p run legacy d =
     (case find_row bd_id (pr_target_binding_id p) (db_bindings d) of
        None \<Rightarrow> Inl ChangeProposalValidationError
      | Some b \<Rightarrow>
          ebind (raise_if (bd_integration_id b \<noteq> pr_integration_id p) ChangeProposalValidationError) (\<lambda>_.
          ebind (validate_effect_binding sha documents run b (pr_capability_version p) legacy d) (\<lambda>integration.
          ebind (preview_changes p) (\<lambda>changes.
          ebind (raise_if (pr_checksum p \<noteq> proposal_checksum sha (row_content p b changes))
            ChangeProposalValidationError) (\<lambda>_.
          ebind (raise_if (\<not> list_all is_obj [pr_target_json p, pr_precondition_json p, pr_rollback_json p,
              pr_verification_json p, pr_checkpoint_json p]) TypeError) (\<lambda>_.
          ebind (raise_if (pr_risk_level p \<notin> set risk_levels) ValueError) (\<lambda>_.
          ebind (provider_checks run (row_draft p b changes) b integration d) (\<lambda>payload.
          ebind (validate_evidence_refs (run_id run) (pr_evidence_refs_json p) d) (\<lambda>_.
            Inr payload)))))))))"

section \<open>New effect executions\<close>

definition new_effect_execution :: "uuid \<Rightarrow> proposal_row \<Rightarrow> uuid \<Rightarrow> string \<Rightarrow> time \<Rightarrow> effect_row res" where
  "new_effect_execution new_id p approval_id provider now =
     ebind (resolve_effect_capability (pr_capability_version p)) (\<lambda>c.
     case map_of (ec_provider_versions c) provider of
       None \<Rightarrow> Inl ChangeProposalValidationError
     | Some version \<Rightarrow>
         Inr \<lparr>ef_id = new_id, ef_proposal_id = pr_id p, ef_run_id = pr_run_id p, ef_approval_id = approval_id,
              ef_tool_call_id = None, ef_status = ''REQUESTED'', ef_provider = provider,
              ef_provider_version = version, ef_idempotency_key = pr_idempotency_key p,
              ef_request_fingerprint = pr_request_fingerprint p, ef_before_ref = None, ef_after_ref = None,
              ef_verification_json = JObj [], ef_error_json = None, ef_worker_id = None,
              ef_lease_token_hash = None, ef_lease_expires_at = None, ef_heartbeat_at = None,
              ef_attempt_no = 0, ef_started_at = None, ef_executed_at = None, ef_created_at = now\<rparr>)"

section \<open>Facts\<close>

text \<open>A proposal is stored with the checksum that every later check computes from its row.\<close>

lemma new_proposal_checksum:
  "pr_checksum (new_proposal sha i ref run s a se sv b c st draft now) =
     proposal_checksum sha (row_content (new_proposal sha i ref run s a se sv b c st draft now) b (df_changes draft))"
  if "df_resource_key draft = bd_requirement_key b"
  using that by (simp add: new_proposal_def row_content_def row_draft_def proposal_content_def)

lemma validate_proposal_row_Inr:
  assumes "validate_proposal_row sha documents provider_checks p run legacy d = Inr payload"
  obtains b changes where "find_row bd_id (pr_target_binding_id p) (db_bindings d) = Some b"
    "bd_integration_id b = pr_integration_id p" "preview_changes p = Inr changes"
    "pr_checksum p = proposal_checksum sha (row_content p b changes)"
    "validate_evidence_refs (run_id run) (pr_evidence_refs_json p) d = Inr ()"
  using assms by (auto simp: validate_proposal_row_def ebind_Inr_iff split: option.splits)

end
