(* ===== verification/Effect_Final.thy ===== *)
theory Effect_Final
  imports Effect_End
begin

text \<open>
  \<^verbatim>\<open>runs/repository_effects.py\<close>: the transactions that end an effect. \<^verbatim>\<open>finalize_effect_execution\<close> records the
  result or the failure a provider reports, \<^verbatim>\<open>_close_effect_before_provider\<close> an effect whose provider is
  not called, \<^verbatim>\<open>recover_expired_effects\<close> and \<^verbatim>\<open>recover_expired_proposals\<close> take up what a worker or a user has
  left, and \<^verbatim>\<open>inline_receipt\<close> delivers an applied inline effect to its running attempt
  (with \<^verbatim>\<open>runs/checkpoint.py\<close>).
\<close>

section \<open>Stored executions\<close>

record stored_effect =
  st_effect_execution_id :: uuid
  st_proposal_id :: uuid
  st_run_id :: uuid
  st_approval_id :: uuid
  st_tool_call_id :: "uuid option"
  st_status :: string
  st_provider :: string
  st_provider_version :: string
  st_before_ref :: "string option"
  st_after_ref :: "string option"
  st_verification :: json
  st_error :: "json option"
  st_attempt_no :: int
  st_executed_at :: "time option"
  st_created_at :: time

definition stored_effect_execution :: "effect_row \<Rightarrow> stored_effect res" where
  "stored_effect_execution e =
     ebind (raise_if (\<not> effect_row_ok e) ValueError) (\<lambda>_.
     ebind (py_dict (ef_verification_json e)) (\<lambda>verification.
     ebind (case ef_error_json e of None \<Rightarrow> Inr None | Some v \<Rightarrow> ebind (py_dict v) (\<lambda>w. Inr (Some w))) (\<lambda>error.
       Inr \<lparr>st_effect_execution_id = ef_id e, st_proposal_id = ef_proposal_id e, st_run_id = ef_run_id e,
            st_approval_id = ef_approval_id e, st_tool_call_id = ef_tool_call_id e, st_status = ef_status e,
            st_provider = ef_provider e, st_provider_version = ef_provider_version e,
            st_before_ref = ef_before_ref e, st_after_ref = ef_after_ref e, st_verification = verification,
            st_error = error, st_attempt_no = ef_attempt_no e, st_executed_at = ef_executed_at e,
            st_created_at = ef_created_at e\<rparr>)))"

definition stored_again :: "uuid \<Rightarrow> db \<Rightarrow> (stored_effect \<times> db) res" where
  "stored_again i d =
     (case find_row ef_id i (db_effects d) of
        None \<Rightarrow> Inl LookupError
      | Some e \<Rightarrow> ebind (stored_effect_execution e) (\<lambda>s. Inr (s, d)))"

section \<open>The report of a provider\<close>

text \<open>What a report changes: the rows, the new evidence, and what the next segment receives.\<close>

record effect_report =
  er_execution :: effect_row
  er_proposal :: proposal_row
  er_tool_call :: tool_call_row
  er_evidence :: "evidence_row list"
  er_result :: "json option"
  er_refs :: "json list"

definition report_success ::
  "digest \<Rightarrow> (json \<Rightarrow> bool) \<Rightarrow> fresh \<Rightarrow> run_row \<Rightarrow> proposal_row \<Rightarrow> effect_row \<Rightarrow> tool_call_row \<Rightarrow>
   provider_result \<Rightarrow> time \<Rightarrow> effect_report res" where
  "report_success sha schema_ok ids run proposal execution tool_call result now =
     (let before_ref = new_evidence_ref (ids 0); after_ref = new_evidence_ref (ids 1);
          before = effect_evidence_row sha (ids 2) (run_id run) (tc_id tool_call) before_ref
            (pv_before result) now;
          after = effect_evidence_row sha (ids 3) (run_id run) (tc_id tool_call) after_ref
            (pv_after result) now;
          verification = pv_verification result in
      ebind (validated_effect_result sha schema_ok
               (effect_receipt proposal (ef_id execution) before_ref after_ref
                 (JStr (ed_content_hash after)) (dr_content (pv_after result)) verification)) (\<lambda>receipt.
        Inr \<lparr>er_execution = execution\<lparr>ef_status := ''APPLIED'', ef_before_ref := Some before_ref,
               ef_after_ref := Some after_ref, ef_verification_json := verification, ef_error_json := None\<rparr>,
             er_proposal = proposal\<lparr>pr_status := ''APPLIED''\<rparr>,
             er_tool_call = tool_call\<lparr>tc_status := ''SUCCEEDED'', tc_result_json := Some
               (JObj [(''status'', JStr ''success''), (''provider'', JStr (ef_provider execution)),
                  (''proposal_ref'', JStr (pr_proposal_ref proposal)), (''before_ref'', JStr before_ref),
                  (''after_ref'', JStr after_ref), (''verification'', verification),
                  (''replayed'', JBool (pv_replayed result))]), tc_error_json := None\<rparr>,
             er_evidence = [before, after], er_result = Some receipt,
             er_refs = [JStr before_ref, JStr after_ref]\<rparr>))"

definition observation_rows ::
  "digest \<Rightarrow> fresh \<Rightarrow> run_row \<Rightarrow> tool_call_row \<Rightarrow> evidence_draft list \<Rightarrow> time \<Rightarrow> evidence_row list" where
  "observation_rows sha ids run tool_call drafts now =
     map (\<lambda>(i, draft). effect_evidence_row sha (ids (2 * i + 1)) (run_id run) (tc_id tool_call)
            (new_evidence_ref (ids (2 * i))) draft now)
       (zip [0..<length drafts] drafts)"

text \<open>
  The observations of a failed call: two at most become evidence, the error refers to the last sixteen,
  and an HTTP response is kept with the error.
\<close>

definition observed_error ::
  "string \<Rightarrow> evidence_draft list \<Rightarrow> evidence_row list \<Rightarrow> json \<Rightarrow> (json \<times> json list) res" where
  "observed_error capability drafts rows error =
     (if rows = [] then Inr (error, [])
      else
        ebind (case jget ''observation_refs'' error of None \<Rightarrow> Inr [] | Some v \<Rightarrow> py_tuple v) (\<lambda>stored.
        let refs = stored @ map (JStr \<circ> ed_evidence_ref) rows;
            error = jset ''observation_refs'' (JArr (drop (length refs - 16) refs)) error in
        if capability = ''http.write/v1''
        then Inr (jset ''response'' (case drafts of [] \<Rightarrow> JNull | x # _ \<Rightarrow> dr_content x) error, refs)
        else Inr (error, [])))"

definition report_failure ::
  "digest \<Rightarrow> fresh \<Rightarrow> run_row \<Rightarrow> proposal_row \<Rightarrow> effect_row \<Rightarrow> tool_call_row \<Rightarrow> effect_failure \<Rightarrow> time \<Rightarrow>
   effect_report res" where
  "report_failure sha ids run proposal execution tool_call failure now =
     (let capability = pr_capability_version proposal;
          drafts = (if capability \<in> {''mcp.call/v1'', ''http.write/v1''}
                    then take 2 (ff_observations failure) else []);
          rows = observation_rows sha ids run tool_call drafts now in
      ebind (effect_failure_record capability (Some (ef_provider execution)) (ef_attempt_no execution)
               (ff_code failure) (ff_retryable failure) (ef_error_json execution) (ff_diagnostic failure)) (\<lambda>e0.
      ebind (observed_error capability drafts rows e0) (\<lambda>(error, refs).
        Inr \<lparr>er_execution = execution\<lparr>ef_status := ff_status failure, ef_error_json := Some error\<rparr>,
             er_proposal = proposal\<lparr>pr_status := if ff_status failure = ''STALE'' then ''STALE'' else ''FAILED''\<rparr>,
             er_tool_call = tool_call\<lparr>tc_status := ''FAILED'', tc_result_json := None, tc_error_json := Some
               (effect_tool_error (py_str (jnull ''code'' error)) (ff_retryable failure)
                  (jget ''diagnostic'' error) (jget ''response'' error))\<rparr>,
             er_evidence = rows, er_result = None, er_refs = refs\<rparr>)))"

definition report_of ::
  "digest \<Rightarrow> (json \<Rightarrow> bool) \<Rightarrow> fresh \<Rightarrow> run_row \<Rightarrow> proposal_row \<Rightarrow> effect_row \<Rightarrow> tool_call_row \<Rightarrow>
   provider_result option \<Rightarrow> effect_failure option \<Rightarrow> time \<Rightarrow> effect_report res" where
  "report_of sha schema_ok ids run proposal execution tool_call result failure now =
     (case result of
        Some r \<Rightarrow> report_success sha schema_ok ids run proposal execution tool_call r now
      | None \<Rightarrow>
          (case failure of
             Some f \<Rightarrow> report_failure sha ids run proposal execution tool_call f now
           | None \<Rightarrow> Inl AssertionError))"

definition store_report :: "effect_report \<Rightarrow> int \<Rightarrow> time \<Rightarrow> db \<Rightarrow> (effect_row \<times> db) res" where
  "store_report report duration_ms now d =
     (let execution = (er_execution report)\<lparr>ef_executed_at := Some now, ef_lease_token_hash := None,
            ef_lease_expires_at := None, ef_heartbeat_at := Some now\<rparr>;
          tool_call = (er_tool_call report)\<lparr>tc_duration_ms := Some duration_ms\<rparr> in
      ebind (insert_evidence (er_evidence report) d) (\<lambda>d1.
        Inr (execution, put_tool_call tool_call (put_proposal (er_proposal report) (put_effect execution d1)))))"

text \<open>The rows an effect transaction works on, locked in the order run, segment, proposal, effect.\<close>

definition lock_effect ::
  "uuid \<Rightarrow> uuid \<Rightarrow> uuid \<Rightarrow> db \<Rightarrow> (run_row \<times> segment_row \<times> proposal_row \<times> effect_row) res" where
  "lock_effect execution_id rid segment_id d =
     (case find_row ef_id execution_id (db_effects d) of
        None \<Rightarrow> Inl LookupError
      | Some execution \<Rightarrow>
          (case find_row pr_id (ef_proposal_id execution) (db_proposals d) of
             None \<Rightarrow> Inl LookupError
           | Some proposal \<Rightarrow>
               (case lock_run_row rid None d of
                  None \<Rightarrow> Inl RunNotFoundError
                | Some run \<Rightarrow>
                    (case lock_segment_row segment_id (run_id run) d of
                       None \<Rightarrow> Inl RunNotFoundError
                     | Some segment \<Rightarrow> Inr (run, segment, proposal, execution)))))"

definition effect_tool_call :: "effect_row \<Rightarrow> db \<Rightarrow> tool_call_row option" where
  "effect_tool_call execution d =
     Option.bind (ef_tool_call_id execution) (\<lambda>i. find_row tc_id i (db_tool_calls d))"

definition finalize_effect_execution ::
  "digest \<Rightarrow> (json \<Rightarrow> bool) \<Rightarrow> clock \<Rightarrow> fresh \<Rightarrow> effect_lease \<Rightarrow> provider_result option \<Rightarrow>
   effect_failure option \<Rightarrow> int \<Rightarrow> string option \<Rightarrow> db \<Rightarrow> (stored_effect \<times> db) res" where
  "finalize_effect_execution sha schema_ok clk ids claimed result failure duration_ms trace_id d =
     ebind (raise_if ((result = None) = (failure = None)) ValueError) (\<lambda>_.
     ebind (lock_effect (cx_effect_execution_id claimed) (cx_run_id claimed) (cx_run_segment_id claimed) d)
       (\<lambda>(run, segment, proposal, execution).
     if effect_ended execution then ebind (stored_effect_execution execution) (\<lambda>s. Inr (s, d))
     else
       let now = clk 0 in
       ebind (validate_effect_lease sha execution claimed now) (\<lambda>_.
       ebind (inline_parent_active (clk 1) run segment proposal d) (\<lambda>inlined.
       ebind (raise_if (\<not> inlined \<and> run_status run \<noteq> WAITING_FOR_APPROVAL) EffectLeaseValidationError) (\<lambda>_.
       case effect_tool_call execution d of
         None \<Rightarrow> Inl EffectLeaseValidationError
       | Some tool_call \<Rightarrow>
           ebind (report_of sha schema_ok ids run proposal execution tool_call result failure now) (\<lambda>report.
           ebind (store_report report duration_ms now d) (\<lambda>(execution', d1).
           ebind (if inlined then Inr d1
                  else finish_effect_continuation sha schema_ok (\<lambda>i. ids (i + 4)) run segment
                    (er_proposal report) execution' failure (er_result report) (er_refs report) now
                    trace_id d1) (\<lambda>d2.
             stored_again (ef_id execution) d2))))))))"

section \<open>An effect whose provider is not called\<close>

definition closed_execution :: "effect_row \<Rightarrow> string \<Rightarrow> json \<Rightarrow> time \<Rightarrow> effect_row" where
  "closed_execution execution status error now =
     execution\<lparr>ef_status := status, ef_error_json := Some error, ef_worker_id := None,
       ef_lease_token_hash := None, ef_lease_expires_at := None, ef_executed_at := Some now\<rparr>"

definition fail_tool_call :: "effect_row \<Rightarrow> json \<Rightarrow> db \<Rightarrow> db" where
  "fail_tool_call execution error d =
     (case effect_tool_call execution d of
        None \<Rightarrow> d
      | Some t \<Rightarrow> put_tool_call (t\<lparr>tc_status := ''FAILED'', tc_result_json := None, tc_error_json := Some error\<rparr>) d)"

definition close_effect_before_provider ::
  "digest \<Rightarrow> (json \<Rightarrow> bool) \<Rightarrow> fresh \<Rightarrow> run_row \<Rightarrow> segment_row \<Rightarrow> proposal_row \<Rightarrow> effect_row \<Rightarrow> string \<Rightarrow>
   string \<Rightarrow> time \<Rightarrow> db \<Rightarrow> db res" where
  "close_effect_before_provider sha schema_ok ids run segment proposal execution status reason now d =
     ebind (raise_if (status \<noteq> ''STALE'' \<and> status \<noteq> ''FAILED'') ValueError) (\<lambda>_.
     ebind (effect_failure_record (pr_capability_version proposal) (Some (ef_provider execution))
              (ef_attempt_no execution) reason False (ef_error_json execution) None) (\<lambda>error.
     let execution' = (closed_execution execution status error now)\<lparr>ef_heartbeat_at := Some now\<rparr>;
         proposal' = proposal\<lparr>pr_status := status\<rparr>;
         d1 = fail_tool_call execution (effect_tool_error (py_str (jnull ''code'' error)) False
                (jget ''diagnostic'' error) None) (put_proposal proposal' (put_effect execution' d));
         cancelled = is_cancellation_requested (run_id run) d in
     if owner_phase proposal = JStr ''ACTIVE'' then Inr d1
     else if effect_requires_reconciliation (Some error)
     then stop_run_for_unknown_effect ids run segment proposal' execution' cancelled now None d1
     else
       let effect_event = run_event (ids 0) (run_id run) EFFECT_FAILED
             (effect_payload proposal' execution' [(''before_ref'', JNull), (''after_ref'', JNull), (''error'', error)])
             (''Controlled effect closed before Provider: '' @ reason) now None in
       if cancelled then
         stop_run (\<lambda>i. ids (i + 2)) run segment CANCELLED SEG_CANCELLED None
           (\<lambda>tr. [effect_event, run_snapshot (ids 1) (run_id run)
              (snapshot_payload CANCELLED (tr_row_version tr) segment (effect_fields proposal' execution') JNull)
              ''Run cancelled before controlled effect Provider'' now None]) now d1
       else
         ebind (next_effect_segment sha schema_ok (ids 1) run segment proposal' (ef_id execution) status now
                  [] None None None APPROVAL_RESPONSE) (\<lambda>next_segment.
           continue_run WAITING_FOR_APPROVAL (\<lambda>i. ids (i + 4)) run segment next_segment
             (\<lambda>tr. [effect_event,
                run_event (ids 2) (run_id run) SEGMENT_COMPLETED
                  (JObj ([(''run_segment_id'', JStr (str_uuid (sg_id segment))),
                     (''segment_no'', JInt (sg_segment_no segment))] @ effect_fields proposal' execution'))
                  ''Run segment completed after pre-provider effect failure'' now None,
                run_snapshot (ids 3) (run_id run)
                  (snapshot_payload QUEUED (tr_row_version tr) next_segment (effect_fields proposal' execution') JNull)
                  ''Run queued after pre-provider effect failure'' now None])
             ''effect_failed_before_provider'' now d1)))"

section \<open>Recovery of effects\<close>

definition writes_enabled :: "execution_features \<Rightarrow> proposal_row \<Rightarrow> bool" where
  "writes_enabled features p \<longleftrightarrow> pr_capability_version p \<in> set (write_capabilities features) \<and>
     (pr_capability_version p \<noteq> database_write \<or> pr_operation p \<in> {''INSERT'', ''UPDATE''})"

definition effect_lease_expired :: "time \<Rightarrow> effect_row \<Rightarrow> bool" where
  "effect_lease_expired now e \<longleftrightarrow> (ef_status e = ''LEASED'' \<or> ef_status e = ''APPLYING'') \<and>
     (case ef_lease_expires_at e of None \<Rightarrow> False | Some t \<Rightarrow> t \<le> now)"

definition expired_effects :: "execution_features \<Rightarrow> time \<Rightarrow> int \<Rightarrow> db \<Rightarrow> effect_row list" where
  "expired_effects features now limit d =
     take (nat limit) (sort_key (\<lambda>e. (case ef_lease_expires_at e of None \<Rightarrow> 0 | Some t \<Rightarrow> t, ef_id e))
       (filter (\<lambda>e. effect_lease_expired now e \<and>
          list_ex (\<lambda>p. pr_id p = ef_proposal_id e \<and> writes_enabled features p) (db_proposals d)) (db_effects d)))"

text \<open>The run has moved on: the effect is closed, its events are not, because the run has its snapshot.\<close>

definition abandon_effect :: "proposal_row \<Rightarrow> effect_row \<Rightarrow> time \<Rightarrow> db \<Rightarrow> db res" where
  "abandon_effect proposal execution now d =
     ebind (effect_failure_record (pr_capability_version proposal) (Some (ef_provider execution))
              (ef_attempt_no execution) ''run_left_effect_waiting_state'' False (ef_error_json execution) None)
       (\<lambda>error.
       let d1 = put_proposal (proposal\<lparr>pr_status := ''FAILED''\<rparr>)
             (put_effect (closed_execution execution ''FAILED'' error now) d) in
       Inr (if effect_requires_reconciliation (Some error)
            then fail_tool_call execution (effect_tool_error unknown_effect_code False None None) d1 else d1))"

definition retry_effect :: "fresh \<Rightarrow> proposal_row \<Rightarrow> effect_row \<Rightarrow> time \<Rightarrow> db \<Rightarrow> db res" where
  "retry_effect ids proposal execution now d =
     ebind (effect_failure_record (pr_capability_version proposal) (Some (ef_provider execution))
              (ef_attempt_no execution) ''lease_expired'' True (ef_error_json execution) None) (\<lambda>error.
     let execution' = execution\<lparr>ef_status := ''REQUESTED'', ef_worker_id := None, ef_lease_token_hash := None,
           ef_lease_expires_at := None, ef_heartbeat_at := Some now, ef_error_json := Some error\<rparr>;
         d1 = fail_tool_call execution (effect_tool_error (py_str (jnull ''code'' error)) True None None)
           (put_proposal (proposal\<lparr>pr_status := ''APPROVED''\<rparr>) (put_effect execution' d)) in
       Inr (d1\<lparr>db_outbox := db_outbox d1 @ [effect_dispatch_outbox (ids 0) execution' now]\<rparr>))"

definition recover_effect ::
  "digest \<Rightarrow> (json \<Rightarrow> bool) \<Rightarrow> execution_features \<Rightarrow> fresh \<Rightarrow> time \<Rightarrow> int \<Rightarrow> effect_row \<Rightarrow> db \<Rightarrow> (bool \<times> db) res" where
  "recover_effect sha schema_ok features ids now max_attempts candidate d =
     (case find_row pr_id (ef_proposal_id candidate) (db_proposals d) of
        None \<Rightarrow> Inl ChangeProposalNotFoundError
      | Some proposal \<Rightarrow>
          (case lock_run_row (ef_run_id candidate) None d of
             None \<Rightarrow> Inl RunNotFoundError
           | Some run \<Rightarrow>
               (case lock_segment_row (pr_run_segment_id proposal) (run_id run) d of
                  None \<Rightarrow> Inl RunNotFoundError
                | Some segment \<Rightarrow>
                    (case find_row ef_id (ef_id candidate) (db_effects d) of
                       None \<Rightarrow> Inl LookupError
                     | Some execution \<Rightarrow>
                         let close = (\<lambda>status reason. close_effect_before_provider sha schema_ok ids run
                               segment proposal execution status reason now d) in
                         if \<not> effect_enabled features (pr_capability_version proposal) (pr_operation proposal) None
                         then Inr (False, d)
                         else if \<not> effect_lease_expired now execution then Inr (False, d)
                         else ebind
                           (if run_status run \<noteq> WAITING_FOR_APPROVAL
                            then abandon_effect proposal execution now d
                            else if is_cancellation_requested (run_id run) d then close ''FAILED'' ''run_cancelled''
                            else if pr_expires_at proposal \<le> now then close ''STALE'' ''proposal_expired''
                            else if max_attempts \<le> ef_attempt_no execution then close ''FAILED'' ''retry_exhausted''
                            else retry_effect ids proposal execution now d) (\<lambda>d'. Inr (True, d'))))))"

fun recover_each ::
  "(fresh \<Rightarrow> 'c \<Rightarrow> db \<Rightarrow> (bool \<times> db) res) \<Rightarrow> (nat \<Rightarrow> fresh) \<Rightarrow> 'c list \<Rightarrow> db \<Rightarrow> (int \<times> db) res" where
  "recover_each recover ids [] d = Inr (0, d)"
| "recover_each recover ids (c # cs) d =
     ebind (recover (ids 0) c d) (\<lambda>(recovered, d1).
     ebind (recover_each recover (\<lambda>i. ids (i + 1)) cs d1) (\<lambda>(n, d2).
       Inr ((if recovered then 1 else 0) + n, d2)))"

definition recover_expired_effects ::
  "digest \<Rightarrow> (json \<Rightarrow> bool) \<Rightarrow> execution_features \<Rightarrow> (nat \<Rightarrow> fresh) \<Rightarrow> time \<Rightarrow> int \<Rightarrow> int \<Rightarrow> db \<Rightarrow> (int \<times> db) res" where
  "recover_expired_effects sha schema_ok features ids now limit max_attempts d =
     ebind (raise_if (limit \<le> 0 \<or> max_attempts \<le> 0) ValueError) (\<lambda>_.
       recover_each (\<lambda>i c. recover_effect sha schema_ok features i now max_attempts c) ids
         (expired_effects features now limit d) d)"

section \<open>Approvals nobody gave\<close>

definition approval_fields :: "proposal_row \<Rightarrow> interaction_row \<Rightarrow> (string \<times> json) list" where
  "approval_fields proposal interaction =
     [(''proposal_id'', JStr (str_uuid (pr_id proposal))),
      (''interaction_id'', JStr (str_uuid (ui_id interaction)))]"

definition expired_interaction :: "interaction_row \<Rightarrow> interaction_row" where
  "expired_interaction i = i\<lparr>ui_status := INT_EXPIRED, ui_version := ui_version i + 1\<rparr>"

definition expire_pending_proposal ::
  "digest \<Rightarrow> (json \<Rightarrow> bool) \<Rightarrow> fresh \<Rightarrow> run_row \<Rightarrow> segment_row \<Rightarrow> proposal_row \<Rightarrow> interaction_row \<Rightarrow> time \<Rightarrow>
   string option \<Rightarrow> db \<Rightarrow> db res" where
  "expire_pending_proposal sha schema_ok ids run segment proposal interaction now trace_id d =
     (let proposal' = proposal\<lparr>pr_status := ''STALE''\<rparr>;
          d1 = put_interaction (expired_interaction interaction) (put_proposal proposal' d) in
      ebind (next_effect_segment sha schema_ok (ids 0) run segment proposal' (ui_id interaction) ''EXPIRED'' now
               [] None None None APPROVAL_TIMEOUT) (\<lambda>next_segment.
        continue_run WAITING_FOR_APPROVAL (\<lambda>i. ids (i + 4)) run segment next_segment
          (\<lambda>tr. [run_event (ids 1) (run_id run) SEGMENT_COMPLETED
               (JObj ([(''run_segment_id'', JStr (str_uuid (sg_id segment))),
                  (''segment_no'', JInt (sg_segment_no segment))] @ approval_fields proposal interaction @
                  [(''reason'', JStr ''approval_expired'')]))
               ''Run segment completed after effect approval timeout'' now trace_id,
             run_event (ids 2) (run_id run) EFFECT_REJECTED
               (JObj [(''proposal_id'', JStr (str_uuid (pr_id proposal))),
                  (''proposal_ref'', JStr (pr_proposal_ref proposal)),
                  (''interaction_id'', JStr (str_uuid (ui_id interaction))), (''status'', JStr ''STALE''),
                  (''reason'', JStr ''approval_expired''),
                  (''next_run_segment_id'', JStr (str_uuid (sg_id next_segment))),
                  (''next_segment_no'', JInt (sg_segment_no next_segment))])
               ''External effect approval expired'' now trace_id,
             run_snapshot (ids 3) (run_id run)
               (snapshot_payload QUEUED (tr_row_version tr) next_segment (approval_fields proposal interaction) JNull)
               ''Run queued after effect approval timeout'' now trace_id])
          ''effect_approval_expired'' now d1))"

definition pending_expired :: "time \<Rightarrow> proposal_row \<Rightarrow> bool" where
  "pending_expired now p \<longleftrightarrow> pr_status p = ''PENDING_APPROVAL'' \<and> pr_expires_at p \<le> now"

definition expired_proposals :: "execution_features \<Rightarrow> time \<Rightarrow> int \<Rightarrow> db \<Rightarrow> proposal_row list" where
  "expired_proposals features now limit d =
     take (nat limit) (sort_key (\<lambda>p. (pr_expires_at p, pr_id p))
       (filter (\<lambda>p. writes_enabled features p \<and> pending_expired now p) (db_proposals d)))"

definition recover_proposal ::
  "digest \<Rightarrow> (json \<Rightarrow> bool) \<Rightarrow> execution_features \<Rightarrow> fresh \<Rightarrow> time \<Rightarrow> proposal_row \<Rightarrow> db \<Rightarrow> (bool \<times> db) res" where
  "recover_proposal sha schema_ok features ids now candidate d =
     (case lock_run_row (pr_run_id candidate) None d of
        None \<Rightarrow> Inl RunNotFoundError
      | Some run \<Rightarrow>
          (case lock_segment_row (pr_run_segment_id candidate) (run_id run) d of
             None \<Rightarrow> Inl RunNotFoundError
           | Some segment \<Rightarrow>
               (case find_row pr_id (pr_id candidate) (db_proposals d) of
                  None \<Rightarrow> Inl LookupError
                | Some proposal \<Rightarrow>
                    if \<not> effect_enabled features (pr_capability_version proposal) (pr_operation proposal) None
                    then Inr (False, d)
                    else if \<not> pending_expired now proposal then Inr (False, d)
                    else
                    ebind (one_or_none (filter (\<lambda>i. ui_change_proposal_id i = Some (pr_id proposal) \<and>
                             ui_run_id i = run_id run) (db_interactions d))) (\<lambda>interaction.
                    case interaction of
                      None \<Rightarrow> Inl ChangeProposalValidationError
                    | Some i \<Rightarrow>
                        if run_status run = WAITING_FOR_APPROVAL \<and> ui_status i = INT_OPEN
                        then ebind (expire_pending_proposal sha schema_ok ids run segment proposal i now None d)
                               (\<lambda>d'. Inr (True, d'))
                        else
                          let d1 = put_proposal (proposal\<lparr>pr_status := ''STALE''\<rparr>) d in
                          Inr (True, if ui_status i = INT_OPEN then put_interaction (expired_interaction i) d1
                                     else d1)))))"

definition recover_expired_proposals ::
  "digest \<Rightarrow> (json \<Rightarrow> bool) \<Rightarrow> execution_features \<Rightarrow> (nat \<Rightarrow> fresh) \<Rightarrow> time \<Rightarrow> int \<Rightarrow> db \<Rightarrow> (int \<times> db) res" where
  "recover_expired_proposals sha schema_ok features ids now limit d =
     ebind (raise_if (limit \<le> 0) ValueError) (\<lambda>_.
       recover_each (\<lambda>i c. recover_proposal sha schema_ok features i now c) ids
         (expired_proposals features now limit d) d)"

section \<open>The receipt of an inline effect\<close>

definition merge_keys :: "string list" where
  "merge_keys = [''confirmed_facts'', ''evidence_refs'', ''artifact_refs'', ''change_proposal_refs'',
     ''user_responses'']"

definition list_at :: "string \<Rightarrow> json \<Rightarrow> json list res" where
  "list_at k v = (case jget k v of None \<Rightarrow> Inr [] | Some w \<Rightarrow> py_tuple w)"

text \<open>One value per canonical text, at the place of the first, as the last gives it.\<close>

definition unique_values :: "json list \<Rightarrow> json list" where
  "unique_values vs = map snd (foldl (\<lambda>acc v. assoc_set (canonical_json v) v acc) [] vs)"

definition merge_key :: "json \<Rightarrow> json \<Rightarrow> string \<Rightarrow> json \<Rightarrow> json res" where
  "merge_key previous additions k checkpoint =
     (if jget k previous = None \<and> jget k additions = None then Inr checkpoint
      else ebind (list_at k previous) (\<lambda>ps. ebind (list_at k additions) (\<lambda>vs.
        Inr (jset k (JArr (unique_values (ps @ vs))) checkpoint))))"

fun merge_all :: "json \<Rightarrow> json \<Rightarrow> string list \<Rightarrow> json \<Rightarrow> json res" where
  "merge_all previous additions [] checkpoint = Inr checkpoint"
| "merge_all previous additions (k # ks) checkpoint =
     ebind (merge_key previous additions k checkpoint) (merge_all previous additions ks)"

definition merge_checkpoint :: "json \<Rightarrow> json \<Rightarrow> json res" where
  "merge_checkpoint previous additions =
     ebind (py_dict additions) (\<lambda>a. merge_all previous additions merge_keys (jpop ''effect_result'' a))"

text \<open>\<^verbatim>\<open>list(dict.fromkeys([*checkpoint.get(k, []), *added]))\<close>.\<close>

definition append_refs :: "string \<Rightarrow> json list \<Rightarrow> json \<Rightarrow> json res" where
  "append_refs k added checkpoint =
     ebind (list_at k checkpoint) (\<lambda>items.
     ebind (raise_if (\<not> list_all (\<lambda>v. case v of JArr _ \<Rightarrow> False | JObj _ \<Rightarrow> False | _ \<Rightarrow> True) items) TypeError) (\<lambda>_.
       Inr (jset k (JArr (add_new (items @ added) [])) checkpoint)))"

definition inline_receipt ::
  "digest \<Rightarrow> (json \<Rightarrow> bool) \<Rightarrow> clock \<Rightarrow> claimed_run \<Rightarrow> uuid \<Rightarrow> db \<Rightarrow> (json option \<times> db) res" where
  "inline_receipt sha schema_ok clk claimed proposal_id d =
     ebind (run_attempt_segment sha (clk 0) claimed d) (\<lambda>(run, segment, attempt).
     ebind (reject_cancelled_execution (run_id run) d) (\<lambda>_.
     case (find_row pr_id proposal_id (db_proposals d), segment) of
       (Some proposal, Some segment) \<Rightarrow>
         if pr_run_id proposal \<noteq> run_id run \<or> pr_run_attempt_id proposal \<noteq> at_id attempt
         then Inl EffectLeaseValidationError
         else
         ebind (inline_parent_active (clk 1) run segment proposal d) (\<lambda>active.
         ebind (raise_if (\<not> active) EffectLeaseValidationError) (\<lambda>_.
         case find (\<lambda>e. ef_proposal_id e = pr_id proposal \<and> ef_run_id e = run_id run) (db_effects d) of
           None \<Rightarrow> Inr (None, d)
         | Some execution \<Rightarrow>
             if ef_status execution \<noteq> ''APPLIED'' then Inr (None, d)
             else
             ebind (applied_receipt sha schema_ok proposal execution
                      (\<lambda>x. ed_run_id x = run_id run \<and> Some (ed_tool_call_id x) = ef_tool_call_id execution) d)
               (\<lambda>(before_ref, after_ref, receipt).
             ebind (merge_checkpoint (if truthy (sg_checkpoint_json segment) then sg_checkpoint_json segment
                      else JObj []) (pr_checkpoint_json proposal)) (\<lambda>c0.
             ebind (append_refs ''change_proposal_refs'' [JStr (pr_proposal_ref proposal)] c0) (\<lambda>c1.
             ebind (append_refs ''evidence_refs'' [JStr before_ref, JStr after_ref] c1) (\<lambda>c2.
               Inr (Some receipt,
                 put_segment (segment\<lparr>sg_checkpoint_json := c2\<rparr>)
                   (put_attempt (attempt\<lparr>at_inline_proposal_id := None\<rparr>)
                     (put_proposal (proposal\<lparr>pr_inline_owner_json :=
                        Some (jset ''phase'' (JStr ''DELIVERED'') (owner_of proposal))\<rparr>) d)))))))))
     | _ \<Rightarrow> Inl EffectLeaseValidationError))"

end
