(* ===== verification/Approval_Run.thy ===== *)
theory Approval_Run
  imports Approval Effect_Final
begin

text \<open>
  The decision of a user about a proposed change (\<^verbatim>\<open>decide_change_proposal\<close>) and the lease a worker takes
  on an approved one (\<^verbatim>\<open>claim_effect_execution\<close>), from \<^verbatim>\<open>runs/repository_effects.py\<close>. An expired
  approval is an error whose changes are committed: the error is returned beside the database.
\<close>

section \<open>Decisions\<close>

datatype approval_decision = DEC_APPROVED | DEC_REJECTED

fun decision_text :: "approval_decision \<Rightarrow> string" where
  "decision_text DEC_APPROVED = ''APPROVED''"
| "decision_text DEC_REJECTED = ''REJECTED''"

record decide_command =
  dp_project_id :: uuid
  dp_run_id :: uuid
  dp_proposal_id :: uuid
  dp_actor_id :: uuid
  dp_actor_is_administrator :: bool
  dp_decision :: approval_decision
  dp_proposal_version :: int
  dp_proposal_checksum :: string
  dp_idempotency_key :: string
  dp_reason :: string
  dp_trace_id :: "string option"

text \<open>The public forms of a proposal and an approval; of a row only what can fail is checked here.\<close>

definition stored_change_proposal :: "proposal_row \<Rightarrow> proposal_row res" where
  "stored_change_proposal p =
     ebind (raise_if (\<not> list_all is_obj [pr_target_json p, pr_precondition_json p, pr_rollback_json p,
         pr_verification_json p, pr_checkpoint_json p]) TypeError) (\<lambda>_.
     ebind (raise_if (pr_risk_level p \<notin> set risk_levels \<or> \<not> proposal_row_ok p) ValueError) (\<lambda>_.
       Inr (p\<lparr>pr_preview_json := JObj [(''changes'', JArr
          (case jget ''changes'' (pr_preview_json p) of Some (JArr cs) \<Rightarrow> filter is_obj cs | _ \<Rightarrow> []))]\<rparr>)))"

definition stored_change_approval :: "approval_row \<Rightarrow> approval_row res" where
  "stored_change_approval a = ebind (raise_if (\<not> approval_row_ok a) ValueError) (\<lambda>_. Inr a)"

record proposal_decision =
  dd_proposal :: proposal_row
  dd_approval :: approval_row
  dd_effect_execution :: "stored_effect option"
  dd_run_status :: run_status
  dd_idempotent_replay :: bool

definition decision_result ::
  "proposal_row \<Rightarrow> approval_row \<Rightarrow> effect_row option \<Rightarrow> run_status \<Rightarrow> bool \<Rightarrow> proposal_decision res" where
  "decision_result p a e status replay =
     ebind (stored_change_proposal p) (\<lambda>proposal.
     ebind (stored_change_approval a) (\<lambda>approval.
     ebind (case e of None \<Rightarrow> Inr None | Some x \<Rightarrow> ebind (stored_effect_execution x) (\<lambda>s. Inr (Some s))) (\<lambda>effect.
       Inr \<lparr>dd_proposal = proposal, dd_approval = approval, dd_effect_execution = effect,
            dd_run_status = status, dd_idempotent_replay = replay\<rparr>)))"

definition require_proposal_feature :: "execution_features \<Rightarrow> proposal_row \<Rightarrow> db \<Rightarrow> unit res" where
  "require_proposal_feature features p d =
     ebind (require_effect features (pr_capability_version p) (pr_operation p) None) (\<lambda>_.
     if pr_capability_version p \<noteq> ''repository.write/v1'' then Inr ()
     else case find_row bd_id (pr_target_binding_id p) (db_bindings d) of
       None \<Rightarrow> Inl ChangeProposalValidationError
     | Some b \<Rightarrow> require_effect features (pr_capability_version p) (pr_operation p) (Some (bd_provider b)))"

text \<open>Only the user who started the run and an administrator decide.\<close>

definition may_decide :: "run_row \<Rightarrow> decide_command \<Rightarrow> bool res" where
  "may_decide run c =
     (if dp_actor_is_administrator c then Inr True
      else case jget ''actor_id'' (run_permission_snapshot_json run) of
        Some (JStr s) \<Rightarrow> compare_digest s (str_uuid (dp_actor_id c))
      | _ \<Rightarrow> Inr False)"

definition decision_fingerprint :: "digest \<Rightarrow> decide_command \<Rightarrow> string" where
  "decision_fingerprint sha c =
     json_digest sha (JObj [(''proposal_id'', JStr (str_uuid (dp_proposal_id c))),
       (''proposal_version'', JInt (dp_proposal_version c)),
       (''proposal_checksum'', JStr (dp_proposal_checksum c)),
       (''decision'', JStr (decision_text (dp_decision c))), (''reason'', JStr (dp_reason c))])"

definition user_approval :: "digest \<Rightarrow> uuid \<Rightarrow> decide_command \<Rightarrow> run_row \<Rightarrow> time \<Rightarrow> approval_row" where
  "user_approval sha new_id c run now =
     \<lparr>ap_id = new_id, ap_proposal_id = dp_proposal_id c, ap_run_id = run_id run, ap_source = ''USER'',
      ap_decision = decision_text (dp_decision c), ap_actor_id = Some (dp_actor_id c),
      ap_preauthorization_id = None, ap_proposal_version = dp_proposal_version c,
      ap_proposal_checksum = dp_proposal_checksum c, ap_idempotency_key = dp_idempotency_key c,
      ap_request_hash = decision_fingerprint sha c, ap_reason = dp_reason c, ap_created_at = now\<rparr>"

definition insert_approval :: "approval_row \<Rightarrow> db \<Rightarrow> db res" where
  "insert_approval a d =
     ebind (raise_if (\<not> approval_row_ok a \<or> list_ex (\<lambda>x. ap_proposal_id x = ap_proposal_id a \<or>
              ap_run_id x = ap_run_id a \<and> ap_idempotency_key x = ap_idempotency_key a) (db_approvals d))
            IntegrityError) (\<lambda>_.
     ebind (insert_rows ap_id [a] (db_approvals d)) (\<lambda>rows. Inr (d\<lparr>db_approvals := rows\<rparr>)))"

definition insert_effect :: "effect_row \<Rightarrow> db \<Rightarrow> db res" where
  "insert_effect e d =
     ebind (raise_if (\<not> effect_row_ok e \<or> list_ex (\<lambda>x. ef_proposal_id x = ef_proposal_id e \<or>
              ef_approval_id x = ef_approval_id e) (db_effects d)) IntegrityError) (\<lambda>_.
     ebind (insert_rows ef_id [e] (db_effects d)) (\<lambda>rows. Inr (d\<lparr>db_effects := rows\<rparr>)))"

text \<open>Is this decision the first, and still about what the user was shown? Answers the open question.\<close>

definition decidable ::
  "clock \<Rightarrow> decide_command \<Rightarrow> run_row \<Rightarrow> proposal_row \<Rightarrow> db \<Rightarrow> interaction_row res" where
  "decidable clk c run p d =
     ebind (raise_if (pr_status p \<noteq> ''PENDING_APPROVAL'') ChangeProposalConflictError) (\<lambda>_.
     ebind (raise_if (pr_version p \<noteq> dp_proposal_version c) ChangeProposalConflictError) (\<lambda>_.
     ebind (compare_digest (pr_checksum p) (dp_proposal_checksum c)) (\<lambda>same.
     ebind (raise_if (\<not> same) ChangeProposalConflictError) (\<lambda>_.
     ebind (raise_if (run_status run \<noteq> WAITING_FOR_APPROVAL) ChangeProposalConflictError) (\<lambda>_.
     ebind (one_or_none (filter (\<lambda>i. ui_change_proposal_id i = Some (pr_id p) \<and> ui_run_id i = run_id run)
              (db_interactions d))) (\<lambda>found.
     case found of
       None \<Rightarrow> Inl ChangeProposalConflictError
     | Some i \<Rightarrow> if ui_status i \<noteq> INT_OPEN then Inl ChangeProposalConflictError else Inr i))))))"

definition approval_event ::
  "uuid \<Rightarrow> decide_command \<Rightarrow> run_row \<Rightarrow> proposal_row \<Rightarrow> approval_row \<Rightarrow> effect_row \<Rightarrow> time \<Rightarrow> int \<Rightarrow> event_row" where
  "approval_event new_id c run p approval effect now =
     run_event new_id (run_id run) EFFECT_APPROVED
       (JObj [(''proposal_id'', JStr (str_uuid (pr_id p))), (''proposal_ref'', JStr (pr_proposal_ref p)),
          (''approval_id'', JStr (str_uuid (ap_id approval))), (''source'', JStr ''USER''),
          (''effect_execution_id'', JStr (str_uuid (ef_id effect)))])
       ''External effect approved'' now (dp_trace_id c)"

definition approve_proposal ::
  "fresh \<Rightarrow> decide_command \<Rightarrow> run_row \<Rightarrow> proposal_row \<Rightarrow> approval_row \<Rightarrow> time \<Rightarrow> db \<Rightarrow>
   (proposal_decision \<times> db) res" where
  "approve_proposal ids c run p approval now d =
     (case find_row bd_id (pr_target_binding_id p) (db_bindings d) of
        None \<Rightarrow> Inl ChangeProposalValidationError
      | Some b \<Rightarrow>
          let p' = p\<lparr>pr_status := ''APPROVED''\<rparr> in
          ebind (new_effect_execution (ids 0) p' (ap_id approval) (bd_provider b) now) (\<lambda>effect.
          ebind (insert_approval approval (put_proposal p' d)) (\<lambda>d1.
          ebind (insert_effect effect d1) (\<lambda>d2.
          let d3 = announce_next (\<lambda>i. ids (i + 3)) run (run_status run)
                [approval_event (ids 1) c run p approval effect now] d2 in
          ebind (decision_result p' approval (Some effect) (run_status run) False) (\<lambda>r.
            Inr (r, d3\<lparr>db_outbox := db_outbox d3 @ [effect_dispatch_outbox (ids 2) effect now]\<rparr>))))))"

definition rejection_events ::
  "fresh \<Rightarrow> decide_command \<Rightarrow> run_row \<Rightarrow> segment_row \<Rightarrow> proposal_row \<Rightarrow> approval_row \<Rightarrow> segment_row \<Rightarrow> time \<Rightarrow>
   run_transition \<Rightarrow> (int \<Rightarrow> event_row) list" where
  "rejection_events ids c run segment p approval next_segment now tr =
     [run_event (ids 1) (run_id run) SEGMENT_COMPLETED
        (JObj [(''run_segment_id'', JStr (str_uuid (sg_id segment))),
           (''segment_no'', JInt (sg_segment_no segment)), (''proposal_id'', JStr (str_uuid (pr_id p)))])
        ''Run segment completed after effect rejection'' now (dp_trace_id c),
      run_event (ids 2) (run_id run) EFFECT_REJECTED
        (JObj [(''proposal_id'', JStr (str_uuid (pr_id p))), (''proposal_ref'', JStr (pr_proposal_ref p)),
           (''approval_id'', JStr (str_uuid (ap_id approval))),
           (''next_run_segment_id'', JStr (str_uuid (sg_id next_segment))),
           (''next_segment_no'', JInt (sg_segment_no next_segment))])
        ''External effect rejected'' now (dp_trace_id c),
      run_snapshot (ids 3) (run_id run)
        (snapshot_payload QUEUED (tr_row_version tr) next_segment
          [(''proposal_id'', JStr (str_uuid (pr_id p)))] JNull)
        ''Run queued after effect rejection'' now (dp_trace_id c)]"

definition reject_proposal ::
  "digest \<Rightarrow> (json \<Rightarrow> bool) \<Rightarrow> fresh \<Rightarrow> decide_command \<Rightarrow> run_row \<Rightarrow> segment_row \<Rightarrow> proposal_row \<Rightarrow> approval_row \<Rightarrow>
   time \<Rightarrow> db \<Rightarrow> (proposal_decision \<times> db) res" where
  "reject_proposal sha schema_ok ids c run segment p approval now d =
     (let p' = p\<lparr>pr_status := ''REJECTED''\<rparr> in
      ebind (next_effect_segment sha schema_ok (ids 0) run segment p' (ap_id approval) ''REJECTED'' now [] None None
               (Some (ap_reason approval)) APPROVAL_RESPONSE) (\<lambda>next_segment.
      ebind (insert_approval approval (put_proposal p' d)) (\<lambda>d1.
      ebind (continue_run WAITING_FOR_APPROVAL (\<lambda>i. ids (i + 4)) run segment next_segment
        (rejection_events ids c run segment p approval next_segment now)
        ''effect_rejected'' now d1) (\<lambda>d2.
      ebind (decision_result p' approval None QUEUED False) (\<lambda>r. Inr (r, d2))))))"

definition decide_change_proposal ::
  "digest \<Rightarrow> (json \<Rightarrow> bool) \<Rightarrow> document_check \<Rightarrow> provider_check \<Rightarrow> execution_features \<Rightarrow> clock \<Rightarrow> fresh \<Rightarrow>
   decide_command \<Rightarrow> db \<Rightarrow> (proposal_decision res \<times> db) res" where
  "decide_change_proposal sha schema_ok documents provider_checks features clk ids c d =
     (case find (\<lambda>p. pr_id p = dp_proposal_id c \<and> pr_run_id p = dp_run_id c) (db_proposals d) of
        None \<Rightarrow> Inl ChangeProposalNotFoundError
      | Some p \<Rightarrow>
     (case lock_run_row (dp_run_id c) (Some (dp_project_id c)) d of
        None \<Rightarrow> Inl ChangeProposalNotFoundError
      | Some run \<Rightarrow>
     ebind (may_decide run c) (\<lambda>allowed.
     ebind (raise_if (\<not> allowed) ChangeProposalApprovalForbiddenError) (\<lambda>_.
     case lock_segment_row (pr_run_segment_id p) (run_id run) d of
        None \<Rightarrow> Inl ChangeProposalNotFoundError
      | Some segment \<Rightarrow>
     ebind (if dp_decision c = DEC_APPROVED then require_proposal_feature features p d else Inr ()) (\<lambda>_.
     case find (\<lambda>a. ap_proposal_id a = pr_id p) (db_approvals d) of
        Some existing \<Rightarrow>
          if ap_idempotency_key existing \<noteq> dp_idempotency_key c \<or>
             ap_request_hash existing \<noteq> decision_fingerprint sha c
          then Inl ChangeProposalConflictError
          else ebind (decision_result p existing (find (\<lambda>e. ef_proposal_id e = pr_id p) (db_effects d))
                   (run_status run) True) (\<lambda>r. Inr (Inr r, d))
      | None \<Rightarrow>
          let now = clk 0 in
          ebind (decidable clk c run p d) (\<lambda>i.
          if pr_expires_at p \<le> now \<or> ui_expires_at i \<le> now
          then ebind (expire_pending_proposal sha schema_ok ids run segment p i now (dp_trace_id c) d) (\<lambda>d'.
                 Inr (Inl ChangeProposalExpiredError, d'))
          else
          ebind (validate_proposal_row sha documents provider_checks p run False d) (\<lambda>_.
          let approval = user_approval sha (ids 0) c run now;
              d1 = put_interaction (i\<lparr>ui_status := INT_RESPONDED, ui_version := ui_version i + 1\<rparr>) d in
          ebind (case dp_decision c of
                   DEC_APPROVED \<Rightarrow> approve_proposal (\<lambda>n. ids (n + 1)) c run p approval now d1
                 | DEC_REJECTED \<Rightarrow> reject_proposal sha schema_ok (\<lambda>n. ids (n + 1)) c run segment p approval now d1)
            (\<lambda>(r, d2). Inr (Inr r, d2)))))))))"

section \<open>The lease of an approved effect\<close>

record claimed_effect = effect_lease +
  cx_proposal_id :: uuid
  cx_proposal_ref :: string
  cx_approval_id :: uuid
  cx_run_attempt_id :: uuid
  cx_agent_session_id :: uuid
  cx_project_id :: uuid
  cx_integration_id :: "uuid option"
  cx_binding_id :: uuid
  cx_capability_version :: string
  cx_operation :: string
  cx_target :: json
  cx_changes :: "json list"
  cx_precondition :: json
  cx_verification :: json
  cx_idempotency_key :: string
  cx_request_fingerprint :: string
  cx_provider :: string
  cx_integration_revision :: int
  cx_integration_scope :: json
  cx_integration_config :: json
  cx_secret_reference_id :: "uuid option"
  cx_lease_expires_at :: time
  cx_attempt_no :: int
  cx_previous_diagnostic :: json

record effect_claim_request =
  cq_effect_execution_id :: uuid
  cq_worker_id :: string
  cq_lease_token :: string
  cq_lease_token_hash :: string
  cq_lease_seconds :: int
  cq_max_attempts :: int
  cq_inline_parent :: "claimed_run option"

definition effect_lease_live :: "time \<Rightarrow> effect_row \<Rightarrow> bool" where
  "effect_lease_live now e \<longleftrightarrow> (ef_status e = ''LEASED'' \<or> ef_status e = ''APPLYING'') \<and>
     (\<exists>t \<in> set_option (ef_lease_expires_at e). now < t)"

text \<open>
  May this caller take the effect? An inline effect belongs to the attempt that asked for it; another
  caller is turned away without an error (\<^const>\<open>False\<close>).
\<close>

definition inline_caller :: "digest \<Rightarrow> effect_claim_request \<Rightarrow> run_row \<Rightarrow> proposal_row \<Rightarrow> bool" where
  "inline_caller sha q run p \<longleftrightarrow>
     (case cq_inline_parent q of
        None \<Rightarrow> False
      | Some parent \<Rightarrow> cl_run_id parent = run_id run \<and> cl_run_attempt_id parent = pr_run_attempt_id p \<and>
          jget ''lease_hash'' (owner_of p) = Some (JStr (lease_token_hash sha (cl_lease_token parent))))"

definition effect_caller ::
  "digest \<Rightarrow> time \<Rightarrow> effect_claim_request \<Rightarrow> run_row \<Rightarrow> segment_row \<Rightarrow> proposal_row \<Rightarrow> db \<Rightarrow> bool res" where
  "effect_caller sha now q run segment p d =
     (if owner_phase p = JStr ''ACTIVE'' then
        (if \<not> inline_caller sha q run p then Inr False
         else ebind (inline_parent_active now run segment p d) (\<lambda>_. Inr True))
      else ebind (raise_if (run_status run \<noteq> WAITING_FOR_APPROVAL) EffectLeaseValidationError) (\<lambda>_. Inr True))"

text \<open>The approval that the effect carries: of this proposal, positive, and for exactly this version.\<close>

definition matching_approval ::
  "digest \<Rightarrow> digest128 \<Rightarrow> run_row \<Rightarrow> proposal_row \<Rightarrow> effect_row \<Rightarrow> db \<Rightarrow> approval_row res" where
  "matching_approval sha sha1 run p e d =
     (case find_row ap_id (ef_approval_id e) (db_approvals d) of
        None \<Rightarrow> Inl EffectLeaseValidationError
      | Some a \<Rightarrow>
          ebind (raise_if (ap_proposal_id a \<noteq> pr_id p \<or> ap_decision a \<noteq> ''APPROVED'' \<or>
              ap_proposal_version a \<noteq> pr_version p) EffectLeaseValidationError) (\<lambda>_.
          ebind (compare_digest (ap_proposal_checksum a) (pr_checksum p)) (\<lambda>same.
          ebind (raise_if (\<not> same) EffectLeaseValidationError) (\<lambda>_.
          ebind (if ap_source a = ''RUN_START''
                 then has_actor_approval sha sha1 run a (pr_capability_version p) (Some (ef_provider e))
                 else Inr True) (\<lambda>consented.
          ebind (raise_if (\<not> consented) EffectLeaseValidationError) (\<lambda>_. Inr a))))))"

definition effect_tool_name :: "string \<Rightarrow> string" where
  "effect_tool_name capability =
     ''effect__'' @ map (\<lambda>c. if c = CHR ''.'' \<or> c = CHR ''/'' then CHR ''_'' else c) capability"

definition preview_items :: "proposal_row \<Rightarrow> json list res" where
  "preview_items p =
     (case jget ''changes'' (pr_preview_json p) of None \<Rightarrow> Inr [] | Some v \<Rightarrow> ebind (py_tuple v) (\<lambda>items.
        Inr (filter is_obj items)))"

definition new_effect_call ::
  "uuid \<Rightarrow> run_row \<Rightarrow> proposal_row \<Rightarrow> effect_row \<Rightarrow> binding_row \<Rightarrow> uuid \<Rightarrow> json list \<Rightarrow> time \<Rightarrow> tool_call_row" where
  "new_effect_call new_id run p e b sdk_session items now =
     \<lparr>tc_id = new_id, tc_run_id = run_id run, tc_run_attempt_id = pr_run_attempt_id p,
      tc_agent_session_id = sdk_session, tc_sdk_tool_use_id = ''effect:'' @ str_uuid (ef_id e),
      tc_request_fingerprint = ef_request_fingerprint e, tc_tool_name = effect_tool_name (pr_capability_version p),
      tc_capability_version = pr_capability_version p, tc_provider = ef_provider e,
      tc_integration_id = bd_integration_id b,
      tc_arguments_summary = JObj [(''target_keys'', JArr (map JStr (sort (map fst (obj_fields (pr_target_json p)))))),
        (''change_paths'', JArr (map (\<lambda>i. JStr (py_str (jnull ''path'' i))) items))],
      tc_status = ''RUNNING'', tc_duration_ms = None, tc_result_json = None, tc_error_json = None,
      tc_created_at = now\<rparr>"

definition effect_permission :: "uuid \<Rightarrow> run_row \<Rightarrow> proposal_row \<Rightarrow> approval_row \<Rightarrow> effect_row \<Rightarrow> uuid \<Rightarrow> time \<Rightarrow> permission_row" where
  "effect_permission new_id run p a e call_id now =
     \<lparr>pd_id = new_id, pd_run_id = run_id run, pd_tool_call_id = call_id, pd_policy = ''controlled_effect'',
      pd_decision = ''AUTO_ALLOW'', pd_decided_by = ap_actor_id a,
      pd_reason = (if ap_source a = ''USER'' then ''Exact user approval''
        else if ap_source a = ''RUN_START'' then ''Run start automatic approval''
        else ''Exact low-risk preauthorization''),
      pd_request_fingerprint = ef_request_fingerprint e,
      pd_request_json = JObj [(''proposal_id'', JStr (str_uuid (pr_id p))),
        (''proposal_version'', JInt (pr_version p)), (''approval_id'', JStr (str_uuid (ap_id a)))],
      pd_decided_at = now\<rparr>"

definition insert_permission :: "permission_row \<Rightarrow> db \<Rightarrow> db res" where
  "insert_permission r d =
     ebind (raise_if (list_ex (\<lambda>x. pd_tool_call_id x = pd_tool_call_id r \<and> pd_decision x = pd_decision r \<and>
              pd_request_fingerprint x = pd_request_fingerprint r) (db_permissions d)) IntegrityError) (\<lambda>_.
     ebind (insert_rows pd_id [r] (db_permissions d)) (\<lambda>rows. Inr (d\<lparr>db_permissions := rows\<rparr>)))"

text \<open>The tool call of an effect is made once, with its permission, and reused by every retry.\<close>

definition ensure_effect_call ::
  "fresh \<Rightarrow> run_row \<Rightarrow> proposal_row \<Rightarrow> approval_row \<Rightarrow> effect_row \<Rightarrow> binding_row \<Rightarrow> uuid \<Rightarrow> time \<Rightarrow> db \<Rightarrow>
   (effect_row \<times> db) res" where
  "ensure_effect_call ids run p a e b sdk_session now d =
     (case effect_tool_call e d of
        None \<Rightarrow>
          ebind (preview_items p) (\<lambda>items.
          let call = new_effect_call (ids 0) run p e b sdk_session items now;
              e' = e\<lparr>ef_tool_call_id := Some (tc_id call)\<rparr> in
          ebind (raise_if (list_ex (\<lambda>x. tc_run_id x = tc_run_id call \<and>
              tc_sdk_tool_use_id x = tc_sdk_tool_use_id call) (db_tool_calls d)) IntegrityError) (\<lambda>_.
          ebind (insert_rows tc_id [call] (db_tool_calls d)) (\<lambda>calls.
          ebind (insert_permission (effect_permission (ids 1) run p a e (tc_id call) now)
                   (d\<lparr>db_tool_calls := calls\<rparr>)) (\<lambda>d1.
            Inr (e', put_effect e' d1)))))
      | Some call \<Rightarrow>
          ebind (raise_if (tc_request_fingerprint call \<noteq> ef_request_fingerprint e \<or>
              tc_capability_version call \<noteq> pr_capability_version p \<or>
              tc_integration_id call \<noteq> bd_integration_id b) EffectLeaseValidationError) (\<lambda>_.
            Inr (e, put_tool_call (call\<lparr>tc_status := ''RUNNING'', tc_error_json := None\<rparr>) d)))"

definition leased_effect :: "effect_claim_request \<Rightarrow> proposal_row \<Rightarrow> effect_row \<Rightarrow> time \<Rightarrow> effect_row" where
  "leased_effect q p e now =
     e\<lparr>ef_status := ''APPLYING'', ef_worker_id := Some (cq_worker_id q),
       ef_lease_token_hash := Some (cq_lease_token_hash q),
       ef_lease_expires_at := Some (min (now + cq_lease_seconds q * 1000000) (pr_expires_at p)),
       ef_heartbeat_at := Some now, ef_attempt_no := ef_attempt_no e + 1,
       ef_started_at := Some (case ef_started_at e of None \<Rightarrow> now | Some t \<Rightarrow> t)\<rparr>"

definition effect_snapshot ::
  "effect_claim_request \<Rightarrow> run_row \<Rightarrow> segment_row \<Rightarrow> proposal_row \<Rightarrow> approval_row \<Rightarrow> effect_row \<Rightarrow> binding_row \<Rightarrow>
   integration_row option \<Rightarrow> uuid \<Rightarrow> time \<Rightarrow> claimed_effect res" where
  "effect_snapshot q run segment p a e b integration sdk_session lease_expires_at =
     ebind (case integration of
              Some i \<Rightarrow> Inr (in_revision i)
            | None \<Rightarrow> (case int_text (bd_revision b) of None \<Rightarrow> Inl ValueError | Some n \<Rightarrow> Inr n)) (\<lambda>revision.
       Inr \<lparr>cx_effect_execution_id = ef_id e, cx_run_id = run_id run, cx_run_segment_id = sg_id segment,
            cx_lease_token = cq_lease_token q, cx_proposal_id = pr_id p, cx_proposal_ref = pr_proposal_ref p,
            cx_approval_id = ap_id a, cx_run_attempt_id = pr_run_attempt_id p, cx_agent_session_id = sdk_session,
            cx_project_id = run_project_id run, cx_integration_id = bd_integration_id b, cx_binding_id = bd_id b,
            cx_capability_version = pr_capability_version p, cx_operation = pr_operation p,
            cx_target = pr_target_json p,
            cx_changes = (case jget ''changes'' (pr_preview_json p) of
              Some (JArr items) \<Rightarrow> filter is_obj items | _ \<Rightarrow> []),
            cx_precondition = pr_precondition_json p, cx_verification = pr_verification_json p,
            cx_idempotency_key = pr_idempotency_key p, cx_request_fingerprint = pr_request_fingerprint p,
            cx_provider = (case integration of Some i \<Rightarrow> in_provider i | None \<Rightarrow> bd_provider b),
            cx_integration_revision = revision, cx_integration_scope = bd_scope_json b,
            cx_integration_config = (case integration of Some i \<Rightarrow> in_config_json i | None \<Rightarrow> JObj []),
            cx_secret_reference_id = Option.bind integration in_secret_reference_id,
            cx_lease_expires_at = lease_expires_at, cx_attempt_no = ef_attempt_no e + 1,
            cx_previous_diagnostic = (case ef_error_json e of None \<Rightarrow> JNull | Some v \<Rightarrow> jnull ''diagnostic'' v)\<rparr>)"

definition execution_sources ::
  "proposal_row \<Rightarrow> db \<Rightarrow> (binding_row \<times> integration_row option \<times> uuid) res" where
  "execution_sources p d =
     (let integration = Option.bind (pr_integration_id p) (\<lambda>i. find_row in_id i (db_integrations d)) in
      case (find_row bd_id (pr_target_binding_id p) (db_bindings d),
            find_row se_id (pr_agent_session_id p) (db_sessions d)) of
        (Some b, Some s) \<Rightarrow>
          if pr_integration_id p \<noteq> None \<and> integration = None then Inl EffectLeaseValidationError
          else (case se_sdk_session_id s of
                  None \<Rightarrow> Inl EffectLeaseValidationError | Some u \<Rightarrow> Inr (b, integration, u))
      | _ \<Rightarrow> Inl EffectLeaseValidationError)"

text \<open>The checks that a call of the provider needs: approval, stored proposal, resource, session.\<close>

definition authorize_lease ::
  "digest \<Rightarrow> digest128 \<Rightarrow> document_check \<Rightarrow> provider_check \<Rightarrow> run_row \<Rightarrow> proposal_row \<Rightarrow> effect_row \<Rightarrow> db \<Rightarrow>
   (approval_row \<times> binding_row \<times> integration_row option \<times> uuid) res" where
  "authorize_lease sha sha1 documents provider_checks run p e d =
     ebind (matching_approval sha sha1 run p e d) (\<lambda>a.
     ebind (validate_proposal_row sha documents provider_checks p run False d) (\<lambda>_.
     ebind (execution_sources p d) (\<lambda>(b, integration, sdk_session). Inr (a, b, integration, sdk_session))))"

definition lease_effect ::
  "digest \<Rightarrow> digest128 \<Rightarrow> (json \<Rightarrow> bool) \<Rightarrow> document_check \<Rightarrow> provider_check \<Rightarrow> clock \<Rightarrow> fresh \<Rightarrow>
   effect_claim_request \<Rightarrow> run_row \<Rightarrow> segment_row \<Rightarrow> proposal_row \<Rightarrow> effect_row \<Rightarrow> db \<Rightarrow>
   (claimed_effect option \<times> db) res" where
  "lease_effect sha sha1 schema_ok documents provider_checks clk ids q run segment p e d =
     ebind (authorize_lease sha sha1 documents provider_checks run p e d) (\<lambda>(a, b, integration, sdk_session).
     let closed = (\<lambda>e' d' status reason now.
           ebind (close_effect_before_provider sha schema_ok (\<lambda>n. ids (n + 2)) run segment p e' status reason now d')
             (\<lambda>d''. Inr (None, d''))) in
     if cq_max_attempts q < ef_attempt_no e + 1 then closed e d ''FAILED'' ''retry_exhausted'' (clk 0)
     else
     ebind (ensure_effect_call ids run p a e b sdk_session (clk 0) d) (\<lambda>(e1, d1).
     if pr_expires_at p \<le> clk 1 then closed e1 d1 ''STALE'' ''proposal_expired'' (clk 1)
     else
       let e2 = leased_effect q p e1 (clk 1) in
       ebind (effect_snapshot q run segment p a e1 b integration sdk_session
                (min (clk 1 + cq_lease_seconds q * 1000000) (pr_expires_at p))) (\<lambda>claimed.
         Inr (Some claimed, put_proposal (p\<lparr>pr_status := ''APPLYING''\<rparr>) (put_effect e2 d1)))))"

definition claim_locked_effect ::
  "digest \<Rightarrow> digest128 \<Rightarrow> (json \<Rightarrow> bool) \<Rightarrow> document_check \<Rightarrow> provider_check \<Rightarrow> execution_features \<Rightarrow> clock \<Rightarrow>
   fresh \<Rightarrow> effect_claim_request \<Rightarrow> run_row \<Rightarrow> segment_row \<Rightarrow> proposal_row \<Rightarrow> effect_row \<Rightarrow> db \<Rightarrow>
   (claimed_effect option \<times> db) res" where
  "claim_locked_effect sha sha1 schema_ok documents provider_checks features clk ids q run segment p e d =
     (if effect_ended e then Inr (None, d)
      else
      ebind (require_proposal_feature features p d) (\<lambda>_.
      let now = clk 0 in
      if effect_lease_live now e then Inr (None, d)
      else
      ebind (effect_caller sha (clk 1) q run segment p d) (\<lambda>admitted.
      if \<not> admitted then Inr (None, d)
      else
      ebind (raise_if (pr_status p \<noteq> ''APPROVED'' \<and> pr_status p \<noteq> ''APPLYING'') EffectLeaseValidationError) (\<lambda>_.
      let closed = (\<lambda>status reason.
            ebind (close_effect_before_provider sha schema_ok ids run segment p e status reason now d)
              (\<lambda>d'. Inr (None, d'))) in
      if is_cancellation_requested (run_id run) d then closed ''FAILED'' ''run_cancelled''
      else if pr_expires_at p \<le> now then closed ''STALE'' ''proposal_expired''
      else lease_effect sha sha1 schema_ok documents provider_checks (\<lambda>n. if n = 0 then now else clk (n + 1)) ids q
             run segment p e d))))"

definition claim_effect_execution ::
  "digest \<Rightarrow> digest128 \<Rightarrow> (json \<Rightarrow> bool) \<Rightarrow> document_check \<Rightarrow> provider_check \<Rightarrow> execution_features \<Rightarrow> clock \<Rightarrow>
   fresh \<Rightarrow> effect_claim_request \<Rightarrow> db \<Rightarrow> (claimed_effect option \<times> db) res" where
  "claim_effect_execution sha sha1 schema_ok documents provider_checks features clk ids q d =
     ebind (raise_if (cq_max_attempts q \<le> 0 \<or> cq_lease_seconds q \<le> 0) ValueError) (\<lambda>_.
     case find_row ef_id (cq_effect_execution_id q) (db_effects d) of
       None \<Rightarrow> Inl LookupError
     | Some observed \<Rightarrow>
     (case find_row pr_id (ef_proposal_id observed) (db_proposals d) of
       None \<Rightarrow> Inl LookupError
     | Some proposal \<Rightarrow>
     ebind (lock_effect (cq_effect_execution_id q) (ef_run_id observed) (pr_run_segment_id proposal) d)
       (\<lambda>(run, segment, p, e).
         claim_locked_effect sha sha1 schema_ok documents provider_checks features clk ids q run segment p e d)))"

section \<open>Facts\<close>

lemma matching_approval_Inr:
  assumes "matching_approval sha sha1 run p e d = Inr a"
  shows "a \<in> set (db_approvals d)" "ap_id a = ef_approval_id e" "ap_proposal_id a = pr_id p"
    "ap_decision a = ''APPROVED''" "ap_proposal_version a = pr_version p" "ap_proposal_checksum a = pr_checksum p"
    "ap_source a = ''RUN_START'' \<Longrightarrow>
       has_actor_approval sha sha1 run a (pr_capability_version p) (Some (ef_provider e)) = Inr True"
  using assms
  by (auto simp: matching_approval_def ebind_Inr_iff compare_digest_def find_row_def find_Some_iff
      split: option.splits if_splits)

end
