(* ===== verification/Interaction.thy ===== *)
theory Interaction
  imports Redaction Run_Domain Pyvalue
begin

text \<open>
  \<^verbatim>\<open>runs/interaction.py\<close>: the questions an agent may put to a user and the answers that are accepted. The
  JSON schema validator (\<^verbatim>\<open>jsonschema\<close>) is the argument \<open>valid\<close>: does an instance conform to a schema?
\<close>

definition ordinary_interaction_types :: "interaction_type list" where
  "ordinary_interaction_types = [CLARIFICATION, CHOICE, REVIEW]"

fun interaction_type_text :: "interaction_type \<Rightarrow> string" where
  "interaction_type_text CLARIFICATION = ''CLARIFICATION''"
| "interaction_type_text CHOICE = ''CHOICE''"
| "interaction_type_text REVIEW = ''REVIEW''"
| "interaction_type_text EFFECT_APPROVAL = ''EFFECT_APPROVAL''"

definition interaction_type_of :: "string \<Rightarrow> interaction_type res" where
  "interaction_type_of s =
     (case find (\<lambda>t. interaction_type_text t = s) [CLARIFICATION, CHOICE, REVIEW, EFFECT_APPROVAL] of
        None \<Rightarrow> Inl ValueError | Some t \<Rightarrow> Inr t)"

fun continuation_text :: "continuation_mode \<Rightarrow> string" where
  "continuation_text INITIAL = ''INITIAL''"
| "continuation_text RESUME = ''RESUME''"
| "continuation_text FORK = ''FORK''"
| "continuation_text REPLACE = ''REPLACE''"
| "continuation_text BRANCH = ''BRANCH''"

definition continuation_of :: "string \<Rightarrow> continuation_mode res" where
  "continuation_of s =
     (case find (\<lambda>m. continuation_text m = s) [INITIAL, RESUME, FORK, REPLACE, BRANCH] of
        None \<Rightarrow> Inl ValueError | Some m \<Rightarrow> Inr m)"

section \<open>The contract of a question\<close>

definition checkpoint_schema :: json where
  "checkpoint_schema =
     JObj [
       (''type'', JStr ''object''),
       (''additionalProperties'', JBool False),
       (''required'', JArr [JStr ''summary'', JStr ''confirmed_facts'', JStr ''evidence_refs'',
         JStr ''artifact_refs'', JStr ''change_proposal_refs'']),
       (''properties'', JObj [
         (''summary'', JObj [(''type'', JStr ''string''), (''minLength'', JInt 1), (''maxLength'', JInt 4000)]),
         (''confirmed_facts'', JObj [
           (''type'', JStr ''array''),
           (''maxItems'', JInt 100),
           (''items'', JObj [(''type'', JStr ''string''), (''minLength'', JInt 1), (''maxLength'',
             JInt 1000)])]),
         (''evidence_refs'', JObj [
           (''type'', JStr ''array''),
           (''maxItems'', JInt 200),
           (''uniqueItems'', JBool True),
           (''items'', JObj [(''type'', JStr ''string''), (''pattern'', JStr ''^ev_[a-zA-Z0-9_-]+$'')])]),
         (''artifact_refs'', JObj [
           (''type'', JStr ''array''),
           (''maxItems'', JInt 100),
           (''uniqueItems'', JBool True),
           (''items'', JObj [(''type'', JStr ''string''), (''pattern'', JStr ''^art_[a-zA-Z0-9_-]+$'')])]),
         (''change_proposal_refs'', JObj [
           (''type'', JStr ''array''),
           (''maxItems'', JInt 100),
           (''uniqueItems'', JBool True),
           (''items'', JObj [(''type'', JStr ''string''), (''pattern'', JStr ''^cp_[a-zA-Z0-9_-]+$'')])])])]"

definition options_schema :: json where
  "options_schema =
     JObj [
       (''type'', JStr ''array''),
       (''maxItems'', JInt 20),
       (''items'', JObj [
         (''type'', JStr ''object''),
         (''additionalProperties'', JBool False),
         (''required'', JArr [JStr ''key'', JStr ''label'', JStr ''description'', JStr ''recommended'']),
         (''properties'', JObj [
           (''key'', JObj [
             (''type'', JStr ''string''),
             (''pattern'', JStr ''^[a-z][a-z0-9_.-]*$''),
             (''maxLength'', JInt 128),
             (''description'', JStr ''Stable option identity, unique within this question.'')]),
           (''label'', JObj [(''type'', JStr ''string''), (''minLength'', JInt 1), (''maxLength'', JInt 200)]),
           (''description'', JObj [(''type'', JStr ''string''), (''minLength'', JInt 1), (''maxLength'',
             JInt 1000)]),
           (''recommended'', JObj [(''type'', JStr ''boolean'')])])])]"

definition interaction_request_schema :: json where
  "interaction_request_schema =
     JObj [
       (''$schema'', JStr ''https://json-schema.org/draft/2020-12/schema''),
       (''$id'', JStr ''https://schemas.skillmind.local/tools/interaction.request/v1/request.schema.json''),
       (''title'', JStr ''interaction.request/v1 request''),
       (''type'', JStr ''object''),
       (''additionalProperties'', JBool False),
       (''required'', JArr [JStr ''interaction_type'', JStr ''prompt'', JStr ''rationale'', JStr ''impact'',
         JStr ''options'', JStr ''allow_multiple'', JStr ''required'', JStr ''expires_in_seconds'',
         JStr ''continuation_mode'', JStr ''checkpoint'']),
       (''properties'', JObj [
         (''interaction_type'', JObj [(''enum'', JArr [JStr ''CLARIFICATION'', JStr ''CHOICE'',
           JStr ''REVIEW''])]),
         (''prompt'', JObj [(''type'', JStr ''string''), (''minLength'', JInt 1), (''maxLength'', JInt 2000)]),
         (''rationale'', JObj [(''type'', JStr ''string''), (''minLength'', JInt 1), (''maxLength'',
           JInt 2000)]),
         (''impact'', JObj [(''type'', JStr ''string''), (''minLength'', JInt 1), (''maxLength'', JInt 2000)]),
         (''options'', options_schema),
         (''allow_multiple'', JObj [(''type'', JStr ''boolean'')]),
         (''required'', JObj [(''type'', JStr ''boolean'')]),
         (''expires_in_seconds'', JObj [(''type'', JStr ''integer''), (''minimum'', JInt 300), (''maximum'',
           JInt 604800)]),
         (''continuation_mode'', JObj [(''enum'', JArr [JStr ''RESUME'', JStr ''FORK'', JStr ''REPLACE''])]),
         (''checkpoint'', checkpoint_schema)]),
       (''allOf'', JArr [JObj [
           (''if'', JObj [
             (''properties'', JObj [(''interaction_type'', JObj [(''const'', JStr ''CHOICE'')])]),
             (''required'', JArr [JStr ''interaction_type''])]),
           (''then'', JObj [(''properties'', JObj [(''options'', JObj [(''minItems'', JInt 2)])])]),
           (''else'', JObj [(''properties'', JObj [(''allow_multiple'', JObj [(''const'', JBool False)])])])]])]"

record interaction_draft =
  iq_interaction_type :: interaction_type
  iq_prompt :: json
  iq_options :: "json list"
  iq_required :: bool
  iq_expires_at :: time
  iq_continuation_mode :: continuation_mode
  iq_checkpoint :: json
  iq_checkpoint_checksum :: string

definition require_ordinary_interaction :: "interaction_type \<Rightarrow> unit res" where
  "require_ordinary_interaction t =
     raise_if (t \<notin> set ordinary_interaction_types) InteractionResponseInvalidError"

text \<open>\<^verbatim>\<open>item.get(k)\<close> of an item that must be a mapping.\<close>

definition item_get :: "string \<Rightarrow> json \<Rightarrow> json res" where
  "item_get k item = (if is_obj item then Inr (jnull k item) else Inl AttributeError)"

definition validate_interaction_option_keys :: "json list \<Rightarrow> unit res" where
  "validate_interaction_option_keys options =
     ebind (emap (item_get ''key'') options) (\<lambda>ks.
       raise_if (\<not> list_all is_str ks \<or> \<not> distinct ks) InteractionResponseInvalidError)"

definition validate_interaction_version :: "int \<Rightarrow> unit res" where
  "validate_interaction_version version = raise_if (version < 1) InteractionResponseInvalidError"

primrec contains_sensitive_text :: "json \<Rightarrow> bool" where
  "contains_sensitive_text JNull = False"
| "contains_sensitive_text (JBool b) = False"
| "contains_sensitive_text (JInt i) = False"
| "contains_sensitive_text (JFloat r t) = False"
| "contains_sensitive_text (JStr s) = contains_sensitive_content s"
| "contains_sensitive_text (JArr js) = list_ex id (map contains_sensitive_text js)"
| "contains_sensitive_text (JObj kvs) = list_ex (\<lambda>(k, b). b) (map (map_prod id contains_sensitive_text) kvs)"

definition sensitive_payload :: "json \<Rightarrow> bool" where
  "sensitive_payload v \<longleftrightarrow> find_sensitive_key True v \<noteq> None \<or> contains_sensitive_text v"

text \<open>\<^verbatim>\<open>now\<close> is given or read from the clock; the schema bounds \<^verbatim>\<open>expires_in_seconds\<close> to a week.\<close>

definition parse_interaction_request ::
  "digest \<Rightarrow> (json \<Rightarrow> json \<Rightarrow> bool) \<Rightarrow> json \<Rightarrow> time \<Rightarrow> interaction_draft res" where
  "parse_interaction_request sha valid value_json now =
     ebind (py_dict value_json) (\<lambda>payload.
     ebind (raise_if (\<not> valid interaction_request_schema payload) InteractionResponseInvalidError) (\<lambda>_.
     ebind (raise_if (sensitive_payload payload) InteractionResponseInvalidError) (\<lambda>_.
     ebind (jfield ''options'' payload) (\<lambda>o0. ebind (py_tuple o0) (\<lambda>o1. ebind (emap py_dict o1) (\<lambda>options.
     ebind (validate_interaction_option_keys options) (\<lambda>_.
     ebind (jfield ''checkpoint'' payload) (\<lambda>c0. ebind (py_dict c0) (\<lambda>checkpoint.
     ebind (jfield ''interaction_type'' payload) (\<lambda>t0. ebind (interaction_type_of (py_str t0)) (\<lambda>itype.
     ebind (jfield ''prompt'' payload) (\<lambda>prompt.
     ebind (jfield ''rationale'' payload) (\<lambda>rationale.
     ebind (jfield ''impact'' payload) (\<lambda>impact.
     ebind (jfield ''allow_multiple'' payload) (\<lambda>multiple.
     ebind (jfield ''required'' payload) (\<lambda>required.
     ebind (jfield ''expires_in_seconds'' payload) (\<lambda>e0. ebind (int_of_json e0) (\<lambda>seconds.
     ebind (jfield ''continuation_mode'' payload) (\<lambda>m0. ebind (continuation_of (py_str m0)) (\<lambda>mode.
       Inr \<lparr>iq_interaction_type = itype,
            iq_prompt = JObj [(''prompt'', JStr (py_str prompt)), (''rationale'', JStr (py_str rationale)),
              (''impact'', JStr (py_str impact)), (''allow_multiple'', JBool (truthy multiple))],
            iq_options = options, iq_required = truthy required,
            iq_expires_at = now + seconds * 1000000, iq_continuation_mode = mode,
            iq_checkpoint = checkpoint,
            iq_checkpoint_checksum = ''sha256:'' @ json_digest sha checkpoint\<rparr>))))))))))))))))))))"

section \<open>Answers\<close>

text \<open>\<^verbatim>\<open>[a-z][a-z0-9_.-]*\<close>, matched against the whole text.\<close>

definition option_key :: "string \<Rightarrow> bool" where
  "option_key s \<longleftrightarrow> (case s of [] \<Rightarrow> False
     | c # cs \<Rightarrow> ascii_lower c \<and> list_all (\<lambda>x. ascii_lower x \<or> ascii_digit x \<or> x \<in> set ''_.-'') cs)"

definition answer_text_ok :: "json \<Rightarrow> bool" where
  "answer_text_ok v \<longleftrightarrow> (case v of JStr s \<Rightarrow> 1 \<le> length s \<and> length s \<le> 10000 | _ \<Rightarrow> False)"

definition answer_keys_ok :: "json \<Rightarrow> bool" where
  "answer_keys_ok v \<longleftrightarrow>
     (case v of
        JArr items \<Rightarrow> items \<noteq> [] \<and> length items \<le> 20 \<and>
          list_all (\<lambda>i. case i of JStr s \<Rightarrow> length s \<le> 128 \<and> option_key s | _ \<Rightarrow> False) items \<and> distinct items
      | _ \<Rightarrow> False)"

definition answer_entry :: "string \<Rightarrow> json \<Rightarrow> (string \<times> json) list" where
  "answer_entry k payload = (case jget k payload of None \<Rightarrow> [] | Some v \<Rightarrow> [(k, v)])"

definition validate_interaction_answer :: "json \<Rightarrow> json res" where
  "validate_interaction_answer response =
     ebind (py_dict response) (\<lambda>payload.
     let text = jget ''text'' payload; selected = jget ''selected_option_keys'' payload in
     ebind (raise_if (list_ex (\<lambda>(k, v). k \<noteq> ''text'' \<and> k \<noteq> ''selected_option_keys'') (obj_fields payload))
       InteractionResponseInvalidError) (\<lambda>_.
     ebind (raise_if (\<exists>v \<in> set_option text. \<not> answer_text_ok v) InteractionResponseInvalidError) (\<lambda>_.
     ebind (raise_if (\<exists>v \<in> set_option selected. \<not> answer_keys_ok v) InteractionResponseInvalidError) (\<lambda>_.
     ebind (raise_if (text = None \<and> selected = None) InteractionResponseInvalidError) (\<lambda>_.
     ebind (raise_if (sensitive_payload payload) InteractionResponseInvalidError) (\<lambda>_.
       Inr (JObj (answer_entry ''text'' payload @ answer_entry ''selected_option_keys'' payload))))))))"

definition validate_interaction_response ::
  "interaction_type \<Rightarrow> json \<Rightarrow> json list \<Rightarrow> json \<Rightarrow> json res" where
  "validate_interaction_response itype prompt options response =
     ebind (require_ordinary_interaction itype) (\<lambda>_.
     ebind (validate_interaction_answer response) (\<lambda>normalized.
     let selected = jget ''selected_option_keys'' normalized in
     if itype = CHOICE then
       (case selected of
          Some (JArr items) \<Rightarrow>
            ebind (emap (item_get ''key'') options) (\<lambda>ks.
            ebind (raise_if (\<not> list_all (\<lambda>i. i \<in> set (map (JStr \<circ> py_str) ks)) items)
              InteractionResponseInvalidError) (\<lambda>_.
            ebind (item_get ''allow_multiple'' prompt) (\<lambda>multiple.
            ebind (raise_if (\<not> truthy multiple \<and> length items \<noteq> 1) InteractionResponseInvalidError) (\<lambda>_.
              Inr normalized))))
        | _ \<Rightarrow> Inl InteractionResponseInvalidError)
     else ebind (raise_if (selected \<noteq> None) InteractionResponseInvalidError) (\<lambda>_. Inr normalized)))"

definition interaction_response_hash :: "digest \<Rightarrow> uuid \<Rightarrow> int \<Rightarrow> json \<Rightarrow> string" where
  "interaction_response_hash sha interaction_id version response =
     json_digest sha (JObj [(''interaction_id'', JStr (str_uuid interaction_id)),
       (''interaction_version'', JInt version), (''response'', response)])"

section \<open>Facts\<close>

lemma validate_interaction_answer_Inr:
  assumes "validate_interaction_answer r = Inr v"
  obtains kvs where "r = JObj kvs" "v = JObj (answer_entry ''text'' r @ answer_entry ''selected_option_keys'' r)"
    "\<forall>(k, w) \<in> set kvs. k = ''text'' \<or> k = ''selected_option_keys''"
    "\<And>t. jget ''text'' r = Some t \<Longrightarrow> answer_text_ok t"
    "\<And>t. jget ''selected_option_keys'' r = Some t \<Longrightarrow> answer_keys_ok t"
    "jget ''text'' r \<noteq> None \<or> jget ''selected_option_keys'' r \<noteq> None" "\<not> sensitive_payload r"
proof -
  obtain kvs where r: "r = JObj kvs"
    using assms by (cases r) (simp_all add: validate_interaction_answer_def)
  have steps: "\<not> list_ex (\<lambda>(k, v). k \<noteq> ''text'' \<and> k \<noteq> ''selected_option_keys'') (obj_fields r)"
    "\<not> (\<exists>v \<in> set_option (jget ''text'' r). \<not> answer_text_ok v)"
    "\<not> (\<exists>v \<in> set_option (jget ''selected_option_keys'' r). \<not> answer_keys_ok v)"
    "\<not> (jget ''text'' r = None \<and> jget ''selected_option_keys'' r = None)" "\<not> sensitive_payload r"
    "v = JObj (answer_entry ''text'' r @ answer_entry ''selected_option_keys'' r)"
    using assms unfolding validate_interaction_answer_def Let_def r py_dict.simps ebind_simps ebind_Inr_iff
      raise_if_simps Inr_inject by blast+
  show thesis
  proof (rule that [OF r steps(6)])
    show "\<forall>(k, w) \<in> set kvs. k = ''text'' \<or> k = ''selected_option_keys''"
      using steps(1) unfolding r list_ex_iff obj_fields.simps by blast
  qed (use steps in \<open>auto simp del: jget_JObj\<close>)
qed

end
