(* ===== verification/Interaction_Run.thy ===== *)
theory Interaction_Run
  imports Interaction Effect_Final
begin

text \<open>
  \<^verbatim>\<open>runs/repository_interactions.py\<close> (and \<^verbatim>\<open>_validate_checkpoint_refs\<close> of \<^verbatim>\<open>runs/repository_base.py\<close>): a run
  that asks a user a question and waits, the answer that continues it in a new segment, and the
  expiry of a question nobody answered.

  \<open>artifacts\<close> is \<^verbatim>\<open>ArtifactRepository.verified_refs\<close>: those of the given artifact references that
  belong to the run and are intact. A transaction whose error is committed together with its changes
  returns the error as a value.
\<close>

type_synonym artifact_refs = "uuid \<Rightarrow> json list \<Rightarrow> db \<Rightarrow> json list res"

section \<open>Suspension\<close>

text \<open>References of a checkpoint to rows of the run: each must name a row.\<close>

definition refs_known :: "string list \<Rightarrow> json list \<Rightarrow> unit res" where
  "refs_known known refs =
     (if refs = [] then Inr ()
      else ebind (raise_if (\<not> list_all (\<lambda>v. is_str v \<or> v = JNull) refs) DBAPIError) (\<lambda>_.
        raise_if (length (filter (\<lambda>r. JStr r \<in> set refs) known) \<noteq> length refs) ValueError))"

definition validate_checkpoint_refs :: "artifact_refs \<Rightarrow> uuid \<Rightarrow> json \<Rightarrow> db \<Rightarrow> unit res" where
  "validate_checkpoint_refs artifacts rid checkpoint d =
     ebind (list_at ''evidence_refs'' checkpoint) (\<lambda>evidence_refs.
     ebind (refs_known (map ed_evidence_ref (filter (\<lambda>e. ed_run_id e = rid) (db_evidence d))) evidence_refs) (\<lambda>_.
     ebind (list_at ''change_proposal_refs'' checkpoint) (\<lambda>proposal_refs.
     ebind (refs_known (map pr_proposal_ref (filter (\<lambda>p. pr_run_id p = rid) (db_proposals d))) proposal_refs) (\<lambda>_.
     ebind (list_at ''artifact_refs'' checkpoint) (\<lambda>artifact_refs.
     if artifact_refs = [] then Inr ()
     else ebind (raise_if (\<not> list_all (\<lambda>v. case v of JArr _ \<Rightarrow> False | JObj _ \<Rightarrow> False | _ \<Rightarrow> True) artifact_refs)
            TypeError) (\<lambda>_.
          ebind (artifacts rid artifact_refs d) (\<lambda>verified.
            raise_if (set verified \<noteq> set artifact_refs) ValueError)))))))"

text \<open>An event of the attempt that is being suspended, numbered \<open>n\<close>.\<close>

definition attempt_event ::
  "uuid \<Rightarrow> attempt_row \<Rightarrow> uuid option \<Rightarrow> agent_event_type \<Rightarrow> json \<Rightarrow> string \<Rightarrow> time \<Rightarrow> int \<Rightarrow> event_row" where
  "attempt_event new_id attempt sdk_session etype payload summary at_time n =
     \<lparr>ev_id = new_id, ev_run_id = at_run_id attempt, ev_run_attempt_id = Some (at_id attempt),
      ev_agent_session_id = sdk_session, ev_sequence = n, ev_event_type = event_type_text etype,
      ev_payload_json = payload, ev_occurred_at = at_time, ev_trace_id = None, ev_summary = Some summary\<rparr>"

definition attempt_snapshot ::
  "uuid \<Rightarrow> attempt_row \<Rightarrow> uuid option \<Rightarrow> json \<Rightarrow> string \<Rightarrow> time \<Rightarrow> int \<Rightarrow> event_row" where
  "attempt_snapshot new_id attempt sdk_session payload summary now n =
     snapshot_event new_id (at_run_id attempt) n payload summary now (Some (at_id attempt)) sdk_session None"

text \<open>The run waits, its segment with it, and the attempt gives its lease up.\<close>

definition suspend_rows ::
  "run_row \<Rightarrow> segment_row \<Rightarrow> attempt_row \<Rightarrow> run_transition \<Rightarrow> time \<Rightarrow> db \<Rightarrow> db" where
  "suspend_rows run segment attempt tr now d =
     put_attempt (attempt\<lparr>at_status := ATT_DEFERRED, at_finished_at := Some now, at_lease_token_hash := None,
         at_lease_expires_at := None\<rparr>)
       (put_segment (segment\<lparr>sg_status := SEG_WAITING\<rparr>)
         (put_run (run\<lparr>run_status := tr_status tr, run_row_version := tr_row_version tr,
            run_error_json := None\<rparr>) d))"

definition new_interaction ::
  "uuid \<Rightarrow> run_row \<Rightarrow> segment_row \<Rightarrow> session_row \<Rightarrow> interaction_draft \<Rightarrow> json \<Rightarrow> string \<Rightarrow> time \<Rightarrow> interaction_row" where
  "new_interaction new_id run segment session request checkpoint checksum now =
     \<lparr>ui_id = new_id, ui_run_id = run_id run, ui_run_segment_id = sg_id segment,
      ui_agent_session_id = se_id session, ui_interaction_type = iq_interaction_type request,
      ui_prompt_json = iq_prompt request, ui_options_json = JArr (iq_options request),
      ui_required = iq_required request, ui_expires_at = iq_expires_at request, ui_status = INT_OPEN,
      ui_version = 1, ui_continuation_mode = iq_continuation_mode request, ui_checkpoint_json = checkpoint,
      ui_checkpoint_checksum = checksum, ui_change_proposal_id = None, ui_created_at = now\<rparr>"

text \<open>What the table refuses: a second open required question of a run, a second one of a proposal.\<close>

definition insert_interaction :: "interaction_row \<Rightarrow> db \<Rightarrow> db res" where
  "insert_interaction i d =
     ebind (raise_if (ui_status i = INT_OPEN \<and> ui_required i \<and>
              list_ex (\<lambda>x. ui_run_id x = ui_run_id i \<and> ui_status x = INT_OPEN \<and> ui_required x) (db_interactions d) \<or>
              ui_change_proposal_id i \<noteq> None \<and>
              list_ex (\<lambda>x. ui_change_proposal_id x = ui_change_proposal_id i) (db_interactions d))
            IntegrityError) (\<lambda>_.
     ebind (insert_rows ui_id [i] (db_interactions d)) (\<lambda>rows. Inr (d\<lparr>db_interactions := rows\<rparr>)))"

definition suspended_events ::
  "fresh \<Rightarrow> segment_row \<Rightarrow> attempt_row \<Rightarrow> uuid option \<Rightarrow> interaction_row \<Rightarrow> json list \<Rightarrow> run_transition \<Rightarrow> time \<Rightarrow>
   time \<Rightarrow> (int \<Rightarrow> event_row) list" where
  "suspended_events ids segment attempt sdk_session i evidence_refs tr occurred_at now =
     [attempt_event (ids 0) attempt sdk_session INTERACTION_REQUESTED
        (JObj [(''interaction_id'', JStr (str_uuid (ui_id i))),
          (''interaction_type'', JStr (interaction_type_text (ui_interaction_type i))),
          (''required'', JBool (ui_required i)), (''expires_at'', JStr (isoformat (ui_expires_at i))),
          (''version'', JInt 1)])
        ''User interaction requested'' occurred_at,
      attempt_event (ids 1) attempt sdk_session CHECKPOINT_CREATED
        (JObj [(''interaction_id'', JStr (str_uuid (ui_id i))),
          (''checkpoint_checksum'', JStr (ui_checkpoint_checksum i)), (''evidence_refs'', JArr evidence_refs)])
        ''Interaction checkpoint created'' now,
      attempt_snapshot (ids 2) attempt sdk_session
        (snapshot_payload WAITING_FOR_INPUT (tr_row_version tr) segment
          [(''interaction_id'', JStr (str_uuid (ui_id i)))] JNull)
        (''Run waiting for '' @ interaction_type_text (ui_interaction_type i)) now]"

text \<open>The checks before anything is written, and the checkpoint of the suspension.\<close>

definition admit_question ::
  "digest \<Rightarrow> artifact_refs \<Rightarrow> clock \<Rightarrow> claimed_run \<Rightarrow> agent_event \<Rightarrow> interaction_draft \<Rightarrow> db \<Rightarrow>
   (run_row \<times> segment_row \<times> attempt_row \<times> json) res" where
  "admit_question sha artifacts clk claimed event request d =
     ebind (lock_claimed_execution claimed d) (\<lambda>(run, segment, attempt).
     case segment of
       None \<Rightarrow> Inl LeaseValidationError
     | Some segment \<Rightarrow>
         ebind (validate_claimed_lease sha attempt claimed (clk 0)) (\<lambda>_.
         ebind (raise_if (run_status run \<noteq> RUNNING) LeaseValidationError) (\<lambda>_.
         ebind (validate_agent_event event claimed) (\<lambda>_.
         ebind (raise_if (ae_event_type event \<noteq> INTERACTION_REQUESTED) ValueError) (\<lambda>_.
         ebind (require_ordinary_interaction (iq_interaction_type request)) (\<lambda>_.
         ebind (validate_interaction_option_keys (iq_options request)) (\<lambda>_.
         ebind (reject_cancelled_execution (run_id run) d) (\<lambda>_.
         ebind (raise_if (ae_sequence event < next_sequence (run_id run) d) ConcurrentRunUpdateError) (\<lambda>_.
         ebind (raise_if (list_ex (\<lambda>i. ui_run_id i = run_id run \<and> ui_status i = INT_OPEN) (db_interactions d))
           InteractionConflictError) (\<lambda>_.
         ebind (merge_checkpoint (if truthy (sg_checkpoint_json segment) then sg_checkpoint_json segment else JObj [])
           (iq_checkpoint request)) (\<lambda>checkpoint.
         ebind (validate_checkpoint_refs artifacts (run_id run) checkpoint d) (\<lambda>_.
         ebind (validate_claimed_lease sha attempt claimed (clk 1)) (\<lambda>_.
           Inr (run, segment, attempt, checkpoint))))))))))))))"

definition suspend_for_interaction ::
  "digest \<Rightarrow> to_float \<Rightarrow> artifact_refs \<Rightarrow> clock \<Rightarrow> fresh \<Rightarrow> claimed_run \<Rightarrow> agent_event \<Rightarrow> session_metadata \<Rightarrow>
   interaction_draft \<Rightarrow> db \<Rightarrow> (uuid \<times> db) res" where
  "suspend_for_interaction sha fl artifacts clk ids claimed event metadata request d =
     ebind (admit_question sha artifacts clk claimed event request d) (\<lambda>(run, segment, attempt, checkpoint).
     ebind (parse_uuid (ae_agent_session_id event)) (\<lambda>sdk_session_id.
     ebind (ensure_agent_session (ids 0) claimed sdk_session_id metadata (clk 0) d) (\<lambda>(session, d1).
     let d2 = put_session ((merge_session_usage fl session event)\<lparr>se_status := ''IDLE''\<rparr>) d1;
         i = new_interaction (ids 1) run segment session request checkpoint
           (''sha256:'' @ json_digest sha checkpoint) (clk 0) in
     ebind (plan_waiting RUNNING run WAITING_FOR_INPUT (clk 0)) (\<lambda>tr.
     ebind (list_at ''evidence_refs'' checkpoint) (\<lambda>evidence_refs.
     ebind (insert_interaction i (suspend_rows run segment attempt tr (clk 0) d2)) (\<lambda>d3.
       Inr (ui_id i, announce_events (\<lambda>n. ids (n + 5)) WAITING_FOR_INPUT
         (suspended_events (\<lambda>n. ids (n + 2)) segment attempt (se_sdk_session_id session) i evidence_refs tr
           (ae_occurred_at event) (clk 0))
         (ae_sequence event) d3)))))))"

section \<open>The answer\<close>

record locked_response =
  lr_run :: run_row
  lr_segment :: segment_row
  lr_interaction :: interaction_row

record responded_interaction =
  rd_run :: created_run
  rd_interaction_id :: uuid
  rd_response_id :: uuid
  rd_run_segment_id :: uuid
  rd_segment_no :: int
  rd_continuation_mode :: continuation_mode
  rd_idempotent_replay :: bool

definition lock_interaction_row :: "uuid \<Rightarrow> uuid \<Rightarrow> uuid \<Rightarrow> db \<Rightarrow> interaction_row res" where
  "lock_interaction_row interaction_id rid segment_id d =
     (case find (\<lambda>i. ui_id i = interaction_id \<and> ui_run_id i = rid \<and> ui_run_segment_id i = segment_id)
             (db_interactions d) of
        None \<Rightarrow> Inl InteractionNotFoundError | Some i \<Rightarrow> Inr i)"

definition lock_interaction_response :: "uuid \<Rightarrow> uuid \<Rightarrow> uuid \<Rightarrow> db \<Rightarrow> locked_response res" where
  "lock_interaction_response project_id rid interaction_id d =
     (case find (\<lambda>i. ui_id i = interaction_id \<and> ui_run_id i = rid) (db_interactions d) of
        None \<Rightarrow> Inl InteractionNotFoundError
      | Some observed \<Rightarrow>
          (case lock_run_row rid (Some project_id) d of
             None \<Rightarrow> Inl InteractionNotFoundError
           | Some run \<Rightarrow>
               (case lock_segment_row (ui_run_segment_id observed) rid d of
                  None \<Rightarrow> Inl InteractionNotFoundError
                | Some segment \<Rightarrow>
                    ebind (lock_interaction_row interaction_id rid (sg_id segment) d) (\<lambda>i.
                      Inr \<lparr>lr_run = run, lr_segment = segment, lr_interaction = i\<rparr>))))"

text \<open>The segment that continues the run after a question.\<close>

definition interaction_segment ::
  "uuid \<Rightarrow> run_row \<Rightarrow> segment_row \<Rightarrow> interaction_row \<Rightarrow> segment_trigger \<Rightarrow> uuid \<Rightarrow> string \<Rightarrow> json \<Rightarrow> time \<Rightarrow> segment_row" where
  "interaction_segment new_id run segment i trigger trigger_ref objective checkpoint now =
     \<lparr>sg_id = new_id, sg_run_id = run_id run, sg_segment_no = sg_segment_no segment + 1,
      sg_trigger_type = trigger, sg_trigger_ref = Some trigger_ref, sg_status = SEG_CREATED,
      sg_objective_json = JObj [(''text'', JStr objective)], sg_checkpoint_json = checkpoint,
      sg_continuation_mode = ui_continuation_mode i, sg_parent_agent_session_id = Some (ui_agent_session_id i),
      sg_instruction_snapshot_id = None, sg_started_at = None, sg_finished_at = None, sg_created_at = now\<rparr>"

definition user_responses :: "json \<Rightarrow> json list" where
  "user_responses checkpoint =
     (case jget ''user_responses'' checkpoint of Some (JArr items) \<Rightarrow> filter is_obj items | _ \<Rightarrow> [])"

definition still_waiting :: "run_row \<Rightarrow> segment_row \<Rightarrow> bool" where
  "still_waiting run segment \<longleftrightarrow> run_status run = WAITING_FOR_INPUT \<and> sg_status segment = SEG_WAITING"

definition expire_pending_interaction ::
  "fresh \<Rightarrow> run_row \<Rightarrow> segment_row \<Rightarrow> interaction_row \<Rightarrow> time \<Rightarrow> string option \<Rightarrow> db \<Rightarrow> db res" where
  "expire_pending_interaction ids run segment i now trace_id d =
     ebind (raise_if (ui_interaction_type i \<notin> set ordinary_interaction_types) InteractionConflictError) (\<lambda>_.
     ebind (raise_if (ui_status i \<noteq> INT_OPEN \<or> now < ui_expires_at i) InteractionConflictError) (\<lambda>_.
     let d1 = put_interaction (expired_interaction i) d in
     if \<not> still_waiting run segment then Inr d1
     else
       ebind (py_dict (ui_checkpoint_json i)) (\<lambda>checkpoint.
       ebind (text_items ''confirmed_facts'' checkpoint) (\<lambda>facts.
       let fact = JStr (''UserInteraction '' @ str_uuid (ui_id i) @ '' ('' @
             interaction_type_text (ui_interaction_type i) @ '', required='' @
             (if ui_required i then ''true'' else ''false'') @ '') expired without a response at '' @
             isoformat now @ ''; no default response was assumed.'');
           next_segment = interaction_segment (ids 0) run segment i INTERACTION_TIMEOUT (ui_id i)
             (''Continue safely after the audited user interaction timeout. '' @
              ''Do not infer a user decision; report required missing information '' @
              ''as a limitation or request a new interaction.'')
             (jset ''confirmed_facts'' (JArr (facts @ [fact])) checkpoint) now in
         continue_run WAITING_FOR_INPUT (\<lambda>n. ids (n + 4)) run segment next_segment
           (\<lambda>tr. [run_event (ids 1) (run_id run) SEGMENT_COMPLETED
                (JObj [(''run_segment_id'', JStr (str_uuid (sg_id segment))),
                   (''segment_no'', JInt (sg_segment_no segment)),
                   (''interaction_id'', JStr (str_uuid (ui_id i))), (''reason'', JStr ''interaction_expired'')])
                ''Run segment completed after user interaction timeout'' now trace_id,
              run_event (ids 2) (run_id run) INTERACTION_EXPIRED
                (JObj [(''interaction_id'', JStr (str_uuid (ui_id i))),
                   (''interaction_type'', JStr (interaction_type_text (ui_interaction_type i))),
                   (''required'', JBool (ui_required i)),
                   (''next_run_segment_id'', JStr (str_uuid (sg_id next_segment))),
                   (''next_segment_no'', JInt (sg_segment_no next_segment))])
                ''User interaction expired without an assumed response'' now trace_id,
              run_snapshot (ids 3) (run_id run)
                (snapshot_payload QUEUED (tr_row_version tr) next_segment
                  [(''interaction_id'', JStr (str_uuid (ui_id i)))] JNull)
                ''Run queued after user interaction timeout'' now trace_id])
           ''interaction_expired'' now d1))))"

definition insert_response :: "response_row \<Rightarrow> db \<Rightarrow> db res" where
  "insert_response r d =
     ebind (raise_if (list_ex (\<lambda>x. ir_interaction_id x = ir_interaction_id r \<or>
              ir_run_id x = ir_run_id r \<and> ir_idempotency_key x = ir_idempotency_key r) (db_responses d))
            IntegrityError) (\<lambda>_.
     ebind (insert_rows ir_id [r] (db_responses d)) (\<lambda>rows. Inr (d\<lparr>db_responses := rows\<rparr>)))"

definition replayed_response ::
  "run_row \<Rightarrow> interaction_row \<Rightarrow> response_row \<Rightarrow> db \<Rightarrow> responded_interaction res" where
  "replayed_response run i existing d =
     (case filter (\<lambda>s. sg_run_id s = run_id run \<and> sg_trigger_ref s = Some (ir_id existing) \<and>
             sg_trigger_type s = INTERACTION_RESPONSE) (db_segments d) of
        [] \<Rightarrow> Inl NoResultFound
      | [s] \<Rightarrow> Inr \<lparr>rd_run = to_created_run run False, rd_interaction_id = ui_id i, rd_response_id = ir_id existing,
           rd_run_segment_id = sg_id s, rd_segment_no = sg_segment_no s,
           rd_continuation_mode = sg_continuation_mode s, rd_idempotent_replay = True\<rparr>
      | _ \<Rightarrow> Inl MultipleResultsFound)"

definition respond_to_locked_interaction ::
  "digest \<Rightarrow> clock \<Rightarrow> fresh \<Rightarrow> locked_response \<Rightarrow> uuid \<Rightarrow> int \<Rightarrow> json \<Rightarrow> string \<Rightarrow> string option \<Rightarrow> db \<Rightarrow>
   (responded_interaction res \<times> db) res" where
  "respond_to_locked_interaction sha clk ids locked actor_id version response key trace_id d =
     (let run = lr_run locked; segment = lr_segment locked; i = lr_interaction locked in
     ebind (validate_interaction_version version) (\<lambda>_.
     ebind (py_tuple (ui_options_json i)) (\<lambda>options.
     ebind (validate_interaction_response (ui_interaction_type i) (ui_prompt_json i) options response) (\<lambda>normalized.
     let fingerprint = interaction_response_hash sha (ui_id i) version normalized in
     case find (\<lambda>r. ir_interaction_id r = ui_id i) (db_responses d) of
       Some existing \<Rightarrow>
         if ir_actor_id existing \<noteq> actor_id \<or> ir_run_id existing \<noteq> run_id run \<or>
            ir_interaction_version existing \<noteq> version \<or> ir_idempotency_key existing \<noteq> key \<or>
            ir_request_hash existing \<noteq> fingerprint
         then Inl InteractionConflictError
         else ebind (replayed_response run i existing d) (\<lambda>r. Inr (Inr r, d))
     | None \<Rightarrow>
         ebind (validate_interaction_option_keys options) (\<lambda>_.
         let now = clk 0 in
         ebind (raise_if (ui_status i \<noteq> INT_OPEN) InteractionConflictError) (\<lambda>_.
         ebind (raise_if (ui_version i \<noteq> version) InteractionConflictError) (\<lambda>_.
         if ui_expires_at i \<le> now
         then ebind (expire_pending_interaction ids run segment i now trace_id d) (\<lambda>d'.
                Inr (Inl InteractionExpiredError, d'))
         else
         ebind (raise_if (\<not> still_waiting run segment) InteractionConflictError) (\<lambda>_.
         let row = \<lparr>ir_id = ids 0, ir_interaction_id = ui_id i, ir_run_id = run_id run, ir_actor_id = actor_id,
               ir_interaction_version = version, ir_idempotency_key = key, ir_request_hash = fingerprint,
               ir_response_json = normalized, ir_created_at = now\<rparr> in
         ebind (py_dict (ui_checkpoint_json i)) (\<lambda>checkpoint.
         let answer = JObj [(''interaction_id'', JStr (str_uuid (ui_id i))),
               (''interaction_type'', JStr (interaction_type_text (ui_interaction_type i))),
               (''response'', normalized), (''responded_at'', JStr (isoformat now))];
             next_segment = interaction_segment (ids 1) run segment i INTERACTION_RESPONSE (ids 0)
               (''Continue the Run using the audited user response to '' @
                  interaction_type_text (ui_interaction_type i) @ ''.'')
               (jset ''user_responses'' (JArr (user_responses checkpoint @ [answer])) checkpoint) now;
             d1 = put_interaction (i\<lparr>ui_status := INT_RESPONDED, ui_version := ui_version i + 1\<rparr>) d in
         ebind (insert_response row d1) (\<lambda>d2.
         ebind (plan_waiting WAITING_FOR_INPUT run QUEUED now) (\<lambda>tr.
         ebind (continue_run WAITING_FOR_INPUT (\<lambda>n. ids (n + 5)) run segment next_segment
           (\<lambda>tr. [run_event (ids 2) (run_id run) SEGMENT_COMPLETED
                (JObj [(''run_segment_id'', JStr (str_uuid (sg_id segment))),
                   (''segment_no'', JInt (sg_segment_no segment)),
                   (''trigger_type'', JStr (trigger_text (sg_trigger_type segment))),
                   (''interaction_id'', JStr (str_uuid (ui_id i)))])
                ''Run segment completed after user response'' now trace_id,
              run_event (ids 3) (run_id run) INTERACTION_RESPONDED
                (JObj [(''interaction_id'', JStr (str_uuid (ui_id i))), (''interaction_version'', JInt version),
                   (''response_id'', JStr (str_uuid (ids 0))),
                   (''next_run_segment_id'', JStr (str_uuid (sg_id next_segment))),
                   (''next_segment_no'', JInt (sg_segment_no next_segment)),
                   (''continuation_mode'', JStr (continuation_text (ui_continuation_mode i)))])
                ''User interaction responded'' now trace_id,
              run_snapshot (ids 4) (run_id run)
                (snapshot_payload QUEUED (tr_row_version tr) next_segment [] JNull)
                ''Run queued after user interaction'' now trace_id])
           ''interaction_response'' now d2) (\<lambda>d3.
           Inr (Inr \<lparr>rd_run = to_created_run (run\<lparr>run_status := tr_status tr,
                  run_row_version := tr_row_version tr, run_error_json := None\<rparr>) False,
                rd_interaction_id = ui_id i, rd_response_id = ids 0, rd_run_segment_id = sg_id next_segment,
                rd_segment_no = sg_segment_no next_segment, rd_continuation_mode = ui_continuation_mode i,
                rd_idempotent_replay = False\<rparr>, d3)))))))))))))"

definition respond_to_interaction ::
  "digest \<Rightarrow> clock \<Rightarrow> fresh \<Rightarrow> uuid \<Rightarrow> uuid \<Rightarrow> uuid \<Rightarrow> uuid \<Rightarrow> int \<Rightarrow> json \<Rightarrow> string \<Rightarrow> string option \<Rightarrow> db \<Rightarrow>
   (responded_interaction res \<times> db) res" where
  "respond_to_interaction sha clk ids project_id rid interaction_id actor_id version response key trace_id d =
     ebind (validate_interaction_version version) (\<lambda>_.
     ebind (lock_interaction_response project_id rid interaction_id d) (\<lambda>locked.
       respond_to_locked_interaction sha clk ids locked actor_id version response key trace_id d))"

section \<open>Recovery\<close>

definition question_expired :: "time \<Rightarrow> interaction_row \<Rightarrow> bool" where
  "question_expired now i \<longleftrightarrow> ui_status i = INT_OPEN \<and> ui_interaction_type i \<in> set ordinary_interaction_types \<and>
     ui_expires_at i \<le> now"

definition expired_questions :: "time \<Rightarrow> int \<Rightarrow> db \<Rightarrow> interaction_row list" where
  "expired_questions now limit d =
     take (nat limit) (sort_key (\<lambda>i. (ui_expires_at i, ui_id i)) (filter (question_expired now) (db_interactions d)))"

definition recover_interaction :: "clock \<Rightarrow> fresh \<Rightarrow> nat \<times> interaction_row \<Rightarrow> db \<Rightarrow> (bool \<times> db) res" where
  "recover_interaction clk ids c d =
     (case c of (n, candidate) \<Rightarrow>
      (case lock_run_row (ui_run_id candidate) None d of
         None \<Rightarrow> Inl RunNotFoundError
       | Some run \<Rightarrow>
           (case lock_segment_row (ui_run_segment_id candidate) (run_id run) d of
              None \<Rightarrow> Inl RunNotFoundError
            | Some segment \<Rightarrow>
                ebind (lock_interaction_row (ui_id candidate) (run_id run) (sg_id segment) d) (\<lambda>i.
                if \<not> question_expired (clk n) i then Inr (False, d)
                else ebind (expire_pending_interaction ids run segment i (clk n) None d) (\<lambda>d'. Inr (True, d'))))))"

definition recover_expired_interactions ::
  "clock \<Rightarrow> (nat \<Rightarrow> fresh) \<Rightarrow> time \<Rightarrow> int \<Rightarrow> db \<Rightarrow> (int \<times> db) res" where
  "recover_expired_interactions clk ids now limit d =
     ebind (raise_if (limit \<le> 0) ValueError) (\<lambda>_.
       recover_each (recover_interaction clk) ids (enumerate 0 (expired_questions now limit d)) d)"

end
