(* ===== verification/Run_Ops.thy ===== *)
theory Run_Ops
  imports Run_Inv Run_Create
begin

text \<open>
  Every operation on a run is a safe update: it keeps \<^const>\<open>run_inv\<close> and respects \<^const>\<open>run_le\<close>.
  One lemma per operation, following its primitive updates.
\<close>

section \<open>Frames\<close>

lemma next_sequence_put [simp]:
  "next_sequence rid (put_run r d) = next_sequence rid d"
  "next_sequence rid (put_segment s d) = next_sequence rid d"
  "next_sequence rid (put_attempt a d) = next_sequence rid d"
  "next_sequence rid (put_session x d) = next_sequence rid d"
  by (rule next_sequence_cong, simp add: put_defs)+

lemma run_ids_put [simp]:
  "run_id ` set (put_row run_id r rows) = run_id ` set rows"
  by (metis list.set_map map_put_row)

lemma put_fields [simp]:
  "db_runs (put_segment s d) = db_runs d" "db_attempts (put_segment s d) = db_attempts d"
  "db_runs (put_attempt a d) = db_runs d" "db_segments (put_attempt a d) = db_segments d"
  "db_segments (put_run r d) = db_segments d" "db_attempts (put_run r d) = db_attempts d"
  "db_runs (put_session x d) = db_runs d" "db_segments (put_session x d) = db_segments d"
  "db_attempts (put_session x d) = db_attempts d" "db_results (put_session x d) = db_results d"
  "db_runs (announce i st e d) = db_runs d" "db_segments (announce i st e d) = db_segments d"
  "db_attempts (announce i st e d) = db_attempts d" "db_results (announce i st e d) = db_results d"
  "db_sessions (announce i st e d) = db_sessions d" "db_proposals (announce i st e d) = db_proposals d"
  "db_runs (put_run r d) = put_row run_id r (db_runs d)"
  "db_segments (put_segment s d) = put_row sg_id s (db_segments d)"
  "db_attempts (put_attempt a d) = put_row at_id a (db_attempts d)"
  by (simp_all add: put_defs announce_def add_event_def)

lemma lock_run_row_Some:
  "lock_run_row rid None d = Some r \<Longrightarrow> r \<in> set (db_runs d) \<and> run_id r = rid"
  by (auto simp: lock_run_row_def find_Some_iff)

lemma safe_planned:
  assumes "r \<in> set (db_runs d)" "plan_run r t now = Inr tr"
    and "run_id r' = run_id r" "run_key r' = run_key r" "run_request_hash r' = run_request_hash r"
      "run_input_json r' = run_input_json r" "run_task_snapshot_json r' = run_task_snapshot_json r"
      "run_permission_snapshot_json r' = run_permission_snapshot_json r"
      "run_limits_snapshot_json r' = run_limits_snapshot_json r"
      "run_selected_sources_json r' = run_selected_sources_json r"
      "run_status r' = tr_status tr" "run_row_version r' = tr_row_version tr"
      "run_started_at r' = tr_started_at tr" "run_finished_at r' = tr_finished_at tr"
  shows "safe d (put_run r' d)"
  using planned_run [OF assms(2-)] by (rule safe_run [OF assms(1)])

section \<open>Transitions and cancellation\<close>

lemma transition_safe:
  assumes "transition clk ids rid t v err att trc d = Inr (res, d')"
  shows "safe d d'"
proof -
  from assms obtain r tr where r: "lock_run_row rid None d = Some r" and tr: "plan_run r t (clk 0) = Inr tr"
    and d': "d' = announce (ids 1) (tr_status tr)
        (snapshot_event (ids 0) rid (next_sequence rid d) (status_payload (tr_status tr) (tr_row_version tr) err)
           (''Run transitioned to '' @ run_status_text (tr_status tr)) (clk 0) att None trc)
        (put_run (r\<lparr>run_status := tr_status tr, run_row_version := tr_row_version tr,
           run_started_at := tr_started_at tr, run_finished_at := tr_finished_at tr, run_error_json := err\<rparr>) d)"
    by (auto simp: transition_def ebind_Inr_iff Let_def split: option.splits)
  note rr = lock_run_row_Some [OF r]
  show ?thesis unfolding d'
    by (rule safe_trans [OF safe_planned [OF _ tr] safe_announce])
      (use rr in \<open>auto simp: snapshot_event_def run_key_def\<close>)
qed

lemma safe_cancel_segment:
  assumes "\<And>s. segment = Some s \<Longrightarrow> s \<in> set (db_segments d)"
  shows "safe d (cancel_segment now segment d)"
  using assms by (cases segment) (auto simp: cancel_segment_def intro!: safe_segment)

lemma pick_max_in: "pick_max key rs = Some r \<Longrightarrow> r \<in> set rs"
  by (induction rs arbitrary: r) (auto split: option.splits if_splits)

lemma pick_max_None [simp]: "pick_max key rs = None \<longleftrightarrow> rs = []"
  by (cases rs) (auto split: option.split)

lemma latest_segment_in: "latest_segment rid d = Some s \<Longrightarrow> s \<in> set (db_segments d) \<and> sg_run_id s = rid"
  by (auto simp: latest_segment_def dest: pick_max_in)

lemma cancel_segment_fields [simp]:
  "db_runs (cancel_segment now s d) = db_runs d" "db_events (cancel_segment now s d) = db_events d"
  "db_attempts (cancel_segment now s d) = db_attempts d" "db_sessions (cancel_segment now s d) = db_sessions d"
  by (simp_all add: cancel_segment_def put_segment_def split: option.split)

lemma attempt_le_close:
  assumes "attempt_open a" "at_id a' = at_id a" "at_run_id a' = at_run_id a"
    "at_run_segment_id a' = at_run_segment_id a" "at_attempt_no a' = at_attempt_no a"
    "attempt_rank (at_status a) \<le> attempt_rank (at_status a')"
  shows "attempt_le a a'"
  using assms by (simp add: attempt_le_def)

lemma active_open: "attempt_active a \<Longrightarrow> attempt_open a"
  by (auto simp: attempt_active_def attempt_open_def)

lemma active_rank: "attempt_active a \<Longrightarrow> attempt_rank (at_status a) \<le> 2"
  by (auto simp: attempt_active_def)

lemma safe_cancel_attempt:
  assumes "\<And>a. attempt = Some a \<Longrightarrow> a \<in> set (db_attempts d) \<and> at_status a = ATT_DEFERRED"
  shows "safe d (cancel_attempt now attempt d)"
  using assms by (cases attempt)
    (auto simp: cancel_attempt_def attempt_open_def intro!: safe_attempt attempt_le_close)

lemma cancel_attempt_fields [simp]:
  "db_runs (cancel_attempt now a d) = db_runs d" "db_events (cancel_attempt now a d) = db_events d"
  "db_segments (cancel_attempt now a d) = db_segments d"
  by (simp_all add: cancel_attempt_def put_attempt_def split: option.split)

lemma safe_cancel_interactions: "safe d (cancel_interactions rid d)"
  by (rule safe_other) (simp_all add: same_core_def cancel_interactions_def)

lemma safe_fail_requested_effects: "safe d (fail_requested_effects rid d)"
  by (rule safe_other) (simp_all add: same_core_def fail_requested_effects_def Let_def)

lemma cancel_waiting_safe: "safe d (cancel_waiting rid now d)"
proof -
  let ?s = "latest_segment rid d" and ?a = "deferred_attempt rid (latest_segment rid d) d"
  have "safe d (cancel_attempt now ?a d)"
    by (rule safe_cancel_attempt) (auto simp: deferred_attempt_def dest: pick_max_in)
  also have "safe \<dots> (cancel_segment now ?s (cancel_attempt now ?a d))"
    by (rule safe_cancel_segment) (simp add: latest_segment_in)
  also have "safe \<dots> (cancel_interactions rid \<dots>)" by (rule safe_cancel_interactions)
  also have "safe \<dots> (fail_requested_effects rid \<dots>)" by (rule safe_fail_requested_effects)
  finally show ?thesis by (simp add: cancel_waiting_def Let_def)
qed

lemma cancel_waiting_fields [simp]:
  "db_runs (cancel_waiting rid now d) = db_runs d" "db_events (cancel_waiting rid now d) = db_events d"
  by (simp_all add: cancel_waiting_def Let_def fail_requested_effects_def cancel_interactions_def)

lemma record_cancel_request_safe:
  assumes "r \<in> set (db_runs d)"
  shows "safe d (record_cancel_request clk ids r eff trc d)"
  using assms by (auto simp: record_cancel_request_def Let_def cancel_event_def intro!: safe_announce)

lemma cancel_now_safe:
  assumes "cancel_now clk ids r trc d = Inr (res, d')" "r \<in> set (db_runs d)"
  shows "safe d d'"
proof -
  from assms(1) obtain tr where tr: "plan_run r CANCELLED (clk 0) = Inr tr"
    by (auto simp: cancel_now_def ebind_Inr_iff Let_def)
  define d1 where "d1 = put_run (r\<lparr>run_status := tr_status tr, run_row_version := tr_row_version tr,
      run_finished_at := tr_finished_at tr, run_error_json := None\<rparr>) d"
  define d2 where "d2 = (if waiting_status (run_status r) then cancel_waiting (run_id r) (clk 0) d1 else d1)"
  define d3 where "d3 = (if run_status r = QUEUED \<or> run_status r = RETRY_PENDING
      then cancel_segment (clk 0) (latest_segment (run_id r) d2) d2 else d2)"
  have d': "d' = announce (ids 1) CANCELLED (snapshot_event (ids 0) (run_id r) (next_sequence (run_id r) d3)
      (status_payload CANCELLED (tr_row_version tr) None) ''Run cancelled before active execution''
      (clk 0) None None trc) d3"
    using assms(1) unfolding d3_def d2_def d1_def by (simp add: cancel_now_def tr Let_def)
  have runs: "run_id ` set (db_runs d3) = run_id ` set (db_runs d)"
    by (simp add: d3_def d2_def d1_def)
  have "safe d d1" unfolding d1_def
    by (rule safe_planned [OF assms(2) tr]) (use plan_times [OF tr] in \<open>simp_all add: run_key_def\<close>)
  also have "safe d1 d2" by (simp add: d2_def cancel_waiting_safe)
  also have "safe d2 d3" unfolding d3_def
    by (cases "run_status r = QUEUED \<or> run_status r = RETRY_PENDING")
      (auto intro!: safe_cancel_segment simp: latest_segment_in)
  also have "safe d3 d'" unfolding d'
    by (rule safe_announce) (use runs assms(2) in \<open>auto simp: snapshot_event_def\<close>)
  finally show ?thesis .
qed

lemma request_cancellation_safe:
  assumes "request_cancellation clk ids rid trc d = Inr (res, d')"
  shows "safe d d'"
proof -
  from assms obtain r where r: "lock_run_row rid None d = Some r"
    by (auto simp: request_cancellation_def split: option.splits)
  note rr = lock_run_row_Some [OF r]
  from assms r consider "d' = d" | eff where "d' = record_cancel_request clk ids r eff trc d"
    | "cancel_now clk ids r trc d = Inr (res, d')"
    by (auto simp: request_cancellation_def Let_def split: if_splits)
  then show ?thesis
    by cases (use rr in \<open>auto intro: record_cancel_request_safe cancel_now_safe\<close>)
qed

section \<open>Creation\<close>

lemma insert_run_Some:
  assumes "insert_run r d = Inr (Some d1)"
  shows "d1 = d\<lparr>db_runs := db_runs d @ [r]\<rparr>" "run_id r \<notin> run_id ` set (db_runs d)"
    "run_key r \<notin> run_key ` set (db_runs d)"
  using assms by (auto simp: insert_run_def ebind_Inr_iff insert_rows_Inr list_ex_iff run_key_def split: if_splits)

lemma add_budget_account_Inr:
  assumes "add_budget_account sha now i rid c d = Inr d'"
  shows "\<exists>accounts. d' = d\<lparr>db_accounts := db_accounts d @ accounts\<rparr> \<and> length accounts \<le> 1"
proof (cases "cm_budget_policy c")
  case None
  with assms show ?thesis by (intro exI [of _ "[]"]) (simp add: add_budget_account_def)
next
  case (Some p)
  with assms obtain a where "d' = d\<lparr>db_accounts := db_accounts d @ [a]\<rparr>"
    by (auto simp: add_budget_account_def ebind_Inr_iff insert_rows_Inr)
  then show ?thesis by (intro exI [of _ "[a]"]) simp
qed

text \<open>What a creation that found the key free has done.\<close>

lemma create_idempotent_new:
  assumes "create_idempotent sha sha1 clk ids c d = Inr (res, d')" "\<not> cr_idempotent_replay res"
  obtains fp bindings d1 d2 d3 where
    "\<not> was_deleted c d" "request_hash sha sha1 c = Inr fp"
    "insert_run (new_run c fp (ids 0) (clk 0)) d = Inr (Some d1)"
    "validate_skill_snapshots sha (cm_skill_snapshots_json c) (cm_project_id c) d1 = Inr bindings"
    "add_budget_account sha (clk 1) (ids 1) (ids 0) c d1 = Inr d2"
    "ids 2 \<notin> sg_id ` set (db_segments d)"
    "d3 = d2\<lparr>db_segments := db_segments d @ [initial_segment (ids 2) (ids 0) (clk 0)],
        db_skill_snapshots := db_skill_snapshots d2 @
          skill_snapshot_rows (\<lambda>i. ids (i + 5)) (ids 0) (clk 0) bindings\<rparr>"
    "d' = add_event (snapshot_event (ids 3) (ids 0) 1
        (JObj [(''status'', JStr ''QUEUED''), (''row_version'', JInt 1),
               (''run_segment_id'', JStr (str_uuid (ids 2))), (''segment_no'', JInt 1)])
        ''Run queued'' (clk 0) None None (cm_trace_id c))
      [dispatch_outbox (ids 4) (ids 0) (JObj [(''run_id'', JStr (str_uuid (ids 0))),
         (''project_id'', JStr (str_uuid (cm_project_id c)))]) (clk 0)] d3"
    "res = \<lparr>cr_run_id = ids 0, cr_project_id = cm_project_id c, cr_task_id = cm_task_id c,
       cr_status = QUEUED, cr_row_version = 1, cr_created_at = clk 0, cr_idempotent_replay = False\<rparr>"
proof -
  from assms obtain fp ins where fp: "\<not> was_deleted c d" "request_hash sha sha1 c = Inr fp"
    and ins: "insert_run (new_run c fp (ids 0) (clk 0)) d = Inr ins"
    by (auto simp: create_idempotent_def ebind_Inr_iff Let_def split: if_splits)
  from assms fp ins obtain d1 where i1: "ins = Some d1"
    by (cases ins) (auto simp: create_idempotent_def ebind_Inr_iff Let_def replayed_run_def to_created_run_def)
  from assms fp ins i1 obtain bindings d2 where
    b: "validate_skill_snapshots sha (cm_skill_snapshots_json c) (cm_project_id c) d1 = Inr bindings"
    and d2: "add_budget_account sha (clk 1) (ids 1) (ids 0) c d1 = Inr d2"
    by (auto simp: create_idempotent_def ebind_Inr_iff Let_def)
  obtain accounts where "d2 = d1\<lparr>db_accounts := db_accounts d1 @ accounts\<rparr>"
    using add_budget_account_Inr [OF d2] by blast
  then have seg: "db_segments d2 = db_segments d"
    using insert_run_Some(1) [OF ins [unfolded i1]] by simp
  show thesis
    by (rule that [OF fp ins [unfolded i1] b d2 _ refl])
      (use assms fp ins i1 b d2 seg in
        \<open>auto simp: create_idempotent_def ebind_Inr_iff Let_def insert_rows_Inr initial_segment_def\<close>)
qed

lemma create_idempotent_replay:
  assumes "create_idempotent sha sha1 clk ids c d = Inr (res, d')" "cr_idempotent_replay res"
  shows "d' = d"
  using assms by (auto simp: create_idempotent_def ebind_Inr_iff Let_def split: if_splits option.splits)

lemma new_run_times [simp]: "run_row_inv (new_run c fp i now)"
  by (simp add: run_row_inv_def run_times_ok_def new_run_def is_terminal_def terminal_run_statuses_def)

lemma create_idempotent_safe:
  assumes "create_idempotent sha sha1 clk ids c d = Inr (res, d')"
  shows "safe d d'"
proof (cases "cr_idempotent_replay res")
  case True
  with create_idempotent_replay [OF assms] show ?thesis by simp
next
  case False
  obtain fp bindings d1 d2 d3 e obs where i: "insert_run (new_run c fp (ids 0) (clk 0)) d = Inr (Some d1)"
    and d2: "add_budget_account sha (clk 1) (ids 1) (ids 0) c d1 = Inr d2"
    and sid: "ids 2 \<notin> sg_id ` set (db_segments d)"
    and d3: "d3 = d2\<lparr>db_segments := db_segments d @ [initial_segment (ids 2) (ids 0) (clk 0)],
        db_skill_snapshots := db_skill_snapshots d2 @
          skill_snapshot_rows (\<lambda>i. ids (i + 5)) (ids 0) (clk 0) bindings\<rparr>"
    and d': "d' = add_event e obs d3" "ev_run_id e = ids 0" "ev_sequence e = 1"
    by (rule create_idempotent_new [OF assms False]) (auto simp: snapshot_event_def)
  note new = insert_run_Some [OF i]
  obtain accounts where acc: "d2 = d1\<lparr>db_accounts := db_accounts d1 @ accounts\<rparr>"
    using add_budget_account_Inr [OF d2] by blast
  let ?d0 = "d1\<lparr>db_segments := db_segments d1 @ [initial_segment (ids 2) (ids 0) (clk 0)]\<rparr>"
  have segs: "db_segments d1 = db_segments d" by (simp add: new(1))
  have "safe d d1" unfolding new(1)
    by (rule safe_new_run [OF new(2,3)]) simp
  also have "safe d1 ?d0"
    by (rule safe_new_segment) (use sid segs in \<open>simp add: initial_segment_def\<close>)
  also have "safe ?d0 d3"
    by (rule safe_other) (simp_all add: d3 acc segs same_core_def)
  finally have 3: "safe d d3" .
  have ev: "db_events d3 = db_events d" and runs: "db_runs d3 = db_runs d @ [new_run c fp (ids 0) (clk 0)]"
    by (simp_all add: d3 acc new(1))
  have "safe d d'"
  proof (cases "run_inv d")
    case True
    have "\<forall>e \<in> set (db_events d). ev_run_id e \<in> run_id ` set (db_runs d)"
      using True by (simp add: run_inv_def numbered_def)
    then have "filter (\<lambda>e. ev_run_id e = ids 0) (db_events d) = []"
      using new(2) by (simp add: filter_empty_conv new_run_def) metis
    then have "next_sequence (ids 0) d3 = 1"
      by (simp add: next_sequence_def run_sequences_def coalesce_max_def ev)
    then have "safe d3 d'" unfolding d'(1)
      by (intro safe_add_event) (simp_all add: d' runs new_run_def)
    with 3 show ?thesis by (rule safe_trans)
  qed (simp add: safe_def)
  then show ?thesis .
qed

lemma replace_initial_selected_sources_safe:
  assumes "replace_initial_selected_sources rid sel d = Inr (u, d')"
  shows "safe d d'"
proof -
  from assms obtain r where r: "find_row run_id rid (db_runs d) = Some r" and q: "run_row_version r = 1"
    "run_status r = QUEUED"
    and d': "d' = put_run (r\<lparr>run_selected_sources_json := sel\<rparr>) d"
    by (auto simp: replace_initial_selected_sources_def split: option.splits if_splits)
  show ?thesis unfolding d'
    by (rule safe_run [of r])
      (use r q in \<open>auto simp: find_row_def find_Some_iff run_row_le_def run_key_def run_row_inv_def kept_def
        is_terminal_def terminal_run_statuses_def\<close>)
qed

end
