(* ===== verification/Run_Exec_Ops.thy ===== *)
theory Run_Exec_Ops
  imports Run_Ops
begin

text \<open>
  The operations of a worker are safe updates: the claim of a run, the start of execution, appended
  agent events and the frozen brief.
\<close>

lemma safeI: "(run_inv d \<Longrightarrow> safe d d') \<Longrightarrow> safe d d'"
  by (auto simp: safe_def)

lemma safe_inv: "safe d d' \<Longrightarrow> run_inv d \<Longrightarrow> run_inv d'"
  by (simp add: safe_def)

section \<open>The claim\<close>

lemma exhaust_retries_safe:
  assumes "exhaust_retries ids run segment n m now trc d = Inr d'"
    and run: "run \<in> set (db_runs d)" and seg: "segment \<in> set (db_segments d)"
  shows "safe d d'"
proof -
  define er where "er = retry_exhausted_error n m"
  from assms(1) obtain tr where tr: "plan_run run FAILED now = Inr tr"
    by (auto simp: exhaust_retries_def ebind_Inr_iff Let_def)
  define d1 where "d1 = put_run (run\<lparr>run_status := tr_status tr, run_row_version := tr_row_version tr,
      run_started_at := tr_started_at tr, run_finished_at := tr_finished_at tr, run_error_json := Some er\<rparr>) d"
  define d2 where "d2 = put_segment (segment\<lparr>sg_status := SEG_FAILED, sg_finished_at := Some now\<rparr>) d1"
  have d': "d' = announce (ids 1) FAILED (snapshot_event (ids 0) (run_id run) (next_sequence (run_id run) d2)
      (status_payload FAILED (tr_row_version tr) (Some er)) ''Run retry limit exhausted'' now None None trc) d2"
    using assms(1) tr by (simp add: exhaust_retries_def Let_def d1_def d2_def er_def)
  have "safe d d1" unfolding d1_def by (rule safe_planned [OF run tr]) (simp_all add: run_key_def)
  also have "safe d1 d2" unfolding d2_def by (rule safe_segment [of segment]) (simp_all add: d1_def seg)
  also have "safe d2 d'" unfolding d'
    by (rule safe_announce) (use run in \<open>simp_all add: d2_def d1_def snapshot_event_def\<close>)
  finally show ?thesis .
qed

lemma next_attempt_no_greater:
  assumes "b \<in> set (segment_attempts sid d)"
  shows "at_attempt_no b < next_attempt_no sid d"
proof -
  have "at_attempt_no b \<le> coalesce_max (map at_attempt_no (segment_attempts sid d))"
    using assms by (auto simp: coalesce_max_def)
  then show ?thesis by (auto simp: next_attempt_no_def Let_def)
qed

lemma segment_run_unique:
  assumes "run_inv d" "s \<in> set (db_segments d)" "b \<in> set (db_attempts d)"
    "at_run_segment_id b = Some (sg_id s)"
  shows "at_run_id b = sg_run_id s"
proof -
  have "attempt_home d b" and dist: "distinct (map sg_id (db_segments d))"
    using assms by (simp_all add: run_inv_def)
  then obtain x where x: "x \<in> set (db_segments d)" "sg_id x = sg_id s" "sg_run_id x = at_run_id b"
    using assms(4) by (auto simp: attempt_home_def)
  with distinct_key_eq [OF dist x(1) assms(2)] show ?thesis by simp
qed

lemma new_attempt_fields [simp]:
  "at_id (new_attempt i rid s n now rq) = i" "at_run_id (new_attempt i rid s n now rq) = rid"
  "at_run_segment_id (new_attempt i rid s n now rq) = Some (sg_id s)"
  "at_attempt_no (new_attempt i rid s n now rq) = n" "at_status (new_attempt i rid s n now rq) = ATT_LEASED"
  by (simp_all add: new_attempt_def)

lemma safe_lease_attempt:
  assumes "i \<notin> at_id ` set (db_attempts d)" "segment \<in> set (db_segments d)" "sg_run_id segment = rid"
    "\<not> segment_busy rid (sg_id segment) d"
  shows "safe d (d\<lparr>db_attempts := db_attempts d @
    [new_attempt i rid segment (next_attempt_no (sg_id segment) d) now rq]\<rparr>)"
proof (rule safeI)
  assume inv: "run_inv d"
  show ?thesis
  proof (rule safe_new_attempt)
    fix b assume b: "b \<in> set (db_attempts d)"
      "at_run_segment_id b = at_run_segment_id (new_attempt i rid segment (next_attempt_no (sg_id segment) d) now rq)"
    then have "b \<in> set (segment_attempts (sg_id segment) d)" by (simp add: segment_attempts_def)
    moreover have "at_run_id b = rid" using segment_run_unique [OF inv assms(2)] b assms(3) by simp
    ultimately show "\<not> attempt_open b \<and> at_attempt_no b \<noteq>
        at_attempt_no (new_attempt i rid segment (next_attempt_no (sg_id segment) d) now rq)"
      using assms(4) next_attempt_no_greater by (fastforce simp: segment_busy_def list_ex_iff)
  qed (use assms in \<open>auto simp: attempt_home_def\<close>)
qed

lemma segment_started_event_fields [simp]:
  "ev_run_id (segment_started_event i rid aid s n now trc) = rid"
  "ev_sequence (segment_started_event i rid aid s n now trc) = n"
  by (simp_all add: segment_started_event_def)

lemma claim_events_safe:
  assumes "run_id run \<in> run_id ` set (db_runs d)"
  shows "safe d (claim_events ids run segment attempt v now trc d)"
proof (rule safeI)
  assume inv: "run_inv d"
  let ?n = "next_sequence (run_id run) d"
  let ?e = "segment_started_event (ids 0) (run_id run) (at_id attempt) segment ?n now trc"
  define d1 where "d1 = (if sg_status segment = SEG_CREATED then announce (ids 1) PREPARING ?e d else d)"
  have s1: "safe d d1" unfolding d1_def
    using assms by (auto intro!: safe_announce)
  have n1: "next_sequence (run_id run) d1 = (if sg_status segment = SEG_CREATED then ?n + 1 else ?n)"
    unfolding d1_def using next_sequence_announce [of ?e d] numbered_next_pos [OF inv] by simp
  have runs: "db_runs d1 = db_runs d" by (simp add: d1_def)
  obtain ev where cl: "claim_events ids run segment attempt v now trc d = announce (ids 3) PREPARING ev d1"
    "ev_run_id ev = run_id run" "ev_sequence ev = next_sequence (run_id run) d1"
    unfolding n1 by (simp add: claim_events_def Let_def d1_def snapshot_event_def)
  have "safe d1 (announce (ids 3) PREPARING ev d1)"
    by (rule safe_announce) (use cl assms runs in auto)
  with s1 show "safe d (claim_events ids run segment attempt v now trc d)"
    unfolding cl(1) by (rule safe_trans)
qed

lemma lease_run_safe:
  assumes "lease_run sha ids rq run segment (next_attempt_no (sg_id segment) d) now cap d = Inr (res, d')"
    and run: "run \<in> set (db_runs d)" and seg: "segment \<in> set (db_segments d)" "sg_run_id segment = run_id run"
    and idle: "\<not> segment_busy (run_id run) (sg_id segment) d"
  shows "safe d d'"
proof -
  let ?a = "new_attempt (ids 0) (run_id run) segment (next_attempt_no (sg_id segment) d) now rq"
  from assms(1) obtain tr where tr: "plan_run run PREPARING now = Inr tr"
    by (auto simp: lease_run_def ebind_Inr_iff Let_def)
  define run' where "run' = run\<lparr>run_status := tr_status tr, run_row_version := tr_row_version tr,
      run_started_at := tr_started_at tr, run_finished_at := tr_finished_at tr, run_error_json := None\<rparr>"
  define segment' where "segment' = segment\<lparr>sg_status := SEG_RUNNING,
      sg_started_at := or_else (sg_started_at segment) now\<rparr>"
  define d0 where "d0 = d\<lparr>db_attempts := db_attempts d @ [?a]\<rparr>"
  define d1 where "d1 = put_segment segment' (put_run run' d0)"
  have new: "ids 0 \<notin> at_id ` set (db_attempts d)"
    and d': "d' = claim_events (\<lambda>i. ids (i + 1)) run segment ?a (tr_row_version tr) now (rq_trace_id rq) d1"
    using assms(1) by (auto simp: lease_run_def tr ebind_Inr_iff Let_def insert_rows_Inr d1_def d0_def
        run'_def segment'_def)
  have "safe d d0" unfolding d0_def by (rule safe_lease_attempt [OF new seg idle])
  also have "safe d0 (put_run run' d0)"
    by (rule safe_planned [OF _ tr]) (simp_all add: run'_def d0_def run run_key_def)
  also have "safe (put_run run' d0) d1" unfolding d1_def
    by (rule safe_segment [of segment]) (simp_all add: segment'_def d0_def seg)
  also have "safe d1 d'" unfolding d'
    by (rule claim_events_safe) (use run in \<open>simp add: d1_def d0_def\<close>)
  finally show ?thesis .
qed

lemma claim_for_execution_cases:
  assumes "claim_for_execution sha clk ids rid rq d = Inr (res, d')"
  obtains (idle) "res = None" "d' = d"
  | (exhausted) run segment where "run \<in> set (db_runs d)" "run_id run = rid" "latest_segment rid d = Some segment"
      "rq_max_attempts rq < next_attempt_no (sg_id segment) d" "res = None"
      "exhaust_retries ids run segment (next_attempt_no (sg_id segment) d) (rq_max_attempts rq) (clk 1)
         (rq_trace_id rq) d = Inr d'"
  | (leased) run segment cap where "run \<in> set (db_runs d)" "run_id run = rid"
      "run_status run = QUEUED \<or> run_status run = RETRY_PENDING"
      "latest_segment rid d = Some segment" "\<not> segment_busy rid (sg_id segment) d"
      "next_attempt_no (sg_id segment) d \<le> rq_max_attempts rq"
      "lease_run sha ids rq run segment (next_attempt_no (sg_id segment) d) (clk 1) cap d = Inr (res, d')"
proof -
  from assms obtain run where r: "lock_run_row rid None d = Some run"
    by (auto simp: claim_for_execution_def split: option.splits)
  note rr = lock_run_row_Some [OF r]
  show thesis
  proof (cases "run_status run \<noteq> QUEUED \<and> run_status run \<noteq> RETRY_PENDING")
    case True
    with assms r show thesis by (intro idle) (simp_all add: claim_for_execution_def)
  next
    case False
    with assms r obtain retry where q: "(if run_status run = RETRY_PENDING
        then capacity_retry_at (run_error_json run) else Inr None) = Inr retry"
      by (auto simp: claim_for_execution_def ebind_Inr_iff)
    show thesis
    proof (cases "case retry of None \<Rightarrow> False | Some t \<Rightarrow> clk 0 < t")
      case True
      with assms r False q show thesis by (intro idle) (simp_all add: claim_for_execution_def)
    next
      case early: False
      obtain segment where s: "latest_segment rid d = Some segment"
        using assms r False q early by (cases "latest_segment rid d") (simp_all add: claim_for_execution_def)
      consider (no) "sg_status segment \<noteq> SEG_CREATED \<and> sg_status segment \<noteq> SEG_RUNNING \<or>
          (case rq_expected_previous rq of None \<Rightarrow> False
             | Some previous \<Rightarrow> \<not> warm_claim_allowed previous run segment d) \<or>
          segment_busy rid (sg_id segment) d"
        | (go) "(sg_status segment = SEG_CREATED \<or> sg_status segment = SEG_RUNNING) \<and>
          \<not> (case rq_expected_previous rq of None \<Rightarrow> False
             | Some previous \<Rightarrow> \<not> warm_claim_allowed previous run segment d) \<and>
          \<not> segment_busy rid (sg_id segment) d" by blast
      then show thesis
      proof cases
        case no
        with assms r False q early s show thesis
          by (intro idle) (auto simp: claim_for_execution_def Let_def simp del: One_nat_def split: if_splits)
      next
        case go
        show thesis
        proof (cases "rq_max_attempts rq < next_attempt_no (sg_id segment) d")
          case True
          with assms r False q early s go show thesis using rr
            by (intro exhausted [of run segment])
              (auto simp: claim_for_execution_def ebind_Inr_iff Let_def simp del: One_nat_def)
        next
          case more: False
          with assms r False q early s go show thesis using rr
            by (intro leased [of run segment "retry \<noteq> None"])
              (auto simp: claim_for_execution_def Let_def simp del: One_nat_def)
        qed
      qed
    qed
  qed
qed

lemma claim_for_execution_safe:
  assumes "claim_for_execution sha clk ids rid rq d = Inr (res, d')"
  shows "safe d d'"
  using assms
proof (cases rule: claim_for_execution_cases)
  case idle
  then show ?thesis by simp
next
  case (exhausted run segment)
  then show ?thesis using latest_segment_in by (intro exhaust_retries_safe) auto
next
  case (leased run segment cap)
  then show ?thesis using latest_segment_in [of rid d segment]
    by (intro lease_run_safe [where run = run and segment = segment and cap = cap]) auto
qed

section \<open>The start and the events of an execution\<close>

lemma run_attempt_segment_Inr:
  assumes "run_attempt_segment sha now claimed d = Inr (run, segment, attempt)"
  shows "run \<in> set (db_runs d)" "run_id run = cl_run_id claimed" "attempt \<in> set (db_attempts d)"
    "attempt_active attempt" "at_id attempt = cl_run_attempt_id claimed" "at_run_id attempt = cl_run_id claimed"
    "\<And>s. segment = Some s \<Longrightarrow> s \<in> set (db_segments d)"
  using assms lock_claimed_execution_Inr [of claimed d run segment attempt]
  by (auto simp: run_attempt_segment_def ebind_Inr_iff validate_claimed_lease_Inr)

lemma prepare_execution_safe:
  assumes "prepare_execution sha clk ids claimed d = Inr (res, d')"
  shows "safe d d'"
proof -
  from assms obtain run segment attempt tr where
    ras: "run_attempt_segment sha (clk 0) claimed d = Inr (run, segment, attempt)"
    and tr: "plan_run run RUNNING (clk 0) = Inr tr"
    by (auto simp: prepare_execution_def ebind_Inr_iff Let_def)
  note r = run_attempt_segment_Inr [OF ras]
  define run' where "run' = run\<lparr>run_status := tr_status tr, run_row_version := tr_row_version tr,
      run_started_at := tr_started_at tr\<rparr>"
  define d1 where "d1 = put_attempt (attempt\<lparr>at_status := ATT_RUNNING\<rparr>) (put_run run' d)"
  define d2 where "d2 = (case segment of None \<Rightarrow> d1 | Some s \<Rightarrow> put_segment (s\<lparr>sg_status := SEG_RUNNING,
      sg_started_at := or_else (sg_started_at s) (clk 0)\<rparr>) d1)"
  obtain ev where d': "d' = announce (ids 1) (run_status run') ev d2" "ev_run_id ev = run_id run"
    "ev_sequence ev = next_sequence (run_id run) d2"
    using assms by (auto simp: prepare_execution_def ras tr ebind_Inr_iff Let_def d2_def d1_def run'_def
        snapshot_event_def cong: option.case_cong)
  have "safe d (put_run run' d)"
    by (rule safe_planned [OF r(1) tr]) (use plan_times [OF tr] in \<open>simp_all add: run'_def run_key_def
      is_terminal_def terminal_run_statuses_def\<close>)
  also have "safe (put_run run' d) d1" unfolding d1_def
    by (rule safe_attempt [of attempt])
      (use r active_open active_rank in \<open>auto intro!: attempt_le_close\<close>)
  also have "safe d1 d2" unfolding d2_def
    using r(7) by (cases segment) (auto simp: d1_def intro!: safe_segment)
  also have "safe d2 d'" unfolding d'(1)
  proof (rule safe_announce)
    have "db_runs d2 = put_row run_id run' (db_runs d)"
      by (cases segment) (simp_all add: d2_def d1_def)
    with r(1) show "ev_run_id ev \<in> run_id ` set (db_runs d2)" by (simp add: d')
  qed (simp add: d')
  finally show ?thesis .
qed

lemma ensure_agent_session_core:
  assumes "ensure_agent_session i claimed sid m now d = Inr (s, d')"
  shows "\<exists>rows. d' = d\<lparr>db_sessions := rows\<rparr>"
proof -
  from assms obtain ex where q: "find_primary_agent_session claimed d = Inr ex"
    by (auto simp: ensure_agent_session_def ebind_Inr_iff split: if_splits)
  show ?thesis
  proof (cases ex)
    case None
    with assms q show ?thesis by (auto simp: ensure_agent_session_def ebind_Inr_iff Let_def split: if_splits)
  next
    case (Some s)
    with assms q have "d' = d\<lparr>db_sessions := db_sessions d\<rparr>"
      by (auto simp: ensure_agent_session_def ebind_Inr_iff split: if_splits)
    then show ?thesis by blast
  qed
qed

lemma safe_sessions: "safe d (d\<lparr>db_sessions := rows\<rparr>)"
  by (rule safe_other) (simp_all add: same_core_def)

lemma next_sequence_sessions [simp]: "next_sequence rid (d\<lparr>db_sessions := rows\<rparr>) = next_sequence rid d"
  by (rule next_sequence_cong) simp

lemma stored_agent_event_Inr:
  assumes "stored_agent_event i e = Inr ev"
  shows "ev_run_id ev = ae_run_id e" "ev_sequence ev = ae_sequence e"
  using assms by (auto simp: stored_agent_event_def ebind_Inr_iff Let_def)

lemma append_agent_event_safe:
  assumes "append_agent_event sha fl clk ids claimed event metadata d = Inr (res, d')"
  shows "safe d d'"
proof -
  from assms obtain run segment attempt sid session d1 stored where
    ras: "run_attempt_segment sha (clk 0) claimed d = Inr (run, segment, attempt)"
    and ae: "validate_agent_event event claimed = Inr ()"
    and seq: "\<not> ae_sequence event < next_sequence (run_id run) d"
    and ens: "ensure_agent_session (ids 0) claimed sid metadata (clk 0) d = Inr (session, d1)"
    and st: "stored_agent_event (ids 1) event = Inr stored"
    and d': "d' = announce (ids 2) (run_status run) stored (put_session (merge_session_usage fl session event) d1)"
    by (auto simp: append_agent_event_def ebind_Inr_iff Let_def)
  note r = run_attempt_segment_Inr [OF ras]
  obtain rows where d1: "d1 = d\<lparr>db_sessions := rows\<rparr>" using ensure_agent_session_core [OF ens] by blast
  have id: "ev_run_id stored = run_id run" "ev_sequence stored = ae_sequence event"
    using stored_agent_event_Inr [OF st] ae r(2) by (simp_all add: validate_agent_event_def raise_if_def split: if_splits)
  have "safe d d1" unfolding d1 by (rule safe_sessions)
  also have "safe d1 (put_session (merge_session_usage fl session event) d1)" by (rule safe_session)
  also have "safe \<dots> d'" unfolding d'
    by (rule safe_announce) (use r(1) seq in \<open>simp_all add: id d1\<close>)
  finally show ?thesis .
qed

lemma freeze_agent_task_brief_safe:
  assumes "freeze_agent_task_brief sha clk ids claimed brief checksum d = Inr (res, d')"
  shows "safe d d'"
proof -
  from assms obtain run segment attempt ex where
    lk: "lock_claimed_execution claimed d = Inr (run, Some segment, attempt)"
    and ex: "one_or_none (filter (\<lambda>b. br_run_segment_id b = sg_id segment) (db_briefs d)) = Inr ex"
    by (auto simp: freeze_agent_task_brief_def ebind_Inr_iff Let_def split: option.splits)
  have seg: "segment \<in> set (db_segments d)" using lock_claimed_execution_Inr(6) [OF lk] by blast
  show ?thesis
  proof (cases ex)
    case (Some b)
    with assms lk ex have "d' = d"
      by (auto simp: freeze_agent_task_brief_def ebind_Inr_iff Let_def split: if_splits)
    then show ?thesis by simp
  next
    case None
    with assms lk ex obtain x where
      d': "d' = put_segment (segment\<lparr>sg_instruction_snapshot_id := Some (ids 0)\<rparr>)
        (d\<lparr>db_briefs := db_briefs d @ [x]\<rparr>)"
      by (auto simp: freeze_agent_task_brief_def ebind_Inr_iff Let_def insert_rows_Inr)
    have "safe d (d\<lparr>db_briefs := db_briefs d @ [x]\<rparr>)"
      by (rule safe_other) (simp_all add: same_core_def)
    also have "safe \<dots> d'" unfolding d'
      by (rule safe_segment [of segment]) (simp_all add: seg)
    finally show ?thesis .
  qed
qed

end
