(* ===== verification/Run_Final_Ops.thy ===== *)
theory Run_Final_Ops
  imports Run_Exec_Ops
begin

text \<open>
  The end of an attempt is a safe update: finalisation, heartbeats and recovery.

  A detached effect that has already ended is continued by the effect component. What the run
  component needs of it is the contract \<open>effect_continuation\<close>: the continuation of a run that waits for
  approval is itself a safe update.
\<close>

section \<open>Pieces of an ending\<close>

lemma db_fields_other [simp]:
  "db_runs (put_proposal p d) = db_runs d" "db_segments (put_proposal p d) = db_segments d"
  "db_attempts (put_proposal p d) = db_attempts d" "db_events (put_proposal p d) = db_events d"
  "db_runs (idle_session i d) = db_runs d" "db_segments (idle_session i d) = db_segments d"
  "db_attempts (idle_session i d) = db_attempts d" "db_events (idle_session i d) = db_events d"
  "db_runs (close_attempt_sessions i st d) = db_runs d" "db_events (close_attempt_sessions i st d) = db_events d"
  by (simp_all add: put_proposal_def idle_session_def close_attempt_sessions_def put_session_def split: option.split)

lemma safe_proposal: "safe d (put_proposal p d)"
  by (rule safe_other) (simp_all add: same_core_def put_proposal_def)

lemma safe_idle_session: "safe d (idle_session i d)"
  by (simp add: idle_session_def split: option.split)

lemma safe_close_sessions: "safe d (close_attempt_sessions i st d)"
  unfolding close_attempt_sessions_def by (rule safe_sessions)

lemma safe_outbox: "safe d (d\<lparr>db_outbox := db_outbox d @ obs\<rparr>)"
  by (rule safe_other) (simp_all add: same_core_def)

lemma plan_not_running: "plan_run r t now = Inr tr \<Longrightarrow> run_status r = RUNNING \<Longrightarrow> t \<noteq> RUNNING"
  using plan_run_Inr(1) by fastforce

section \<open>Finalisation\<close>

definition closes :: "outcome \<Rightarrow> bool" where
  "closes oc \<longleftrightarrow> 3 \<le> attempt_rank (oc_attempt_status oc)"

lemma decide_outcome_Inr:
  assumes "decide_outcome cancelled err oc = Inr oc'"
  shows "cancelled \<Longrightarrow> oc_target oc' = CANCELLED \<and> oc_attempt_status oc' = ATT_CANCELLED \<and> oc_result oc' = None"
    "\<not> cancelled \<Longrightarrow> oc' = oc\<lparr>oc_error_json := err\<rparr> \<and> oc_target oc \<noteq> CANCELLED"
    "oc_event oc' = oc_event oc" "oc_metadata oc' = oc_metadata oc"
  using assms by (auto simp: decide_outcome_def split: if_splits)

lemma close_rows_fields:
  "db_runs (close_rows run tr segment attempt oc now d) = put_row run_id (run\<lparr>run_status := tr_status tr,
     run_row_version := tr_row_version tr, run_finished_at := tr_finished_at tr,
     run_error_json := oc_error_json oc\<rparr>) (db_runs d)"
  by (simp add: close_rows_def Let_def split: option.split)

lemma close_rows_safe:
  assumes run: "run \<in> set (db_runs d)" "run_status run = RUNNING" and tr: "plan_run run (oc_target oc) now = Inr tr"
    and seg: "\<And>s. segment = Some s \<Longrightarrow> s \<in> set (db_segments d)"
    and att: "attempt \<in> set (db_attempts d)" "attempt_active attempt" and oc: "closes oc"
  shows "safe d (close_rows run tr segment attempt oc now d)"
proof -
  define run' where "run' = run\<lparr>run_status := tr_status tr, run_row_version := tr_row_version tr,
      run_finished_at := tr_finished_at tr, run_error_json := oc_error_json oc\<rparr>"
  define attempt' where "attempt' = attempt\<lparr>at_status := oc_attempt_status oc, at_finished_at := Some now,
      at_error_json := oc_error_json oc, at_lease_expires_at := None, at_lease_token_hash := None\<rparr>"
  define d1 where "d1 = put_attempt attempt' (put_run run' d)"
  have cr: "close_rows run tr segment attempt oc now d =
      (case segment of None \<Rightarrow> d1 | Some s \<Rightarrow> put_segment (close_segment (oc_target oc) now s) d1)"
    by (cases segment) (simp_all add: close_rows_def Let_def d1_def attempt'_def run'_def)
  have "safe d (put_run run' d)"
    by (rule safe_planned [OF run(1) tr])
      (use plan_times(1) [OF tr plan_not_running [OF tr run(2)]] in \<open>simp_all add: run'_def run_key_def\<close>)
  also have "safe (put_run run' d) d1" unfolding d1_def
    by (rule safe_attempt [of attempt])
      (use att oc active_rank [OF att(2)] in \<open>auto simp: attempt'_def closes_def active_open intro!: attempt_le_close\<close>)
  also have "safe d1 (close_rows run tr segment attempt oc now d)" unfolding cr
    using seg by (cases segment)
      (auto simp: d1_def close_segment_def Let_def intro!: safe_segment)
  finally show ?thesis .
qed

lemma final_event_Inr:
  assumes "final_event fl ids cancelled claimed oc now d = Inr (sid, nx0, d')"
    and "\<forall>e \<in> set_option (oc_event oc). validate_agent_event e claimed = Inr ()"
    and "cl_run_id claimed \<in> run_id ` set (db_runs d)"
  shows "safe d d'" "db_runs d' = db_runs d"
    "run_inv d \<Longrightarrow> next_sequence (cl_run_id claimed) d' \<le> nx0"
proof -
  let ?n = "next_sequence (cl_run_id claimed) d"
  have "safe d d' \<and> db_runs d' = db_runs d \<and> (run_inv d \<longrightarrow> next_sequence (cl_run_id claimed) d' \<le> nx0)"
  proof (cases "oc_event oc")
    case None
    with assms(1) obtain ex where "find_primary_agent_session claimed d = Inr ex"
      by (auto simp: final_event_def ebind_Inr_iff Let_def)
    with assms(1) None show ?thesis by (cases ex) (auto simp: final_event_def ebind_Inr_iff Let_def)
  next
    case (Some e)
    define event where "event = (if cancelled then user_cancellation_event e (max ?n (ae_sequence e)) else e)"
    from assms(1) Some obtain metadata s d1 stored where
      seq: "?n \<le> ae_sequence event"
      and ens: "ensure_agent_session (ids 0) claimed (the sid) metadata now d = Inr (s, d1)"
      and st: "stored_agent_event (ids 1) event = Inr stored" and nx: "nx0 = ae_sequence event + 1"
      and d': "d' = announce (ids 2) (oc_target oc) stored
        (put_session ((merge_session_usage fl s event)\<lparr>se_status := session_status_for (oc_target oc)\<rparr>) d1)"
      by (auto simp: final_event_def ebind_Inr_iff Let_def event_def [symmetric] split: option.splits)
    obtain rows where d1: "d1 = d\<lparr>db_sessions := rows\<rparr>" using ensure_agent_session_core [OF ens] by blast
    have "ae_run_id event = cl_run_id claimed"
      using assms(2) Some by (simp add: event_def user_cancellation_event_def Let_def validate_agent_event_def
          raise_if_def split: if_splits)
    then have id: "ev_run_id stored = cl_run_id claimed" "ev_sequence stored = ae_sequence event"
      using stored_agent_event_Inr [OF st] by simp_all
    let ?d2 = "put_session ((merge_session_usage fl s event)\<lparr>se_status := session_status_for (oc_target oc)\<rparr>) d1"
    have "safe d d1" unfolding d1 by (rule safe_sessions)
    also have "safe d1 ?d2" by (rule safe_session)
    also have "safe ?d2 d'" unfolding d'
      by (rule safe_announce) (use assms(3) seq in \<open>simp_all add: id d1\<close>)
    finally have "safe d d'" .
    moreover have "next_sequence (cl_run_id claimed) d' \<le> nx0" if "run_inv d"
      using next_sequence_announce [of stored ?d2] numbered_next_pos [OF that] seq
      by (simp add: id d1 d' nx order_less_le_trans [of 0 ?n])
    ultimately show ?thesis by (simp add: d' d1)
  qed
  then show "safe d d'" "db_runs d' = db_runs d"
    "run_inv d \<Longrightarrow> next_sequence (cl_run_id claimed) d' \<le> nx0" by blast+
qed

lemma add_result_safe:
  assumes "add_result i rid sid result now d = Inr d'"
    and "result \<noteq> None \<Longrightarrow> \<exists>r \<in> set (db_runs d). run_id r = rid \<and> run_status r = SUCCEEDED"
  shows "safe d d' \<and> db_runs d' = db_runs d \<and> db_events d' = db_events d"
proof (cases result)
  case None
  with assms(1) show ?thesis by (simp add: add_result_def)
next
  case (Some rs)
  with assms(1) obtain s where "rid \<notin> re_run_id ` set (db_results d)"
    "d' = d\<lparr>db_results := db_results d @ [result_row_of i rid s rs now]\<rparr>"
    by (auto simp: add_result_def list_ex_iff split: option.splits if_splits)
  then show ?thesis using assms(2) Some
    by (auto simp: result_row_of_def intro!: safe_new_result)
qed

lemma closing_events_safe:
  assumes "run_id run \<in> run_id ` set (db_runs d)" "run_inv d \<Longrightarrow> next_sequence (run_id run) d \<le> nx0"
  shows "safe d (closing_events ids run tr segment attempt oc sid nx0 now d)"
proof (rule safeI)
  assume inv: "run_inv d"
  define d1 where "d1 = (case (if oc_target oc = SUCCEEDED then segment else None) of None \<Rightarrow> d
      | Some s \<Rightarrow> announce (ids 1) (oc_target oc)
          (segment_completed_event (ids 0) (run_id run) (at_id attempt) sid s nx0 now) d)"
  define n where "n = (case (if oc_target oc = SUCCEEDED then segment else None) of None \<Rightarrow> nx0 | Some _ \<Rightarrow> nx0 + 1)"
  obtain ev obs where ce: "closing_events ids run tr segment attempt oc sid nx0 now d =
      (announce (ids 3) (oc_target oc) ev d1)\<lparr>db_outbox := db_outbox (announce (ids 3) (oc_target oc) ev d1) @ obs\<rparr>"
    and ev: "ev_run_id ev = run_id run" "ev_sequence ev = n"
  proof -
    let ?ev = "snapshot_event (ids 2) (run_id run) n (status_payload (oc_target oc) (tr_row_version tr) (oc_error_json oc))
            (''Run finalized as '' @ run_status_text (oc_target oc)) now (Some (at_id attempt)) sid None"
    let ?obs = "if oc_target oc = RETRY_PENDING then [dispatch_outbox (ids 4) (run_id run)
          (JObj [(''run_id'', JStr (str_uuid (run_id run))),
                 (''retry_at'', case oc_error_json oc of None \<Rightarrow> JNull | Some v \<Rightarrow> jnull ''retry_at'' v)]) now] else []"
    show thesis
      by (rule that [of ?ev ?obs])
        (simp_all add: closing_events_def Let_def d1_def n_def snapshot_event_def split: option.split)
  qed
  have pos: "0 < nx0" using assms(2) [OF inv] numbered_next_pos [OF inv] by (metis less_le_trans)
  have step: "safe d d1 \<and> db_runs d1 = db_runs d \<and> next_sequence (run_id run) d1 \<le> n"
  proof (cases "if oc_target oc = SUCCEEDED then segment else None")
    case None
    then show ?thesis using assms(2) [OF inv] by (simp add: d1_def n_def)
  next
    case (Some s)
    let ?e = "segment_completed_event (ids 0) (run_id run) (at_id attempt) sid s nx0 now"
    have e: "ev_run_id ?e = run_id run" "ev_sequence ?e = nx0" by (simp_all add: segment_completed_event_def)
    have "safe d (announce (ids 1) (oc_target oc) ?e d)"
      by (rule safe_announce) (use assms inv in \<open>simp_all add: e\<close>)
    with next_sequence_announce [of ?e d] pos assms(2) [OF inv] Some show ?thesis
      by (simp add: d1_def n_def e)
  qed
  have "safe d1 (announce (ids 3) (oc_target oc) ev d1)"
    by (rule safe_announce) (use step assms(1) ev in simp_all)
  with step have "safe d (announce (ids 3) (oc_target oc) ev d1)" by (blast intro: safe_trans)
  then show "safe d (closing_events ids run tr segment attempt oc sid nx0 now d)"
    unfolding ce by (rule safe_trans) (rule safe_outbox)
qed

text \<open>The pieces of a finalisation that is not a detachment.\<close>

lemma finalize_running_Inr:
  assumes "finalize_running fl ids claimed oc now run segment attempt d = Inr (res, d')"
  obtains err oc' tr sid nx0 d2 d3 where
    "check_outcome claimed oc = Inr ()" "final_error segment oc now = Inr err"
    "decide_outcome (is_cancellation_requested (run_id run) d) err oc = Inr oc'"
    "plan_run run (oc_target oc') now = Inr tr"
    "final_event fl ids (is_cancellation_requested (run_id run) d) claimed oc' now
       (close_rows run tr segment attempt oc' now d) = Inr (sid, nx0, d2)"
    "add_result (ids 3) (run_id run) sid (oc_result oc') now d2 = Inr d3"
    "d' = closing_events (\<lambda>i. ids (i + 4)) run tr segment attempt oc' sid nx0 now d3"
    "res = oc_target oc'"
  using assms that by (auto simp: finalize_running_def ebind_Inr_iff Let_def)

lemma finalize_running_safe:
  assumes fin: "finalize_running fl ids claimed oc now run segment attempt d = Inr (res, d')"
    and run: "run \<in> set (db_runs d)" "run_status run = RUNNING" "run_id run = cl_run_id claimed"
    and seg: "\<And>s. segment = Some s \<Longrightarrow> s \<in> set (db_segments d)"
    and att: "attempt \<in> set (db_attempts d)" "attempt_active attempt" and oc: "closes oc"
  shows "safe d d'"
proof -
  from fin obtain err oc' tr sid nx0 d2 d3 where chk: "check_outcome claimed oc = Inr ()"
    and dec: "decide_outcome (is_cancellation_requested (run_id run) d) err oc = Inr oc'"
    and tr: "plan_run run (oc_target oc') now = Inr tr"
    and fe: "final_event fl ids (is_cancellation_requested (run_id run) d) claimed oc' now
       (close_rows run tr segment attempt oc' now d) = Inr (sid, nx0, d2)"
    and ar: "add_result (ids 3) (run_id run) sid (oc_result oc') now d2 = Inr d3"
    and d': "d' = closing_events (\<lambda>i. ids (i + 4)) run tr segment attempt oc' sid nx0 now d3"
    by (rule finalize_running_Inr)
  let ?d1 = "close_rows run tr segment attempt oc' now d"
  have oc': "closes oc'"
    using decide_outcome_Inr(1,2) [OF dec] oc
    by (cases "is_cancellation_requested (run_id run) d") (auto simp: closes_def)
  have 1: "safe d ?d1" by (rule close_rows_safe [OF run(1,2) tr seg att oc'])
  have ids: "cl_run_id claimed \<in> run_id ` set (db_runs ?d1)"
    using imageI [OF run(1), of run_id] run(3) by (simp add: close_rows_fields)
  have ev: "\<forall>e \<in> set_option (oc_event oc'). validate_agent_event e claimed = Inr ()"
    using chk decide_outcome_Inr(3) [OF dec] by (auto simp: check_outcome_def ebind_Inr_iff split: option.splits)
  note f = final_event_Inr [OF fe ev ids]
  have "\<exists>r \<in> set (db_runs d2). run_id r = run_id run \<and> run_status r = SUCCEEDED" if "oc_result oc' \<noteq> None"
  proof -
    have "oc_target oc' = SUCCEEDED"
      using that chk decide_outcome_Inr(1,2) [OF dec]
      by (cases "is_cancellation_requested (run_id run) d") (auto simp: check_outcome_def ebind_Inr_iff)
    moreover have "tr_status tr = oc_target oc'" by (rule plan_run_Inr(2) [OF tr])
    ultimately show ?thesis unfolding f(2) close_rows_fields
      using run(1) by (intro bexI [OF _ in_put_row]) (auto intro: image_eqI)
  qed
  note a = add_result_safe [OF ar this]
  have 3: "safe ?d1 d3" using f(1) a by (blast intro: safe_trans)
  have "safe d3 d'" if "run_inv d"
    unfolding d'
  proof (rule closing_events_safe)
    have "run_inv ?d1" using 1 that by (rule safe_inv)
    then show "next_sequence (run_id run) d3 \<le> nx0"
      using f(3) a run(3) next_sequence_cong [of d3 d2] by simp
    show "run_id run \<in> run_id ` set (db_runs d3)" using ids a f(2) run(3) by simp
  qed
  then show ?thesis using 1 3 by (blast intro: safeI safe_trans)
qed

section \<open>The contract of the effect component\<close>

locale effect_continuation =
  fixes finish :: effect_finish
  assumes finish_safe: "r \<in> set (db_runs d) \<Longrightarrow> run_status r = WAITING_FOR_APPROVAL \<Longrightarrow>
    s \<in> set (db_segments d) \<Longrightarrow> finish ids now r s p e d = Inr d' \<Longrightarrow> safe d d'"
begin

lemma detach_inline_effect_safe:
  assumes "detach_inline_effect finish ids run segment attempt proposal now d = Inr d'"
    and run: "run \<in> set (db_runs d)" and seg: "segment \<in> set (db_segments d)"
    and att: "attempt \<in> set (db_attempts d)" "attempt_active attempt"
  shows "safe d d'"
proof -
  from assms(1) obtain tr where tr: "plan_run run WAITING_FOR_APPROVAL now = Inr tr"
    by (auto simp: detach_inline_effect_def ebind_Inr_iff)
  define run' where "run' = run\<lparr>run_status := tr_status tr, run_row_version := tr_row_version tr\<rparr>"
  define segment' where "segment' = segment\<lparr>sg_status := SEG_WAITING\<rparr>"
  define attempt' where "attempt' = attempt\<lparr>at_status := ATT_DEFERRED, at_finished_at := Some now,
      at_lease_token_hash := None, at_lease_expires_at := None, at_inline_proposal_id := None\<rparr>"
  define proposal' where "proposal' = proposal\<lparr>pr_inline_owner_json :=
      Some (jset ''phase'' (JStr ''DETACHED'') (owner_of proposal))\<rparr>"
  define d0 where "d0 = put_attempt attempt' (put_segment segment' (put_run run' d))"
  define d1 where "d1 = idle_session (pr_agent_session_id proposal) (put_proposal proposal' d0)"
  have "safe d (put_run run' d)"
    by (rule safe_planned [OF run tr])
      (use plan_times [OF tr] in \<open>simp_all add: run'_def run_key_def\<close>)
  also have "safe (put_run run' d) (put_segment segment' (put_run run' d))"
    by (rule safe_segment [of segment]) (simp_all add: segment'_def seg)
  also have "safe \<dots> d0" unfolding d0_def
    by (rule safe_attempt [of attempt])
      (use att active_rank [OF att(2)] in \<open>auto simp: attempt'_def active_open intro!: attempt_le_close\<close>)
  also have "safe d0 (put_proposal proposal' d0)" by (rule safe_proposal)
  also have "safe \<dots> d1" unfolding d1_def by (rule safe_idle_session)
  finally have 1: "safe d d1" .
  have rows: "run' \<in> set (db_runs d1)" "segment' \<in> set (db_segments d1)"
    using imageI [OF run, of run_id] imageI [OF seg, of sg_id]
    by (auto simp: d1_def d0_def run'_def segment'_def intro!: in_put_row)
  from assms(1) tr obtain execution where
    "finish (\<lambda>i. ids (i + 1)) now run' segment' proposal' execution d1 = Inr d' \<or>
     d' = d1\<lparr>db_outbox := db_outbox d1 @ [effect_dispatch_outbox (ids 0) execution now]\<rparr>"
    by (auto simp: detach_inline_effect_def ebind_Inr_iff Let_def run'_def [symmetric] segment'_def [symmetric]
        attempt'_def [symmetric] proposal'_def [symmetric] d0_def [symmetric] d1_def [symmetric]
        split: option.splits if_splits)
  then have "safe d1 d'"
    using finish_safe rows plan_run_Inr(2) [OF tr] safe_outbox by (auto simp: run'_def)
  with 1 show ?thesis by (rule safe_trans)
qed

lemma finalize_execution_safe:
  assumes "finalize_execution sha finish fl clk ids claimed oc d = Inr (res, d')" "closes oc"
  shows "safe d d'"
proof -
  from assms(1) obtain run segment attempt pending where
    ras: "run_attempt_segment sha (clk 0) claimed d = Inr (run, segment, attempt)"
    and pend: "pending_inline_proposal (run_id run) attempt d = Inr pending"
    by (auto simp: finalize_execution_def ebind_Inr_iff Let_def)
  note r = run_attempt_segment_Inr [OF ras]
  show ?thesis
  proof (cases "run_status run = RUNNING")
    case False
    with assms(1) ras pend have "d' = d" by (auto simp: finalize_execution_def Let_def split: if_splits)
    then show ?thesis by simp
  next
    case running: True
    show ?thesis
    proof (cases "pending = None \<or> segment = None")
      case True
      with assms(1) ras pend running have
        "finalize_running fl ids claimed oc (clk 0) run segment attempt d = Inr (res, d')"
        by (auto simp: finalize_execution_def Let_def split: option.splits)
      then show ?thesis
        by (rule finalize_running_safe [OF _ r(1) running r(2) r(7) r(3,4) assms(2)])
    next
      case False
      then obtain p s where ps: "pending = Some p" "segment = Some s" by auto
      with assms(1) ras pend running have
        "detach_inline_effect finish ids run s attempt p (clk 0) d = Inr d'"
        by (auto simp: finalize_execution_def Let_def ebind_Inr_iff)
      then show ?thesis by (rule detach_inline_effect_safe) (use r ps in auto)
    qed
  qed
qed

end

section \<open>Heartbeats and recovery\<close>

lemma heartbeat_attempt_safe:
  assumes "heartbeat_attempt clk aid h ex now d = Inr (res, d')"
  shows "safe d d'"
proof -
  from assms obtain a where a: "find_row at_id aid (db_attempts d) = Some a" "attempt_active a"
    and d': "d' = put_attempt (a\<lparr>at_heartbeat_at := Some (clk 0),
               at_lease_expires_at := Some (clk 0 + (ex - now))\<rparr>) d"
    by (auto simp: heartbeat_attempt_def ebind_Inr_iff Let_def split: option.splits if_splits)
  show ?thesis unfolding d'
    by (rule safe_attempt [of a])
      (use a active_open in \<open>auto simp: find_row_def find_Some_iff intro!: attempt_le_close\<close>)
qed

lemma expire_attempt_safe:
  assumes "a \<in> set (db_attempts d)" "attempt_active a"
  shows "safe d (expire_attempt now a d)"
  unfolding expire_attempt_def
  by (rule safe_trans [OF safe_attempt [of a] safe_close_sessions])
    (use assms active_rank [OF assms(2)] in \<open>auto simp: active_open intro!: attempt_le_close\<close>)

lemma recover_cancelled_safe:
  assumes "recover_cancelled ids run segment attempt now d = Inr d'"
    and run: "run \<in> set (db_runs d)" and seg: "\<And>s. segment = Some s \<Longrightarrow> s \<in> set (db_segments d)"
    and att: "attempt \<in> set (db_attempts d)" "attempt_active attempt"
  shows "safe d d'"
proof -
  from assms(1) obtain tr where tr: "plan_run run CANCELLED now = Inr tr"
    by (auto simp: recover_cancelled_def ebind_Inr_iff)
  define run' where "run' = run\<lparr>run_status := tr_status tr, run_row_version := tr_row_version tr,
      run_finished_at := tr_finished_at tr, run_error_json := None\<rparr>"
  define attempt' where "attempt' = attempt\<lparr>at_status := ATT_CANCELLED, at_finished_at := Some now, at_error_json := None\<rparr>"
  define d1 where "d1 = put_run run' (put_attempt attempt' d)"
  define d2 where "d2 = close_attempt_sessions (at_id attempt) ''INTERRUPTED'' (cancel_segment now segment d1)"
  obtain ev where d': "d' = announce (ids 1) CANCELLED ev d2" "ev_run_id ev = run_id run"
    "ev_sequence ev = next_sequence (run_id run) d2"
    using assms(1) tr by (auto simp: recover_cancelled_def Let_def d2_def d1_def attempt'_def run'_def snapshot_event_def)
  have "safe d (put_attempt attempt' d)"
    by (rule safe_attempt [of attempt])
      (use att active_rank [OF att(2)] in \<open>auto simp: attempt'_def active_open intro!: attempt_le_close\<close>)
  also have "safe \<dots> d1" unfolding d1_def
    by (rule safe_planned [OF _ tr]) (use run plan_times [OF tr] in \<open>simp_all add: run'_def run_key_def\<close>)
  also have "safe d1 (cancel_segment now segment d1)"
    by (rule safe_cancel_segment) (simp add: d1_def seg)
  also have "safe \<dots> d2" unfolding d2_def by (rule safe_close_sessions)
  also have "safe d2 d'" unfolding d'(1)
    by (rule safe_announce) (use run in \<open>simp_all add: d' d2_def d1_def\<close>)
  finally show ?thesis .
qed

lemma recover_retry_safe:
  assumes "recover_retry ids run segment attempt now d = Inr d'"
    and run: "run \<in> set (db_runs d)" and seg: "\<And>s. segment = Some s \<Longrightarrow> s \<in> set (db_segments d)"
    and att: "attempt \<in> set (db_attempts d)" "attempt_active attempt"
  shows "safe d d'"
proof -
  from assms(1) obtain tr where tr: "plan_run run RETRY_PENDING now = Inr tr"
    by (auto simp: recover_retry_def ebind_Inr_iff)
  define run' where "run' = run\<lparr>run_status := tr_status tr, run_row_version := tr_row_version tr,
      run_error_json := Some lease_expired_error\<rparr>"
  define attempt' where "attempt' = attempt\<lparr>at_status := ATT_LEASE_EXPIRED, at_finished_at := Some now,
      at_error_json := Some lease_expired_error\<rparr>"
  define d1 where "d1 = put_run run' (put_attempt attempt' d)"
  define d2 where "d2 = (case segment of None \<Rightarrow> d1 | Some s \<Rightarrow> put_segment (s\<lparr>sg_status := SEG_RUNNING\<rparr>) d1)"
  define d3 where "d3 = close_attempt_sessions (at_id attempt) ''FAILED'' d2"
  obtain ev obs where d': "d' = (announce (ids 1) RETRY_PENDING ev d3)\<lparr>db_outbox :=
      db_outbox (announce (ids 1) RETRY_PENDING ev d3) @ obs\<rparr>"
    "ev_run_id ev = run_id run" "ev_sequence ev = next_sequence (run_id run) d3"
    using assms(1) tr by (auto simp: recover_retry_def Let_def d3_def d2_def d1_def attempt'_def run'_def
        snapshot_event_def cong: option.case_cong)
  have runs: "run_id ` set (db_runs d3) = run_id ` set (db_runs d)"
    by (cases segment) (simp_all add: d3_def d2_def d1_def)
  have "safe d (put_attempt attempt' d)"
    by (rule safe_attempt [of attempt])
      (use att active_rank [OF att(2)] in \<open>auto simp: attempt'_def active_open intro!: attempt_le_close\<close>)
  also have "safe \<dots> d1" unfolding d1_def
    by (rule safe_planned [OF _ tr]) (use run plan_times [OF tr] in \<open>simp_all add: run'_def run_key_def\<close>)
  also have "safe d1 d2" unfolding d2_def
    using seg by (cases segment) (auto simp: d1_def intro!: safe_segment)
  also have "safe d2 d3" unfolding d3_def by (rule safe_close_sessions)
  also have "safe d3 (announce (ids 1) RETRY_PENDING ev d3)"
    by (rule safe_announce) (use run runs d' in simp_all)
  also have "safe \<dots> d'" unfolding d'(1) by (rule safe_outbox)
  finally show ?thesis .
qed

context effect_continuation
begin

lemma recover_one_safe:
  assumes "recover_one finish ids now candidate d = Inr (res, d')"
  shows "safe d d'"
proof -
  from assms obtain run segment where rl: "lock_run_row (at_run_id candidate) None d = Some run"
    and sg: "(case at_run_segment_id candidate of None \<Rightarrow> Inr None
             | Some sid \<Rightarrow> (case lock_segment_row sid (at_run_id candidate) d of
                    None \<Rightarrow> Inl LeaseValidationError | Some s \<Rightarrow> Inr (Some s))) = Inr segment"
    by (auto simp: recover_one_def ebind_Inr_iff split: option.splits)
  have run: "run \<in> set (db_runs d)" using lock_run_row_Some [OF rl] by simp
  have seg: "s \<in> set (db_segments d)" if "segment = Some s" for s
    using sg that by (auto simp: lock_segment_row_def find_Some_iff split: option.splits)
  show ?thesis
  proof (cases "find_row at_id (at_id candidate) (db_attempts d)")
    case None
    with assms rl sg show ?thesis by (simp add: recover_one_def)
  next
    case (Some a)
    have a: "a \<in> set (db_attempts d)" using Some by (auto simp: find_row_def find_Some_iff)
    show ?thesis
    proof (cases "lease_expired now a")
      case False
      with assms rl sg Some show ?thesis by (simp add: recover_one_def)
    next
      case expired: True
      then have act: "attempt_active a" by (simp add: lease_expired_def)
      show ?thesis
      proof (cases "run_status run \<noteq> PREPARING \<and> run_status run \<noteq> RUNNING")
        case True
        with assms rl sg Some expired have "d' = expire_attempt now a d" by (simp add: recover_one_def)
        with expire_attempt_safe [OF a act] show ?thesis by simp
      next
        case False
        with assms rl sg Some expired obtain p s where
          "detach_inline_effect finish ids run s a p now d = Inr d' \<and> segment = Some s \<or>
           recover_cancelled ids run segment a now d = Inr d' \<or> recover_retry ids run segment a now d = Inr d'"
          by (auto simp: recover_one_def ebind_Inr_iff split: option.splits if_splits)
        then show ?thesis
          using detach_inline_effect_safe recover_cancelled_safe [OF _ run seg a act]
            recover_retry_safe [OF _ run seg a act] run seg a act by blast
      qed
    qed
  qed
qed

lemma recover_all_safe: "recover_all finish ids now cs d = Inr (n, d') \<Longrightarrow> safe d d'"
proof (induction cs arbitrary: ids d n d')
  case (Cons c cs)
  from Cons.prems obtain rec d1 m where "recover_one finish (ids 0) now c d = Inr (rec, d1)"
    "recover_all finish (\<lambda>i. ids (i + 1)) now cs d1 = Inr (m, d')"
    by (auto simp: ebind_Inr_iff)
  with Cons.IH recover_one_safe show ?case by (blast intro: safe_trans)
qed simp

lemma recover_expired_attempts_safe:
  assumes "recover_expired_attempts finish ids now limit d = Inr (n, d')"
  shows "safe d d'"
  using assms unfolding recover_expired_attempts_def by (rule recover_all_safe)

end

end
