(* ===== verification/Effect_Ops.thy ===== *)
theory Effect_Ops
  imports Effect_Final Run_Final_Ops
begin

text \<open>
  The effect component keeps the invariant of the runs and their history. \<open>quiet_update\<close> covers the rows of
  effects, proposals, interactions, tool calls and evidence, which the invariant does not read;
  \<open>continue_run_safe\<close> and \<open>stop_run_safe\<close> cover the run itself. The interpretation of \<open>effect_continuation\<close>
  at the end closes the contract that the run component states.
\<close>

section \<open>Updates of effect rows\<close>

definition quiet_update :: "db \<Rightarrow> db \<Rightarrow> bool" where
  "quiet_update d d' \<longleftrightarrow> same_core d d' \<and> db_briefs d' = db_briefs d \<and> appended (db_outbox d) (db_outbox d')"

lemma quiet_update_refl [simp]: "quiet_update d d"
  by (simp add: quiet_update_def same_core_def)

lemma quiet_trans [trans]: "quiet_update d d1 \<Longrightarrow> quiet_update d1 d2 \<Longrightarrow> quiet_update d d2"
  unfolding quiet_update_def same_core_def using appended_trans by auto

lemma quiet_safe: "quiet_update d d' \<Longrightarrow> safe d d'"
  unfolding quiet_update_def by (rule safe_other) auto

lemma quiet_put [simp]:
  "quiet_update d (put_effect e d)" "quiet_update d (put_proposal p d)" "quiet_update d (put_tool_call t d)"
  "quiet_update d (put_interaction i d)" "quiet_update d (fail_tool_call e v d)"
  "quiet_update d (d\<lparr>db_outbox := db_outbox d @ obs\<rparr>)" "quiet_update d (d\<lparr>db_evidence := es\<rparr>)"
  by (simp_all add: quiet_update_def same_core_def put_defs fail_tool_call_def split: option.split)

lemma quiet_fields:
  assumes "quiet_update d d'"
  shows "db_runs d' = db_runs d" "db_segments d' = db_segments d" "db_attempts d' = db_attempts d"
    "db_events d' = db_events d" "next_sequence rid d' = next_sequence rid d"
  using assms by (simp_all add: quiet_update_def same_core_def next_sequence_def run_sequences_def)

lemma quiet_rows:
  "quiet_update d (put_proposal p (put_effect e d))"
  "quiet_update d (put_tool_call t (put_proposal p (put_effect e d)))"
  "quiet_update d (put_interaction i (put_proposal p d))"
  "quiet_update d (fail_tool_call e' v (put_proposal p (put_effect e d)))"
  using quiet_trans [OF quiet_put(1) quiet_put(2)] quiet_trans [OF quiet_put(2) quiet_put(4)]
    quiet_trans [OF quiet_trans [OF quiet_put(1) quiet_put(2)] quiet_put(3)]
    quiet_trans [OF quiet_trans [OF quiet_put(1) quiet_put(2)] quiet_put(5)]
  by blast+

section \<open>Announcements\<close>

text \<open>Events of one run, each with the number it is given.\<close>

definition numbered_events :: "uuid \<Rightarrow> (int \<Rightarrow> event_row) list \<Rightarrow> bool" where
  "numbered_events rid es \<longleftrightarrow> (\<forall>e \<in> set es. \<forall>n. ev_run_id (e n) = rid \<and> ev_sequence (e n) = n)"

lemma numbered_events_simps [simp]:
  "numbered_events rid []"
  "numbered_events rid (run_event i rid t p m now tr # es) \<longleftrightarrow> numbered_events rid es"
  "numbered_events rid (run_snapshot i rid p m now tr # es) \<longleftrightarrow> numbered_events rid es"
  by (auto simp: numbered_events_def run_event_def run_snapshot_def snapshot_event_def)

lemma announce_events_safe:
  assumes "numbered_events rid es" "rid \<in> run_id ` set (db_runs d)" "0 < n" "next_sequence rid d \<le> n"
  shows "safe d (announce_events ids st es n d)"
  using assms
proof (induction es arbitrary: ids n d)
  case (Cons e es)
  let ?d = "announce (ids 0) st (e n) d"
  have e: "ev_run_id (e n) = rid" "ev_sequence (e n) = n" and es: "numbered_events rid es"
    using Cons.prems(1) by (simp_all add: numbered_events_def)
  have "safe d ?d" by (rule safe_announce) (use Cons.prems e in simp_all)
  moreover have "next_sequence rid ?d = n + 1" using next_sequence_announce [of "e n" d] Cons.prems e by simp
  then have "safe ?d (announce_events (\<lambda>i. ids (i + 1)) st es (n + 1) ?d)"
    using Cons.prems es by (intro Cons.IH) simp_all
  ultimately show ?case by (auto intro: safe_trans)
qed simp

lemma announce_next_safe:
  assumes "numbered_events (run_id run) es" "run_id run \<in> run_id ` set (db_runs d)"
  shows "safe d (announce_next ids run st es d)"
  unfolding announce_next_def
  by (rule safeI) (use assms numbered_next_pos in \<open>auto intro!: announce_events_safe\<close>)

lemma announce_events_fields [simp]:
  "db_runs (announce_events ids st es n d) = db_runs d"
  "db_segments (announce_events ids st es n d) = db_segments d"
  "db_attempts (announce_events ids st es n d) = db_attempts d"
  "db_effects (announce_events ids st es n d) = db_effects d"
  by (induction ids st es n d rule: announce_events.induct) (simp_all add: announce_def add_event_def)

section \<open>The run of an effect\<close>

lemma plan_waiting_run: "run_status run = current \<Longrightarrow> plan_waiting current run t now = plan_run run t now"
  by (simp add: plan_waiting_def plan_run_def)

lemma waiting_times:
  assumes "plan_run run t now = Inr tr" "waiting_status (run_status run)"
  shows "tr_started_at tr = run_started_at run"
  using assms plan_run_Inr(1) [OF assms(1)] by (cases "run_status run") (auto simp: plan_run_def plan_run_transition_Inr waiting_status_def)

lemma insert_segment_Inr:
  assumes "insert_segment s d = Inr d'"
  shows "d' = d\<lparr>db_segments := db_segments d @ [s]\<rparr>" "sg_id s \<notin> sg_id ` set (db_segments d)"
    "\<forall>x \<in> set (db_segments d). sg_run_id x = sg_run_id s \<longrightarrow> sg_segment_no x \<noteq> sg_segment_no s"
  using assms by (auto simp: insert_segment_def ebind_Inr_iff insert_rows_Inr list_ex_iff)

lemma waiting_statuses [simp]:
  "waiting_status WAITING_FOR_INPUT" "waiting_status WAITING_FOR_APPROVAL" "\<not> waiting_status RUNNING"
  by (simp_all add: waiting_status_def)

lemma continue_run_safe:
  assumes step: "continue_run current ids run segment nx events reason now d = Inr d'"
    and run: "run \<in> set (db_runs d)" "run_status run = current" "waiting_status current" and seg: "segment \<in> set (db_segments d)"
    and ev: "\<And>tr. numbered_events (run_id run) (events tr)"
  shows "safe d d'"
proof -
  from step obtain tr where tr: "plan_run run QUEUED now = Inr tr"
    by (auto simp: continue_run_def ebind_Inr_iff plan_waiting_run [OF run(2)])
  define run' where "run' = run\<lparr>run_status := tr_status tr, run_row_version := tr_row_version tr, run_error_json := None\<rparr>"
  define d0 where "d0 = put_segment (segment\<lparr>sg_status := SEG_COMPLETED, sg_finished_at := Some now\<rparr>) d"
  from step tr obtain d2 obs where ins: "insert_segment nx (put_run run' d0) = Inr d2"
    and d': "d' = (announce_next (\<lambda>i. ids (i + 1)) run QUEUED (events tr) d2)\<lparr>db_outbox :=
      db_outbox (announce_next (\<lambda>i. ids (i + 1)) run QUEUED (events tr) d2) @ obs\<rparr>"
    by (auto simp: continue_run_def ebind_Inr_iff plan_waiting_run [OF run(2)] Let_def run'_def d0_def)
  note i = insert_segment_Inr [OF ins]
  have fin: "tr_finished_at tr = run_finished_at run" using tr by (auto simp: plan_run_def plan_run_transition_Inr
      is_terminal_def terminal_run_statuses_def)
  have "safe d d0" unfolding d0_def by (rule safe_segment [OF seg]) simp_all
  also have "safe d0 (put_run run' d0)"
    by (rule safe_planned [OF _ tr])
      (use run(1) waiting_times [OF tr] run(2,3) fin in \<open>simp_all add: d0_def run'_def run_key_def\<close>)
  also have "safe \<dots> d2" unfolding i(1) by (rule safe_new_segment [OF i(2)])
  also have "safe d2 (announce_next (\<lambda>i. ids (i + 1)) run QUEUED (events tr) d2)"
    by (rule announce_next_safe [OF ev]) (use run in \<open>simp add: i(1) d0_def\<close>)
  also have "safe \<dots> d'" unfolding d' by (rule safe_outbox)
  finally show ?thesis .
qed

lemma stop_run_safe:
  assumes step: "stop_run ids run segment target st error events now d = Inr d'"
    and run: "run \<in> set (db_runs d)" "run_status run = WAITING_FOR_APPROVAL" and seg: "segment \<in> set (db_segments d)"
    and ev: "\<And>tr. numbered_events (run_id run) (events tr)"
  shows "safe d d'"
proof -
  from step obtain tr where tr: "plan_run run target now = Inr tr"
    by (auto simp: stop_run_def ebind_Inr_iff plan_waiting_run [OF run(2)])
  define run' where "run' = run\<lparr>run_status := tr_status tr, run_row_version := tr_row_version tr,
      run_finished_at := tr_finished_at tr, run_error_json := error\<rparr>"
  define d0 where "d0 = put_segment (segment\<lparr>sg_status := st, sg_finished_at := Some now\<rparr>) d"
  from step tr have d': "d' = announce_next ids run target (events tr) (put_run run' d0)"
    by (auto simp: stop_run_def plan_waiting_run [OF run(2)] Let_def run'_def d0_def)
  have "safe d d0" unfolding d0_def by (rule safe_segment [OF seg]) simp_all
  also have "safe d0 (put_run run' d0)"
    by (rule safe_planned [OF _ tr])
      (use run waiting_times [OF tr] in \<open>simp_all add: d0_def run'_def run_key_def waiting_status_def\<close>)
  also have "safe \<dots> d'" unfolding d'
    by (rule announce_next_safe [OF ev]) (use run in \<open>simp add: d0_def\<close>)
  finally show ?thesis .
qed

section \<open>The end of an effect\<close>

lemma stop_unknown_safe:
  assumes "stop_run_for_unknown_effect ids run segment p e c now trc d = Inr d'" "run \<in> set (db_runs d)"
    "run_status run = WAITING_FOR_APPROVAL" "segment \<in> set (db_segments d)"
  shows "safe d d'"
  using assms(1) unfolding stop_run_for_unknown_effect_def Let_def
  by (rule stop_run_safe) (simp_all add: assms)

lemma finish_effect_safe:
  assumes step: "finish_effect_continuation sha ok ids run segment p e f res refs now trc d = Inr d'"
    and run: "run \<in> set (db_runs d)" "run_status run = WAITING_FOR_APPROVAL" and seg: "segment \<in> set (db_segments d)"
  shows "safe d d'"
proof -
  have cancelled: "safe d d'" if "finish_cancelled ids run segment p e t now trc d = Inr d'" for t
    using that unfolding finish_cancelled_def by (rule stop_run_safe) (simp_all add: run seg)
  have continued: "safe d d'" if "finish_continue sha ok ids run segment p e t res refs now trc d = Inr d'" for t
  proof -
    from that obtain nx where "continue_run WAITING_FOR_APPROVAL (\<lambda>i. ids (i + 4)) run segment nx (\<lambda>tr.
       [run_event (ids 1) (run_id run) SEGMENT_COMPLETED
              (JObj ([(''run_segment_id'', JStr (str_uuid (sg_id segment))),
                 (''segment_no'', JInt (sg_segment_no segment))] @ effect_fields p e))
              ''Run segment completed after controlled effect'' now trc,
            run_event (ids 2) (run_id run) t
              (effect_payload p e (ref_fields e @
                 [(''next_run_segment_id'', JStr (str_uuid (sg_id nx))),
                  (''next_segment_no'', JInt (sg_segment_no nx)),
                  (''error'', jopt id (ef_error_json e))]))
              (''Controlled effect '' @ ef_status e) now trc,
            run_snapshot (ids 3) (run_id run)
              (snapshot_payload QUEUED (tr_row_version tr) nx (effect_fields p e) JNull)
              ''Run queued after controlled effect'' now trc]) ''effect_completed'' now d = Inr d'"
      by (auto simp: finish_continue_def ebind_Inr_iff)
    then show ?thesis by (rule continue_run_safe) (simp_all add: run seg)
  qed
  have retried: "safe d (finish_retry ids run p e now trc d)"
  proof -
    let ?d1 = "put_proposal (p\<lparr>pr_status := ''APPROVED''\<rparr>)
      (put_effect (e\<lparr>ef_status := ''REQUESTED'', ef_worker_id := None\<rparr>) d)"
    have 1: "quiet_update d ?d1" by (rule quiet_rows)
    have "safe ?d1 (announce_next is run st [run_event i (run_id run) t q m now trc] ?d1)" for "is" st i t q m
      by (rule announce_next_safe) (use run quiet_fields(1) [OF 1] in simp_all)
    then show ?thesis
      unfolding finish_retry_def Let_def using quiet_safe [OF 1] safe_outbox by (blast intro: safe_trans)
  qed
  from step show ?thesis
    using cancelled continued retried stop_unknown_safe [OF _ run seg]
    unfolding finish_effect_continuation_def Let_def by (auto split: if_splits)
qed

lemma insert_evidence_quiet: "insert_evidence rows d = Inr d' \<Longrightarrow> quiet_update d d'"
  by (auto simp: insert_evidence_def ebind_Inr_iff)

lemma store_report_quiet:
  assumes "store_report report ms now d = Inr (e, d')"
  shows "quiet_update d d'"
proof -
  from assms obtain d1 t p e' where "insert_evidence (er_evidence report) d = Inr d1"
    "d' = put_tool_call t (put_proposal p (put_effect e' d1))"
    by (auto simp: store_report_def ebind_Inr_iff Let_def)
  with insert_evidence_quiet quiet_rows(2) show ?thesis by (blast intro: quiet_trans)
qed

lemma lock_segment_row_Some:
  "lock_segment_row sid rid d = Some s \<Longrightarrow> s \<in> set (db_segments d) \<and> sg_id s = sid \<and> sg_run_id s = rid"
  by (auto simp: lock_segment_row_def find_Some_iff)

lemma lock_effect_Inr:
  assumes "lock_effect i rid sid d = Inr (run, segment, p, e)"
  shows "run \<in> set (db_runs d)" "run_id run = rid" "segment \<in> set (db_segments d)" "sg_id segment = sid"
    "sg_run_id segment = rid" "e \<in> set (db_effects d)" "ef_id e = i" "p \<in> set (db_proposals d)"
    "pr_id p = ef_proposal_id e"
  using assms
  by (auto simp: lock_effect_def find_row_def find_Some_iff dest!: lock_run_row_Some lock_segment_row_Some
      split: option.splits)

lemma stored_again_db: "stored_again i d = Inr (s, d') \<Longrightarrow> d' = d"
  by (auto simp: stored_again_def ebind_Inr_iff split: option.splits)

lemma finalize_effect_execution_safe:
  assumes "finalize_effect_execution sha ok clk ids claimed res fl ms trc d = Inr (s, d')"
  shows "safe d d'"
proof -
  from assms obtain run segment p e where
    l: "lock_effect (cx_effect_execution_id claimed) (cx_run_id claimed) (cx_run_segment_id claimed) d = Inr (run, segment, p, e)"
    by (auto simp: finalize_effect_execution_def ebind_Inr_iff)
  show ?thesis
  proof (cases "effect_ended e")
    case True
    with assms l show ?thesis by (auto simp: finalize_effect_execution_def ebind_Inr_iff)
  next
    case False
    note pieces = assms [unfolded finalize_effect_execution_def Let_def, simplified ebind_Inr_iff l]
    from pieces False obtain inlined where
      w: "run_status run = WAITING_FOR_APPROVAL \<or> inlined" and
      rest: "(case effect_tool_call e d of
         None \<Rightarrow> Inl EffectLeaseValidationError
       | Some tool_call \<Rightarrow>
           ebind (report_of sha ok ids run p e tool_call res fl (clk 0)) (\<lambda>report.
           ebind (store_report report ms (clk 0) d) (\<lambda>(execution', d1).
           ebind (if inlined then Inr d1
                  else finish_effect_continuation sha ok (\<lambda>i. ids (i + 4)) run segment
                    (er_proposal report) execution' fl (er_result report) (er_refs report) (clk 0)
                    trc d1) (\<lambda>d2. stored_again (ef_id e) d2)))) = Inr (s, d')"
      by (auto simp: ebind_Inr_iff)
    from rest obtain report e' d1 d2 where
      sr: "store_report report ms (clk 0) d = Inr (e', d1)"
      and fin: "(if inlined then Inr d1 else finish_effect_continuation sha ok (\<lambda>i. ids (i + 4)) run segment
                    (er_proposal report) e' fl (er_result report) (er_refs report) (clk 0) trc d1) = Inr d2"
      and "stored_again (ef_id e) d2 = Inr (s, d')"
      by (simp add: ebind_Inr_iff split: option.splits prod.splits) blast
    then have d': "d' = d2" using stored_again_db by blast
    note q = store_report_quiet [OF sr]
    show ?thesis
    proof (cases inlined)
      case True
      with fin d' quiet_safe [OF q] show ?thesis by simp
    next
      case False
      with fin have "finish_effect_continuation sha ok (\<lambda>i. ids (i + 4)) run segment
          (er_proposal report) e' fl (er_result report) (er_refs report) (clk 0) trc d1 = Inr d2" by simp
      then have "safe d1 d2"
        by (rule finish_effect_safe) (use w False quiet_fields [OF q] lock_effect_Inr [OF l] in simp_all)
      with quiet_safe [OF q] d' show ?thesis by (blast intro: safe_trans)
    qed
  qed
qed

section \<open>Effects that are not carried out\<close>

lemma close_effect_before_provider_safe:
  assumes step: "close_effect_before_provider sha ok ids run segment p e st reason now d = Inr d'"
    and run: "run \<in> set (db_runs d)" "run_status run = WAITING_FOR_APPROVAL" and seg: "segment \<in> set (db_segments d)"
  shows "safe d d'"
proof -
  from step obtain err where err: "effect_failure_record (pr_capability_version p) (Some (ef_provider e))
      (ef_attempt_no e) reason False (ef_error_json e) None = Inr err"
    by (auto simp: close_effect_before_provider_def ebind_Inr_iff)
  define e' where "e' = (closed_execution e st err now)\<lparr>ef_heartbeat_at := Some now\<rparr>"
  define p' where "p' = p\<lparr>pr_status := st\<rparr>"
  define d1 where "d1 = fail_tool_call e (effect_tool_error (py_str (jnull ''code'' err)) False
                (jget ''diagnostic'' err) None) (put_proposal p' (put_effect e' d))"
  have q: "quiet_update d d1" unfolding d1_def by (rule quiet_rows)
  have rows: "run \<in> set (db_runs d1)" "segment \<in> set (db_segments d1)" using quiet_fields [OF q] run seg by simp_all
  from step err obtain c v fs nx where
    "d' = d1 \<or> stop_run_for_unknown_effect ids run segment p' e' c now None d1 = Inr d' \<or>
     stop_run (\<lambda>i. ids (i + 2)) run segment CANCELLED SEG_CANCELLED None
       (\<lambda>tr. [run_event (ids 0) (run_id run) EFFECT_FAILED v
             (''Controlled effect closed before Provider: '' @ reason) now None,
          run_snapshot (ids 1) (run_id run)
              (snapshot_payload CANCELLED (tr_row_version tr) segment (effect_fields p' e') JNull)
              ''Run cancelled before controlled effect Provider'' now None]) now d1 = Inr d' \<or>
     continue_run WAITING_FOR_APPROVAL (\<lambda>i. ids (i + 4)) run segment nx
             (\<lambda>tr. [run_event (ids 0) (run_id run) EFFECT_FAILED v
             (''Controlled effect closed before Provider: '' @ reason) now None,
                run_event (ids 2) (run_id run) SEGMENT_COMPLETED fs
                  ''Run segment completed after pre-provider effect failure'' now None,
                run_snapshot (ids 3) (run_id run)
                  (snapshot_payload QUEUED (tr_row_version tr) nx (effect_fields p' e') JNull)
                  ''Run queued after pre-provider effect failure'' now None])
             ''effect_failed_before_provider'' now d1 = Inr d'"
    unfolding close_effect_before_provider_def Let_def
    by (auto simp: ebind_Inr_iff e'_def [symmetric] p'_def [symmetric] d1_def [symmetric] split: if_splits)
  then have "safe d1 d'"
    using stop_unknown_safe [OF _ rows(1) run(2) rows(2)]
      stop_run_safe [OF _ rows(1) run(2) rows(2)] continue_run_safe [OF _ rows(1) run(2) waiting_statuses(2) rows(2)]
    by (elim disjE) (simp, blast, (rotate_tac -1, drule stop_run_safe [OF _ rows(1) run(2) rows(2)], simp, assumption),
      (drule continue_run_safe [OF _ rows(1) run(2) waiting_statuses(2) rows(2)], simp, assumption))
  with quiet_safe [OF q] show ?thesis by (rule safe_trans)
qed

lemma abandon_effect_safe: "abandon_effect p e now d = Inr d' \<Longrightarrow> safe d d'"
  by (auto simp: abandon_effect_def ebind_Inr_iff Let_def intro!: quiet_safe quiet_rows split: if_splits)

lemma retry_effect_safe:
  assumes "retry_effect ids p e now d = Inr d'"
  shows "safe d d'"
proof -
  from assms obtain p' e' v obs where "d' = (fail_tool_call e v (put_proposal p' (put_effect e' d)))\<lparr>db_outbox :=
      db_outbox (fail_tool_call e v (put_proposal p' (put_effect e' d))) @ obs\<rparr>"
    by (auto simp: retry_effect_def ebind_Inr_iff Let_def)
  then show ?thesis using quiet_safe [OF quiet_trans [OF quiet_rows(4) quiet_put(6)]] by simp
qed

section \<open>Recovery\<close>

lemma recover_effect_safe:
  assumes "recover_effect sha ok features ids now m c d = Inr (b, d')"
  shows "safe d d'"
proof -
  from assms obtain p run segment e where
    run: "lock_run_row (ef_run_id c) None d = Some run"
    and seg: "lock_segment_row (pr_run_segment_id p) (run_id run) d = Some segment"
    and cases: "d' = d \<or> (run_status run = WAITING_FOR_APPROVAL \<and>
        ((\<exists>st r. close_effect_before_provider sha ok ids run segment p e st r now d = Inr d') \<or>
         retry_effect ids p e now d = Inr d')) \<or> abandon_effect p e now d = Inr d'"
    by (simp add: recover_effect_def Let_def ebind_Inr_iff split: option.splits if_splits) blast+
  have "run \<in> set (db_runs d)" "segment \<in> set (db_segments d)"
    using lock_run_row_Some [OF run] lock_segment_row_Some [OF seg] by simp_all
  with cases show ?thesis
    by (elim disjE conjE exE)
      (simp, erule close_effect_before_provider_safe, assumption+, erule retry_effect_safe, erule abandon_effect_safe)
qed

lemma recover_each_safe:
  assumes "\<And>ids c d b d'. recover ids c d = Inr (b, d') \<Longrightarrow> safe d d'"
  shows "recover_each recover ids cs d = Inr (n, d') \<Longrightarrow> safe d d'"
proof (induction cs arbitrary: ids d n d')
  case (Cons c cs)
  from Cons.prems obtain rec d1 m where "recover (ids 0) c d = Inr (rec, d1)"
    "recover_each recover (\<lambda>i. ids (i + 1)) cs d1 = Inr (m, d')"
    by (auto simp: ebind_Inr_iff)
  with Cons.IH assms show ?case by (blast intro: safe_trans)
qed simp

lemma recover_expired_effects_safe:
  assumes "recover_expired_effects sha ok features ids now limit m d = Inr (n, d')"
  shows "safe d d'"
proof (rule recover_each_safe)
  show "recover_each (\<lambda>i c. recover_effect sha ok features i now m c) ids (expired_effects features now limit d) d = Inr (n, d')"
    using assms by (simp add: recover_expired_effects_def ebind_Inr_iff)
qed (rule recover_effect_safe)

lemma expire_pending_proposal_safe:
  assumes step: "expire_pending_proposal sha ok ids run segment p i now trc d = Inr d'"
    and run: "run \<in> set (db_runs d)" "run_status run = WAITING_FOR_APPROVAL" and seg: "segment \<in> set (db_segments d)"
  shows "safe d d'"
proof -
  let ?d1 = "put_interaction (expired_interaction i) (put_proposal (p\<lparr>pr_status := ''STALE''\<rparr>) d)"
  have q: "quiet_update d ?d1" by (rule quiet_rows)
  have rows: "run \<in> set (db_runs ?d1)" "segment \<in> set (db_segments ?d1)" using quiet_fields [OF q] run seg by simp_all
  from step have "safe ?d1 d'" unfolding expire_pending_proposal_def Let_def ebind_Inr_iff
    by (elim exE conjE) (erule continue_run_safe [OF _ rows(1) run(2) waiting_statuses(2) rows(2)], simp)
  with quiet_safe [OF q] show ?thesis by (rule safe_trans)
qed

lemma recover_proposal_safe:
  assumes "recover_proposal sha ok features ids now c d = Inr (b, d')"
  shows "safe d d'"
proof -
  from assms obtain p i run segment where
    run: "lock_run_row (pr_run_id c) None d = Some run"
    and seg: "lock_segment_row (pr_run_segment_id c) (run_id run) d = Some segment"
    and cases: "d' = d \<or> (run_status run = WAITING_FOR_APPROVAL \<and>
        expire_pending_proposal sha ok ids run segment p i now None d = Inr d') \<or> quiet_update d d'"
    by (simp add: recover_proposal_def Let_def ebind_Inr_iff quiet_rows split: option.splits if_splits)
      (blast intro: quiet_rows quiet_put)+
  have "run \<in> set (db_runs d)" "segment \<in> set (db_segments d)"
    using lock_run_row_Some [OF run] lock_segment_row_Some [OF seg] by simp_all
  with cases show ?thesis
    by (elim disjE conjE) (simp, erule expire_pending_proposal_safe, assumption+, erule quiet_safe)
qed

lemma recover_expired_proposals_safe:
  assumes "recover_expired_proposals sha ok features ids now limit d = Inr (n, d')"
  shows "safe d d'"
proof (rule recover_each_safe)
  show "recover_each (\<lambda>i c. recover_proposal sha ok features i now c) ids (expired_proposals features now limit d) d = Inr (n, d')"
    using assms by (simp add: recover_expired_proposals_def ebind_Inr_iff)
qed (rule recover_proposal_safe)

section \<open>The receipt\<close>

lemma inline_receipt_safe:
  assumes "inline_receipt sha ok clk claimed pid d = Inr (r, d')"
  shows "safe d d'"
proof -
  from assms obtain run segment attempt where
    ras: "run_attempt_segment sha (clk 0) claimed d = Inr (run, segment, attempt)"
    by (auto simp: inline_receipt_def ebind_Inr_iff)
  note r = run_attempt_segment_Inr [OF ras]
  from assms ras obtain s p c where "d' = d \<or> segment = Some s \<and> d' = put_segment (s\<lparr>sg_checkpoint_json := c\<rparr>)
      (put_attempt (attempt\<lparr>at_inline_proposal_id := None\<rparr>) (put_proposal p d))"
    unfolding inline_receipt_def by (simp add: ebind_Inr_iff split: option.splits if_splits) blast+
  moreover have "safe d (put_attempt (attempt\<lparr>at_inline_proposal_id := None\<rparr>) (put_proposal p d))"
    by (rule safe_trans [OF safe_proposal safe_attempt [of attempt]])
      (use r in \<open>auto simp: active_open intro!: attempt_le_close\<close>)
  moreover have "safe e (put_segment (s\<lparr>sg_checkpoint_json := c\<rparr>) e)" if "s \<in> set (db_segments e)" for e
    using that by (rule safe_segment) simp_all
  ultimately show ?thesis using r(7) [of s] safe_trans by fastforce
qed

section \<open>The contract of the run component\<close>

interpretation detached: effect_continuation "resume_detached_effect sha schema_ok"
  for sha :: digest and schema_ok :: "json \<Rightarrow> bool"
proof unfold_locales
  fix r d s ids now p e d'
  assume "r \<in> set (db_runs d)" "run_status r = WAITING_FOR_APPROVAL" "s \<in> set (db_segments d)"
    and "resume_detached_effect sha schema_ok ids now r s p e d = Inr d'"
  then show "safe d d'"
    by (auto simp: resume_detached_effect_def ebind_Inr_iff split: if_splits intro: finish_effect_safe)
qed

end
