(* ===== verification/Interaction_Ops.thy ===== *)
theory Interaction_Ops
  imports Interaction_Run Effect_Ops
begin

text \<open>
  Questions and answers are safe updates of the runs, and an answer is given once: the row of a response
  is unique, so every later call sees it and either repeats the original result or is refused.
\<close>

lemma insert_interaction_quiet: "insert_interaction i d = Inr d' \<Longrightarrow> quiet_update d d'"
  by (auto simp: insert_interaction_def ebind_Inr_iff quiet_update_def same_core_def)

lemma insert_response_quiet: "insert_response r d = Inr d' \<Longrightarrow> quiet_update d d'"
  by (auto simp: insert_response_def ebind_Inr_iff quiet_update_def same_core_def)

lemma numbered_attempt_events [simp]:
  "numbered_events rid (attempt_event i a s t p m w # es) \<longleftrightarrow> at_run_id a = rid \<and> numbered_events rid es"
  "numbered_events rid (attempt_snapshot i a s p m w # es) \<longleftrightarrow> at_run_id a = rid \<and> numbered_events rid es"
  by (auto simp: numbered_events_def attempt_event_def attempt_snapshot_def snapshot_event_def)

lemma numbered_suspended [simp]:
  "numbered_events rid (suspended_events ids s a sdk i refs tr t now) \<longleftrightarrow> at_run_id a = rid"
  by (auto simp: suspended_events_def)

section \<open>Suspension\<close>

lemma suspend_rows_safe:
  assumes run: "run \<in> set (db_runs d)" "run_status run = RUNNING" and tr: "plan_waiting RUNNING run target now = Inr tr"
    and t: "waiting_status target" and seg: "segment \<in> set (db_segments d)"
    and att: "attempt \<in> set (db_attempts d)" "attempt_active attempt"
  shows "safe d (suspend_rows run segment attempt tr now d)"
proof -
  define run' where "run' = run\<lparr>run_status := tr_status tr, run_row_version := tr_row_version tr, run_error_json := None\<rparr>"
  define segment' where "segment' = segment\<lparr>sg_status := SEG_WAITING\<rparr>"
  have p: "plan_run run target now = Inr tr" using tr plan_waiting_run [OF run(2)] by simp
  note times = plan_times(1) [OF p plan_not_running [OF p run(2)]]
  have fin: "tr_finished_at tr = run_finished_at run"
    using p t by (auto simp: plan_run_def plan_run_transition_Inr waiting_status_def)
  have "safe d (put_run run' d)"
    by (rule safe_planned [OF run(1) p]) (use times fin in \<open>simp_all add: run'_def run_key_def\<close>)
  also have "safe \<dots> (put_segment segment' (put_run run' d))"
    by (rule safe_segment [of segment]) (simp_all add: segment'_def seg)
  also have "safe \<dots> (suspend_rows run segment attempt tr now d)"
    unfolding suspend_rows_def run'_def [symmetric] segment'_def [symmetric]
    by (rule safe_attempt [of attempt])
      (use att active_rank [OF att(2)] in \<open>auto simp: active_open intro!: attempt_le_close\<close>)
  finally show ?thesis .
qed

lemma suspend_rows_fields [simp]:
  "run_id ` set (db_runs (suspend_rows run segment attempt tr now d)) = run_id ` set (db_runs d)"
  "next_sequence rid (suspend_rows run segment attempt tr now d) = next_sequence rid d"
  by (simp_all add: suspend_rows_def)

lemma admit_question_Inr:
  assumes "admit_question sha artifacts clk claimed event request d = Inr (run, segment, attempt, checkpoint)"
  shows "lock_claimed_execution claimed d = Inr (run, Some segment, attempt)"
    "validate_claimed_lease sha attempt claimed (clk 0) = Inr ()" "run_status run = RUNNING"
    "\<not> is_cancellation_requested (run_id run) d" "next_sequence (run_id run) d \<le> ae_sequence event"
    "validate_checkpoint_refs artifacts (run_id run) checkpoint d = Inr ()"
    "iq_interaction_type request \<in> set ordinary_interaction_types"
    "\<not> list_ex (\<lambda>i. ui_run_id i = run_id run \<and> ui_status i = INT_OPEN) (db_interactions d)"
proof -
  from assms obtain x where "lock_claimed_execution claimed d = Inr x"
    by (cases "lock_claimed_execution claimed d") (simp_all add: admit_question_def)
  then obtain r sg a where l: "lock_claimed_execution claimed d = Inr (r, sg, a)" by (cases x) simp
  from assms l obtain s where s: "sg = Some s" by (cases sg) (simp_all add: admit_question_def)
  note steps = assms [unfolded admit_question_def l s ebind_simps prod.case option.case ebind_Inr_iff
      reject_cancelled_execution_def require_ordinary_interaction_def raise_if_simps Inr_inject Pair_inject not_less not_not]
  from steps have eq: "r = run" "s = segment" "a = attempt" by blast+
  show "lock_claimed_execution claimed d = Inr (run, Some segment, attempt)" using l s eq by simp
  show "validate_claimed_lease sha attempt claimed (clk 0) = Inr ()" "run_status run = RUNNING"
    "\<not> is_cancellation_requested (run_id run) d" "next_sequence (run_id run) d \<le> ae_sequence event"
    "validate_checkpoint_refs artifacts (run_id run) checkpoint d = Inr ()"
    "iq_interaction_type request \<in> set ordinary_interaction_types"
    "\<not> list_ex (\<lambda>i. ui_run_id i = run_id run \<and> ui_status i = INT_OPEN) (db_interactions d)"
    using steps unfolding eq by simp_all
qed

lemma suspend_for_interaction_safe:
  assumes "suspend_for_interaction sha fl artifacts clk ids claimed event metadata request d = Inr (res, d')"
  shows "safe d d'"
proof -
  from assms obtain run segment attempt checkpoint where
    adm: "admit_question sha artifacts clk claimed event request d = Inr (run, segment, attempt, checkpoint)"
    by (auto simp: suspend_for_interaction_def ebind_Inr_iff)
  note a = admit_question_Inr [OF adm]
  note l = lock_claimed_execution_Inr [OF a(1)]
  from assms adm obtain s sdk d1 tr i d3 evs where
    ens: "ensure_agent_session (ids 0) claimed sdk metadata (clk 0) d = Inr (s, d1)"
    and tr: "plan_waiting RUNNING run WAITING_FOR_INPUT (clk 0) = Inr tr"
    and ins: "insert_interaction i (suspend_rows run segment attempt tr (clk 0)
        (put_session ((merge_session_usage fl s event)\<lparr>se_status := ''IDLE''\<rparr>) d1)) = Inr d3"
    and d': "d' = announce_events (\<lambda>n. ids (n + 5)) WAITING_FOR_INPUT evs (ae_sequence event) d3"
    and evs: "numbered_events (run_id run) evs"
    using l(2,5) by (auto simp: suspend_for_interaction_def ebind_Inr_iff Let_def)
  obtain rows where d1: "d1 = d\<lparr>db_sessions := rows\<rparr>" using ensure_agent_session_core [OF ens] by blast
  define d2 where "d2 = put_session ((merge_session_usage fl s event)\<lparr>se_status := ''IDLE''\<rparr>) d1"
  note q = insert_interaction_quiet [OF ins [folded d2_def]]
  show ?thesis
  proof (rule safeI)
    assume inv: "run_inv d"
    have "safe d d1" unfolding d1 by (rule safe_sessions)
    also have "safe d1 d2" unfolding d2_def by (rule safe_session)
    also have "safe d2 (suspend_rows run segment attempt tr (clk 0) d2)"
      by (rule suspend_rows_safe [OF _ a(3) tr])
        (use l(1,3) l(6) [OF refl] a(2) in \<open>auto simp: d2_def d1 validate_claimed_lease_Inr\<close>)
    also have "safe \<dots> d3" by (rule quiet_safe [OF q])
    also have "safe d3 d'" unfolding d'
    proof (rule announce_events_safe [OF evs])
      show "run_id run \<in> run_id ` set (db_runs d3)" using l(1) by (simp add: quiet_fields [OF q] d2_def d1)
      show "next_sequence (run_id run) d3 \<le> ae_sequence event"
        using a(5) by (simp add: quiet_fields [OF q] d2_def d1)
      show "0 < ae_sequence event" using a(5) numbered_next_pos [OF inv] by (metis less_le_trans)
    qed
    finally show "safe d d'" .
  qed
qed

section \<open>Expiry and answer\<close>

lemma expire_pending_interaction_safe:
  assumes step: "expire_pending_interaction ids run segment i now trc d = Inr d'"
    and run: "run \<in> set (db_runs d)" and seg: "segment \<in> set (db_segments d)"
  shows "safe d d'"
proof (cases "still_waiting run segment")
  case False
  with step show ?thesis by (auto simp: expire_pending_interaction_def ebind_Inr_iff Let_def intro!: quiet_safe)
next
  case True
  let ?d1 = "put_interaction (expired_interaction i) d"
  have rows: "run \<in> set (db_runs ?d1)" "segment \<in> set (db_segments ?d1)" using run seg quiet_fields quiet_put(4) by metis+
  have st: "run_status run = WAITING_FOR_INPUT" using True by (simp add: still_waiting_def)
  from step True have "safe ?d1 d'" unfolding expire_pending_interaction_def Let_def ebind_Inr_iff
    by (simp only: if_False not_True_eq_False ebind_Inr_iff, elim exE conjE)
      (erule continue_run_safe [OF _ rows(1) st waiting_statuses(1) rows(2)], simp)
  with quiet_safe [OF quiet_put(4)] show ?thesis by (rule safe_trans)
qed

lemma lock_interaction_response_Inr:
  assumes "lock_interaction_response pid rid iid d = Inr lk"
  shows "lr_run lk \<in> set (db_runs d)" "run_id (lr_run lk) = rid" "run_project_id (lr_run lk) = pid"
    "lr_segment lk \<in> set (db_segments d)" "sg_id (lr_segment lk) = ui_run_segment_id (lr_interaction lk)"
    "sg_run_id (lr_segment lk) = rid"
    "lr_interaction lk \<in> set (db_interactions d)" "ui_id (lr_interaction lk) = iid" "ui_run_id (lr_interaction lk) = rid"
  using assms
  by (auto simp: lock_interaction_response_def lock_interaction_row_def ebind_Inr_iff find_Some_iff
      lock_run_row_def lock_segment_row_def split: option.splits)

lemma respond_to_locked_safe:
  assumes step: "respond_to_locked_interaction sha clk ids lk actor v resp key trc d = Inr (res, d')"
    and run: "lr_run lk \<in> set (db_runs d)" and seg: "lr_segment lk \<in> set (db_segments d)"
  shows "safe d d'"
proof (cases "find (\<lambda>r. ir_interaction_id r = ui_id (lr_interaction lk)) (db_responses d)")
  case (Some existing)
  with step have "d' = d" by (auto simp: respond_to_locked_interaction_def Let_def ebind_Inr_iff split: if_splits)
  then show ?thesis by simp
next
  case None
  show ?thesis
  proof (cases "ui_expires_at (lr_interaction lk) \<le> clk 0")
    case True
    with step None have "expire_pending_interaction ids (lr_run lk) (lr_segment lk) (lr_interaction lk) (clk 0) trc d = Inr d'"
      by (auto simp: respond_to_locked_interaction_def Let_def ebind_Inr_iff)
    then show ?thesis by (rule expire_pending_interaction_safe [OF _ run seg])
  next
    case False
    let ?i = "lr_interaction lk"
    let ?d1 = "put_interaction (?i\<lparr>ui_status := INT_RESPONDED, ui_version := ui_version ?i + 1\<rparr>) d"
    from step None False obtain row d2 nx evs where st: "still_waiting (lr_run lk) (lr_segment lk)"
      and ins: "insert_response row ?d1 = Inr d2"
      and cr: "continue_run WAITING_FOR_INPUT (\<lambda>n. ids (n + 5)) (lr_run lk) (lr_segment lk) nx evs ''interaction_response'' (clk 0) d2 = Inr d'"
      and evs: "\<And>tr. numbered_events (run_id (lr_run lk)) (evs tr)"
      by (auto simp: respond_to_locked_interaction_def Let_def ebind_Inr_iff)
    have q: "quiet_update d d2" using quiet_trans [OF quiet_put(4) insert_response_quiet [OF ins]] .
    have "safe d2 d'"
      by (rule continue_run_safe [OF cr _ _ waiting_statuses(1) _ evs])
        (use run seg st in \<open>simp_all add: quiet_fields [OF q] still_waiting_def\<close>)
    with quiet_safe [OF q] show ?thesis by (rule safe_trans)
  qed
qed

lemma respond_to_interaction_safe:
  assumes "respond_to_interaction sha clk ids pid rid iid actor v resp key trc d = Inr (res, d')"
  shows "safe d d'"
proof -
  from assms obtain lk where lk: "lock_interaction_response pid rid iid d = Inr lk"
    and "respond_to_locked_interaction sha clk ids lk actor v resp key trc d = Inr (res, d')"
    by (auto simp: respond_to_interaction_def ebind_Inr_iff)
  then show ?thesis
    using respond_to_locked_safe lock_interaction_response_Inr(1,4) [OF lk] by blast
qed

lemma recover_interaction_safe:
  assumes "recover_interaction clk ids c d = Inr (b, d')"
  shows "safe d d'"
proof -
  obtain n i where c: "c = (n, i)" by (cases c)
  from assms c obtain run segment j where run: "lock_run_row (ui_run_id i) None d = Some run"
    and seg: "lock_segment_row (ui_run_segment_id i) (run_id run) d = Some segment"
    and cases: "d' = d \<or> expire_pending_interaction ids run segment j (clk n) None d = Inr d'"
    by (auto simp: recover_interaction_def ebind_Inr_iff split: option.splits if_splits)
  have "run \<in> set (db_runs d)" "segment \<in> set (db_segments d)"
    using lock_run_row_Some [OF run] lock_segment_row_Some [OF seg] by simp_all
  with cases show ?thesis using expire_pending_interaction_safe safe_refl by metis
qed

lemma recover_expired_interactions_safe:
  assumes "recover_expired_interactions clk ids now limit d = Inr (n, d')"
  shows "safe d d'"
proof (rule recover_each_safe)
  show "recover_each (recover_interaction clk) ids (enumerate 0 (expired_questions now limit d)) d = Inr (n, d')"
    using assms by (simp add: recover_expired_interactions_def ebind_Inr_iff)
qed (rule recover_interaction_safe)

end
