(* ===== verification/Approval_Ops.thy ===== *)
theory Approval_Ops
  imports Approval_Run Interaction_Ops
begin

text \<open>
  Decisions and leases are safe updates, and what they guarantee: a provider is only called for an effect
  whose approval covers exactly the stored proposal, while the proposal has not expired and the run is
  not being cancelled.
\<close>

lemma insert_quiet:
  "insert_approval a d = Inr d' \<Longrightarrow> quiet_update d d'"
  "insert_effect e d = Inr d' \<Longrightarrow> quiet_update d d'"
  "insert_permission r d = Inr d' \<Longrightarrow> quiet_update d d'"
  by (auto simp: insert_approval_def insert_effect_def insert_permission_def ebind_Inr_iff quiet_update_def
      same_core_def)

lemma quiet_tool_calls [simp]: "quiet_update d (d\<lparr>db_tool_calls := calls\<rparr>)"
  by (simp add: quiet_update_def same_core_def)

lemma ensure_effect_call_quiet:
  assumes "ensure_effect_call ids run p a e b s now d = Inr (e', d')"
  shows "quiet_update d d'"
proof (cases "effect_tool_call e d")
  case None
  with assms obtain calls r d1 where "insert_permission r (d\<lparr>db_tool_calls := calls\<rparr>) = Inr d1" "d' = put_effect e' d1"
    by (auto simp: ensure_effect_call_def ebind_Inr_iff Let_def)
  then show ?thesis using quiet_trans [OF quiet_tool_calls insert_quiet(3)] quiet_put(1) by (blast intro: quiet_trans)
next
  case (Some call)
  with assms show ?thesis by (auto simp: ensure_effect_call_def ebind_Inr_iff)
qed

lemma ensure_effect_call_kept:
  assumes "ensure_effect_call ids run p a e b s now d = Inr (e', d')"
  shows "ef_id e' = ef_id e \<and> ef_attempt_no e' = ef_attempt_no e \<and> ef_approval_id e' = ef_approval_id e"
  using assms by (auto simp: ensure_effect_call_def ebind_Inr_iff Let_def split: option.splits)

text \<open>Closing an effect, inline or not.\<close>

lemma close_effect_safe:
  assumes step: "close_effect_before_provider sha ok ids run segment p e st reason now d = Inr d'"
    and rows: "run \<in> set (db_runs d)" "segment \<in> set (db_segments d)"
    and w: "owner_phase p = JStr ''ACTIVE'' \<or> run_status run = WAITING_FOR_APPROVAL"
  shows "safe d d'"
proof (cases "owner_phase p = JStr ''ACTIVE''")
  case True
  then have a: "owner_phase (p\<lparr>pr_status := st\<rparr>) = JStr ''ACTIVE''" by (simp add: owner_phase_def owner_of_def)
  from step True a obtain v e' where "d' = fail_tool_call e v (put_proposal (p\<lparr>pr_status := st\<rparr>) (put_effect e' d))"
    by (auto simp: close_effect_before_provider_def ebind_Inr_iff Let_def)
  then show ?thesis using quiet_safe [OF quiet_rows(4)] by simp
next
  case False
  with w close_effect_before_provider_safe [OF step rows(1) _ rows(2)] show ?thesis by simp
qed

section \<open>Decisions\<close>

lemma numbered_rejection [simp]: "numbered_events rid (rejection_events ids c r s p a nx now tr) \<longleftrightarrow> run_id r = rid"
  by (auto simp: rejection_events_def numbered_events_def run_event_def run_snapshot_def snapshot_event_def)


lemma approve_proposal_safe:
  assumes "approve_proposal ids c run p a now d = Inr (r, d')" "run \<in> set (db_runs d)"
  shows "safe d d'"
proof -
  define evs where "evs = (\<lambda>e. [approval_event (ids 1) c run p a e now])"
  have evs: "numbered_events (run_id run) (evs e)" for e
    by (simp add: evs_def approval_event_def)
  from assms(1) obtain e d1 d2 obs where
    ins: "insert_approval a (put_proposal (p\<lparr>pr_status := ''APPROVED''\<rparr>) d) = Inr d1" "insert_effect e d1 = Inr d2"
    and d': "d' = (announce_next (\<lambda>i. ids (i + 3)) run (run_status run) (evs e) d2)\<lparr>db_outbox :=
      db_outbox (announce_next (\<lambda>i. ids (i + 3)) run (run_status run) (evs e) d2) @ obs\<rparr>"
    by (auto simp: approve_proposal_def ebind_Inr_iff Let_def evs_def split: option.splits)
  have q: "quiet_update d d2"
    using quiet_trans [OF quiet_trans [OF quiet_put(2) insert_quiet(1) [OF ins(1)]] insert_quiet(2) [OF ins(2)]] .
  have "safe d2 (announce_next (\<lambda>i. ids (i + 3)) run (run_status run) (evs e) d2)"
    by (rule announce_next_safe [OF evs]) (use assms(2) quiet_fields [OF q] in simp)
  with quiet_safe [OF q] safe_outbox show ?thesis unfolding d' by (blast intro: safe_trans)
qed

lemma reject_proposal_safe:
  assumes "reject_proposal sha ok ids c run segment p a now d = Inr (r, d')"
    and run: "run \<in> set (db_runs d)" "run_status run = WAITING_FOR_APPROVAL" and seg: "segment \<in> set (db_segments d)"
  shows "safe d d'"
proof -
  from assms(1) obtain d1 nx where
    ins: "insert_approval a (put_proposal (p\<lparr>pr_status := ''REJECTED''\<rparr>) d) = Inr d1"
    and cr: "continue_run WAITING_FOR_APPROVAL (\<lambda>i. ids (i + 4)) run segment nx
      (rejection_events ids c run segment p a nx now) ''effect_rejected'' now d1 = Inr d'"
    by (auto simp: reject_proposal_def ebind_Inr_iff Let_def)
  have q: "quiet_update d d1" using quiet_trans [OF quiet_put(2) insert_quiet(1) [OF ins]] .
  have "safe d1 d'"
    by (rule continue_run_safe [OF cr _ run(2) waiting_statuses(2)]) (use run seg quiet_fields [OF q] in simp_all)
  with quiet_safe [OF q] show ?thesis by (rule safe_trans)
qed

lemma decide_change_proposal_cases:
  assumes "decide_change_proposal sha ok documents checks features clk ids c d = Inr (res, d')"
  obtains (replay) "d' = d"
    | (decided) p run segment i where "p \<in> set (db_proposals d)" "pr_id p = dp_proposal_id c"
        "run \<in> set (db_runs d)" "run_id run = dp_run_id c" "segment \<in> set (db_segments d)"
        "may_decide run c = Inr True" "decidable clk c run p d = Inr i"
        "(pr_expires_at p \<le> clk 0 \<or> ui_expires_at i \<le> clk 0) \<and> res = Inl ChangeProposalExpiredError \<and>
           expire_pending_proposal sha ok ids run segment p i (clk 0) (dp_trace_id c) d = Inr d' \<or>
         clk 0 < pr_expires_at p \<and> clk 0 < ui_expires_at i \<and>
         (\<exists>r. res = Inr r \<and> (case dp_decision c of
            DEC_APPROVED \<Rightarrow> approve_proposal (\<lambda>n. ids (n + 1)) c run p (user_approval sha (ids 0) c run (clk 0)) (clk 0)
              (put_interaction (i\<lparr>ui_status := INT_RESPONDED, ui_version := ui_version i + 1\<rparr>) d) = Inr (r, d')
          | DEC_REJECTED \<Rightarrow> reject_proposal sha ok (\<lambda>n. ids (n + 1)) c run segment p
              (user_approval sha (ids 0) c run (clk 0)) (clk 0)
              (put_interaction (i\<lparr>ui_status := INT_RESPONDED, ui_version := ui_version i + 1\<rparr>) d) = Inr (r, d')))"
proof -
  from assms obtain p where p: "find (\<lambda>p. pr_id p = dp_proposal_id c \<and> pr_run_id p = dp_run_id c) (db_proposals d) = Some p"
    by (auto simp: decide_change_proposal_def split: option.splits)
  from assms p obtain run where run: "lock_run_row (dp_run_id c) (Some (dp_project_id c)) d = Some run"
    by (auto simp: decide_change_proposal_def split: option.splits)
  from assms p run have may: "may_decide run c = Inr True"
    by (auto simp: decide_change_proposal_def ebind_Inr_iff)
  from assms p run may obtain segment where seg: "lock_segment_row (pr_run_segment_id p) (run_id run) d = Some segment"
    by (auto simp: decide_change_proposal_def ebind_Inr_iff split: option.splits)
  show thesis
  proof (cases "find (\<lambda>a. ap_proposal_id a = pr_id p) (db_approvals d)")
    case (Some a)
    with assms p run may seg have "d' = d"
      by (auto simp: decide_change_proposal_def ebind_Inr_iff raise_if_def split: if_splits)
    then show thesis by (rule replay)
  next
    case None
    with assms p run may seg obtain i where dec: "decidable clk c run p d = Inr i"
      by (auto simp: decide_change_proposal_def ebind_Inr_iff raise_if_def Let_def)
    have facts: "p \<in> set (db_proposals d)" "pr_id p = dp_proposal_id c" "run \<in> set (db_runs d)"
      "run_id run = dp_run_id c" "segment \<in> set (db_segments d)"
      using p run lock_segment_row_Some [OF seg] by (auto simp: find_Some_iff lock_run_row_def)
    show thesis
      by (rule decided [OF facts may dec])
        (use assms p run may seg None dec in
          \<open>auto simp: decide_change_proposal_def ebind_Inr_iff raise_if_def Let_def not_le
             split: if_splits approval_decision.splits\<close>)
  qed
qed

lemma decidable_Inr:
  assumes "decidable clk c run p d = Inr i"
  shows "pr_status p = ''PENDING_APPROVAL''" "pr_version p = dp_proposal_version c"
    "pr_checksum p = dp_proposal_checksum c" "run_status run = WAITING_FOR_APPROVAL" "ui_status i = INT_OPEN"
  using assms by (auto simp: decidable_def ebind_Inr_iff compare_digest_def split: option.splits if_splits)

lemma decide_change_proposal_safe:
  assumes "decide_change_proposal sha ok documents checks features clk ids c d = Inr (res, d')"
  shows "safe d d'"
  using assms
proof (cases rule: decide_change_proposal_cases)
  case replay
  then show ?thesis by simp
next
  case (decided p run segment i)
  note w = decidable_Inr(4) [OF decided(7)]
  let ?d1 = "put_interaction (i\<lparr>ui_status := INT_RESPONDED, ui_version := ui_version i + 1\<rparr>) d"
  have q: "quiet_update d ?d1" by (rule quiet_put(4))
  have rows: "run \<in> set (db_runs ?d1)" "segment \<in> set (db_segments ?d1)"
    using decided(3,5) by (simp_all add: quiet_fields [OF q])
  show ?thesis
  proof (cases "pr_expires_at p \<le> clk 0 \<or> ui_expires_at i \<le> clk 0")
    case True
    with decided(8) have "expire_pending_proposal sha ok ids run segment p i (clk 0) (dp_trace_id c) d = Inr d'" by auto
    then show ?thesis by (rule expire_pending_proposal_safe [OF _ decided(3) w decided(5)])
  next
    case False
    with decided(8) have "safe ?d1 d'"
      by (cases "dp_decision c") (auto intro: approve_proposal_safe [OF _ rows(1)] reject_proposal_safe [OF _ rows(1) w rows(2)])
    with quiet_safe [OF q] show ?thesis by (rule safe_trans)
  qed
qed

section \<open>Leases\<close>

lemma effect_caller_waits:
  assumes "effect_caller sha now q run segment p d = Inr True"
  shows "owner_phase p = JStr ''ACTIVE'' \<or> run_status run = WAITING_FOR_APPROVAL"
  using assms by (auto simp: effect_caller_def ebind_Inr_iff split: if_splits)

lemma lease_effect_cases:
  assumes "lease_effect sha sha1 ok documents checks clk ids q run segment p e d = Inr (res, d')"
  obtains (closed) e' d1 jds st reason now where "res = None" "quiet_update d d1"
      "close_effect_before_provider sha ok jds run segment p e' st reason now d1 = Inr d'"
    | (leased) a b integration sdk e1 d1 claimed where
        "matching_approval sha sha1 run p e d = Inr a"
        "\<exists>payload. validate_proposal_row sha documents checks p run False d = Inr payload"
        "ef_attempt_no e + 1 \<le> cq_max_attempts q"
        "ensure_effect_call ids run p a e b sdk (clk 0) d = Inr (e1, d1)" "clk 1 < pr_expires_at p"
        "effect_snapshot q run segment p a e1 b integration sdk
           (min (clk 1 + cq_lease_seconds q * 1000000) (pr_expires_at p)) = Inr claimed"
        "res = Some claimed"
        "d' = put_proposal (p\<lparr>pr_status := ''APPLYING''\<rparr>) (put_effect (leased_effect q p e1 (clk 1)) d1)"
proof -
  from assms obtain a b integration sdk where
    auth: "authorize_lease sha sha1 documents checks run p e d = Inr (a, b, integration, sdk)"
    by (auto simp: lease_effect_def ebind_Inr_iff)
  then have ok: "matching_approval sha sha1 run p e d = Inr a"
    "\<exists>payload. validate_proposal_row sha documents checks p run False d = Inr payload"
    by (auto simp: authorize_lease_def ebind_Inr_iff)
  show thesis
  proof (cases "cq_max_attempts q < ef_attempt_no e + 1")
    case True
    with assms auth have "res = None \<and> close_effect_before_provider sha ok (\<lambda>n. ids (n + 2)) run segment p e
        ''FAILED'' ''retry_exhausted'' (clk 0) d = Inr d'"
      by (auto simp: lease_effect_def ebind_Inr_iff Let_def)
    with closed quiet_update_refl show thesis by blast
  next
    case False
    with assms auth obtain e1 d1 where call: "ensure_effect_call ids run p a e b sdk (clk 0) d = Inr (e1, d1)"
      by (auto simp: lease_effect_def ebind_Inr_iff Let_def)
    show thesis
    proof (cases "pr_expires_at p \<le> clk 1")
      case True
      with assms auth call False have "res = None \<and> close_effect_before_provider sha ok (\<lambda>n. ids (n + 2)) run segment p e1
          ''STALE'' ''proposal_expired'' (clk 1) d1 = Inr d'"
        by (auto simp: lease_effect_def ebind_Inr_iff Let_def)
      with closed ensure_effect_call_quiet [OF call] show thesis by blast
    next
      case live: False
      with assms auth call False obtain claimed where
        "effect_snapshot q run segment p a e1 b integration sdk
           (min (clk 1 + cq_lease_seconds q * 1000000) (pr_expires_at p)) = Inr claimed" "res = Some claimed"
        "d' = put_proposal (p\<lparr>pr_status := ''APPLYING''\<rparr>) (put_effect (leased_effect q p e1 (clk 1)) d1)"
        by (auto simp: lease_effect_def ebind_Inr_iff Let_def)
      then show thesis using leased [OF ok _ call] live False by simp
    qed
  qed
qed

lemma claim_effect_execution_cases:
  assumes "claim_effect_execution sha sha1 ok documents checks features clk ids q d = Inr (res, d')"
  obtains (refused) "res = None" "d' = d"
    | (admitted) run segment p e where "run \<in> set (db_runs d)" "run_id run = ef_run_id e" "segment \<in> set (db_segments d)"
        "e \<in> set (db_effects d)" "ef_id e = cq_effect_execution_id q" "p \<in> set (db_proposals d)"
        "pr_id p = ef_proposal_id e" "\<not> effect_ended e" "\<not> effect_lease_live (clk 0) e"
        "require_proposal_feature features p d = Inr ()" "effect_caller sha (clk 1) q run segment p d = Inr True"
        "pr_status p = ''APPROVED'' \<or> pr_status p = ''APPLYING''"
        "(is_cancellation_requested (run_id run) d \<or> pr_expires_at p \<le> clk 0) \<and> res = None \<and>
           (\<exists>st reason. close_effect_before_provider sha ok ids run segment p e st reason (clk 0) d = Inr d') \<or>
         \<not> is_cancellation_requested (run_id run) d \<and> clk 0 < pr_expires_at p \<and>
           lease_effect sha sha1 ok documents checks (\<lambda>n. if n = 0 then clk 0 else clk (n + 1)) ids q run segment p e d
             = Inr (res, d')"
proof -
  from assms obtain observed run segment p e and proposal :: proposal_row where
    ob: "find_row ef_id (cq_effect_execution_id q) (db_effects d) = Some observed"
    and lk: "lock_effect (cq_effect_execution_id q) (ef_run_id observed) (pr_run_segment_id proposal) d = Inr (run, segment, p, e)"
    and step: "claim_locked_effect sha sha1 ok documents checks features clk ids q run segment p e d = Inr (res, d')"
    by (auto simp: claim_effect_execution_def ebind_Inr_iff split: option.splits)
  note l = lock_effect_Inr [OF lk]
  have e: "e = observed" using lk ob by (auto simp: lock_effect_def split: option.splits)
  show thesis
  proof (cases "effect_ended e")
    case True
    with step refused show thesis by (simp add: claim_locked_effect_def)
  next
    case open_effect: False
    with step have feature: "require_proposal_feature features p d = Inr ()"
      by (auto simp: claim_locked_effect_def ebind_Inr_iff)
    show thesis
    proof (cases "effect_lease_live (clk 0) e")
      case True
      with step open_effect feature refused show thesis by (simp add: claim_locked_effect_def)
    next
      case free: False
      with step open_effect feature obtain b where caller: "effect_caller sha (clk 1) q run segment p d = Inr b"
        by (auto simp: claim_locked_effect_def ebind_Inr_iff Let_def)
      show thesis
      proof (cases b)
        case False
        with step open_effect feature free caller refused show thesis
          by (simp add: claim_locked_effect_def Let_def del: One_nat_def)
      next
        case True
        have admitted': "effect_caller sha (clk 1) q run segment p d = Inr True" using caller True by simp
        note step' = step [unfolded claim_locked_effect_def Let_def feature caller ebind_simps]
        have st: "pr_status p = ''APPROVED'' \<or> pr_status p = ''APPLYING''"
          using step' open_effect free True by (auto simp: ebind_Inr_iff)
        show thesis
        proof (rule admitted [OF l(1) _ l(3) l(6,7,8,9) open_effect free feature admitted' st])
          show "(is_cancellation_requested (run_id run) d \<or> pr_expires_at p \<le> clk 0) \<and> res = None \<and>
             (\<exists>st reason. close_effect_before_provider sha ok ids run segment p e st reason (clk 0) d = Inr d') \<or>
           \<not> is_cancellation_requested (run_id run) d \<and> clk 0 < pr_expires_at p \<and>
             lease_effect sha sha1 ok documents checks (\<lambda>n. if n = 0 then clk 0 else clk (n + 1)) ids q run segment p e d
               = Inr (res, d')"
            using step' open_effect free True
            by (cases "is_cancellation_requested (run_id run) d"; cases "pr_expires_at p \<le> clk 0")
              (auto simp: ebind_Inr_iff)
        qed (use l(2) e in simp)
      qed
    qed
  qed
qed

lemma claim_effect_execution_safe:
  assumes "claim_effect_execution sha sha1 ok documents checks features clk ids q d = Inr (res, d')"
  shows "safe d d'"
  using assms
proof (cases rule: claim_effect_execution_cases)
  case refused
  then show ?thesis by simp
next
  case (admitted run segment p e)
  note w = effect_caller_waits [OF admitted(11)]
  from admitted(13) consider
      (closed) st reason where "close_effect_before_provider sha ok ids run segment p e st reason (clk 0) d = Inr d'"
    | (leased) "lease_effect sha sha1 ok documents checks (\<lambda>n. if n = 0 then clk 0 else clk (n + 1)) ids q run segment p e d
             = Inr (res, d')"
    by blast
  then show ?thesis
  proof cases
    case closed
    then show ?thesis by (rule close_effect_safe [OF _ admitted(1,3) w])
  next
    case leased
    then show ?thesis
    proof (cases rule: lease_effect_cases)
      case (closed e' d1 jds st reason now)
      have "safe d1 d'"
        by (rule close_effect_safe [OF closed(3)]) (use admitted(1,3) w quiet_fields [OF closed(2)] in simp_all)
      with quiet_safe [OF closed(2)] show ?thesis by (rule safe_trans)
    next
      case (leased a b integration sdk e1 d1 claimed)
      have "quiet_update d1 d'" unfolding leased(8) by (rule quiet_rows(1))
      with ensure_effect_call_quiet [OF leased(4)] show ?thesis by (blast intro: quiet_safe quiet_trans)
    qed
  qed
qed

end
