(* ===== verification/Budget_Settle.thy ===== *)
theory Budget_Settle
  imports Budget_Ledger
begin

text \<open>
  The second half of \<^verbatim>\<open>runs/repository_budgets.py\<close>: binding an invocation to a reservation, the start
  intent, the reconciliation lease, and the receipts that record usage, stops, releases and
  conflicts. Conventions as in \<^theory_text>\<open>Budget_Ledger\<close>.
\<close>

section \<open>Binding an invocation\<close>

definition claimed_reservation ::
  "digest \<Rightarrow> reservation_row list \<Rightarrow> claimed_run \<Rightarrow> string \<Rightarrow> reservation_row res" where
  "claimed_reservation sha rows claimed execution_key =
     (case find_execution execution_key rows of
        None \<Rightarrow> Inl LeaseValidationError
      | Some row \<Rightarrow>
          if rv_run_attempt_id row \<noteq> cl_run_attempt_id claimed \<or>
             rv_run_segment_id row \<noteq> cl_run_segment_id claimed \<or>
             rv_execution_lease_hash row \<noteq> lease_token_hash sha (cl_lease_token claimed)
          then Inl LeaseValidationError else Inr row)"

definition binding_error :: "exn \<Rightarrow> bool" where
  "binding_error e \<longleftrightarrow> value_error e \<or> e = TypeError \<or> e = KeyError"

definition invocation_consistent ::
  "digest \<Rightarrow> reservation_row \<Rightarrow> uuid \<Rightarrow> json \<Rightarrow> string \<Rightarrow> agent_invocation \<Rightarrow> bool res" where
  "invocation_consistent sha row iid stored checksum invocation =
     (if iv_invocation_id invocation = iid \<and> invocation_checksum sha invocation = checksum \<and>
         py_eq (invocation_to_json invocation) stored \<and> iv_run_id invocation = rv_run_id row \<and>
         iv_run_attempt_id invocation = rv_run_attempt_id row
      then ebind (stored_units (Some (rv_granted_turns row))) (\<lambda>granted.
             Inr (io_max_turns (iv_options invocation) \<le> granted))
      else Inr False)"

definition stored_invocation :: "digest \<Rightarrow> reservation_row \<Rightarrow> agent_invocation res" where
  "stored_invocation sha row =
     (case (rv_invocation_id row, rv_invocation_json row, rv_invocation_checksum row) of
        (Some iid, Some stored, Some checksum) \<Rightarrow>
          rethrow binding_error BudgetUnavailableError
            (ebind (invocation_from_json stored) (\<lambda>invocation.
             ebind (invocation_consistent sha row iid stored checksum invocation) (\<lambda>valid.
             ebind (raise_if (\<not> valid) BudgetUnavailableError) (\<lambda>_. Inr invocation))))
      | _ \<Rightarrow> Inl BudgetUnavailableError)"

definition invocation_scope ::
  "agent_invocation \<Rightarrow> run_row \<Rightarrow> claimed_run \<Rightarrow> unit res" where
  "invocation_scope invocation run claimed =
     raise_if
       (iv_project_id invocation \<noteq> run_project_id run \<or>
        iv_project_id invocation \<noteq> cl_project_id claimed \<or>
        iv_run_id invocation \<noteq> run_id run \<or> iv_run_id invocation \<noteq> cl_run_id claimed \<or>
        iv_run_attempt_id invocation \<noteq> cl_run_attempt_id claimed \<or>
        iv_user_id invocation \<noteq> cl_actor_id claimed \<or>
        \<not> is_obj (run_permission_snapshot_json run) \<or>
        jget ''actor_id'' (run_permission_snapshot_json run) \<noteq>
          Some (JStr (str_uuid (iv_user_id invocation))))
       BudgetConflictError"

definition binding_of :: "reservation_row \<Rightarrow> invocation_binding res" where
  "binding_of row =
     (case (rv_invocation_id row, rv_invocation_checksum row) of
        (Some iid, Some checksum) \<Rightarrow>
          let b = \<lparr>ib_reservation_id = rv_id row, ib_invocation_id = iid,
                   ib_invocation_checksum = checksum\<rparr> in
          ebind (binding_init b) (\<lambda>_. Inr b)
      | _ \<Rightarrow> Inl AssertionError)"

definition verify_start_owner :: "reservation_row \<Rightarrow> string \<Rightarrow> unit res" where
  "verify_start_owner row owner_hash =
     (case rv_invocation_start_owner_hash row of
        None \<Rightarrow> Inl BudgetUnavailableError
      | Some original \<Rightarrow>
          raise_if (\<not> owner_hash_text original \<or> original \<noteq> owner_hash) BudgetUnavailableError)"

definition has_binding :: "reservation_row \<Rightarrow> bool" where
  "has_binding row \<longleftrightarrow> rv_invocation_id row \<noteq> None \<or> rv_invocation_json row \<noteq> None \<or>
     rv_invocation_checksum row \<noteq> None \<or> rv_invocation_start_owner_hash row \<noteq> None"

text \<open>
  \<open>already_bound\<close> is the unique constraint \<^verbatim>\<open>uq_run_budget_invocation_id\<close> at the flush: another
  reservation, of any run, holds the invocation.
\<close>

definition already_bound :: "uuid \<Rightarrow> uuid \<Rightarrow> db \<Rightarrow> bool" where
  "already_bound iid rid d \<longleftrightarrow>
     list_ex (\<lambda>r. rv_id r \<noteq> rid \<and> rv_invocation_id r = Some iid) (db_reservations d)"

definition bind_invocation ::
  "digest \<Rightarrow> clock \<Rightarrow> claimed_run \<Rightarrow> string \<Rightarrow> agent_invocation \<Rightarrow> string \<Rightarrow> bool \<Rightarrow> db \<Rightarrow>
   (invocation_binding \<times> db) res" where
  "bind_invocation sha clk claimed execution_key invocation start_owner_token confirm_only d =
     ebind (budget_key (JStr execution_key)) (\<lambda>_.
     ebind (budget_start_owner_hash sha start_owner_token) (\<lambda>owner_hash.
     let payload = invocation_to_json invocation; checksum = invocation_checksum sha invocation in
     ebind (lock_claimed_execution claimed d) (\<lambda>(run, segment, attempt).
     ebind (ledger sha run d) (\<lambda>(account, policy, rows).
     ebind (authorize sha clk run segment attempt claimed d) (\<lambda>_.
     ebind (claimed_reservation sha rows claimed execution_key) (\<lambda>row.
     ebind (invocation_scope invocation run claimed) (\<lambda>_.
     if has_binding row then
       ebind (stored_invocation sha row) (\<lambda>original.
       ebind (raise_if (\<not> py_eq (invocation_to_json original) payload \<or>
                rv_invocation_checksum row \<noteq> Some checksum) BudgetConflictError) (\<lambda>_.
       ebind (verify_start_owner row owner_hash) (\<lambda>_.
       ebind (binding_of row) (\<lambda>b. Inr (b, d)))))
     else
     ebind (raise_if confirm_only BudgetUnavailableError) (\<lambda>_.
     ebind (raise_if (rv_status row \<noteq> BUD_RESERVED \<or> blocked account) BudgetUnavailableError) (\<lambda>_.
     ebind (stored_units (Some (rv_granted_turns row))) (\<lambda>granted.
     ebind (raise_if (io_max_turns (iv_options invocation) > granted) BudgetConflictError) (\<lambda>_.
     ebind (raise_if (list_ex (\<lambda>r. rv_invocation_id r = Some (iv_invocation_id invocation)) rows)
              BudgetConflictError) (\<lambda>_.
     ebind (raise_if (already_bound (iv_invocation_id invocation) (rv_id row) d)
              BudgetConflictError) (\<lambda>_.
     let row' = row\<lparr>rv_invocation_id := Some (iv_invocation_id invocation),
                    rv_invocation_json := Some payload, rv_invocation_checksum := Some checksum,
                    rv_invocation_start_owner_hash := Some owner_hash\<rparr>;
         d' = put_reservation row' d in
     ebind (authorize sha (\<lambda>i. clk (i + 2)) run segment attempt claimed d') (\<lambda>_.
     ebind (binding_of row') (\<lambda>b. Inr (b, d'))))))))))))))))"

section \<open>The start intent\<close>

definition find_reservation :: "uuid \<Rightarrow> reservation_row list \<Rightarrow> reservation_row option" where
  "find_reservation rid rows = find (\<lambda>r. rv_id r = rid) rows"

text \<open>\<open>True\<close> only for the first commit of the start intent.\<close>

definition start_execution ::
  "digest \<Rightarrow> clock \<Rightarrow> claimed_run \<Rightarrow> string \<Rightarrow> uuid \<Rightarrow> string \<Rightarrow> string \<Rightarrow> db \<Rightarrow> (bool \<times> db) res" where
  "start_execution sha clk claimed execution_key expected_id expected_checksum start_owner_token d =
     ebind (budget_key (JStr execution_key)) (\<lambda>_.
     ebind (budget_start_owner_hash sha start_owner_token) (\<lambda>owner_hash.
     ebind (lock_claimed_execution claimed d) (\<lambda>(run, segment, attempt).
     ebind (ledger sha run d) (\<lambda>(account, policy, rows).
     ebind (authorize sha clk run segment attempt claimed d) (\<lambda>_.
     ebind (claimed_reservation sha rows claimed execution_key) (\<lambda>row.
     let expected = \<lparr>ib_reservation_id = rv_id row, ib_invocation_id = expected_id,
                     ib_invocation_checksum = expected_checksum\<rparr> in
     ebind (binding_init expected) (\<lambda>_.
     ebind (stored_invocation sha row) (\<lambda>invocation.
     ebind (invocation_scope invocation run claimed) (\<lambda>_.
     ebind (binding_of row) (\<lambda>b.
     ebind (raise_if (expected \<noteq> b) BudgetConflictError) (\<lambda>_.
     ebind (verify_start_owner row owner_hash) (\<lambda>_.
     if rv_status row = START_INTENT then Inr (False, d)
     else
     ebind (raise_if (rv_status row \<noteq> BUD_RESERVED \<or> blocked account) BudgetUnavailableError) (\<lambda>_.
     ebind
       (case rv_parent_reservation_id row of
          None \<Rightarrow> Inr ()
        | Some pid \<Rightarrow>
            (case find_reservation pid rows of
               None \<Rightarrow> Inl BudgetUnavailableError
             | Some parent \<Rightarrow> raise_if (\<not> parent_running parent) BudgetUnavailableError)) (\<lambda>_.
     let row' = row\<lparr>rv_status := START_INTENT, rv_start_intent_at := Some (clk 2)\<rparr>;
         d' = put_account (touch account) (put_reservation row' d) in
     ebind (authorize sha (\<lambda>i. clk (i + 3)) run segment attempt claimed d') (\<lambda>_.
       Inr (True, d'))))))))))))))))"

section \<open>The reconciliation lease\<close>

definition reconciliation_rows ::
  "digest \<Rightarrow> uuid \<Rightarrow> uuid \<Rightarrow> db \<Rightarrow> (account_row \<times> budget_policy \<times> reservation_row list) res" where
  "reconciliation_rows sha project_id rid d =
     (case lock_run_row rid (Some project_id) d of
        None \<Rightarrow> Inl BudgetUnavailableError
      | Some run \<Rightarrow>
          ebind (raise_if (run_project_id run \<noteq> project_id) BudgetUnavailableError) (\<lambda>_.
            ledger sha run d))"

definition claim_reconciliation ::
  "digest \<Rightarrow> clock \<Rightarrow> uuid \<Rightarrow> uuid \<Rightarrow> string \<Rightarrow> string \<Rightarrow> string \<Rightarrow> int \<Rightarrow> db \<Rightarrow>
   (reconciliation_claim \<times> db) res" where
  "claim_reconciliation sha clk project_id rid execution_key worker_id token lease_seconds d =
     ebind (emap (\<lambda>k. budget_key (JStr k)) [execution_key, worker_id, token]) (\<lambda>_.
     ebind (raise_if (\<not> (1 \<le> lease_seconds \<and> lease_seconds \<le> 300)) BudgetError) (\<lambda>_.
     ebind (reconciliation_rows sha project_id rid d) (\<lambda>(account, policy, rows).
     (case find_execution execution_key rows of
        None \<Rightarrow> Inl BudgetUnavailableError
      | Some row \<Rightarrow>
          let now = clk 0;
              claim = (\<lambda>expires. \<lparr>rc_project_id = project_id, rc_run_id = rid,
                rc_reservation_id = rv_id row, rc_worker_id = worker_id, rc_token = token,
                rc_expires_at = expires\<rparr>);
              fresh_row = row\<lparr>rv_reconcile_worker_id := Some worker_id,
                rv_reconcile_token_hash := Some (lease_token_hash sha token),
                rv_reconcile_expires_at := Some (now + seconds lease_seconds)\<rparr>;
              take = Inr (claim (now + seconds lease_seconds), put_reservation fresh_row d)
          in (case rv_reconcile_expires_at row of
                None \<Rightarrow> take
              | Some expires \<Rightarrow>
                  if expires > now then
                    ebind (raise_if (rv_reconcile_worker_id row \<noteq> Some worker_id \<or>
                             \<not> digest_matches (rv_reconcile_token_hash row)
                                 (lease_token_hash sha token)) LeaseValidationError) (\<lambda>_.
                      Inr (claim expires, d))
                  else take)))))"

definition validate_reconciliation_claim ::
  "digest \<Rightarrow> reservation_row \<Rightarrow> reconciliation_claim \<Rightarrow> time \<Rightarrow> unit res" where
  "validate_reconciliation_claim sha row claim now =
     raise_if
       (rv_reconcile_worker_id row \<noteq> Some (rc_worker_id claim) \<or>
        \<not> digest_matches (rv_reconcile_token_hash row) (lease_token_hash sha (rc_token claim)) \<or>
        (case rv_reconcile_expires_at row of
           None \<Rightarrow> True
         | Some t \<Rightarrow> t \<noteq> rc_expires_at claim \<or> t \<le> now))
       LeaseValidationError"

definition authorize_reconciliation ::
  "digest \<Rightarrow> clock \<Rightarrow> reconciliation_claim \<Rightarrow> db \<Rightarrow>
   (account_row \<times> budget_policy \<times> reservation_row) res" where
  "authorize_reconciliation sha clk claim d =
     ebind (reconciliation_rows sha (rc_project_id claim) (rc_run_id claim) d)
       (\<lambda>(account, policy, rows).
     (case find_reservation (rc_reservation_id claim) rows of
        None \<Rightarrow> Inl LeaseValidationError
      | Some row \<Rightarrow>
          ebind (validate_reconciliation_claim sha row claim (clk 0)) (\<lambda>_.
            Inr (account, policy, row))))"

section \<open>Receipts\<close>

definition find_receipt :: "reservation_row \<Rightarrow> string \<Rightarrow> db \<Rightarrow> receipt_row option res" where
  "find_receipt row key d =
     one_or_none (filter (\<lambda>p. rp_reservation_id p = rv_id row \<and> rp_receipt_key p = key)
       (db_receipts d))"

definition receipt_checksum :: "digest \<Rightarrow> receipt_kind \<Rightarrow> json \<Rightarrow> string" where
  "receipt_checksum sha kind payload =
     budget_checksum sha (JObj [(''kind'', JStr (receipt_kind_text kind)), (''payload'', payload)])"

definition result_of ::
  "account_row \<Rightarrow> budget_policy \<Rightarrow> reservation_row \<Rightarrow> string \<Rightarrow> receipt_result" where
  "result_of account policy row disposition =
     \<lparr>rr_account = account_of account policy, rr_execution = execution_of row,
      rr_disposition = disposition\<rparr>"

text \<open>The changed row and account are flushed together with the receipt.\<close>

definition record_receipt ::
  "digest \<Rightarrow> clock \<Rightarrow> fresh \<Rightarrow> account_row \<Rightarrow> budget_policy \<Rightarrow> reservation_row \<Rightarrow>
   reconciliation_claim \<Rightarrow> string \<Rightarrow> receipt_kind \<Rightarrow> json \<Rightarrow> string \<Rightarrow> db \<Rightarrow>
   (receipt_result \<times> db) res" where
  "record_receipt sha clk ids account policy row claim key kind payload disposition d =
     ebind (validate_reconciliation_claim sha row claim (clk 0)) (\<lambda>_.
     let receipt = \<lparr>rp_id = ids 0, rp_reservation_id = rv_id row, rp_receipt_key = key,
           rp_kind = kind, rp_payload_json = payload,
           rp_payload_checksum = receipt_checksum sha kind payload,
           rp_reconcile_worker_id = rc_worker_id claim, rp_disposition = disposition,
           rp_created_at = clk 1\<rparr>;
         account = touch account;
         d' = put_account account (put_reservation row
                (d\<lparr>db_receipts := db_receipts d @ [receipt]\<rparr>)) in
     ebind (validate_reconciliation_claim sha row claim (clk 2)) (\<lambda>_.
       Inr (result_of account policy row disposition, d')))"

definition conflict_payload :: "string \<Rightarrow> string \<Rightarrow> json" where
  "conflict_payload key checksum =
     JObj [(''original_key'', JStr key), (''conflicting_checksum'', JStr checksum)]"

definition conflict_key :: "digest \<Rightarrow> string \<Rightarrow> string \<Rightarrow> string \<Rightarrow> string" where
  "conflict_key sha prefix key checksum =
     prefix @ budget_checksum sha (JObj [(''key'', JStr key), (''checksum'', JStr checksum)])"

text \<open>\<open>None\<close>: the key is new and the caller goes on.\<close>

definition replay_receipt ::
  "digest \<Rightarrow> clock \<Rightarrow> fresh \<Rightarrow> account_row \<Rightarrow> budget_policy \<Rightarrow> reservation_row \<Rightarrow>
   reconciliation_claim \<Rightarrow> string \<Rightarrow> receipt_kind \<Rightarrow> json \<Rightarrow> db \<Rightarrow>
   (receipt_result \<times> db) option res" where
  "replay_receipt sha clk ids account policy row claim key kind payload d =
     ebind (find_receipt row key d) (\<lambda>existing.
     case existing of
       None \<Rightarrow> Inr None
     | Some e \<Rightarrow>
         let checksum = receipt_checksum sha kind payload in
         if rp_payload_checksum e = checksum
         then Inr (Some (result_of account policy row ''REPLAY'', d))
         else
           let account = account\<lparr>ba_block_code := Some ''receipt_conflict''\<rparr>;
               ckey = conflict_key sha ''conflict/'' key checksum in
           ebind (find_receipt row ckey d) (\<lambda>conflict.
             if conflict = None then
               ebind (record_receipt sha clk ids account policy row claim ckey UNVERIFIABLE
                        (conflict_payload key checksum) ''CONFLICT'' d) (\<lambda>r. Inr (Some r))
             else Inr (Some (result_of account policy row ''CONFLICT'', put_account account d))))"

section \<open>Raw observations\<close>

definition find_observation :: "reservation_row \<Rightarrow> string \<Rightarrow> db \<Rightarrow> observation_row option res" where
  "find_observation row key d =
     one_or_none (filter (\<lambda>b. bo_reservation_id b = rv_id row \<and> bo_observation_key b = key)
       (db_observations d))"

definition same_observation ::
  "digest \<Rightarrow> observation_row \<Rightarrow> agent_invocation \<Rightarrow> string \<Rightarrow> json \<Rightarrow> bool" where
  "same_observation sha existing invocation checksum payload \<longleftrightarrow>
     bo_invocation_id existing = iv_invocation_id invocation \<and>
     bo_payload_checksum existing = checksum \<and>
     budget_checksum sha (bo_payload_json existing) = bo_payload_checksum existing \<and>
     py_eq (bo_payload_json existing) payload"

definition record_observation ::
  "digest \<Rightarrow> clock \<Rightarrow> fresh \<Rightarrow> reconciliation_claim \<Rightarrow> usage_observation \<Rightarrow> db \<Rightarrow>
   (receipt_result \<times> db) res" where
  "record_observation sha clk ids claim observation d =
     ebind (authorize_reconciliation sha clk claim d) (\<lambda>(account, policy, row).
     ebind (stored_invocation sha row) (\<lambda>invocation.
     ebind (raise_if (iv_project_id invocation \<noteq> rc_project_id claim \<or>
              \<not> py_eq (invocation_to_json invocation) (invocation_to_json (uo_invocation observation)) \<or>
              invocation_checksum sha invocation \<noteq>
                invocation_checksum sha (uo_invocation observation)) BudgetConflictError) (\<lambda>_.
     ebind (raise_if (rv_status row \<noteq> START_INTENT \<and> rv_status row \<noteq> SETTLED)
              BudgetUnavailableError) (\<lambda>_.
     ebind (budget_key (JStr (observation_key observation))) (\<lambda>key.
     let payload = observation_to_json observation; checksum = budget_checksum sha payload in
     ebind (find_observation row key d) (\<lambda>existing.
     ebind (validate_reconciliation_claim sha row claim (clk 1)) (\<lambda>_.
     case existing of
       None \<Rightarrow>
         let ob = \<lparr>bo_id = ids 0, bo_reservation_id = rv_id row,
               bo_invocation_id = iv_invocation_id invocation, bo_observation_key = key,
               bo_payload_json = payload, bo_payload_checksum = checksum,
               bo_reconcile_worker_id = rc_worker_id claim, bo_created_at = clk 2\<rparr> in
         ebind (validate_reconciliation_claim sha row claim (clk 3)) (\<lambda>_.
           Inr (result_of account policy row ''OBSERVED'',
                d\<lparr>db_observations := db_observations d @ [ob]\<rparr>))
     | Some e \<Rightarrow>
         if same_observation sha e invocation checksum payload then
           ebind (validate_reconciliation_claim sha row claim (clk 3)) (\<lambda>_.
             Inr (result_of account policy row ''REPLAY'', d))
         else
           let ckey = conflict_key sha ''observation-conflict/'' key checksum in
           ebind (find_receipt row ckey d) (\<lambda>conflict.
           ebind (validate_reconciliation_claim sha row claim (clk 2)) (\<lambda>_.
             let previous = ba_block_code account;
                 account = account\<lparr>ba_block_code := Some ''observation_conflict''\<rparr> in
             if conflict = None then
               record_receipt sha (\<lambda>i. clk (i + 3)) ids account policy row claim ckey UNVERIFIABLE
                 (conflict_payload key checksum) ''CONFLICT'' d
             else
               let account = (if previous \<noteq> ba_block_code account then touch account else account) in
               ebind (validate_reconciliation_claim sha row claim (clk 3)) (\<lambda>_.
                 Inr (result_of account policy row ''CONFLICT'', put_account account d)))))))))))"

section \<open>Releasing and settling\<close>

definition release ::
  "account_row \<Rightarrow> reservation_row \<Rightarrow> (account_row \<times> reservation_row) res" where
  "release account row =
     ebind (stored_units (Some (ba_reserved_turns account))) (\<lambda>total.
     ebind (stored_units (Some (rv_reserved_turns row))) (\<lambda>held.
     let account1 = account\<lparr>ba_reserved_turns := total - held\<rparr>;
         row1 = row\<lparr>rv_reserved_turns := 0\<rparr> in
     case rv_reserved_cost_nanos row of
       None \<Rightarrow> Inr (account1, row1)
     | Some cost \<Rightarrow>
         (case ba_reserved_cost_nanos account of
            None \<Rightarrow> Inl AssertionError
          | Some total_cost \<Rightarrow>
              ebind (stored_units (Some total_cost)) (\<lambda>total_cost.
              ebind (stored_units (Some cost)) (\<lambda>cost.
                Inr (account1\<lparr>ba_reserved_cost_nanos := Some (total_cost - cost)\<rparr>,
                     row1\<lparr>rv_reserved_cost_nanos := Some 0\<rparr>))))))"

definition settle_if_confirmed ::
  "account_row \<Rightarrow> reservation_row \<Rightarrow> (account_row \<times> reservation_row) res" where
  "settle_if_confirmed account row =
     (if rv_stop_confirmed_at row \<noteq> None \<and> rv_final_usage_at row \<noteq> None
      then ebind (release account row) (\<lambda>(account, row).
        Inr (account, row\<lparr>rv_status := SETTLED\<rparr>))
      else Inr (account, row))"

section \<open>Usage\<close>

definition metering_mismatch :: "usage_report \<Rightarrow> budget_policy \<Rightarrow> bool" where
  "metering_mismatch report policy \<longleftrightarrow> ur_source report \<noteq> bp_source policy \<or>
     ur_metering_version report \<noteq> bp_metering_version policy \<or> ur_mode report \<noteq> bp_mode policy"

definition report_dimensions :: "usage_report \<Rightarrow> budget_policy \<Rightarrow> (dimension \<times> int option) list" where
  "report_dimensions report policy =
     (TURNS, ur_turns report) #
     (if bp_max_cost_nanos policy \<noteq> None then [(COST, ur_cost_nanos report)] else [])"

text \<open>The first loop: the increase per reported dimension, and the last reason to reject, if any.\<close>

fun usage_deltas ::
  "usage_report \<Rightarrow> reservation_row \<Rightarrow> (dimension \<times> int option) list \<Rightarrow> string option \<Rightarrow>
   (string option \<times> (dimension \<times> int) list) res" where
  "usage_deltas report row [] invalid = Inr (invalid, [])"
| "usage_deltas report row ((dm, None) # ds) invalid = usage_deltas report row ds invalid"
| "usage_deltas report row ((dm, Some value) # ds) invalid =
     ebind (py_int (row_consumed dm row)) (\<lambda>consumed.
     ebind
       (if ur_mode report = CUMULATIVE then
          (case ur_watermark report of
             None \<Rightarrow> Inl AssertionError
           | Some w \<Rightarrow>
               let previous = row_watermark dm row;
                   stale = ur_final report \<and> w < previous;
                   conflict = w \<ge> previous \<and> value < consumed \<or> w \<le> previous \<and> value > consumed
               in Inr (if conflict then Some ''cumulative_usage_conflict''
                       else if stale then Some ''stale_final_usage'' else invalid,
                       max 0 (value - consumed)))
        else Inr (invalid, value)) (\<lambda>(invalid, delta).
     ebind (usage_deltas report row ds invalid) (\<lambda>(invalid, deltas).
       Inr (invalid, (dm, delta) # deltas))))"

text \<open>The second loop, one dimension: consume, give back what was held, block on late usage.\<close>

definition apply_delta ::
  "usage_report \<Rightarrow> dimension \<times> int \<Rightarrow> account_row \<times> reservation_row \<times> bool \<Rightarrow>
   (account_row \<times> reservation_row \<times> bool) res" where
  "apply_delta report dd st =
     (case (dd, st) of ((dm, delta), (account, row, overspent)) \<Rightarrow>
     ebind (py_int (row_reserved dm row)) (\<lambda>held.
     let transfer = min held delta in
     ebind (stored_units (row_consumed dm row)) (\<lambda>consumed.
     let row = set_row dm (consumed + delta) (held - transfer) row in
     ebind (stored_units (account_consumed dm account)) (\<lambda>total.
     ebind (stored_units (account_reserved dm account)) (\<lambda>reserved.
     let account = set_account dm (total + delta) (reserved - transfer) account;
         row = (case ur_watermark report of None \<Rightarrow> row
                | Some w \<Rightarrow> set_watermark dm (max (row_watermark dm row) w) row) in
     ebind (py_int (row_granted dm row)) (\<lambda>granted.
     let overspent = (overspent \<or> consumed + delta > granted);
         account = (if rv_final_usage_at row \<noteq> None \<and> delta \<noteq> 0
                    then account\<lparr>ba_block_code := Some ''usage_after_final_report''\<rparr> else account)
     in Inr (account, row, overspent)))))))"

fun apply_deltas ::
  "usage_report \<Rightarrow> (dimension \<times> int) list \<Rightarrow> account_row \<times> reservation_row \<times> bool \<Rightarrow>
   (account_row \<times> reservation_row \<times> bool) res" where
  "apply_deltas report [] st = Inr st"
| "apply_deltas report (dd # dds) st = ebind (apply_delta report dd st) (apply_deltas report dds)"

definition record_usage ::
  "digest \<Rightarrow> clock \<Rightarrow> fresh \<Rightarrow> reconciliation_claim \<Rightarrow> usage_report \<Rightarrow> db \<Rightarrow>
   (receipt_result \<times> db) res" where
  "record_usage sha clk ids claim report d =
     ebind (authorize_reconciliation sha clk claim d) (\<lambda>(account, policy, row).
     let payload = report_to_json report in
     ebind (replay_receipt sha (\<lambda>i. clk (i + 1)) ids account policy row claim (ur_report_key report)
              USAGE payload d) (\<lambda>replay.
     case replay of
       Some r \<Rightarrow> Inr r
     | None \<Rightarrow>
         let invalid = (if rv_status row = BUD_RESERVED \<or> rv_status row = RELEASED
                        then Some ''usage_without_start_intent''
                        else if metering_mismatch report policy
                        then Some ''metering_identity_mismatch'' else None);
             dimensions = report_dimensions report policy in
         ebind (usage_deltas report row dimensions invalid) (\<lambda>(invalid, deltas).
         case invalid of
           Some why \<Rightarrow>
             record_receipt sha (\<lambda>i. clk (i + 1)) ids (account\<lparr>ba_block_code := Some why\<rparr>) policy row
               claim (ur_report_key report) USAGE payload ''INVALID'' d
         | None \<Rightarrow>
             ebind (apply_deltas report deltas (account, row, False)) (\<lambda>(account, row, overspent).
             let account = (if overspent then account\<lparr>ba_block_code := Some ''budget_overspent''\<rparr>
                            else account);
                 row = (if ur_final report \<and> list_all (\<lambda>(_, v). v \<noteq> None) dimensions
                        then row\<lparr>rv_final_usage_at :=
                               Some (case rv_final_usage_at row of None \<Rightarrow> clk 1 | Some t \<Rightarrow> t)\<rparr>
                        else row) in
             ebind (settle_if_confirmed account row) (\<lambda>(account, row).
               record_receipt sha (\<lambda>i. clk (i + 2)) ids account policy row claim
                 (ur_report_key report) USAGE payload
                 (if overspent then ''OVERSPENT'' else ''APPLIED'') d)))))"

section \<open>Stops, releases and unverifiable reports\<close>

definition confirm_stopped ::
  "digest \<Rightarrow> clock \<Rightarrow> fresh \<Rightarrow> reconciliation_claim \<Rightarrow> string \<Rightarrow> string \<Rightarrow> db \<Rightarrow>
   (receipt_result \<times> db) res" where
  "confirm_stopped sha clk ids claim receipt_key verified_evidence d =
     ebind (budget_key (JStr receipt_key)) (\<lambda>_.
     ebind (budget_key (JStr verified_evidence)) (\<lambda>_.
     ebind (authorize_reconciliation sha clk claim d) (\<lambda>(account, policy, row).
     let payload = JObj [(''verified_evidence'', JStr verified_evidence)] in
     ebind (replay_receipt sha (\<lambda>i. clk (i + 1)) ids account policy row claim receipt_key STOP
              payload d) (\<lambda>replay.
     case replay of
       Some r \<Rightarrow> Inr r
     | None \<Rightarrow>
         ebind (raise_if (rv_start_intent_at row = None) BudgetError) (\<lambda>_.
         let row = row\<lparr>rv_stop_confirmed_at :=
               Some (case rv_stop_confirmed_at row of None \<Rightarrow> clk 1 | Some t \<Rightarrow> t)\<rparr> in
         ebind (settle_if_confirmed account row) (\<lambda>(account, row).
           record_receipt sha (\<lambda>i. clk (i + 2)) ids account policy row claim receipt_key STOP payload
             ''APPLIED'' d))))))"

definition release_unstarted ::
  "digest \<Rightarrow> clock \<Rightarrow> fresh \<Rightarrow> reconciliation_claim \<Rightarrow> string \<Rightarrow> db \<Rightarrow> (receipt_result \<times> db) res"
where
  "release_unstarted sha clk ids claim receipt_key d =
     ebind (budget_key (JStr receipt_key)) (\<lambda>_.
     ebind (authorize_reconciliation sha clk claim d) (\<lambda>(account, policy, row).
     let payload = JObj [(''reason'', JStr ''start_intent_absent'')] in
     ebind (replay_receipt sha (\<lambda>i. clk (i + 1)) ids account policy row claim receipt_key UNSTARTED
              payload d) (\<lambda>replay.
     case replay of
       Some r \<Rightarrow> Inr r
     | None \<Rightarrow>
         ebind (raise_if (blocked account \<or> rv_start_intent_at row \<noteq> None \<or>
                  (rv_status row \<noteq> BUD_RESERVED \<and> rv_status row \<noteq> RELEASED)) BudgetError) (\<lambda>_.
         ebind (release account row) (\<lambda>(account, row).
           record_receipt sha (\<lambda>i. clk (i + 1)) ids account policy (row\<lparr>rv_status := RELEASED\<rparr>) claim
             receipt_key UNSTARTED payload ''APPLIED'' d)))))"

definition mark_unverifiable ::
  "digest \<Rightarrow> clock \<Rightarrow> fresh \<Rightarrow> reconciliation_claim \<Rightarrow> string \<Rightarrow> string \<Rightarrow> db \<Rightarrow>
   (receipt_result \<times> db) res" where
  "mark_unverifiable sha clk ids claim receipt_key evidence_checksum d =
     ebind (budget_key (JStr receipt_key)) (\<lambda>_.
     ebind (budget_key (JStr evidence_checksum)) (\<lambda>_.
     ebind (authorize_reconciliation sha clk claim d) (\<lambda>(account, policy, row).
     let payload = JObj [(''evidence_checksum'', JStr evidence_checksum)] in
     ebind (replay_receipt sha (\<lambda>i. clk (i + 1)) ids account policy row claim receipt_key UNVERIFIABLE
              payload d) (\<lambda>replay.
     case replay of
       Some r \<Rightarrow> Inr r
     | None \<Rightarrow>
         record_receipt sha (\<lambda>i. clk (i + 1)) ids
           (account\<lparr>ba_block_code := Some ''usage_unverifiable''\<rparr>) policy row claim receipt_key
           UNVERIFIABLE payload ''INVALID'' d))))"

end
