(* ===== verification/Budget_Inv.thy ===== *)
theory Budget_Inv
  imports Budget_Settle
begin

text \<open>
  The invariant of the budget tables: every account equals the sum of its reservations in both
  dimensions, every row satisfies the check constraints, and an account that is not blocked has
  consumed and reserved no more than its limits.

  \<open>step_ok\<close> is what one operation may do to an account and one of its reservations;
  \<open>step_keeps_inv\<close> shows that this keeps the invariant, so each operation only has to be a
  \<open>step_ok\<close>.
\<close>

section \<open>Balances\<close>

definition val :: "int option \<Rightarrow> int" where
  "val v = (case v of None \<Rightarrow> 0 | Some n \<Rightarrow> n)"

lemma val_simps [simp]: "val None = 0" "val (Some n) = n"
  by (simp_all add: val_def)

text \<open>An amount of the account agrees with the amounts of its reservations.\<close>

definition agrees :: "int option \<Rightarrow> int option list \<Rightarrow> bool" where
  "agrees v vs \<longleftrightarrow> (\<forall>x \<in> set vs. (x = None \<longleftrightarrow> v = None) \<and> 0 \<le> val x) \<and> val v = sum_list (map val vs)"

lemma stored_units_Inr: "stored_units v = Inr n \<longleftrightarrow> v = Some n \<and> 0 \<le> n"
  by (cases v) (auto simp: stored_units_def)

lemma emap_stored_units: "emap stored_units vs = Inr ns \<longleftrightarrow> vs = map Some ns \<and> (\<forall>n \<in> set ns. 0 \<le> n)"
proof (induction vs arbitrary: ns)
  case Nil
  show ?case by (cases ns) auto
next
  case (Cons v vs)
  show ?case by (cases ns) (auto simp: ebind_Inr_iff stored_units_Inr Cons.IH)
qed

lemma balance_agrees_Inr:
  "balance_agrees enabled v vs = Inr u \<longleftrightarrow> (v \<noteq> None \<longleftrightarrow> enabled) \<and> 0 \<le> val v \<and> agrees v vs"
proof (cases enabled)
  case False
  have sum0: "\<forall>x \<in> set vs. x = None \<Longrightarrow> sum_list (map val vs) = 0"
    by (induction vs) auto
  show ?thesis using False sum0
    by (cases v) (auto simp: balance_agrees_def agrees_def list_ex_iff)
next
  case True
  have some: "\<forall>x \<in> set vs. x \<noteq> None \<Longrightarrow> map Some (map val vs) = vs"
    by (induction vs) auto
  show ?thesis
  proof
    assume "balance_agrees enabled v vs = Inr u"
    with True obtain total parts where "v = Some total" "0 \<le> total" "vs = map Some parts"
      "\<forall>n \<in> set parts. 0 \<le> n" "total = sum_list parts"
      by (auto simp: balance_agrees_def ebind_Inr_iff stored_units_Inr emap_stored_units split: if_splits)
    moreover have "map val (map Some parts) = parts" by (induction parts) auto
    ultimately show "(v \<noteq> None \<longleftrightarrow> enabled) \<and> 0 \<le> val v \<and> agrees v vs" using True by (auto simp: agrees_def)
  next
    assume a: "(v \<noteq> None \<longleftrightarrow> enabled) \<and> 0 \<le> val v \<and> agrees v vs"
    with True obtain total where v: "v = Some total" "0 \<le> total" by auto
    with a have "emap stored_units vs = Inr (map val vs)"
      unfolding emap_stored_units using some by (auto simp: agrees_def)
    with a v True show "balance_agrees enabled v vs = Inr u"
      by (auto simp: balance_agrees_def ebind_Inr_iff stored_units_def agrees_def)
  qed
qed

text \<open>One reservation changes, and the account by the same amount.\<close>

lemma agrees_put_row:
  assumes "agrees v (map f rows)" "distinct (map key rows)" "r \<in> set rows" "key r' = key r"
    and "v' = None \<longleftrightarrow> v = None" "f r' = None \<longleftrightarrow> v = None" "0 \<le> val (f r')"
    and "val v' - val v = val (f r') - val (f r)"
  shows "agrees v' (map f (put_row key r' rows))"
proof -
  have "sum_list (map (\<lambda>x. val (f x)) (put_row key r' rows))
      = sum_list (map (\<lambda>x. val (f x)) rows) - val (f r) + val (f r')"
    by (rule sum_put_row) (use assms in auto)
  then have "val v' = sum_list (map val (map f (put_row key r' rows)))"
    using assms(1,8) by (simp add: agrees_def comp_def)
  moreover have "(x = None \<longleftrightarrow> v' = None) \<and> 0 \<le> val x" if "x \<in> set (map f (put_row key r' rows))" for x
  proof -
    from that obtain y where y: "y \<in> set (put_row key r' rows)" "x = f y" by auto
    from set_put_rowD [OF y(1)] show ?thesis
      using y(2) assms(1,5,6,7) by (auto simp: agrees_def)
  qed
  ultimately show ?thesis by (auto simp: agrees_def)
qed

lemma agrees_append:
  assumes "agrees v vs" "\<forall>x \<in> set ws. (x = None \<longleftrightarrow> v = None) \<and> 0 \<le> val x"
    and "v' = None \<longleftrightarrow> v = None" "val v' = val v + sum_list (map val ws)"
  shows "agrees v' (vs @ ws)"
proof -
  have "val v' = sum_list (map val (vs @ ws))"
    unfolding assms(4) assms(1) [unfolded agrees_def, THEN conjunct2] by simp
  moreover have "\<forall>x \<in> set (vs @ ws). (x = None \<longleftrightarrow> v = None) \<and> 0 \<le> val x"
    unfolding set_append ball_Un
    by (rule conjI [OF assms(1) [unfolded agrees_def, THEN conjunct1] assms(2)])
  ultimately show ?thesis unfolding agrees_def assms(3) by (rule conjI [rotated])
qed

section \<open>The invariant\<close>

definition rows_of :: "account_row \<Rightarrow> db \<Rightarrow> reservation_row list" where
  "rows_of a d = filter (\<lambda>r. rv_run_id r = ba_run_id a) (db_reservations d)"

definition balanced :: "budget_policy \<Rightarrow> account_row \<Rightarrow> reservation_row list \<Rightarrow> bool" where
  "balanced p a rows \<longleftrightarrow>
     (ba_consumed_cost_nanos a \<noteq> None \<longleftrightarrow> bp_max_cost_nanos p \<noteq> None) \<and>
     (\<forall>dm. agrees (account_consumed dm a) (map (row_consumed dm) rows) \<and>
           agrees (account_reserved dm a) (map (row_reserved dm) rows))"

text \<open>The limit of a dimension; a disabled dimension has none.\<close>

fun policy_limit :: "dimension \<Rightarrow> budget_policy \<Rightarrow> int option" where
  "policy_limit TURNS p = Some (bp_max_turns p)"
| "policy_limit COST p = bp_max_cost_nanos p"

definition within_limits :: "budget_policy \<Rightarrow> account_row \<Rightarrow> bool" where
  "within_limits p a \<longleftrightarrow> (\<forall>dm. \<forall>limit \<in> set_option (policy_limit dm p).
     val (account_consumed dm a) + val (account_reserved dm a) \<le> limit)"

definition open_row :: "reservation_row \<Rightarrow> bool" where
  "open_row r \<longleftrightarrow> rv_status r = BUD_RESERVED \<or> rv_status r = START_INTENT"

text \<open>Nothing of the grant has been lost or exceeded.\<close>

definition full_row :: "reservation_row \<Rightarrow> bool" where
  "full_row r \<longleftrightarrow> (\<forall>dm. val (row_consumed dm r) + val (row_reserved dm r) = val (row_granted dm r))"

definition account_inv :: "account_row \<Rightarrow> reservation_row list \<Rightarrow> bool" where
  "account_inv a rows \<longleftrightarrow> account_row_ok a \<and>
     (\<forall>p. policy_from_json (ba_policy_json a) = Inr p \<longrightarrow>
        balanced p a rows \<and> (\<not> blocked a \<longrightarrow> within_limits p a \<and> (\<forall>r \<in> set rows. open_row r \<longrightarrow> full_row r)))"

definition row_inv :: "reservation_row \<Rightarrow> bool" where
  "row_inv r \<longleftrightarrow> reservation_row_ok r \<and>
     (rv_status r = BUD_RESERVED \<longrightarrow> (\<forall>dm. val (row_consumed dm r) = 0))"

definition budget_inv :: "db \<Rightarrow> bool" where
  "budget_inv d \<longleftrightarrow>
     distinct (map ba_id (db_accounts d)) \<and> distinct (map ba_run_id (db_accounts d)) \<and>
     distinct (map rv_id (db_reservations d)) \<and>
     distinct (map (\<lambda>r. (rv_run_id r, rv_execution_key r)) (db_reservations d)) \<and>
     (\<forall>a \<in> set (db_accounts d). account_inv a (rows_of a d)) \<and>
     (\<forall>r \<in> set (db_reservations d). row_inv r)"

section \<open>History\<close>

text \<open>
  What a committed transaction never undoes. A reservation moves along \<open>RESERVED\<close>, \<open>START_INTENT\<close>,
  \<open>SETTLED\<close> or from \<open>RESERVED\<close> to \<open>RELEASED\<close>; its grant, its start intent, its binding and its
  confirmations stay, and consumption only grows. An account stays blocked. Receipts and
  observations are only appended.
\<close>

fun status_le :: "budget_status \<Rightarrow> budget_status \<Rightarrow> bool" where
  "status_le BUD_RESERVED s = True"
| "status_le START_INTENT s = (s = START_INTENT \<or> s = SETTLED)"
| "status_le SETTLED s = (s = SETTLED)"
| "status_le RELEASED s = (s = RELEASED)"

definition row_le :: "reservation_row \<Rightarrow> reservation_row \<Rightarrow> bool" where
  "row_le r r' \<longleftrightarrow> rv_id r' = rv_id r \<and> rv_run_id r' = rv_run_id r \<and>
     rv_execution_key r' = rv_execution_key r \<and> rv_granted_turns r' = rv_granted_turns r \<and>
     rv_granted_cost_nanos r' = rv_granted_cost_nanos r \<and> status_le (rv_status r) (rv_status r') \<and>
     kept (rv_start_intent_at r) (rv_start_intent_at r') \<and>
     kept (rv_stop_confirmed_at r) (rv_stop_confirmed_at r') \<and>
     kept (rv_final_usage_at r) (rv_final_usage_at r') \<and>
     kept (rv_invocation_checksum r) (rv_invocation_checksum r') \<and>
     (\<forall>dm. val (row_consumed dm r) \<le> val (row_consumed dm r'))"

definition account_le :: "account_row \<Rightarrow> account_row \<Rightarrow> bool" where
  "account_le a a' \<longleftrightarrow> ba_id a' = ba_id a \<and> ba_run_id a' = ba_run_id a \<and>
     ba_policy_json a' = ba_policy_json a \<and> ba_row_version a \<le> ba_row_version a' \<and>
     (blocked a \<longrightarrow> blocked a') \<and>
     (\<forall>dm. val (account_consumed dm a) \<le> val (account_consumed dm a'))"

definition budget_le :: "db \<Rightarrow> db \<Rightarrow> bool" where
  "budget_le d d' \<longleftrightarrow> table_le account_le (db_accounts d) (db_accounts d') \<and>
     table_le row_le (db_reservations d) (db_reservations d') \<and>
     appended (db_receipts d) (db_receipts d') \<and> appended (db_observations d) (db_observations d')"

lemma status_le_refl [simp]: "status_le s s"
  by (cases s) simp_all

lemma status_le_trans: "status_le s t \<Longrightarrow> status_le t u \<Longrightarrow> status_le s u"
  by (cases s; cases t) auto

lemma row_le_refl [simp]: "row_le r r"
  by (simp add: row_le_def)

lemma row_le_trans: "row_le r r1 \<Longrightarrow> row_le r1 r2 \<Longrightarrow> row_le r r2"
  unfolding row_le_def kept_def by (metis order_trans status_le_trans)

lemma account_le_refl [simp]: "account_le a a"
  by (simp add: account_le_def)

lemma account_le_trans: "account_le a a1 \<Longrightarrow> account_le a1 a2 \<Longrightarrow> account_le a a2"
  unfolding account_le_def by (metis order_trans)

lemma budget_le_refl [simp]: "budget_le d d"
  by (simp add: budget_le_def table_le_refl)

lemma budget_le_trans: "budget_le d d1 \<Longrightarrow> budget_le d1 d2 \<Longrightarrow> budget_le d d2"
  unfolding budget_le_def
  by (meson table_le_trans account_le_trans row_le_trans appended_trans)

section \<open>Steps\<close>

definition moves :: "int option \<Rightarrow> int option \<Rightarrow> int option \<Rightarrow> int option \<Rightarrow> bool" where
  "moves v v' x x' \<longleftrightarrow> (v' = None \<longleftrightarrow> v = None) \<and> (x' = None \<longleftrightarrow> x = None) \<and>
     0 \<le> val x' \<and> val v' - val v = val x' - val x"

definition step_ok ::
  "account_row \<Rightarrow> reservation_row \<Rightarrow> account_row \<Rightarrow> reservation_row \<Rightarrow> bool" where
  "step_ok a r a' r' \<longleftrightarrow>
     ba_id a' = ba_id a \<and> ba_run_id a' = ba_run_id a \<and> ba_policy_json a' = ba_policy_json a \<and>
     rv_id r' = rv_id r \<and> rv_run_id r' = rv_run_id r \<and> rv_execution_key r' = rv_execution_key r \<and>
     account_row_ok a' \<and> row_inv r' \<and>
     (\<forall>dm. moves (account_consumed dm a) (account_consumed dm a') (row_consumed dm r) (row_consumed dm r') \<and>
           moves (account_reserved dm a) (account_reserved dm a') (row_reserved dm r) (row_reserved dm r')) \<and>
     (\<not> blocked a' \<longrightarrow> \<not> blocked a \<and>
        (\<forall>dm. val (account_consumed dm a') + val (account_reserved dm a')
              \<le> val (account_consumed dm a) + val (account_reserved dm a)) \<and>
        (open_row r' \<longrightarrow> open_row r \<and> (full_row r \<longrightarrow> full_row r'))) \<and>
     account_le a a' \<and> row_le r r'"

lemma account_inv_step:
  assumes inv: "account_inv a rows" and r: "r \<in> set rows" and dist: "distinct (map rv_id rows)"
    and s: "step_ok a r a' r'"
  shows "account_inv a' (put_row rv_id r' rows)"
proof -
  have ids: "rv_id r' = rv_id r" using s by (simp add: step_ok_def)
  have "balanced p a' (put_row rv_id r' rows) \<and>
      (\<not> blocked a' \<longrightarrow> within_limits p a' \<and> (\<forall>x \<in> set (put_row rv_id r' rows). open_row x \<longrightarrow> full_row x))"
    if p: "policy_from_json (ba_policy_json a') = Inr p" for p
  proof -
    have p': "policy_from_json (ba_policy_json a) = Inr p" using p s by (simp add: step_ok_def)
    have b: "balanced p a rows" using inv p' by (simp add: account_inv_def)
    have m: "moves (account_consumed dm a) (account_consumed dm a') (row_consumed dm r) (row_consumed dm r')"
      "moves (account_reserved dm a) (account_reserved dm a') (row_reserved dm r) (row_reserved dm r')" for dm
      using s by (simp_all add: step_ok_def)
    have none: "row_consumed dm r = None \<longleftrightarrow> account_consumed dm a = None"
      "row_reserved dm r = None \<longleftrightarrow> account_reserved dm a = None" for dm
      using b r by (auto simp: balanced_def agrees_def)
    have "agrees (account_consumed dm a') (map (row_consumed dm) (put_row rv_id r' rows))" for dm
      by (rule agrees_put_row [where v = "account_consumed dm a" and r = r])
        (use b dist r ids m(1) [of dm] none(1) [of dm] in \<open>auto simp: balanced_def moves_def\<close>)
    moreover have "agrees (account_reserved dm a') (map (row_reserved dm) (put_row rv_id r' rows))" for dm
      by (rule agrees_put_row [where v = "account_reserved dm a" and r = r])
        (use b dist r ids m(2) [of dm] none(2) [of dm] in \<open>auto simp: balanced_def moves_def\<close>)
    moreover have "ba_consumed_cost_nanos a' = None \<longleftrightarrow> ba_consumed_cost_nanos a = None"
      using m(1) [of COST] by (simp add: moves_def)
    ultimately have bal: "balanced p a' (put_row rv_id r' rows)" using b by (simp add: balanced_def)
    have "within_limits p a' \<and> (\<forall>x \<in> set (put_row rv_id r' rows). open_row x \<longrightarrow> full_row x)"
      if nb: "\<not> blocked a'"
    proof -
      have a: "\<not> blocked a" and le: "\<And>dm. val (account_consumed dm a') + val (account_reserved dm a')
              \<le> val (account_consumed dm a) + val (account_reserved dm a)"
        and op: "open_row r' \<Longrightarrow> open_row r \<and> (full_row r \<longrightarrow> full_row r')"
        using s nb by (auto simp: step_ok_def)
      have w: "within_limits p a" and full: "\<And>x. x \<in> set rows \<Longrightarrow> open_row x \<Longrightarrow> full_row x"
        using inv p' a by (auto simp: account_inv_def)
      have "within_limits p a'" unfolding within_limits_def
      proof (intro allI ballI)
        fix dm limit assume "limit \<in> set_option (policy_limit dm p)"
        with w have "val (account_consumed dm a) + val (account_reserved dm a) \<le> limit"
          by (simp add: within_limits_def)
        with le [of dm] show "val (account_consumed dm a') + val (account_reserved dm a') \<le> limit"
          by linarith
      qed
      moreover have "full_row x" if "x \<in> set (put_row rv_id r' rows)" "open_row x" for x
        using set_put_rowD [OF that(1)] that(2) op full [OF r] full by auto
      ultimately show ?thesis by blast
    qed
    with bal show ?thesis by blast
  qed
  moreover have "account_row_ok a'" using s by (simp add: step_ok_def)
  ultimately show ?thesis by (simp add: account_inv_def)
qed

text \<open>The operations change the two tables by one row each; other tables do not matter.\<close>

lemma step_keeps_inv:
  assumes inv: "budget_inv d" and a: "a \<in> set (db_accounts d)" and r: "r \<in> set (db_reservations d)"
    and run: "rv_run_id r = ba_run_id a" and s: "step_ok a r a' r'"
    and acc: "db_accounts d' = put_row ba_id a' (db_accounts d)"
    and res: "db_reservations d' = put_row rv_id r' (db_reservations d)"
    and app: "appended (db_receipts d) (db_receipts d')" "appended (db_observations d) (db_observations d')"
  shows "budget_inv d' \<and> budget_le d d'"
proof -
  let ?A = "db_accounts d" and ?R = "db_reservations d"
  have dist: "distinct (map ba_id ?A)" "distinct (map ba_run_id ?A)" "distinct (map rv_id ?R)"
    "distinct (map (\<lambda>r. (rv_run_id r, rv_execution_key r)) ?R)"
    and ainv: "\<And>a. a \<in> set ?A \<Longrightarrow> account_inv a (rows_of a d)" and rinv: "\<And>r. r \<in> set ?R \<Longrightarrow> row_inv r"
    using inv by (auto simp: budget_inv_def)
  have same: "ba_id a' = ba_id a" "ba_run_id a' = ba_run_id a" "rv_id r' = rv_id r"
    "rv_run_id r' = rv_run_id r" "rv_execution_key r' = rv_execution_key r"
    using s by (simp_all add: step_ok_def)
  have only: "x = r" if "x \<in> set ?R" "rv_id x = rv_id r'" for x
    using distinct_key_eq [OF dist(3) that(1) r] that(2) same by simp
  have onlya: "x = a" if "x \<in> set ?A" "ba_id x = ba_id a'" for x
    using distinct_key_eq [OF dist(1) that(1) a] that(2) same by simp
  have map_same: "map f (put_row key x' xs) = map f xs"
    if "\<And>x. x \<in> set xs \<Longrightarrow> key x = key x' \<Longrightarrow> f x = f x'" for f :: "'x \<Rightarrow> 'y" and key :: "'x \<Rightarrow> 'z" and x' xs
    using that by (induction xs) (auto simp: put_row_def)
  have d1: "map ba_run_id (put_row ba_id a' ?A) = map ba_run_id ?A"
    by (rule map_same) (use onlya same in auto)
  have d2: "map (\<lambda>r. (rv_run_id r, rv_execution_key r)) (put_row rv_id r' ?R)
      = map (\<lambda>r. (rv_run_id r, rv_execution_key r)) ?R"
    by (rule map_same) (use only same in auto)
  have rows: "rows_of x d' = put_row rv_id r' (rows_of x d)" for x
    unfolding rows_of_def res by (rule filter_put_row) (use only same in auto)
  have "account_inv x (rows_of x d')" if x: "x \<in> set (db_accounts d')" for x
  proof -
    from x set_put_rowD [of x ba_id a' ?A] have "x = a' \<or> x \<in> set ?A \<and> ba_id x \<noteq> ba_id a'"
      by (simp add: acc)
    then show ?thesis
    proof
      assume xa: "x = a'"
      have ra: "rows_of a' d = rows_of a d" by (simp add: rows_of_def same)
      have "account_inv a' (put_row rv_id r' (rows_of a d))"
      proof (rule account_inv_step [OF ainv [OF a] _ _ s])
        show "r \<in> set (rows_of a d)" using r run by (simp add: rows_of_def)
        show "distinct (map rv_id (rows_of a d))"
          unfolding rows_of_def using dist(3) by (rule distinct_map_filter)
      qed
      then show ?thesis using rows [of x] xa ra by simp
    next
      assume xa: "x \<in> set ?A \<and> ba_id x \<noteq> ba_id a'"
      then have "ba_run_id x \<noteq> ba_run_id a"
        using distinct_key_eq [OF dist(2) _ a, of x] same by auto
      then have "rv_id r' \<notin> rv_id ` set (rows_of x d)"
        using only run by (auto simp: rows_of_def)
      then have "put_row rv_id r' (rows_of x d) = rows_of x d" by (rule put_row_absent)
      then show ?thesis using rows ainv xa by simp
    qed
  qed
  moreover have "row_inv x" if "x \<in> set (db_reservations d')" for x
    using set_put_rowD [of x rv_id r' ?R] that rinv s by (auto simp: res step_ok_def)
  ultimately have "budget_inv d'"
    unfolding budget_inv_def acc res using dist d1 d2 by (auto simp: acc res)
  moreover have "account_le a a'" "row_le r r'" using s by (simp_all add: step_ok_def)
  then have "budget_le d d'"
    unfolding budget_le_def acc res
    using only onlya app by (intro conjI table_le_put_row) auto
  ultimately show ?thesis ..
qed

text \<open>A step that leaves the balances alone.\<close>

definition quiet_row :: "reservation_row \<Rightarrow> reservation_row \<Rightarrow> bool" where
  "quiet_row r r' \<longleftrightarrow> row_le r r' \<and> rv_id r' = rv_id r \<and> rv_run_id r' = rv_run_id r \<and>
     rv_execution_key r' = rv_execution_key r \<and>
     (\<forall>dm. row_consumed dm r' = row_consumed dm r \<and> row_reserved dm r' = row_reserved dm r \<and>
           row_granted dm r' = row_granted dm r)"

definition quiet_account :: "account_row \<Rightarrow> account_row \<Rightarrow> bool" where
  "quiet_account a a' \<longleftrightarrow> ba_id a' = ba_id a \<and> ba_run_id a' = ba_run_id a \<and>
     ba_policy_json a' = ba_policy_json a \<and> ba_row_version a \<le> ba_row_version a' \<and>
     (\<forall>dm. account_consumed dm a' = account_consumed dm a \<and>
           account_reserved dm a' = account_reserved dm a) \<and> (blocked a \<longrightarrow> blocked a')"

lemma all_dimension: "(\<forall>dm. P dm) \<longleftrightarrow> P TURNS \<and> P COST"
  by (metis dimension.exhaust)

lemma row_inv_nonneg: "row_inv r \<Longrightarrow> 0 \<le> val (row_consumed dm r) \<and> 0 \<le> val (row_reserved dm r)"
  by (cases dm) (auto simp: row_inv_def reservation_row_ok_def split: option.splits)

lemma quiet_step:
  assumes "row_inv r" "account_row_ok a" "quiet_row r r'" "quiet_account a a'" "row_inv r'"
    and "open_row r' \<Longrightarrow> open_row r"
  shows "step_ok a r a' r'"
proof -
  have "account_row_ok a'"
    using assms(2,4) by (auto simp: account_row_ok_def quiet_account_def all_dimension)
  moreover have "full_row r' \<longleftrightarrow> full_row r" using assms(3) by (simp add: full_row_def quiet_row_def)
  moreover have "account_le a a'" using assms(4) by (simp add: quiet_account_def account_le_def)
  ultimately show ?thesis
    using assms row_inv_nonneg [OF assms(1)]
    by (auto simp: step_ok_def quiet_row_def quiet_account_def moves_def)
qed

end
