(* ===== verification/Budget_Ops.thy ===== *)
theory Budget_Ops
  imports Budget_Inv
begin

text \<open>
  Every operation of the budget ledger keeps the invariant. The steps compose: \<open>step_core\<close> moves
  amounts consistently, and \<open>calm\<close> says that an account left unblocked has not grown. A receipt
  with its row and account is one such step.
\<close>

section \<open>Composing steps\<close>

definition step_core ::
  "account_row \<Rightarrow> reservation_row \<Rightarrow> account_row \<Rightarrow> reservation_row \<Rightarrow> bool" where
  "step_core a r a' r' \<longleftrightarrow>
     ba_id a' = ba_id a \<and> ba_run_id a' = ba_run_id a \<and> ba_policy_json a' = ba_policy_json a \<and>
     rv_id r' = rv_id r \<and> rv_run_id r' = rv_run_id r \<and> rv_execution_key r' = rv_execution_key r \<and>
     account_row_ok a' \<and> row_inv r' \<and>
     (\<forall>dm. moves (account_consumed dm a) (account_consumed dm a') (row_consumed dm r) (row_consumed dm r') \<and>
           moves (account_reserved dm a) (account_reserved dm a') (row_reserved dm r) (row_reserved dm r')) \<and>
     (\<not> blocked a' \<longrightarrow> \<not> blocked a) \<and> account_le a a' \<and> row_le r r'"

definition calm ::
  "account_row \<Rightarrow> reservation_row \<Rightarrow> account_row \<Rightarrow> reservation_row \<Rightarrow> bool" where
  "calm a r a' r' \<longleftrightarrow>
     (\<forall>dm. val (account_consumed dm a') + val (account_reserved dm a')
           \<le> val (account_consumed dm a) + val (account_reserved dm a)) \<and>
     (open_row r' \<longrightarrow> open_row r \<and> (full_row r \<longrightarrow> full_row r'))"

lemma step_ok_iff: "step_ok a r a' r' \<longleftrightarrow> step_core a r a' r' \<and> (\<not> blocked a' \<longrightarrow> calm a r a' r')"
  unfolding step_ok_def step_core_def calm_def by blast

lemma moves_trans: "moves v v' x x' \<Longrightarrow> moves v' v'' x' x'' \<Longrightarrow> moves v v'' x x''"
  unfolding moves_def by linarith

lemma moves_refl: "0 \<le> val x \<Longrightarrow> moves v v x x"
  by (simp add: moves_def)

lemma step_core_trans:
  assumes "step_core a r a1 r1" "step_core a1 r1 a2 r2"
  shows "step_core a r a2 r2"
proof -
  have "account_le a a2" "row_le r r2"
    using assms account_le_trans row_le_trans unfolding step_core_def by blast+
  with assms moves_trans show ?thesis unfolding step_core_def by metis
qed

lemma calm_trans: "calm a r a1 r1 \<Longrightarrow> calm a1 r1 a2 r2 \<Longrightarrow> calm a r a2 r2"
  unfolding calm_def by (meson order_trans)

lemma step_ok_trans:
  assumes "step_ok a r a1 r1" "step_ok a1 r1 a2 r2"
  shows "step_ok a r a2 r2"
proof -
  have "\<not> blocked a2 \<Longrightarrow> \<not> blocked a1" using assms(2) by (simp add: step_ok_def)
  then show ?thesis
    using assms step_core_trans calm_trans unfolding step_ok_iff by blast
qed

lemma touch_simps [simp]:
  "ba_id (touch a) = ba_id a" "ba_run_id (touch a) = ba_run_id a"
  "ba_policy_json (touch a) = ba_policy_json a" "account_consumed dm (touch a) = account_consumed dm a"
  "account_reserved dm (touch a) = account_reserved dm a" "blocked (touch a) = blocked a"
  "ba_block_code (touch a) = ba_block_code a"
  by (cases dm; simp add: touch_def blocked_def)+

lemma quiet_touch: "quiet_account a (touch a)"
  by (simp add: quiet_account_def account_le_def) (simp add: touch_def)

lemma quiet_block: "c \<noteq> [] \<Longrightarrow> quiet_account a (a\<lparr>ba_block_code := Some c\<rparr>)"
  by (simp add: quiet_account_def account_le_def all_dimension blocked_def)

lemma quiet_refl [simp]: "quiet_account a a" "quiet_row r r"
  by (simp_all add: quiet_account_def quiet_row_def)

lemma step_ok_rows: "step_ok a r a' r' \<Longrightarrow> row_inv r' \<and> account_row_ok a'"
  by (simp add: step_ok_def)

lemma step_touch: "step_ok a r a' r' \<Longrightarrow> step_ok a r (touch a') r'"
  by (rule step_ok_trans, assumption) (rule quiet_step; simp add: step_ok_rows quiet_touch)

lemma step_block:
  "step_ok a r a' r' \<Longrightarrow> c \<noteq> [] \<Longrightarrow> step_ok a r (a'\<lparr>ba_block_code := Some c\<rparr>) r'"
  by (rule step_ok_trans, assumption) (rule quiet_step; simp add: step_ok_rows quiet_block)

lemma step_refl: "row_inv r \<Longrightarrow> account_row_ok a \<Longrightarrow> step_ok a r a r"
  by (rule quiet_step) simp_all

section \<open>What the ledger read gives\<close>

lemma one_or_none_Inr: "one_or_none xs = Inr y \<longleftrightarrow> (case y of None \<Rightarrow> xs = [] | Some x \<Rightarrow> xs = [x])"
  by (auto simp: one_or_none_def split: list.splits option.splits)

lemma ledger_Inr:
  assumes "ledger sha run d = Inr (a, p, rows)"
  shows "a \<in> set (db_accounts d)" "ba_run_id a = run_id run" "policy_from_json (ba_policy_json a) = Inr p"
    "rows = reservation_rows (run_id run) d" "balanced p a rows"
    "\<And>r. r \<in> set rows \<Longrightarrow> r \<in> set (db_reservations d) \<and> rv_run_id r = ba_run_id a"
    "\<And>dm. 0 \<le> val (account_consumed dm a) \<and> 0 \<le> val (account_reserved dm a)"
    "ba_limits_checksum a = budget_checksum sha (run_limits_snapshot_json run)"
proof -
  from assms have one: "one_or_none (account_rows (run_id run) d) = Inr (Some a)"
    and p: "policy_from_json (ba_policy_json a) = Inr p" and rows: "rows = reservation_rows (run_id run) d"
    and turns: "check_dimension TURNS True a rows = Inr ()"
    and cost: "check_dimension COST (bp_max_cost_nanos p \<noteq> None) a rows = Inr ()"
    and lim: "ba_limits_checksum a = budget_checksum sha (run_limits_snapshot_json run)"
    by (auto simp: ledger_def ebind_Inr_iff Let_def split: option.splits if_splits)
  from one have "account_rows (run_id run) d = [a]" by (simp add: one_or_none_Inr)
  then have "a \<in> set (account_rows (run_id run) d)" by simp
  then show a: "a \<in> set (db_accounts d)" "ba_run_id a = run_id run" by (auto simp: account_rows_def)
  show "policy_from_json (ba_policy_json a) = Inr p" "rows = reservation_rows (run_id run) d"
    by (fact p, fact rows)
  show "balanced p a rows"
    unfolding balanced_def all_dimension using turns cost
    by (auto simp: check_dimension_def ebind_Inr_iff balance_agrees_Inr)
  show "\<And>r. r \<in> set rows \<Longrightarrow> r \<in> set (db_reservations d) \<and> rv_run_id r = ba_run_id a"
    using a by (auto simp: rows reservation_rows_def)
  show "\<And>dm. 0 \<le> val (account_consumed dm a) \<and> 0 \<le> val (account_reserved dm a)"
    subgoal for dm using turns cost
      by (cases dm) (auto simp: check_dimension_def ebind_Inr_iff balance_agrees_Inr)
    done
  show "ba_limits_checksum a = budget_checksum sha (run_limits_snapshot_json run)" by (fact lim)
qed

text \<open>The account and one of its reservations, as an operation finds them.\<close>

definition found :: "db \<Rightarrow> account_row \<Rightarrow> budget_policy \<Rightarrow> reservation_row \<Rightarrow> bool" where
  "found d a p r \<longleftrightarrow> a \<in> set (db_accounts d) \<and> r \<in> set (db_reservations d) \<and>
     rv_run_id r = ba_run_id a \<and> policy_from_json (ba_policy_json a) = Inr p \<and>
     (\<forall>dm. (row_consumed dm r = None \<longleftrightarrow> account_consumed dm a = None) \<and>
           (row_reserved dm r = None \<longleftrightarrow> account_reserved dm a = None) \<and>
           val (row_reserved dm r) \<le> val (account_reserved dm a) \<and>
           0 \<le> val (account_consumed dm a) \<and> 0 \<le> val (account_reserved dm a)) \<and>
     (ba_consumed_cost_nanos a \<noteq> None \<longleftrightarrow> bp_max_cost_nanos p \<noteq> None)"

lemma sum_member_le:
  fixes xs :: "int list"
  assumes "x \<in> set xs" "\<forall>y \<in> set xs. 0 \<le> y"
  shows "x \<le> sum_list xs"
  using assms
proof (induction xs)
  case Nil
  then show ?case by simp
next
  case (Cons y ys)
  have "0 \<le> sum_list ys" by (rule sum_list_nonneg) (use Cons.prems in simp)
  with Cons show ?case by auto
qed

lemma agrees_member:
  assumes "agrees v (map f rows)" "r \<in> set rows"
  shows "(f r = None \<longleftrightarrow> v = None) \<and> val (f r) \<le> val v"
proof -
  have "val (f r) \<le> sum_list (map val (map f rows))"
    by (rule sum_member_le) (use assms in \<open>auto simp: agrees_def\<close>)
  with assms show ?thesis unfolding agrees_def by auto
qed

lemma found_row:
  assumes "ledger sha run d = Inr (a, p, rows)" "r \<in> set rows"
  shows "found d a p r"
  using ledger_Inr [OF assms(1)] assms(2) agrees_member [of _ _ rows r]
  unfolding found_def balanced_def by blast

lemma find_in: "find P xs = Some x \<Longrightarrow> x \<in> set xs"
  by (auto simp: find_Some_iff)

lemma authorize_reconciliation_Inr:
  assumes "authorize_reconciliation sha clk claim d = Inr (a, p, r)"
  shows "found d a p r" "rv_id r = rc_reservation_id claim"
    "validate_reconciliation_claim sha r claim (clk 0) = Inr ()"
proof -
  from assms obtain run rows where l: "ledger sha run d = Inr (a, p, rows)"
    and r: "find_reservation (rc_reservation_id claim) rows = Some r"
    and v: "validate_reconciliation_claim sha r claim (clk 0) = Inr ()"
    by (auto simp: authorize_reconciliation_def reconciliation_rows_def ebind_Inr_iff
        split: option.splits prod.splits)
  from r have "r \<in> set rows" "rv_id r = rc_reservation_id claim"
    by (auto simp: find_reservation_def find_Some_iff)
  with found_row [OF l] v show "found d a p r" "rv_id r = rc_reservation_id claim"
    "validate_reconciliation_claim sha r claim (clk 0) = Inr ()" by simp_all
qed

lemma inv_found:
  assumes "budget_inv d" "found d a p r"
  shows "row_inv r" "account_row_ok a" "\<not> blocked a \<Longrightarrow> open_row r \<Longrightarrow> full_row r"
  using assms by (auto simp: budget_inv_def found_def account_inv_def rows_of_def)

section \<open>Writing a receipt\<close>

lemma record_receipt_Inr:
  assumes "record_receipt sha clk ids a p r claim key kind payload disp d = Inr (res, d')"
  shows "db_accounts d' = put_row ba_id (touch a) (db_accounts d)"
    "db_reservations d' = put_row rv_id r (db_reservations d)"
    "res = result_of (touch a) p r disp"
    "\<exists>receipt. db_receipts d' = db_receipts d @ [receipt] \<and> rp_reservation_id receipt = rv_id r \<and>
       rp_receipt_key receipt = key \<and> rp_payload_checksum receipt = receipt_checksum sha kind payload"
    "db_observations d' = db_observations d" "db_events d' = db_events d" "db_runs d' = db_runs d"
  using assms by (auto simp: record_receipt_def ebind_Inr_iff put_defs Let_def)

lemma receipt_keeps_inv:
  assumes "budget_inv d" "found d a p r" "step_ok a r a' r'"
    and "record_receipt sha clk ids a' p' r' claim key kind payload disp d = Inr (res, d')"
  shows "budget_inv d' \<and> budget_le d d'"
proof -
  have "appended (db_receipts d) (db_receipts d')" "appended (db_observations d) (db_observations d')"
    using record_receipt_Inr(4,5) [OF assms(4)] by auto
  then show ?thesis
    by (intro step_keeps_inv [OF assms(1) _ _ _ step_touch [OF assms(3)]])
      (use assms(2) record_receipt_Inr(1,2) [OF assms(4)] in \<open>auto simp: found_def\<close>)
qed

lemma put_account_keeps_inv:
  assumes "budget_inv d" "found d a p r" "quiet_account a a'"
  shows "budget_inv (put_account a' d) \<and> budget_le d (put_account a' d)"
proof -
  have "step_ok a r a' r" using inv_found [OF assms(1,2)] assms(3) by (intro quiet_step) simp_all
  moreover have "put_row rv_id r (db_reservations d) = db_reservations d"
  proof -
    have "x = r" if "x \<in> set (db_reservations d)" "rv_id x = rv_id r" for x
      using that assms(1,2) distinct_key_eq [of rv_id "db_reservations d" x r]
      by (simp add: budget_inv_def found_def)
    then have "(if rv_id x = rv_id r then r else x) = x" if "x \<in> set (db_reservations d)" for x
      using that by metis
    then show ?thesis unfolding put_row_def by (rule map_idI)
  qed
  ultimately show ?thesis
    by (intro step_keeps_inv [OF assms(1), of a r a' r])
      (use assms(2) in \<open>simp_all add: found_def put_account_def\<close>)
qed

lemma replay_keeps_inv:
  assumes "budget_inv d" "found d a p r"
    and "replay_receipt sha clk ids a p r claim key kind payload d = Inr (Some (res, d'))"
  shows "budget_inv d' \<and> budget_le d d'"
proof -
  let ?a = "a\<lparr>ba_block_code := Some ''receipt_conflict''\<rparr>"
  have s: "step_ok a r ?a r"
    using inv_found [OF assms(1,2)] by (intro step_block step_refl) simp_all
  have put: "budget_inv (put_account ?a d) \<and> budget_le d (put_account ?a d)"
    by (rule put_account_keeps_inv [OF assms(1,2)]) (rule quiet_block, simp)
  have rec: "budget_inv d'' \<and> budget_le d d''"
    if "record_receipt sha clk ids ?a p r claim k UNVERIFIABLE pl ''CONFLICT'' d = Inr (res', d'')"
    for k pl res' d''
    by (rule receipt_keeps_inv [OF assms(1,2) s that])
  from assms(3) show ?thesis
    using assms(1) put rec
    by (auto simp: replay_receipt_def ebind_Inr_iff Let_def split: option.splits if_splits)
qed

section \<open>Releasing and settling\<close>

lemma release_Inr:
  assumes "release a r = Inr (a', r')"
  shows "a' = (case rv_reserved_cost_nanos r of
      None \<Rightarrow> a\<lparr>ba_reserved_turns := ba_reserved_turns a - rv_reserved_turns r\<rparr>
    | Some c \<Rightarrow> a\<lparr>ba_reserved_turns := ba_reserved_turns a - rv_reserved_turns r,
                ba_reserved_cost_nanos := Some (val (ba_reserved_cost_nanos a) - c)\<rparr>)"
    and "r' = (case rv_reserved_cost_nanos r of
      None \<Rightarrow> r\<lparr>rv_reserved_turns := 0\<rparr>
    | Some c \<Rightarrow> r\<lparr>rv_reserved_turns := 0, rv_reserved_cost_nanos := Some 0\<rparr>)"
    and "rv_reserved_cost_nanos r \<noteq> None \<Longrightarrow> ba_reserved_cost_nanos a \<noteq> None"
  using assms
  by (auto simp: release_def ebind_Inr_iff stored_units_Inr Let_def split: option.splits)

lemma release_step:
  assumes rel: "release a r = Inr (a', r')" and row: "row_inv r" and acc: "account_row_ok a"
    and le: "\<And>dm. (row_reserved dm r = None \<longleftrightarrow> account_reserved dm a = None) \<and>
      val (row_reserved dm r) \<le> val (account_reserved dm a)"
    and closed: "row_inv (r'\<lparr>rv_status := s\<rparr>)" "s = SETTLED \<or> s = RELEASED" "status_le (rv_status r) s"
  shows "step_ok a r a' (r'\<lparr>rv_status := s\<rparr>)"
proof -
  note r = release_Inr [OF rel]
  have n: "0 \<le> rv_reserved_turns r" "0 \<le> val (rv_reserved_cost_nanos r)" "0 \<le> rv_consumed_turns r"
    "0 \<le> val (rv_consumed_cost_nanos r)"
    using row_inv_nonneg [OF row, of TURNS] row_inv_nonneg [OF row, of COST] by simp_all
  have lt: "rv_reserved_turns r \<le> ba_reserved_turns a"
    "val (rv_reserved_cost_nanos r) \<le> val (ba_reserved_cost_nanos a)"
    "rv_reserved_cost_nanos r = None \<longleftrightarrow> ba_reserved_cost_nanos a = None"
    using le [of TURNS] le [of COST] by simp_all
  have "account_row_ok a'"
    using acc lt r(3) unfolding r(1) by (auto simp: account_row_ok_def split: option.splits)
  moreover have "blocked a' \<longleftrightarrow> blocked a" unfolding r(1) by (simp add: blocked_def split: option.split)
  moreover have "\<not> open_row (r'\<lparr>rv_status := s\<rparr>)" using closed(2) by (auto simp: open_row_def)
  moreover have "account_le a a'"
    unfolding r(1) account_le_def all_dimension by (auto simp: blocked_def split: option.split)
  moreover have "row_le r (r'\<lparr>rv_status := s\<rparr>)"
    using closed(3) unfolding r(2) row_le_def all_dimension by (auto split: option.split)
  ultimately show ?thesis
    using closed(1) n lt unfolding step_ok_def all_dimension moves_def
    by (auto simp: r(1,2) split: option.splits)
qed

lemma row_inv_closed:
  assumes "release a r = Inr (a', r')" "row_inv r"
    and "s = SETTLED \<and> rv_start_intent_at r \<noteq> None \<and> rv_stop_confirmed_at r \<noteq> None \<and>
           rv_final_usage_at r \<noteq> None \<or>
         s = RELEASED \<and> rv_start_intent_at r = None \<and>
           (rv_status r = BUD_RESERVED \<or> rv_status r = RELEASED)"
  shows "row_inv (r'\<lparr>rv_status := s\<rparr>)"
  using assms(2,3) unfolding release_Inr(2) [OF assms(1)]
  by (auto simp: row_inv_def reservation_row_ok_def all_dimension split: option.splits)

lemma settle_step:
  assumes "settle_if_confirmed a r = Inr (a', r')" and row: "row_inv r" and acc: "account_row_ok a"
    and le: "\<And>dm. (row_reserved dm r = None \<longleftrightarrow> account_reserved dm a = None) \<and>
      val (row_reserved dm r) \<le> val (account_reserved dm a)"
    and start: "rv_start_intent_at r \<noteq> None"
  shows "step_ok a r a' r'"
proof (cases "rv_stop_confirmed_at r \<noteq> None \<and> rv_final_usage_at r \<noteq> None")
  case True
  with assms(1) obtain r1 where rel: "release a r = Inr (a', r1)" and r': "r' = r1\<lparr>rv_status := SETTLED\<rparr>"
    by (auto simp: settle_if_confirmed_def ebind_Inr_iff)
  have "row_inv (r1\<lparr>rv_status := SETTLED\<rparr>)"
    by (rule row_inv_closed [OF rel row]) (use True start in simp)
  moreover have "status_le (rv_status r) SETTLED"
    using row start by (cases "rv_status r") (auto simp: row_inv_def reservation_row_ok_def)
  ultimately show ?thesis unfolding r' by (intro release_step [OF rel row acc le]) simp_all
next
  case False
  have "settle_if_confirmed a r = Inr (a, r)"
    unfolding settle_if_confirmed_def by (rule if_not_P [OF False])
  with assms(1) show ?thesis using step_refl [OF row acc] by simp
qed

text \<open>What survives a step, for the next one.\<close>

lemma step_core_le:
  assumes "step_core a r a' r'"
    and "(row_reserved dm r = None \<longleftrightarrow> account_reserved dm a = None) \<and>
      val (row_reserved dm r) \<le> val (account_reserved dm a)"
  shows "(row_reserved dm r' = None \<longleftrightarrow> account_reserved dm a' = None) \<and>
      val (row_reserved dm r') \<le> val (account_reserved dm a')"
proof -
  have "moves (account_reserved dm a) (account_reserved dm a') (row_reserved dm r) (row_reserved dm r')"
    using assms(1) by (simp add: step_core_def)
  with assms(2) show ?thesis unfolding moves_def by linarith
qed

end
