(* ===== verification/Budget_Usage.thy ===== *)
theory Budget_Usage
  imports Budget_Ops
begin

text \<open>
  Recording usage keeps the invariant of the budget tables. One reported dimension moves its amount
  from reserved to consumed, in the row and in the account (\<open>apply_delta_step\<close>); what exceeds the
  grant, or arrives after the final report, leaves the account blocked, and otherwise nothing grows.
\<close>

section \<open>One dimension\<close>

text \<open>How the account and the row move when \<open>held\<close> units were reserved and \<open>delta\<close> are consumed.\<close>

definition settles_dim :: "int \<Rightarrow> int \<Rightarrow> account_row \<Rightarrow> reservation_row \<Rightarrow> dimension \<Rightarrow> account_row \<Rightarrow> reservation_row \<Rightarrow> bool" where
  "settles_dim delta held a r dm a' r' \<longleftrightarrow>
     row_reserved dm r = Some held \<and>
     row_consumed dm r \<noteq> None \<and> account_consumed dm a \<noteq> None \<and> account_reserved dm a \<noteq> None \<and>
     row_consumed dm r' = Some (val (row_consumed dm r) + delta) \<and>
     row_reserved dm r' = Some (held - min held delta) \<and>
     account_consumed dm a' = Some (val (account_consumed dm a) + delta) \<and>
     account_reserved dm a' = Some (val (account_reserved dm a) - min held delta) \<and>
     (\<forall>dm'. dm' \<noteq> dm \<longrightarrow> row_consumed dm' r' = row_consumed dm' r \<and>
        row_reserved dm' r' = row_reserved dm' r \<and>
        account_consumed dm' a' = account_consumed dm' a \<and>
        account_reserved dm' a' = account_reserved dm' a)"

text \<open>What a usage report leaves alone.\<close>

definition same_identity :: "account_row \<Rightarrow> reservation_row \<Rightarrow> account_row \<Rightarrow> reservation_row \<Rightarrow> bool" where
  "same_identity a r a' r' \<longleftrightarrow>
     ba_id a' = ba_id a \<and> ba_run_id a' = ba_run_id a \<and> ba_policy_json a' = ba_policy_json a \<and>
     ba_row_version a' = ba_row_version a \<and>
     rv_id r' = rv_id r \<and> rv_run_id r' = rv_run_id r \<and> rv_execution_key r' = rv_execution_key r \<and>
     rv_status r' = rv_status r \<and> rv_start_intent_at r' = rv_start_intent_at r \<and>
     rv_stop_confirmed_at r' = rv_stop_confirmed_at r \<and> rv_final_usage_at r' = rv_final_usage_at r \<and>
     rv_invocation_id r' = rv_invocation_id r \<and> rv_invocation_json r' = rv_invocation_json r \<and>
     rv_invocation_checksum r' = rv_invocation_checksum r \<and>
     rv_invocation_start_owner_hash r' = rv_invocation_start_owner_hash r \<and>
     rv_granted_turns r' = rv_granted_turns r \<and> rv_granted_cost_nanos r' = rv_granted_cost_nanos r"

definition late_block :: "reservation_row \<Rightarrow> int \<Rightarrow> account_row \<Rightarrow> account_row" where
  "late_block r delta a = (if rv_final_usage_at r \<noteq> None \<and> delta \<noteq> 0
     then a\<lparr>ba_block_code := Some ''usage_after_final_report''\<rparr> else a)"

definition advance_watermark :: "usage_report \<Rightarrow> dimension \<Rightarrow> reservation_row \<Rightarrow> reservation_row" where
  "advance_watermark report dm r = (case ur_watermark report of None \<Rightarrow> r
     | Some w \<Rightarrow> set_watermark dm (max (row_watermark dm r) w) r)"

lemma late_block_simps [simp]:
  "ba_id (late_block r delta a) = ba_id a" "ba_run_id (late_block r delta a) = ba_run_id a"
  "ba_policy_json (late_block r delta a) = ba_policy_json a"
  "ba_row_version (late_block r delta a) = ba_row_version a"
  "account_consumed dm (late_block r delta a) = account_consumed dm a"
  "account_reserved dm (late_block r delta a) = account_reserved dm a"
  "blocked (late_block r delta a) \<longleftrightarrow> blocked a \<or> rv_final_usage_at r \<noteq> None \<and> delta \<noteq> 0"
  by (cases dm; simp add: late_block_def blocked_def)+

lemma set_account_simps [simp]:
  "ba_id (set_account dm c h a) = ba_id a" "ba_run_id (set_account dm c h a) = ba_run_id a"
  "ba_policy_json (set_account dm c h a) = ba_policy_json a"
  "ba_row_version (set_account dm c h a) = ba_row_version a"
  "account_consumed dm' (set_account dm c h a) = (if dm' = dm then Some c else account_consumed dm' a)"
  "account_reserved dm' (set_account dm c h a) = (if dm' = dm then Some h else account_reserved dm' a)"
  "blocked (set_account dm c h a) \<longleftrightarrow> blocked a"
  by (cases dm; cases dm'; simp add: blocked_def)+

lemma set_watermark_identity [simp]:
  "same_identity a r a' (set_watermark dm w r') \<longleftrightarrow> same_identity a r a' r'"
  "row_consumed dm' (set_watermark dm w r') = row_consumed dm' r'"
  "row_reserved dm' (set_watermark dm w r') = row_reserved dm' r'"
  "row_granted dm' (set_watermark dm w r') = row_granted dm' r'"
  "rv_final_usage_at (set_watermark dm w r') = rv_final_usage_at r'"
  by (cases dm; cases dm'; simp add: same_identity_def)+

lemma set_row_identity [simp]:
  "same_identity a r a' (set_row dm c h r') \<longleftrightarrow> same_identity a r a' r'"
  "row_consumed dm' (set_row dm c h r') = (if dm' = dm then Some c else row_consumed dm' r')"
  "row_reserved dm' (set_row dm c h r') = (if dm' = dm then Some h else row_reserved dm' r')"
  "row_granted dm' (set_row dm c h r') = row_granted dm' r'"
  "rv_final_usage_at (set_row dm c h r') = rv_final_usage_at r'"
  by (cases dm; cases dm'; simp add: same_identity_def)+

lemma advance_watermark_simps [simp]:
  "same_identity a r a' (advance_watermark report dm r') \<longleftrightarrow> same_identity a r a' r'"
  "row_consumed dm' (advance_watermark report dm r') = row_consumed dm' r'"
  "row_reserved dm' (advance_watermark report dm r') = row_reserved dm' r'"
  "row_granted dm' (advance_watermark report dm r') = row_granted dm' r'"
  "rv_final_usage_at (advance_watermark report dm r') = rv_final_usage_at r'"
  by (simp_all add: advance_watermark_def split: option.split)

lemma apply_delta_Inr:
  assumes "apply_delta report (dm, delta) (a, r, over) = Inr (a', r', over')"
  shows "\<exists>held. settles_dim delta held a r dm a' r'" "same_identity a r a' r'"
    "row_granted dm r \<noteq> None"
    "over' \<longleftrightarrow> over \<or> val (row_consumed dm r) + delta > val (row_granted dm r)"
    "blocked a' \<longleftrightarrow> blocked a \<or> rv_final_usage_at r \<noteq> None \<and> delta \<noteq> 0"
proof -
  from assms obtain held consumed total reserved where
    u: "py_int (row_reserved dm r) = Inr held" "stored_units (row_consumed dm r) = Inr consumed"
      "stored_units (account_consumed dm a) = Inr total"
      "stored_units (account_reserved dm a) = Inr reserved"
    unfolding apply_delta_def Let_def prod.case ebind_Inr_iff by blast
  then have v: "row_reserved dm r = Some held" "row_consumed dm r = Some consumed"
      "account_consumed dm a = Some total" "account_reserved dm a = Some reserved"
      "0 \<le> consumed" "0 \<le> total" "0 \<le> reserved"
    by (simp_all add: stored_units_Inr py_int_def split: option.splits)
  have "apply_delta report (dm, delta) (a, r, over) =
      ebind (py_int (row_granted dm r)) (\<lambda>granted.
        let r1 = advance_watermark report dm (set_row dm (consumed + delta) (held - min held delta) r);
            a1 = late_block r1 delta (set_account dm (total + delta) (reserved - min held delta) a)
        in Inr (a1, r1, over \<or> consumed + delta > granted))"
    using v unfolding apply_delta_def Let_def
    by (simp add: stored_units_def py_int_def advance_watermark_def late_block_def split: option.split)
  with assms obtain granted where g: "row_granted dm r = Some granted"
    and r': "r' = advance_watermark report dm (set_row dm (consumed + delta) (held - min held delta) r)"
    and a': "a' = late_block r' delta (set_account dm (total + delta) (reserved - min held delta) a)"
    and over': "over' = (over \<or> consumed + delta > granted)"
    by (auto simp: ebind_Inr_iff py_int_def Let_def split: option.splits)
  note v = v g
  show "\<exists>held. settles_dim delta held a r dm a' r'"
    unfolding settles_dim_def using v by (auto simp: a' r')
  have "same_identity a r a r" by (simp add: same_identity_def)
  then have "same_identity a r a r'" unfolding r' by simp
  then show "same_identity a r a' r'" by (simp add: a' same_identity_def)
  show "row_granted dm r \<noteq> None" using v by simp
  show "over' \<longleftrightarrow> over \<or> val (row_consumed dm r) + delta > val (row_granted dm r)"
    using v by (simp add: over')
  show "blocked a' \<longleftrightarrow> blocked a \<or> rv_final_usage_at r \<noteq> None \<and> delta \<noteq> 0"
    unfolding a' by (simp add: r')
qed

text \<open>The check constraints, by dimension.\<close>

lemma account_row_ok_iff:
  "account_row_ok a \<longleftrightarrow>
     (\<forall>dm. 0 \<le> val (account_consumed dm a) \<and> 0 \<le> val (account_reserved dm a)) \<and>
     (account_consumed COST a = None \<longleftrightarrow> account_reserved COST a = None) \<and> 1 \<le> ba_row_version a"
  by (auto simp: account_row_ok_def all_dimension split: option.splits)

definition row_amounts_ok :: "reservation_row \<Rightarrow> bool" where
  "row_amounts_ok r \<longleftrightarrow> 0 < val (row_granted TURNS r) \<and>
     (\<forall>dm. 0 \<le> val (row_consumed dm r) \<and> 0 \<le> val (row_reserved dm r) \<and>
           (\<forall>g \<in> set_option (row_granted dm r). 0 < g \<and> val (row_reserved dm r) \<le> g) \<and>
           (row_consumed dm r = None \<longleftrightarrow> row_granted dm r = None) \<and>
           (row_reserved dm r = None \<longleftrightarrow> row_granted dm r = None)) \<and>
     (rv_status r = SETTLED \<or> rv_status r = RELEASED \<longrightarrow> (\<forall>dm. val (row_reserved dm r) = 0)) \<and>
     (rv_status r = RELEASED \<or> rv_status r = BUD_RESERVED \<longrightarrow> (\<forall>dm. val (row_consumed dm r) = 0))"

definition row_state_ok :: "reservation_row \<Rightarrow> bool" where
  "row_state_ok r \<longleftrightarrow>
     ((rv_invocation_id r = None \<and> rv_invocation_json r = None \<and> rv_invocation_checksum r = None) \<or>
      (rv_invocation_id r \<noteq> None \<and> rv_invocation_json r \<noteq> None \<and> rv_invocation_checksum r \<noteq> None)) \<and>
     (\<forall>h \<in> set_option (rv_invocation_start_owner_hash r).
        rv_invocation_id r \<noteq> None \<and> rv_invocation_json r \<noteq> None \<and> rv_invocation_checksum r \<noteq> None \<and>
        owner_hash_text h) \<and>
     (if rv_status r = BUD_RESERVED \<or> rv_status r = RELEASED then rv_start_intent_at r = None
      else rv_start_intent_at r \<noteq> None) \<and>
     (rv_status r = SETTLED \<longrightarrow> rv_stop_confirmed_at r \<noteq> None \<and> rv_final_usage_at r \<noteq> None)"

lemma row_inv_iff: "row_inv r \<longleftrightarrow> row_amounts_ok r \<and> row_state_ok r"
  unfolding row_inv_def reservation_row_ok_def row_amounts_ok_def row_state_ok_def all_dimension
  by (cases "rv_granted_cost_nanos r"; cases "rv_reserved_cost_nanos r"; cases "rv_consumed_cost_nanos r")
    auto

lemma apply_delta_step:
  assumes app: "apply_delta report (dm, delta) (a, r, over) = Inr (a', r', over')"
    and delta: "0 \<le> delta" and row: "row_inv r" and acc: "account_row_ok a"
    and le: "\<And>dm. (row_reserved dm r = None \<longleftrightarrow> account_reserved dm a = None) \<and>
      val (row_reserved dm r) \<le> val (account_reserved dm a)"
    and st: "rv_status r = START_INTENT \<or> rv_status r = SETTLED"
    and full: "\<not> blocked a \<Longrightarrow> \<not> over \<Longrightarrow> open_row r \<Longrightarrow> full_row r"
  shows "step_core a r a' r'" "over \<Longrightarrow> over'" "\<not> blocked a' \<Longrightarrow> \<not> over' \<Longrightarrow> calm a r a' r'"
proof -
  note same = apply_delta_Inr(2) [OF app] and over' = apply_delta_Inr(4) [OF app]
    and block = apply_delta_Inr(5) [OF app] and granted = apply_delta_Inr(3) [OF app]
  obtain held where d: "settles_dim delta held a r dm a' r'" using apply_delta_Inr(1) [OF app] by blast
  have nn: "0 \<le> val (row_consumed dm' r)" "0 \<le> val (row_reserved dm' r)" for dm'
    using row_inv_nonneg [OF row] by simp_all
  have held: "row_reserved dm r = Some held" "0 \<le> held" "held \<le> val (account_reserved dm a)"
    using d nn(2) [of dm] le [of dm] by (simp_all add: settles_dim_def)
  have nna: "0 \<le> val (account_consumed dm' a)" "0 \<le> val (account_reserved dm' a)" for dm'
    using acc by (cases dm'; simp add: account_row_ok_def split: option.splits)+
  have closed: "rv_status r = SETTLED \<Longrightarrow> held = 0"
    using row held(1) by (cases dm) (auto simp: row_inv_def reservation_row_ok_def)
  show "over \<Longrightarrow> over'" using over' by simp
  have gr: "row_granted dm' r' = row_granted dm' r" for dm'
    using same by (cases dm') (simp_all add: same_identity_def)
  have acc': "account_row_ok a'" unfolding account_row_ok_iff
  proof (intro conjI allI)
    fix dm'
    show "0 \<le> val (account_consumed dm' a')" "0 \<le> val (account_reserved dm' a')"
      using d nna [of dm'] delta held by (cases "dm' = dm"; simp add: settles_dim_def)+
    show "account_consumed COST a' = None \<longleftrightarrow> account_reserved COST a' = None"
      using d acc [unfolded account_row_ok_iff]
      by (cases dm) (auto simp: settles_dim_def)
    show "1 \<le> ba_row_version a'" using same acc by (simp add: same_identity_def account_row_ok_def)
  qed
  have amounts: "row_amounts_ok r" and state: "row_state_ok r" using row by (simp_all add: row_inv_iff)
  have "row_state_ok r'" using state same by (simp add: row_state_ok_def same_identity_def)
  moreover have "0 \<le> val (row_consumed dm' r') \<and> 0 \<le> val (row_reserved dm' r') \<and>
      val (row_reserved dm' r') \<le> val (row_reserved dm' r) \<and>
      (row_consumed dm' r' = None \<longleftrightarrow> row_consumed dm' r = None) \<and>
      (row_reserved dm' r' = None \<longleftrightarrow> row_reserved dm' r = None)" for dm'
    using d nn [of dm'] delta held by (cases "dm' = dm") (auto simp: settles_dim_def)
  then have "row_amounts_ok r'"
    using amounts gr st same unfolding row_amounts_ok_def same_identity_def
    by (smt (verit) budget_status.distinct)
  ultimately have row': "row_inv r'" by (simp add: row_inv_iff)
  have mv: "moves (account_consumed dm' a) (account_consumed dm' a') (row_consumed dm' r) (row_consumed dm' r') \<and>
      moves (account_reserved dm' a) (account_reserved dm' a') (row_reserved dm' r) (row_reserved dm' r')" for dm'
    using d nn [of dm'] delta held
    by (cases "dm' = dm") (auto simp: settles_dim_def moves_def)
  have mono: "val (row_consumed dm' r) \<le> val (row_consumed dm' r')"
    "val (account_consumed dm' a) \<le> val (account_consumed dm' a')" for dm'
    using d delta by (cases "dm' = dm"; auto simp: settles_dim_def)+
  have "account_le a a'" "row_le r r'"
    using mono same block by (simp_all add: account_le_def row_le_def same_identity_def)
  then show "step_core a r a' r'"
    unfolding step_core_def using acc' row' mv same block by (simp add: same_identity_def)
  show "calm a r a' r'" if nb: "\<not> blocked a'" and no: "\<not> over'"
  proof -
    have all: "min held delta = delta"
    proof (cases "rv_status r = SETTLED")
      case True
      then have "rv_final_usage_at r \<noteq> None" using row by (simp add: row_inv_def reservation_row_ok_def)
      with nb block have "delta = 0" by blast
      then show ?thesis using held(2) by simp
    next
      case False
      with st have "open_row r" by (simp add: open_row_def)
      moreover have "\<not> blocked a" "\<not> over" using nb block no over' by simp_all
      ultimately have "full_row r" by (intro full)
      then have "val (row_consumed dm r) + val (row_reserved dm r) = val (row_granted dm r)"
        unfolding full_row_def by blast
      then have "val (row_consumed dm r) + held = val (row_granted dm r)" by (simp add: held(1))
      with no over' have "delta \<le> held" by linarith
      then show ?thesis by simp
    qed
    have sums: "val (row_consumed dm' r') + val (row_reserved dm' r')
        = val (row_consumed dm' r) + val (row_reserved dm' r)"
      "val (account_consumed dm' a') + val (account_reserved dm' a')
        = val (account_consumed dm' a) + val (account_reserved dm' a)" for dm'
      using d all by (cases "dm' = dm"; auto simp: settles_dim_def)+
    have "open_row r' \<longleftrightarrow> open_row r" using same by (simp add: open_row_def same_identity_def)
    moreover have "full_row r' \<longleftrightarrow> full_row r" by (simp add: full_row_def gr sums(1))
    ultimately show ?thesis by (simp add: calm_def sums(2))
  qed
qed

section \<open>A report\<close>

lemma apply_deltas_step:
  assumes "apply_deltas report dds (a, r, over) = Inr (a', r', over')"
    and "\<forall>dd \<in> set dds. 0 \<le> snd dd" and "row_inv r" and "account_row_ok a"
    and "\<forall>dm. (row_reserved dm r = None \<longleftrightarrow> account_reserved dm a = None) \<and>
      val (row_reserved dm r) \<le> val (account_reserved dm a)"
    and "rv_status r = START_INTENT \<or> rv_status r = SETTLED"
    and "\<not> blocked a \<longrightarrow> \<not> over \<longrightarrow> open_row r \<longrightarrow> full_row r"
  shows "step_core a r a' r' \<and> same_identity a r a' r' \<and> (over \<longrightarrow> over') \<and>
    (\<not> blocked a' \<longrightarrow> \<not> over' \<longrightarrow> calm a r a' r')"
  using assms
proof (induction dds arbitrary: a r over)
  case Nil
  have "step_ok a r a r" using Nil.prems by (intro step_refl)
  then show ?case using Nil.prems(1) by (auto simp: step_ok_iff same_identity_def)
next
  case (Cons dd dds)
  obtain dm delta where dd: "dd = (dm, delta)" by (cases dd)
  from Cons.prems(1) obtain a1 r1 over1
    where app: "apply_delta report (dm, delta) (a, r, over) = Inr (a1, r1, over1)"
      and rest: "apply_deltas report dds (a1, r1, over1) = Inr (a', r', over')"
    unfolding dd by (auto simp: ebind_Inr_iff)
  have step: "step_core a r a1 r1" "over \<Longrightarrow> over1" "\<not> blocked a1 \<Longrightarrow> \<not> over1 \<Longrightarrow> calm a r a1 r1"
    using apply_delta_step [OF app] Cons.prems unfolding dd by auto
  have same: "same_identity a r a1 r1" by (rule apply_delta_Inr(2) [OF app])
  have full: "\<not> blocked a1 \<longrightarrow> \<not> over1 \<longrightarrow> open_row r1 \<longrightarrow> full_row r1"
    using step Cons.prems(7) unfolding calm_def step_core_def by blast
  have "step_core a1 r1 a' r' \<and> same_identity a1 r1 a' r' \<and> (over1 \<longrightarrow> over') \<and>
    (\<not> blocked a' \<longrightarrow> \<not> over' \<longrightarrow> calm a1 r1 a' r')"
  proof (rule Cons.IH [OF rest])
    show "\<forall>dd \<in> set dds. 0 \<le> snd dd" using Cons.prems(2) by simp
    show "row_inv r1" "account_row_ok a1" using step(1) by (simp_all add: step_core_def)
    show "\<forall>dm. (row_reserved dm r1 = None \<longleftrightarrow> account_reserved dm a1 = None) \<and>
        val (row_reserved dm r1) \<le> val (account_reserved dm a1)"
      using step_core_le [OF step(1)] Cons.prems(5) by blast
    show "rv_status r1 = START_INTENT \<or> rv_status r1 = SETTLED"
      using Cons.prems(6) same by (simp add: same_identity_def)
    show "\<not> blocked a1 \<longrightarrow> \<not> over1 \<longrightarrow> open_row r1 \<longrightarrow> full_row r1" by (rule full)
  qed
  moreover from this have "step_core a r a' r'" using step_core_trans [OF step(1)] by blast
  ultimately show ?case
    using step same calm_trans [of a r a1 r1 a' r']
    by (auto simp: same_identity_def step_core_def)
qed

text \<open>One step of the first loop.\<close>

lemma usage_deltas_Some:
  assumes "usage_deltas report row ((dm, Some v) # ds) invalid = Inr (invalid', deltas)"
  shows "\<exists>invalid1 delta deltas1. deltas = (dm, delta) # deltas1 \<and>
     usage_deltas report row ds invalid1 = Inr (invalid', deltas1) \<and>
     (delta = v \<or> 0 \<le> delta) \<and>
     (invalid1 = invalid \<or> (\<exists>why. why \<noteq> [] \<and> invalid1 = Some why))"
proof -
  let ?m = "\<lambda>consumed. if ur_mode report = CUMULATIVE then
          (case ur_watermark report of
             None \<Rightarrow> Inl AssertionError
           | Some w \<Rightarrow>
               let previous = row_watermark dm row;
                   stale = ur_final report \<and> w < previous;
                   conflict = w \<ge> previous \<and> v < consumed \<or> w \<le> previous \<and> v > consumed
               in Inr (if conflict
                       then Some ''cumulative_usage_conflict''
                       else if stale then Some ''stale_final_usage'' else invalid,
                       max 0 (v - consumed)))
        else Inr (invalid, v)"
  from assms obtain consumed y where y: "?m consumed = Inr y"
    and more: "(case y of (invalid, delta) \<Rightarrow> ebind (usage_deltas report row ds invalid)
      (\<lambda>(invalid, deltas). Inr (invalid, (dm, delta) # deltas))) = Inr (invalid', deltas)"
    unfolding usage_deltas.simps ebind_Inr_iff by blast
  obtain invalid1 delta where p: "y = (invalid1, delta)" by (cases y)
  have m: "?m consumed = Inr (invalid1, delta)" using y unfolding p .
  from more obtain deltas1 where rest: "usage_deltas report row ds invalid1 = Inr (invalid', deltas1)"
    and deltas: "deltas = (dm, delta) # deltas1"
    unfolding p by (auto simp: ebind_Inr_iff)
  from m have "delta = v \<or> 0 \<le> delta"
    "invalid1 = invalid \<or> (\<exists>why. why \<noteq> [] \<and> invalid1 = Some why)"
    by (auto simp: Let_def split: if_splits option.splits)
  with rest deltas show ?thesis by blast
qed

lemma usage_deltas_facts:
  assumes "usage_deltas report row ds invalid = Inr (invalid', deltas)"
    and "\<And>dm v. (dm, Some v) \<in> set ds \<Longrightarrow> 0 \<le> v"
  shows "(\<forall>dd \<in> set deltas. 0 \<le> snd dd) \<and> (invalid' = None \<longrightarrow> invalid = None) \<and>
    (invalid \<noteq> Some [] \<longrightarrow> invalid' \<noteq> Some [])"
  using assms
proof (induction ds arbitrary: invalid deltas)
  case Nil
  then show ?case by simp
next
  case (Cons x ds)
  obtain dm v where x: "x = (dm, v)" by (cases x)
  show ?case
  proof (cases v)
    case None
    have "usage_deltas report row ds invalid = Inr (invalid', deltas)"
      using Cons.prems(1) unfolding x None by simp
    then show ?thesis using Cons.prems(2) by (intro Cons.IH) auto
  next
    case (Some n)
    from usage_deltas_Some [OF Cons.prems(1) [unfolded x Some]] obtain invalid1 delta deltas1
      where u: "deltas = (dm, delta) # deltas1"
        "usage_deltas report row ds invalid1 = Inr (invalid', deltas1)"
        "delta = n \<or> 0 \<le> delta" "invalid1 = invalid \<or> (\<exists>why. why \<noteq> [] \<and> invalid1 = Some why)"
      by blast
    have "0 \<le> n" using Cons.prems(2) [of dm n] x Some by simp
    with u(3) have "0 \<le> delta" by blast
    moreover have "(\<forall>dd \<in> set deltas1. 0 \<le> snd dd) \<and> (invalid' = None \<longrightarrow> invalid1 = None) \<and>
      (invalid1 \<noteq> Some [] \<longrightarrow> invalid' \<noteq> Some [])"
      using Cons.prems(2) by (intro Cons.IH [OF u(2)]) auto
    ultimately show ?thesis using u(1,4) by auto
  qed
qed

lemma report_dimensions_nonneg:
  "report_ok report \<Longrightarrow> (dm, Some v) \<in> set (report_dimensions report policy) \<Longrightarrow> 0 \<le> v"
  by (auto simp: report_dimensions_def report_ok_def units_ok_def split: if_splits)

text \<open>Overspending blocks, so nothing is claimed about the amounts.\<close>

lemma step_overspent:
  assumes "step_core a r a' r'" "\<not> blocked a' \<Longrightarrow> \<not> over \<Longrightarrow> calm a r a' r'"
  shows "step_ok a r (if over then a'\<lparr>ba_block_code := Some ''budget_overspent''\<rparr> else a') r'"
proof (cases over)
  case False
  with assms show ?thesis by (simp add: step_ok_iff)
next
  case True
  let ?a = "a'\<lparr>ba_block_code := Some ''budget_overspent''\<rparr>"
  have q: "quiet_account a' ?a" by (rule quiet_block) simp
  have "step_ok a' r' ?a r'"
    using assms(1) q by (intro quiet_step) (simp_all add: step_core_def)
  then have "step_core a r ?a r'" using assms(1) step_core_trans unfolding step_ok_iff by blast
  moreover have "blocked ?a" by (simp add: blocked_def)
  ultimately show ?thesis using True by (simp add: step_ok_iff)
qed

text \<open>Confirming the stop or the final usage changes no amount.\<close>

lemma row_confirm_simps [simp]:
  "row_consumed dm (r\<lparr>rv_final_usage_at := t\<rparr>) = row_consumed dm r"
  "row_reserved dm (r\<lparr>rv_final_usage_at := t\<rparr>) = row_reserved dm r"
  "row_granted dm (r\<lparr>rv_final_usage_at := t\<rparr>) = row_granted dm r"
  "row_consumed dm (r\<lparr>rv_stop_confirmed_at := t\<rparr>) = row_consumed dm r"
  "row_reserved dm (r\<lparr>rv_stop_confirmed_at := t\<rparr>) = row_reserved dm r"
  "row_granted dm (r\<lparr>rv_stop_confirmed_at := t\<rparr>) = row_granted dm r"
  by (cases dm; simp)+

text \<open>\<^verbatim>\<open>row.stop_confirmed_at or now\<close>: the first confirmation stays.\<close>

lemma quiet_confirm:
  "quiet_row r (r\<lparr>rv_final_usage_at := Some (case rv_final_usage_at r of None \<Rightarrow> t | Some u \<Rightarrow> u)\<rparr>)"
  "quiet_row r (r\<lparr>rv_stop_confirmed_at := Some (case rv_stop_confirmed_at r of None \<Rightarrow> t | Some u \<Rightarrow> u)\<rparr>)"
  by (simp_all add: quiet_row_def row_le_def kept_def split: option.split)

lemma row_inv_confirm:
  assumes "row_inv r"
  shows "row_inv (r\<lparr>rv_final_usage_at := Some t\<rparr>)" "row_inv (r\<lparr>rv_stop_confirmed_at := Some t\<rparr>)"
  using assms by (simp_all add: row_inv_iff row_amounts_ok_def row_state_ok_def)

text \<open>What a delivered report did: replayed, rejected with a reason, or applied.\<close>

definition usage_reason :: "reservation_row \<Rightarrow> usage_report \<Rightarrow> budget_policy \<Rightarrow> string option" where
  "usage_reason r report p = (if rv_status r = BUD_RESERVED \<or> rv_status r = RELEASED
      then Some ''usage_without_start_intent'' else if metering_mismatch report p
      then Some ''metering_identity_mismatch'' else None)"

definition overspent_account :: "bool \<Rightarrow> account_row \<Rightarrow> account_row" where
  "overspent_account over a = (if over then a\<lparr>ba_block_code := Some ''budget_overspent''\<rparr> else a)"

definition final_row :: "usage_report \<Rightarrow> budget_policy \<Rightarrow> time \<Rightarrow> reservation_row \<Rightarrow> reservation_row" where
  "final_row report p now r =
     (if ur_final report \<and> list_all (\<lambda>(_, v). v \<noteq> None) (report_dimensions report p)
      then r\<lparr>rv_final_usage_at := Some (case rv_final_usage_at r of None \<Rightarrow> now | Some t \<Rightarrow> t)\<rparr> else r)"

lemma record_usage_elim:
  assumes run: "record_usage sha clk ids claim report d = Inr (res, d')" and ok: "report_ok report"
    and auth: "authorize_reconciliation sha clk claim d = Inr (a, p, r)"
  obtains
      (replay) "replay_receipt sha (\<lambda>i. clk (i + 1)) ids a p r claim (ur_report_key report) USAGE
        (report_to_json report) d = Inr (Some (res, d'))"
    | (rejected) why where "find_receipt r (ur_report_key report) d = Inr None" "why \<noteq> []"
        "record_receipt sha (\<lambda>i. clk (i + 1)) ids (a\<lparr>ba_block_code := Some why\<rparr>) p r claim
          (ur_report_key report) USAGE (report_to_json report) ''INVALID'' d = Inr (res, d')"
    | (applied) deltas a1 r1 over a3 r3 where "find_receipt r (ur_report_key report) d = Inr None"
        "rv_status r = START_INTENT \<or> rv_status r = SETTLED" "\<forall>dd \<in> set deltas. 0 \<le> snd dd"
        "apply_deltas report deltas (a, r, False) = Inr (a1, r1, over)"
        "settle_if_confirmed (overspent_account over a1) (final_row report p (clk 1) r1) = Inr (a3, r3)"
        "record_receipt sha (\<lambda>i. clk (i + 2)) ids a3 p r3 claim (ur_report_key report) USAGE
          (report_to_json report) (if over then ''OVERSPENT'' else ''APPLIED'') d = Inr (res, d')"
proof -
  let ?key = "ur_report_key report" and ?payload = "report_to_json report" and ?ds = "report_dimensions report p"
  let ?replay = "replay_receipt sha (\<lambda>i. clk (i + 1)) ids a p r claim ?key USAGE ?payload d"
  from run auth obtain again where again: "?replay = Inr again"
    by (auto simp: record_usage_def ebind_Inr_iff Let_def)
  show thesis
  proof (cases again)
    case (Some x)
    with run auth again have "?replay = Inr (Some (res, d'))"
      by (auto simp: record_usage_def ebind_Inr_iff Let_def)
    then show thesis by (rule replay)
  next
    case None
    from again obtain x where x: "find_receipt r ?key d = Inr x"
      by (auto simp: replay_receipt_def ebind_Inr_iff)
    have none: "find_receipt r ?key d = Inr None"
      by (cases x) (use again None x in
        \<open>auto simp: replay_receipt_def ebind_Inr_iff Let_def split: if_splits\<close>)
    from run auth again None obtain invalid deltas
      where ud: "usage_deltas report r ?ds (usage_reason r report p) = Inr (invalid, deltas)"
      by (auto simp: record_usage_def ebind_Inr_iff Let_def usage_reason_def [symmetric])
    have facts: "(\<forall>dd \<in> set deltas. 0 \<le> snd dd) \<and> (invalid = None \<longrightarrow> usage_reason r report p = None) \<and>
        (usage_reason r report p \<noteq> Some [] \<longrightarrow> invalid \<noteq> Some [])"
      by (rule usage_deltas_facts [OF ud]) (rule report_dimensions_nonneg [OF ok])
    show thesis
    proof (cases invalid)
      case why: (Some why)
      with run auth again None ud have
        "record_receipt sha (\<lambda>i. clk (i + 1)) ids (a\<lparr>ba_block_code := Some why\<rparr>) p r claim
           ?key USAGE ?payload ''INVALID'' d = Inr (res, d')"
        by (simp add: record_usage_def Let_def usage_reason_def [symmetric])
      moreover have "why \<noteq> []" using facts why by (auto simp: usage_reason_def split: if_splits)
      ultimately show thesis using none by (intro rejected)
    next
      case valid: None
      have st: "rv_status r = START_INTENT \<or> rv_status r = SETTLED"
        using facts valid by (cases "rv_status r") (auto simp: usage_reason_def split: if_splits)
      have "ebind (apply_deltas report deltas (a, r, False)) (\<lambda>(account, row, over).
          ebind (settle_if_confirmed (overspent_account over account) (final_row report p (clk 1) row))
            (\<lambda>(account, row). record_receipt sha (\<lambda>i. clk (i + 2)) ids account p row claim ?key USAGE ?payload
              (if over then ''OVERSPENT'' else ''APPLIED'') d)) = Inr (res, d')"
        using run auth again None ud valid
        by (simp add: record_usage_def Let_def usage_reason_def [symmetric] overspent_account_def final_row_def
            del: One_nat_def)
      then obtain a1 r1 over a3 r3 where
        "apply_deltas report deltas (a, r, False) = Inr (a1, r1, over)"
        "settle_if_confirmed (overspent_account over a1) (final_row report p (clk 1) r1) = Inr (a3, r3)"
        "record_receipt sha (\<lambda>i. clk (i + 2)) ids a3 p r3 claim ?key USAGE ?payload
          (if over then ''OVERSPENT'' else ''APPLIED'') d = Inr (res, d')"
        by (auto simp: ebind_Inr_iff)
      with none st facts show thesis by (intro applied) auto
    qed
  qed
qed

lemma final_row_facts:
  "quiet_row r (final_row report p t r)" "row_inv r \<Longrightarrow> row_inv (final_row report p t r)"
  "open_row (final_row report p t r) \<longleftrightarrow> open_row r"
  "rv_start_intent_at (final_row report p t r) = rv_start_intent_at r"
  using quiet_confirm(1) row_inv_confirm(1) by (simp_all add: final_row_def open_row_def)

lemma record_usage_keeps_inv:
  assumes inv: "budget_inv d" and ok: "report_ok report"
    and run: "record_usage sha clk ids claim report d = Inr (res, d')"
  shows "budget_inv d' \<and> budget_le d d'"
proof -
  from run obtain a p r where auth: "authorize_reconciliation sha clk claim d = Inr (a, p, r)"
    by (auto simp: record_usage_def ebind_Inr_iff)
  note f = authorize_reconciliation_Inr(1) [OF auth]
  note rows = inv_found [OF inv f]
  from run ok auth show ?thesis
  proof (cases rule: record_usage_elim)
    case replay
    then show ?thesis by (rule replay_keeps_inv [OF inv f])
  next
    case (rejected why)
    have "step_ok a r (a\<lparr>ba_block_code := Some why\<rparr>) r"
      using rejected(2) rows by (intro step_block step_refl) auto
    then show ?thesis by (rule receipt_keeps_inv [OF inv f _ rejected(3)])
  next
    case (applied deltas a1 r1 over a3 r3)
    let ?a2 = "overspent_account over a1" and ?r2 = "final_row report p (clk 1) r1"
    have le: "(row_reserved dm r = None \<longleftrightarrow> account_reserved dm a = None) \<and>
        val (row_reserved dm r) \<le> val (account_reserved dm a)" for dm
      using f by (simp add: found_def)
    have core: "step_core a r a1 r1" "same_identity a r a1 r1"
      "\<not> blocked a1 \<Longrightarrow> \<not> over \<Longrightarrow> calm a r a1 r1"
      using apply_deltas_step [OF applied(4,3) rows(1,2) _ applied(2)] le rows(3) by auto
    have s2: "step_ok a r ?a2 r1"
      unfolding overspent_account_def using core(1,3) by (rule step_overspent)
    have "step_ok ?a2 r1 ?a2 ?r2"
      using step_ok_rows [OF s2] by (intro quiet_step) (simp_all add: final_row_facts)
    then have s2': "step_ok a r ?a2 ?r2" by (rule step_ok_trans [OF s2])
    have "rv_start_intent_at ?r2 \<noteq> None"
      using applied(2) core(2) rows(1) by (auto simp: final_row_facts same_identity_def row_inv_iff row_state_ok_def)
    moreover have "(row_reserved dm ?r2 = None \<longleftrightarrow> account_reserved dm ?a2 = None) \<and>
        val (row_reserved dm ?r2) \<le> val (account_reserved dm ?a2)" for dm
      using step_core_le [OF _ le] s2' unfolding step_ok_iff by blast
    ultimately have "step_ok ?a2 ?r2 a3 r3"
      using step_ok_rows [OF s2'] by (intro settle_step [OF applied(5)]) auto
    then have "step_ok a r a3 r3" by (rule step_ok_trans [OF s2'])
    then show ?thesis by (rule receipt_keeps_inv [OF inv f _ applied(6)])
  qed
qed

end
