(* ===== verification/Budget_Commands.thy ===== *)
theory Budget_Commands
  imports Budget_Usage
begin

text \<open>
  The transactions of the budget ledger as commands, and the interpretations of \<open>transactional\<close> and
  \<open>transactional_history\<close> for them: any sequence of commands, with any exceptions in between, keeps
  the invariant of the tables and only ever adds to the record of what happened.
\<close>

section \<open>The remaining reconciliation operations\<close>

text \<open>A digest, as \<^verbatim>\<open>hashlib\<close> promises: sixty-four lower-case hexadecimal digits.\<close>

definition digest_ok :: "digest \<Rightarrow> bool" where
  "digest_ok sha \<longleftrightarrow> (\<forall>t. hex64 (sha t))"

lemma found_le:
  assumes "found d a p r"
  shows "(row_reserved dm r = None \<longleftrightarrow> account_reserved dm a = None) \<and>
    val (row_reserved dm r) \<le> val (account_reserved dm a)"
  using assms by (simp add: found_def)

lemma confirm_stopped_keeps:
  assumes inv: "budget_inv d" and run: "confirm_stopped sha clk ids claim key evidence d = Inr (res, d')"
  shows "budget_inv d' \<and> budget_le d d'"
proof -
  from run obtain a p r where auth: "authorize_reconciliation sha clk claim d = Inr (a, p, r)"
    by (auto simp: confirm_stopped_def ebind_Inr_iff)
  note f = authorize_reconciliation_Inr(1) [OF auth]
  note rows = inv_found [OF inv f]
  let ?payload = "JObj [(''verified_evidence'', JStr evidence)]"
  let ?replay = "replay_receipt sha (\<lambda>i. clk (i + 1)) ids a p r claim key STOP ?payload d"
  let ?r1 = "r\<lparr>rv_stop_confirmed_at := Some (case rv_stop_confirmed_at r of None \<Rightarrow> clk 1 | Some t \<Rightarrow> t)\<rparr>"
  from run auth consider
      (replay) "?replay = Inr (Some (res, d'))"
    | (recorded) a3 r3 where "rv_start_intent_at r \<noteq> None" "settle_if_confirmed a ?r1 = Inr (a3, r3)"
        "record_receipt sha (\<lambda>i. clk (i + 2)) ids a3 p r3 claim key STOP ?payload ''APPLIED'' d = Inr (res, d')"
    by (auto simp: confirm_stopped_def ebind_Inr_iff Let_def split: option.splits)
  then show ?thesis
  proof cases
    case replay
    then show ?thesis by (rule replay_keeps_inv [OF inv f])
  next
    case recorded
    have "step_ok a r a ?r1"
      by (rule quiet_step [OF rows(1,2) quiet_confirm(2) quiet_refl(1) row_inv_confirm(2) [OF rows(1)]])
        (simp add: open_row_def)
    moreover have "step_ok a ?r1 a3 r3"
      by (rule settle_step [OF recorded(2) row_inv_confirm(2) [OF rows(1)] rows(2)])
        (use found_le [OF f] recorded(1) in simp_all)
    ultimately have "step_ok a r a3 r3" by (rule step_ok_trans)
    then show ?thesis by (rule receipt_keeps_inv [OF inv f _ recorded(3)])
  qed
qed

lemma release_unstarted_keeps:
  assumes inv: "budget_inv d" and run: "release_unstarted sha clk ids claim key d = Inr (res, d')"
  shows "budget_inv d' \<and> budget_le d d'"
proof -
  from run obtain a p r where auth: "authorize_reconciliation sha clk claim d = Inr (a, p, r)"
    by (auto simp: release_unstarted_def ebind_Inr_iff)
  note f = authorize_reconciliation_Inr(1) [OF auth]
  note rows = inv_found [OF inv f]
  let ?payload = "JObj [(''reason'', JStr ''start_intent_absent'')]"
  let ?replay = "replay_receipt sha (\<lambda>i. clk (i + 1)) ids a p r claim key UNSTARTED ?payload d"
  from run auth consider
      (replay) "?replay = Inr (Some (res, d'))"
    | (recorded) a1 r1 where "rv_start_intent_at r = None"
        "rv_status r = BUD_RESERVED \<or> rv_status r = RELEASED" "release a r = Inr (a1, r1)"
        "record_receipt sha (\<lambda>i. clk (i + 1)) ids a1 p (r1\<lparr>rv_status := RELEASED\<rparr>) claim key UNSTARTED
          ?payload ''APPLIED'' d = Inr (res, d')"
    by (auto simp: release_unstarted_def ebind_Inr_iff Let_def split: option.splits)
  then show ?thesis
  proof cases
    case replay
    then show ?thesis by (rule replay_keeps_inv [OF inv f])
  next
    case recorded
    have "row_inv (r1\<lparr>rv_status := RELEASED\<rparr>)"
      by (rule row_inv_closed [OF recorded(3) rows(1)]) (use recorded(1,2) in simp)
    then have "step_ok a r a1 (r1\<lparr>rv_status := RELEASED\<rparr>)"
      using recorded(2) by (intro release_step [OF recorded(3) rows(1,2) found_le [OF f]]) auto
    then show ?thesis by (rule receipt_keeps_inv [OF inv f _ recorded(4)])
  qed
qed

lemma mark_unverifiable_keeps:
  assumes inv: "budget_inv d" and run: "mark_unverifiable sha clk ids claim key evidence d = Inr (res, d')"
  shows "budget_inv d' \<and> budget_le d d'"
proof -
  from run obtain a p r where auth: "authorize_reconciliation sha clk claim d = Inr (a, p, r)"
    by (auto simp: mark_unverifiable_def ebind_Inr_iff)
  note f = authorize_reconciliation_Inr(1) [OF auth]
  note rows = inv_found [OF inv f]
  let ?payload = "JObj [(''evidence_checksum'', JStr evidence)]"
  let ?a = "a\<lparr>ba_block_code := Some ''usage_unverifiable''\<rparr>"
  let ?replay = "replay_receipt sha (\<lambda>i. clk (i + 1)) ids a p r claim key UNVERIFIABLE ?payload d"
  from run auth consider
      (replay) "?replay = Inr (Some (res, d'))"
    | (recorded) "record_receipt sha (\<lambda>i. clk (i + 1)) ids ?a p r claim key UNVERIFIABLE ?payload
        ''INVALID'' d = Inr (res, d')"
    by (auto simp: mark_unverifiable_def ebind_Inr_iff Let_def split: option.splits)
  then show ?thesis
  proof cases
    case replay
    then show ?thesis by (rule replay_keeps_inv [OF inv f])
  next
    case recorded
    have "step_ok a r ?a r" using rows by (intro step_block step_refl) simp_all
    then show ?thesis by (rule receipt_keeps_inv [OF inv f _ recorded])
  qed
qed

lemma budget_inv_other:
  "db_accounts d' = db_accounts d \<Longrightarrow> db_reservations d' = db_reservations d \<Longrightarrow>
     budget_inv d' \<longleftrightarrow> budget_inv d"
  by (simp add: budget_inv_def rows_of_def)

lemma record_observation_keeps:
  assumes inv: "budget_inv d" and run: "record_observation sha clk ids claim ob d = Inr (res, d')"
  shows "budget_inv d' \<and> budget_le d d'"
proof -
  from run obtain a p r where auth: "authorize_reconciliation sha clk claim d = Inr (a, p, r)"
    by (auto simp: record_observation_def ebind_Inr_iff)
  note f = authorize_reconciliation_Inr(1) [OF auth]
  note rows = inv_found [OF inv f]
  let ?a = "a\<lparr>ba_block_code := Some ''observation_conflict''\<rparr>"
  have block: "quiet_account a ?a" by (rule quiet_block) simp
  then have "quiet_account a (touch ?a)"
    by (simp add: quiet_account_def account_le_def) (simp add: touch_def)
  then have conflict: "budget_inv (put_account ?a d) \<and> budget_le d (put_account ?a d)"
    "budget_inv (put_account (touch ?a) d) \<and> budget_le d (put_account (touch ?a) d)"
    using put_account_keeps_inv [OF inv f] block by blast+
  have s: "step_ok a r ?a r" using rows by (intro step_block step_refl) simp_all
  have receipt: "budget_inv d' \<and> budget_le d d'"
    if "record_receipt sha (\<lambda>i. clk (i + 3)) ids ?a p r claim k UNVERIFIABLE pl ''CONFLICT'' d = Inr (res, d')"
    for k pl by (rule receipt_keeps_inv [OF inv f s that])
  have "db_accounts d' = db_accounts d \<and> db_reservations d' = db_reservations d \<and>
        db_receipts d' = db_receipts d \<and> appended (db_observations d) (db_observations d') \<or>
      d' = put_account ?a d \<or> d' = put_account (touch ?a) d \<or>
      (\<exists>k pl. record_receipt sha (\<lambda>i. clk (i + 3)) ids ?a p r claim k UNVERIFIABLE pl ''CONFLICT'' d
        = Inr (res, d'))"
    using run auth
    by (fastforce simp: record_observation_def ebind_Inr_iff Let_def split: option.splits if_splits)
  then show ?thesis using conflict receipt budget_inv_other [of d' d] inv
    by (auto simp: budget_le_def table_le_refl)
qed

section \<open>Operations of the executing worker\<close>

lemma put_reservation_keeps:
  assumes "budget_inv d" "found d a p r" "quiet_account a a'" "quiet_row r r'" "row_inv r'"
    and "open_row r' \<Longrightarrow> open_row r"
  shows "budget_inv (put_account a' (put_reservation r' d)) \<and> budget_le d (put_account a' (put_reservation r' d))"
proof -
  have "step_ok a r a' r'"
    using inv_found [OF assms(1,2)] assms(3-6) by (intro quiet_step) simp_all
  then show ?thesis
    by (intro step_keeps_inv [OF assms(1), of a r a' r'])
      (use assms(2) in \<open>simp_all add: found_def put_account_def put_reservation_def\<close>)
qed

lemma put_row_same: "distinct (map key rows) \<Longrightarrow> r \<in> set rows \<Longrightarrow> put_row key r rows = rows"
  unfolding put_row_def by (rule map_idI) (use distinct_key_eq [of key rows] in auto)

lemma put_reservation_only_keeps:
  assumes "budget_inv d" "found d a p r" "quiet_row r r'" "row_inv r'"
    and "open_row r' \<Longrightarrow> open_row r"
  shows "budget_inv (put_reservation r' d) \<and> budget_le d (put_reservation r' d)"
proof -
  have "put_row ba_id a (db_accounts d) = db_accounts d"
    using assms(1,2) by (intro put_row_same) (simp_all add: budget_inv_def found_def)
  then have "put_account a (put_reservation r' d) = put_reservation r' d"
    by (simp add: put_account_def put_reservation_def)
  with put_reservation_keeps [OF assms(1,2) quiet_refl(1) assms(3-5)] show ?thesis by simp
qed

lemma claim_reconciliation_keeps:
  assumes inv: "budget_inv d"
    and run: "claim_reconciliation sha clk project rid key worker token secs d = Inr (res, d')"
  shows "budget_inv d' \<and> budget_le d d'"
proof -
  from run obtain a p rows r where l: "reconciliation_rows sha project rid d = Inr (a, p, rows)"
    and r: "find_execution key rows = Some r"
    by (auto simp: claim_reconciliation_def ebind_Inr_iff split: option.splits)
  then obtain run where "ledger sha run d = Inr (a, p, rows)"
    by (auto simp: reconciliation_rows_def ebind_Inr_iff split: option.splits)
  moreover have "r \<in> set rows" using find_in [OF r [unfolded find_execution_def]] .
  ultimately have f: "found d a p r" by (rule found_row)
  let ?r = "r\<lparr>rv_reconcile_worker_id := Some worker, rv_reconcile_token_hash := Some (lease_token_hash sha token),
    rv_reconcile_expires_at := Some (clk 0 + seconds secs)\<rparr>"
  have "row_consumed dm ?r = row_consumed dm r \<and> row_reserved dm ?r = row_reserved dm r \<and>
      row_granted dm ?r = row_granted dm r" for dm by (cases dm) simp_all
  then have "quiet_row r ?r" "row_inv ?r"
    using inv_found(1) [OF inv f]
    by (simp_all add: quiet_row_def row_le_def row_inv_iff row_amounts_ok_def row_state_ok_def)
  then have "budget_inv (put_reservation ?r d) \<and> budget_le d (put_reservation ?r d)"
    by (intro put_reservation_only_keeps [OF inv f]) (simp_all add: open_row_def)
  moreover have "d' = d \<or> d' = put_reservation ?r d"
    using run l r
    by (auto simp: claim_reconciliation_def ebind_Inr_iff Let_def split: option.splits if_splits)
  ultimately show ?thesis using inv budget_le_refl [of d] by (elim disjE) simp_all
qed

lemma claimed_reservation_found:
  assumes "claimed_reservation sha rows claimed key = Inr r" "ledger sha run d = Inr (a, p, rows)"
  shows "found d a p r"
proof -
  have "r \<in> set rows"
    using assms(1) find_in by (fastforce simp: claimed_reservation_def find_execution_def split: option.splits if_splits)
  then show ?thesis by (rule found_row [OF assms(2)])
qed

lemma bind_invocation_keeps:
  assumes inv: "budget_inv d" and sha: "digest_ok sha"
    and run: "bind_invocation sha clk claimed key invocation token confirm d = Inr (b, d')"
  shows "budget_inv d' \<and> budget_le d d'"
proof -
  from run obtain owner seg a p rows r where owner: "budget_start_owner_hash sha token = Inr owner"
    and l: "ledger sha (fst seg) d = Inr (a, p, rows)"
    and c: "claimed_reservation sha rows claimed key = Inr r"
    and d': "d' = d \<or> \<not> has_binding r \<and> d' = put_reservation (r\<lparr>rv_invocation_id := Some (iv_invocation_id invocation),
      rv_invocation_json := Some (invocation_to_json invocation),
      rv_invocation_checksum := Some (invocation_checksum sha invocation),
      rv_invocation_start_owner_hash := Some owner\<rparr>) d"
    by (fastforce simp: bind_invocation_def ebind_Inr_iff Let_def split: if_splits)
  note f = claimed_reservation_found [OF c l]
  let ?r = "r\<lparr>rv_invocation_id := Some (iv_invocation_id invocation),
      rv_invocation_json := Some (invocation_to_json invocation),
      rv_invocation_checksum := Some (invocation_checksum sha invocation),
      rv_invocation_start_owner_hash := Some owner\<rparr>"
  have "owner_hash_text owner"
    using owner sha
    by (auto simp: budget_start_owner_hash_def owner_hash_text_def digest_ok_def sha256_hex_def split: if_splits)
  moreover have "row_consumed dm ?r = row_consumed dm r \<and> row_reserved dm ?r = row_reserved dm r \<and>
      row_granted dm ?r = row_granted dm r" for dm by (cases dm) simp_all
  ultimately have "quiet_row r ?r" "row_inv ?r" if "\<not> has_binding r"
    using inv_found(1) [OF inv f] that
    by (simp_all add: quiet_row_def row_le_def has_binding_def row_inv_iff row_amounts_ok_def row_state_ok_def)
  then have "budget_inv (put_reservation ?r d) \<and> budget_le d (put_reservation ?r d)" if "\<not> has_binding r"
    using that by (intro put_reservation_only_keeps [OF inv f]) (simp_all add: open_row_def)
  with d' inv budget_le_refl [of d] show ?thesis by blast
qed


lemma start_execution_keeps:
  assumes inv: "budget_inv d"
    and run: "start_execution sha clk claimed key iid checksum token d = Inr (started, d')"
  shows "budget_inv d' \<and> budget_le d d'"
proof -
  from run obtain seg a p rows r where l: "ledger sha (fst seg) d = Inr (a, p, rows)"
    and c: "claimed_reservation sha rows claimed key = Inr r"
    and d': "d' = d \<or> rv_status r = BUD_RESERVED \<and> d' = put_account (touch a)
      (put_reservation (r\<lparr>rv_status := START_INTENT, rv_start_intent_at := Some (clk 2)\<rparr>) d)"
    by (fastforce simp: start_execution_def ebind_Inr_iff Let_def split: if_splits)
  note f = claimed_reservation_found [OF c l]
  let ?r = "r\<lparr>rv_status := START_INTENT, rv_start_intent_at := Some (clk 2)\<rparr>"
  have "budget_inv (put_account (touch a) (put_reservation ?r d)) \<and> budget_le d (put_account (touch a) (put_reservation ?r d))" if st: "rv_status r = BUD_RESERVED"
  proof (rule put_reservation_keeps [OF inv f quiet_touch])
    have "row_consumed dm ?r = row_consumed dm r \<and> row_reserved dm ?r = row_reserved dm r \<and>
      row_granted dm ?r = row_granted dm r" for dm by (cases dm) simp_all
    then show "quiet_row r ?r" "row_inv ?r"
      using inv_found(1) [OF inv f] st
      by (simp_all add: quiet_row_def row_le_def row_inv_iff row_amounts_ok_def row_state_ok_def)
    show "open_row r" using st by (simp add: open_row_def)
  qed
  with d' inv budget_le_refl [of d] show ?thesis by blast
qed

section \<open>Reserving\<close>

text \<open>New rows of one account, which grows by what they reserve.\<close>

lemma add_rows_keeps:
  assumes inv: "budget_inv d" and a: "a \<in> set (db_accounts d)" and p: "policy_from_json (ba_policy_json a) = Inr p"
    and same: "ba_id a' = ba_id a" "ba_run_id a' = ba_run_id a" "ba_policy_json a' = ba_policy_json a"
    and acc: "account_row_ok a'" "\<not> blocked a" and ver: "ba_row_version a \<le> ba_row_version a'"
    and cons: "\<And>dm. account_consumed dm a' = account_consumed dm a"
    and res: "\<And>dm. (account_reserved dm a' = None \<longleftrightarrow> account_reserved dm a = None) \<and>
      val (account_reserved dm a') = val (account_reserved dm a) + sum_list (map (\<lambda>r. val (row_reserved dm r)) added)"
    and lim: "within_limits p a'"
    and rows: "\<And>r. r \<in> set added \<Longrightarrow> row_inv r \<and> rv_run_id r = ba_run_id a \<and> full_row r \<and>
      (\<forall>dm. (row_consumed dm r = None \<longleftrightarrow> account_consumed dm a = None) \<and>
            (row_reserved dm r = None \<longleftrightarrow> account_reserved dm a = None) \<and> val (row_consumed dm r) = 0)"
    and ids: "distinct (map rv_id (db_reservations d @ added))"
    and keys: "distinct (map rv_execution_key added)"
      "\<And>r. r \<in> set added \<Longrightarrow> rv_execution_key r \<notin> rv_execution_key ` set (rows_of a d)"
    and acc': "db_accounts d' = put_row ba_id a' (db_accounts d)"
    and res': "db_reservations d' = db_reservations d @ added"
    and app: "db_receipts d' = db_receipts d" "db_observations d' = db_observations d"
  shows "budget_inv d' \<and> budget_le d d'"
proof -
  let ?A = "db_accounts d" and ?R = "db_reservations d"
  have dist: "distinct (map ba_id ?A)" "distinct (map ba_run_id ?A)"
    "distinct (map (\<lambda>r. (rv_run_id r, rv_execution_key r)) ?R)"
    and ainv: "\<And>a. a \<in> set ?A \<Longrightarrow> account_inv a (rows_of a d)" and rinv: "\<And>r. r \<in> set ?R \<Longrightarrow> row_inv r"
    using inv by (auto simp: budget_inv_def)
  have "account_inv a' (rows_of a d @ added)"
  proof -
    have old: "balanced p a (rows_of a d)" "\<And>r. r \<in> set (rows_of a d) \<Longrightarrow> open_row r \<Longrightarrow> full_row r"
      using ainv [OF a] p acc(2) by (auto simp: account_inv_def)
    have nonneg: "0 \<le> val (row_reserved dm r)" if "r \<in> set added" for r dm
      using rows [OF that] row_inv_nonneg by blast
    have zero: "sum_list (map (\<lambda>r. val (row_consumed dm r)) added) = 0" for dm
      using rows by (induction added) auto
    have "agrees (account_consumed dm a') (map (row_consumed dm) (rows_of a d @ added))" for dm
      unfolding map_append cons
      by (rule agrees_append [where v = "account_consumed dm a"])
        (use old(1) rows zero [of dm] in \<open>auto simp: balanced_def comp_def\<close>)
    moreover have "agrees (account_reserved dm a') (map (row_reserved dm) (rows_of a d @ added))" for dm
      unfolding map_append
      by (rule agrees_append [where v = "account_reserved dm a"])
        (use old(1) rows nonneg res [of dm] in \<open>auto simp: balanced_def comp_def\<close>)
    moreover have "ba_consumed_cost_nanos a' = ba_consumed_cost_nanos a" using cons [of COST] by simp
    ultimately have "balanced p a' (rows_of a d @ added)" using old(1) by (simp add: balanced_def)
    moreover have "\<forall>r \<in> set (rows_of a d @ added). open_row r \<longrightarrow> full_row r" using old(2) rows by auto
    ultimately show ?thesis using acc(1) lim p same by (auto simp: account_inv_def)
  qed
  have new: "rows_of x d' = rows_of x d @ (if ba_run_id x = ba_run_id a then added else [])" for x
  proof -
    have "filter (\<lambda>r. rv_run_id r = ba_run_id x) added = (if ba_run_id x = ba_run_id a then added else [])"
      using rows by (auto simp: filter_id_conv filter_empty_conv)
    then show ?thesis by (simp add: rows_of_def res')
  qed
  have "account_inv x (rows_of x d')" if x: "x \<in> set (db_accounts d')" for x
  proof -
    from x set_put_rowD [of x ba_id a' ?A] have "x = a' \<or> x \<in> set ?A \<and> ba_id x \<noteq> ba_id a'"
      by (simp add: acc')
    then show ?thesis
    proof
      assume "x = a'"
      moreover have "rows_of a' d = rows_of a d" by (simp add: rows_of_def same)
      ultimately show ?thesis using \<open>account_inv a' (rows_of a d @ added)\<close> new [of x] same by simp
    next
      assume xa: "x \<in> set ?A \<and> ba_id x \<noteq> ba_id a'"
      then have "ba_run_id x \<noteq> ba_run_id a" using distinct_key_eq [OF dist(2) _ a, of x] same by auto
      then show ?thesis using new ainv xa by simp
    qed
  qed
  moreover have "row_inv x" if "x \<in> set (db_reservations d')" for x using that rinv rows by (auto simp: res')
  moreover have "distinct (map ba_run_id (db_accounts d'))"
  proof -
    have "map ba_run_id (put_row ba_id a' ?A) = map ba_run_id ?A"
      unfolding put_row_def using distinct_key_eq [OF dist(1) _ a] same by (auto simp: comp_def)
    with dist(2) show ?thesis by (simp add: acc')
  qed
  moreover have "distinct (map (\<lambda>r. (rv_run_id r, rv_execution_key r)) (?R @ added))"
  proof -
    have "distinct (map (\<lambda>r. (rv_run_id r, rv_execution_key r)) added)"
      using keys(1) by (auto simp: distinct_map inj_on_def)
    moreover have "(rv_run_id x, rv_execution_key x) \<noteq> (rv_run_id y, rv_execution_key y)"
      if "x \<in> set ?R" "y \<in> set added" for x y
      using that keys(2) [of y] rows [of y] by (auto simp: rows_of_def image_iff)
    ultimately show ?thesis using dist(3) by auto
  qed
  ultimately have "budget_inv d'" using dist(1) ids by (simp add: budget_inv_def acc' res')
  moreover have "account_le a a'"
    using same acc(2) ver cons by (simp add: account_le_def)
  then have "table_le account_le ?A (put_row ba_id a' ?A)"
    using distinct_key_eq [OF dist(1) _ a] same(1) by (intro table_le_put_row) auto
  then have "budget_le d d'" by (simp add: budget_le_def acc' res' app table_le_append)
  ultimately show ?thesis ..
qed

lemma exceeds_Inr:
  "exceeds c r amount limit = Inr b \<longleftrightarrow>
     c \<noteq> None \<and> r \<noteq> None \<and> 0 \<le> val c \<and> 0 \<le> val r \<and> b = (val c + val r + amount > limit)"
  by (cases c; cases r) (auto simp: exceeds_def ebind_Inr_iff stored_units_Inr)

lemma group_exhausts_False:
  assumes "group_exhausts a p turns cost = Inr False"
  shows "ba_consumed_turns a + ba_reserved_turns a + turns \<le> bp_max_turns p"
    "bp_max_cost_nanos p = Some limit \<Longrightarrow>
       val (ba_consumed_cost_nanos a) + val (ba_reserved_cost_nanos a) + cost \<le> limit"
  using assms by (auto simp: group_exhausts_def ebind_Inr_iff exceeds_Inr split: option.splits if_splits)

lemma reserve_on_account_Inr:
  assumes "reserve_on_account a turns cost = Inr a'"
  shows "ba_id a' = ba_id a" "ba_run_id a' = ba_run_id a" "ba_policy_json a' = ba_policy_json a"
    "ba_row_version a' = ba_row_version a + 1" "ba_block_code a' = ba_block_code a"
    "ba_consumed_turns a' = ba_consumed_turns a" "ba_consumed_cost_nanos a' = ba_consumed_cost_nanos a"
    "ba_reserved_turns a' = ba_reserved_turns a + turns"
    "ba_reserved_cost_nanos a' = map_option (\<lambda>c. c + cost) (ba_reserved_cost_nanos a)"
  using assms
  by (auto simp: reserve_on_account_def ebind_Inr_iff stored_units_Inr touch_def Let_def split: option.splits)

lemma new_reservation_simps:
  "rv_run_id (new_reservation sha now i run claimed g c rows item) = run_id run"
  "rv_execution_key (new_reservation sha now i run claimed g c rows item) = rq_execution_key item"
  "rv_id (new_reservation sha now i run claimed g c rows item) = i"
  "row_consumed TURNS (new_reservation sha now i run claimed g c rows item) = Some 0"
  "row_consumed COST (new_reservation sha now i run claimed g c rows item) = map_option (\<lambda>_. 0) (rq_cost_nanos item)"
  "row_reserved TURNS (new_reservation sha now i run claimed g c rows item) = Some (rq_turns item)"
  "row_reserved COST (new_reservation sha now i run claimed g c rows item) = rq_cost_nanos item"
  "row_granted TURNS (new_reservation sha now i run claimed g c rows item) = Some (rq_turns item)"
  "row_granted COST (new_reservation sha now i run claimed g c rows item) = rq_cost_nanos item"
  by (simp_all add: new_reservation_def)

lemma new_reservation_ok:
  assumes "request_ok item"
  shows "row_inv (new_reservation sha now i run claimed g c rows item)"
    "full_row (new_reservation sha now i run claimed g c rows item)"
proof -
  have n: "1 \<le> rq_turns item" "\<And>c. rq_cost_nanos item = Some c \<Longrightarrow> 1 \<le> c"
    using assms by (auto simp: request_ok_def units_ok_def)
  show "row_inv (new_reservation sha now i run claimed g c rows item)"
    using n unfolding row_inv_iff row_amounts_ok_def all_dimension new_reservation_simps row_state_ok_def
    by (cases "rq_cost_nanos item") (auto simp: new_reservation_def)
  show "full_row (new_reservation sha now i run claimed g c rows item)"
    unfolding full_row_def all_dimension new_reservation_simps
    by (cases "rq_cost_nanos item") auto
qed

lemma check_request_Inr:
  assumes "emap (check_request p claimed rows) items = Inr us" "item \<in> set items"
  shows "rq_execution_key item \<notin> rv_execution_key ` set rows"
    "rq_cost_nanos item = None \<longleftrightarrow> bp_max_cost_nanos p = None"
proof -
  have "\<exists>u. check_request p claimed rows item = Inr u"
    using assms unfolding emap_Inr_iff by (auto simp: list_all2_conv_all_nth in_set_conv_nth)
  then show "rq_execution_key item \<notin> rv_execution_key ` set rows"
    "rq_cost_nanos item = None \<longleftrightarrow> bp_max_cost_nanos p = None"
    by (auto simp: check_request_def ebind_Inr_iff find_execution_def find_None_iff)
qed

text \<open>The new rows of a group, and what they reserve.\<close>

definition group_rows ::
  "digest \<Rightarrow> time \<Rightarrow> fresh \<Rightarrow> run_row \<Rightarrow> claimed_run \<Rightarrow> string \<Rightarrow> string \<Rightarrow> reservation_row list \<Rightarrow>
   reservation_request list \<Rightarrow> reservation_row list" where
  "group_rows sha now ids run claimed g c rows items =
     map (\<lambda>(i, item). new_reservation sha now (ids i) run claimed g c rows item) (enumerate 0 items)"

lemma set_group_rows:
  "r \<in> set (group_rows sha now ids run claimed g c rows items) \<Longrightarrow>
     \<exists>i item. item \<in> set items \<and> r = new_reservation sha now (ids i) run claimed g c rows item"
  by (auto simp: group_rows_def in_set_enumerate_eq) (metis nth_mem)

lemma map_enumerate: "map (\<lambda>(i, x). f x) (enumerate n xs) = map f xs"
  by (induction xs arbitrary: n) auto

lemma group_rows_maps:
  "map rv_execution_key (group_rows sha now ids run claimed g c rows items) = map rq_execution_key items"
  "map (\<lambda>r. val (row_reserved TURNS r)) (group_rows sha now ids run claimed g c rows items) = map rq_turns items"
  "map (\<lambda>r. val (row_reserved COST r)) (group_rows sha now ids run claimed g c rows items) = map cost_or_zero items"
proof -
  have v: "rv_execution_key (new_reservation sha now i run claimed g c rows item) = rq_execution_key item"
    "val (row_reserved TURNS (new_reservation sha now i run claimed g c rows item)) = rq_turns item"
    "val (row_reserved COST (new_reservation sha now i run claimed g c rows item)) = cost_or_zero item" for i item
    unfolding new_reservation_simps by (simp_all add: val_def cost_or_zero_def)
  show "map rv_execution_key (group_rows sha now ids run claimed g c rows items) = map rq_execution_key items"
    "map (\<lambda>r. val (row_reserved TURNS r)) (group_rows sha now ids run claimed g c rows items) = map rq_turns items"
    "map (\<lambda>r. val (row_reserved COST r)) (group_rows sha now ids run claimed g c rows items) = map cost_or_zero items"
    using map_enumerate [of rq_execution_key 0 items] map_enumerate [of rq_turns 0 items]
      map_enumerate [of cost_or_zero 0 items]
    unfolding group_rows_def map_map comp_def case_prod_unfold v by simp_all
qed

lemma reserve_group_Inr:
  assumes "reserve_group sha clk ids claimed g requests confirm d = Inr (records, d')"
  shows "d' = d \<or> (\<exists>run a p rows us c a'. ledger sha run d = Inr (a, p, rows) \<and> \<not> blocked a \<and> distinct (map rq_execution_key requests) \<and>
      emap (check_request p claimed rows) (sort_key rq_execution_key requests) = Inr us \<and>
      group_exhausts a p (sum_list (map rq_turns (sort_key rq_execution_key requests)))
        (sum_list (map cost_or_zero (sort_key rq_execution_key requests))) = Inr False \<and>
      reserve_on_account a (sum_list (map rq_turns (sort_key rq_execution_key requests)))
        (sum_list (map cost_or_zero (sort_key rq_execution_key requests))) = Inr a' \<and>
      (let added = group_rows sha (clk 2) ids run claimed g c rows (sort_key rq_execution_key requests) in
        distinct (map rv_id (db_reservations d @ added)) \<and>
        d' = put_account a' (d\<lparr>db_reservations := db_reservations d @ added\<rparr>)))"
  using assms
  unfolding reserve_group_def Let_def group_rows_def [symmetric]
  by (fastforce simp: ebind_Inr_iff valid_group_def Let_def insert_rows_Inr split: if_splits)

lemma reserve_group_keeps:
  assumes inv: "budget_inv d" and ok: "\<forall>q \<in> set requests. request_ok q"
    and run: "reserve_group sha clk ids claimed g requests confirm d = Inr (records, d')"
  shows "budget_inv d' \<and> budget_le d d'"
proof -
  let ?items = "sort_key rq_execution_key requests"
  let ?turns = "sum_list (map rq_turns ?items)" and ?cost = "sum_list (map cost_or_zero ?items)"
  consider "d' = d" | (added) run a p rows us c a' where "ledger sha run d = Inr (a, p, rows)" "\<not> blocked a"
      "distinct (map rq_execution_key requests)" "emap (check_request p claimed rows) ?items = Inr us"
      "group_exhausts a p ?turns ?cost = Inr False" "reserve_on_account a ?turns ?cost = Inr a'"
      "distinct (map rv_id (db_reservations d @ group_rows sha (clk 2) ids run claimed g c rows ?items))"
      "d' = put_account a' (d\<lparr>db_reservations := db_reservations d @ group_rows sha (clk 2) ids run claimed g c rows ?items\<rparr>)"
    using reserve_group_Inr [OF run] unfolding Let_def by blast
  then show ?thesis
  proof cases
    case 1
    with inv show ?thesis by simp
  next
    case added
    let ?added = "group_rows sha (clk 2) ids run claimed g c rows ?items"
    note l = ledger_Inr [OF added(1)] and acc = reserve_on_account_Inr [OF added(6)]
    have items: "request_ok q" "1 \<le> rq_turns q" "0 \<le> cost_or_zero q" if "q \<in> set ?items" for q
      using that ok by (auto simp: request_ok_def units_ok_def cost_or_zero_def split: option.splits)
    have check: "rq_execution_key q \<notin> rv_execution_key ` set rows"
      "rq_cost_nanos q = None \<longleftrightarrow> bp_max_cost_nanos p = None" if "q \<in> set ?items" for q
      using check_request_Inr [OF added(4) that] by blast+
    have cost: "ba_consumed_cost_nanos a = None \<longleftrightarrow> bp_max_cost_nanos p = None"
      using l(5) by (auto simp: balanced_def)
    have aok: "account_row_ok a" using inv l(1) by (auto simp: budget_inv_def account_inv_def)
    have nn: "0 \<le> ?turns" "0 \<le> ?cost" by (rule sum_list_nonneg, use items in force)+
    have both: "ba_reserved_cost_nanos a = None \<longleftrightarrow> ba_consumed_cost_nanos a = None"
      using aok by (auto simp: account_row_ok_def split: option.splits)
    have zero: "sum_list (map cost_or_zero ?items) = 0" if "bp_max_cost_nanos p = None"
    proof -
      have "map cost_or_zero ?items = map (\<lambda>_. 0) ?items"
        by (rule map_cong [OF refl]) (use check(2) that in \<open>simp add: cost_or_zero_def\<close>)
      then show ?thesis by (simp only: sum_list_0)
    qed
    show ?thesis
    proof (rule add_rows_keeps [OF inv l(1) l(3) acc(1-3)])
      show "account_row_ok a'"
        using aok nn acc by (auto simp: account_row_ok_def split: option.splits)
      show "\<not> blocked a" by (fact added(2))
      show "ba_row_version a \<le> ba_row_version a'" by (simp add: acc(4))
      show "account_consumed dm a' = account_consumed dm a" for dm using acc by (cases dm) simp_all
      show "(account_reserved dm a' = None \<longleftrightarrow> account_reserved dm a = None) \<and>
          val (account_reserved dm a') = val (account_reserved dm a) +
            sum_list (map (\<lambda>r. val (row_reserved dm r)) ?added)" for dm
        using acc zero cost both by (cases dm; cases "ba_reserved_cost_nanos a") (simp_all add: group_rows_maps del: row_reserved.simps)
      show "within_limits p a'"
        unfolding within_limits_def all_dimension
        using group_exhausts_False [OF added(5)] acc cost both
        by (cases "ba_reserved_cost_nanos a") auto
      show "row_inv r \<and> rv_run_id r = ba_run_id a \<and> full_row r \<and>
          (\<forall>dm. (row_consumed dm r = None \<longleftrightarrow> account_consumed dm a = None) \<and>
             (row_reserved dm r = None \<longleftrightarrow> account_reserved dm a = None) \<and> val (row_consumed dm r) = 0)"
        if r: "r \<in> set ?added" for r
      proof -
        obtain i q where q: "q \<in> set ?items" and r: "r = new_reservation sha (clk 2) (ids i) run claimed g c rows q"
          using set_group_rows [OF r] by blast
        show ?thesis
          using new_reservation_ok [OF items(1) [OF q]] check(2) [OF q] cost both l(2)
          unfolding r all_dimension new_reservation_simps by (cases "rq_cost_nanos q") auto
      qed
      show "distinct (map rv_id (db_reservations d @ ?added))" by (fact added(7))
      show "distinct (map rv_execution_key ?added)"
        unfolding group_rows_maps using added(3) by (simp add: distinct_map)
      show "rv_execution_key r \<notin> rv_execution_key ` set (rows_of a d)" if r: "r \<in> set ?added" for r
      proof -
        obtain q where "q \<in> set ?items" "rv_execution_key r = rq_execution_key q"
          using set_group_rows [OF r] new_reservation_simps(2) by blast
        moreover have "set rows = set (rows_of a d)" using l(2,4) by (auto simp: reservation_rows_def rows_of_def)
        ultimately show ?thesis using check(1) by simp
      qed
    qed (simp_all add: added(8) put_account_def)
  qed
qed

lemma reserve_primary_keeps:
  assumes inv: "budget_inv d" and run: "reserve_primary sha clk ids claimed policy confirm d = Inr (r, d')"
  shows "budget_inv d' \<and> budget_le d d'"
proof -
  from run obtain q rs where q: "request_init q = Inr ()"
    and g: "reserve_group sha clk ids claimed (primary_group_key claimed) [q] confirm d = Inr (rs, d')"
    by (auto simp: reserve_primary_def ebind_Inr_iff Let_def)
  show ?thesis by (rule reserve_group_keeps [OF inv _ g]) (use q in \<open>simp add: request_init_Inr\<close>)
qed

section \<open>Commands\<close>

text \<open>
  A transaction of the ledger with its arguments and its readings of the clock. The dataclasses
  validate themselves when they are built, so requests and reports are checked before the call.
\<close>

datatype budget_command =
    ReserveGroup clock fresh claimed_run string "reservation_request list" bool
  | ReservePrimary clock fresh claimed_run budget_policy bool
  | BindInvocation clock claimed_run string agent_invocation string bool
  | StartExecution clock claimed_run string uuid string string
  | ClaimReconciliation clock uuid uuid string string string int
  | RecordObservation clock fresh reconciliation_claim usage_observation
  | RecordUsage clock fresh reconciliation_claim usage_report
  | ConfirmStopped clock fresh reconciliation_claim string string
  | ReleaseUnstarted clock fresh reconciliation_claim string
  | MarkUnverifiable clock fresh reconciliation_claim string string

definition committed :: "('a \<times> db) res \<Rightarrow> (unit \<times> db) res" where
  "committed m = ebind m (\<lambda>(_, d). Inr ((), d))"

lemma committed_Inr: "committed m = Inr (u, d) \<longleftrightarrow> (\<exists>r. m = Inr (r, d))"
  by (auto simp: committed_def ebind_Inr_iff)

fun exec_budget :: "digest \<Rightarrow> budget_command \<Rightarrow> db \<Rightarrow> (unit \<times> db) res" where
  "exec_budget sha (ReserveGroup clk ids claimed g requests confirm) d =
     ebind (emap request_init requests) (\<lambda>_.
       committed (reserve_group sha clk ids claimed g requests confirm d))"
| "exec_budget sha (ReservePrimary clk ids claimed policy confirm) d =
     committed (reserve_primary sha clk ids claimed policy confirm d)"
| "exec_budget sha (BindInvocation clk claimed key invocation token confirm) d =
     committed (bind_invocation sha clk claimed key invocation token confirm d)"
| "exec_budget sha (StartExecution clk claimed key iid checksum token) d =
     committed (start_execution sha clk claimed key iid checksum token d)"
| "exec_budget sha (ClaimReconciliation clk project rid key worker token secs) d =
     committed (claim_reconciliation sha clk project rid key worker token secs d)"
| "exec_budget sha (RecordObservation clk ids claim ob) d =
     committed (record_observation sha clk ids claim ob d)"
| "exec_budget sha (RecordUsage clk ids claim report) d =
     ebind (report_init report) (\<lambda>_. committed (record_usage sha clk ids claim report d))"
| "exec_budget sha (ConfirmStopped clk ids claim key evidence) d =
     committed (confirm_stopped sha clk ids claim key evidence d)"
| "exec_budget sha (ReleaseUnstarted clk ids claim key) d =
     committed (release_unstarted sha clk ids claim key d)"
| "exec_budget sha (MarkUnverifiable clk ids claim key evidence) d =
     committed (mark_unverifiable sha clk ids claim key evidence d)"

lemma emap_request_init: "emap request_init qs = Inr us \<Longrightarrow> \<forall>q \<in> set qs. request_ok q"
  unfolding emap_Inr_iff by (auto simp: list_all2_conv_all_nth in_set_conv_nth request_init_Inr)

lemma exec_budget_keeps:
  assumes "digest_ok sha" "budget_inv d" "exec_budget sha c d = Inr (u, d')"
  shows "budget_inv d' \<and> budget_le d d'"
proof (cases c)
  case (ReserveGroup clk ids claimed g requests confirm)
  with assms(3) obtain us r where "emap request_init requests = Inr us"
    and "reserve_group sha clk ids claimed g requests confirm d = Inr (r, d')"
    by (auto simp: ebind_Inr_iff committed_Inr)
  then show ?thesis by (intro reserve_group_keeps [OF assms(2)] emap_request_init)
next
  case (RecordUsage clk ids claim report)
  with assms(3) obtain r where "report_ok report"
    and "record_usage sha clk ids claim report d = Inr (r, d')"
    by (auto simp: ebind_Inr_iff committed_Inr report_init_Inr)
  then show ?thesis by (rule record_usage_keeps_inv [OF assms(2)])
next
  case (BindInvocation clk claimed key invocation token confirm)
  with assms(3) show ?thesis
    by (auto simp only: exec_budget.simps committed_Inr dest!: bind_invocation_keeps [OF assms(2,1)])
next
  case (ReservePrimary clk ids claimed policy confirm)
  with assms(3) show ?thesis
    by (auto simp only: exec_budget.simps committed_Inr dest!: reserve_primary_keeps [OF assms(2)])
next
  case (StartExecution clk claimed key iid checksum token)
  with assms(3) show ?thesis
    by (auto simp only: exec_budget.simps committed_Inr dest!: start_execution_keeps [OF assms(2)])
next
  case (ClaimReconciliation clk project rid key worker token secs)
  with assms(3) show ?thesis
    by (auto simp only: exec_budget.simps committed_Inr dest!: claim_reconciliation_keeps [OF assms(2)])
next
  case (RecordObservation clk ids claim ob)
  with assms(3) show ?thesis
    by (auto simp only: exec_budget.simps committed_Inr dest!: record_observation_keeps [OF assms(2)])
next
  case (ConfirmStopped clk ids claim key evidence)
  with assms(3) show ?thesis
    by (auto simp only: exec_budget.simps committed_Inr dest!: confirm_stopped_keeps [OF assms(2)])
next
  case (ReleaseUnstarted clk ids claim key)
  with assms(3) show ?thesis
    by (auto simp only: exec_budget.simps committed_Inr dest!: release_unstarted_keeps [OF assms(2)])
next
  case (MarkUnverifiable clk ids claim key evidence)
  with assms(3) show ?thesis
    by (auto simp only: exec_budget.simps committed_Inr dest!: mark_unverifiable_keeps [OF assms(2)])
qed

section \<open>Interpretations\<close>

text \<open>
  The digest is carried in the database of the interpretation, so that the law about it is part of
  the invariant.
\<close>

definition exec_budget_with :: "budget_command \<Rightarrow> digest \<times> db \<Rightarrow> (unit \<times> digest \<times> db) res" where
  "exec_budget_with c sd =
     ebind (exec_budget (fst sd) c (snd sd)) (\<lambda>(u, d'). Inr (u, fst sd, d'))"

definition ledger_inv :: "digest \<times> db \<Rightarrow> bool" where
  "ledger_inv sd \<longleftrightarrow> digest_ok (fst sd) \<and> budget_inv (snd sd)"

definition ledger_le :: "digest \<times> db \<Rightarrow> digest \<times> db \<Rightarrow> bool" where
  "ledger_le sd sd' \<longleftrightarrow> fst sd' = fst sd \<and> budget_le (snd sd) (snd sd')"

interpretation ledger_run: transactional_history exec_budget_with ledger_inv ledger_le
proof
  show "ledger_inv sd'" "ledger_le sd sd'"
    if "ledger_inv sd" "exec_budget_with c sd = Inr (u, sd')" for sd c u sd'
    using that exec_budget_keeps [of "fst sd" "snd sd" c]
    by (auto simp: exec_budget_with_def ledger_inv_def ledger_le_def ebind_Inr_iff)
  show "ledger_le sd sd" for sd by (simp add: ledger_le_def)
  show "ledger_le sd sd''" if "ledger_le sd sd'" "ledger_le sd' sd''" for sd sd' sd''
    using that budget_le_trans by (auto simp: ledger_le_def)
qed

definition run_budget :: "digest \<Rightarrow> budget_command list \<Rightarrow> db \<Rightarrow> db" where
  "run_budget sha cs d = commit_all (exec_budget sha) cs d"

lemma commit_budget_with: "commit_all exec_budget_with cs (sha, d) = (sha, run_budget sha cs d)"
proof (induction cs arbitrary: d)
  case Nil
  show ?case by (simp add: run_budget_def)
next
  case (Cons c cs)
  show ?case
    using Cons.IH unfolding run_budget_def
    by (cases "exec_budget sha c d") (auto simp: exec_budget_with_def [of c])
qed

lemma run_budget_facts:
  assumes "digest_ok sha" "budget_inv d"
  shows "budget_inv (run_budget sha cs d)" "budget_le d (run_budget sha cs d)"
  using ledger_run.commit_all_inv [of "(sha, d)" cs] ledger_run.commit_all_le [of "(sha, d)" cs] assms
  by (simp_all add: commit_budget_with ledger_inv_def ledger_le_def)

end
