(* ===== verification/Run_Commands.thy ===== *)
theory Run_Commands
  imports Approval_Ops Budget_Commands
begin

text \<open>
  The transactions on a run as commands. Any sequence of them, from any workers, users and schedulers and
  with any exceptions in between, keeps the invariant of the run tables and only extends their history:
  the interpretation of \<open>transactional_history\<close> at the end.

  \<open>run_env\<close> is what a deployment fixes: the digests, the conversion of integers to floats, the schema
  validator, the checks of other components, and the enabled features. A worker finalises an attempt with a
  closed status only (\<^verbatim>\<open>worker/executor.py\<close> builds \<^verbatim>\<open>SUCCEEDED\<close>, \<^verbatim>\<open>FAILED\<close> and \<^verbatim>\<open>CANCELLED\<close> outcomes), so
  another \<open>Finalize\<close> is not a command that is issued.
\<close>

record run_env =
  env_sha :: digest
  env_sha1 :: digest128
  env_fl :: to_float
  env_schema_ok :: "json \<Rightarrow> bool"
  env_artifacts :: artifact_refs
  env_documents :: document_check
  env_checks :: provider_check
  env_features :: execution_features

datatype run_command =
    CreateRun clock fresh create_command
  | ReplaceSources uuid json
  | Transition clock fresh uuid run_status int "json option" "uuid option" "string option"
  | RequestCancellation clock fresh uuid "string option"
  | ClaimRun clock fresh uuid claim_request
  | PrepareExecution clock fresh claimed_run
  | AppendEvent clock fresh claimed_run agent_event session_metadata
  | FreezeBrief clock fresh claimed_run json string
  | Heartbeat clock uuid string time time
  | Finalize clock fresh claimed_run outcome
  | RecoverAttempts "nat \<Rightarrow> fresh" time int
  | AskUser clock fresh claimed_run agent_event session_metadata interaction_draft
  | Respond clock fresh uuid uuid uuid uuid int json string "string option"
  | RecoverQuestions clock "nat \<Rightarrow> fresh" time int
  | Decide clock fresh decide_command
  | ClaimEffect clock fresh effect_claim_request
  | FinalizeEffect clock fresh effect_lease "provider_result option" "effect_failure option" int "string option"
  | DeliverReceipt clock claimed_run uuid
  | RecoverEffects "nat \<Rightarrow> fresh" time int int
  | RecoverProposals "nat \<Rightarrow> fresh" time int

fun exec_run :: "run_env \<Rightarrow> run_command \<Rightarrow> db \<Rightarrow> (unit \<times> db) res" where
  "exec_run env (CreateRun clk ids c) d = committed (create_idempotent (env_sha env) (env_sha1 env) clk ids c d)"
| "exec_run env (ReplaceSources rid selected) d = committed (replace_initial_selected_sources rid selected d)"
| "exec_run env (Transition clk ids rid target expected err att trc) d =
     committed (transition clk ids rid target expected err att trc d)"
| "exec_run env (RequestCancellation clk ids rid trc) d = committed (request_cancellation clk ids rid trc d)"
| "exec_run env (ClaimRun clk ids rid rq) d = committed (claim_for_execution (env_sha env) clk ids rid rq d)"
| "exec_run env (PrepareExecution clk ids claimed) d = committed (prepare_execution (env_sha env) clk ids claimed d)"
| "exec_run env (AppendEvent clk ids claimed event metadata) d =
     committed (append_agent_event (env_sha env) (env_fl env) clk ids claimed event metadata d)"
| "exec_run env (FreezeBrief clk ids claimed brief checksum) d =
     committed (freeze_agent_task_brief (env_sha env) clk ids claimed brief checksum d)"
| "exec_run env (Heartbeat clk aid h expires now) d = committed (heartbeat_attempt clk aid h expires now d)"
| "exec_run env (Finalize clk ids claimed oc) d =
     ebind (raise_if (\<not> closes oc) AssertionError) (\<lambda>_.
       committed (finalize_execution (env_sha env) (resume_detached_effect (env_sha env) (env_schema_ok env))
         (env_fl env) clk ids claimed oc d))"
| "exec_run env (RecoverAttempts ids now limit) d =
     committed (recover_expired_attempts (resume_detached_effect (env_sha env) (env_schema_ok env)) ids now limit d)"
| "exec_run env (AskUser clk ids claimed event metadata request) d =
     committed (suspend_for_interaction (env_sha env) (env_fl env) (env_artifacts env) clk ids claimed event metadata
       request d)"
| "exec_run env (Respond clk ids project rid i actor version response key trc) d =
     committed (respond_to_interaction (env_sha env) clk ids project rid i actor version response key trc d)"
| "exec_run env (RecoverQuestions clk ids now limit) d = committed (recover_expired_interactions clk ids now limit d)"
| "exec_run env (Decide clk ids c) d =
     committed (decide_change_proposal (env_sha env) (env_schema_ok env) (env_documents env) (env_checks env)
       (env_features env) clk ids c d)"
| "exec_run env (ClaimEffect clk ids q) d =
     committed (claim_effect_execution (env_sha env) (env_sha1 env) (env_schema_ok env) (env_documents env)
       (env_checks env) (env_features env) clk ids q d)"
| "exec_run env (FinalizeEffect clk ids claimed result failure ms trc) d =
     committed (finalize_effect_execution (env_sha env) (env_schema_ok env) clk ids claimed result failure ms trc d)"
| "exec_run env (DeliverReceipt clk claimed pid) d =
     committed (inline_receipt (env_sha env) (env_schema_ok env) clk claimed pid d)"
| "exec_run env (RecoverEffects ids now limit m) d =
     committed (recover_expired_effects (env_sha env) (env_schema_ok env) (env_features env) ids now limit m d)"
| "exec_run env (RecoverProposals ids now limit) d =
     committed (recover_expired_proposals (env_sha env) (env_schema_ok env) (env_features env) ids now limit d)"

lemmas operations_safe = create_idempotent_safe replace_initial_selected_sources_safe transition_safe
  request_cancellation_safe claim_for_execution_safe prepare_execution_safe append_agent_event_safe
  freeze_agent_task_brief_safe heartbeat_attempt_safe detached.finalize_execution_safe
  detached.recover_expired_attempts_safe suspend_for_interaction_safe respond_to_interaction_safe
  recover_expired_interactions_safe decide_change_proposal_safe claim_effect_execution_safe
  finalize_effect_execution_safe inline_receipt_safe recover_expired_effects_safe recover_expired_proposals_safe

lemma exec_run_safe: "exec_run env c d = Inr (u, d') \<Longrightarrow> safe d d'"
  by (cases c) (auto simp only: exec_run.simps committed_Inr ebind_Inr_iff raise_if_simps not_not intro: operations_safe)

interpretation runs: transactional_history "exec_run env" run_inv run_le for env :: run_env
proof unfold_locales
  show "run_inv d'" "run_le d d'" if "run_inv d" "exec_run env c d = Inr (u, d')" for d c u d'
    using exec_run_safe [OF that(2)] that(1) by (simp_all add: safe_def)
qed (auto intro: run_le_trans)

definition run_all :: "run_env \<Rightarrow> run_command list \<Rightarrow> db \<Rightarrow> db" where
  "run_all env cs d = commit_all (exec_run env) cs d"

lemma run_all_inv: "run_inv d \<Longrightarrow> run_inv (run_all env cs d)"
  unfolding run_all_def by (rule runs.commit_all_inv)

lemma run_all_le: "run_inv d \<Longrightarrow> run_le d (run_all env cs d)"
  unfolding run_all_def by (rule runs.commit_all_le)

lemma run_all_append: "run_all env (xs @ ys) d = run_all env ys (run_all env xs d)"
  by (simp add: run_all_def commit_all_append)

end
