(* ===== verification/Schedule_Inv.thy ===== *)
theory Schedule_Inv
  imports Schedule_Store Run_Commands
begin

text \<open>
  What the schedule tables keep: the invariant \<open>schedule_inv\<close> and the order \<open>store_le\<close> that every
  transaction respects. Each operation is reduced to one of four changes of the tables: a schedule row
  replaced, an occurrence inserted with its schedule, an occurrence taken over, an occurrence settled with
  its schedule.
\<close>

section \<open>The invariant\<close>

definition created_count :: "uuid \<Rightarrow> schedule_store \<Rightarrow> int" where
  "created_count i st =
     int (length (filter (\<lambda>x. oc_schedule_id x = i \<and> oc_run_id x \<noteq> None) (sc_occurrences st)))"

text \<open>The run an occurrence names carries the occurrence's project and idempotency key.\<close>

definition occurrence_run :: "db \<Rightarrow> occurrence_row \<Rightarrow> uuid \<Rightarrow> bool" where
  "occurrence_run d x i \<longleftrightarrow>
     list_ex (\<lambda>r. run_id r = i \<and> run_project_id r = oc_project_id x \<and>
       run_idempotency_key r = oc_idempotency_key x) (db_runs d)"

definition runs_linked :: "db \<Rightarrow> occurrence_row list \<Rightarrow> bool" where
  "runs_linked d rows \<longleftrightarrow> (\<forall>x \<in> set rows. \<forall>i \<in> set_option (oc_run_id x). occurrence_run d x i)"

definition counts_ok :: "schedule_store \<Rightarrow> bool" where
  "counts_ok st \<longleftrightarrow> (\<forall>r \<in> set (sc_schedules st). sr_occurrence_protocol r = 1 \<longrightarrow>
     sr_run_count r = created_count (sr_id r) st \<and>
     (\<forall>n \<in> set_option (sr_max_runs r). sr_run_count r + pending_count (sr_id r) st \<le> n))"

definition has_parent :: "schedule_row list \<Rightarrow> occurrence_row \<Rightarrow> bool" where
  "has_parent schedules x \<longleftrightarrow>
     list_ex (\<lambda>r. sr_id r = oc_schedule_id x \<and> sr_occurrence_protocol r = 1) schedules"

definition occurrences_apart :: "occurrence_row list \<Rightarrow> bool" where
  "occurrences_apart rows \<longleftrightarrow>
     (\<forall>x \<in> set rows. \<forall>y \<in> set rows. oc_id x \<noteq> oc_id y \<longrightarrow> \<not> occurrence_conflict x y)"

definition schedule_inv :: "schedule_store \<Rightarrow> bool" where
  "schedule_inv st \<longleftrightarrow>
     run_inv (sc_db st) \<and> distinct (map sr_id (sc_schedules st)) \<and> distinct (map oc_id (sc_occurrences st)) \<and>
     list_all schedule_row_ok (sc_schedules st) \<and> list_all occurrence_row_ok (sc_occurrences st) \<and>
     list_all (has_parent (sc_schedules st)) (sc_occurrences st) \<and> occurrences_apart (sc_occurrences st) \<and>
     runs_linked (sc_db st) (sc_occurrences st) \<and> counts_ok st"

section \<open>The history\<close>

definition occurrence_lease :: "occurrence_row \<Rightarrow> string \<times> string \<times> time \<times> int" where
  "occurrence_lease x =
     (oc_worker_id x, oc_lease_token_hash x, oc_lease_expires_at x, oc_attempt_count x)"

definition occurrence_request :: "occurrence_row \<Rightarrow> uuid \<times> uuid \<times> uuid \<times> uuid \<times> uuid \<times> time \<times> string \<times> int \<times> json \<times> string"
where
  "occurrence_request x =
     (oc_id x, oc_schedule_id x, oc_project_id x, oc_created_by x, oc_skill_version_id x, oc_occurrence_at x,
      oc_idempotency_key x, oc_configuration_version x, oc_snapshot_json x, oc_snapshot_checksum x)"

definition occurrence_le :: "occurrence_row \<Rightarrow> occurrence_row \<Rightarrow> bool" where
  "occurrence_le x y \<longleftrightarrow>
     occurrence_request y = occurrence_request x \<and> oc_lease_generation x \<le> oc_lease_generation y \<and>
     (oc_lease_generation y = oc_lease_generation x \<longrightarrow> occurrence_lease y = occurrence_lease x) \<and>
     (oc_status x = OCC_SETTLED \<longrightarrow> y = x)"

definition schedule_row_le :: "schedule_row \<Rightarrow> schedule_row \<Rightarrow> bool" where
  "schedule_row_le r q \<longleftrightarrow>
     sr_id q = sr_id r \<and> sr_project_id q = sr_project_id r \<and> sr_created_by q = sr_created_by r \<and>
     sr_skill_version_id q = sr_skill_version_id r \<and> sr_task_key q = sr_task_key r \<and>
     sr_occurrence_protocol q = sr_occurrence_protocol r \<and> sr_run_count r \<le> sr_run_count q \<and>
     sr_missed_count r \<le> sr_missed_count q \<and> sr_configuration_version r \<le> sr_configuration_version q \<and>
     (q = r \<or> sr_row_version r < sr_row_version q)"

definition store_le :: "schedule_store \<Rightarrow> schedule_store \<Rightarrow> bool" where
  "store_le st st' \<longleftrightarrow>
     run_le (sc_db st) (sc_db st') \<and> table_le schedule_row_le (sc_schedules st) (sc_schedules st') \<and>
     table_le occurrence_le (sc_occurrences st) (sc_occurrences st')"

lemma occurrence_le_refl [simp]: "occurrence_le x x"
  by (simp add: occurrence_le_def)

lemma occurrence_le_trans: "occurrence_le x y \<Longrightarrow> occurrence_le y z \<Longrightarrow> occurrence_le x z"
  unfolding occurrence_le_def by (metis order_trans order_antisym)

lemma schedule_row_le_refl [simp]: "schedule_row_le r r"
  by (simp add: schedule_row_le_def)

lemma schedule_row_le_trans: "schedule_row_le r q \<Longrightarrow> schedule_row_le q p \<Longrightarrow> schedule_row_le r p"
  unfolding schedule_row_le_def by auto

lemma schedules_le_trans:
  "table_le schedule_row_le xs ys \<Longrightarrow> table_le schedule_row_le ys zs \<Longrightarrow> table_le schedule_row_le xs zs"
  unfolding table_le_def using schedule_row_le_trans by meson

lemma occurrences_le_trans:
  "table_le occurrence_le xs ys \<Longrightarrow> table_le occurrence_le ys zs \<Longrightarrow> table_le occurrence_le xs zs"
  unfolding table_le_def using occurrence_le_trans by meson

lemma store_le_refl: "store_le st st"
  by (simp add: store_le_def run_le_refl table_le_refl)

lemma store_le_trans: "store_le st st1 \<Longrightarrow> store_le st1 st2 \<Longrightarrow> store_le st st2"
  unfolding store_le_def using run_le_trans schedules_le_trans occurrences_le_trans by blast

definition store_safe :: "schedule_store \<Rightarrow> schedule_store \<Rightarrow> bool" where
  "store_safe st st' \<longleftrightarrow> (schedule_inv st \<longrightarrow> schedule_inv st' \<and> store_le st st')"

lemma store_safe_refl [simp]: "store_safe st st"
  by (simp add: store_safe_def store_le_refl)

lemma store_safe_trans: "store_safe st st1 \<Longrightarrow> store_safe st1 st2 \<Longrightarrow> store_safe st st2"
  unfolding store_safe_def using store_le_trans by blast

section \<open>Counting after a change\<close>

lemma length_filter_sum: "int (length (filter P xs)) = sum_list (map (\<lambda>x. of_bool (P x)) xs)"
  by (induction xs) auto

lemma count_put_row:
  assumes "distinct (map key rows)" "x \<in> set rows" "key y = key x"
  shows "int (length (filter P (put_row key y rows))) = int (length (filter P rows)) - of_bool (P x) + of_bool (P y)"
  unfolding length_filter_sum by (rule sum_put_row) (use assms in auto)

lemma require_row_Inr:
  "require_row p i st = Inr r \<Longrightarrow> r \<in> set (sc_schedules st) \<and> sr_id r = i \<and> sr_project_id r = p"
  by (auto simp: require_row_def find_Some_iff split: option.splits)

lemma bump_Inr:
  "bump r = Inr q \<longleftrightarrow> 1 \<le> sr_row_version r \<and> sr_row_version r < max_integer \<and>
     q = r\<lparr>sr_row_version := sr_row_version r + 1\<rparr>"
  by (auto simp: bump_def ebind_Inr_iff positive_integer_def)

lemma save_schedule_Inr:
  "save_schedule r st = Inr st' \<longleftrightarrow> schedule_row_ok r \<and> st' = st\<lparr>sc_schedules := put_row sr_id r (sc_schedules st)\<rparr>"
  by (auto simp: save_schedule_def ebind_Inr_iff)

lemma save_occurrence_Inr:
  "save_occurrence x st = Inr st' \<longleftrightarrow> occurrence_row_ok x \<and>
     (\<forall>y \<in> set (sc_occurrences st). oc_id y \<noteq> oc_id x \<longrightarrow> \<not> occurrence_conflict x y) \<and>
     st' = st\<lparr>sc_occurrences := put_row oc_id x (sc_occurrences st)\<rparr>"
  by (auto simp: save_occurrence_def ebind_Inr_iff list_ex_iff)

lemma insert_occurrence_Inr:
  "insert_occurrence x st = Inr st' \<longleftrightarrow> occurrence_row_ok x \<and>
     (\<forall>y \<in> set (sc_occurrences st). \<not> occurrence_conflict x y) \<and> oc_id x \<notin> oc_id ` set (sc_occurrences st) \<and>
     distinct (map oc_id (sc_occurrences st)) \<and> st' = st\<lparr>sc_occurrences := sc_occurrences st @ [x]\<rparr>"
  by (auto simp: insert_occurrence_def ebind_Inr_iff list_ex_iff insert_rows_Inr)

lemma conflict_sym: "occurrence_conflict x y = occurrence_conflict y x"
  unfolding occurrence_conflict_def by metis

section \<open>The changes of the tables\<close>

lemma has_parent_put:
  assumes "distinct (map sr_id rows)" "r \<in> set rows" "schedule_row_le r q"
  shows "has_parent (put_row sr_id q rows) = has_parent rows"
proof
  fix x
  let ?f = "\<lambda>r. (sr_id r, sr_occurrence_protocol r)"
  have "map ?f (put_row sr_id q rows) = map ?f rows"
    using assms by (intro map_put_row_same) (auto simp: schedule_row_le_def dest: distinct_key_eq)
  moreover have "has_parent rs x = list_ex (\<lambda>(i, p). i = oc_schedule_id x \<and> p = 1) (map ?f rs)" for rs
    by (simp add: has_parent_def list_ex_iff)
  ultimately show "has_parent (put_row sr_id q rows) x = has_parent rows x" by simp
qed

lemma counts_put:
  assumes "counts_ok st" "sc_schedules st' = put_row sr_id q (sc_schedules st)"
    and "\<And>i. i \<noteq> sr_id q \<Longrightarrow> created_count i st' = created_count i st \<and> pending_count i st' = pending_count i st"
    and "sr_occurrence_protocol q = 1 \<Longrightarrow> sr_run_count q = created_count (sr_id q) st' \<and>
      (\<forall>n \<in> set_option (sr_max_runs q). sr_run_count q + pending_count (sr_id q) st' \<le> n)"
  shows "counts_ok st'"
  unfolding counts_ok_def assms(2) using assms(1,3,4) by (auto simp: counts_ok_def dest!: set_put_rowD)

lemma table_put_le:
  assumes "distinct (map sr_id rows)" "r \<in> set rows" "schedule_row_le r q"
  shows "table_le schedule_row_le rows (put_row sr_id q rows)"
  using assms by (intro table_le_put_row) (auto simp: schedule_row_le_def dest: distinct_key_eq)

lemma replace_schedule:
  assumes inv: "schedule_inv st" and r: "r \<in> set (sc_schedules st)"
    and q: "schedule_row_ok q" "schedule_row_le r q" "sr_run_count q = sr_run_count r"
    and max: "sr_occurrence_protocol r = 1 \<Longrightarrow>
      \<forall>n \<in> set_option (sr_max_runs q). sr_run_count r + pending_count (sr_id r) st \<le> n"
    and st': "st' = st\<lparr>sc_schedules := put_row sr_id q (sc_schedules st)\<rparr>"
  shows "schedule_inv st' \<and> store_le st st'"
proof -
  have d: "distinct (map sr_id (sc_schedules st))" "counts_ok st" using inv by (simp_all add: schedule_inv_def)
  have id: "sr_id q = sr_id r" "sr_occurrence_protocol q = sr_occurrence_protocol r"
    using q(2) by (simp_all add: schedule_row_le_def)
  have "counts_ok st'"
    by (rule counts_put [OF d(2), of _ q]) (use d(2) r q(3) max id in
      \<open>auto simp: st' created_count_def pending_count_def pending_of_schedule_def counts_ok_def\<close>)
  then show ?thesis
    using inv q(1) has_parent_put [OF d(1) r q(2)] table_put_le [OF d(1) r q(2)]
    by (auto simp: schedule_inv_def store_le_def st' run_le_refl table_le_refl list_all_iff dest!: set_put_rowD)
qed

lemma start_row:
  assumes inv: "schedule_inv st" and r: "r \<in> set (sc_schedules st)" "sr_occurrence_protocol r = 1"
    and x: "oc_schedule_id x = sr_id r" "oc_status x = OCC_PENDING" "insert_occurrence x st = Inr st1"
    and q: "schedule_row_ok q" "schedule_row_le r q" "sr_run_count q = sr_run_count r" "sr_max_runs q = sr_max_runs r"
    and room: "pending_count (sr_id r) st = 0" "\<forall>n \<in> set_option (sr_max_runs r). sr_run_count r < n"
    and st': "st' = st1\<lparr>sc_schedules := put_row sr_id q (sc_schedules st1)\<rparr>"
  shows "schedule_inv st' \<and> store_le st st'"
proof -
  have d: "distinct (map sr_id (sc_schedules st))" "counts_ok st" using inv by (simp_all add: schedule_inv_def)
  have id: "sr_id q = sr_id r" "sr_occurrence_protocol q = 1"
    using q(2) r(2) by (simp_all add: schedule_row_le_def)
  have st1: "occurrence_row_ok x" "\<forall>y \<in> set (sc_occurrences st). \<not> occurrence_conflict x y"
    "oc_id x \<notin> oc_id ` set (sc_occurrences st)" "st1 = st\<lparr>sc_occurrences := sc_occurrences st @ [x]\<rparr>"
    using x(3) by (auto simp: insert_occurrence_Inr)
  have none: "oc_run_id x = None" using st1(1) x(2) by (auto simp: occurrence_row_ok_def)
  have "counts_ok st'"
    by (rule counts_put [OF d(2), of _ q]) (use d(2) r q(3,4) room id none x(1) in
      \<open>auto simp: st' st1(4) created_count_def pending_count_def pending_of_schedule_def counts_ok_def\<close>)
  moreover have "has_parent (sc_schedules st) x" using r x(1) by (auto simp: has_parent_def list_ex_iff)
  moreover have "occurrences_apart (sc_occurrences st @ [x])"
    using inv st1(2) conflict_sym by (auto simp: schedule_inv_def occurrences_apart_def)
  moreover have "runs_linked (sc_db st) (sc_occurrences st @ [x])"
    using inv none by (auto simp: schedule_inv_def runs_linked_def)
  ultimately show ?thesis
    using inv q(1) st1(1,3) has_parent_put [OF d(1) r(1) q(2)] table_put_le [OF d(1) r(1) q(2)]
    by (auto simp: schedule_inv_def store_le_def st' st1(4) run_le_refl table_le_append list_all_iff
        dest!: set_put_rowD)
qed

lemma change_row:
  assumes inv: "schedule_inv st" and r: "r \<in> set (sc_schedules st)"
    and x: "x \<in> set (sc_occurrences st)" "oc_schedule_id x = sr_id r" "oc_status x = OCC_PENDING"
    and y: "occurrence_le x y" "save_occurrence y st = Inr st1"
      "\<forall>i \<in> set_option (oc_run_id y). occurrence_run (sc_db st) y i"
    and q: "schedule_row_ok q" "schedule_row_le r q" "sr_max_runs q = sr_max_runs r"
      "sr_run_count q = sr_run_count r + of_bool (oc_run_id y \<noteq> None)"
    and st': "st' = st1\<lparr>sc_schedules := put_row sr_id q (sc_schedules st1)\<rparr>"
  shows "schedule_inv st' \<and> store_le st st'"
proof -
  have d: "distinct (map sr_id (sc_schedules st))" "counts_ok st" "distinct (map oc_id (sc_occurrences st))"
    and old: "occurrence_row_ok x"
    using inv x(1) by (simp_all add: schedule_inv_def list_all_iff)
  have id: "sr_id q = sr_id r" "sr_occurrence_protocol q = sr_occurrence_protocol r"
    "oc_id y = oc_id x" "oc_schedule_id y = sr_id r"
    using q(2) y(1) x(2) by (simp_all add: schedule_row_le_def occurrence_le_def occurrence_request_def)
  have st1: "occurrence_row_ok y" "\<forall>z \<in> set (sc_occurrences st). oc_id z \<noteq> oc_id y \<longrightarrow> \<not> occurrence_conflict y z"
    "st1 = st\<lparr>sc_occurrences := put_row oc_id y (sc_occurrences st)\<rparr>"
    using y(2) by (auto simp: save_occurrence_Inr)
  have none: "oc_run_id x = None" using old x(3) by (auto simp: occurrence_row_ok_def)
  have open_y: "oc_status y = OCC_PENDING \<Longrightarrow> oc_run_id y = None" using st1(1) by (auto simp: occurrence_row_ok_def)
  note count = count_put_row [OF d(3) x(1) id(3)]
  have created: "created_count i st' = created_count i st + of_bool (i = sr_id r \<and> oc_run_id y \<noteq> None)" for i
    by (simp add: created_count_def st' st1(3) count none id(4) eq_commute [of i])
  have pending: "pending_count i st' = pending_count i st - of_bool (i = sr_id r \<and> oc_status y \<noteq> OCC_PENDING)" for i
    by (simp add: pending_count_def pending_of_schedule_def st' st1(3) count x(2,3) id(4) eq_commute [of i])
  have "sr_run_count q = created_count (sr_id q) st' \<and>
      (\<forall>n \<in> set_option (sr_max_runs q). sr_run_count q + pending_count (sr_id q) st' \<le> n)"
    if "sr_occurrence_protocol q = 1"
  proof -
    have "sr_run_count r = created_count (sr_id r) st"
      "\<forall>n \<in> set_option (sr_max_runs r). sr_run_count r + pending_count (sr_id r) st \<le> n"
      using bspec [OF d(2) [unfolded counts_ok_def] r] that [unfolded id(2)] by blast+
    then show ?thesis
      using open_y by (cases "oc_status y") (auto simp: created pending id(1) q(3,4))
  qed
  moreover have "sc_schedules st' = put_row sr_id q (sc_schedules st)" by (simp add: st' st1(3))
  moreover have "created_count i st' = created_count i st \<and> pending_count i st' = pending_count i st"
    if "i \<noteq> sr_id q" for i using that by (simp add: created pending id(1))
  ultimately have "counts_ok st'" using counts_put [OF d(2)] by blast
  moreover have "occurrences_apart (put_row oc_id y (sc_occurrences st))"
    using inv st1(2) conflict_sym by (auto simp: schedule_inv_def occurrences_apart_def dest!: set_put_rowD)
  moreover have "runs_linked (sc_db st) (put_row oc_id y (sc_occurrences st))"
    using inv y(3) by (auto simp: schedule_inv_def runs_linked_def dest!: set_put_rowD)
  moreover have "has_parent (sc_schedules st) y"
    using inv x(1,2) id(4) by (auto simp: schedule_inv_def list_all_iff has_parent_def)
  moreover have "table_le occurrence_le (sc_occurrences st) (put_row oc_id y (sc_occurrences st))"
    using y(1) x(1) d(3) id(3) by (intro table_le_put_row) (auto dest: distinct_key_eq)
  ultimately show ?thesis
    using inv q(1) st1(1) has_parent_put [OF d(1) r q(2)] table_put_le [OF d(1) r q(2)]
    by (auto simp: schedule_inv_def store_le_def st' st1(3) run_le_refl list_all_iff dest!: set_put_rowD)
qed

end
