(* ===== verification/Schedule_Ops.thy ===== *)
theory Schedule_Ops
  imports Schedule_Inv
begin

text \<open>
  Every operation on the schedule tables keeps the invariant and respects the history; the commands of
  workers and users on schedules, interleaved with the commands on runs, are an interpretation of
  \<open>transactional_history\<close>.
\<close>

section \<open>The operations\<close>

lemma create_schedule_row_safe:
  assumes "create_schedule_row clk ids c st = Inr (r, st')"
  shows "store_safe st st'"
  unfolding store_safe_def
proof
  assume inv: "schedule_inv st"
  have r: "schedule_row_ok r" "sr_id r \<notin> sr_id ` set (sc_schedules st)" "distinct (map sr_id (sc_schedules st))"
    "st' = st\<lparr>sc_schedules := sc_schedules st @ [r]\<rparr>" "sr_run_count r = 0"
    using assms by (auto simp: create_schedule_row_def ebind_Inr_iff insert_rows_Inr Let_def)
  have "list_all (has_parent (sc_schedules st)) (sc_occurrences st)" using inv by (simp add: schedule_inv_def)
  then have "\<forall>x \<in> set (sc_occurrences st). oc_schedule_id x \<noteq> sr_id r"
    using r(2) unfolding list_all_iff has_parent_def list_ex_iff by (metis imageI)
  then have none: "created_count (sr_id r) st = 0" "pending_count (sr_id r) st = 0"
    by (auto simp: created_count_def pending_count_def pending_of_schedule_def filter_empty_conv)
  have same: "created_count i st' = created_count i st" "pending_count i st' = pending_count i st" for i
    by (simp_all add: created_count_def pending_count_def pending_of_schedule_def r(4))
  have rows: "sc_schedules st' = sc_schedules st @ [r]" by (simp add: r(4))
  have room: "\<forall>n \<in> set_option (sr_max_runs r). 0 \<le> n" using r(1) by (auto simp: schedule_row_ok_def)
  have "counts_ok st" using inv by (simp add: schedule_inv_def)
  then have "counts_ok st'"
    unfolding counts_ok_def same rows set_append ball_Un by (auto simp: none r(5) room)
  moreover have "has_parent (sc_schedules st) x \<Longrightarrow> has_parent (sc_schedules st @ [r]) x" for x
    by (auto simp: has_parent_def)
  ultimately show "schedule_inv st' \<and> store_le st st'"
    using inv r(1-3) by (auto simp: schedule_inv_def store_le_def r(4) run_le_refl table_le_append table_le_refl
        list_all_iff)
qed

lemma bounded_room:
  assumes "schedule_inv st" "r \<in> set (sc_schedules st)" "sr_occurrence_protocol r = 1" "n \<in> set_option (sr_max_runs r)"
  shows "sr_run_count r + pending_count (sr_id r) st \<le> n"
  using assms unfolding schedule_inv_def counts_ok_def by blast

lemma update_definition_Inr:
  assumes "update_definition c st = Inr (q, st')"
  obtains r u where "r \<in> set (sc_schedules st)"
    "\<forall>n \<in> set_option (sd_max_runs (us_definition c)). sr_run_count r + pending_count (sr_id r) st \<le> n"
    "q = (revised_schedule c u r)\<lparr>sr_row_version := sr_row_version r + 1\<rparr>" "schedule_row_ok q"
    "st' = st\<lparr>sc_schedules := put_row sr_id q (sc_schedules st)\<rparr>"
proof -
  obtain r where r: "require_row (us_project_id c) (us_schedule_id c) st = Inr r"
    using assms by (auto simp: update_definition_def ebind_Inr_iff)
  have "\<forall>n \<in> set_option (sd_max_runs (us_definition c)). sr_run_count r + pending_count (sr_id r) st \<le> n"
    using assms r by (auto simp: update_definition_def ebind_Inr_iff Let_def)
  moreover obtain u where "bump (revised_schedule c u r) = Inr q" "save_schedule q st = Inr st'"
    using assms r by (auto simp: update_definition_def ebind_Inr_iff Let_def)
  ultimately show thesis
    using require_row_Inr [OF r] by (intro that [of r u]) (auto simp: bump_Inr save_schedule_Inr revised_schedule_def Let_def)
qed

lemma update_definition_safe:
  assumes "update_definition c st = Inr (q, st')"
  shows "store_safe st st'"
  unfolding store_safe_def
proof
  assume inv: "schedule_inv st"
  obtain r u where r: "r \<in> set (sc_schedules st)"
    "\<forall>n \<in> set_option (sd_max_runs (us_definition c)). sr_run_count r + pending_count (sr_id r) st \<le> n"
    "q = (revised_schedule c u r)\<lparr>sr_row_version := sr_row_version r + 1\<rparr>" "schedule_row_ok q"
    "st' = st\<lparr>sc_schedules := put_row sr_id q (sc_schedules st)\<rparr>"
    using assms by (rule update_definition_Inr)
  have "schedule_row_le r q" "sr_run_count q = sr_run_count r" "sr_max_runs q = sd_max_runs (us_definition c)"
    by (simp_all add: r(3) revised_schedule_def Let_def schedule_row_le_def)
  then show "schedule_inv st' \<and> store_le st st'"
    by (intro replace_schedule [OF inv r(1,4) _ _ _ r(5)]) (simp_all add: r(2))
qed

text \<open>A row whose state alone changed.\<close>

lemma same_definition_safe:
  assumes "r \<in> set (sc_schedules st)" "schedule_row_ok q" "schedule_row_le r q" "sr_run_count q = sr_run_count r"
    "sr_max_runs q = sr_max_runs r" "st' = st\<lparr>sc_schedules := put_row sr_id q (sc_schedules st)\<rparr>"
  shows "store_safe st st'"
  unfolding store_safe_def
proof
  assume inv: "schedule_inv st"
  show "schedule_inv st' \<and> store_le st st'"
    by (rule replace_schedule [OF inv assms(1-4) _ assms(6)]) (use bounded_room [OF inv assms(1)] assms(5) in simp)
qed

lemma set_schedule_status_safe:
  assumes "set_schedule_status p i status u expected err st = Inr (q, st')"
  shows "store_safe st st'"
proof -
  obtain r where "r \<in> set (sc_schedules st)" "schedule_row_ok q" "schedule_row_le r q" "sr_run_count q = sr_run_count r"
    "sr_max_runs q = sr_max_runs r" "st' = st\<lparr>sc_schedules := put_row sr_id q (sc_schedules st)\<rparr>"
    using assms by (auto simp: set_schedule_status_def ebind_Inr_iff bump_Inr save_schedule_Inr
        schedule_row_le_def dest!: require_row_Inr)
  then show ?thesis by (rule same_definition_safe)
qed

lemma stop_schedule_safe:
  assumes "r \<in> set (sc_schedules st)" "stop_schedule q st = Inr (c, st')" 
    "q = r\<lparr>sr_status := s, sr_last_error := e\<rparr>"
  shows "store_safe st st'"
proof -
  let ?q = "q\<lparr>sr_next_run_at := None, sr_row_version := sr_row_version q + 1\<rparr>"
  have "schedule_row_ok ?q" "st' = st\<lparr>sc_schedules := put_row sr_id ?q (sc_schedules st)\<rparr>"
    using assms(2) by (auto simp: stop_schedule_def ebind_Inr_iff bump_Inr save_schedule_Inr)
  then show ?thesis 
    by (intro same_definition_safe [OF assms(1)]) (auto simp: assms(3) schedule_row_le_def)
qed

lemma start_occurrence_safe:
  assumes r: "r \<in> set (sc_schedules st)" "sr_occurrence_protocol r = 1" "pending_count (sr_id r) st = 0"
      "\<forall>n \<in> set_option (sr_max_runs r). sr_run_count r < n"
    and run: "start_occurrence sha tzdb clk ids r candidate now w token s st = Inr (c, st')"
  shows "store_safe st st'"
proof -
  obtain x q st1 where x: "insert_occurrence x st = Inr st1" "oc_schedule_id x = sr_id r" "oc_status x = OCC_PENDING"
    and q: "schedule_row_ok q" "schedule_row_le r q" "sr_run_count q = sr_run_count r" "sr_max_runs q = sr_max_runs r"
      "st' = st1\<lparr>sc_schedules := put_row sr_id q (sc_schedules st1)\<rparr>"
    using run by (auto simp: start_occurrence_def ebind_Inr_iff Let_def bump_Inr save_schedule_Inr
        schedule_row_le_def new_occurrence_def)
  show ?thesis unfolding store_safe_def
    using start_row [OF _ r(1,2) x(2,3,1) q(1-4) r(3,4) q(5)] by blast
qed

lemma claim_due_safe:
  assumes "claim_due sha tzdb clk ids seen now w token s st = Inr (c, st')"
  shows "store_safe st st'"
proof -
  obtain r where r: "r \<in> set (sc_schedules st)" "require_row (sr_project_id seen) (sr_id seen) st = Inr r"
    using assms by (auto simp: claim_due_def ebind_Inr_iff dest: require_row_Inr)
  consider "st' = st"
    | e where "stop_schedule (r\<lparr>sr_status := ERROR, sr_last_error := e\<rparr>) st = Inr (c, st')"
    | "stop_schedule (r\<lparr>sr_status := COMPLETED\<rparr>) st = Inr (c, st')"
    | candidate where "sr_occurrence_protocol r = 1" "pending_count (sr_id r) st = 0"
      "\<forall>n \<in> set_option (sr_max_runs r). sr_run_count r < n"
      "start_occurrence sha tzdb clk ids r candidate now w token s st = Inr (c, st')"
    using assms r(2) by (auto simp: claim_due_def ebind_Inr_iff not_le split: option.splits if_splits)
  then show ?thesis
  proof cases
    case 3
    show ?thesis by (rule stop_schedule_safe [OF r(1) 3, where s = COMPLETED and e = "sr_last_error r"]) simp
  qed (use r(1) in \<open>auto intro: start_occurrence_safe stop_schedule_safe [where s = ERROR]\<close>)
qed

text \<open>Taking over an abandoned occurrence.\<close>

definition taken_over :: "occurrence_row \<Rightarrow> claimed_schedule \<Rightarrow> schedule_store \<Rightarrow> schedule_store \<Rightarrow> bool" where
  "taken_over x c st st' \<longleftrightarrow>
     (\<exists>y. x \<in> set (sc_occurrences st) \<and> oc_status x = OCC_PENDING \<and> occurrence_request y = occurrence_request x \<and>
       oc_lease_generation y = oc_lease_generation x + 1 \<and> oc_status y = OCC_PENDING \<and>
       save_occurrence y st = Inr st' \<and> cs_occurrence_id c = oc_id x \<and> cs_lease_generation c = oc_lease_generation y)"

lemma claimed_of_occurrence_fields:
  assumes "claimed_of_occurrence sha tzdb token x = Inr c"
  shows "cs_schedule_id c = oc_schedule_id x" "cs_project_id c = oc_project_id x" "cs_occurrence_id c = oc_id x"
    "cs_occurrence_at c = oc_occurrence_at x" "cs_worker_id c = oc_worker_id x" "cs_lease_token c = token"
    "cs_lease_generation c = oc_lease_generation x" "cs_lease_expires_at c = oc_lease_expires_at x"
    "cs_snapshot_checksum c = oc_snapshot_checksum x"
  using assms by (auto simp: claimed_of_occurrence_def ebind_Inr_iff Let_def)

lemma recover_occurrence_Inr:
  assumes "recover_occurrence sha tzdb busy current now w token s m r st = Inr (cs, st')"
  shows "cs = [] \<and> st' = st \<or> (\<exists>x c. cs = [c] \<and> taken_over x c st st')"
proof (cases "find (\<lambda>x. \<not> busy (oc_id x)) (pending_of_schedule (sr_id r) st)")
  case None
  then show ?thesis using assms by (simp add: recover_occurrence_def)
next
  case (Some x)
  have x: "x \<in> set (sc_occurrences st)" "oc_status x = OCC_PENDING"
    using Some by (auto simp: find_Some_iff pending_of_schedule_def dest!: nth_mem)
  show ?thesis
  proof (cases "recoverable_occurrence now m x")
    case True
    let ?y = "x\<lparr>oc_worker_id := w, oc_lease_token_hash := lease_token_hash sha token,
      oc_lease_generation := oc_lease_generation x + 1, oc_attempt_count := oc_attempt_count x + 1,
      oc_lease_expires_at := max now current + s * 1000000\<rparr>"
    obtain c where c: "claimed_of_occurrence sha tzdb token ?y = Inr c" "save_occurrence ?y st = Inr st'" "cs = [c]"
      using assms Some True by (auto simp: recover_occurrence_def ebind_Inr_iff Let_def)
    then have "taken_over x c st st'"
      unfolding taken_over_def using x claimed_of_occurrence_fields [OF c(1)]
      by (intro exI [of _ ?y]) (simp add: occurrence_request_def)
    then show ?thesis using c(3) by blast
  qed (use assms Some in \<open>simp add: recover_occurrence_def\<close>)
qed

lemma parent_of:
  assumes "schedule_inv st" "x \<in> set (sc_occurrences st)"
  obtains r where "r \<in> set (sc_schedules st)" "sr_id r = oc_schedule_id x" "sr_occurrence_protocol r = 1"
  using assms by (auto simp: schedule_inv_def list_all_iff has_parent_def list_ex_iff)

lemma taken_over_safe:
  assumes "taken_over x c st st'"
  shows "store_safe st st'"
  unfolding store_safe_def
proof
  assume inv: "schedule_inv st"
  obtain y where x: "x \<in> set (sc_occurrences st)" "oc_status x = OCC_PENDING"
    and y: "occurrence_request y = occurrence_request x" "oc_lease_generation y = oc_lease_generation x + 1"
      "oc_status y = OCC_PENDING" "save_occurrence y st = Inr st'"
    using assms unfolding taken_over_def by blast
  obtain r where r: "r \<in> set (sc_schedules st)" "sr_id r = oc_schedule_id x" using parent_of [OF inv x(1)] .
  have ok: "schedule_row_ok r" "distinct (map sr_id (sc_schedules st))"
    using inv r(1) by (auto simp: schedule_inv_def list_all_iff)
  have none: "oc_run_id y = None" using y(3,4) by (auto simp: save_occurrence_Inr occurrence_row_ok_def)
  have "sc_schedules st' = sc_schedules st" using y(4) by (auto simp: save_occurrence_Inr)
  then have same: "st'\<lparr>sc_schedules := put_row sr_id r (sc_schedules st')\<rparr> = st'"
    using put_row_same [OF ok(2) r(1)] by simp
  have le: "occurrence_le x y" using x(2) y(1,2) by (simp add: occurrence_le_def)
  show "schedule_inv st' \<and> store_le st st'"
    by (rule change_row [OF inv r(1) x(1) r(2) [symmetric] x(2) le y(4) _ ok(1)])
      (simp_all add: none same)
qed

lemma recover_occurrences_safe:
  assumes "\<And>t r st cs st'. step t r st = Inr (cs, st') \<Longrightarrow> store_safe st st'"
  shows "recover_occurrences step clk rs st = Inr (cs, st') \<Longrightarrow> store_safe st st'"
  by (induction rs arbitrary: clk st cs) (fastforce simp: ebind_Inr_iff dest: assms intro: store_safe_trans)+

lemma recover_occurrence_safe:
  "recover_occurrence sha tzdb busy current now w token s m r st = Inr (cs, st') \<Longrightarrow> store_safe st st'"
  by (drule recover_occurrence_Inr) (auto intro: taken_over_safe)

lemma claim_recoverable_safe:
  "claim_recoverable sha tzdb busy clk late now limit w token s m st = Inr (cs, st') \<Longrightarrow> store_safe st st'"
  by (auto simp: claim_recoverable_def ebind_Inr_iff intro: recover_occurrences_safe [OF recover_occurrence_safe])

section \<open>Settling\<close>

lemma lock_claim_Inr:
  "lock_claim sha tzdb c now st = Inr (r, x) \<longleftrightarrow>
     require_row (cs_project_id c) (cs_schedule_id c) st = Inr r \<and> find_occurrence c st = Some x \<and>
     sr_occurrence_protocol r = 1 \<and>
     (\<exists>s. stored_snapshot sha tzdb x = Inr s \<and> match_claim x s c = Inr ()) \<and> require_fence sha x c now False = Inr ()"
  by (auto simp: lock_claim_def ebind_Inr_iff split: option.splits)

lemma find_occurrence_Some:
  "find_occurrence c st = Some x \<Longrightarrow>
     x \<in> set (sc_occurrences st) \<and> oc_id x = cs_occurrence_id c \<and> oc_schedule_id x = cs_schedule_id c"
  by (auto simp: find_occurrence_def find_Some_iff)

lemma stored_snapshot_fields:
  assumes "stored_snapshot sha tzdb x = Inr s"
  shows "oc_schedule_id x = ss_schedule_id s" "oc_project_id x = it_project_id (ss_intent s)"
    "oc_idempotency_key x = snapshot_key s" "oc_occurrence_at x = ss_occurrence_at s"
  using assms by (auto simp: stored_snapshot_def ebind_Inr_iff)

lemma one_or_none_Some: "one_or_none rows = Inr (Some r) \<Longrightarrow> r \<in> set rows"
  by (cases rows) (auto simp: one_or_none_def split: if_splits list.splits)

lemma replay_run:
  assumes "find_task_run_replay sha sha1 i key d = Inr (Some c)"
  shows "\<exists>r \<in> set (db_runs d). run_id r = cr_run_id c \<and> run_project_id r = it_project_id i \<and> run_idempotency_key r = key"
  using assms
  by (auto simp: find_task_run_replay_def ebind_Inr_iff load_by_idempotency_def to_created_run_def
      split: option.splits dest!: one_or_none_Some) blast

lemma check_result_run_linked:
  assumes "check_result_run sha sha1 tzdb x result st = Inr u" "rt_run_id result = Some i"
  shows "occurrence_run (sc_db st) x i"
proof -
  obtain s c where s: "stored_snapshot sha tzdb x = Inr s" "cr_run_id c = i"
    "find_task_run_replay sha sha1 (ss_intent s) (snapshot_key s) (sc_db st) = Inr (Some c)"
    using assms by (auto simp: check_result_run_def ebind_Inr_iff)
  show ?thesis
    using replay_run [OF s(3)] stored_snapshot_fields [OF s(1)] s(2) by (auto simp: occurrence_run_def list_ex_iff)
qed

definition settled_row :: "claimed_schedule \<Rightarrow> schedule_result \<Rightarrow> bool \<Rightarrow> occurrence_row \<Rightarrow> schedule_row \<Rightarrow> schedule_row" where
  "settled_row c result unchanged x r =
     finished_schedule unchanged c result (summarized_schedule x result (counted_schedule result r))"

lemma settled_row_fields:
  "sr_row_version (settled_row c result u x r) = sr_row_version r"
  "schedule_row_le r ((settled_row c result u x r)\<lparr>sr_row_version := sr_row_version r + 1\<rparr>)"
  "sr_max_runs (settled_row c result u x r) = sr_max_runs r"
  "sr_run_count (settled_row c result u x r) = sr_run_count r + of_bool (rt_run_id result \<noteq> None)"
  by (simp_all add: settled_row_def finished_schedule_def summarized_schedule_def counted_schedule_def Let_def
      schedule_row_le_def)

lemma settle_occurrence_Inr:
  assumes "settle_occurrence sha clk r x c result st = Inr (res, st')"
  obtains q st1 u where "q = (settled_row c result u x r)\<lparr>sr_row_version := sr_row_version r + 1\<rparr>" "schedule_row_ok q"
    "save_occurrence (settled_occurrence (clk 1) result x) st = Inr st1"
    "st' = st1\<lparr>sc_schedules := put_row sr_id q (sc_schedules st1)\<rparr>" "res = result"
proof -
  define u where "u = (sr_configuration_version r = cs_configuration_version c \<and> sr_row_version r = cs_claim_row_version c)"
  define q where "q = (settled_row c result u x r)\<lparr>sr_row_version := sr_row_version r + 1\<rparr>"
  have "settle_occurrence sha clk r x c result st = Inr (res, st') \<longleftrightarrow>
      require_fence sha x c (clk 1) False = Inr () \<and>
      (\<exists>r' st1. bump (settled_row c result u x r) = Inr r' \<and> save_schedule r' st = Inr st1 \<and>
        save_occurrence (settled_occurrence (clk 1) result x) st1 = Inr st' \<and>
        require_fence sha (settled_occurrence (clk 1) result x) c (clk 2) True = Inr () \<and> res = result)"
    by (auto simp: settle_occurrence_def ebind_Inr_iff Let_def settled_row_def u_def)
  with assms have "schedule_row_ok q" "res = result"
    "save_occurrence (settled_occurrence (clk 1) result x) (st\<lparr>sc_schedules := put_row sr_id q (sc_schedules st)\<rparr>) = Inr st'"
    by (auto simp: bump_Inr save_schedule_Inr q_def settled_row_fields)
  then show thesis by (intro that [OF q_def]) (auto simp: save_occurrence_Inr)
qed

lemma record_outcome_safe:
  assumes "record_outcome sha sha1 tzdb clk c result st = Inr (res, st')"
  shows "store_safe st st'"
proof -
  obtain r x where lock: "lock_claim sha tzdb c (clk 0) st = Inr (r, x)" "validate_result x result = Inr ()"
    using assms by (auto simp: record_outcome_def ebind_Inr_iff)
  then have r: "r \<in> set (sc_schedules st)" "sr_id r = cs_schedule_id c"
    and x: "x \<in> set (sc_occurrences st)" "oc_schedule_id x = sr_id r"
    using require_row_Inr find_occurrence_Some unfolding lock_claim_Inr by fastforce+
  show ?thesis
  proof (cases "oc_status x")
    case OCC_SETTLED
    then show ?thesis using assms lock by (auto simp: record_outcome_def ebind_Inr_iff)
  next
    case OCC_PENDING
    then obtain u where u: "check_result_run sha sha1 tzdb x result st = Inr u"
      and "settle_occurrence sha clk r x c result st = Inr (res, st')"
      using assms lock by (auto simp: record_outcome_def ebind_Inr_iff)
    then obtain q st1 v where q: "q = (settled_row c result v x r)\<lparr>sr_row_version := sr_row_version r + 1\<rparr>"
      "schedule_row_ok q" "save_occurrence (settled_occurrence (clk 1) result x) st = Inr st1"
      "st' = st1\<lparr>sc_schedules := put_row sr_id q (sc_schedules st1)\<rparr>"
      by (elim settle_occurrence_Inr)
    let ?y = "settled_occurrence (clk 1) result x"
    have y: "occurrence_le x ?y" "oc_run_id ?y = rt_run_id result" "\<And>d i. occurrence_run d ?y i = occurrence_run d x i"
      by (simp_all add: occurrence_le_def settled_occurrence_def occurrence_request_def occurrence_lease_def OCC_PENDING
          occurrence_run_def)
    have run: "\<forall>i \<in> set_option (oc_run_id ?y). occurrence_run (sc_db st) ?y i"
      using check_result_run_linked [OF u] unfolding y(2,3) by simp
    have row: "schedule_row_le r q" "sr_max_runs q = sr_max_runs r"
      "sr_run_count q = sr_run_count r + of_bool (oc_run_id ?y \<noteq> None)"
      unfolding y(2) by (simp_all add: q(1) settled_row_fields)
    show ?thesis unfolding store_safe_def
      using change_row [OF _ r(1) x OCC_PENDING y(1) q(3) run q(2) row q(4)] by blast
  qed
qed

section \<open>Sequences of commands\<close>

text \<open>
  The transactions on schedules together with the commands on runs. What a deployment fixes is \<open>schedule_env\<close>;
  a claim given to \<open>RecordOutcome\<close> is any claim at all, genuine or not.
\<close>

record schedule_env =
  se_runs :: run_env
  se_tzdb :: tz_database

datatype schedule_command =
    CreateSchedule clock fresh create_schedule
  | UpdateSchedule update_schedule
  | SetScheduleStatus uuid uuid schedule_status "time option" int "string option"
  | ClaimDue clock fresh schedule_row time string string int
  | ClaimRecoverable "uuid \<Rightarrow> bool" clock clock time int string string int int
  | RecordOutcome clock claimed_schedule schedule_result
  | RunCommand run_command

definition saved :: "('r \<times> schedule_store) res \<Rightarrow> (unit \<times> schedule_store) res" where
  "saved m = ebind m (\<lambda>(r, st). Inr ((), st))"

lemma saved_Inr: "saved m = Inr (u, st) \<longleftrightarrow> (\<exists>r. m = Inr (r, st))"
  by (auto simp: saved_def ebind_Inr_iff)

fun exec_schedule :: "schedule_env \<Rightarrow> schedule_command \<Rightarrow> schedule_store \<Rightarrow> (unit \<times> schedule_store) res" where
  "exec_schedule env (CreateSchedule clk ids c) st = saved (create_schedule_row clk ids c st)"
| "exec_schedule env (UpdateSchedule c) st = saved (update_definition c st)"
| "exec_schedule env (SetScheduleStatus p i status u expected err) st =
     saved (set_schedule_status p i status u expected err st)"
| "exec_schedule env (ClaimDue clk ids seen now w token s) st =
     saved (claim_due (env_sha (se_runs env)) (se_tzdb env) clk ids seen now w token s st)"
| "exec_schedule env (ClaimRecoverable busy clk late now limit w token s m) st =
     saved (claim_recoverable (env_sha (se_runs env)) (se_tzdb env) busy clk late now limit w token s m st)"
| "exec_schedule env (RecordOutcome clk c result) st =
     saved (record_outcome (env_sha (se_runs env)) (env_sha1 (se_runs env)) (se_tzdb env) clk c result st)"
| "exec_schedule env (RunCommand c) st =
     ebind (exec_run (se_runs env) c (sc_db st)) (\<lambda>(u, d). Inr ((), st\<lparr>sc_db := d\<rparr>))"

lemma runs_changed_safe:
  assumes "safe (sc_db st) d"
  shows "store_safe st (st\<lparr>sc_db := d\<rparr>)"
  unfolding store_safe_def
proof
  assume inv: "schedule_inv st"
  then have d: "run_inv d" "run_le (sc_db st) d" using assms by (simp_all add: safe_def schedule_inv_def)
  have "occurrence_run d x i" if "occurrence_run (sc_db st) x i" for x i
    using that d(2) unfolding occurrence_run_def list_ex_iff run_le_def table_le_def run_row_le_def run_key_def
    by (metis prod.inject)
  then have "runs_linked d (sc_occurrences st)" using inv by (auto simp: schedule_inv_def runs_linked_def)
  moreover have "counts_ok (st\<lparr>sc_db := d\<rparr>) = counts_ok st"
    by (simp add: counts_ok_def created_count_def pending_count_def pending_of_schedule_def)
  ultimately show "schedule_inv (st\<lparr>sc_db := d\<rparr>) \<and> store_le st (st\<lparr>sc_db := d\<rparr>)"
    using inv d by (simp add: schedule_inv_def store_le_def table_le_refl)
qed

lemma exec_schedule_safe: "exec_schedule env c st = Inr (u, st') \<Longrightarrow> store_safe st st'"
  by (cases c) (auto simp: saved_Inr ebind_Inr_iff intro: create_schedule_row_safe update_definition_safe
      set_schedule_status_safe claim_due_safe claim_recoverable_safe record_outcome_safe
      runs_changed_safe [OF exec_run_safe])

interpretation schedules: transactional_history "exec_schedule env" schedule_inv store_le for env :: schedule_env
proof unfold_locales
  show "schedule_inv d'" "store_le d d'" if "schedule_inv d" "exec_schedule env c d = Inr (u, d')" for d c u d'
    using exec_schedule_safe [OF that(2)] that(1) by (simp_all add: store_safe_def)
qed (auto intro: store_le_refl store_le_trans)

definition schedule_all :: "schedule_env \<Rightarrow> schedule_command list \<Rightarrow> schedule_store \<Rightarrow> schedule_store" where
  "schedule_all env cs st = commit_all (exec_schedule env) cs st"

lemma schedule_all_inv: "schedule_inv st \<Longrightarrow> schedule_inv (schedule_all env cs st)"
  unfolding schedule_all_def by (rule schedules.commit_all_inv)

lemma schedule_all_le: "schedule_inv st \<Longrightarrow> store_le st (schedule_all env cs st)"
  unfolding schedule_all_def by (rule schedules.commit_all_le)

end
