(* ===== verification/Schedule_Claiming.thy ===== *)
theory Schedule_Claiming
  imports Schedule_Ops
begin

text \<open>
  What a claim is worth: the claim handed out with an occurrence is the one \<open>lock_claim\<close> accepts, a settled
  occurrence keeps answering, and a claim that was taken over is refused for ever.
\<close>

section \<open>Rows found again\<close>

lemma find_by_key:
  assumes "distinct (map key rows)" "x \<in> set rows" "P x" "\<And>y. P y \<Longrightarrow> key y = key x"
  shows "find P rows = Some x"
proof (cases "find P rows")
  case None
  then show ?thesis using assms(2,3) by (auto simp: find_None_iff)
next
  case (Some y)
  then have "y \<in> set rows" "P y" by (auto simp: find_Some_iff)
  then show ?thesis using Some assms distinct_key_eq by metis
qed

lemma require_row_found:
  assumes "schedule_inv st" "r \<in> set (sc_schedules st)"
  shows "require_row (sr_project_id r) (sr_id r) st = Inr r"
proof -
  have "find (\<lambda>q. sr_id q = sr_id r \<and> sr_project_id q = sr_project_id r) (sc_schedules st) = Some r"
    using assms by (intro find_by_key [where key = sr_id]) (auto simp: schedule_inv_def)
  then show ?thesis by (simp add: require_row_def)
qed

lemma occurrence_found:
  assumes "schedule_inv st" "x \<in> set (sc_occurrences st)" "cs_occurrence_id c = oc_id x" "cs_schedule_id c = oc_schedule_id x"
  shows "find_occurrence c st = Some x"
  unfolding find_occurrence_def
  using assms by (intro find_by_key [where key = oc_id]) (auto simp: schedule_inv_def)

lemma stored_snapshot_request:
  "occurrence_request y = occurrence_request x \<Longrightarrow> stored_snapshot sha tzdb y = stored_snapshot sha tzdb x"
  by (simp add: stored_snapshot_def occurrence_request_def)

lemma match_claim_request:
  "occurrence_request y = occurrence_request x \<Longrightarrow> match_claim y s c = match_claim x s c"
  by (simp add: match_claim_def occurrence_request_def)

lemma require_fence_Inr:
  "require_fence sha x c now w = Inr u \<longleftrightarrow>
     oc_worker_id x = cs_worker_id c \<and> oc_lease_generation x = cs_lease_generation c \<and>
     oc_lease_expires_at x = cs_lease_expires_at c \<and> oc_lease_token_hash x = lease_token_hash sha (cs_lease_token c) \<and>
     (oc_status x = OCC_PENDING \<or> w \<longrightarrow> now < oc_lease_expires_at x)"
  by (auto simp: require_fence_def)

text \<open>A lock that was granted, seen from a later store: its outcome depends on the fence alone.\<close>

lemma lock_claim_later:
  assumes inv: "schedule_inv st" "schedule_inv st'" and le: "store_le st st'"
    and lock: "lock_claim sha tzdb c now st = Inr (r, x)"
    and y: "y \<in> set (sc_occurrences st')" "occurrence_request y = occurrence_request x"
  shows "\<exists>q. schedule_row_le r q \<and> lock_claim sha tzdb c now' st' = ebind (require_fence sha y c now' False) (\<lambda>_. Inr (q, y))"
proof -
  obtain s where r: "require_row (cs_project_id c) (cs_schedule_id c) st = Inr r" "sr_occurrence_protocol r = 1"
    and x: "find_occurrence c st = Some x" and s: "stored_snapshot sha tzdb x = Inr s" "match_claim x s c = Inr ()"
    using lock by (auto simp: lock_claim_Inr)
  obtain q where q: "q \<in> set (sc_schedules st')" "schedule_row_le r q"
    using le require_row_Inr [OF r(1)] by (auto simp: store_le_def table_le_def)
  have "require_row (cs_project_id c) (cs_schedule_id c) st' = Inr q" "sr_occurrence_protocol q = 1"
    using require_row_found [OF inv(2) q(1)] q(2) r(2) require_row_Inr [OF r(1)] by (simp_all add: schedule_row_le_def)
  moreover have "find_occurrence c st' = Some y"
    using find_occurrence_Some [OF x] y by (intro occurrence_found [OF inv(2)]) (auto simp: occurrence_request_def)
  moreover have "stored_snapshot sha tzdb y = Inr s" "match_claim y s c = Inr ()"
    using s stored_snapshot_request [OF y(2)] match_claim_request [OF y(2)] by simp_all
  ultimately have "lock_claim sha tzdb c now' st' = ebind (require_fence sha y c now' False) (\<lambda>_. Inr (q, y))"
    by (simp add: lock_claim_def raise_if_def)
  then show ?thesis using q(2) by blast
qed

section \<open>The claim handed out\<close>

lemma stored_snapshot_valid:
  assumes "stored_snapshot sha tzdb x = Inr s"
  shows "valid_snapshot tzdb s" "oc_snapshot_checksum x = json_digest sha (oc_snapshot_json x)"
  using assms by (auto simp: stored_snapshot_def ebind_Inr_iff snapshot_from_json_Inr intro: read_snapshot_Inr)

lemma own_claim_matches:
  assumes "claimed_of_occurrence sha tzdb token x = Inr c" "stored_snapshot sha tzdb x = Inr s"
    and "it_auto_approve_git (ss_intent s) = it_auto_approve (ss_intent s)"
      "it_auto_approve_mcp (ss_intent s) = it_auto_approve (ss_intent s)"
  shows "match_claim x s c = Inr ()"
proof -
  let ?i = "ss_intent s"
  have valid: "valid_intent ?i" using stored_snapshot_valid(1) [OF assms(2)] by (simp add: valid_snapshot_def)
  then have "normal_sources (it_sources ?i)" by (simp add: valid_intent_def)
  then have mk: "mk_intent (it_project_id ?i) (it_skill_version_id ?i) (it_task_key ?i) (it_actor_id ?i) (it_input_json ?i)
      (JObj (map (map_prod id JStr) (it_sources ?i))) (JBool (it_auto_approve ?i)) (JBool (it_auto_approve ?i))
      (JBool (it_auto_approve ?i)) = Inr ?i"
    using valid assms(3,4) by (simp add: mk_intent_Inr normalize_stored_sources)
  have "oc_project_id x = it_project_id ?i" "oc_skill_version_id x = it_skill_version_id ?i"
    "oc_created_by x = it_actor_id ?i" "oc_configuration_version x = ss_configuration_version s"
    using assms(2) by (auto simp: stored_snapshot_def ebind_Inr_iff)
  with assms(1,2) mk show ?thesis by (auto simp: claimed_of_occurrence_def Let_def match_claim_def)
qed

lemma own_claim_fenced:
  assumes "claimed_of_occurrence sha tzdb token x = Inr c" "oc_lease_token_hash x = lease_token_hash sha token"
  shows "require_fence sha x c now w = Inr () \<longleftrightarrow> (oc_status x = OCC_PENDING \<or> w \<longrightarrow> now < oc_lease_expires_at x)"
  using claimed_of_occurrence_fields [OF assms(1)] assms(2) by (simp add: require_fence_Inr)

lemma planned_snapshot_Inr:
  assumes "planned_snapshot sha tzdb r occurrence plan = Inr s"
  shows "valid_snapshot tzdb s" "it_auto_approve (ss_intent s)" "it_auto_approve_git (ss_intent s)"
    "it_auto_approve_mcp (ss_intent s)"
proof -
  obtain i where i: "mk_intent (sr_project_id r) (sr_skill_version_id r) (sr_task_key r) (sr_created_by r) (sr_input_json r)
      (sr_sources_json r) (JBool True) (JBool True) (JBool True) = Inr i"
    and s: "read_snapshot tzdb (snapshot_to_json
      \<lparr>ss_schedule_id = sr_id r, ss_occurrence_at = occurrence, ss_name = sr_name r,
        ss_configuration_version = sr_configuration_version r, ss_claim_row_version = sr_row_version r + 1,
        ss_definition = row_definition r, ss_intent = i, ss_exhausted = op_exhausted plan,
        ss_missed = int (op_missed plan)\<rparr>) = Inr s"
    using assms by (auto simp: planned_snapshot_def ebind_Inr_iff snapshot_from_json_Inr)
  show "valid_snapshot tzdb s" by (rule read_snapshot_Inr [OF s])
  have "intent_from_json (intent_to_json i) = Inr (ss_intent s)"
    using s by (auto simp: read_snapshot_def ebind_Inr_iff snapshot_json_fields)
  moreover have "valid_intent i" "it_auto_approve i" "it_auto_approve_git i" "it_auto_approve_mcp i"
    using i by (auto simp: mk_intent_Inr)
  ultimately show "it_auto_approve (ss_intent s)" "it_auto_approve_git (ss_intent s)" "it_auto_approve_mcp (ss_intent s)"
    by (auto simp: intent_codec.dec_enc)
qed

section \<open>Settled occurrences\<close>

lemma settled_stays:
  assumes "store_le st st'" "x \<in> set (sc_occurrences st)" "oc_status x = OCC_SETTLED"
  shows "x \<in> set (sc_occurrences st')"
  using assms unfolding store_le_def table_le_def occurrence_le_def by metis

lemma record_outcome_Inr:
  assumes inv: "schedule_inv st" and run: "record_outcome sha sha1 tzdb clk c result st = Inr (res, st')"
  obtains r x y where "lock_claim sha tzdb c (clk 0) st = Inr (r, x)" "y \<in> set (sc_occurrences st')"
    "occurrence_request y = occurrence_request x" "oc_status y = OCC_SETTLED" "validate_result y result = Inr ()"
    "stored_result y = Inr result" "require_fence sha y c (clk 0) False = Inr ()" "res = result"
proof -
  obtain r x where lock: "lock_claim sha tzdb c (clk 0) st = Inr (r, x)" "validate_result x result = Inr ()"
    using run by (auto simp: record_outcome_def ebind_Inr_iff)
  have x: "x \<in> set (sc_occurrences st)" "require_fence sha x c (clk 0) False = Inr ()"
    using lock(1) by (auto simp: lock_claim_Inr dest: find_occurrence_Some)
  show thesis
  proof (cases "oc_status x")
    case OCC_SETTLED
    with run lock have "stored_result x = Inr result" "st' = st" "res = result"
      by (auto simp: record_outcome_def ebind_Inr_iff)
    with x lock OCC_SETTLED show thesis by (intro that [of r x x]) simp_all
  next
    case OCC_PENDING
    let ?y = "settled_occurrence (clk 1) result x"
    obtain q st1 where st1: "save_occurrence ?y st = Inr st1" "st' = st1\<lparr>sc_schedules := put_row sr_id q (sc_schedules st1)\<rparr>"
      "res = result"
      using run lock OCC_PENDING by (auto simp: record_outcome_def ebind_Inr_iff elim!: settle_occurrence_Inr)
    have same: "occurrence_request ?y = occurrence_request x" "oc_id ?y = oc_id x" "oc_status ?y = OCC_SETTLED"
      by (simp_all add: settled_occurrence_def occurrence_request_def)
    have "validate_result ?y result = validate_result x result"
      unfolding validate_result_def settled_occurrence_def by simp
    with lock(2) have valid: "validate_result ?y result = Inr ()" by simp
    have "\<lparr>rt_schedule_id = oc_schedule_id ?y, rt_occurrence_at = oc_occurrence_at ?y, rt_outcome = rt_outcome result,
        rt_run_id = oc_run_id ?y, rt_detail = oc_detail ?y\<rparr> = result"
      using lock(2) by (cases result) (auto simp: validate_result_def settled_occurrence_def)
    moreover have "oc_outcome ?y = Some (rt_outcome result)" "oc_settled_at ?y \<noteq> None"
      by (simp_all add: settled_occurrence_def)
    ultimately have "stored_result ?y = Inr result"
      using valid by (simp add: stored_result_def raise_if_def Let_def)
    moreover have "?y \<in> set (sc_occurrences st')"
      using st1 x(1) same(2) by (auto simp: save_occurrence_Inr intro!: in_put_row)
    moreover have "require_fence sha ?y c (clk 0) False = Inr ()"
      using x(2) by (auto simp: require_fence_Inr settled_occurrence_def)
    ultimately show thesis using lock(1) same valid st1(3) by (intro that [of r x ?y]) simp_all
  qed
qed

lemma settled_answer:
  assumes lock: "lock_claim sha tzdb c (clk 0) st = Inr (q, y)" and y: "oc_status y = OCC_SETTLED"
    "stored_result y = Inr result" "validate_result y result = Inr ()"
  shows "record_outcome sha sha1 tzdb clk c result' st =
    (if result' = result then Inr (result, st) else Inl ScheduleOccurrenceConflictError)"
  using assms by (auto simp: record_outcome_def raise_if_def validate_result_def split: if_splits)

section \<open>Claims taken over\<close>

lemma recovered_generation:
  assumes step: "\<And>t r st cs st'. step t r st = Inr (cs, st') \<Longrightarrow>
      cs = [] \<and> st' = st \<or> (\<exists>x c. cs = [c] \<and> taken_over x c st st')"
  shows "schedule_inv st \<Longrightarrow> recover_occurrences step clk rs st = Inr (cs, st') \<Longrightarrow> c \<in> set cs \<Longrightarrow>
    (\<exists>y \<in> set (sc_occurrences st'). oc_id y = cs_occurrence_id c \<and> cs_lease_generation c \<le> oc_lease_generation y) \<and>
    (\<forall>x \<in> set (sc_occurrences st). oc_id x = cs_occurrence_id c \<longrightarrow> oc_lease_generation x < cs_lease_generation c)"
proof (induction rs arbitrary: clk st cs)
  case Nil
  then show ?case by simp
next
  case (Cons r rs)
  obtain cs1 st1 cs2 where st1: "step (clk 0) r st = Inr (cs1, st1)"
    and st2: "recover_occurrences step (\<lambda>n. clk (n + 1)) rs st1 = Inr (cs2, st')" and cs: "cs = cs1 @ cs2"
    using Cons.prems(2) by (auto simp: ebind_Inr_iff)
  have safe: "store_safe st st1" using step [OF st1] by (auto intro: taken_over_safe)
  then have inv1: "schedule_inv st1" and le1: "store_le st st1" using Cons.prems(1) by (simp_all add: store_safe_def)
  have "store_safe st1 st'"
    by (rule recover_occurrences_safe [OF _ st2]) (use step in \<open>blast intro: taken_over_safe store_safe_refl\<close>)
  then have le2: "store_le st1 st'" using inv1 by (simp add: store_safe_def)
  show ?case
  proof (cases "c \<in> set cs2")
    case True
    have later: "\<exists>z \<in> set (sc_occurrences st1). oc_id z = oc_id x \<and> oc_lease_generation x \<le> oc_lease_generation z"
      if "x \<in> set (sc_occurrences st)" for x
      using that le1 unfolding store_le_def table_le_def occurrence_le_def occurrence_request_def by blast
    show ?thesis using Cons.IH [OF inv1 st2 True] later by fastforce
  next
    case False
    then obtain x where "taken_over x c st st1" using step [OF st1] Cons.prems(3) cs by auto
    then obtain y where x: "x \<in> set (sc_occurrences st)" "cs_occurrence_id c = oc_id x"
        "cs_lease_generation c = oc_lease_generation x + 1"
      and y: "occurrence_request y = occurrence_request x" "oc_lease_generation y = oc_lease_generation x + 1"
        "save_occurrence y st = Inr st1"
      by (auto simp: taken_over_def)
    have id: "oc_id y = oc_id x" using y(1) by (simp add: occurrence_request_def)
    have "y \<in> set (sc_occurrences st1)" using y(3) x(1) id by (auto simp: save_occurrence_Inr intro!: in_put_row)
    then obtain z where "z \<in> set (sc_occurrences st')" "oc_id z = oc_id y" "oc_lease_generation y \<le> oc_lease_generation z"
      using le2 unfolding store_le_def table_le_def occurrence_le_def occurrence_request_def by blast
    moreover have "z = x" if "z \<in> set (sc_occurrences st)" "oc_id z = oc_id x" for z
      using that x(1) Cons.prems(1) distinct_key_eq by (auto simp: schedule_inv_def dest: distinct_key_eq)
    ultimately show ?thesis using x y(2) id by auto
  qed
qed

section \<open>A due schedule\<close>

lemma start_occurrence_Inr:
  assumes "start_occurrence sha tzdb clk ids r candidate now w token secs st = Inr (Some c, st')"
  obtains s st1 x q plan where "plan_occurrence tzdb (row_definition r) candidate now = Inr plan"
    "planned_snapshot sha tzdb r candidate plan = Inr s"
    "x = new_occurrence sha (ids 0) r candidate s w token (max now (clk 0) + secs * 1000000) now"
    "insert_occurrence x st = Inr st1" "st' = st1\<lparr>sc_schedules := put_row sr_id q (sc_schedules st1)\<rparr>"
    "schedule_row_le r q" "claimed_of_occurrence sha tzdb token x = Inr c"
proof -
  obtain s plan x q st1 where s: "plan_occurrence tzdb (row_definition r) candidate now = Inr plan"
      "planned_snapshot sha tzdb r candidate plan = Inr s"
    and x: "x = new_occurrence sha (ids 0) r candidate s w token (max now (clk 0) + secs * 1000000) now"
    and q: "bump (r\<lparr>sr_next_run_at := op_next_run_at plan, sr_missed_count := sr_missed_count r + int (op_missed plan)\<rparr>) = Inr q"
      "insert_occurrence x st = Inr st1" "save_schedule q st1 = Inr st'" "claimed_of_occurrence sha tzdb token x = Inr c"
    using assms by (auto simp: start_occurrence_def ebind_Inr_iff Let_def utc_instant_def split: if_splits)
  show thesis
    by (rule that [OF s x q(2) _ _ q(4), of q]) (use q(1,3) in \<open>auto simp: bump_Inr save_schedule_Inr schedule_row_le_def\<close>)
qed

lemma claim_due_Some:
  assumes "claim_due sha tzdb clk ids seen now w token secs st = Inr (Some c, st')"
  obtains r t where "require_row (sr_project_id seen) (sr_id seen) st = Inr r" "sr_next_run_at r = Some t" "t \<le> now"
    "claim_current r seen now" "sr_occurrence_protocol r = 1" "pending_count (sr_id r) st = 0"
    "\<forall>n \<in> set_option (sr_max_runs r). sr_run_count r < n"
    "start_occurrence sha tzdb clk ids r t now w token secs st = Inr (Some c, st')"
proof -
  obtain r where r: "require_row (sr_project_id seen) (sr_id seen) st = Inr r"
    using assms by (auto simp: claim_due_def ebind_Inr_iff)
  obtain t where t: "sr_next_run_at r = Some t"
    using assms r by (auto simp: claim_due_def ebind_Inr_iff split: option.splits)
  have "claim_current r seen now" "sr_occurrence_protocol r = 1" "pending_count (sr_id r) st = 0"
    "\<forall>n \<in> set_option (sr_max_runs r). sr_run_count r < n"
    "start_occurrence sha tzdb clk ids r t now w token secs st = Inr (Some c, st')"
    using assms r t by (auto simp: claim_due_def ebind_Inr_iff stop_schedule_def not_le split: if_splits)
  moreover from this(1) t have "t \<le> now" by (simp add: claim_current_def)
  ultimately show thesis using that [OF r t] by blast
qed

lemma claim_due_locked:
  assumes inv: "schedule_inv st" and run: "claim_due sha tzdb clk ids seen now w token secs st = Inr (Some c, st')"
    and r: "require_row (sr_project_id seen) (sr_id seen) st = Inr r" "sr_next_run_at r = Some t"
    and t: "t' < cs_lease_expires_at c"
  shows "\<exists>q x. lock_claim sha tzdb c t' st' = Inr (q, x) \<and> oc_status x = OCC_PENDING \<and>
    oc_idempotency_key x = schedule_idempotency_key (sr_id r) t \<and> cs_occurrence_at c = t \<and> cs_lease_generation c = 1"
proof -
  have r1: "sr_occurrence_protocol r = 1" "start_occurrence sha tzdb clk ids r t now w token secs st = Inr (Some c, st')"
    using claim_due_Some [OF run] r by (metis Inr_inject option.inject)+
  obtain s st1 x q plan where s: "planned_snapshot sha tzdb r t plan = Inr s"
    and x: "x = new_occurrence sha (ids 0) r t s w token (max now (clk 0) + secs * 1000000) now"
    and st': "insert_occurrence x st = Inr st1" "st' = st1\<lparr>sc_schedules := put_row sr_id q (sc_schedules st1)\<rparr>"
      "schedule_row_le r q" and c: "claimed_of_occurrence sha tzdb token x = Inr c"
    using start_occurrence_Inr [OF r1(2)] by metis
  have inv': "schedule_inv st'" using claim_due_safe [OF run] inv by (simp add: store_safe_def)
  obtain u where u: "stored_snapshot sha tzdb x = Inr u" using c by (auto simp: claimed_of_occurrence_def ebind_Inr_iff)
  then have "read_snapshot tzdb (snapshot_to_json s) = Inr u"
    by (auto simp: stored_snapshot_def ebind_Inr_iff snapshot_from_json_Inr x new_occurrence_def)
  then have us: "u = s" using read_snapshot_json [OF planned_snapshot_Inr(1) [OF s]] by simp
  have "match_claim x u c = Inr ()"
    by (rule own_claim_matches [OF c u]) (use planned_snapshot_Inr [OF s] us in simp_all)
  moreover have fields: "oc_status x = OCC_PENDING" "oc_lease_token_hash x = lease_token_hash sha token"
    "oc_schedule_id x = sr_id r" "oc_project_id x = sr_project_id r" "oc_occurrence_at x = t" "oc_lease_generation x = 1"
    "oc_idempotency_key x = snapshot_key s"
    by (simp_all add: x new_occurrence_def)
  moreover have "require_fence sha x c t' False = Inr ()"
    using own_claim_fenced [OF c fields(2)] t claimed_of_occurrence_fields [OF c] by simp
  moreover have "x \<in> set (sc_occurrences st')" using st'(1) by (auto simp: st'(2) insert_occurrence_Inr)
  then have "find_occurrence c st' = Some x"
    by (rule occurrence_found [OF inv']) (use claimed_of_occurrence_fields [OF c] in simp_all)
  moreover have "sr_id r \<in> sr_id ` set (sc_schedules st)" using require_row_Inr [OF r(1)] by blast
  then have "q \<in> set (sc_schedules st')"
    using st'(1,3) by (auto simp: st'(2) insert_occurrence_Inr schedule_row_le_def intro!: in_put_row)
  then have "require_row (cs_project_id c) (cs_schedule_id c) st' = Inr q" "sr_occurrence_protocol q = 1"
    using require_row_found [OF inv', of q] st'(3) r1(1) fields claimed_of_occurrence_fields [OF c]
    by (simp_all add: schedule_row_le_def)
  ultimately have "lock_claim sha tzdb c t' st' = Inr (q, x)" using u by (simp add: lock_claim_Inr)
  moreover have "snapshot_key s = schedule_idempotency_key (sr_id r) t"
    using stored_snapshot_fields [OF u] us fields by (simp add: snapshot_key_def)
  ultimately show ?thesis using fields claimed_of_occurrence_fields [OF c] by simp
qed

end
