(* ===== verification/Budget_Replay.thy ===== *)
theory Budget_Replay
  imports Budget_Commands "HOL-Library.Multiset"
begin

text \<open>
  Delivering a report twice. The consistency check of \<open>ledger\<close> accepts every state the invariant
  describes (\<open>ledger_complete\<close>), a recorded receipt is found again under its key
  (\<open>replay_recorded\<close>), and so a second delivery changes nothing.
\<close>

section \<open>The ledger check accepts what the invariant describes\<close>

lemma sum_list_sort_key: "sum_list (map f (sort_key k xs)) = (sum_list (map f xs) :: int)"
proof -
  have "sum_list (map f ys) = sum_mset (image_mset f (mset ys))" for ys
    by (simp add: sum_mset_sum_list [symmetric])
  then show ?thesis by simp
qed

lemma agrees_sort: "agrees v (map f (sort_key k rows)) \<longleftrightarrow> agrees v (map f rows)"
proof -
  have "sum_list (map val (map f (sort_key k rows))) = sum_list (map val (map f rows))"
    unfolding map_map by (rule sum_list_sort_key)
  then show ?thesis by (simp add: agrees_def)
qed

lemma reservation_rows_of:
  "ba_run_id a = rid \<Longrightarrow> reservation_rows rid d = sort_key rv_execution_key (rows_of a d)"
  by (simp add: reservation_rows_def rows_of_def)

lemma filter_unique:
  assumes "distinct (map key xs)" "x \<in> set xs" "key x = k"
  shows "filter (\<lambda>y. key y = k) xs = [x]"
  using assms
proof (induction xs)
  case Nil
  then show ?case by simp
next
  case (Cons y ys)
  have none: "filter (\<lambda>z. key z = k) ys = []" if "key y = k"
    using Cons.prems(1) that by (auto simp: filter_empty_conv image_iff)
  show ?case
  proof (cases "y = x")
    case True
    with none Cons.prems(3) show ?thesis by simp
  next
    case False
    with Cons.prems have "x \<in> set ys" by simp
    with Cons.prems have "key y \<noteq> k" by (auto simp: image_iff)
    with Cons \<open>x \<in> set ys\<close> show ?thesis by simp
  qed
qed

definition terms_match :: "digest \<Rightarrow> run_row \<Rightarrow> budget_policy \<Rightarrow> account_row \<Rightarrow> bool" where
  "terms_match sha run p a \<longleftrightarrow> ba_run_id a = run_id run \<and> policy_from_json (ba_policy_json a) = Inr p \<and>
     ba_policy_checksum a = budget_checksum sha (policy_to_json p) \<and>
     ba_limits_checksum a = budget_checksum sha (run_limits_snapshot_json run)"

lemma ledger_complete:
  assumes inv: "budget_inv d" and a: "a \<in> set (db_accounts d)" and t: "terms_match sha run p a"
  shows "ledger sha run d = Inr (a, p, reservation_rows (run_id run) d)"
proof -
  have "account_rows (run_id run) d = [a]"
    unfolding account_rows_def
    by (rule filter_unique) (use inv a t in \<open>auto simp: budget_inv_def terms_match_def\<close>)
  then have one: "one_or_none (account_rows (run_id run) d) = Inr (Some a)" by (simp add: one_or_none_def)
  have ai: "account_inv a (rows_of a d)" using inv a by (simp add: budget_inv_def)
  with t have bal: "balanced p a (rows_of a d)" and ok: "account_row_ok a"
    by (auto simp: account_inv_def terms_match_def)
  have rows: "reservation_rows (run_id run) d = sort_key rv_execution_key (rows_of a d)"
    using t by (intro reservation_rows_of) (simp add: terms_match_def)
  have nn: "0 \<le> val (account_consumed dm a) \<and> 0 \<le> val (account_reserved dm a)" for dm
    using ok by (simp add: account_row_ok_iff)
  have none: "ba_reserved_cost_nanos a = None \<longleftrightarrow> ba_consumed_cost_nanos a = None"
    using ok by (simp add: account_row_ok_iff)
  have ag: "agrees (account_consumed dm a) (map (row_consumed dm) (rows_of a d))"
    "agrees (account_reserved dm a) (map (row_reserved dm) (rows_of a d))" for dm
    using bal unfolding balanced_def by blast+
  have cost: "ba_consumed_cost_nanos a \<noteq> None \<longleftrightarrow> bp_max_cost_nanos p \<noteq> None"
    using bal unfolding balanced_def by blast
  have "check_dimension TURNS True a (reservation_rows (run_id run) d) = Inr ()"
    using ag [of TURNS] nn [of TURNS]
    unfolding rows check_dimension_def ebind_Inr_iff balance_agrees_Inr agrees_sort by simp
  moreover have "check_dimension COST (bp_max_cost_nanos p \<noteq> None) a (reservation_rows (run_id run) d) = Inr ()"
    using ag [of COST] nn [of COST] none cost
    unfolding rows check_dimension_def ebind_Inr_iff balance_agrees_Inr agrees_sort by simp
  ultimately show ?thesis
    using t unfolding ledger_def one by (simp add: terms_match_def Let_def)
qed

lemma ledger_terms:
  assumes "ledger sha run d = Inr (a, p, rows)"
  shows "terms_match sha run p a"
proof -
  from assms obtain policy where "policy_from_json (ba_policy_json a) = Inr policy"
    "ba_policy_checksum a = budget_checksum sha (policy_to_json policy)"
    by (auto simp: ledger_def ebind_Inr_iff Let_def split: option.splits if_splits)
  with ledger_Inr(2,3,8) [OF assms] show ?thesis by (simp add: terms_match_def)
qed

section \<open>What a report leaves of the terms and the lease\<close>

definition same_terms :: "account_row \<Rightarrow> account_row \<Rightarrow> bool" where
  "same_terms a a' \<longleftrightarrow> ba_id a' = ba_id a \<and> ba_run_id a' = ba_run_id a \<and> ba_policy_json a' = ba_policy_json a \<and>
     ba_policy_checksum a' = ba_policy_checksum a \<and> ba_limits_checksum a' = ba_limits_checksum a"

definition same_lease :: "reservation_row \<Rightarrow> reservation_row \<Rightarrow> bool" where
  "same_lease r r' \<longleftrightarrow> rv_id r' = rv_id r \<and> rv_run_id r' = rv_run_id r \<and>
     rv_reconcile_worker_id r' = rv_reconcile_worker_id r \<and>
     rv_reconcile_token_hash r' = rv_reconcile_token_hash r \<and>
     rv_reconcile_expires_at r' = rv_reconcile_expires_at r"

lemma same_terms_refl [simp]: "same_terms a a" by (simp add: same_terms_def)
lemma same_lease_refl [simp]: "same_lease r r" by (simp add: same_lease_def)

lemma same_terms_trans: "same_terms a b \<Longrightarrow> same_terms b c \<Longrightarrow> same_terms a c"
  by (simp add: same_terms_def)

lemma same_lease_trans: "same_lease a b \<Longrightarrow> same_lease b c \<Longrightarrow> same_lease a c"
  by (simp add: same_lease_def)

lemma set_dimension_terms [simp]:
  "same_terms a (set_account dm c h a') = same_terms a a'"
  "same_lease r (set_row dm c h r') = same_lease r r'"
  "same_lease r (set_watermark dm w r') = same_lease r r'"
  by (cases dm; simp add: same_terms_def same_lease_def)+

lemma update_terms [simp]:
  "same_terms a (a'\<lparr>ba_block_code := b\<rparr>) = same_terms a a'"
  "same_terms a (a'\<lparr>ba_reserved_turns := n\<rparr>) = same_terms a a'"
  "same_terms a (a'\<lparr>ba_reserved_cost_nanos := c\<rparr>) = same_terms a a'"
  "same_terms a (touch a') = same_terms a a'"
  "same_lease r (r'\<lparr>rv_final_usage_at := t\<rparr>) = same_lease r r'"
  "same_lease r (r'\<lparr>rv_stop_confirmed_at := t\<rparr>) = same_lease r r'"
  "same_lease r (r'\<lparr>rv_status := s\<rparr>) = same_lease r r'"
  "same_lease r (r'\<lparr>rv_reserved_turns := n\<rparr>) = same_lease r r'"
  "same_lease r (r'\<lparr>rv_reserved_cost_nanos := c\<rparr>) = same_lease r r'"
  by (simp_all add: same_terms_def same_lease_def touch_def)

lemma apply_delta_terms:
  assumes "apply_delta report dd (a, r, over) = Inr (a', r', over')"
  shows "same_terms a a' \<and> same_lease r r'"
proof -
  obtain dm delta where dd: "dd = (dm, delta)" by (cases dd)
  from assms obtain c h c' h' r1 where
    "r' = advance_watermark report dm (set_row dm c h r)"
    "a' = late_block r1 delta (set_account dm c' h' a)"
    unfolding dd apply_delta_def Let_def prod.case ebind_Inr_iff
      advance_watermark_def [symmetric] late_block_def [symmetric] by blast
  then show ?thesis
    by (auto simp: advance_watermark_def late_block_def split: option.split)
qed

lemma apply_deltas_terms:
  "apply_deltas report dds (a, r, over) = Inr (a', r', over') \<Longrightarrow> same_terms a a' \<and> same_lease r r'"
proof (induction dds arbitrary: a r over)
  case Nil
  then show ?case by simp
next
  case (Cons dd dds)
  then obtain a1 r1 o1 where "apply_delta report dd (a, r, over) = Inr (a1, r1, o1)"
    and "apply_deltas report dds (a1, r1, o1) = Inr (a', r', over')"
    by (auto simp: ebind_Inr_iff)
  with Cons.IH [of a1 r1 o1] apply_delta_terms show ?case
    using same_terms_trans same_lease_trans by blast
qed

lemma settle_terms:
  assumes "settle_if_confirmed a r = Inr (a', r')"
  shows "same_terms a a' \<and> same_lease r r'"
proof -
  have "same_terms a a1 \<and> same_lease r r1" if "release a r = Inr (a1, r1)" for a1 r1
    unfolding release_Inr(1,2) [OF that] by (simp split: option.split)
  with assms show ?thesis
    by (auto simp: settle_if_confirmed_def ebind_Inr_iff split: if_splits)
qed

section \<open>Finding the receipt again\<close>

lemma validate_same_lease:
  "same_lease r r' \<Longrightarrow> validate_reconciliation_claim sha r' claim t = validate_reconciliation_claim sha r claim t"
  by (simp add: validate_reconciliation_claim_def same_lease_def)

lemma validate_later:
  "validate_reconciliation_claim sha r claim t = Inr () \<Longrightarrow> u < rc_expires_at claim \<Longrightarrow>
     validate_reconciliation_claim sha r claim u = Inr ()"
  by (auto simp: validate_reconciliation_claim_def split: option.splits)

lemma reauthorize:
  assumes auth: "authorize_reconciliation sha clk claim d = Inr (a, p, r)" and inv: "budget_inv d'"
    and acc: "db_accounts d' = put_row ba_id a' (db_accounts d)" "same_terms a a'"
    and res: "db_reservations d' = put_row rv_id r' (db_reservations d)" "same_lease r r'"
    and runs: "db_runs d' = db_runs d" and time: "clk' 0 < rc_expires_at claim"
  shows "authorize_reconciliation sha clk' claim d' = Inr (a', p, r')"
proof -
  from auth obtain run rows where lock: "lock_run_row (rc_run_id claim) (Some (rc_project_id claim)) d = Some run"
    and proj: "run_project_id run = rc_project_id claim" and l: "ledger sha run d = Inr (a, p, rows)"
    and r: "find_reservation (rc_reservation_id claim) rows = Some r"
    and v: "validate_reconciliation_claim sha r claim (clk 0) = Inr ()"
    by (auto simp: authorize_reconciliation_def reconciliation_rows_def ebind_Inr_iff
        split: option.splits prod.splits)
  have a: "a \<in> set (db_accounts d)" "ba_run_id a = run_id run"
    and rows: "rows = reservation_rows (run_id run) d" using ledger_Inr [OF l] by simp_all
  have rr: "r \<in> set rows" "rv_id r = rc_reservation_id claim"
    using r by (auto simp: find_reservation_def find_Some_iff)
  have rd: "r \<in> set (db_reservations d)" "rv_run_id r = run_id run"
    using ledger_Inr(6) [OF l rr(1)] a(2) by simp_all
  have "terms_match sha run p a'" using ledger_terms [OF l] acc(2) by (simp add: terms_match_def same_terms_def)
  moreover have "a' \<in> set (db_accounts d')"
    using acc a(1) by (auto simp: same_terms_def intro!: in_put_row)
  ultimately have l': "ledger sha run d' = Inr (a', p, reservation_rows (run_id run) d')"
    by (intro ledger_complete [OF inv])
  have "r' \<in> set (db_reservations d')"
    using res rd(1) by (auto simp: same_lease_def intro!: in_put_row)
  then have in': "r' \<in> set (reservation_rows (run_id run) d')"
    using res(2) rd(2) by (simp add: reservation_rows_def same_lease_def)
  have "distinct (map rv_id (reservation_rows (run_id run) d'))"
    using inv by (auto simp: reservation_rows_def budget_inv_def distinct_map inj_on_def)
  from find_row_unique [OF this in'] have "find_reservation (rc_reservation_id claim)
      (reservation_rows (run_id run) d') = Some r'"
    using rr(2) res(2) by (simp add: find_reservation_def find_row_def same_lease_def)
  moreover have "validate_reconciliation_claim sha r' claim (clk' 0) = Inr ()"
    using validate_same_lease [OF res(2)] validate_later [OF v time] by simp
  ultimately show ?thesis
    using lock proj l' runs by (simp add: raise_if_def authorize_reconciliation_def reconciliation_rows_def lock_run_row_def)
qed

lemma replay_recorded:
  assumes none: "find_receipt r key d = Inr None" and ids: "rv_id r1 = rv_id r" "rv_id r2 = rv_id r"
    and rec: "record_receipt sha clk ids a p r1 claim key kind payload disp d = Inr (res, d')"
  shows "replay_receipt sha clk' ids' a2 p r2 claim key kind payload d'
    = Inr (Some (result_of a2 p r2 ''REPLAY'', d'))"
proof -
  from record_receipt_Inr(4) [OF rec] obtain receipt where
    rcpt: "db_receipts d' = db_receipts d @ [receipt]" "rp_reservation_id receipt = rv_id r1"
      "rp_receipt_key receipt = key" "rp_payload_checksum receipt = receipt_checksum sha kind payload" by blast
  have "filter (\<lambda>p. rp_reservation_id p = rv_id r \<and> rp_receipt_key p = key) (db_receipts d) = []"
    using none by (simp add: find_receipt_def one_or_none_Inr)
  then have "find_receipt r2 key d' = Inr (Some receipt)"
    using rcpt ids by (simp add: find_receipt_def one_or_none_def)
  then show ?thesis using rcpt(4) by (simp add: replay_receipt_def Let_def)
qed

lemma disposition_result [simp]: "rr_disposition (result_of a p r disp) = disp"
  by (simp add: result_of_def)

text \<open>What one call of \<open>record_usage\<close> did, when it did not hit a conflict.\<close>

lemma replay_same:
  assumes "replay_receipt sha clk ids a p r claim key kind payload d = Inr (Some (res, d'))"
    and "rr_disposition res \<noteq> ''CONFLICT''"
  shows "d' = d \<and> res = result_of a p r ''REPLAY'' \<and>
    (\<forall>c i. replay_receipt sha c i a p r claim key kind payload d = Inr (Some (res, d)))"
proof -
  from assms(1) obtain e where e: "find_receipt r key d = Inr (Some e)"
    by (auto simp: replay_receipt_def ebind_Inr_iff split: option.splits)
  have same: "rp_payload_checksum e = receipt_checksum sha kind payload"
  proof (rule ccontr)
    assume "rp_payload_checksum e \<noteq> receipt_checksum sha kind payload"
    with assms(1) e have "rr_disposition res = ''CONFLICT''"
      by (auto simp: replay_receipt_def ebind_Inr_iff Let_def dest!: record_receipt_Inr(3) split: if_splits)
    with assms(2) show False by simp
  qed
  have "replay_receipt sha c i a p r claim key kind payload d = Inr (Some (result_of a p r ''REPLAY'', d))" for c i
    using e same by (simp add: replay_receipt_def)
  moreover from this assms(1) have "d' = d \<and> res = result_of a p r ''REPLAY''" by simp
  ultimately show ?thesis by simp
qed

lemma replay_conflict:
  assumes "replay_receipt sha clk ids a p r claim key kind payload d = Inr (Some (res, d'))"
    and "rr_disposition res \<noteq> ''REPLAY''"
  shows "d' = put_account (a\<lparr>ba_block_code := Some ''receipt_conflict''\<rparr>) d \<or>
    (\<exists>ckey pl. record_receipt sha clk ids (a\<lparr>ba_block_code := Some ''receipt_conflict''\<rparr>) p r claim ckey
       UNVERIFIABLE pl ''CONFLICT'' d = Inr (res, d'))"
proof -
  let ?sum = "receipt_checksum sha kind payload"
  let ?ckey = "conflict_key sha ''conflict/'' key ?sum"
  from assms(1) obtain e where e: "find_receipt r key d = Inr (Some e)"
    by (auto simp: replay_receipt_def ebind_Inr_iff split: option.splits)
  have ne: "rp_payload_checksum e \<noteq> ?sum"
  proof
    assume "rp_payload_checksum e = ?sum"
    with assms(1) e have "res = result_of a p r ''REPLAY''" by (simp add: replay_receipt_def)
    with assms(2) show False by simp
  qed
  from assms(1) e ne obtain c where c: "find_receipt r ?ckey d = Inr c"
    by (auto simp: replay_receipt_def ebind_Inr_iff Let_def)
  show ?thesis
  proof (cases c)
    case None
    with assms(1) e ne c show ?thesis by (auto simp: replay_receipt_def ebind_Inr_iff Let_def)
  next
    case (Some x)
    with assms(1) e ne c show ?thesis by (simp add: replay_receipt_def Let_def)
  qed
qed

lemma usage_terms:
  assumes "apply_deltas report deltas (a, r, False) = Inr (a1, r1, over)"
    and "settle_if_confirmed (overspent_account over a1) (final_row report p t r1) = Inr (a3, r3)"
  shows "same_terms a a3 \<and> same_lease r r3"
proof -
  have "same_terms a (overspent_account over a1) \<and> same_lease r (final_row report p t r1)"
    using apply_deltas_terms [OF assms(1)] by (simp add: overspent_account_def final_row_def)
  with settle_terms [OF assms(2)] show ?thesis using same_terms_trans same_lease_trans by blast
qed

lemma record_usage_cases:
  assumes run: "record_usage sha clk ids claim report d = Inr (res, d')" and ok: "report_ok report"
    and auth: "authorize_reconciliation sha clk claim d = Inr (a, p, r)"
    and disp: "rr_disposition res \<noteq> ''CONFLICT''"
  shows "(d' = d \<and> res = result_of a p r ''REPLAY'' \<and>
       (\<forall>c i. replay_receipt sha c i a p r claim (ur_report_key report) USAGE
         (report_to_json report) d = Inr (Some (res, d)))) \<or>
    (find_receipt r (ur_report_key report) d = Inr None \<and>
     (\<exists>clk' a' r' disp. same_terms a a' \<and> same_lease r r' \<and>
        record_receipt sha clk' ids a' p r' claim (ur_report_key report) USAGE (report_to_json report) disp d
          = Inr (res, d')))"
  using run ok auth
proof (cases rule: record_usage_elim)
  case replay
  from replay_same [OF this disp] show ?thesis by blast
next
  case (rejected why)
  have "same_terms a (a\<lparr>ba_block_code := Some why\<rparr>)" "same_lease r r" by simp_all
  with rejected show ?thesis by blast
next
  case (applied deltas a1 r1 over a3 r3)
  from applied(1,6) usage_terms [OF applied(4,5)] show ?thesis by blast
qed

lemma record_usage_twice:
  assumes inv: "budget_inv d" and ok: "report_ok report"
    and run: "record_usage sha clk ids claim report d = Inr (res, d')"
    and disp: "rr_disposition res \<noteq> ''CONFLICT''" and time: "clk' 0 < rc_expires_at claim"
  shows "\<exists>res'. record_usage sha clk' ids' claim report d' = Inr (res', d') \<and>
    rr_disposition res' = ''REPLAY'' \<and> rr_account res' = rr_account res \<and>
    rr_execution res' = rr_execution res"
proof -
  let ?key = "ur_report_key report" and ?payload = "report_to_json report"
  from run obtain a p r where auth: "authorize_reconciliation sha clk claim d = Inr (a, p, r)"
    by (auto simp: record_usage_def ebind_Inr_iff)
  have f: "found d a p r" by (rule authorize_reconciliation_Inr(1) [OF auth])
  have again: "record_usage sha clk' ids' claim report d' = Inr (res', d')"
    if "authorize_reconciliation sha clk' claim d' = Inr (a', p, r')"
      and "replay_receipt sha (\<lambda>i. clk' (i + 1)) ids' a' p r' claim ?key USAGE ?payload d' = Inr (Some (res', d'))"
    for a' r' res'
    using that by (simp add: record_usage_def Let_def)
  from record_usage_cases [OF run ok auth disp] show ?thesis
  proof (elim disjE conjE exE)
    assume d: "d' = d" and res: "res = result_of a p r ''REPLAY''"
      and rp: "\<forall>c i. replay_receipt sha c i a p r claim ?key USAGE ?payload d = Inr (Some (res, d))"
    have dist: "distinct (map ba_id (db_accounts d))" "distinct (map rv_id (db_reservations d))"
      using inv by (auto simp: budget_inv_def)
    have au: "authorize_reconciliation sha clk' claim d = Inr (a, p, r)"
      by (rule reauthorize [OF auth inv])
        (use f dist time in \<open>simp_all add: found_def put_row_same\<close>)
    from again [unfolded d, OF au rp [rule_format]] res d show ?thesis by (simp add: result_of_def)
  next
    fix c a' r' disp'
    assume none: "find_receipt r ?key d = Inr None" and t: "same_terms a a'" and l: "same_lease r r'"
      and rec: "record_receipt sha c ids a' p r' claim ?key USAGE ?payload disp' d = Inr (res, d')"
    have inv': "budget_inv d'" using record_usage_keeps_inv [OF inv ok run] by simp
    note rr = record_receipt_Inr [OF rec]
    have au: "authorize_reconciliation sha clk' claim d' = Inr (touch a', p, r')"
      by (rule reauthorize [OF auth inv']) (use rr t l time in simp_all)
    have "replay_receipt sha (\<lambda>i. clk' (i + 1)) ids' (touch a') p r' claim ?key USAGE ?payload d'
        = Inr (Some (result_of (touch a') p r' ''REPLAY'', d'))"
      by (rule replay_recorded [OF none _ _ rec]) (use l in \<open>simp_all add: same_lease_def\<close>)
    from again [OF au this] rr(3) show ?thesis by (simp add: result_of_def)
  qed
qed

end
