(* ===== verification/Sample.thy ===== *)
theory Sample
  imports Budget_Replay
begin

text \<open>
  Concrete data at which the properties of the run components are applied: one running run with its
  segment, attempt and lease, a budget of ten turns and one dollar, and a digest of the right shape.
\<close>

definition sample_hash :: string where
  "sample_hash = replicate 64 CHR ''0''"

definition sample_sha :: digest where
  "sample_sha text = sample_hash"

lemma sample_hashes [simp]:
  "sample_sha t = sample_hash" "sha256_hex sample_sha t = sample_hash"
  "budget_checksum sample_sha v = sample_hash" "lease_token_hash sample_sha token = sample_hash"
  by (simp_all add: sample_sha_def sha256_hex_def budget_checksum_def lease_token_hash_def)

definition empty_db :: db where
  "empty_db = \<lparr>db_runs = [], db_deletion_audits = [], db_segments = [], db_briefs = [], db_attempts = [],
     db_skill_snapshots = [], db_sessions = [], db_events = [], db_outbox = [], db_results = [],
     db_interactions = [], db_responses = [], db_proposals = [], db_approvals = [], db_effects = [],
     db_tool_calls = [], db_permissions = [], db_evidence = [], db_accounts = [],
     db_reservations = [], db_receipts = [], db_observations = [], db_projects = [],
     db_skill_sources = [], db_skills = [], db_skill_versions = [], db_manifests = [],
     db_project_skills = [], db_integrations = [], db_bindings = []\<rparr>"

definition sample_limits :: json where
  "sample_limits = JObj [(''max_turns'', JInt 10), (''max_budget_usd'', JStr ''1'')]"

definition sample_run :: run_row where
  "sample_run = \<lparr>run_id = 1, run_project_id = 2, run_task_id = 3, run_trigger_type = ''MANUAL'',
     run_idempotency_key = ''k'', run_request_hash = ''h'', run_status = RUNNING, run_input_json = JObj [],
     run_task_snapshot_json = JObj [], run_permission_snapshot_json = JObj [(''actor_id'', JStr (str_uuid 4))],
     run_selected_sources_json = JArr [], run_limits_snapshot_json = sample_limits, run_row_version = 3,
     run_started_at = Some 0, run_finished_at = None, run_error_json = None, run_deleted_at = None,
     run_deleted_by = None, run_created_at = 0\<rparr>"

definition sample_segment :: segment_row where
  "sample_segment = \<lparr>sg_id = 5, sg_run_id = 1, sg_segment_no = 1, sg_trigger_type = TRIG_INITIAL,
     sg_trigger_ref = None, sg_status = SEG_RUNNING, sg_objective_json = JObj [], sg_checkpoint_json = JObj [],
     sg_continuation_mode = INITIAL, sg_parent_agent_session_id = None, sg_instruction_snapshot_id = None,
     sg_started_at = Some 0, sg_finished_at = None, sg_created_at = 0\<rparr>"

definition sample_attempt :: attempt_row where
  "sample_attempt = \<lparr>at_id = 6, at_inline_proposal_id = None, at_run_id = 1, at_run_segment_id = Some 5,
     at_attempt_no = 1, at_reason = ''initial'', at_status = ATT_RUNNING, at_worker_id = Some ''w'',
     at_lease_token_hash = Some (sample_hash), at_lease_expires_at = Some 1000, at_heartbeat_at = Some 0,
     at_started_at = Some 0, at_finished_at = None, at_error_json = None, at_created_at = 0\<rparr>"

definition sample_claimed :: claimed_run where
  "sample_claimed = \<lparr>cl_run_id = 1, cl_run_attempt_id = 6, cl_project_id = 2, cl_actor_id = 4,
     cl_attempt_no = 1, cl_lease_token = ''token'', cl_lease_expires_at = 1000, cl_row_version = 3,
     cl_input_json = JObj [], cl_task_snapshot_json = JObj [], cl_permission_snapshot_json = JObj [],
     cl_selected_sources_json = JArr [], cl_limits_snapshot_json = sample_limits,
     cl_skill_snapshots_json = [], cl_run_segment_id = Some 5, cl_segment_no = 1,
     cl_continuation_mode = INITIAL, cl_parent_agent_session_id = None, cl_parent_sdk_session_id = None,
     cl_parent_run_attempt_id = None, cl_checkpoint_json = None, cl_checkpoint_checksum = None,
     cl_segment_objective_json = None, cl_frozen_brief_json = None, cl_frozen_brief_checksum = []\<rparr>"

definition sample_policy :: budget_policy where
  "sample_policy = \<lparr>bp_max_turns = 10, bp_max_cost_nanos = Some 1000000000, bp_source = ''claude'',
     bp_metering_version = ''v1'', bp_mode = CUMULATIVE\<rparr>"

definition sample_account :: account_row where
  "sample_account = \<lparr>ba_id = 7, ba_run_id = 1, ba_policy_json = policy_to_json sample_policy,
     ba_policy_checksum = sample_hash, ba_limits_checksum = sample_hash, ba_consumed_turns = 0,
     ba_reserved_turns = 0, ba_consumed_cost_nanos = Some 0, ba_reserved_cost_nanos = Some 0,
     ba_block_code = None, ba_row_version = 1, ba_created_at = 0\<rparr>"

definition sample_db :: db where
  "sample_db = empty_db\<lparr>db_runs := [sample_run], db_segments := [sample_segment],
     db_attempts := [sample_attempt], db_accounts := [sample_account]\<rparr>"

text \<open>A reservation whose execution has started, held by a reconciliation lease, and its account.\<close>

definition sample_row :: reservation_row where
  "sample_row = \<lparr>rv_id = 8, rv_run_id = 1, rv_run_segment_id = Some 5, rv_run_attempt_id = 6,
     rv_execution_key = ''main'', rv_group_key = ''main'', rv_group_checksum = sample_hash,
     rv_request_checksum = sample_hash, rv_invocation_id = None, rv_invocation_json = None,
     rv_invocation_checksum = None, rv_invocation_start_owner_hash = None, rv_parent_reservation_id = None,
     rv_execution_lease_hash = sample_hash, rv_status = START_INTENT, rv_granted_turns = 4,
     rv_reserved_turns = 4, rv_consumed_turns = 0, rv_granted_cost_nanos = Some 100,
     rv_reserved_cost_nanos = Some 100, rv_consumed_cost_nanos = Some 0, rv_turns_watermark = - 1,
     rv_cost_watermark = - 1, rv_start_intent_at = Some 0, rv_stop_confirmed_at = None,
     rv_final_usage_at = None, rv_reconcile_worker_id = Some ''r'',
     rv_reconcile_token_hash = Some (sample_hash), rv_reconcile_expires_at = Some 500, rv_created_at = 0\<rparr>"

definition started_db :: db where
  "started_db = sample_db\<lparr>db_accounts := [sample_account\<lparr>ba_reserved_turns := 4, ba_reserved_cost_nanos := Some 100\<rparr>],
     db_reservations := [sample_row]\<rparr>"

definition sample_claim :: reconciliation_claim where
  "sample_claim = \<lparr>rc_project_id = 2, rc_run_id = 1, rc_reservation_id = 8, rc_worker_id = ''r'',
     rc_token = ''t'', rc_expires_at = 500\<rparr>"

definition sample_report :: usage_report where
  "sample_report = \<lparr>ur_report_key = ''u1'', ur_source = ''claude'', ur_metering_version = ''v1'',
     ur_mode = CUMULATIVE, ur_turns = Some 3, ur_cost_nanos = Some 40, ur_watermark = Some 1, ur_final = True\<rparr>"

lemma sample_digest_ok: "digest_ok sample_sha"
  by (simp add: digest_ok_def sample_hash_def hex64_def list_all_iff) (simp add: lower_hex_def ascii_digit_def)

lemma sample_policy_stored: "policy_from_json (policy_to_json sample_policy) = Inr sample_policy"
  by code_simp

lemmas sample_rows = sample_account_def sample_row_def sample_db_def started_db_def empty_db_def

lemma sample_account_inv:
  assumes "ba_policy_json a = policy_to_json sample_policy" "account_row_ok a" "balanced sample_policy a rows"
    "within_limits sample_policy a" "\<forall>r \<in> set rows. open_row r \<longrightarrow> full_row r"
  shows "account_inv a rows"
  using assms by (auto simp: account_inv_def sample_policy_stored)

lemma sample_db_inv: "budget_inv sample_db"
proof -
  have "account_inv sample_account []"
    by (rule sample_account_inv)
      (auto simp: sample_account_def account_row_ok_def balanced_def agrees_def all_dimension
        within_limits_def sample_policy_def)
  then show ?thesis by (simp add: budget_inv_def rows_of_def sample_db_def empty_db_def)
qed

lemma started_db_inv: "budget_inv started_db"
proof -
  let ?a = "sample_account\<lparr>ba_reserved_turns := 4, ba_reserved_cost_nanos := Some 100\<rparr>"
  have "row_inv sample_row"
    by (simp add: row_inv_def reservation_row_ok_def sample_row_def)
  moreover have "account_inv ?a [sample_row]"
    by (rule sample_account_inv)
      (auto simp: sample_account_def sample_row_def account_row_ok_def balanced_def agrees_def
        all_dimension within_limits_def open_row_def full_row_def sample_policy_def)
  ultimately show ?thesis
    by (simp add: budget_inv_def rows_of_def started_db_def sample_db_def empty_db_def)
      (simp add: sample_row_def sample_account_def)
qed

lemma sample_report_ok: "report_ok sample_report"
proof -
  have "report_init sample_report = Inr ()" by code_simp
  then show ?thesis by (simp add: report_init_Inr)
qed

text \<open>The reads and the operation at this data.\<close>

abbreviation started_account :: account_row where
  "started_account \<equiv> sample_account\<lparr>ba_reserved_turns := 4, ba_reserved_cost_nanos := Some 100\<rparr>"

lemma started_ledger:
  "ledger sample_sha sample_run started_db = Inr (started_account, sample_policy, [sample_row])"
  using ledger_complete [OF started_db_inv, of started_account sample_sha sample_run sample_policy]
  by (simp add: terms_match_def sample_policy_stored sample_run_def reservation_rows_def sample_rows)

lemma started_authorize:
  assumes "clk 0 < 500"
  shows "authorize_reconciliation sample_sha clk sample_claim started_db
    = Inr (started_account, sample_policy, sample_row)"
  using started_ledger assms
  unfolding authorize_reconciliation_def reconciliation_rows_def
  by (simp add: lock_run_row_def started_db_def sample_db_def empty_db_def sample_claim_def raise_if_def
      find_reservation_def validate_reconciliation_claim_def digest_matches_def sample_row_def)
    (simp add: sample_run_def)

lemma started_usage:
  "\<exists>res d. record_usage sample_sha (\<lambda>i. int i) (\<lambda>i. 100) sample_claim sample_report started_db = Inr (res, d) \<and>
     rr_disposition res = ''APPLIED''"
  unfolding record_usage_def
  by (simp add: started_authorize)
    (simp add: Let_def replay_receipt_def find_receipt_def one_or_none_def metering_mismatch_def
      sample_policy_def sample_report_def report_dimensions_def py_int_def apply_delta_def
      stored_units_def release_def settle_if_confirmed_def record_receipt_def
      validate_reconciliation_claim_def digest_matches_def sample_claim_def raise_if_def result_of_def
      touch_def sample_rows)

definition excessive_report :: usage_report where
  "excessive_report = sample_report\<lparr>ur_turns := Some 9\<rparr>"

lemma excessive_report_ok: "report_init excessive_report = Inr ()"
  by code_simp

lemma excessive_usage:
  "\<exists>res d. record_usage sample_sha (\<lambda>i. int i) (\<lambda>i. 100) sample_claim excessive_report started_db = Inr (res, d) \<and>
     rr_disposition res = ''OVERSPENT''"
  unfolding record_usage_def
  by (simp add: started_authorize)
    (simp add: Let_def replay_receipt_def find_receipt_def one_or_none_def metering_mismatch_def
      sample_policy_def excessive_report_def sample_report_def report_dimensions_def py_int_def
      apply_delta_def stored_units_def release_def settle_if_confirmed_def record_receipt_def
      validate_reconciliation_claim_def digest_matches_def sample_claim_def raise_if_def result_of_def
      touch_def sample_rows)

section \<open>A bound invocation\<close>

definition sample_invocation :: agent_invocation where
  "sample_invocation = \<lparr>iv_invocation_id = 9, iv_project_id = 2, iv_run_id = 1, iv_run_attempt_id = 6,
     iv_user_id = 4, iv_session_id = str_uuid 11, iv_mode = INV_INITIAL, iv_parent_session_id = None,
     iv_prompt_checksum = sample_hash,
     iv_options = \<lparr>io_model = None, io_max_turns = 4,
       io_max_budget_usd = \<lparr>uv_kind = MISSING, uv_value = JNull\<rparr>, io_session_id = Some (str_uuid 11),
       io_resume = None, io_fork_session = False, io_continue_conversation = False,
       io_output_format_checksum = sample_hash, io_cli_checksum = None\<rparr>,
     iv_sdk_version = ''1'', iv_cli_version = ''1''\<rparr>"

definition sample_token :: string where
  "sample_token = replicate 43 CHR ''a''"

definition sample_owner :: string where
  "sample_owner = ''sha256:'' @ sample_hash"

definition bound_row :: reservation_row where
  "bound_row = sample_row\<lparr>rv_status := BUD_RESERVED, rv_start_intent_at := None,
     rv_invocation_id := Some 9, rv_invocation_json := Some (invocation_to_json sample_invocation),
     rv_invocation_checksum := Some sample_hash, rv_invocation_start_owner_hash := Some sample_owner\<rparr>"

definition bound_db :: db where
  "bound_db = started_db\<lparr>db_reservations := [bound_row]\<rparr>"

lemma sample_hash_ok: "hex64 sample_hash"
  using sample_digest_ok by (simp add: digest_ok_def)

lemma sample_owner_ok: "owner_hash_text sample_owner"
  using sample_hash_ok by (simp add: owner_hash_text_def sample_owner_def)

lemma sample_token_ok: "budget_start_owner_hash sample_sha sample_token = Inr sample_owner"
proof -
  have "owner_token sample_token"
    by (simp add: owner_token_def sample_token_def list_all_iff) (simp add: ascii_alnum_def ascii_lower_def)
  then show ?thesis by (simp add: budget_start_owner_hash_def sample_owner_def)
qed

lemma sample_invocation_ok: "valid_invocation sample_invocation"
proof -
  have k: "key_text ''1''" by code_simp
  show ?thesis
    using sample_hash_ok k
    by (simp add: valid_invocation_def sample_invocation_def session_text_def valid_options_def
        valid_usage_def usage_value_ok_def max_units_def mode_matches_def)
qed

lemma bound_db_inv: "budget_inv bound_db"
proof -
  have "row_inv bound_row"
    using sample_owner_ok by (simp add: row_inv_def reservation_row_ok_def bound_row_def sample_row_def all_dimension)
  moreover have "account_inv started_account [bound_row]"
    by (rule sample_account_inv)
      (auto simp: sample_account_def bound_row_def sample_row_def account_row_ok_def balanced_def
        agrees_def all_dimension within_limits_def open_row_def full_row_def sample_policy_def)
  ultimately show ?thesis
    by (simp add: budget_inv_def rows_of_def bound_db_def started_db_def sample_db_def empty_db_def)
      (simp add: bound_row_def sample_row_def sample_account_def)
qed

lemma bound_ledger: "ledger sample_sha sample_run bound_db = Inr (started_account, sample_policy, [bound_row])"
  using ledger_complete [OF bound_db_inv, of started_account sample_sha sample_run sample_policy]
  by (simp add: terms_match_def sample_policy_stored sample_run_def reservation_rows_def sample_rows
      bound_db_def bound_row_def)

lemma sample_checksum [simp]: "invocation_checksum sample_sha i = sample_hash"
  by (simp add: invocation_checksum_def)

lemma bound_stored: "stored_invocation sample_sha bound_row = Inr sample_invocation"
  using invocation_codec.dec_enc [OF sample_invocation_ok]
  by (simp add: stored_invocation_def bound_row_def invocation_consistent_def raise_if_def stored_units_def)
    (simp add: sample_row_def sample_invocation_def)

lemma sample_lock: "lock_claimed_execution sample_claimed bound_db = Inr (sample_run, Some sample_segment, sample_attempt)"
  by (simp add: lock_claimed_execution_def lock_run_row_def lock_segment_row_def bound_db_def started_db_def
      sample_db_def empty_db_def sample_claimed_def)
    (simp add: sample_run_def sample_segment_def sample_attempt_def)

lemma sample_authorize:
  assumes "clk 0 < 1000" "clk 1 < 1000" "db_events d = []"
  shows "authorize sample_sha clk sample_run (Some sample_segment) sample_attempt sample_claimed d = Inr ()"
  using assms
  by (simp add: authorize_def validate_claimed_lease_def raise_if_def digest_matches_def Let_def
      attempt_active_def reject_cancelled_execution_def is_cancellation_requested_def)
    (simp add: sample_run_def sample_segment_def sample_attempt_def sample_claimed_def)

lemma bound_start:
  "\<exists>d. start_execution sample_sha (\<lambda>i. int i) sample_claimed ''main'' 9 sample_hash sample_token bound_db
     = Inr (True, d)"
proof -
  have key: "key_text ''main''" by code_simp
  have c: "claimed_reservation sample_sha [bound_row] sample_claimed ''main'' = Inr bound_row"
    by (simp add: claimed_reservation_def find_execution_def)
      (simp add: bound_row_def sample_row_def sample_claimed_def)
  have b: "binding_of bound_row = Inr \<lparr>ib_reservation_id = 8, ib_invocation_id = 9, ib_invocation_checksum = sample_hash\<rparr>"
    using sample_hash_ok by (simp add: binding_of_def binding_init_def raise_if_def bound_row_def sample_row_def)
  have s: "invocation_scope sample_invocation sample_run sample_claimed = Inr ()"
    by (simp add: invocation_scope_def sample_invocation_def sample_run_def sample_claimed_def raise_if_def)
  have row: "rv_id bound_row = 8" "rv_status bound_row = BUD_RESERVED" "rv_parent_reservation_id bound_row = None"
    "rv_invocation_start_owner_hash bound_row = Some sample_owner"
    by (simp_all add: bound_row_def sample_row_def)
  have ev: "db_events bound_db = []" "db_events (put_account x (put_reservation y bound_db)) = []" for x y
    by (simp_all add: put_account_def put_reservation_def bound_db_def started_db_def sample_db_def empty_db_def)
  have nb: "\<not> blocked started_account" by (simp add: blocked_def sample_account_def)
  show ?thesis
    unfolding start_execution_def
    using sample_hash_ok sample_owner_ok nb
    by (simp add: key sample_token_ok sample_lock bound_ledger sample_authorize c b s bound_stored row
        binding_init_def raise_if_def verify_start_owner_def Let_def ev)
qed

end
