(* ===== verification/Run_History_Claims.thy ===== *)
theory Run_History_Claims
  imports Sample Run_Commands
begin

text \<open>
  The properties of the whole repository: what any sequence of run transactions keeps, whoever issues
  them and whichever of them raise. They rest on the interpretation \<open>runs\<close> of \<open>Run_Commands\<close>.
\<close>

section \<open>Concrete data\<close>

definition sample_env :: run_env where
  "sample_env = \<lparr>env_sha = sample_sha, env_sha1 = (\<lambda>_. 0), env_fl = (\<lambda>_. JInt 0), env_schema_ok = (\<lambda>_. True),
     env_artifacts = (\<lambda>_ _ _. Inr []), env_documents = (\<lambda>_ _ _ _. Inr ()),
     env_checks = (\<lambda>_ _ _ _ _. Inr (JObj [])),
     env_features = \<lparr>fe_deferred = True, fe_database_writes = True, fe_document_writes = True,
       fe_git_writes = True, fe_mcp_tools = True, fe_http_writes = True\<rparr>\<rparr>"

lemma sample_run_inv: "run_inv sample_db"
  by (simp add: run_inv_def attempt_home_def attempt_alone_def numbered_def results_ok_def run_sequences_def
      sample_rows run_row_inv_def run_times_ok_def)
    (simp add: sample_run_def sample_attempt_def sample_segment_def)




definition sample_commands :: "run_command list" where
  "sample_commands = [RequestCancellation (\<lambda>_. 7) (\<lambda>i. of_nat (i + 100)) 1 None,
     Transition (\<lambda>_. 8) (\<lambda>i. of_nat (i + 200)) 1 FAILED 3 None None None,
     RecoverAttempts (\<lambda>k i. of_nat (300 + 10 * k + i)) 2000 5]"

lemma one_open_attempt:
  assumes "run_inv d"
  shows "length (filter attempt_open (segment_attempts sid d)) \<le> 1"
proof -
  let ?rows = "filter attempt_open (segment_attempts sid d)"
  have "distinct ?rows" using assms
    by (simp add: segment_attempts_def run_inv_def distinct_map)
  moreover have "x = y" if "x \<in> set ?rows" "y \<in> set ?rows" for x y
  proof (rule distinct_key_eq [of at_id "db_attempts d"])
    show "distinct (map at_id (db_attempts d))" using assms by (simp add: run_inv_def)
    show "x \<in> set (db_attempts d)" "y \<in> set (db_attempts d)" using that by (auto simp: segment_attempts_def)
    then have "attempt_alone x y" using assms by (simp add: run_inv_def)
    with that show "at_id x = at_id y" by (auto simp: attempt_alone_def segment_attempts_def)
  qed
  ultimately show ?thesis by (metis card_le_Suc0_iff_eq One_nat_def distinct_card finite_set)
qed

lemma result_succeeded:
  assumes "run_inv d" "re_run_id x = run_id r" "x \<in> set (db_results d)" "r \<in> set (db_runs d)"
  shows "run_status r = SUCCEEDED"
proof -
  obtain r' where r': "r' \<in> set (db_runs d)" "run_id r' = re_run_id x" "run_status r' = SUCCEEDED"
    using assms(1,3) unfolding run_inv_def results_ok_def by blast
  have "r' = r" using assms r' by (intro distinct_key_eq [of run_id "db_runs d"]) (simp_all add: run_inv_def)
  with r' show ?thesis by simp
qed

section \<open>What holds at every moment\<close>

text \<open>
  C1: the database of runs is sound after any sequence of transactions: one run per project, task and
  idempotency key; at most one open attempt in a segment, so two workers never execute the same segment;
  the events of a run numbered in strictly increasing order; and a stored result only for a run that
  succeeded, one per run.
\<close>

theorem run_tables_sound:
  assumes "run_inv d" "d' = run_all env cs d"
  shows "distinct (map run_key (db_runs d')) \<and>
    (\<forall>sid. length (filter attempt_open (segment_attempts sid d')) \<le> 1) \<and>
    (\<forall>rid. sorted_wrt (<) (run_sequences rid d')) \<and>
    distinct (map re_run_id (db_results d')) \<and>
    (\<forall>x \<in> set (db_results d'). \<forall>r \<in> set (db_runs d'). run_id r = re_run_id x \<longrightarrow> run_status r = SUCCEEDED)"
proof -
  have inv: "run_inv d'" using run_all_inv [OF assms(1)] assms(2) by simp
  then show ?thesis using one_open_attempt [OF inv] result_succeeded [OF inv]
    by (auto simp: run_inv_def numbered_def results_ok_def)
qed

lemma run_tables_sound_witness:
  "length (filter attempt_open (segment_attempts 5 (run_all sample_env sample_commands sample_db))) \<le> 1"
  using run_tables_sound [OF sample_run_inv refl] by blast



section \<open>The repository refines a queue of keyed jobs\<close>

text \<open>
  What a client of the repository may rely on: each key (project, task, idempotency key) stands for at
  most one job; a job is born queued and moves along the transition table, one status at a time. The
  abstract machine has no attempts, segments, leases or approvals.
\<close>

type_synonym jobs = "(uuid \<times> uuid \<times> string) \<rightharpoonup> run_status"

inductive job_step :: "jobs \<Rightarrow> jobs \<Rightarrow> bool" where
  submit: "jobs k = None \<Longrightarrow> job_step jobs (jobs(k \<mapsto> QUEUED))"
| move: "jobs k = Some s \<Longrightarrow> t \<in> set (allowed_run_transitions s) \<Longrightarrow> job_step jobs (jobs(k \<mapsto> t))"

inductive_simps job_step_iff: "job_step jobs jobs'"











end
