(* ===== verification/Creation_Claims.thy ===== *)
theory Creation_Claims
  imports Creation_Codec Run_History_Claims
begin

text \<open>
  The properties of run creation: the stored request is read back, and a request repeated under its
  idempotency key finds the run it created, however far that run has come.
\<close>

section \<open>The stored request\<close>

text \<open>
  C30: a run request survives storage. What the constructor accepts is normal, the stored form of a normal
  request is read back as that request, only normal requests are ever read, and two normal requests are
  stored the same only when they are equal.
\<close>

theorem intent_roundtrip:
  "(mk_intent project version task_key actor input sources approve git mcp = Inr i \<longrightarrow> valid_intent i) \<and>
   (valid_intent i \<longrightarrow> intent_from_json (intent_to_json i) = Inr i) \<and>
   (intent_from_json v = Inr i \<longrightarrow> valid_intent i) \<and>
   (valid_intent i \<longrightarrow> valid_intent k \<longrightarrow> intent_to_json i = intent_to_json k \<longrightarrow> i = k)"
  using intent_codec.dec_enc intent_codec.dec_valid intent_codec.enc_inject by (auto simp: mk_intent_Inr)

definition sample_intent :: run_intent where
  "sample_intent = \<lparr>it_project_id = 2, it_skill_version_id = 21, it_task_key = ''t'', it_actor_id = 4,
     it_input_json = JObj [(''q'', JInt 1)], it_sources = [(''docs'', ''project-documents:all'')],
     it_auto_approve = True, it_auto_approve_git = False, it_auto_approve_mcp = False\<rparr>"

lemma sample_intent_valid: "valid_intent sample_intent"
  by (simp add: valid_intent_def sample_intent_def normal_sources_def normalize_token_def
      all_documents_selection_def parse_document_selection_def)

lemma intent_roundtrip_witness: "intent_from_json (intent_to_json sample_intent) = Inr sample_intent"
  using intent_roundtrip [of undefined undefined undefined undefined undefined undefined undefined undefined
      undefined sample_intent undefined sample_intent] sample_intent_valid by blast

section \<open>Idempotent creation\<close>

lemma created_run_of:
  assumes "create_idempotent sha sha1 clk ids c d = Inr (res, d1)" "\<not> cr_idempotent_replay res"
  obtains fp r where "request_hash sha sha1 c = Inr fp" "r \<in> set (db_runs d1)" "run_of_command c fp r"
    "run_id r = cr_run_id res"
proof -
  from assms obtain fp d' d2 where h: "request_hash sha sha1 c = Inr fp"
    "insert_run (new_run c fp (ids 0) (clk 0)) d = Inr (Some d')"
    "add_budget_account sha (clk 1) (ids 1) (ids 0) c d' = Inr d2" "db_runs d1 = db_runs d2" "cr_run_id res = ids 0"
    by (elim create_idempotent_new) (auto simp: add_event_def)
  obtain accounts where "d2 = d'\<lparr>db_accounts := db_accounts d' @ accounts\<rparr>"
    using add_budget_account_Inr [OF h(3)] by blast
  then have "new_run c fp (ids 0) (clk 0) \<in> set (db_runs d1)"
    using h(4) insert_run_Some(1) [OF h(2)] by simp
  then show thesis
    by (rule that [OF h(1)]) (simp_all add: run_of_command_def new_run_def run_key_def h(5))
qed

lemma run_of_command_le: "run_of_command c fp r \<Longrightarrow> run_row_le r r' \<Longrightarrow> run_of_command c fp r'"
  by (auto simp: run_of_command_def run_row_le_def)

lemma load_by_key:
  assumes "run_inv d" "r \<in> set (db_runs d)" "run_key r = (project, task, key)"
  shows "load_by_idempotency project task key d = Inr (Some r)"
proof -
  have "filter (\<lambda>x. run_key x = run_key r) (db_runs d) = [r]"
    using assms(1,2) by (intro filter_unique) (simp_all add: run_inv_def)
  moreover have "(\<lambda>x. run_project_id x = project \<and> run_task_id x = task \<and> run_idempotency_key x = key)
      = (\<lambda>x. run_key x = run_key r)" using assms(3) by (auto simp: run_key_def)
  ultimately show ?thesis by (simp add: load_by_idempotency_def one_or_none_def)
qed

lemma create_again:
  assumes inv: "run_inv d" and r: "r \<in> set (db_runs d)" "run_of_command c fp r" "is_obj (run_selected_sources_json r)"
    and c: "snapshots_ok c" "request_hash sha sha1 c = Inr fp"
    and again: "cm_project_id c' = cm_project_id c" "cm_task_id c' = cm_task_id c"
      "cm_idempotency_key c' = cm_idempotency_key c" "snapshots_ok c'" "request_hash sha sha1 c' = Inr fp'"
      "\<not> was_deleted c' d"
  shows "create_idempotent sha sha1 clk ids c' d =
    (if fp' = fp then Inr (to_created_run r True, d) else Inl IdempotencyConflictError)"
proof -
  have key: "run_key r = (cm_project_id c', cm_task_id c', cm_idempotency_key c')"
    using r(2) again(1-3) by (simp add: run_of_command_def)
  obtain i where i: "stored_creation_intent sha sha1 r = Inr i" "intent_fingerprint sha i = fp"
    using stored_intent [OF c r(2,3)] by blast
  obtain stored where stored: "jget creation_request_field (cm_task_snapshot_json c') = Some stored"
    using again(4) by (auto simp: snapshots_ok_def)
  then obtain i' where i': "intent_from_json stored = Inr i'" "fp' = intent_fingerprint sha i'"
    using again(5) by (auto simp: request_hash_stored)
  have "insert_run (new_run c' fp' (ids 0) (clk 0)) d = Inr None"
    using r(1) key by (auto simp: insert_run_def new_run_def run_key_def list_ex_iff)
  moreover have "find_by_idempotency c' d = Inr r"
    using load_by_key [OF inv r(1) key] by (simp add: find_by_idempotency_def)
  ultimately show ?thesis using again(5,6) i i' stored
    by (simp add: create_idempotent_def Let_def replayed_run_def validate_creation_replay_def raise_if_def)
qed

text \<open>
  C7: creating a run is idempotent. Once a command has created a run, a command under the same
  project, task and idempotency key never creates another, after any later transactions on any runs, unless
  the run was deleted: it is answered with the run as it now stands and changes nothing when it asks for the
  same (equal fingerprints of the normal request), and refused with \<open>IdempotencyConflictError\<close> when it asks
  for anything else. The selected sources, the one column a later transaction may replace, need only hold
  an object.
\<close>

theorem creation_idempotent:
  assumes "run_inv d" "create_idempotent sha sha1 clk ids c d = Inr (res, d1)" "\<not> cr_idempotent_replay res"
    and "snapshots_ok c" "snapshots_ok c'" "request_hash sha sha1 c' = Inr fp'"
    and "cm_project_id c' = cm_project_id c" "cm_task_id c' = cm_task_id c"
      "cm_idempotency_key c' = cm_idempotency_key c"
    and "\<not> was_deleted c' (run_all env cs d1)"
    and "\<forall>r \<in> set (db_runs (run_all env cs d1)). is_obj (run_selected_sources_json r)"
  shows "\<exists>r \<in> set (db_runs (run_all env cs d1)). run_id r = cr_run_id res \<and>
    create_idempotent sha sha1 clk' ids' c' (run_all env cs d1) =
      (if request_hash sha sha1 c = Inr fp' then Inr (to_created_run r True, run_all env cs d1)
       else Inl IdempotencyConflictError)"
proof -
  let ?d = "run_all env cs d1"
  obtain fp r where r: "request_hash sha sha1 c = Inr fp" "r \<in> set (db_runs d1)" "run_of_command c fp r"
    "run_id r = cr_run_id res"
    using created_run_of [OF assms(2,3)] .
  have inv: "run_inv d1" using create_idempotent_safe [OF assms(2)] assms(1) by (rule safe_inv)
  obtain r' where r': "r' \<in> set (db_runs ?d)" "run_row_le r r'"
    using run_all_le [OF inv] r(2) unfolding run_le_def table_le_def by blast
  have "create_idempotent sha sha1 clk' ids' c' ?d =
      (if fp' = fp then Inr (to_created_run r' True, ?d) else Inl IdempotencyConflictError)"
    using run_all_inv [OF inv] r'(1) run_of_command_le [OF r(3) r'(2)] assms(11) r(1) assms(4-10)
    by (intro create_again) auto
  moreover have "run_id r' = cr_run_id res" using r'(2) r(4) by (simp add: run_row_le_def)
  ultimately show ?thesis using r'(1) r(1) by (intro bexI [of _ r']) auto
qed

text \<open>One run created, its sources resolved, and the same request sent again.\<close>

definition sample_create :: create_command where
  "sample_create = \<lparr>cm_project_id = 2, cm_task_id = derive_task_id (\<lambda>_. 0) 21 ''t'', cm_idempotency_key = ''k'',
     cm_input_json = JObj [(''q'', JInt 1)],
     cm_task_snapshot_json = JObj [(''skill_version_id'', JStr (str_uuid 21)), (''task_key'', JStr ''t''),
       (''creation_request'', intent_to_json sample_intent)],
     cm_permission_snapshot_json = JObj [(''actor_id'', JStr (str_uuid 4))],
     cm_selected_sources_json = JObj [], cm_limits_snapshot_json = JObj [], cm_trace_id = None,
     cm_skill_snapshots_json = [], cm_budget_policy = None\<rparr>"

abbreviation sample_ids :: fresh where
  "sample_ids \<equiv> (\<lambda>i. of_nat (i + 1))"

lemma sample_create_hash: "request_hash sample_sha (\<lambda>_. 0) sample_create = Inr sample_hash"
proof -
  have s: "jget creation_request_field (cm_task_snapshot_json sample_create) = Some (intent_to_json sample_intent)"
    by (simp add: sample_create_def creation_request_field_def)
  have "intent_matches (\<lambda>_. 0) sample_create sample_intent"
    by (simp add: intent_matches_def sample_create_def sample_intent_def)
  then show ?thesis using intent_codec.dec_enc [OF sample_intent_valid] request_hash_stored [OF s]
    by (simp add: intent_fingerprint_def)
qed

lemma sample_create_ok: "snapshots_ok sample_create"
  by (simp add: snapshots_ok_def sample_create_def creation_request_field_def)

lemma sample_creation:
  "\<exists>res d. create_idempotent sample_sha (\<lambda>_. 0) (\<lambda>_. 7) sample_ids sample_create empty_db = Inr (res, d) \<and>
     \<not> cr_idempotent_replay res \<and> cr_run_id res = 1 \<and> db_deletion_audits d = [] \<and>
     (\<exists>r. db_runs d = [r] \<and> run_id r = 1 \<and> run_status r = QUEUED \<and> run_row_version r = 1)"
  unfolding create_idempotent_def
  by (simp only: sample_create_hash Let_def ebind_simps)
    (simp add: was_deleted_def insert_run_def insert_rows_def empty_db_def validate_skill_snapshots_def add_budget_account_def sample_create_def add_event_def raise_if_def
      new_run_def initial_segment_def)

lemma creation_idempotent_witness:
  "\<exists>d1 d r. d = run_all sample_env [ReplaceSources 1 (JObj [(''docs'', JStr ''x'')])] d1 \<and>
     create_idempotent sample_sha (\<lambda>_. 0) (\<lambda>_. 9) (\<lambda>i. of_nat (i + 50)) sample_create d
       = Inr (to_created_run r True, d) \<and> run_id r = 1"
proof -
  let ?cs = "[ReplaceSources 1 (JObj [(''docs'', JStr ''x'')])]"
  obtain res d1 r where res: "create_idempotent sample_sha (\<lambda>_. 0) (\<lambda>_. 7) sample_ids sample_create empty_db
      = Inr (res, d1)" "\<not> cr_idempotent_replay res" "cr_run_id res = 1"
    and d: "db_deletion_audits d1 = []" "db_runs d1 = [r]" "run_id r = 1"
      "run_status r = QUEUED" "run_row_version r = 1"
    using sample_creation by blast
  let ?d = "run_all sample_env ?cs d1"
  have "run_inv empty_db"
    by (simp add: run_inv_def empty_db_def numbered_def results_ok_def run_sequences_def)
  moreover have "\<not> was_deleted sample_create ?d"
    "\<forall>r \<in> set (db_runs ?d). is_obj (run_selected_sources_json r)"
    using d by (simp_all add: run_all_def committed_def replace_initial_selected_sources_def find_row_def
        put_run_def put_row_def was_deleted_def)
  ultimately show ?thesis
    using creation_idempotent [OF _ res(1,2) sample_create_ok sample_create_ok sample_create_hash refl refl refl,
        of sample_env ?cs "\<lambda>_. 9" "\<lambda>i. of_nat (i + 50)"] res(3) sample_create_hash by auto
qed

end
