(* ===== verification/Schedule_Store_Claims.thy ===== *)
theory Schedule_Store_Claims
  imports Schedule_Claiming Creation_Claims Run_History_Claims
begin

text \<open>
  The properties of the stored schedules: the tables over any sequence of transactions, an occurrence
  settled once, claims that are taken over, the claim of a due schedule, and the stored snapshot.
\<close>

section \<open>Sample data\<close>

definition utc_zones :: tz_database where
  "utc_zones name = (if name = ''UTC'' then Inr (fixed_zone 0) else Inl ZoneInfoNotFoundError)"

text \<open>A schedule that fires once, an hour after the epoch of the model, before and after its claim.\<close>

definition once_row :: schedule_row where
  "once_row = \<lparr>sr_id = 51, sr_project_id = 2, sr_name = ''report'', sr_kind = ONCE, sr_status = ACTIVE,
     sr_timezone = ''UTC'', sr_cron_expression = None, sr_run_at = Some 3600000000, sr_end_at = None,
     sr_max_runs = Some 1, sr_skill_version_id = 21, sr_task_key = ''t'', sr_input_json = JObj [(''q'', JInt 1)],
     sr_sources_json = JObj [(''docs'', JStr ''project-documents:all'')], sr_next_run_at = Some 3600000000,
     sr_last_run_at = None, sr_last_run_id = None, sr_last_outcome = None, sr_last_error = None, sr_run_count = 0,
     sr_missed_count = 0, sr_created_by = 4, sr_row_version = 1, sr_configuration_version = 1,
     sr_occurrence_protocol = 1, sr_created_at = 0\<rparr>"

definition once_intent :: run_intent where
  "once_intent = sample_intent\<lparr>it_auto_approve_git := True, it_auto_approve_mcp := True\<rparr>"

definition once_snapshot :: occurrence_snapshot where
  "once_snapshot = \<lparr>ss_schedule_id = 51, ss_occurrence_at = 3600000000, ss_name = ''report'',
     ss_configuration_version = 1, ss_claim_row_version = 2, ss_definition = row_definition once_row,
     ss_intent = once_intent, ss_exhausted = True, ss_missed = 0\<rparr>"

definition once_occurrence :: occurrence_row where
  "once_occurrence = new_occurrence sample_sha 52 once_row 3600000000 once_snapshot ''w'' ''token'' 3660000000 3600000000"

definition once_claim :: claimed_schedule where
  "once_claim = \<lparr>cs_schedule_id = 51, cs_project_id = 2, cs_occurrence_at = 3600000000, cs_skill_version_id = 21,
     cs_task_key = ''t'', cs_input_json = JObj [(''q'', JInt 1)],
     cs_sources = JObj [(''docs'', JStr ''project-documents:all'')], cs_created_by = 4, cs_exhausted = True,
     cs_missed = 0, cs_occurrence_id = 52, cs_definition = row_definition once_row, cs_configuration_version = 1,
     cs_claim_row_version = 2, cs_snapshot_checksum = sample_hash, cs_worker_id = ''w'', cs_lease_token = ''token'',
     cs_lease_generation = 1, cs_lease_expires_at = 3660000000, cs_auto_approve = True\<rparr>"

definition waiting_store :: schedule_store where
  "waiting_store = \<lparr>sc_db = sample_db, sc_schedules = [once_row], sc_occurrences = []\<rparr>"

definition claimed_store :: schedule_store where
  "claimed_store = \<lparr>sc_db = sample_db, sc_schedules = [once_row\<lparr>sr_next_run_at := None, sr_row_version := 2\<rparr>],
     sc_occurrences = [once_occurrence]\<rparr>"

lemma once_intent_valid: "valid_intent once_intent"
  using sample_intent_valid by (simp add: valid_intent_def once_intent_def sample_intent_def)

lemma once_intent_of_row:
  "mk_intent 2 21 ''t'' 4 (JObj [(''q'', JInt 1)]) (JObj [(''docs'', JStr ''project-documents:all'')]) (JBool True)
     (JBool True) (JBool True) = Inr once_intent"
  using once_intent_valid normalize_stored_sources [of "it_sources once_intent"]
  by (simp add: mk_intent_Inr) (simp add: once_intent_def sample_intent_def valid_intent_def)

lemma once_snapshot_valid: "valid_snapshot utc_zones once_snapshot"
proof -
  have "stamp_ok True 3600000000" by (rule stamp_in_range) (simp_all add: end_of_time_def)
  then show ?thesis
    using once_intent_valid
    by (simp add: valid_snapshot_def once_snapshot_def max_integer_def valid_definition_def row_definition_def
        once_row_def normalize_timezone_def utc_zones_def stored_rule_def)
qed

lemma once_stored: "stored_snapshot sample_sha utc_zones once_occurrence = Inr once_snapshot"
  using snapshot_from_json_checked [OF once_snapshot_valid, of sample_sha]
  by (simp add: stored_snapshot_def once_occurrence_def new_occurrence_def raise_if_def)
    (simp add: once_snapshot_def once_row_def once_intent_def sample_intent_def)

lemma once_claimed: "claimed_of_occurrence sample_sha utc_zones ''token'' once_occurrence = Inr once_claim"
  by (simp add: claimed_of_occurrence_def once_stored Let_def)
    (simp add: once_claim_def once_occurrence_def new_occurrence_def once_snapshot_def once_row_def once_intent_def
      sample_intent_def snapshot_checksum_def)

lemma claimed_store_inv: "schedule_inv claimed_store" "schedule_inv waiting_store"
  by (simp_all add: schedule_inv_def claimed_store_def waiting_store_def sample_run_inv once_row_def schedule_row_ok_def
      occurrence_row_ok_def once_occurrence_def new_occurrence_def has_parent_def occurrences_apart_def runs_linked_def
      counts_ok_def created_count_def pending_count_def pending_of_schedule_def)

lemma once_locked:
  assumes "now < 3660000000"
  shows "lock_claim sample_sha utc_zones once_claim now claimed_store =
    Inr (once_row\<lparr>sr_next_run_at := None, sr_row_version := 2\<rparr>, once_occurrence)"
proof -
  have "match_claim once_occurrence once_snapshot once_claim = Inr ()"
    by (rule own_claim_matches [OF once_claimed once_stored])
      (simp_all add: once_snapshot_def once_intent_def sample_intent_def)
  moreover have "require_fence sample_sha once_occurrence once_claim now False = Inr ()"
    using assms by (simp add: once_occurrence_def new_occurrence_def require_fence_Inr once_claim_def)
  moreover have "find_occurrence once_claim claimed_store = Some once_occurrence"
    by (simp add: find_occurrence_def claimed_store_def once_claim_def once_occurrence_def new_occurrence_def once_row_def)
  moreover have "require_row (cs_project_id once_claim) (cs_schedule_id once_claim) claimed_store =
      Inr (once_row\<lparr>sr_next_run_at := None, sr_row_version := 2\<rparr>)"
    by (simp add: require_row_def claimed_store_def once_claim_def once_row_def)
  ultimately show ?thesis using once_stored by (simp add: lock_claim_Inr) (simp add: once_row_def)
qed

section \<open>The tables\<close>

text \<open>
  C10: the schedule tables stay sound over any sequence of transactions on schedules and runs, by any workers
  and users and with any (also forged) claims. No two occurrences of a schedule have the same instant and at
  most one is pending; no run belongs to two occurrences, and the run an occurrence names exists, in the
  project and under the idempotency key of the occurrence; and the run count of a tracked schedule is the
  number of its occurrences that created a run and, together with the pending one, never exceeds the limit.
\<close>

theorem schedule_tables_sound:
  assumes "schedule_inv st"
  shows "(\<forall>x \<in> set (sc_occurrences (schedule_all env cs st)). \<forall>y \<in> set (sc_occurrences (schedule_all env cs st)).
      oc_schedule_id x = oc_schedule_id y \<and> oc_occurrence_at x = oc_occurrence_at y \<or>
      oc_schedule_id x = oc_schedule_id y \<and> oc_status x = OCC_PENDING \<and> oc_status y = OCC_PENDING \<or>
      oc_run_id x \<noteq> None \<and> oc_run_id x = oc_run_id y \<longrightarrow> x = y) \<and>
    (\<forall>x \<in> set (sc_occurrences (schedule_all env cs st)). \<forall>i \<in> set_option (oc_run_id x).
      \<exists>r \<in> set (db_runs (sc_db (schedule_all env cs st))). run_id r = i \<and> run_project_id r = oc_project_id x \<and>
        run_idempotency_key r = oc_idempotency_key x) \<and>
    (\<forall>r \<in> set (sc_schedules (schedule_all env cs st)). sr_occurrence_protocol r = 1 \<longrightarrow>
      sr_run_count r = created_count (sr_id r) (schedule_all env cs st) \<and>
      (\<forall>n \<in> set_option (sr_max_runs r). sr_run_count r + pending_count (sr_id r) (schedule_all env cs st) \<le> n))"
proof -
  define u where "u = schedule_all env cs st"
  have inv: "schedule_inv u" unfolding u_def by (rule schedule_all_inv [OF assms])
  have "x = y" if "x \<in> set (sc_occurrences u)" "y \<in> set (sc_occurrences u)" "occurrence_conflict x y" for x y
    using inv that unfolding schedule_inv_def occurrences_apart_def by (metis distinct_key_eq)
  moreover have "\<exists>r \<in> set (db_runs (sc_db u)). run_id r = i \<and> run_project_id r = oc_project_id x \<and>
      run_idempotency_key r = oc_idempotency_key x"
    if "x \<in> set (sc_occurrences u)" "i \<in> set_option (oc_run_id x)" for x i
    using inv that unfolding schedule_inv_def runs_linked_def occurrence_run_def list_ex_iff by blast
  moreover have "counts_ok u" using inv by (simp add: schedule_inv_def)
  ultimately show ?thesis
    unfolding u_def [symmetric] occurrence_conflict_def counts_ok_def by blast
qed

definition once_env :: schedule_env where
  "once_env = \<lparr>se_runs = sample_env, se_tzdb = utc_zones\<rparr>"

definition once_result :: "schedule_outcome \<Rightarrow> schedule_result" where
  "once_result o' = \<lparr>rt_schedule_id = 51, rt_occurrence_at = 3600000000, rt_outcome = o', rt_run_id = None, rt_detail = None\<rparr>"

definition once_commands :: "schedule_command list" where
  "once_commands = [SetScheduleStatus 2 51 PAUSED None 2 None,
     ClaimRecoverable (\<lambda>i. False) (\<lambda>n. 0) (\<lambda>n. 0) 4000000000 10 ''v'' ''other'' 60 3,
     RecordOutcome (\<lambda>n. 0) once_claim (once_result FAILED_PRECONDITION)]"

lemma schedule_tables_sound_witness:
  "schedule_inv claimed_store \<and>
   list_all (\<lambda>r. sr_occurrence_protocol r \<noteq> 1 \<or>
     sr_run_count r = created_count (sr_id r) (schedule_all once_env once_commands claimed_store))
     (sc_schedules (schedule_all once_env once_commands claimed_store))"
  using claimed_store_inv(1) schedule_tables_sound [OF claimed_store_inv(1), of once_env once_commands]
  unfolding list_all_iff by blast

section \<open>Settled once\<close>

text \<open>
  C13: an occurrence is settled once. When \<open>record_outcome\<close> has committed a result for a claim, then after any
  later transactions the same claim with the same result is answered with the recorded result and changes
  nothing, at any time of the clock, so a lost reply can be repeated without counting a run twice; with any
  other result it is refused with \<open>ScheduleOccurrenceConflictError\<close>.
\<close>

theorem settlement_final:
  assumes "schedule_inv st" "record_outcome sha sha1 tzdb clk c result st = Inr (res, st')"
  shows "res = result \<and> record_outcome sha sha1 tzdb clk' c result' (schedule_all env cs st') =
    (if result' = result then Inr (result, schedule_all env cs st') else Inl ScheduleOccurrenceConflictError)"
proof -
  let ?u = "schedule_all env cs st'"
  have inv: "schedule_inv st'" "store_le st st'"
    using record_outcome_safe [OF assms(2)] assms(1) by (simp_all add: store_safe_def)
  obtain r x y where lock: "lock_claim sha tzdb c (clk 0) st = Inr (r, x)" and y: "y \<in> set (sc_occurrences st')"
    "occurrence_request y = occurrence_request x" "oc_status y = OCC_SETTLED" "validate_result y result = Inr ()"
    "stored_result y = Inr result" "require_fence sha y c (clk 0) False = Inr ()" and res: "res = result"
    using assms by (rule record_outcome_Inr)
  have le: "store_le st' ?u" by (rule schedule_all_le [OF inv(1)])
  have "y \<in> set (sc_occurrences ?u)" by (rule settled_stays [OF le y(1,3)])
  then obtain q where "lock_claim sha tzdb c (clk' 0) ?u = ebind (require_fence sha y c (clk' 0) False) (\<lambda>_. Inr (q, y))"
    using lock_claim_later [OF assms(1) schedule_all_inv [OF inv(1)] store_le_trans [OF inv(2) le] lock _ y(2)] by blast
  moreover have "require_fence sha y c (clk' 0) False = Inr ()" using y(3,6) by (simp add: require_fence_Inr)
  ultimately show ?thesis using settled_answer [OF _ y(3,5,4)] res by simp
qed

lemma settle_occurrence_total:
  assumes "require_fence sha x c (clk 1) False = Inr ()" "1 \<le> sr_row_version r" "sr_row_version r < max_integer"
    and row: "\<And>u. schedule_row_ok ((settled_row c result u x r)\<lparr>sr_row_version := sr_row_version r + 1\<rparr>)"
    and "occurrence_row_ok (settled_occurrence (clk 1) result x)"
      "\<forall>y \<in> set (sc_occurrences st). oc_id y = oc_id x"
      "require_fence sha (settled_occurrence (clk 1) result x) c (clk 2) True = Inr ()"
  shows "\<exists>st'. settle_occurrence sha clk r x c result st = Inr (result, st')"
proof -
  define u where "u = (sr_configuration_version r = cs_configuration_version c \<and> sr_row_version r = cs_claim_row_version c)"
  let ?q = "(settled_row c result u x r)\<lparr>sr_row_version := sr_row_version r + 1\<rparr>"
  have q: "bump (settled_row c result u x r) = Inr ?q"
    using assms(2,3) by (simp add: bump_Inr settled_row_fields)
  have save: "save_schedule ?q st = Inr (st\<lparr>sc_schedules := put_row sr_id ?q (sc_schedules st)\<rparr>)"
    using row [of u] by (simp add: save_schedule_Inr)
  have "oc_id (settled_occurrence (clk 1) result x) = oc_id x" by (simp add: settled_occurrence_def)
  then have "\<exists>st'. save_occurrence (settled_occurrence (clk 1) result x)
      (st\<lparr>sc_schedules := put_row sr_id ?q (sc_schedules st)\<rparr>) = Inr st'"
    using assms(5,6) by (simp add: save_occurrence_Inr)
  then show ?thesis
    using assms(1,7) q save
    by (auto simp: settle_occurrence_def Let_def u_def [symmetric] settled_row_def [symmetric])
qed

lemma once_settled:
  obtains st' where "record_outcome sample_sha (\<lambda>_. 0) utc_zones (\<lambda>n. 0) once_claim (once_result SKIPPED_OVERLAP)
    claimed_store = Inr (once_result SKIPPED_OVERLAP, st')"
proof -
  let ?r = "once_row\<lparr>sr_next_run_at := None, sr_row_version := 2\<rparr>" and ?c = "once_result SKIPPED_OVERLAP"
  have valid: "validate_result once_occurrence ?c = Inr ()"
    by (simp add: validate_result_def once_result_def once_occurrence_def new_occurrence_def once_row_def raise_if_def)
  have fence: "require_fence sample_sha once_occurrence once_claim 0 False = Inr ()"
    "require_fence sample_sha (settled_occurrence 0 ?c once_occurrence) once_claim 0 True = Inr ()"
    by (simp_all add: require_fence_Inr once_occurrence_def new_occurrence_def once_claim_def settled_occurrence_def)
  have row: "schedule_row_ok ((settled_row once_claim ?c u once_occurrence ?r)\<lparr>sr_row_version := sr_row_version ?r + 1\<rparr>)" for u
    by (simp add: schedule_row_ok_def settled_row_def finished_schedule_def summarized_schedule_def counted_schedule_def
        once_result_def once_row_def once_claim_def once_occurrence_def new_occurrence_def Let_def)
  have "occurrence_row_ok (settled_occurrence 0 ?c once_occurrence)"
    by (simp add: occurrence_row_ok_def settled_occurrence_def once_result_def once_occurrence_def new_occurrence_def
        once_row_def)
  moreover have "\<forall>y \<in> set (sc_occurrences claimed_store). oc_id y = oc_id once_occurrence" by (simp add: claimed_store_def)
  ultimately have "\<exists>st'. settle_occurrence sample_sha (\<lambda>n. 0) ?r once_occurrence once_claim ?c claimed_store = Inr (?c, st')"
    by (intro settle_occurrence_total [OF fence(1) _ _ row _ _ fence(2)]) (simp_all add: max_integer_def)
  then show thesis
    using once_locked [of 0] valid that
    by (auto simp: record_outcome_def check_result_run_def once_occurrence_def new_occurrence_def once_result_def)
qed

lemma settlement_final_witness:
  "\<exists>st'. record_outcome sample_sha (\<lambda>_. 0) utc_zones (\<lambda>n. 0) once_claim (once_result SKIPPED_OVERLAP) claimed_store
      = Inr (once_result SKIPPED_OVERLAP, st') \<and>
    record_outcome sample_sha (\<lambda>_. 0) utc_zones (\<lambda>n. 9999999999) once_claim (once_result SKIPPED_OVERLAP)
      (schedule_all once_env once_commands st') = Inr (once_result SKIPPED_OVERLAP, schedule_all once_env once_commands st') \<and>
    record_outcome sample_sha (\<lambda>_. 0) utc_zones (\<lambda>n. 0) once_claim (once_result FAILED_PRECONDITION)
      (schedule_all once_env once_commands st') = Inl ScheduleOccurrenceConflictError"
proof -
  obtain st' where st': "record_outcome sample_sha (\<lambda>_. 0) utc_zones (\<lambda>n. 0) once_claim (once_result SKIPPED_OVERLAP)
    claimed_store = Inr (once_result SKIPPED_OVERLAP, st')" by (rule once_settled)
  note f = settlement_final [OF claimed_store_inv(1) st', of _ _ once_env once_commands]
  have "once_result FAILED_PRECONDITION \<noteq> once_result SKIPPED_OVERLAP" by (simp add: once_result_def)
  with st' f [of "\<lambda>n. 9999999999" "once_result SKIPPED_OVERLAP"] f [of "\<lambda>n. 0" "once_result FAILED_PRECONDITION"]
  show ?thesis by auto
qed

section \<open>Due schedules\<close>

text \<open>
  C15: a due schedule is claimed once, for the instant it was due at. \<open>claim_due\<close> hands out a claim only for an
  active tracked schedule that still is as the worker saw it, has no pending occurrence, has runs left and
  whose next instant has come; the claim is of first generation and for that instant; the stored occurrence
  carries the idempotency key of the schedule and the instant; and until the lease expires \<open>lock_claim\<close>
  accepts the claim as it was handed out.
\<close>

theorem due_schedule_claimed:
  assumes "schedule_inv st" "claim_due sha tzdb clk ids seen now w token secs st = Inr (Some c, st')"
  shows "\<exists>r \<in> set (sc_schedules st). sr_id r = sr_id seen \<and> sr_row_version r = sr_row_version seen \<and>
    sr_status r = ACTIVE \<and> sr_occurrence_protocol r = 1 \<and> pending_of_schedule (sr_id r) st = [] \<and>
    (\<forall>n \<in> set_option (sr_max_runs r). sr_run_count r < n) \<and>
    sr_next_run_at r = Some (cs_occurrence_at c) \<and> cs_occurrence_at c \<le> now \<and> cs_lease_generation c = 1 \<and>
    (\<forall>t < cs_lease_expires_at c. \<exists>q x. lock_claim sha tzdb c t st' = Inr (q, x) \<and> oc_status x = OCC_PENDING \<and>
      oc_idempotency_key x = schedule_idempotency_key (sr_id r) (cs_occurrence_at c))"
proof -
  obtain r t where r: "require_row (sr_project_id seen) (sr_id seen) st = Inr r" "sr_next_run_at r = Some t" "t \<le> now"
    "claim_current r seen now" "sr_occurrence_protocol r = 1" "pending_count (sr_id r) st = 0"
    "\<forall>n \<in> set_option (sr_max_runs r). sr_run_count r < n"
    "start_occurrence sha tzdb clk ids r t now w token secs st = Inr (Some c, st')"
    using assms(2) by (rule claim_due_Some)
  note locked = claim_due_locked [OF assms r(1,2)]
  have "cs_occurrence_at c = t" "cs_lease_generation c = 1"
    using locked [of "cs_lease_expires_at c - 1"] by auto
  with locked r require_row_Inr [OF r(1)] show ?thesis
    by (intro bexI [of _ r]) (auto simp: claim_current_def pending_count_def)
qed

lemma once_due:
  "claim_due sample_sha utc_zones (\<lambda>n. 3600000000) (\<lambda>n. 52) once_row 3600000000 ''w'' ''token'' 60 waiting_store =
     Inr (Some once_claim, claimed_store)"
proof -
  let ?q = "once_row\<lparr>sr_next_run_at := None, sr_row_version := 2\<rparr>"
  let ?plan = "\<lparr>op_next_run_at = None, op_missed = 0, op_exhausted = True\<rparr>"
  have cred: "check_credentials ''w'' ''token'' 60 = Inr ()" by code_simp
  have row: "require_row (sr_project_id once_row) (sr_id once_row) waiting_store = Inr once_row"
    by (simp add: require_row_def waiting_store_def)
  have first: "next_from_definition utc_zones (row_definition once_row) (3600000000 - usec_minute) = Inr (Some 3600000000)"
    "next_from_definition utc_zones (row_definition once_row) 3600000000 = Inr None"
    by (simp_all add: next_from_definition_def occurrences_def row_definition_def once_row_def past_end_def)
  have plan: "plan_occurrence utc_zones (row_definition once_row) 3600000000 3600000000 = Inr ?plan"
    by (simp add: plan_occurrence_def first count_missed_def) (simp add: row_definition_def once_row_def)
  have "planned_snapshot sample_sha utc_zones once_row 3600000000 ?plan = snapshot_from_json sample_sha utc_zones
      (snapshot_to_json once_snapshot) None"
    by (simp add: planned_snapshot_def once_row_def once_intent_of_row)
      (simp add: once_snapshot_def once_row_def)
  then have snap: "planned_snapshot sample_sha utc_zones once_row 3600000000 ?plan = Inr once_snapshot"
    using snapshot_codec.dec_enc [OF once_snapshot_valid] by simp
  have new: "new_occurrence sample_sha 52 once_row 3600000000 once_snapshot ''w'' ''token''
      (max 3600000000 3600000000 + 60 * 1000000) 3600000000 = once_occurrence"
    by (simp add: once_occurrence_def)
  have bumped: "bump (once_row\<lparr>sr_next_run_at := op_next_run_at ?plan,
      sr_missed_count := sr_missed_count once_row + int (op_missed ?plan)\<rparr>) = Inr ?q"
    by (simp add: bump_Inr max_integer_def once_row_def)
  have ins: "insert_occurrence once_occurrence waiting_store = Inr (waiting_store\<lparr>sc_occurrences := [once_occurrence]\<rparr>)"
    by (simp add: insert_occurrence_Inr waiting_store_def)
      (simp add: occurrence_row_ok_def once_occurrence_def new_occurrence_def once_row_def)
  have save: "save_schedule ?q (waiting_store\<lparr>sc_occurrences := [once_occurrence]\<rparr>) = Inr claimed_store"
    by (simp add: save_schedule_Inr waiting_store_def claimed_store_def put_row_def)
      (simp add: schedule_row_ok_def once_row_def)
  have fence: "require_fence sample_sha once_occurrence once_claim 3600000000 False = Inr ()"
    by (simp add: require_fence_Inr once_occurrence_def new_occurrence_def once_claim_def)
  have "start_occurrence sample_sha utc_zones (\<lambda>n. 3600000000) (\<lambda>n. 52) once_row 3600000000 3600000000 ''w'' ''token'' 60
      waiting_store = Inr (Some once_claim, claimed_store)"
    using first(1) plan snap new bumped ins save once_claimed fence
    by (simp add: start_occurrence_def utc_instant_def raise_if_def)
  moreover have "claim_current once_row once_row 3600000000" "sr_next_run_at once_row = Some 3600000000"
    "sr_occurrence_protocol once_row = 1" "sr_max_runs once_row = Some 1" "sr_run_count once_row = 0"
    by (simp_all add: claim_current_def once_row_def)
  moreover have "pending_count (sr_id once_row) waiting_store = 0"
    by (simp add: pending_count_def pending_of_schedule_def waiting_store_def)
  ultimately show ?thesis by (simp add: claim_due_def cred row)
qed

lemma due_schedule_claimed_witness:
  "claim_due sample_sha utc_zones (\<lambda>n. 3600000000) (\<lambda>n. 52) once_row 3600000000 ''w'' ''token'' 60 waiting_store =
     Inr (Some once_claim, claimed_store) \<and>
   (\<exists>(q::schedule_row) x. lock_claim sample_sha utc_zones once_claim 3650000000 claimed_store = Inr (q, x) \<and>
      oc_idempotency_key x = schedule_idempotency_key 51 3600000000)"
proof -
  have "sc_schedules waiting_store = [once_row]" "sr_id once_row = 51" "cs_occurrence_at once_claim = 3600000000"
    "cs_lease_expires_at once_claim = 3660000000"
    by (simp_all add: waiting_store_def once_row_def once_claim_def)
  then have "\<forall>t < 3660000000. \<exists>q x. lock_claim sample_sha utc_zones once_claim t claimed_store = Inr (q, x) \<and>
      oc_status x = OCC_PENDING \<and> oc_idempotency_key x = schedule_idempotency_key 51 3600000000"
    using due_schedule_claimed [OF claimed_store_inv(2) once_due] by auto
  from this [rule_format, of 3650000000] once_due show ?thesis by auto
qed

section \<open>Claims taken over\<close>

text \<open>
  C14: a claim that has been taken over is dead. When the recovery hands an occurrence to another worker, a
  claim of the same occurrence that was still accepted before is refused with \<open>ScheduleClaimLostError\<close> after any
  later transactions, whenever it is presented: it can neither be locked nor settle the occurrence nor start
  the creation of a run, and its generation is below that of the new claim.
\<close>

theorem recovery_fences_claim:
  assumes "schedule_inv st" "lock_claim sha tzdb c now st = Inr p"
    and "claim_recoverable sha tzdb busy clk late now' limit w token secs m st = Inr (rs, st')"
    and "c' \<in> set rs" "cs_occurrence_id c' = cs_occurrence_id c"
  shows "cs_lease_generation c < cs_lease_generation c' \<and>
    lock_claim sha tzdb c later (schedule_all env cs st') = Inl ScheduleClaimLostError \<and>
    record_outcome sha sha1 tzdb clk' c result (schedule_all env cs st') = Inl ScheduleClaimLostError \<and>
    before_create sha tzdb clk' c (schedule_all env cs st') = Inl ScheduleClaimLostError"
proof -
  let ?u = "schedule_all env cs st'"
  obtain r x where p: "p = (r, x)" by (cases p)
  have x: "x \<in> set (sc_occurrences st)" "oc_id x = cs_occurrence_id c" "oc_lease_generation x = cs_lease_generation c"
    using assms(2) p by (auto simp: lock_claim_Inr require_fence_Inr dest: find_occurrence_Some)
  have inv: "schedule_inv st'" "store_le st st'"
    using claim_recoverable_safe [OF assms(3)] assms(1) by (simp_all add: store_safe_def)
  obtain clk1 rows where rec: "recover_occurrences (\<lambda>t. recover_occurrence sha tzdb busy t now' w token secs m) clk1 rows st
      = Inr (rs, st')"
    using assms(3) by (auto simp: claim_recoverable_def ebind_Inr_iff)
  have g: "(\<exists>y \<in> set (sc_occurrences st'). oc_id y = cs_occurrence_id c' \<and> cs_lease_generation c' \<le> oc_lease_generation y) \<and>
    (\<forall>x \<in> set (sc_occurrences st). oc_id x = cs_occurrence_id c' \<longrightarrow> oc_lease_generation x < cs_lease_generation c')"
    by (rule recovered_generation [OF _ assms(1) rec assms(4)]) (rule recover_occurrence_Inr)
  have newer: "cs_lease_generation c < cs_lease_generation c'" using g x assms(5) by auto
  have le: "store_le st ?u" "schedule_inv ?u"
    using store_le_trans [OF inv(2) schedule_all_le [OF inv(1)]] schedule_all_inv [OF inv(1)] by simp_all
  obtain y where y: "y \<in> set (sc_occurrences st')" "oc_id y = oc_id x" "cs_lease_generation c < oc_lease_generation y"
    using g x assms(5) newer by fastforce
  obtain z where z: "z \<in> set (sc_occurrences ?u)" "occurrence_request z = occurrence_request x"
    using le(1) x(1) unfolding store_le_def table_le_def occurrence_le_def by blast
  obtain z' where z': "z' \<in> set (sc_occurrences ?u)" "occurrence_request z' = occurrence_request y"
      "oc_lease_generation y \<le> oc_lease_generation z'"
    using schedule_all_le [OF inv(1), of env cs] y(1) unfolding store_le_def table_le_def occurrence_le_def by blast
  have "oc_id z' = oc_id z" using z(2) z'(2) y(2) by (simp add: occurrence_request_def)
  then have "z' = z" using le(2) z(1) z'(1) by (auto simp: schedule_inv_def dest: distinct_key_eq)
  then have lost: "require_fence sha z c t False = Inl ScheduleClaimLostError" for t
    using y(3) z'(3) by (simp add: require_fence_def raise_if_def)
  have "lock_claim sha tzdb c t ?u = Inl ScheduleClaimLostError" for t
    using lock_claim_later [OF assms(1) le(2,1) assms(2) [unfolded p] z, of t] lost by auto
  with newer show ?thesis by (simp add: record_outcome_def before_create_def)
qed

definition once_recovered :: occurrence_row where
  "once_recovered = once_occurrence\<lparr>oc_worker_id := ''v'', oc_lease_token_hash := sample_hash,
     oc_lease_generation := 2, oc_attempt_count := 2, oc_lease_expires_at := 4060000000\<rparr>"

lemma recover_occurrence_step:
  assumes "find (\<lambda>x. \<not> busy (oc_id x)) (pending_of_schedule (sr_id r) st) = Some x" "recoverable_occurrence now m x"
    and "stored_snapshot sha tzdb x = Inr s" "oc_schedule_id x = sr_id r" "oc_project_id x = sr_project_id r"
    and "1 \<le> oc_lease_generation x + 1" "oc_lease_generation x + 1 \<le> max_integer"
    and "y = x\<lparr>oc_worker_id := w, oc_lease_token_hash := lease_token_hash sha token,
      oc_lease_generation := oc_lease_generation x + 1, oc_attempt_count := oc_attempt_count x + 1,
      oc_lease_expires_at := max now current + secs * 1000000\<rparr>"
    and "claimed_of_occurrence sha tzdb token y = Inr c" "save_occurrence y st = Inr st'"
  shows "recover_occurrence sha tzdb busy current now w token secs m r st = Inr ([c], st')"
  using assms by (simp add: recover_occurrence_def raise_if_def Let_def positive_integer_def)

lemma once_taken_over:
  "claim_recoverable sample_sha utc_zones (\<lambda>i. False) (\<lambda>n. 0) (\<lambda>n. 4000000001) 4000000000 10 ''v'' ''other'' 60 3
     claimed_store = Inr ([once_claim\<lparr>cs_worker_id := ''v'', cs_lease_token := ''other'', cs_lease_generation := 2,
       cs_lease_expires_at := 4060000000\<rparr>], claimed_store\<lparr>sc_occurrences := [once_recovered]\<rparr>)"
proof -
  let ?r = "once_row\<lparr>sr_next_run_at := None, sr_row_version := 2\<rparr>"
  let ?c = "once_claim\<lparr>cs_worker_id := ''v'', cs_lease_token := ''other'', cs_lease_generation := 2,
    cs_lease_expires_at := 4060000000\<rparr>"
  have o: "oc_schedule_id once_occurrence = 51" "oc_status once_occurrence = OCC_PENDING" "oc_id once_occurrence = 52"
    "oc_project_id once_occurrence = 2" "oc_lease_expires_at once_occurrence = 3660000000"
    "oc_attempt_count once_occurrence = 1" "oc_lease_generation once_occurrence = 1"
    by (simp_all add: once_occurrence_def new_occurrence_def once_row_def)
  have r: "sr_id ?r = 51" "sr_project_id ?r = 2" "sr_occurrence_protocol ?r = 1" by (simp_all add: once_row_def)
  have rows: "sc_schedules claimed_store = [?r]" "sc_occurrences claimed_store = [once_occurrence]"
    by (simp_all add: claimed_store_def)
  have recov: "recoverable_occurrence 4000000000 3 once_occurrence" by (simp add: recoverable_occurrence_def o)
  then have cand: "recovery_candidates (\<lambda>i. False) 4000000000 10 3 claimed_store = [?r]"
    using o r unfolding recovery_candidates_def rows by simp
  have "occurrence_request once_recovered = occurrence_request once_occurrence"
    by (simp add: once_recovered_def occurrence_request_def)
  then have "stored_snapshot sample_sha utc_zones once_recovered = Inr once_snapshot"
    using stored_snapshot_request once_stored by metis
  then have claimed: "claimed_of_occurrence sample_sha utc_zones ''other'' once_recovered = Inr ?c"
    by (simp add: claimed_of_occurrence_def Let_def)
      (simp add: once_claim_def once_recovered_def once_occurrence_def new_occurrence_def once_snapshot_def once_row_def
        once_intent_def sample_intent_def snapshot_checksum_def)
  have save: "save_occurrence once_recovered claimed_store = Inr (claimed_store\<lparr>sc_occurrences := [once_recovered]\<rparr>)"
    unfolding save_occurrence_Inr rows
    by (simp add: once_recovered_def o put_row_def occurrence_row_ok_def)
      (simp add: once_occurrence_def new_occurrence_def once_row_def)
  have "recover_occurrence sample_sha utc_zones (\<lambda>i. False) 0 4000000000 ''v'' ''other'' 60 3 ?r claimed_store =
      Inr ([?c], claimed_store\<lparr>sc_occurrences := [once_recovered]\<rparr>)"
  proof (rule recover_occurrence_step [OF _ recov once_stored _ _ _ _ _ claimed save])
    show "find (\<lambda>x. \<not> False) (pending_of_schedule (sr_id ?r) claimed_store) = Some once_occurrence"
      unfolding pending_of_schedule_def rows r by (simp add: o)
  qed (simp_all only: o r, simp_all add: max_integer_def once_recovered_def)
  then have rec: "recover_occurrences (\<lambda>t. recover_occurrence sample_sha utc_zones (\<lambda>i. False) t 4000000000 ''v'' ''other'' 60 3)
      (\<lambda>n. 0) [?r] claimed_store = Inr ([?c], claimed_store\<lparr>sc_occurrences := [once_recovered]\<rparr>)"
    unfolding recover_occurrences.simps by simp
  have ok: "check_credentials ''v'' ''other'' 60 = Inr ()" "positive_integer 10 1000 = Inr 10"
    "positive_integer 3 max_integer = Inr 3" by code_simp+
  have live: "raise_if (\<exists>(i, c) \<in> set (enumerate 0 [?c]). cs_lease_expires_at c \<le> 4000000001) ScheduleClaimLostError = Inr ()"
    by (simp add: raise_if_def)
  show ?thesis unfolding claim_recoverable_def ok ebind_simps cand rec prod.case live by (rule refl)
qed

lemma recovery_fences_claim_witness:
  "lock_claim sample_sha utc_zones once_claim 0 claimed_store =
     Inr (once_row\<lparr>sr_next_run_at := None, sr_row_version := 2\<rparr>, once_occurrence) \<and>
   record_outcome sample_sha (\<lambda>_. 0) utc_zones (\<lambda>n. 0) once_claim (once_result SKIPPED_OVERLAP)
     (schedule_all once_env once_commands (claimed_store\<lparr>sc_occurrences := [once_recovered]\<rparr>)) = Inl ScheduleClaimLostError"
  using once_locked [of 0]
    recovery_fences_claim [OF claimed_store_inv(1) once_locked [of 0] once_taken_over, where c' = "once_claim\<lparr>cs_worker_id := ''v'',
      cs_lease_token := ''other'', cs_lease_generation := 2, cs_lease_expires_at := 4060000000\<rparr>"]
  by simp

section \<open>Stored snapshots\<close>

text \<open>
  C31: the stored snapshot of an occurrence is read back exactly and cannot be altered unnoticed. A valid
  snapshot is recovered from what is stored with its checksum; and whatever is read is valid, has the
  canonical text of a snapshot written by this code (so no field is missing, added or written differently),
  and, when a checksum was stored with it, that of the very snapshot that is returned.
\<close>

theorem snapshot_roundtrip:
  "(valid_snapshot tzdb s \<longrightarrow>
      snapshot_from_json sha tzdb (snapshot_to_json s) (Some (snapshot_checksum sha s)) = Inr s) \<and>
   (snapshot_from_json sha tzdb v checksum = Inr s \<longrightarrow>
      valid_snapshot tzdb s \<and> canonical_json v = canonical_json (snapshot_to_json s) \<and>
      (\<forall>c \<in> set_option checksum. c = snapshot_checksum sha s))"
  using snapshot_from_json_checked by (auto simp: snapshot_from_json_Inr snapshot_checksum_def read_snapshot_Inr)

lemma snapshot_roundtrip_witness:
  "snapshot_from_json sample_sha utc_zones (snapshot_to_json once_snapshot)
     (Some (snapshot_checksum sample_sha once_snapshot)) = Inr once_snapshot"
  using snapshot_roundtrip [of utc_zones once_snapshot sample_sha] once_snapshot_valid by blast

end
