(* ===== verification/Scheduled_Creation.thy ===== *)
theory Scheduled_Creation
  imports Schedule_Store
begin

text \<open>
  Creating a run for a claimed occurrence: \<^verbatim>\<open>create_task_run\<close> and \<^verbatim>\<open>find_task_run_replay\<close> of
  \<^verbatim>\<open>runs/service.py\<close> when the caller is a participant, not a logged-in user (\<^verbatim>\<open>UserAccess\<close>). One database
  transaction: the participant authorises, the stored run is looked for, the participant agrees to a new one,
  the run is created, its sources are frozen, and the participant settles the occurrence.

  \<open>creation_steps\<close> holds what other components compute inside the transaction: the state of the creator and
  the access to the project, the checks of the blueprint and the enabled features, the choice of sources and
  tools (\<^verbatim>\<open>_resolve_selected_sources\<close> and the sets of capabilities), and the rows of frozen bindings with the
  sources that name them.
\<close>

section \<open>The command\<close>

record resolved_task =
  rk_skill_version_id :: uuid
  rk_task_key :: string
  rk_capability :: string
  rk_manifest_checksum :: string
  rk_input_schema :: json
  rk_output_schema :: json
  rk_input_schema_checksum :: string
  rk_output_schema_checksum :: string
  rk_task_output_schema :: json
  rk_task_output_schema_checksum :: json
  rk_allowed_capabilities :: "string list"
  rk_skill_snapshot :: json

record creation_plan =
  cp_selected_sources :: json
  cp_resource_operations :: "json list"
  cp_capabilities :: "string list"
  cp_execution_profile :: string
  cp_model_output_schema :: json
  cp_binds :: bool

definition runtime_policy :: string where
  "runtime_policy = ''skillmind.runtime/v8''"

definition base_limits :: "(string \<times> json) list" where
  "base_limits = [(''wall_timeout_seconds'', JInt (8 * 60 * 60)), (''max_turns'', JInt 1000),
     (''max_output_bytes'', JInt (100 * 1024 * 1024))]"

definition creation_limits :: "budget_policy option \<Rightarrow> json" where
  "creation_limits policy =
     (case policy of
        None \<Rightarrow> JObj base_limits
      | Some p \<Rightarrow> JObj [(''wall_timeout_seconds'', JInt (8 * 60 * 60)), (''max_turns'', JInt (bp_max_turns p)),
          (''max_output_bytes'', JInt (100 * 1024 * 1024)), (''budget_policy'', policy_to_json p)])"

definition denied_builtin_tools :: "string list" where
  "denied_builtin_tools =
     [''Bash'', ''Edit'', ''Glob'', ''Grep'', ''Read'', ''WebFetch'', ''WebSearch'', ''Write'']"

definition task_snapshot :: "uuid \<Rightarrow> run_intent \<Rightarrow> resolved_task \<Rightarrow> creation_plan \<Rightarrow> json" where
  "task_snapshot task_id intent k plan =
     JObj [(creation_request_field, intent_to_json intent), (''runtime_policy'', JStr runtime_policy),
       (''task_id'', JStr (str_uuid task_id)), (''task_key'', JStr (rk_task_key k)),
       (''capability'', JStr (rk_capability k)), (''skill_version_id'', JStr (str_uuid (rk_skill_version_id k))),
       (''manifest_checksum'', JStr (rk_manifest_checksum k)),
       (''input_schema'', JStr (rk_input_schema_checksum k)), (''output_schema'', JStr (rk_output_schema_checksum k)),
       (''input_schema_checksum'', JStr (rk_input_schema_checksum k)),
       (''output_schema_checksum'', JStr (rk_output_schema_checksum k)),
       (''input_schema_json'', rk_input_schema k), (''output_schema_json'', rk_output_schema k),
       (''model_output_schema_json'', cp_model_output_schema plan), (''result_kind'', JStr ''OUTCOME_ENVELOPE''),
       (''task_output_schema'', rk_task_output_schema_checksum k),
       (''task_output_schema_checksum'', rk_task_output_schema_checksum k),
       (''task_output_schema_json'', rk_task_output_schema k), (''skill_snapshots'', JArr [rk_skill_snapshot k])]"

definition permission_snapshot ::
  "uuid \<Rightarrow> uuid \<Rightarrow> creation_authority \<Rightarrow> creation_plan \<Rightarrow> json" where
  "permission_snapshot project_id actor_id authority plan =
     JObj [(''mode'', JStr ''auto_read_only''), (''actor_id'', JStr (str_uuid actor_id)),
       (''actor_system_role'', JStr (ca_actor_system_role authority)),
       (''project_membership'', JStr (ca_project_membership authority)),
       (''execution_profile'', JStr (cp_execution_profile plan)),
       (''project_document_read'',
          JObj [(''version'', JStr ''v1''), (''project_id'', JStr (str_uuid project_id))]),
       (''resource_operations'', JArr (cp_resource_operations plan)),
       (''allowed_capabilities'', JArr (map JStr (cp_capabilities plan))),
       (''denied_builtin_tools'', JArr (map JStr denied_builtin_tools))]"

definition creation_command ::
  "digest128 \<Rightarrow> budget_policy option \<Rightarrow> run_intent \<Rightarrow> string \<Rightarrow> creation_authority \<Rightarrow> resolved_task \<Rightarrow>
   creation_plan \<Rightarrow> create_command" where
  "creation_command sha1 policy intent key authority k plan =
     (let task_id = derive_task_id sha1 (it_skill_version_id intent) (it_task_key intent) in
      \<lparr>cm_project_id = it_project_id intent, cm_task_id = task_id, cm_idempotency_key = key,
       cm_input_json = it_input_json intent, cm_task_snapshot_json = task_snapshot task_id intent k plan,
       cm_permission_snapshot_json =
         permission_snapshot (it_project_id intent) (it_actor_id intent) authority plan,
       cm_selected_sources_json = cp_selected_sources plan, cm_limits_snapshot_json = creation_limits policy,
       cm_trace_id = None, cm_skill_snapshots_json = [rk_skill_snapshot k], cm_budget_policy = policy\<rparr>)"

section \<open>The transaction\<close>

text \<open>
  \<open>sp_freeze\<close> gives the binding rows of the new run and the selected sources that name them; it is called
  when the plan binds anything.
\<close>

record creation_steps =
  sp_owner :: "(string \<times> string) option"
  sp_access :: bool
  sp_blueprint :: "unit res"
  sp_scheduling :: bool
  sp_features :: bool
  sp_policy :: "budget_policy option"
  sp_resolved :: resolved_task
  sp_plan :: "run_intent \<Rightarrow> db \<Rightarrow> creation_plan res"
  sp_freeze :: "uuid \<Rightarrow> db \<Rightarrow> (binding_row list \<times> json) res"

record task_request =
  tq_project_id :: uuid
  tq_skill_version_id :: uuid
  tq_task_key :: string
  tq_actor_id :: uuid
  tq_input_json :: json
  tq_sources :: json
  tq_auto_approve :: bool

definition task_run_intent :: "task_request \<Rightarrow> run_intent res" where
  "task_run_intent q =
     rethrow value_error TaskSourceSelectionError
       (mk_intent (tq_project_id q) (tq_skill_version_id q) (tq_task_key q) (tq_actor_id q) (tq_input_json q)
          (tq_sources q) (JBool (tq_auto_approve q)) (JBool (tq_auto_approve q)) (JBool (tq_auto_approve q)))"

text \<open>Entering the transaction: the request, the authority, and the verified consent.\<close>

definition enter_creation ::
  "digest \<Rightarrow> tz_database \<Rightarrow> time \<Rightarrow> creation_steps \<Rightarrow> claimed_schedule \<Rightarrow> task_request \<Rightarrow> string \<Rightarrow> schedule_store \<Rightarrow>
   (run_intent \<times> creation_authority) res" where
  "enter_creation sha tzdb now sp c q key st =
     ebind (task_run_intent q) (\<lambda>intent.
     ebind (authorize_creation sha tzdb now (sp_owner sp) (sp_access sp) c intent key st) (\<lambda>authority.
     ebind (raise_if (tq_auto_approve q \<and> \<not> ca_auto_approval_allowed authority) TaskSourceSelectionError) (\<lambda>_.
       Inr (intent, authority))))"

definition find_scheduled_replay ::
  "digest \<Rightarrow> digest128 \<Rightarrow> tz_database \<Rightarrow> clock \<Rightarrow> creation_steps \<Rightarrow> claimed_schedule \<Rightarrow> task_request \<Rightarrow> string \<Rightarrow>
   schedule_store \<Rightarrow> (created_run option \<times> schedule_store) res" where
  "find_scheduled_replay sha sha1 tzdb clk sp c q key st =
     ebind (enter_creation sha tzdb (clk 0) sp c q key st) (\<lambda>(intent, authority).
     ebind (find_task_run_replay sha sha1 intent key (sc_db st)) (\<lambda>replay.
     case replay of
       None \<Rightarrow> Inr (None, st)
     | Some run \<Rightarrow>
         ebind (complete_creation sha sha1 tzdb (\<lambda>n. clk (n + 1)) c run st) (\<lambda>st'. Inr (Some run, st'))))"

text \<open>
  Looking for the run of the same request again when the sources cannot be resolved: another transaction may
  have created it meanwhile.
\<close>

definition resolve_or_replay ::
  "digest \<Rightarrow> digest128 \<Rightarrow> creation_steps \<Rightarrow> run_intent \<Rightarrow> string \<Rightarrow> schedule_store \<Rightarrow> (created_run + creation_plan) res" where
  "resolve_or_replay sha sha1 sp intent key st =
     (case sp_plan sp intent (sc_db st) of
        Inr plan \<Rightarrow> Inr (Inr plan)
      | Inl e \<Rightarrow>
          if e \<noteq> TaskSourceSelectionError then Inl e
          else ebind (find_task_run_replay sha sha1 intent key (sc_db st)) (\<lambda>replay.
            case replay of None \<Rightarrow> Inl e | Some run \<Rightarrow> Inr (Inl run)))"

definition freeze_bindings :: "creation_steps \<Rightarrow> creation_plan \<Rightarrow> uuid \<Rightarrow> db \<Rightarrow> db res" where
  "freeze_bindings sp plan rid d =
     (if \<not> cp_binds plan then Inr d
      else ebind (sp_freeze sp rid d) (\<lambda>(rows, sources).
        ebind (replace_initial_selected_sources rid sources (d\<lparr>db_bindings := db_bindings d @ rows\<rparr>)) (\<lambda>(_, d').
          Inr d')))"

definition insert_scheduled_run ::
  "digest \<Rightarrow> digest128 \<Rightarrow> tz_database \<Rightarrow> clock \<Rightarrow> fresh \<Rightarrow> creation_steps \<Rightarrow> claimed_schedule \<Rightarrow> run_intent \<Rightarrow> string \<Rightarrow>
   creation_authority \<Rightarrow> creation_plan \<Rightarrow> schedule_store \<Rightarrow> (created_run \<times> schedule_store) res" where
  "insert_scheduled_run sha sha1 tzdb clk ids sp c intent key authority plan st =
     ebind (create_idempotent sha sha1 clk ids
              (creation_command sha1 (sp_policy sp) intent key authority (sp_resolved sp) plan) (sc_db st)) (\<lambda>(created, d).
     ebind (if cr_idempotent_replay created then Inr d else freeze_bindings sp plan (cr_run_id created) d) (\<lambda>d'.
     ebind (complete_creation sha sha1 tzdb (\<lambda>n. clk (n + 2)) c created (st\<lparr>sc_db := d'\<rparr>)) (\<lambda>st'.
       Inr (created, st'))))"

definition answer_replay ::
  "digest \<Rightarrow> digest128 \<Rightarrow> tz_database \<Rightarrow> clock \<Rightarrow> claimed_schedule \<Rightarrow> created_run \<Rightarrow> schedule_store \<Rightarrow>
   (created_run \<times> schedule_store) res" where
  "answer_replay sha sha1 tzdb clk c run st =
     ebind (complete_creation sha sha1 tzdb clk c run st) (\<lambda>st'. Inr (run, st'))"

definition creation_body ::
  "digest \<Rightarrow> digest128 \<Rightarrow> tz_database \<Rightarrow> clock \<Rightarrow> fresh \<Rightarrow> creation_steps \<Rightarrow> claimed_schedule \<Rightarrow> run_intent \<Rightarrow> string \<Rightarrow>
   creation_authority \<Rightarrow> schedule_store \<Rightarrow> (created_run \<times> schedule_store) res" where
  "creation_body sha sha1 tzdb clk ids sp c intent key authority st =
     ebind (find_task_run_replay sha sha1 intent key (sc_db st)) (\<lambda>replay.
     case replay of
       Some run \<Rightarrow> answer_replay sha sha1 tzdb clk c run st
     | None \<Rightarrow>
         ebind (before_create sha tzdb clk c st) (\<lambda>_.
         ebind (sp_blueprint sp) (\<lambda>_.
         ebind (raise_if (\<not> sp_scheduling sp) TaskSourceSelectionError) (\<lambda>_.
         ebind (raise_if (\<not> sp_features sp) TaskSourceSelectionError) (\<lambda>_.
         ebind (resolve_or_replay sha sha1 sp intent key st) (\<lambda>found.
         case found of
           Inl run \<Rightarrow> answer_replay sha sha1 tzdb (\<lambda>n. clk (n + 4)) c run st
         | Inr plan \<Rightarrow>
             insert_scheduled_run sha sha1 tzdb (\<lambda>n. clk (n + 4)) ids sp c intent key authority plan st))))))"

text \<open>When the task is no longer published, the claim is checked once more before the error leaves.\<close>

definition create_scheduled_run ::
  "digest \<Rightarrow> digest128 \<Rightarrow> tz_database \<Rightarrow> clock \<Rightarrow> fresh \<Rightarrow> creation_steps \<Rightarrow> claimed_schedule \<Rightarrow> task_request \<Rightarrow> string \<Rightarrow>
   schedule_store \<Rightarrow> (created_run \<times> schedule_store) res" where
  "create_scheduled_run sha sha1 tzdb clk ids sp c q key st =
     ebind (enter_creation sha tzdb (clk 0) sp c q key st) (\<lambda>(intent, authority).
     case creation_body sha sha1 tzdb (\<lambda>n. clk (n + 1)) ids sp c intent key authority st of
       Inl e \<Rightarrow>
         if e \<noteq> PublishedTaskNotFoundError then Inl e
         else ebind (authorize_creation sha tzdb (clk 10) (sp_owner sp) (sp_access sp) c intent key st) (\<lambda>_. Inl e)
     | Inr r \<Rightarrow> Inr r)"

end
