(* ===== verification/Schedule_Tick.thy ===== *)
theory Schedule_Tick
  imports Scheduled_Creation Schedule_Claiming
begin

text \<open>
  The tick of \<^verbatim>\<open>schedules/service.py\<close>: abandoned occurrences are taken over first, then due schedules are
  claimed, and every claim is fired. A tick is a sequence of transactions with other processes in between.

  \<open>tick_env\<close> gives, for the \<open>n\<close>-th transaction of the tick, its clock and fresh identifiers, the rows others
  hold locked, the token, what the other components answer (\<open>creation_steps\<close>, the creator that may still act,
  the resolved task), and the commands other processes commit before it. \<open>te_message\<close> is \<^verbatim>\<open>str(error)\<close>.
  Cancellation of the worker and the log lines are left out.
\<close>

section \<open>A worker between transactions\<close>

text \<open>The state is the number of the next transaction and the store. An exception keeps what is committed.\<close>

type_synonym 'a step = "nat \<times> schedule_store \<Rightarrow> 'a res \<times> nat \<times> schedule_store"

definition sreturn :: "'a \<Rightarrow> 'a step" where
  "sreturn x s = (Inr x, s)"

definition sraise :: "exn \<Rightarrow> 'a step" where
  "sraise e s = (Inl e, s)"

definition sbind :: "'a step \<Rightarrow> ('a \<Rightarrow> 'b step) \<Rightarrow> 'b step" where
  "sbind m f s = (case m s of (Inl e, s') \<Rightarrow> (Inl e, s') | (Inr x, s') \<Rightarrow> f x s')"

definition scatch :: "'a step \<Rightarrow> (exn \<Rightarrow> 'a step) \<Rightarrow> 'a step" where
  "scatch m h s = (case m s of (Inl e, s') \<Rightarrow> h e s' | (Inr x, s') \<Rightarrow> (Inr x, s'))"

text \<open>A step that depends on the number of the next transaction.\<close>

definition at_step :: "(nat \<Rightarrow> 'a step) \<Rightarrow> 'a step" where
  "at_step m s = m (fst s) s"

record tick_env =
  te_env :: schedule_env
  te_worker :: string
  te_message :: "exn \<Rightarrow> string"
  te_now :: "nat \<Rightarrow> time"
  te_clk :: "nat \<Rightarrow> clock"
  te_late :: "nat \<Rightarrow> clock"
  te_ids :: "nat \<Rightarrow> fresh"
  te_token :: "nat \<Rightarrow> string"
  te_busy :: "nat \<Rightarrow> uuid \<Rightarrow> bool"
  te_others :: "nat \<Rightarrow> schedule_command list"
  te_steps :: "nat \<Rightarrow> claimed_schedule \<Rightarrow> creation_steps"
  te_creator :: "nat \<Rightarrow> claimed_schedule \<Rightarrow> uuid option"
  te_resolve :: "nat \<Rightarrow> claimed_schedule \<Rightarrow> resolved_task res"

abbreviation te_sha :: "tick_env \<Rightarrow> digest" where "te_sha e \<equiv> env_sha (se_runs (te_env e))"
abbreviation te_sha1 :: "tick_env \<Rightarrow> digest128" where "te_sha1 e \<equiv> env_sha1 (se_runs (te_env e))"
abbreviation te_tzdb :: "tick_env \<Rightarrow> tz_database" where "te_tzdb e \<equiv> se_tzdb (te_env e)"

definition transact :: "tick_env \<Rightarrow> (nat \<Rightarrow> schedule_store \<Rightarrow> ('a \<times> schedule_store) res) \<Rightarrow> 'a step" where
  "transact env f s =
     (case s of (n, st) \<Rightarrow>
        let st' = schedule_all (te_env env) (te_others env n) st in
        case f n st' of Inl e \<Rightarrow> (Inl e, n + 1, st') | Inr (x, st'') \<Rightarrow> (Inr x, n + 1, st''))"

section \<open>Firing one claim\<close>

definition created_result :: "claimed_schedule \<Rightarrow> created_run \<Rightarrow> schedule_result" where
  "created_result c run =
     \<lparr>rt_schedule_id = cs_schedule_id c, rt_occurrence_at = cs_occurrence_at c,
      rt_outcome = Schedule_Plan.RUN_CREATED, rt_run_id = Some (cr_run_id run), rt_detail = None\<rparr>"

definition failed_result :: "claimed_schedule \<Rightarrow> string \<Rightarrow> schedule_result" where
  "failed_result c detail =
     \<lparr>rt_schedule_id = cs_schedule_id c, rt_occurrence_at = cs_occurrence_at c,
      rt_outcome = FAILED_PRECONDITION, rt_run_id = None, rt_detail = Some (take 500 detail)\<rparr>"

definition skipped_result :: "claimed_schedule \<Rightarrow> string \<Rightarrow> schedule_result" where
  "skipped_result c detail =
     \<lparr>rt_schedule_id = cs_schedule_id c, rt_occurrence_at = cs_occurrence_at c,
      rt_outcome = SKIPPED_OVERLAP, rt_run_id = None, rt_detail = Some detail\<rparr>"

definition scheduled_request :: "claimed_schedule \<Rightarrow> uuid \<Rightarrow> task_request" where
  "scheduled_request c actor =
     \<lparr>tq_project_id = cs_project_id c, tq_skill_version_id = cs_skill_version_id c, tq_task_key = cs_task_key c,
      tq_actor_id = actor, tq_input_json = cs_input_json c, tq_sources = cs_sources c,
      tq_auto_approve = cs_auto_approve c\<rparr>"

definition scheduled_key :: "claimed_schedule \<Rightarrow> string" where
  "scheduled_key c = schedule_idempotency_key (cs_schedule_id c) (cs_occurrence_at c)"

definition replay_failure :: "exn \<Rightarrow> bool" where
  "replay_failure e \<longleftrightarrow> e \<in> {TaskSourceSelectionError, IdempotencyConflictError, ScheduleOwnerUnavailableError}"

text \<open>\<^verbatim>\<open>find_replay()\<close> with its handler.\<close>

definition replay_result :: "tick_env \<Rightarrow> claimed_schedule \<Rightarrow> uuid \<Rightarrow> schedule_result option step" where
  "replay_result env c actor =
     scatch
       (sbind (transact env (\<lambda>n. find_scheduled_replay (te_sha env) (te_sha1 env) (te_tzdb env) (te_clk env n)
                (te_steps env n c) c (scheduled_request c actor) (scheduled_key c)))
         (\<lambda>r. sreturn (map_option (created_result c) r)))
       (\<lambda>e. if replay_failure e then sreturn (Some (failed_result c (te_message env e))) else sraise e)"

definition overlapping :: "tick_env \<Rightarrow> claimed_schedule \<Rightarrow> bool step" where
  "overlapping env c =
     transact env (\<lambda>n st.
       ebind (lock_claim (te_sha env) (te_tzdb env) c (te_clk env n 0) st) (\<lambda>(r, x).
       ebind (has_overlapping_run (te_sha env) (\<lambda>i. te_clk env n (i + 1)) x c st) (\<lambda>found. Inr (found, st))))"

definition or_replay :: "tick_env \<Rightarrow> claimed_schedule \<Rightarrow> uuid \<Rightarrow> schedule_result \<Rightarrow> schedule_result step" where
  "or_replay env c actor result =
     sbind (replay_result env c actor) (\<lambda>r. sreturn (case r of None \<Rightarrow> result | Some x \<Rightarrow> x))"

definition creation_failure :: "exn \<Rightarrow> bool" where
  "creation_failure e \<longleftrightarrow> replay_failure e \<or> e = PublishedTaskNotFoundError"

definition create_result :: "tick_env \<Rightarrow> claimed_schedule \<Rightarrow> uuid \<Rightarrow> resolved_task \<Rightarrow> schedule_result step" where
  "create_result env c actor resolved =
     scatch
       (sbind (transact env (\<lambda>n. create_scheduled_run (te_sha env) (te_sha1 env) (te_tzdb env) (te_clk env n) (te_ids env n)
                ((te_steps env n c)\<lparr>sp_resolved := resolved\<rparr>) c
                ((scheduled_request c actor)\<lparr>tq_skill_version_id := rk_skill_version_id resolved,
                   tq_task_key := rk_task_key resolved\<rparr>) (scheduled_key c)))
         (\<lambda>run. sreturn (created_result c run)))
       (\<lambda>e. if e = ScheduleOverlapError
            then sreturn (skipped_result c ''Another Run from this schedule is still active'')
            else if creation_failure e then sreturn (failed_result c (te_message env e)) else sraise e)"

definition resolve_and_create :: "tick_env \<Rightarrow> claimed_schedule \<Rightarrow> uuid \<Rightarrow> schedule_result step" where
  "resolve_and_create env c actor = at_step (\<lambda>n.
     case te_resolve env n c of
       Inl e \<Rightarrow>
         if e = PublishedTaskNotFoundError \<or> e = TaskInputInvalidError
         then or_replay env c actor (failed_result c (te_message env e)) else sraise e
     | Inr resolved \<Rightarrow> create_result env c actor resolved)"

definition create_for_claim :: "tick_env \<Rightarrow> claimed_schedule \<Rightarrow> schedule_result step" where
  "create_for_claim env c = at_step (\<lambda>n.
     case te_creator env n c of
       None \<Rightarrow> sreturn (failed_result c ''Schedule owner no longer has access to this project'')
     | Some actor \<Rightarrow>
         sbind (replay_result env c actor) (\<lambda>found.
           case found of
             Some r \<Rightarrow> sreturn r
           | None \<Rightarrow>
               sbind (overlapping env c) (\<lambda>overlap.
                 if overlap then or_replay env c actor (skipped_result c ''Previous Run is still non-terminal'')
                 else resolve_and_create env c actor)))"

definition fire :: "tick_env \<Rightarrow> claimed_schedule \<Rightarrow> schedule_result step" where
  "fire env c =
     sbind (create_for_claim env c) (\<lambda>r.
       if rt_outcome r = Schedule_Plan.RUN_CREATED then sreturn r
       else transact env (\<lambda>n. record_outcome (te_sha env) (te_sha1 env) (te_tzdb env) (te_clk env n) c r))"

definition unconfirmed :: "exn \<Rightarrow> bool" where
  "unconfirmed e \<longleftrightarrow> e \<in> {ScheduleClaimLostError, ScheduleOccurrenceConflictError} \<or>
     e \<in> {DBAPIError, IntegrityError, DatabaseTimeoutError, OSError, TimeoutError}"

definition try_fire :: "tick_env \<Rightarrow> claimed_schedule \<Rightarrow> schedule_result option step" where
  "try_fire env c =
     scatch (sbind (fire env c) (\<lambda>r. sreturn (Some r))) (\<lambda>e. if unconfirmed e then sreturn None else sraise e)"

section \<open>The tick\<close>

definition take_over :: "tick_env \<Rightarrow> claimed_schedule list step" where
  "take_over env = transact env (\<lambda>n. claim_recoverable (te_sha env) (te_tzdb env) (te_busy env n) (te_clk env n) (te_late env n)
     (te_now env n) 1 (te_worker env) (te_token env n) 60 default_schedule_max_attempts)"

text \<open>The loop \<^verbatim>\<open>while attempts < limit\<close>, with the attempts that are left; it returns those left over.\<close>

fun recover_loop :: "tick_env \<Rightarrow> nat \<Rightarrow> (nat \<times> schedule_result list) step" where
  "recover_loop env 0 = sreturn (0, [])"
| "recover_loop env (Suc k) =
     sbind (take_over env) (\<lambda>recovered.
       case recovered of
         [] \<Rightarrow> sreturn (Suc k, [])
       | c # cs \<Rightarrow>
           sbind (try_fire env c) (\<lambda>r.
           sbind (recover_loop env k) (\<lambda>(left, rs). sreturn (left, (case r of None \<Rightarrow> rs | Some x \<Rightarrow> x # rs)))))"

definition claim_record :: "tick_env \<Rightarrow> schedule_row \<Rightarrow> claimed_schedule option step" where
  "claim_record env r = transact env (\<lambda>n. claim_due (te_sha env) (te_tzdb env) (te_clk env n) (te_ids env n) r (te_now env n)
     (te_worker env) (te_token env n) 60)"

fun claim_loop :: "tick_env \<Rightarrow> schedule_row list \<Rightarrow> schedule_result list step" where
  "claim_loop env [] = sreturn []"
| "claim_loop env (r # rs) =
     sbind (claim_record env r) (\<lambda>claimed.
       case claimed of
         None \<Rightarrow> claim_loop env rs
       | Some c \<Rightarrow>
           sbind (try_fire env c) (\<lambda>result.
           sbind (claim_loop env rs) (\<lambda>results. sreturn (case result of None \<Rightarrow> results | Some x \<Rightarrow> x # results))))"

definition run_due_schedules :: "tick_env \<Rightarrow> int \<Rightarrow> schedule_result list step" where
  "run_due_schedules env limit =
     (if limit < 1 then sraise ValueError
      else sbind (recover_loop env (nat limit)) (\<lambda>(left, results).
        if left = 0 then sreturn results
        else sbind (transact env (\<lambda>n st. Inr (list_due (te_now env n) (int left) st, st))) (\<lambda>due.
             sbind (claim_loop env due) (\<lambda>claimed. sreturn (results @ claimed)))))"

text \<open>What a report counts.\<close>

definition outcome_count :: "schedule_outcome \<Rightarrow> schedule_result list \<Rightarrow> nat" where
  "outcome_count o' results = length (filter (\<lambda>r. rt_outcome r = o') results)"

end
