(* ===== verification/Schedule_Fire_Ops.thy ===== *)
theory Schedule_Fire_Ops
  imports Schedule_Tick
begin

text \<open>
  A scheduled creation keeps the tables sound and leaves its occurrence settled with the run it returns; and a
  small Hoare logic for the steps of a tick, whose triples say that every committed state is sound, that
  history is only extended, and what holds of the value that is returned.
\<close>

section \<open>The creation transaction\<close>

definition settled_as :: "uuid \<Rightarrow> schedule_result \<Rightarrow> schedule_store \<Rightarrow> bool" where
  "settled_as i result st \<longleftrightarrow>
     (\<exists>y \<in> set (sc_occurrences st). oc_id y = i \<and> oc_status y = OCC_SETTLED \<and> stored_result y = Inr result)"

lemma settled_as_stays: "store_le st st' \<Longrightarrow> settled_as i result st \<Longrightarrow> settled_as i result st'"
  unfolding settled_as_def using settled_stays by blast

lemma settled_as_unique:
  assumes "schedule_inv st" "settled_as i result st" "settled_as i result' st"
  shows "result' = result"
proof -
  obtain x y where "x \<in> set (sc_occurrences st)" "y \<in> set (sc_occurrences st)" "oc_id x = oc_id y"
    "stored_result x = Inr result" "stored_result y = Inr result'"
    using assms(2,3) by (auto simp: settled_as_def)
  moreover from this have "x = y" using assms(1) by (auto simp: schedule_inv_def dest: distinct_key_eq)
  ultimately show ?thesis by simp
qed

lemma record_outcome_settles:
  assumes "schedule_inv st" "record_outcome sha sha1 tzdb clk c result st = Inr (res, st')"
  shows "store_safe st st' \<and> res = result \<and> settled_as (cs_occurrence_id c) result st'"
proof -
  obtain r x y where "lock_claim sha tzdb c (clk 0) st = Inr (r, x)" and y: "y \<in> set (sc_occurrences st')"
    "occurrence_request y = occurrence_request x" "oc_status y = OCC_SETTLED" "stored_result y = Inr result"
    and res: "res = result"
    using record_outcome_Inr [OF assms] by metis
  then have "oc_id y = cs_occurrence_id c"
    by (auto simp: lock_claim_Inr occurrence_request_def dest: find_occurrence_Some)
  then show ?thesis using y res record_outcome_safe [OF assms(2)] by (auto simp: settled_as_def)
qed

lemma complete_creation_settles:
  assumes "schedule_inv st" "complete_creation sha sha1 tzdb clk c run st = Inr st'"
  shows "store_safe st st' \<and> settled_as (cs_occurrence_id c) (created_result c run) st'"
  using assms(2) record_outcome_settles [OF assms(1)]
  by (auto simp: complete_creation_def ebind_Inr_iff created_result_def)

lemma freeze_bindings_safe:
  assumes "freeze_bindings sp plan rid d = Inr d'"
  shows "safe d d'"
proof -
  have bind: "safe d (d\<lparr>db_bindings := rows\<rparr>)" for rows
    by (rule safe_other) (simp_all add: same_core_def)
  show ?thesis
    using assms
    by (auto simp: freeze_bindings_def ebind_Inr_iff split: if_splits
        intro: safe_trans [OF bind replace_initial_selected_sources_safe])
qed

lemma insert_scheduled_run_settles:
  assumes inv: "schedule_inv st"
    and run: "insert_scheduled_run sha sha1 tzdb clk ids sp c intent key authority plan st = Inr (run, st')"
  shows "store_safe st st' \<and> settled_as (cs_occurrence_id c) (created_result c run) st'"
proof -
  obtain d d' where create: "create_idempotent sha sha1 clk ids
      (creation_command sha1 (sp_policy sp) intent key authority (sp_resolved sp) plan) (sc_db st) = Inr (run, d)"
    and bind: "(if cr_idempotent_replay run then Inr d else freeze_bindings sp plan (cr_run_id run) d) = Inr d'"
    and st': "complete_creation sha sha1 tzdb (\<lambda>n. clk (n + 2)) c run (st\<lparr>sc_db := d'\<rparr>) = Inr st'"
    using run by (auto simp: insert_scheduled_run_def ebind_Inr_iff)
  have d: "safe (sc_db st) d" "safe d d'"
    using create_idempotent_safe [OF create] bind by (auto split: if_splits dest: freeze_bindings_safe)
  have "store_safe st (st\<lparr>sc_db := d'\<rparr>)" by (rule runs_changed_safe [OF safe_trans [OF d]])
  with inv complete_creation_settles [OF _ st'] show ?thesis
    unfolding store_safe_def using store_le_trans by blast
qed

lemma create_scheduled_run_settles:
  assumes inv: "schedule_inv st" and run: "create_scheduled_run sha sha1 tzdb clk ids sp c q key st = Inr (run, st')"
  shows "store_safe st st' \<and> settled_as (cs_occurrence_id c) (created_result c run) st'"
proof -
  obtain intent authority where enter: "enter_creation sha tzdb (clk 0) sp c q key st = Inr (intent, authority)"
    using run by (auto simp: create_scheduled_run_def ebind_Inr_iff)
  have body: "creation_body sha sha1 tzdb (\<lambda>n. clk (n + 1)) ids sp c intent key authority st = Inr (run, st')"
    using run enter by (auto simp: create_scheduled_run_def ebind_Inr_iff split: sum.splits if_splits)
  have answer: "store_safe st st' \<and> settled_as (cs_occurrence_id c) (created_result c run) st'"
    if "answer_replay sha sha1 tzdb clk' c run' st = Inr (run, st')" for clk' run'
    using that complete_creation_settles [OF inv] by (auto simp: answer_replay_def ebind_Inr_iff)
  obtain replay where replay: "find_task_run_replay sha sha1 intent key (sc_db st) = Inr replay"
    using body by (auto simp: creation_body_def ebind_Inr_iff)
  show ?thesis
  proof (cases replay)
    case (Some run')
    then have "answer_replay sha sha1 tzdb (\<lambda>n. clk (n + 1)) c run' st = Inr (run, st')"
      using body replay by (simp add: creation_body_def)
    then show ?thesis by (rule answer)
  next
    case None
    then obtain choice where choice: "resolve_or_replay sha sha1 sp intent key st = Inr choice"
      using body replay by (auto simp: creation_body_def ebind_Inr_iff)
    show ?thesis
    proof (cases choice)
      case (Inl run')
      then have "answer_replay sha sha1 tzdb (\<lambda>n. clk (n + 4 + 1)) c run' st = Inr (run, st')"
        using body replay None choice by (auto simp: creation_body_def ebind_Inr_iff)
      then show ?thesis by (rule answer)
    next
      case (Inr plan)
      then have "insert_scheduled_run sha sha1 tzdb (\<lambda>n. clk (n + 4 + 1)) ids sp c intent key authority plan st = Inr (run, st')"
        using body replay None choice by (auto simp: creation_body_def ebind_Inr_iff)
      then show ?thesis by (rule insert_scheduled_run_settles [OF inv])
    qed
  qed
qed

lemma find_scheduled_replay_settles:
  assumes inv: "schedule_inv st" and run: "find_scheduled_replay sha sha1 tzdb clk sp c q key st = Inr (got, st')"
  shows "store_safe st st' \<and> (\<forall>r \<in> set_option got. settled_as (cs_occurrence_id c) (created_result c r) st')"
  using run complete_creation_settles [OF inv]
  by (auto simp: find_scheduled_replay_def ebind_Inr_iff split: option.splits)

section \<open>Triples\<close>

definition hoare :: "(schedule_store \<Rightarrow> bool) \<Rightarrow> 'a step \<Rightarrow> ('a \<Rightarrow> schedule_store \<Rightarrow> bool) \<Rightarrow> bool" where
  "hoare P m Q \<longleftrightarrow>
     (\<forall>n st. schedule_inv st \<and> P st \<longrightarrow>
        (case m (n, st) of (r, n', st') \<Rightarrow> schedule_inv st' \<and> store_le st st' \<and> (\<forall>x. r = Inr x \<longrightarrow> Q x st')))"

definition stable :: "(schedule_store \<Rightarrow> bool) \<Rightarrow> bool" where
  "stable P \<longleftrightarrow> (\<forall>st st'. store_le st st' \<longrightarrow> P st \<longrightarrow> P st')"

lemma hoareD:
  assumes "hoare P m Q" "schedule_inv st" "P st" "m (n, st) = (r, n', st')"
  shows "schedule_inv st'" "store_le st st'" "r = Inr x \<Longrightarrow> Q x st'"
  using assms unfolding hoare_def by (metis (mono_tags, lifting) case_prod_conv)+

lemma hoareI:
  assumes "\<And>n st r n' st'. schedule_inv st \<Longrightarrow> P st \<Longrightarrow> m (n, st) = (r, n', st') \<Longrightarrow>
    schedule_inv st' \<and> store_le st st' \<and> (\<forall>x. r = Inr x \<longrightarrow> Q x st')"
  shows "hoare P m Q"
  unfolding hoare_def using assms by (auto split: prod.split)

lemma hoare_return: "(\<And>st. P st \<Longrightarrow> Q x st) \<Longrightarrow> hoare P (sreturn x) Q"
  by (auto simp: hoare_def sreturn_def store_le_refl)

lemma hoare_raise: "hoare P (sraise e) Q"
  by (auto simp: hoare_def sraise_def store_le_refl)

lemma hoare_bind:
  assumes "hoare P m R" "\<And>x. hoare (R x) (f x) Q"
  shows "hoare P (sbind m f) Q"
proof (rule hoareI)
  fix n st r n' st'
  assume st: "schedule_inv st" "P st" and run: "sbind m f (n, st) = (r, n', st')"
  obtain u k st1 where m: "m (n, st) = (u, k, st1)" by (cases "m (n, st)") auto
  note h = hoareD [OF assms(1) st m]
  show "schedule_inv st' \<and> store_le st st' \<and> (\<forall>x. r = Inr x \<longrightarrow> Q x st')"
  proof (cases u)
    case (Inl e)
    then show ?thesis using run m h by (auto simp: sbind_def)
  next
    case (Inr x)
    then have "f x (k, st1) = (r, n', st')" using run m by (simp add: sbind_def)
    then show ?thesis using hoareD [OF assms(2) h(1) h(3) [OF Inr]] h(2) store_le_trans by blast
  qed
qed

lemma hoare_catch:
  assumes "hoare P m Q" "\<And>e. hoare (\<lambda>st. True) (h e) Q"
  shows "hoare P (scatch m h) Q"
proof (rule hoareI)
  fix n st r n' st'
  assume st: "schedule_inv st" "P st" and run: "scatch m h (n, st) = (r, n', st')"
  obtain u k st1 where m: "m (n, st) = (u, k, st1)" by (cases "m (n, st)") auto
  note f = hoareD [OF assms(1) st m]
  show "schedule_inv st' \<and> store_le st st' \<and> (\<forall>x. r = Inr x \<longrightarrow> Q x st')"
  proof (cases u)
    case (Inl e)
    then have "h e (k, st1) = (r, n', st')" using run m by (simp add: scatch_def)
    then show ?thesis using hoareD [OF assms(2) f(1) TrueI] f(2) store_le_trans by blast
  next
    case (Inr x)
    then show ?thesis using run m f by (auto simp: scatch_def)
  qed
qed

lemma hoare_transact:
  assumes "stable P"
    and "\<And>n st x st'. schedule_inv st \<Longrightarrow> P st \<Longrightarrow> f n st = Inr (x, st') \<Longrightarrow> store_safe st st' \<and> Q x st'"
  shows "hoare P (transact env f) Q"
proof (rule hoareI)
  fix n st r n' st'
  assume st: "schedule_inv st" "P st" and run: "transact env f (n, st) = (r, n', st')"
  let ?u = "schedule_all (te_env env) (te_others env n) st"
  have u: "schedule_inv ?u" "store_le st ?u" using schedule_all_inv [OF st(1)] schedule_all_le [OF st(1)] by simp_all
  then have "P ?u" using assms(1) st(2) unfolding stable_def by blast
  show "schedule_inv st' \<and> store_le st st' \<and> (\<forall>x. r = Inr x \<longrightarrow> Q x st')"
  proof (cases "f n ?u")
    case (Inl e)
    then show ?thesis using run u by (auto simp: transact_def Let_def)
  next
    case (Inr p)
    obtain x st2 where p: "p = (x, st2)" by (cases p)
    have "store_safe ?u st2" "Q x st2" using assms(2) [OF u(1) \<open>P ?u\<close> Inr [unfolded p]] by simp_all
    moreover have "r = Inr x" "st' = st2" using run Inr p by (auto simp: transact_def Let_def)
    ultimately show ?thesis using u store_le_trans unfolding store_safe_def by blast
  qed
qed

lemma hoare_at_step: "(\<And>n. hoare P (m n) Q) \<Longrightarrow> hoare P (at_step m) Q"
  by (simp add: hoare_def at_step_def)

lemma hoare_conseq:
  "hoare P m Q \<Longrightarrow> (\<And>st. P' st \<Longrightarrow> P st) \<Longrightarrow> (\<And>x st. Q x st \<Longrightarrow> Q' x st) \<Longrightarrow> hoare P' m Q'"
  unfolding hoare_def by (fastforce split: prod.splits)

lemma hoare_frame:
  assumes "hoare P m Q" "stable F"
  shows "hoare (\<lambda>st. P st \<and> F st) m (\<lambda>x st. Q x st \<and> F st)"
  using assms unfolding hoare_def stable_def by (fastforce split: prod.splits)

lemma hoare_bind_frame:
  assumes "hoare (\<lambda>st. True) m R" "stable F" "\<And>x. hoare (\<lambda>st. R x st \<and> F st) (f x) Q"
  shows "hoare F (sbind m f) Q"
  by (rule hoare_bind [OF _ assms(3)], rule hoare_conseq [OF hoare_frame [OF assms(1,2)]]) simp_all

section \<open>The steps of the tick\<close>

definition reported :: "schedule_result \<Rightarrow> schedule_store \<Rightarrow> bool" where
  "reported r st \<longleftrightarrow> (\<exists>i. settled_as i r st)"

lemma stable_rules: "stable (\<lambda>st. True)" "stable (reported r)" "stable (\<lambda>st. \<forall>r \<in> set rs. reported r st)"
  unfolding stable_def reported_def using settled_as_stays by blast+

abbreviation if_created :: "schedule_result \<Rightarrow> schedule_store \<Rightarrow> bool" where
  "if_created r st \<equiv> rt_outcome r = Schedule_Plan.RUN_CREATED \<longrightarrow> reported r st"

lemma hoare_replay_result:
  "hoare (\<lambda>st. True) (replay_result env c actor) (\<lambda>x st. \<forall>r \<in> set_option x. if_created r st)"
  unfolding replay_result_def
proof (rule hoare_catch [OF hoare_bind])
  show "hoare (\<lambda>st. True) (transact env (\<lambda>n. find_scheduled_replay (te_sha env) (te_sha1 env) (te_tzdb env) (te_clk env n)
      (te_steps env n c) c (scheduled_request c actor) (scheduled_key c)))
    (\<lambda>x st. \<forall>r \<in> set_option x. reported (created_result c r) st)"
    by (rule hoare_transact [OF stable_rules(1)])
      (auto simp: reported_def dest!: find_scheduled_replay_settles)
qed (auto intro!: hoare_return hoare_raise simp: failed_result_def)

lemma hoare_or_replay:
  assumes "rt_outcome result \<noteq> Schedule_Plan.RUN_CREATED"
  shows "hoare (\<lambda>st. True) (or_replay env c actor result) if_created"
  unfolding or_replay_def
  by (rule hoare_bind [OF hoare_replay_result]) (use assms in \<open>auto intro!: hoare_return split: option.split\<close>)

lemma hoare_create_result: "hoare (\<lambda>st. True) (create_result env c actor resolved) if_created"
  unfolding create_result_def
proof (rule hoare_catch [OF hoare_bind])
  show "hoare (\<lambda>st. True) (transact env (\<lambda>n. create_scheduled_run (te_sha env) (te_sha1 env) (te_tzdb env) (te_clk env n)
      (te_ids env n) ((te_steps env n c)\<lparr>sp_resolved := resolved\<rparr>) c
      ((scheduled_request c actor)\<lparr>tq_skill_version_id := rk_skill_version_id resolved,
         tq_task_key := rk_task_key resolved\<rparr>) (scheduled_key c)))
    (\<lambda>run st. reported (created_result c run) st)"
    by (rule hoare_transact [OF stable_rules(1)])
      (auto simp: reported_def dest!: create_scheduled_run_settles)
qed (auto intro!: hoare_return hoare_raise simp: failed_result_def skipped_result_def)

lemma hoare_overlapping: "hoare (\<lambda>st. True) (overlapping env c) (\<lambda>x st. True)"
  unfolding overlapping_def by (rule hoare_transact [OF stable_rules(1)]) (auto simp: ebind_Inr_iff)

lemma hoare_resolve_and_create: "hoare (\<lambda>st. True) (resolve_and_create env c actor) if_created"
  unfolding resolve_and_create_def
  by (rule hoare_at_step) (auto split: sum.split intro!: hoare_raise hoare_or_replay hoare_create_result simp: failed_result_def)

lemma hoare_create_for_claim: "hoare (\<lambda>st. True) (create_for_claim env c) if_created"
  unfolding create_for_claim_def
proof (rule hoare_at_step)
  fix n
  have "hoare (\<lambda>st. True) (sbind (overlapping env c) (\<lambda>overlap.
      if overlap then or_replay env c actor (skipped_result c ''Previous Run is still non-terminal'')
      else resolve_and_create env c actor)) if_created" for actor
    by (rule hoare_bind [OF hoare_overlapping]) (simp add: hoare_resolve_and_create hoare_or_replay skipped_result_def)
  then have rest: "hoare P (sbind (overlapping env c) (\<lambda>overlap.
      if overlap then or_replay env c actor (skipped_result c ''Previous Run is still non-terminal'')
      else resolve_and_create env c actor)) if_created" for P actor by (rule hoare_conseq) simp_all
  show "hoare (\<lambda>st. True) (case te_creator env n c of
      None \<Rightarrow> sreturn (failed_result c ''Schedule owner no longer has access to this project'')
    | Some actor \<Rightarrow> sbind (replay_result env c actor) (\<lambda>got. case got of Some r \<Rightarrow> sreturn r
        | None \<Rightarrow> sbind (overlapping env c) (\<lambda>overlap.
            if overlap then or_replay env c actor (skipped_result c ''Previous Run is still non-terminal'')
            else resolve_and_create env c actor))) if_created"
    by (cases "te_creator env n c")
      (auto split: option.split intro!: hoare_return hoare_bind [OF hoare_replay_result] rest simp: failed_result_def)
qed

lemma hoare_fire: "hoare (\<lambda>st. True) (fire env c) reported"
  unfolding fire_def
proof (rule hoare_bind [OF hoare_create_for_claim])
  fix r
  have "hoare (\<lambda>st. True) (transact env (\<lambda>n. record_outcome (te_sha env) (te_sha1 env) (te_tzdb env) (te_clk env n) c r)) reported"
    by (rule hoare_transact [OF stable_rules(1)]) (auto simp: reported_def dest!: record_outcome_settles)
  then show "hoare (if_created r) (if rt_outcome r = Schedule_Plan.RUN_CREATED then sreturn r
      else transact env (\<lambda>n. record_outcome (te_sha env) (te_sha1 env) (te_tzdb env) (te_clk env n) c r)) reported"
    by (auto intro: hoare_return hoare_conseq)
qed

lemma hoare_try_fire: "hoare (\<lambda>st. True) (try_fire env c) (\<lambda>x st. \<forall>r \<in> set_option x. reported r st)"
  unfolding try_fire_def
  by (rule hoare_catch [OF hoare_bind [OF hoare_fire]]) (auto intro!: hoare_return hoare_raise)

definition reports :: "nat \<Rightarrow> schedule_result list \<Rightarrow> schedule_store \<Rightarrow> bool" where
  "reports k rs st \<longleftrightarrow> length rs \<le> k \<and> (\<forall>r \<in> set rs. reported r st)"

lemma stable_reports: "stable (reports k rs)" "stable (\<lambda>st. \<forall>r \<in> set_option x. reported r st)"
  using stable_rules(2,3) unfolding stable_def reports_def by blast+

lemma hoare_take_over: "hoare (\<lambda>st. True) (take_over env) (\<lambda>x st. True)"
  unfolding take_over_def by (rule hoare_transact [OF stable_rules(1)]) (auto intro: claim_recoverable_safe)

lemma hoare_claim_record: "hoare (\<lambda>st. True) (claim_record env r) (\<lambda>x st. True)"
  unfolding claim_record_def by (rule hoare_transact [OF stable_rules(1)]) (auto intro: claim_due_safe)

text \<open>The result of one firing, put before the results of the rest of a loop.\<close>

lemma reports_Cons:
  "reports k rs st \<Longrightarrow> \<forall>r \<in> set_option x. reported r st \<Longrightarrow>
     reports (Suc k) (case x of None \<Rightarrow> rs | Some r \<Rightarrow> r # rs) st"
  by (auto simp: reports_def split: option.split)

lemma hoare_recover_loop:
  "hoare (\<lambda>st. True) (recover_loop env k) (\<lambda>(left, rs) st. left \<le> k \<and> reports (k - left) rs st)"
proof (induction k)
  case 0
  show ?case by (auto intro: hoare_return simp: reports_def)
next
  case (Suc k)
  have fired: "hoare (\<lambda>st. True) (sbind (try_fire env c) (\<lambda>x. sbind (recover_loop env k) (\<lambda>(left, rs).
      sreturn (left, (case x of None \<Rightarrow> rs | Some r \<Rightarrow> r # rs)))))
    (\<lambda>(left, rs) st. left \<le> Suc k \<and> reports (Suc k - left) rs st)" for c
    by (rule hoare_bind [OF hoare_try_fire], rule hoare_bind_frame [OF Suc.IH stable_reports(2)])
      (auto intro!: hoare_return reports_Cons simp: Suc_diff_le)
  show ?case
    unfolding recover_loop.simps
  proof (rule hoare_bind [OF hoare_take_over])
    fix recovered
    show "hoare (\<lambda>st. True) (case recovered of [] \<Rightarrow> sreturn (Suc k, []) | c # cs \<Rightarrow> sbind (try_fire env c) (\<lambda>x.
        sbind (recover_loop env k) (\<lambda>(left, rs). sreturn (left, (case x of None \<Rightarrow> rs | Some r \<Rightarrow> r # rs)))))
      (\<lambda>(left, rs) st. left \<le> Suc k \<and> reports (Suc k - left) rs st)"
      using fired by (cases recovered) (auto intro!: hoare_return simp: reports_def)
  qed
qed

lemma hoare_claim_loop: "hoare (\<lambda>st. True) (claim_loop env rows) (reports (length rows))"
proof (induction rows)
  case Nil
  show ?case by (auto intro: hoare_return simp: reports_def)
next
  case (Cons r rows)
  have fired: "hoare (\<lambda>st. True) (sbind (try_fire env c) (\<lambda>x. sbind (claim_loop env rows) (\<lambda>rs.
      sreturn (case x of None \<Rightarrow> rs | Some r \<Rightarrow> r # rs)))) (reports (Suc (length rows)))" for c
    by (rule hoare_bind [OF hoare_try_fire], rule hoare_bind_frame [OF Cons.IH stable_reports(2)])
      (auto intro!: hoare_return reports_Cons)
  have later: "hoare (\<lambda>st. True) (claim_loop env rows) (reports (Suc (length rows)))"
    by (rule hoare_conseq [OF Cons.IH]) (auto simp: reports_def)
  show ?case
    unfolding claim_loop.simps
  proof (rule hoare_bind [OF hoare_claim_record])
    fix claimed
    show "hoare (\<lambda>st. True) (case claimed of None \<Rightarrow> claim_loop env rows | Some c \<Rightarrow> sbind (try_fire env c) (\<lambda>x.
        sbind (claim_loop env rows) (\<lambda>rs. sreturn (case x of None \<Rightarrow> rs | Some r \<Rightarrow> r # rs))))
      (reports (length (r # rows)))"
      using fired later by (cases claimed) simp_all
  qed
qed

lemma hoare_run_due_schedules: "hoare (\<lambda>st. True) (run_due_schedules env limit) (reports (nat limit))"
proof (cases "limit < 1")
  case True
  then show ?thesis by (simp add: run_due_schedules_def hoare_raise)
next
  case False
  have due: "hoare (\<lambda>st. True) (transact env (\<lambda>n st. Inr (list_due (te_now env n) (int left) st, st)))
      (\<lambda>rows st. length rows \<le> left)" for left
    by (rule hoare_transact [OF stable_rules(1)]) (auto simp: list_due_def)
  have claims: "hoare (\<lambda>st. length rows \<le> left \<and> reports k rs st)
      (sbind (claim_loop env rows) (\<lambda>rs'. sreturn (rs @ rs'))) (reports (k + left))" for rows left k rs
  proof (cases "length rows \<le> left")
    case True
    have "hoare (reports k rs) (sbind (claim_loop env rows) (\<lambda>rs'. sreturn (rs @ rs'))) (reports (k + left))"
      by (rule hoare_bind_frame [OF hoare_claim_loop stable_reports(1)])
        (use True in \<open>auto intro!: hoare_return simp: reports_def\<close>)
    then show ?thesis by (rule hoare_conseq) simp_all
  qed (simp add: hoare_def)
  have rest: "hoare (\<lambda>st. left \<le> nat limit \<and> reports (nat limit - left) rs st)
      (if left = 0 then sreturn rs else sbind (transact env (\<lambda>n st. Inr (list_due (te_now env n) (int left) st, st)))
        (\<lambda>rows. sbind (claim_loop env rows) (\<lambda>rs'. sreturn (rs @ rs')))) (reports (nat limit))" for left rs
  proof (cases "left \<le> nat limit \<and> left \<noteq> 0")
    case True
    have "hoare (reports (nat limit - left) rs) (sbind (transact env (\<lambda>n st. Inr (list_due (te_now env n) (int left) st, st)))
        (\<lambda>rows. sbind (claim_loop env rows) (\<lambda>rs'. sreturn (rs @ rs')))) (reports (nat limit - left + left))"
      by (rule hoare_bind_frame [OF due stable_reports(1) claims])
    then show ?thesis using True by (auto intro: hoare_conseq)
  next
    case False
    then show ?thesis by (auto simp: hoare_def sreturn_def store_le_refl)
  qed
  have "hoare (\<lambda>st. True) (sbind (recover_loop env (nat limit)) (\<lambda>(left, rs).
      if left = 0 then sreturn rs else sbind (transact env (\<lambda>n st. Inr (list_due (te_now env n) (int left) st, st)))
        (\<lambda>rows. sbind (claim_loop env rows) (\<lambda>rs'. sreturn (rs @ rs'))))) (reports (nat limit))"
  proof (rule hoare_bind [OF hoare_recover_loop])
    fix p :: "nat \<times> schedule_result list"
    obtain left rs where p: "p = (left, rs)" by (cases p)
    show "hoare (case p of (left, rs) \<Rightarrow> \<lambda>st. left \<le> nat limit \<and> reports (nat limit - left) rs st)
      (case p of (left, rs) \<Rightarrow> if left = 0 then sreturn rs
        else sbind (transact env (\<lambda>n st. Inr (list_due (te_now env n) (int left) st, st)))
          (\<lambda>rows. sbind (claim_loop env rows) (\<lambda>rs'. sreturn (rs @ rs')))) (reports (nat limit))"
      unfolding p prod.case by (rule rest)
  qed
  then show ?thesis using False by (simp add: run_due_schedules_def)
qed

end
