(* ===== verification/Schedule_Fire_Claims.thy ===== *)
theory Schedule_Fire_Claims
  imports Schedule_Fire_Ops Schedule_Store_Claims
begin

text \<open>
  The properties of firing: a tick reports only what it recorded, an occurrence starts one run however often
  it is fired, and no run is started beside another one of the same schedule.
\<close>

section \<open>The tick\<close>

text \<open>
  C12: a tick reports exactly what is recorded. Whatever other workers and users commit between the
  transactions of a tick, and whether the tick ends or is ended by an exception, every committed state is sound
  and history is only extended; and when it ends it reports at most \<open>limit\<close> results, each the recorded
  settlement of some occurrence: a run it reports as created is the run the occurrence names.
\<close>

theorem tick_reports_recorded:
  assumes "schedule_inv st"
  shows "case run_due_schedules env limit (n, st) of (answer, n', st') \<Rightarrow>
    schedule_inv st' \<and> store_le st st' \<and>
    (case answer of Inl e \<Rightarrow> True | Inr results \<Rightarrow> length results \<le> nat limit \<and>
       list_all (\<lambda>r. \<exists>x \<in> set (sc_occurrences st'). oc_status x = OCC_SETTLED \<and> stored_result x = Inr r) results)"
proof -
  obtain answer n' st' where run: "run_due_schedules env limit (n, st) = (answer, n', st')"
    by (cases "run_due_schedules env limit (n, st)") auto
  note h = hoareD [OF hoare_run_due_schedules assms TrueI run]
  show ?thesis
    using h by (cases answer) (auto simp: run reports_def reported_def settled_as_def list_all_iff)
qed

definition once_tick :: tick_env where
  "once_tick = \<lparr>te_env = once_env, te_worker = ''w'', te_message = (\<lambda>e. ''error''), te_now = (\<lambda>n. 3600000000),
     te_clk = (\<lambda>n i. 3600000000), te_late = (\<lambda>n i. 3600000000), te_ids = (\<lambda>n i. 52), te_token = (\<lambda>n. ''token''),
     te_busy = (\<lambda>n i. False), te_others = (\<lambda>n. []), te_steps = (\<lambda>n c. undefined), te_creator = (\<lambda>n c. None),
     te_resolve = (\<lambda>n c. Inl TaskInputInvalidError)\<rparr>"

lemma tick_reports_recorded_witness:
  "case run_due_schedules once_tick 5 (0, waiting_store) of (answer, n', st') \<Rightarrow>
    schedule_inv st' \<and> store_le waiting_store st'"
  using tick_reports_recorded [OF claimed_store_inv(2), where env = once_tick and limit = 5 and n = 0] by (auto split: prod.splits)

section \<open>One run for an occurrence\<close>

text \<open>
  C11: an occurrence starts one run. Once a scheduled creation has committed, then after any later
  transactions every other creation for the same occurrence, under any claim, either fails and leaves
  everything as it was, or answers with the same run; and the occurrence names that run. So a worker that
  died after its commit, and the one that takes over, start one run together.
\<close>

theorem occurrence_fired_once:
  assumes "schedule_inv st" "create_scheduled_run sha sha1 tzdb clk ids sp c q key st = Inr (run, st1)"
    and "cs_occurrence_id c' = cs_occurrence_id c"
  shows "(\<exists>x \<in> set (sc_occurrences (schedule_all env cs st1)). oc_id x = cs_occurrence_id c \<and>
      oc_status x = OCC_SETTLED \<and> oc_run_id x = Some (cr_run_id run)) \<and>
    (case create_scheduled_run sha' sha1' tzdb' clk' ids' sp' c' q' key' (schedule_all env cs st1) of
       Inl e \<Rightarrow> True
     | Inr (run', st2) \<Rightarrow> cr_run_id run' = cr_run_id run \<and>
         list_all (\<lambda>x. oc_id x \<noteq> cs_occurrence_id c \<or> oc_run_id x = Some (cr_run_id run)) (sc_occurrences st2))"
proof -
  let ?u = "schedule_all env cs st1"
  have first: "store_safe st st1" "settled_as (cs_occurrence_id c) (created_result c run) st1"
    using create_scheduled_run_settles [OF assms(1,2)] by simp_all
  have inv: "schedule_inv st1" using first(1) assms(1) by (simp add: store_safe_def)
  have u: "schedule_inv ?u" "settled_as (cs_occurrence_id c) (created_result c run) ?u"
    using schedule_all_inv [OF inv] settled_as_stays [OF schedule_all_le [OF inv] first(2)] by simp_all
  have named: "oc_run_id x = Some (cr_run_id run)" if "stored_result x = Inr (created_result c run)" for x
    using that by (auto simp: stored_result_def created_result_def ebind_Inr_iff Let_def split: option.splits)
  have same: "cr_run_id run' = cr_run_id run \<and>
      list_all (\<lambda>x. oc_id x \<noteq> cs_occurrence_id c \<or> oc_run_id x = Some (cr_run_id run)) (sc_occurrences st2)"
    if again: "create_scheduled_run sha' sha1' tzdb' clk' ids' sp' c' q' key' ?u = Inr (run', st2)" for run' st2
  proof -
    have second: "store_safe ?u st2" "settled_as (cs_occurrence_id c) (created_result c' run') st2"
      using create_scheduled_run_settles [OF u(1) again] assms(3) by simp_all
    then have st2: "schedule_inv st2" "settled_as (cs_occurrence_id c) (created_result c run) st2"
      using u settled_as_stays by (auto simp: store_safe_def)
    then obtain x where x: "x \<in> set (sc_occurrences st2)" "oc_id x = cs_occurrence_id c"
      "oc_run_id x = Some (cr_run_id run)" using named unfolding settled_as_def by blast
    have "distinct (map oc_id (sc_occurrences st2))" using st2(1) by (simp add: schedule_inv_def)
    then have "\<forall>z \<in> set (sc_occurrences st2). oc_id z \<noteq> cs_occurrence_id c \<or> oc_run_id z = Some (cr_run_id run)"
      using x by (metis distinct_key_eq)
    moreover have "created_result c' run' = created_result c run" by (rule settled_as_unique [OF st2 second(2)])
    then have "cr_run_id run' = cr_run_id run" by (simp add: created_result_def)
    ultimately show ?thesis by (simp only: list_all_iff simp_thms)
  qed
  moreover have "\<exists>x \<in> set (sc_occurrences ?u). oc_id x = cs_occurrence_id c \<and>
      oc_status x = OCC_SETTLED \<and> oc_run_id x = Some (cr_run_id run)"
    using u(2) named unfolding settled_as_def by blast
  moreover have "case create_scheduled_run sha' sha1' tzdb' clk' ids' sp' c' q' key' ?u of
       Inl e \<Rightarrow> True
     | Inr (run', st2) \<Rightarrow> cr_run_id run' = cr_run_id run \<and>
         list_all (\<lambda>x. oc_id x \<noteq> cs_occurrence_id c \<or> oc_run_id x = Some (cr_run_id run)) (sc_occurrences st2)"
  proof (cases "create_scheduled_run sha' sha1' tzdb' clk' ids' sp' c' q' key' ?u")
    case (Inl e)
    then show ?thesis by simp
  next
    case (Inr p)
    obtain run' st2 where p: "p = (run', st2)" by (cases p)
    show ?thesis unfolding Inr p using same [OF Inr [unfolded p]] by simp
  qed
  ultimately show ?thesis by (simp only: simp_thms)
qed

text \<open>The claim of the sample schedule, whose run was created but not yet linked to the occurrence.\<close>

definition once_task :: resolved_task where
  "once_task = \<lparr>rk_skill_version_id = 21, rk_task_key = ''t'', rk_capability = ''c'', rk_manifest_checksum = sample_hash,
     rk_input_schema = JObj [], rk_output_schema = JObj [], rk_input_schema_checksum = sample_hash,
     rk_output_schema_checksum = sample_hash, rk_task_output_schema = JNull, rk_task_output_schema_checksum = JNull,
     rk_allowed_capabilities = [], rk_skill_snapshot = JObj []\<rparr>"

definition once_plan :: creation_plan where
  "once_plan = \<lparr>cp_selected_sources = JObj [], cp_resource_operations = [], cp_capabilities = [],
     cp_execution_profile = ''READ_ONLY'', cp_model_output_schema = JObj [], cp_binds = False\<rparr>"

definition once_authority :: creation_authority where
  "once_authority = \<lparr>ca_actor_system_role = ''USER'', ca_project_membership = ''ACTIVE'', ca_auto_approval_allowed = True\<rparr>"

definition once_steps :: creation_steps where
  "once_steps = \<lparr>sp_owner = Some (''ACTIVE'', ''USER''), sp_access = True, sp_blueprint = Inr (), sp_scheduling = True,
     sp_features = True, sp_policy = None, sp_resolved = once_task, sp_plan = (\<lambda>i d. Inr once_plan),
     sp_freeze = (\<lambda>i d. Inr ([], JObj []))\<rparr>"

definition once_key :: string where
  "once_key = scheduled_key once_claim"

definition once_command :: create_command where
  "once_command = creation_command (\<lambda>_. 0) None once_intent once_key once_authority once_task once_plan"

definition once_run :: run_row where
  "once_run = new_run once_command sample_hash 61 0"

definition fired_store :: schedule_store where
  "fired_store = claimed_store\<lparr>sc_db := empty_db\<lparr>db_runs := [once_run]\<rparr>\<rparr>"

lemma once_command_facts:
  "snapshots_ok once_command" "request_hash sample_sha (\<lambda>_. 0) once_command = Inr sample_hash"
proof -
  have stored: "jget creation_request_field (cm_task_snapshot_json once_command) = Some (intent_to_json once_intent)"
    by (simp add: once_command_def creation_command_def task_snapshot_def Let_def)
  have "intent_matches (\<lambda>_. 0) once_command once_intent"
    by (simp add: intent_matches_def once_command_def creation_command_def task_snapshot_def permission_snapshot_def
        creation_request_field_def Let_def) (simp add: once_task_def once_intent_def sample_intent_def)
  then show "request_hash sample_sha (\<lambda>_. 0) once_command = Inr sample_hash"
    using intent_codec.dec_enc [OF once_intent_valid] by (simp add: request_hash_stored [OF stored] intent_fingerprint_def)
  show "snapshots_ok once_command"
    using stored once_intent_valid
    by (simp add: snapshots_ok_def) (simp add: once_command_def creation_command_def task_snapshot_def
        permission_snapshot_def creation_request_field_def creation_limits_def Let_def once_plan_def once_task_def
        valid_intent_def)
qed

lemma once_run_of: "run_of_command once_command sample_hash once_run" "run_id once_run = 61"
  "run_selected_sources_json once_run = JObj []"
  by (simp_all add: run_of_command_def once_run_def new_run_def run_key_def once_command_def creation_command_def
      once_plan_def Let_def)

lemma fired_inv: "run_inv (sc_db fired_store)" "schedule_inv fired_store"
proof -
  show run: "run_inv (sc_db fired_store)"
    by (simp add: fired_store_def run_inv_def empty_db_def numbered_def results_ok_def run_sequences_def
        once_run_def new_run_def run_row_inv_def run_times_ok_def)
  show "schedule_inv fired_store"
    using claimed_store_inv(1) run by (auto simp: schedule_inv_def fired_store_def runs_linked_def counts_ok_def
        created_count_def pending_count_def pending_of_schedule_def claimed_store_def once_occurrence_def new_occurrence_def)
qed

lemma once_replay: "find_task_run_replay sample_sha (\<lambda>_. 0) once_intent once_key (sc_db fired_store) =
    Inr (Some (to_created_run once_run True))"
proof -
  have run: "once_run \<in> set (db_runs (sc_db fired_store))" by (simp add: fired_store_def)
  have key: "run_key once_run = (it_project_id once_intent,
      derive_task_id (\<lambda>_. 0) (it_skill_version_id once_intent) (it_task_key once_intent), once_key)"
    by (simp add: run_key_def once_run_def new_run_def once_command_def creation_command_def Let_def)
  obtain i where "stored_creation_intent sample_sha (\<lambda>_. 0) once_run = Inr i" "intent_fingerprint sample_sha i = sample_hash"
    using stored_intent [OF once_command_facts once_run_of(1)] once_run_of(3) by auto
  then show ?thesis
    using load_by_key [OF fired_inv(1) run key]
    by (simp add: find_task_run_replay_def validate_creation_replay_def raise_if_def intent_fingerprint_def)
qed

lemma fired_locked:
  "lock_claim sample_sha utc_zones once_claim 0 fired_store = Inr (once_row\<lparr>sr_next_run_at := None, sr_row_version := 2\<rparr>, once_occurrence)"
proof -
  have "lock_claim sha tz c t (st\<lparr>sc_db := d\<rparr>) = lock_claim sha tz c t st" for sha tz c t st d
    by (simp add: lock_claim_def require_row_def find_occurrence_def)
  then show ?thesis using once_locked [of 0] by (simp add: fired_store_def)
qed

lemma once_snapshot_facts: "snapshot_key once_snapshot = once_key" "ss_intent once_snapshot = once_intent"
  by (simp_all add: snapshot_key_def once_snapshot_def once_key_def scheduled_key_def once_claim_def)

lemma fired_completed:
  "\<exists>st1. complete_creation sample_sha (\<lambda>_. 0) utc_zones (\<lambda>n. 0) once_claim (to_created_run once_run True) fired_store = Inr st1"
proof -
  let ?r = "once_row\<lparr>sr_next_run_at := None, sr_row_version := 2\<rparr>"
  let ?c = "created_result once_claim (to_created_run once_run True)"
  have id: "cr_run_id (to_created_run once_run True) = 61" using once_run_of(2) by (simp add: to_created_run_def)
  have c: "?c = \<lparr>rt_schedule_id = 51, rt_occurrence_at = 3600000000, rt_outcome = Schedule_Plan.RUN_CREATED,
      rt_run_id = Some 61, rt_detail = None\<rparr>"
    unfolding created_result_def id by (simp add: once_claim_def)
  have valid: "validate_result once_occurrence ?c = Inr ()"
    unfolding c by (simp add: validate_result_def once_occurrence_def new_occurrence_def once_row_def raise_if_def)
  have fence: "require_fence sample_sha once_occurrence once_claim 0 False = Inr ()"
    "require_fence sample_sha (settled_occurrence 0 ?c once_occurrence) once_claim 0 True = Inr ()"
    by (simp_all add: require_fence_Inr once_occurrence_def new_occurrence_def once_claim_def settled_occurrence_def)
  have row: "schedule_row_ok ((settled_row once_claim ?c u once_occurrence ?r)\<lparr>sr_row_version := sr_row_version ?r + 1\<rparr>)" for u
    unfolding c by (simp add: schedule_row_ok_def settled_row_def finished_schedule_def summarized_schedule_def
        counted_schedule_def once_row_def once_claim_def once_occurrence_def new_occurrence_def Let_def)
  have "occurrence_row_ok (settled_occurrence 0 ?c once_occurrence)"
    unfolding c by (simp add: occurrence_row_ok_def settled_occurrence_def once_occurrence_def new_occurrence_def once_row_def)
  moreover have "\<forall>y \<in> set (sc_occurrences fired_store). oc_id y = oc_id once_occurrence"
    by (simp add: fired_store_def claimed_store_def)
  ultimately have "\<exists>st'. settle_occurrence sample_sha (\<lambda>n. 0) ?r once_occurrence once_claim ?c fired_store = Inr (?c, st')"
    by (intro settle_occurrence_total [OF fence(1) _ _ row _ _ fence(2)]) (simp_all add: max_integer_def)
  then obtain st' where settled: "settle_occurrence sample_sha (\<lambda>n. 0) ?r once_occurrence once_claim ?c fired_store
      = Inr (?c, st')" by blast
  have "check_result_run sample_sha (\<lambda>_. 0) utc_zones once_occurrence ?c fired_store = Inr ()"
    using once_replay once_stored by (simp add: check_result_run_def once_snapshot_facts raise_if_def created_result_def)
  moreover have "oc_status once_occurrence \<noteq> OCC_SETTLED" by (simp add: once_occurrence_def new_occurrence_def)
  ultimately have "record_outcome sample_sha (\<lambda>_. 0) utc_zones (\<lambda>n. 0) once_claim ?c fired_store = Inr (?c, st')"
    using fired_locked valid settled by (simp add: record_outcome_def)
  then show ?thesis by (simp add: complete_creation_def created_result_def)
qed

lemma once_fired:
  obtains st1 where "create_scheduled_run sample_sha (\<lambda>_. 0) utc_zones (\<lambda>n. 0) ids once_steps once_claim
    (scheduled_request once_claim 4) once_key fired_store = Inr (to_created_run once_run True, st1)"
proof -
  let ?q = "scheduled_request once_claim 4"
  have intent: "task_run_intent ?q = Inr once_intent"
    by (simp add: task_run_intent_def scheduled_request_def once_claim_def once_intent_of_row rethrow_def)
  have orig: "validate_original_request sample_sha utc_zones once_occurrence once_intent once_key = Inr ()"
    using once_stored by (simp add: validate_original_request_def once_snapshot_facts raise_if_def)
  have owner: "sp_owner once_steps = Some (''ACTIVE'', ''USER'')" "sp_access once_steps" by (simp_all add: once_steps_def)
  have "it_auto_approve once_intent" by (simp add: once_intent_def sample_intent_def)
  then have "\<exists>a. enter_creation sample_sha utc_zones 0 once_steps once_claim ?q once_key fired_store = Inr (once_intent, a)"
    using intent orig fired_locked
    by (simp add: enter_creation_def authorize_creation_def owner raise_if_def)
  then obtain a where entered: "enter_creation sample_sha utc_zones 0 once_steps once_claim ?q once_key fired_store
      = Inr (once_intent, a)" by blast
  obtain st1 where "complete_creation sample_sha (\<lambda>_. 0) utc_zones (\<lambda>n. 0) once_claim (to_created_run once_run True)
      fired_store = Inr st1" using fired_completed by blast
  then have "create_scheduled_run sample_sha (\<lambda>_. 0) utc_zones (\<lambda>n. 0) ids once_steps once_claim ?q once_key fired_store
      = Inr (to_created_run once_run True, st1)"
    using entered once_replay by (simp add: create_scheduled_run_def creation_body_def answer_replay_def)
  then show thesis by (rule that)
qed

lemma occurrence_fired_once_witness:
  "\<exists>(st1::schedule_store) x. create_scheduled_run sample_sha (\<lambda>_. 0) utc_zones (\<lambda>n. 0) (\<lambda>n. 0) once_steps once_claim
      (scheduled_request once_claim 4) once_key fired_store = Inr (to_created_run once_run True, st1) \<and>
    x \<in> set (sc_occurrences (schedule_all once_env once_commands st1)) \<and> oc_id x = 52 \<and> oc_run_id x = Some 61"
proof -
  obtain st1 where st1: "create_scheduled_run sample_sha (\<lambda>_. 0) utc_zones (\<lambda>n. 0) (\<lambda>n. 0) once_steps once_claim
    (scheduled_request once_claim 4) once_key fired_store = Inr (to_created_run once_run True, st1)" by (rule once_fired)
  have ids: "cr_run_id (to_created_run once_run True) = 61" "cs_occurrence_id once_claim = 52"
    using once_run_of(2) by (simp_all add: to_created_run_def once_claim_def)
  have "\<exists>x \<in> set (sc_occurrences (schedule_all once_env once_commands st1)). oc_id x = 52 \<and>
      oc_status x = OCC_SETTLED \<and> oc_run_id x = Some 61"
    using occurrence_fired_once [OF fired_inv(2) st1 refl, of once_env once_commands, THEN conjunct1] unfolding ids .
  then show ?thesis using st1 by blast
qed

end
