(* ===== verification/Budget_Claims.thy ===== *)
theory Budget_Claims
  imports Sample
begin

text \<open>
  The properties of the budget ledger, over arbitrary sequences of committed and failed commands
  (\<open>run_budget\<close>) and for single operations, and the round trips of its stored values.
\<close>

section \<open>Sequences of commands\<close>

text \<open>
  C2: whatever commands run, in whatever order and with whatever failures in between, every account
  equals the sums of its reservations in turns and in cost, and unless it is blocked it has consumed
  and reserved no more than its policy allows in either dimension.
\<close>

theorem ledger_never_over_limit:
  assumes "digest_ok sha" "budget_inv d" "a \<in> set (db_accounts (run_budget sha cs d))"
    and "policy_from_json (ba_policy_json a) = Inr p"
  shows "(\<forall>dm. val (account_consumed dm a)
              = sum_list (map (\<lambda>r. val (row_consumed dm r)) (rows_of a (run_budget sha cs d))) \<and>
            val (account_reserved dm a)
              = sum_list (map (\<lambda>r. val (row_reserved dm r)) (rows_of a (run_budget sha cs d)))) \<and>
     (\<not> blocked a \<longrightarrow>
        ba_consumed_turns a + ba_reserved_turns a \<le> bp_max_turns p \<and>
        (\<forall>limit \<in> set_option (bp_max_cost_nanos p).
           val (ba_consumed_cost_nanos a) + val (ba_reserved_cost_nanos a) \<le> limit))"
proof -
  have "account_inv a (rows_of a (run_budget sha cs d))"
    using run_budget_facts(1) [OF assms(1,2), of cs] assms(3) by (auto simp: budget_inv_def)
  with assms(4) have b: "balanced p a (rows_of a (run_budget sha cs d))" and w: "\<not> blocked a \<Longrightarrow> within_limits p a"
    by (auto simp: account_inv_def)
  from b show ?thesis using w unfolding balanced_def agrees_def within_limits_def all_dimension
    by (simp add: comp_def)
qed

lemma ledger_never_over_limit_witness:
  "\<exists>a \<in> set (db_accounts (run_budget sample_sha
       [RecordUsage (\<lambda>i. int i) (\<lambda>i. 100) sample_claim sample_report] started_db)).
     val (account_reserved TURNS a) = sum_list (map (\<lambda>r. val (row_reserved TURNS r))
       (rows_of a (run_budget sample_sha
         [RecordUsage (\<lambda>i. int i) (\<lambda>i. 100) sample_claim sample_report] started_db))) \<and>
     (blocked a \<or> ba_consumed_turns a + ba_reserved_turns a \<le> bp_max_turns sample_policy)"
proof -
  let ?cs = "[RecordUsage (\<lambda>i. int i) (\<lambda>i. 100) sample_claim sample_report]"
  let ?d = "run_budget sample_sha ?cs started_db"
  have "started_account \<in> set (db_accounts started_db)" by (simp add: started_db_def)
  with run_budget_facts(2) [OF sample_digest_ok started_db_inv, of ?cs]
  obtain a where a: "a \<in> set (db_accounts ?d)" "account_le started_account a"
    by (auto simp: budget_le_def table_le_def)
  then have p: "policy_from_json (ba_policy_json a) = Inr sample_policy"
    by (simp add: account_le_def sample_account_def sample_policy_stored)
  from ledger_never_over_limit [OF sample_digest_ok started_db_inv a(1) p] a(1) show ?thesis by blast
qed

text \<open>
  C23: nothing recorded is undone. Over any sequence of commands each account stays, keeps its policy
  and, once blocked, stays blocked; each reservation stays, keeps its grant, its start intent, its
  stop and final usage confirmations and its bound invocation, moves only forward through
  \<open>RESERVED\<close>, \<open>START_INTENT\<close>, \<open>SETTLED\<close> or \<open>RELEASED\<close>, and never consumes less; receipts and
  observations are only appended.
\<close>

theorem ledger_history_kept:
  assumes "digest_ok sha" "budget_inv d"
  shows "budget_le d (run_budget sha cs d)"
  using run_budget_facts(2) [OF assms] .

lemma ledger_history_kept_witness:
  "budget_le started_db (run_budget sample_sha
     [RecordUsage (\<lambda>i. int i) (\<lambda>i. 100) sample_claim sample_report] started_db)"
  by (rule ledger_history_kept [OF sample_digest_ok started_db_inv])

text \<open>
  C24: after any sequence of commands a settled reservation has a start intent, a confirmed stop and a
  final usage report and holds nothing; a released one was never started, holds nothing and has
  consumed nothing; no reservation ever holds more than its grant.
\<close>

theorem settled_only_when_confirmed:
  assumes "digest_ok sha" "budget_inv d" "r \<in> set (db_reservations (run_budget sha cs d))"
  shows "(rv_status r = SETTLED \<longrightarrow> rv_start_intent_at r \<noteq> None \<and> rv_stop_confirmed_at r \<noteq> None \<and>
            rv_final_usage_at r \<noteq> None \<and> rv_reserved_turns r = 0 \<and> val (rv_reserved_cost_nanos r) = 0) \<and>
     (rv_status r = RELEASED \<longrightarrow> rv_start_intent_at r = None \<and> rv_reserved_turns r = 0 \<and>
        rv_consumed_turns r = 0 \<and> val (rv_consumed_cost_nanos r) = 0) \<and>
     0 \<le> rv_reserved_turns r \<and> rv_reserved_turns r \<le> rv_granted_turns r"
proof -
  have "row_inv r" using run_budget_facts(1) [OF assms(1,2), of cs] assms(3) by (auto simp: budget_inv_def)
  then show ?thesis unfolding row_inv_iff row_amounts_ok_def row_state_ok_def all_dimension
    by (cases "rv_status r") auto
qed

lemma settled_only_when_confirmed_witness:
  "\<exists>r \<in> set (db_reservations (run_budget sample_sha
       [RecordUsage (\<lambda>i. int i) (\<lambda>i. 100) sample_claim sample_report] started_db)).
     rv_reserved_turns r \<le> rv_granted_turns r"
proof -
  let ?cs = "[RecordUsage (\<lambda>i. int i) (\<lambda>i. 100) sample_claim sample_report]"
  have "sample_row \<in> set (db_reservations started_db)" by (simp add: started_db_def)
  with run_budget_facts(2) [OF sample_digest_ok started_db_inv, of ?cs]
  obtain r where r: "r \<in> set (db_reservations (run_budget sample_sha ?cs started_db))"
    by (auto simp: budget_le_def table_le_def)
  from settled_only_when_confirmed [OF sample_digest_ok started_db_inv r] r show ?thesis by blast
qed

section \<open>Starting once\<close>

lemma start_execution_True:
  assumes "start_execution sha clk claimed key i c tok d = Inr (True, d')"
  shows "\<exists>seg a p rows r. ledger sha seg d = Inr (a, p, rows) \<and> run_id seg = cl_run_id claimed \<and>
    r \<in> set rows \<and> rv_execution_key r = key \<and> rv_status r = BUD_RESERVED \<and>
    d' = put_account (touch a) (put_reservation (r\<lparr>rv_status := START_INTENT, rv_start_intent_at := Some (clk 2)\<rparr>) d)"
proof -
  from assms obtain run segment attempt a p rows r where
    lock: "lock_claimed_execution claimed d = Inr (run, segment, attempt)"
    and l: "ledger sha run d = Inr (a, p, rows)" and c: "claimed_reservation sha rows claimed key = Inr r"
    and d': "rv_status r = BUD_RESERVED"
      "d' = put_account (touch a) (put_reservation (r\<lparr>rv_status := START_INTENT, rv_start_intent_at := Some (clk 2)\<rparr>) d)"
    by (fastforce simp: start_execution_def ebind_Inr_iff Let_def split: if_splits)
  have "run_id run = cl_run_id claimed"
    using lock by (auto simp: lock_claimed_execution_def lock_run_row_def ebind_Inr_iff find_Some_iff split: option.splits)
  moreover have "r \<in> set rows" "rv_execution_key r = key"
    using c by (auto simp: claimed_reservation_def find_execution_def find_Some_iff split: option.splits if_splits)
  ultimately show ?thesis using l d' by blast
qed

text \<open>
  C9: the start intent of an execution is granted at most once. After \<open>start_execution\<close> returned
  \<open>True\<close> for an execution key of a run, no later call for that key of that run, by any worker, with
  any token, after any further commands, returns \<open>True\<close> again.
\<close>

theorem start_granted_once:
  assumes "digest_ok sha" "budget_inv d"
    and "start_execution sha clk claimed key i c tok d = Inr (True, d1)"
    and "cl_run_id claimed' = cl_run_id claimed"
  shows "start_execution sha clk' claimed' key i' c' tok' (run_budget sha cs d1) \<noteq> Inr (True, d2)"
proof
  let ?D = "run_budget sha cs d1"
  assume again: "start_execution sha clk' claimed' key i' c' tok' ?D = Inr (True, d2)"
  have inv1: "budget_inv d1" using start_execution_keeps [OF assms(2,3)] by simp
  from start_execution_True [OF assms(3)] obtain run a p rows r where
    l: "ledger sha run d = Inr (a, p, rows)" "run_id run = cl_run_id claimed" "r \<in> set rows"
      "rv_execution_key r = key"
    and d1: "d1 = put_account (touch a) (put_reservation (r\<lparr>rv_status := START_INTENT, rv_start_intent_at := Some (clk 2)\<rparr>) d)"
    by blast
  let ?r = "r\<lparr>rv_status := START_INTENT, rv_start_intent_at := Some (clk 2)\<rparr>"
  have r: "r \<in> set (db_reservations d)" "rv_run_id r = cl_run_id claimed"
    using ledger_Inr(2,6) [OF l(1)] l(2,3) by auto
  have "?r \<in> set (db_reservations d1)"
    using r(1) by (auto simp: d1 put_account_def put_reservation_def intro!: in_put_row)
  with run_budget_facts(2) [OF assms(1) inv1, of cs] obtain r2 where
    r2: "r2 \<in> set (db_reservations ?D)" "row_le ?r r2" by (auto simp: budget_le_def table_le_def)
  have inv2: "budget_inv ?D" by (rule run_budget_facts(1) [OF assms(1) inv1])
  from start_execution_True [OF again] obtain run' a' p' rows' q where
    q: "ledger sha run' ?D = Inr (a', p', rows')" "run_id run' = cl_run_id claimed'" "q \<in> set rows'"
      "rv_execution_key q = key" "rv_status q = BUD_RESERVED" by blast
  have "q \<in> set (db_reservations ?D)" "rv_run_id q = cl_run_id claimed"
    using ledger_Inr(2,6) [OF q(1)] q(2,3) assms(4) by auto
  with inv2 r2 r(2) l(4) q(4) have "q = r2"
    unfolding budget_inv_def
    by (intro distinct_key_eq [of "\<lambda>r. (rv_run_id r, rv_execution_key r)" "db_reservations ?D"])
      (auto simp: row_le_def)
  with r2(2) q(5) show False by (simp add: row_le_def)
qed

lemma start_granted_once_witness:
  "\<exists>d1. start_execution sample_sha (\<lambda>i. int i) sample_claimed ''main'' 9 sample_hash sample_token bound_db
       = Inr (True, d1) \<and>
     start_execution sample_sha (\<lambda>i. int (i + 10)) sample_claimed ''main'' 9 sample_hash sample_token
       (run_budget sample_sha [] d1) \<noteq> Inr (True, d1)"
proof -
  obtain d1 where d1: "start_execution sample_sha (\<lambda>i. int i) sample_claimed ''main'' 9 sample_hash
      sample_token bound_db = Inr (True, d1)" using bound_start by blast
  from start_granted_once [OF sample_digest_ok bound_db_inv d1 refl] d1 show ?thesis by blast
qed

section \<open>Single operations\<close>



text \<open>The block code of an account that a receipt is written for.\<close>

lemma settle_block: "settle_if_confirmed a r = Inr (a', r') \<Longrightarrow> blocked a' \<longleftrightarrow> blocked a"
proof -
  have "ba_block_code a1 = ba_block_code a" if "release a r = Inr (a1, r1)" for a1 r1
    unfolding release_Inr(1) [OF that] by (simp split: option.split)
  moreover assume "settle_if_confirmed a r = Inr (a', r')"
  ultimately have "ba_block_code a' = ba_block_code a"
    by (auto simp: settle_if_confirmed_def ebind_Inr_iff split: if_splits)
  then show ?thesis by (simp add: blocked_def)
qed

lemma receipt_account:
  assumes "found d a p r" "same_terms a a'"
    and "record_receipt sha clk ids a' p' r' claim key kind payload disp d = Inr (res, d')"
  shows "touch a' \<in> set (db_accounts d')" "rr_disposition res = disp"
  using assms record_receipt_Inr(1,3) [OF assms(3)]
  by (auto simp: found_def same_terms_def result_of_def intro!: in_put_row)

lemma authorize_run:
  assumes "authorize_reconciliation sha clk claim d = Inr (a, p, r)"
  shows "ba_run_id a = rc_run_id claim"
proof -
  from assms obtain run rows where "lock_run_row (rc_run_id claim) (Some (rc_project_id claim)) d = Some run"
    "ledger sha run d = Inr (a, p, rows)"
    by (auto simp: authorize_reconciliation_def reconciliation_rows_def ebind_Inr_iff
        split: option.splits prod.splits)
  then show ?thesis using ledger_Inr(2) by (fastforce simp: lock_run_row_def find_Some_iff)
qed

lemma put_blocked:
  assumes "found d a p r"
  shows "a\<lparr>ba_block_code := Some c\<rparr> \<in> set (db_accounts (put_account (a\<lparr>ba_block_code := Some c\<rparr>) d))"
  using assms by (auto simp: found_def put_account_def intro!: in_put_row)

text \<open>
  C26: no bad usage goes unnoticed. When a usage report is answered with \<open>OVERSPENT\<close> (more than the
  grant was consumed), \<open>INVALID\<close> (not started, wrong meter, stale or contradictory counters) or
  \<open>CONFLICT\<close> (another report under the same key), the account of the run is blocked afterwards.
\<close>

theorem bad_usage_blocks:
  assumes "record_usage sha clk ids claim report d = Inr (res, d')" "report_init report = Inr ()"
    and "rr_disposition res \<in> {''OVERSPENT'', ''INVALID'', ''CONFLICT''}"
  shows "\<exists>a \<in> set (db_accounts d'). ba_run_id a = rc_run_id claim \<and> blocked a"
proof -
  from assms(1) obtain a p r where auth: "authorize_reconciliation sha clk claim d = Inr (a, p, r)"
    by (auto simp: record_usage_def ebind_Inr_iff)
  have f: "found d a p r" by (rule authorize_reconciliation_Inr(1) [OF auth])
  have run: "ba_run_id a = rc_run_id claim" by (rule authorize_run [OF auth])
  have written: ?thesis
    if "record_receipt sha c i b p q claim k kd pl disp d = Inr (res, d')" "same_terms a b" "blocked b"
    for c i b q k kd pl disp
    using receipt_account(1) [OF f that(2,1)] that(2,3) run
    by (intro bexI [of _ "touch b"]) (simp_all add: same_terms_def)
  have ok: "report_ok report" using assms(2) by (simp add: report_init_Inr)
  from assms(1) ok auth show ?thesis
  proof (cases rule: record_usage_elim)
    case replay
    let ?a = "a\<lparr>ba_block_code := Some ''receipt_conflict''\<rparr>"
    have "rr_disposition res \<noteq> ''REPLAY''" using assms(3) by auto
    from replay_conflict [OF replay this] show ?thesis
    proof (elim disjE exE)
      assume "d' = put_account ?a d"
      with put_blocked [OF f] run show ?thesis by (intro bexI [of _ ?a]) (simp_all add: blocked_def)
    next
      fix ckey pl
      assume "record_receipt sha (\<lambda>i. clk (i + 1)) ids ?a p r claim ckey UNVERIFIABLE pl ''CONFLICT'' d = Inr (res, d')"
      then show ?thesis by (rule written) (simp_all add: blocked_def)
    qed
  next
    case (rejected why)
    then show ?thesis by (intro written [OF rejected(3)]) (simp_all add: blocked_def)
  next
    case (applied deltas a1 r1 over a3 r3)
    have over: over
      using receipt_account(2) [OF f _ applied(6)] usage_terms [OF applied(4,5)] assms(3) by (auto split: if_splits)
    then have "blocked a3"
      using settle_block [OF applied(5)] by (simp add: overspent_account_def blocked_def)
    then show ?thesis using usage_terms [OF applied(4,5)] by (intro written [OF applied(6)]) simp_all
  qed
qed

lemma bad_usage_blocks_witness:
  "\<exists>res d. record_usage sample_sha (\<lambda>i. int i) (\<lambda>i. 100) sample_claim excessive_report started_db = Inr (res, d) \<and>
     (\<exists>a \<in> set (db_accounts d). ba_run_id a = 1 \<and> blocked a)"
proof -
  obtain res d where r: "record_usage sample_sha (\<lambda>i. int i) (\<lambda>i. 100) sample_claim excessive_report started_db
      = Inr (res, d)" and o: "rr_disposition res = ''OVERSPENT''" using excessive_usage by blast
  have "rr_disposition res \<in> {''OVERSPENT'', ''INVALID'', ''CONFLICT''}" using o by simp
  from bad_usage_blocks [OF r excessive_report_ok this] r show ?thesis by (auto simp: sample_claim_def)
qed

text \<open>
  A blocked account grants nothing. If every account of the run is blocked, a successful
  \<open>reserve_group\<close> leaves the database unchanged, so it can only have repeated a group reserved before,
  and a successful \<open>start_execution\<close> returns \<open>False\<close>.
\<close>

theorem blocked_account_grants_nothing:
  assumes "\<forall>a \<in> set (db_accounts d). ba_run_id a = cl_run_id claimed \<longrightarrow> blocked a"
  shows "(reserve_group sha clk ids claimed g requests confirm d = Inr (records, d') \<longrightarrow> d' = d) \<and>
     (start_execution sha clk claimed key i c tok d = Inr (started, d'') \<longrightarrow> \<not> started \<and> d'' = d)"
proof (intro conjI impI)
  have run: "run_id run = cl_run_id claimed" if "lock_claimed_execution claimed d = Inr (run, segment, attempt)"
    for run segment attempt
    using that by (auto simp: lock_claimed_execution_def lock_run_row_def ebind_Inr_iff find_Some_iff split: option.splits)
  have bl: "blocked a" if "lock_claimed_execution claimed d = Inr (run, segment, attempt)"
    "ledger sha run d = Inr (a, p, rows)" for run segment attempt a p rows
    using run [OF that(1)] ledger_Inr(1,2) [OF that(2)] assms by simp
  show "d' = d" if "reserve_group sha clk ids claimed g requests confirm d = Inr (records, d')"
  proof -
    from that show ?thesis
      using bl by (fastforce simp: reserve_group_def ebind_Inr_iff Let_def split: if_splits)
  qed
  show "\<not> started" "d'' = d" if "start_execution sha clk claimed key i c tok d = Inr (started, d'')"
    using that bl by (fastforce simp: start_execution_def ebind_Inr_iff Let_def split: if_splits)+
qed

lemma blocked_account_grants_nothing_witness:
  "\<not> (\<exists>d. start_execution sample_sha (\<lambda>i. int i) sample_claimed ''main'' 9 sample_hash sample_token
     (bound_db\<lparr>db_accounts := [started_account\<lparr>ba_block_code := Some ''budget_overspent''\<rparr>]\<rparr>) = Inr (True, d))"
proof -
  let ?d = "bound_db\<lparr>db_accounts := [started_account\<lparr>ba_block_code := Some ''budget_overspent''\<rparr>]\<rparr>"
  have "\<forall>a \<in> set (db_accounts ?d). ba_run_id a = cl_run_id sample_claimed \<longrightarrow> blocked a"
    by (simp add: blocked_def)
  from blocked_account_grants_nothing [OF this] show ?thesis by blast
qed

text \<open>
  A reconciler without a valid lease changes nothing. When the claim has expired at the first
  clock reading of the transaction, every reconciliation operation raises.
\<close>

theorem stale_reconciler_refused:
  assumes "rc_expires_at claim \<le> clk 0"
  shows "isl (record_observation sha clk ids claim ob d) \<and> isl (record_usage sha clk ids claim report d) \<and>
     isl (confirm_stopped sha clk ids claim key evidence d) \<and> isl (release_unstarted sha clk ids claim key d) \<and>
     isl (mark_unverifiable sha clk ids claim key evidence d)"
proof -
  have "isl (authorize_reconciliation sha clk claim d)"
  proof (cases "authorize_reconciliation sha clk claim d")
    case (Inr x)
    obtain a p r where "x = (a, p, r)" by (cases x)
    with Inr authorize_reconciliation_Inr(3) [of sha clk claim d a p r] assms show ?thesis
      by (auto simp: validate_reconciliation_claim_def split: option.splits)
  qed simp
  then obtain e where "authorize_reconciliation sha clk claim d = Inl e"
    by (cases "authorize_reconciliation sha clk claim d") auto
  then show ?thesis
    by (auto simp: record_observation_def record_usage_def confirm_stopped_def release_unstarted_def
        mark_unverifiable_def ebind_def split: sum.split)
qed

lemma stale_reconciler_refused_witness:
  "isl (record_usage sample_sha (\<lambda>i. 500) (\<lambda>i. 100) sample_claim sample_report started_db)"
  using stale_reconciler_refused [of sample_claim "\<lambda>i. 500" sample_sha "\<lambda>i. 100" _ started_db sample_report]
  by (simp add: sample_claim_def)

section \<open>Amounts and stored values\<close>

text \<open>
  The conversion of dollars to nano-dollars is exact. A decimal is accepted exactly when it has at
  most 40 digits, an exponent between -40 and 40 and its value times a billion is an integer from 0 to
  the column bound, and then the result is that integer; nothing is ever rounded.
\<close>

theorem usd_exact:
  "usd_to_nanos (UsdDecimal (Dec sign c exponent)) = Inr u \<longleftrightarrow>
     length (show_nat c) \<le> 40 \<and> \<bar>exponent\<bar> \<le> 40 \<and> 0 \<le> u \<and> u \<le> max_units \<and>
     of_int u = decimal_value sign c exponent * 1000000000"
  by (simp add: usd_to_nanos_def decimal_to_nanos_Inr usd_scale_def)

text \<open>
  Stored budget policies survive storage. A valid policy is read back unchanged, only valid
  policies are ever read, and two valid policies with the same stored form are equal.
\<close>

theorem policy_roundtrip:
  "(valid_policy p \<longrightarrow> policy_from_json (policy_to_json p) = Inr p) \<and>
   (policy_from_json j = Inr q \<longrightarrow> valid_policy q \<and> policy_from_json (policy_to_json q) = Inr q) \<and>
   (valid_policy p \<longrightarrow> valid_policy p' \<longrightarrow> policy_to_json p = policy_to_json p' \<longrightarrow> p = p')"
  using policy_codec.dec_enc policy_codec.dec_valid policy_codec.dec_stable policy_codec.enc_inject by blast

lemma policy_roundtrip_witness: "policy_from_json (policy_to_json sample_policy) = Inr sample_policy"
proof -
  have "valid_policy sample_policy" by code_simp
  then show ?thesis using policy_roundtrip [of sample_policy JNull sample_policy sample_policy] by blast
qed

text \<open>
  Stored invocations and usage observations survive storage. A valid value is read back unchanged,
  including session ids, checksums, optional fields and binary64 costs, and only valid values are read.
\<close>

theorem metering_roundtrip:
  "(valid_invocation i \<longrightarrow> invocation_from_json (invocation_to_json i) = Inr i) \<and>
   (invocation_from_json j = Inr i' \<longrightarrow> valid_invocation i') \<and>
   (valid_observation ob \<longrightarrow> observation_from_json (observation_to_json ob) = Inr ob) \<and>
   (observation_from_json j = Inr ob' \<longrightarrow> valid_observation ob')"
  using invocation_codec.dec_enc invocation_codec.dec_valid observation_codec.dec_enc
    observation_codec.dec_valid by blast

lemma metering_roundtrip_witness:
  "invocation_from_json (invocation_to_json sample_invocation) = Inr sample_invocation"
  using metering_roundtrip sample_invocation_ok by blast

end
