(* ===== verification/Run_Claims.thy ===== *)
theory Run_Claims
  imports Sample Canonical Run_Base
begin

text \<open>
  The properties of the run components' foundations: the run status machine, the lease check every
  worker transaction makes, event numbering, and the canonical text behind every checksum.
\<close>

section \<open>Statuses\<close>

text \<open>
  A run moves only along its transition table. A planned transition exists exactly for the
  table's pairs; it raises the row version by one, sets the start time at the first entry to
  \<open>RUNNING\<close> only and the finish time exactly on entering a final status; and no path continues
  after a final status.
\<close>

theorem run_lifecycle:
  "(plan_run_transition s t v st fi now = Inr tr \<longleftrightarrow> t \<in> set (allowed_run_transitions s) \<and>
      tr = \<lparr>tr_status = t, tr_row_version = v + 1,
            tr_started_at = (if t = RUNNING \<and> st = None then Some now else st),
            tr_finished_at = (if t \<in> {SUCCEEDED, FAILED, CANCELLED} then Some now else fi)\<rparr>) \<and>
   (s \<in> {SUCCEEDED, FAILED, CANCELLED} \<longrightarrow> plan_run_transition s t v st fi now = Inl InvalidRunTransitionError) \<and>
   (f \<in> {SUCCEEDED, FAILED, CANCELLED} \<longrightarrow> \<not> path_ok allowed_run_transitions s (us @ f # t # ts))"
  using run_life.terminal_is_last [of s us f "t # ts"] by (auto simp: plan_run_transition_Inr)

lemma run_lifecycle_witness:
  "plan_run_transition FAILED QUEUED 1 None None 0 = Inl InvalidRunTransitionError"
  using run_lifecycle [of FAILED QUEUED 1 None None 0 undefined FAILED "[]" "[]"] by simp

text \<open>
  The timestamps of a run follow its status: if a run has a finish time exactly when it is final
  and a start time whenever it has been running, so does the run after any allowed transition.
\<close>

theorem run_timestamps_follow_status:
  assumes "run_times_ok s st fi" and "plan_run_transition s t v st fi now = Inr tr"
  shows "run_times_ok (tr_status tr) (tr_started_at tr) (tr_finished_at tr)"
  using run_times_kept [OF assms] .

lemma run_timestamps_follow_status_witness: "run_times_ok SUCCEEDED (Some 5) (Some 9)"
proof -
  have "run_times_ok RUNNING (Some 5) None" by (simp add: run_times_ok_def)
  moreover have "plan_run_transition RUNNING SUCCEEDED 3 (Some 5) None 9
      = Inr \<lparr>tr_status = SUCCEEDED, tr_row_version = 4, tr_started_at = Some 5, tr_finished_at = Some 9\<rparr>"
    by (simp add: plan_run_transition_def)
  ultimately show ?thesis using run_timestamps_follow_status by fastforce
qed

section \<open>Leases\<close>

text \<open>
  The lease check accepts a worker exactly when its token hashes to the stored one, the attempt is
  still leased or running and the lease has not expired; otherwise it raises \<open>LeaseValidationError\<close>.
\<close>

theorem lease_check_exact:
  "validate_claimed_lease sha attempt claimed now =
     (if lease_token_hash sha (cl_lease_token claimed) = (case at_lease_token_hash attempt of None \<Rightarrow> [] | Some h \<Rightarrow> h) \<and>
         at_status attempt \<in> {ATT_LEASED, ATT_RUNNING} \<and>
         (\<exists>t. at_lease_expires_at attempt = Some t \<and> now < t)
      then Inr () else Inl LeaseValidationError)"
  by (auto simp: validate_claimed_lease_def digest_matches_def attempt_active_def raise_if_def Let_def
      split: option.splits)

section \<open>Canonical text\<close>

text \<open>
  C39: two JSON values have the same canonical text, the text every fingerprint and checksum is taken
  of, exactly when they are equal up to the order of object keys. \<open>rv\<close> is the value a float's
  shortest decimal text stands for.
\<close>

theorem canonical_text_decides:
  assumes "json_ok rv v" and "json_ok rv w"
  shows "canonical_json v = canonical_json w \<longleftrightarrow> canon v = canon w"
  using canonical_json_eq_iff [OF assms] .

lemma canonical_text_decides_witness:
  "canonical_json (JObj [(''b'', JInt 1), (''a'', JArr [JNull, JStr ''x''])])
     = canonical_json (JObj [(''a'', JArr [JNull, JStr ''x'']), (''b'', JInt 1)])"
proof -
  let ?v = "JObj [(''b'', JInt 1), (''a'', JArr [JNull, JStr ''x''])]"
  let ?w = "JObj [(''a'', JArr [JNull, JStr ''x'']), (''b'', JInt 1)]"
  have "json_ok (\<lambda>_. 0) ?v" "json_ok (\<lambda>_. 0) ?w" by simp_all
  moreover have "canon ?v = canon ?w" by code_simp
  ultimately show ?thesis using canonical_text_decides by blast
qed

text \<open>
  Identifiers survive storage as text: the text of a UUID is read back as the same UUID, and
  different UUIDs have different texts.
\<close>

theorem uuid_roundtrip:
  "parse_uuid (str_uuid u) = Inr u \<and> (str_uuid u = str_uuid v \<longleftrightarrow> u = v)"
  by simp

end
