(* ===== verification/Attempt_Claims.thy ===== *)
theory Attempt_Claims
  imports Run_History_Claims
begin

text \<open>
  The properties of attempts over their life: who may execute, what a recorded cancellation does, how often
  a run is retried, and that the recovery of expired leases leaves nothing behind.
\<close>

section \<open>Recovery of expired leases\<close>







lemma close_sessions_fields [simp]:
  "db_attempts (close_attempt_sessions i st d) = db_attempts d"
  "db_outbox (close_attempt_sessions i st d) = db_outbox d"
  by (simp_all add: close_attempt_sessions_def)

lemma cancel_segment_attempts [simp]:
  "db_attempts (cancel_segment now s d) = db_attempts d" "db_outbox (cancel_segment now s d) = db_outbox d"
  by (cases s; simp add: cancel_segment_def put_segment_def)+




lemma lock_run_row_unique: "run_inv d \<Longrightarrow> r \<in> set (db_runs d) \<Longrightarrow> lock_run_row (run_id r) None d = Some r"
  using find_row_unique [of run_id "db_runs d" r] by (simp add: lock_run_row_def find_row_def run_inv_def)










section \<open>Workers\<close>







section \<open>Claims\<close>

lemma lease_run_Some:
  assumes "lease_run sha ids rq run segment n now cap d = Inr (Some claimed, d')" "run \<in> set (db_runs d)"
  shows "cl_attempt_no claimed = n" "cl_run_attempt_id claimed = ids 0"
    "db_attempts d' = db_attempts d @ [new_attempt (ids 0) (run_id run) segment n now rq]"
    "\<exists>r \<in> set (db_runs d'). run_id r = run_id run \<and> run_status r = PREPARING"
proof -
  let ?a = "new_attempt (ids 0) (run_id run) segment n now rq"
  obtain tr attempts parent brief where tr: "plan_run run PREPARING now = Inr tr"
    and at: "insert_rows at_id [?a] (db_attempts d) = Inr attempts"
    and cl: "claimed_of sha rq (run\<lparr>run_status := tr_status tr, run_row_version := tr_row_version tr,
        run_started_at := tr_started_at tr, run_finished_at := tr_finished_at tr, run_error_json := None\<rparr>)
      (segment\<lparr>sg_status := SEG_RUNNING, sg_started_at := or_else (sg_started_at segment) now\<rparr>) ?a cap
      parent brief = Inr claimed"
    and d': "d' = claim_events (\<lambda>i. ids (i + 1)) run segment ?a (tr_row_version tr) now (rq_trace_id rq)
      (put_segment (segment\<lparr>sg_status := SEG_RUNNING, sg_started_at := or_else (sg_started_at segment) now\<rparr>)
        (put_run (run\<lparr>run_status := tr_status tr, run_row_version := tr_row_version tr,
          run_started_at := tr_started_at tr, run_finished_at := tr_finished_at tr, run_error_json := None\<rparr>)
          (d\<lparr>db_attempts := attempts\<rparr>)))"
    using assms(1) by (auto simp: lease_run_def Let_def ebind_Inr_iff)
  show "cl_attempt_no claimed = n" "cl_run_attempt_id claimed = ids 0"
    using cl by (auto simp: claimed_of_def ebind_Inr_iff)
  show "db_attempts d' = db_attempts d @ [?a]"
    using at by (simp add: d' claim_events_def Let_def insert_rows_Inr)
  have "run_id run \<in> run_id ` set (db_runs d)" using assms(2) by simp
  then show "\<exists>r \<in> set (db_runs d'). run_id r = run_id run \<and> run_status r = PREPARING"
    using plan_run_Inr(2) [OF tr]
    by (intro bexI [of _ "run\<lparr>run_status := tr_status tr, run_row_version := tr_row_version tr,
        run_started_at := tr_started_at tr, run_finished_at := tr_finished_at tr, run_error_json := None\<rparr>"])
      (simp_all add: d' claim_events_def Let_def in_put_row)
qed

text \<open>
  C18: a claim is exclusive and bounded. A claim that is granted is at most the \<open>max_attempts\<close>th of its segment;
  the new attempt is the segment's only open one; the next claim of the run, by whoever and whenever
  before another transaction, gets nothing and changes nothing.
\<close>

theorem claim_exclusive:
  assumes "run_inv d" "claim_for_execution sha clk ids rid rq d = Inr (Some claimed, d')"
  shows "cl_attempt_no claimed \<le> rq_max_attempts rq \<and>
    (\<exists>segment. latest_segment rid d = Some segment \<and>
      map at_id (filter attempt_open (segment_attempts (sg_id segment) d')) = [cl_run_attempt_id claimed]) \<and>
    claim_for_execution sha' clk' ids' rid rq' d' = Inr (None, d')"
proof -
  have inv': "run_inv d'" using claim_for_execution_safe [OF assms(2)] assms(1) by (rule safe_inv)
  from assms(2) show ?thesis
  proof (cases rule: claim_for_execution_cases)
    case (leased run segment cap)
    let ?a = "new_attempt (ids 0) rid segment (next_attempt_no (sg_id segment) d) (clk 1) rq"
    note l = lease_run_Some [OF leased(7,1)]
    have s: "segment \<in> set (db_segments d)" "sg_run_id segment = rid"
      using latest_segment_in [OF leased(4)] by simp_all
    have "\<not> attempt_open b" if "b \<in> set (segment_attempts (sg_id segment) d)" for b
      using leased(5) that segment_run_unique [OF assms(1) s(1), of b] s(2)
      by (auto simp: segment_busy_def list_ex_iff segment_attempts_def)
    then have "filter attempt_open (segment_attempts (sg_id segment) d') = [?a]"
      using leased(2) by (auto simp: segment_attempts_def l(3) attempt_open_def filter_empty_conv)
    moreover obtain r where "r \<in> set (db_runs d')" "run_id r = rid" "run_status r = PREPARING"
      using l(4) leased(2) by auto
    then have "claim_for_execution sha' clk' ids' rid rq' d' = Inr (None, d')"
      using lock_run_row_unique [OF inv'] by (force simp: claim_for_execution_def)
    ultimately show ?thesis using l(1,2) leased(4,6) by auto
  qed simp_all
qed

text \<open>A queued run, claimed.\<close>

definition queued_db :: db where
  "queued_db = empty_db\<lparr>db_runs := [sample_run\<lparr>run_status := QUEUED, run_row_version := 1, run_started_at := None\<rparr>],
     db_segments := [sample_segment\<lparr>sg_status := SEG_CREATED, sg_started_at := None\<rparr>]\<rparr>"

definition sample_request :: claim_request where
  "sample_request = \<lparr>rq_worker_id = ''w'', rq_lease_token = ''token'', rq_lease_token_hash = sample_hash,
     rq_lease_expires_at = 1000, rq_max_attempts = 3, rq_trace_id = None, rq_expected_previous = None\<rparr>"

lemma queued_inv: "run_inv queued_db"
  by (simp add: run_inv_def numbered_def results_ok_def run_sequences_def queued_db_def empty_db_def
      run_row_inv_def run_times_ok_def) (simp add: sample_run_def)

lemma queued_claim:
  "\<exists>claimed d. claim_for_execution sample_sha (\<lambda>_. 10) (\<lambda>i. of_nat (i + 40)) 1 sample_request queued_db = Inr (Some claimed, d)"
  unfolding claim_for_execution_def queued_db_def empty_db_def
  by (simp add: lock_run_row_def sample_run_def latest_segment_def sample_segment_def sample_request_def
      segment_busy_def segment_attempts_def next_attempt_no_def coalesce_max_def lease_run_def Let_def
      insert_rows_def raise_if_def plan_run_def plan_run_transition_def parent_session_def frozen_brief_def
      claimed_of_def uuid_of_json_def jfield_def)

lemma claim_exclusive_witness:
  "\<exists>(claimed :: claimed_run) d. cl_attempt_no claimed \<le> 3 \<and>
     claim_for_execution sample_sha (\<lambda>_. 20) (\<lambda>i. of_nat (i + 80)) 1 sample_request d = Inr (None, d)"
proof -
  obtain claimed d where "claim_for_execution sample_sha (\<lambda>_. 10) (\<lambda>i. of_nat (i + 40)) 1 sample_request queued_db
      = Inr (Some claimed, d)" using queued_claim by blast
  from claim_exclusive [OF queued_inv this, of sample_sha "\<lambda>_. 20" "\<lambda>i. of_nat (i + 80)" sample_request]
  moreover have "rq_max_attempts sample_request = 3" by (simp add: sample_request_def)
  ultimately show ?thesis by auto
qed

section \<open>Cancellation\<close>











end
