(* ===== verification/Outbox_Claims.thy ===== *)
theory Outbox_Claims
  imports Sample Outbox
begin

text \<open>
  The properties of the transactional outbox: a relay batch loses nothing and delivers the oldest
  messages first, and repeated batches deliver every message.
\<close>

section \<open>One batch\<close>

text \<open>What a batch makes of a message it has selected.\<close>

definition relayed :: "(pending_message \<Rightarrow> string option) \<Rightarrow> outbox_row \<Rightarrow> outbox_row \<Rightarrow> bool" where
  "relayed publish m m' \<longleftrightarrow>
     ob_id m' = ob_id m \<and> ob_topic m' = ob_topic m \<and> ob_aggregate_id m' = ob_aggregate_id m \<and>
     ob_payload_json m' = ob_payload_json m \<and> ob_publish_attempts m' = ob_publish_attempts m + 1 \<and>
     (case publish (pending_of m) of
        None \<Rightarrow> ob_published_at m' \<noteq> None
      | Some e \<Rightarrow> ob_published_at m' = ob_published_at m)"

definition accepted :: "(pending_message \<Rightarrow> string option) \<Rightarrow> outbox_row list \<Rightarrow> int" where
  "accepted publish ms = int (length (filter (\<lambda>m. publish (pending_of m) = None) ms))"

lemma accepted_simps [simp]:
  "accepted publish [] = 0"
  "accepted publish (m # ms) = (if publish (pending_of m) = None then 1 else 0) + accepted publish ms"
  by (simp_all add: accepted_def)

definition relay_row :: "(pending_message \<Rightarrow> string option) \<Rightarrow> time \<Rightarrow> outbox_row \<Rightarrow> outbox_row" where
  "relay_row publish t m = (case publish (pending_of m) of
     None \<Rightarrow> m\<lparr>ob_publish_attempts := ob_publish_attempts m + 1, ob_published_at := Some t, ob_error_json := None\<rparr>
   | Some e \<Rightarrow> m\<lparr>ob_publish_attempts := ob_publish_attempts m + 1,
       ob_error_json := Some (JObj [(''type'', JStr e), (''message'', JStr ''outbox_publish_failed'')])\<rparr>)"

lemma relayed_row: "relayed publish m (relay_row publish t m)"
  by (simp add: relayed_def relay_row_def split: option.split)

lemma relay_one:
  assumes "distinct (map ob_id locked)" "m \<in> set locked"
  shows "(case publish (pending_of m) of
      None \<Rightarrow> mark_published locked (ob_id m) t d | Some e \<Rightarrow> mark_failed locked (ob_id m) e d)
    = Inr (put_message (relay_row publish t m) d)"
proof -
  have "locked_message locked (ob_id m) = Inr m"
    using find_row_unique [OF assms] by (simp add: locked_message_def)
  then show ?thesis
    by (cases "publish (pending_of m)") (simp_all add: mark_published_def mark_failed_def relay_row_def)
qed

lemma relay_messages_Inr:
  assumes "distinct (map ob_id locked)" "set ms \<subseteq> set locked" "distinct ms"
    and "ob_id ` set ms \<subseteq> ob_id ` set (db_outbox d)"
  shows "\<exists>res d'. relay_messages publish clk locked ms p f d = Inr (res, d') \<and>
    rr_published res = p + accepted publish ms \<and> rr_selected res = p + f + int (length ms) \<and>
    rr_selected res = rr_published res + rr_failed res \<and>
    map ob_id (db_outbox d') = map ob_id (db_outbox d) \<and>
    (\<forall>m \<in> set ms. \<exists>m' \<in> set (db_outbox d'). relayed publish m m') \<and>
    (\<forall>m \<in> set (db_outbox d). ob_id m \<notin> ob_id ` set ms \<longrightarrow> m \<in> set (db_outbox d'))"
  using assms(2-4)
proof (induction ms arbitrary: clk p f d)
  case Nil
  then show ?case by simp
next
  case (Cons m ms)
  define m' where "m' = relay_row publish (clk 0) m"
  have m': "relayed publish m m'" "(case publish (pending_of m) of
      None \<Rightarrow> mark_published locked (ob_id m) (clk 0) d | Some e \<Rightarrow> mark_failed locked (ob_id m) e d)
    = Inr (put_message m' d)"
    using relayed_row relay_one [OF assms(1), of m] Cons.prems(1) by (auto simp: m'_def)
  let ?d = "put_message m' d"
  have id: "ob_id m' = ob_id m" using m'(1) by (simp add: relayed_def)
  have ids: "map ob_id (db_outbox ?d) = map ob_id (db_outbox d)" by (simp add: put_message_def)
  have there: "ob_id ` set ms \<subseteq> ob_id ` set (db_outbox ?d)"
    using Cons.prems(3) by (metis (no_types) ids image_set insert_subset list.simps(15) image_insert)
  have other: "ob_id m \<notin> ob_id ` set ms"
    using Cons.prems(1,2) assms(1) by (auto simp: distinct_map inj_on_def)
  let ?clk = "if publish (pending_of m) = None then \<lambda>i. clk (i + 1) else clk"
  let ?p = "if publish (pending_of m) = None then p + 1 else p"
  let ?f = "if publish (pending_of m) = None then f else f + 1"
  have step: "relay_messages publish clk locked (m # ms) p f d = relay_messages publish ?clk locked ms ?p ?f ?d"
    using m'(2) by (cases "publish (pending_of m)") simp_all
  obtain res d' where d': "relay_messages publish ?clk locked ms ?p ?f ?d = Inr (res, d')"
    "rr_published res = ?p + accepted publish ms" "rr_selected res = ?p + ?f + int (length ms)"
    "rr_selected res = rr_published res + rr_failed res" "map ob_id (db_outbox d') = map ob_id (db_outbox ?d)"
    "\<forall>m \<in> set ms. \<exists>m' \<in> set (db_outbox d'). relayed publish m m'"
    "\<forall>m \<in> set (db_outbox ?d). ob_id m \<notin> ob_id ` set ms \<longrightarrow> m \<in> set (db_outbox d')"
    using Cons.IH [of ?d ?clk ?p ?f] Cons.prems(1,2) there by auto
  have "m' \<in> set (db_outbox ?d)"
    using Cons.prems(3) id by (auto simp: put_message_def intro!: in_put_row)
  then have "m' \<in> set (db_outbox d')" using d'(7) other id by auto
  moreover have "x \<in> set (db_outbox d')" if "x \<in> set (db_outbox d)" "ob_id x \<notin> ob_id ` set (m # ms)" for x
    using d'(7) that id put_row_keeps [of x "db_outbox d" ob_id m'] by (simp add: put_message_def)
  ultimately have "(\<forall>x \<in> set (m # ms). \<exists>x' \<in> set (db_outbox d'). relayed publish x x') \<and>
    (\<forall>x \<in> set (db_outbox d). ob_id x \<notin> ob_id ` set (m # ms) \<longrightarrow> x \<in> set (db_outbox d'))"
    using d'(6) m'(1) by (simp; blast)
  moreover have "rr_published res = p + accepted publish (m # ms)"
    "rr_selected res = p + f + int (length (m # ms))" "map ob_id (db_outbox d') = map ob_id (db_outbox d)"
    using d'(2,3,5) ids by (simp_all split: if_splits)
  ultimately show ?case unfolding step using d'(1,4) by blast
qed

lemma lock_pending_in:
  "set (lock_pending held topics n d) \<subseteq> {m \<in> set (db_outbox d). awaits topics m \<and> \<not> held (ob_id m)}"
  by (auto simp: lock_pending_def dest: in_set_takeD)

lemma lock_pending_distinct:
  assumes "distinct (map ob_id (db_outbox d))"
  shows "distinct (map ob_id (lock_pending held topics n d))"
proof -
  have "distinct (db_outbox d)" "inj_on ob_id (set (db_outbox d))" using assms by (simp_all add: distinct_map)
  then have "distinct (map ob_id (sort_key (\<lambda>m. (ob_occurred_at m, ob_id m))
      (filter (\<lambda>m. awaits topics m \<and> \<not> held (ob_id m)) (db_outbox d))))"
    by (auto simp: distinct_map intro: inj_on_subset)
  then show ?thesis unfolding lock_pending_def by (simp add: take_map [symmetric])
qed


lemma relay_once_Inr:
  assumes "distinct (map ob_id (db_outbox d))"
  shows "\<exists>res d'. relay_once held publish clk topics n d = Inr (res, d') \<and>
    rr_published res = accepted publish (lock_pending held topics n d) \<and>
    rr_selected res = int (length (lock_pending held topics n d)) \<and>
    rr_selected res = rr_published res + rr_failed res \<and> map ob_id (db_outbox d') = map ob_id (db_outbox d) \<and>
    (\<forall>m \<in> set (lock_pending held topics n d). \<exists>m' \<in> set (db_outbox d'). relayed publish m m') \<and>
    (\<forall>m \<in> set (db_outbox d). m \<notin> set (lock_pending held topics n d) \<longrightarrow> m \<in> set (db_outbox d'))"
proof -
  let ?ms = "lock_pending held topics n d"
  have dist: "distinct (map ob_id ?ms)" by (rule lock_pending_distinct [OF assms])
  have sub: "set ?ms \<subseteq> set (db_outbox d)" using lock_pending_in by blast
  have "distinct ?ms" using dist by (simp add: distinct_map)
  note batch = relay_messages_Inr [OF dist subset_refl this image_mono [OF sub], of publish clk 0 0]
  have "ob_id m \<notin> ob_id ` set ?ms" if "m \<in> set (db_outbox d)" "m \<notin> set ?ms" for m
    using that sub distinct_key_eq [OF assms] by blast
  with batch show ?thesis unfolding relay_once_def Let_def add_0 by blast
qed


text \<open>Two messages wait, one of another topic does not; the publisher refuses the first.\<close>

definition sample_message :: outbox_row where
  "sample_message = \<lparr>ob_id = 30, ob_aggregate_type = ''run'', ob_aggregate_id = 1, ob_topic = ''t'',
     ob_payload_json = JObj [], ob_occurred_at = 3, ob_published_at = None, ob_publish_attempts = 0,
     ob_error_json = None\<rparr>"

definition outbox_db :: db where
  "outbox_db = empty_db\<lparr>db_outbox := [sample_message\<lparr>ob_id := 31, ob_occurred_at := 4\<rparr>, sample_message,
     sample_message\<lparr>ob_id := 32, ob_topic := ''u''\<rparr>]\<rparr>"

lemma outbox_db_ids: "distinct (map ob_id (db_outbox outbox_db))"
  by (simp add: outbox_db_def sample_message_def)


section \<open>Many batches\<close>

lemma awaiting_after:
  assumes dist: "distinct (map ob_id (db_outbox d))"
  obtains res d' where "relay_once (\<lambda>_. False) (\<lambda>_. None) clk topics n d = Inr (res, d')"
    "length (filter (awaits topics) (db_outbox d')) = length (filter (awaits topics) (db_outbox d)) - nat n"
    "distinct (map ob_id (db_outbox d'))"
proof -
  let ?ms = "lock_pending (\<lambda>_. False) topics n d" and ?old = "filter (awaits topics) (db_outbox d)"
  obtain res d' where d': "relay_once (\<lambda>_. False) (\<lambda>_. None) clk topics n d = Inr (res, d')"
    and ids: "map ob_id (db_outbox d') = map ob_id (db_outbox d)"
    and sent: "\<forall>m \<in> set ?ms. \<exists>m' \<in> set (db_outbox d'). relayed (\<lambda>_. None) m m'"
    and kept: "\<forall>m \<in> set (db_outbox d). m \<notin> set ?ms \<longrightarrow> m \<in> set (db_outbox d')"
    using relay_once_Inr [OF dist, of "\<lambda>_. False" "\<lambda>_. None" clk topics n] by (elim exE conjE)
  have dist': "distinct (map ob_id (db_outbox d'))" using dist ids by simp
  have "w \<in> set ?old - set ?ms" if w: "w \<in> set (db_outbox d')" "awaits topics w" for w
  proof -
    have "ob_id w \<in> set (map ob_id (db_outbox d'))" using w(1) by simp
    then obtain m where m: "m \<in> set (db_outbox d)" "ob_id m = ob_id w" unfolding ids by auto
    have "m \<notin> set ?ms"
    proof
      assume "m \<in> set ?ms"
      then obtain m' where "m' \<in> set (db_outbox d')" "relayed (\<lambda>_. None) m m'" using sent by blast
      then show False using distinct_key_eq [OF dist' _ w(1), of m'] m(2) w(2) by (auto simp: relayed_def awaits_def)
    qed
    then have "m = w" using distinct_key_eq [OF dist' _ w(1) m(2)] kept m(1) by blast
    with \<open>m \<notin> set ?ms\<close> m(1) w(2) show ?thesis by simp
  qed
  then have "set (filter (awaits topics) (db_outbox d')) = set ?old - set ?ms" using kept by auto
  moreover have "distinct (filter (awaits topics) (db_outbox d'))" "distinct ?old" "distinct ?ms"
    using dist dist' lock_pending_distinct [OF dist] by (simp_all add: distinct_map)
  moreover have "set ?ms \<subseteq> set ?old" using lock_pending_in by fastforce
  ultimately have "length (filter (awaits topics) (db_outbox d')) = length ?old - length ?ms"
    by (metis card_Diff_subset distinct_card finite_set)
  also have "length ?ms = min (length ?old) (nat n)" by (simp add: lock_pending_def)
  finally show thesis using d' dist' by (intro that) auto
qed

text \<open>
  C21: every message is delivered. While the publisher accepts, repeated batches of size \<open>n\<close> empty the
  outbox: \<open>k\<close> batches are enough for \<open>k * n\<close> pending messages, whatever their order.
\<close>

theorem outbox_drains:
  assumes "distinct (map ob_id (db_outbox d))"
    and "length (filter (awaits topics) (db_outbox d)) \<le> length clks * nat n"
  shows "filter (awaits topics)
    (db_outbox (commit_all (\<lambda>clk. relay_once (\<lambda>_. False) (\<lambda>_. None) clk topics n) clks d)) = []"
  using assms
proof (induction clks arbitrary: d)
  case Nil
  then show ?case by simp
next
  case (Cons clk clks)
  obtain res d' where d': "relay_once (\<lambda>_. False) (\<lambda>_. None) clk topics n d = Inr (res, d')"
    "length (filter (awaits topics) (db_outbox d')) = length (filter (awaits topics) (db_outbox d)) - nat n"
    "distinct (map ob_id (db_outbox d'))"
    using awaiting_after [OF Cons.prems(1)] .
  then have "length (filter (awaits topics) (db_outbox d')) \<le> length clks * nat n"
    using Cons.prems(2) by (simp add: le_diff_conv)
  from Cons.IH [OF d'(3) this] d'(1) show ?case by simp
qed

lemma outbox_drains_witness:
  "filter (awaits [''t'']) (db_outbox (commit_all (\<lambda>clk. relay_once (\<lambda>_. False) (\<lambda>_. None) clk [''t''] 1)
     [\<lambda>_. 7, \<lambda>_. 8] outbox_db)) = []"
proof -
  have "length (filter (awaits [''t'']) (db_outbox outbox_db)) \<le> length [\<lambda>_ :: nat. 7 :: int, \<lambda>_. 8] * nat 1"
    by (simp add: outbox_db_def awaits_def sample_message_def)
  from outbox_drains [OF outbox_db_ids this] show ?thesis .
qed

end
