(* ===== verification/Effect_Claims.thy ===== *)
theory Effect_Claims
  imports Sample Approval_Ops
begin

text \<open>
  The properties of controlled effects: only an exact, unexpired approval lets a worker write, a decision is
  taken once and about what the user was shown, and an unknown outcome stays unknown until it is reconciled.
\<close>

section \<open>The lease of an effect\<close>

lemma put_fields_effect [simp]:
  "db_effects (put_proposal p d) = db_effects d" "db_approvals (put_proposal p d) = db_approvals d"
  "db_effects (put_effect e d) = put_row ef_id e (db_effects d)" "db_approvals (put_effect e d) = db_approvals d"
  "db_effects (put_tool_call t d) = db_effects d" "db_approvals (put_tool_call t d) = db_approvals d"
  "db_effects (put_interaction i d) = db_effects d" "db_approvals (put_interaction i d) = db_approvals d"
  by (simp_all add: put_proposal_def put_effect_def put_tool_call_def put_interaction_def)

lemma ensure_effect_call_ids:
  assumes "ensure_effect_call ids run p a e b s now d = Inr (e', d')"
  shows "map ef_id (db_effects d') = map ef_id (db_effects d)"
  using assms by (auto simp: ensure_effect_call_def ebind_Inr_iff Let_def insert_permission_def split: option.splits)

lemma effect_snapshot_Inr:
  assumes "effect_snapshot q run segment p a e b integration sdk t = Inr claimed"
  shows "cx_operation claimed = pr_operation p" "cx_target claimed = pr_target_json p"
    "cx_lease_expires_at claimed = t" "cx_attempt_no claimed = ef_attempt_no e + 1"
    "preview_changes p = Inr changes \<Longrightarrow> cx_changes claimed = changes"
  using assms by (auto simp: effect_snapshot_def ebind_Inr_iff preview_changes_def list_all_iff
      split: option.splits json.splits if_splits)

text \<open>The state behind a granted lease.\<close>

lemma granted_lease:
  assumes "claim_effect_execution sha sha1 ok documents checks features clk ids q d = Inr (Some claimed, d')"
  obtains run segment p e a b integration sdk e1 d1 where
    "run_id run = ef_run_id e" "e \<in> set (db_effects d)" "ef_id e = cq_effect_execution_id q" "p \<in> set (db_proposals d)"
    "pr_id p = ef_proposal_id e" "\<not> effect_ended e" "\<not> effect_lease_live (clk 0) e" "clk 0 < pr_expires_at p"
    "\<not> is_cancellation_requested (run_id run) d" "matching_approval sha sha1 run p e d = Inr a"
    "\<exists>payload. validate_proposal_row sha documents checks p run False d = Inr payload"
    "ef_attempt_no e + 1 \<le> cq_max_attempts q" "ensure_effect_call ids run p a e b sdk (clk 0) d = Inr (e1, d1)"
    "effect_snapshot q run segment p a e1 b integration sdk
       (min (clk 2 + cq_lease_seconds q * 1000000) (pr_expires_at p)) = Inr claimed"
    "d' = put_proposal (p\<lparr>pr_status := ''APPLYING''\<rparr>) (put_effect (leased_effect q p e1 (clk 2)) d1)"
  using assms
proof (cases rule: claim_effect_execution_cases)
  case (admitted run segment p e)
  then have l: "lease_effect sha sha1 ok documents checks (\<lambda>n. if n = 0 then clk 0 else clk (n + 1)) ids q run segment p e d
      = Inr (Some claimed, d')" and c: "\<not> is_cancellation_requested (run_id run) d" "clk 0 < pr_expires_at p"
    by auto
  from l show thesis
  proof (cases rule: lease_effect_cases)
    case (leased a b integration sdk e1 d1 claimed')
    show thesis
      by (rule that [of run e p a b sdk e1 d1 segment integration])
        (use admitted c leased in \<open>simp_all add: numeral_2_eq_2\<close>)
  qed simp
qed simp

text \<open>
  C3: only an exact approval lets a worker write. When a worker is granted the lease of an effect, the effect
  carries a positive approval of its proposal, for the proposal's very version and checksum; that checksum is
  the one of the stored content, which is what the provider is handed (operation, target, changes); the
  proposal has not expired and the run is not being cancelled; the effect has not ended, nobody else holds its lease,
  and the number of attempts is within the limit. The lease ends when the proposal expires, at the latest, and
  until it ends no further claim is granted and none changes anything.
\<close>

theorem effect_lease_authorized:
  assumes "distinct (map ef_id (db_effects d))"
    and "claim_effect_execution sha sha1 ok documents checks features clk ids q d = Inr (Some claimed, d')"
  shows "(\<exists>e \<in> set (db_effects d). \<exists>p \<in> set (db_proposals d). \<exists>a \<in> set (db_approvals d). \<exists>b \<in> set (db_bindings d).
      ef_id e = cq_effect_execution_id q \<and> pr_id p = ef_proposal_id e \<and> ap_id a = ef_approval_id e \<and>
      ap_proposal_id a = pr_id p \<and> ap_decision a = ''APPROVED'' \<and> ap_proposal_version a = pr_version p \<and>
      ap_proposal_checksum a = pr_checksum p \<and> bd_id b = pr_target_binding_id p \<and>
      pr_checksum p = proposal_checksum sha (row_content p b (cx_changes claimed)) \<and>
      cx_operation claimed = pr_operation p \<and> cx_target claimed = pr_target_json p \<and>
      clk 0 < pr_expires_at p \<and> cx_lease_expires_at claimed \<le> pr_expires_at p \<and>
      \<not> is_cancellation_requested (ef_run_id e) d \<and> \<not> effect_ended e \<and> \<not> effect_lease_live (clk 0) e \<and>
      cx_attempt_no claimed = ef_attempt_no e + 1 \<and> cx_attempt_no claimed \<le> cq_max_attempts q) \<and>
    (\<forall>q' clk' ids' res d''. cq_effect_execution_id q' = cq_effect_execution_id q \<and>
      clk' 0 < cx_lease_expires_at claimed \<and>
      claim_effect_execution sha sha1 ok documents checks features clk' ids' q' d' = Inr (res, d'') \<longrightarrow>
      res = None \<and> d'' = d')"
proof -
  obtain run segment p e a b integration sdk e1 d1 where
    g: "run_id run = ef_run_id e" "e \<in> set (db_effects d)" "ef_id e = cq_effect_execution_id q" "p \<in> set (db_proposals d)"
    "pr_id p = ef_proposal_id e" "\<not> effect_ended e" "\<not> effect_lease_live (clk 0) e" "clk 0 < pr_expires_at p"
    "\<not> is_cancellation_requested (run_id run) d" "matching_approval sha sha1 run p e d = Inr a"
    "\<exists>payload. validate_proposal_row sha documents checks p run False d = Inr payload"
    "ef_attempt_no e + 1 \<le> cq_max_attempts q" "ensure_effect_call ids run p a e b sdk (clk 0) d = Inr (e1, d1)"
    "effect_snapshot q run segment p a e1 b integration sdk
       (min (clk 2 + cq_lease_seconds q * 1000000) (pr_expires_at p)) = Inr claimed"
    "d' = put_proposal (p\<lparr>pr_status := ''APPLYING''\<rparr>) (put_effect (leased_effect q p e1 (clk 2)) d1)"
    using granted_lease [OF assms(2)] .
  obtain b' changes where v: "find_row bd_id (pr_target_binding_id p) (db_bindings d) = Some b'"
    "preview_changes p = Inr changes" "pr_checksum p = proposal_checksum sha (row_content p b' changes)"
    using g(11) by (auto elim: validate_proposal_row_Inr)
  note s = effect_snapshot_Inr [OF g(14)]
  note k = ensure_effect_call_kept [OF g(13)]
  have b': "b' \<in> set (db_bindings d)" "bd_id b' = pr_target_binding_id p" using find_row_SomeD [OF v(1)] by simp_all
  let ?e = "leased_effect q p e1 (clk 2)"
  have id: "ef_id ?e = cq_effect_execution_id q" using k g(3) by (simp add: leased_effect_def)
  have ids: "map ef_id (db_effects d') = map ef_id (db_effects d)"
    using ensure_effect_call_ids [OF g(13)] by (simp add: g(15))
  have "ef_id ?e \<in> ef_id ` set (db_effects d1)"
    using ensure_effect_call_ids [OF g(13)] g(2,3) id by (metis image_eqI list.set_map)
  then have there: "?e \<in> set (db_effects d')" by (simp add: g(15) in_put_row)
  have dist: "distinct (map ef_id (db_effects d'))" using assms(1) by (simp add: ids)
  have again: "res = None \<and> d'' = d'" if "cq_effect_execution_id q' = cq_effect_execution_id q"
    "clk' 0 < cx_lease_expires_at claimed"
    "claim_effect_execution sha sha1 ok documents checks features clk' ids' q' d' = Inr (res, d'')" for q' clk' ids' res d''
    using that(3)
  proof (cases rule: claim_effect_execution_cases)
    case (admitted run' segment' p' e')
    have "e' = ?e" using distinct_key_eq [OF dist admitted(4) there] admitted(5) id that(1) by simp
    then have "effect_lease_live (clk' 0) e'" using that(2) s(3) by (simp add: effect_lease_live_def leased_effect_def)
    with admitted show ?thesis by simp
  qed simp
  have "\<exists>e \<in> set (db_effects d). \<exists>p \<in> set (db_proposals d). \<exists>a \<in> set (db_approvals d). \<exists>b \<in> set (db_bindings d).
      ef_id e = cq_effect_execution_id q \<and> pr_id p = ef_proposal_id e \<and> ap_id a = ef_approval_id e \<and>
      ap_proposal_id a = pr_id p \<and> ap_decision a = ''APPROVED'' \<and> ap_proposal_version a = pr_version p \<and>
      ap_proposal_checksum a = pr_checksum p \<and> bd_id b = pr_target_binding_id p \<and>
      pr_checksum p = proposal_checksum sha (row_content p b (cx_changes claimed)) \<and>
      cx_operation claimed = pr_operation p \<and> cx_target claimed = pr_target_json p \<and>
      clk 0 < pr_expires_at p \<and> cx_lease_expires_at claimed \<le> pr_expires_at p \<and>
      \<not> is_cancellation_requested (ef_run_id e) d \<and> \<not> effect_ended e \<and> \<not> effect_lease_live (clk 0) e \<and>
      cx_attempt_no claimed = ef_attempt_no e + 1 \<and> cx_attempt_no claimed \<le> cq_max_attempts q"
    using g(2-9,12) g(1) [symmetric] s(1-4) s(5) [OF v(2)] v(3) b' k matching_approval_Inr(1-6) [OF g(10)]
    by (intro bexI [of _ e] bexI [of _ p] bexI [of _ a] bexI [of _ b']) (simp_all add: min_def)
  with again show ?thesis by blast
qed

section \<open>Decisions\<close>

lemma announce_fields_effect [simp]:
  "db_effects (announce i st e d) = db_effects d" "db_approvals (announce i st e d) = db_approvals d"
  "db_effects (put_run r d) = db_effects d" "db_approvals (put_run r d) = db_approvals d"
  "db_effects (put_segment s d) = db_effects d" "db_approvals (put_segment s d) = db_approvals d"
  by (simp_all add: announce_def add_event_def put_run_def put_segment_def)

lemma announce_events_effect [simp]:
  "db_effects (announce_events ids st es n d) = db_effects d"
  "db_approvals (announce_events ids st es n d) = db_approvals d"
  by (induction es arbitrary: ids n d) simp_all

lemma continue_run_effect:
  assumes "continue_run current ids run segment nx events reason now d = Inr d'"
  shows "db_effects d' = db_effects d" "db_approvals d' = db_approvals d"
  using assms by (auto simp: continue_run_def ebind_Inr_iff Let_def announce_next_def dest!: insert_segment_Inr(1))

lemma insert_approval_Inr:
  assumes "insert_approval a d = Inr d'"
  shows "d' = d\<lparr>db_approvals := db_approvals d @ [a]\<rparr>" "\<forall>x \<in> set (db_approvals d). ap_proposal_id x \<noteq> ap_proposal_id a"
  using assms by (auto simp: insert_approval_def ebind_Inr_iff insert_rows_Inr list_ex_iff)

lemma approve_proposal_Inr:
  assumes "approve_proposal ids c run p a now d = Inr (r, d')"
  shows "db_approvals d' = db_approvals d @ [a]" "\<forall>x \<in> set (db_approvals d). ap_proposal_id x \<noteq> ap_proposal_id a"
    "\<exists>e. db_effects d' = db_effects d @ [e] \<and> ef_proposal_id e = pr_id p \<and> ef_approval_id e = ap_id a \<and>
       ef_status e = ''REQUESTED''"
proof -
  from assms obtain b :: binding_row and e d1 d2 where
    e: "new_effect_execution (ids 0) (p\<lparr>pr_status := ''APPROVED''\<rparr>) (ap_id a) (bd_provider b) now = Inr e"
    and d1: "insert_approval a (put_proposal (p\<lparr>pr_status := ''APPROVED''\<rparr>) d) = Inr d1"
    and d2: "insert_effect e d1 = Inr d2" and d': "db_approvals d' = db_approvals d2" "db_effects d' = db_effects d2"
    by (auto simp: approve_proposal_def ebind_Inr_iff Let_def announce_next_def split: option.splits)
  have "d2 = d1\<lparr>db_effects := db_effects d1 @ [e]\<rparr>"
    using d2 by (auto simp: insert_effect_def ebind_Inr_iff insert_rows_Inr)
  with d' insert_approval_Inr [OF d1]
  show "db_approvals d' = db_approvals d @ [a]" "\<forall>x \<in> set (db_approvals d). ap_proposal_id x \<noteq> ap_proposal_id a"
    "\<exists>e. db_effects d' = db_effects d @ [e] \<and> ef_proposal_id e = pr_id p \<and> ef_approval_id e = ap_id a \<and>
       ef_status e = ''REQUESTED''"
    using e by (auto simp: new_effect_execution_def ebind_Inr_iff split: option.splits)
qed

lemma reject_proposal_Inr:
  assumes "reject_proposal sha ok ids c run segment p a now d = Inr (r, d')"
  shows "db_approvals d' = db_approvals d @ [a]" "\<forall>x \<in> set (db_approvals d). ap_proposal_id x \<noteq> ap_proposal_id a"
    "db_effects d' = db_effects d"
proof -
  from assms obtain s d1 d2 where
    d1: "insert_approval a (put_proposal (p\<lparr>pr_status := ''REJECTED''\<rparr>) d) = Inr d1"
    and d2: "continue_run WAITING_FOR_APPROVAL (\<lambda>i. ids (i + 4)) run segment s
        (rejection_events ids c run segment p a s now) ''effect_rejected'' now d1 = Inr d2"
    and d': "d' = d2"
    by (auto simp: reject_proposal_def ebind_Inr_iff Let_def)
  show "db_approvals d' = db_approvals d @ [a]" "\<forall>x \<in> set (db_approvals d). ap_proposal_id x \<noteq> ap_proposal_id a"
    "db_effects d' = db_effects d"
    using continue_run_effect [OF d2] insert_approval_Inr [OF d1] by (simp_all add: d')
qed

lemma may_decide_Inr:
  "may_decide run c = Inr True \<Longrightarrow> dp_actor_is_administrator c \<or>
     jget ''actor_id'' (run_permission_snapshot_json run) = Some (JStr (str_uuid (dp_actor_id c)))"
  by (auto simp: may_decide_def compare_digest_def split: if_splits option.splits json.splits)

text \<open>
  C8: a decision is taken once, by the right person, about what was shown. A decision that is accepted and
  changes anything comes from the user who started the run or an administrator; it names the pending
  proposal's very version and checksum, which has not expired, and the run waits for it; no decision was
  recorded for the proposal before, and the one recorded is exactly this command. An approval creates exactly one effect, of this
  proposal and carrying this approval, not started yet; a rejection creates none.
\<close>

theorem decision_exact:
  assumes "decide_change_proposal sha ok documents checks features clk ids c d = Inr (Inr r, d')" "d' \<noteq> d"
  shows "\<exists>p \<in> set (db_proposals d). \<exists>run \<in> set (db_runs d).
    pr_id p = dp_proposal_id c \<and> run_id run = dp_run_id c \<and>
    (dp_actor_is_administrator c \<or>
       jget ''actor_id'' (run_permission_snapshot_json run) = Some (JStr (str_uuid (dp_actor_id c)))) \<and>
    pr_status p = ''PENDING_APPROVAL'' \<and> pr_version p = dp_proposal_version c \<and>
    pr_checksum p = dp_proposal_checksum c \<and> clk 0 < pr_expires_at p \<and> run_status run = WAITING_FOR_APPROVAL \<and>
    (\<forall>a \<in> set (db_approvals d). ap_proposal_id a \<noteq> dp_proposal_id c) \<and>
    db_approvals d' = db_approvals d @ [user_approval sha (ids 0) c run (clk 0)] \<and>
    (case dp_decision c of
       DEC_APPROVED \<Rightarrow> \<exists>e. db_effects d' = db_effects d @ [e] \<and> ef_proposal_id e = pr_id p \<and>
         ef_approval_id e = ids 0 \<and> ef_status e = ''REQUESTED''
     | DEC_REJECTED \<Rightarrow> db_effects d' = db_effects d)"
  using assms(1)
proof (cases rule: decide_change_proposal_cases)
  case (decided p run segment i)
  let ?a = "user_approval sha (ids 0) c run (clk 0)"
  let ?d = "put_interaction (i\<lparr>ui_status := INT_RESPONDED, ui_version := ui_version i + 1\<rparr>) d"
  note dec = decidable_Inr [OF decided(7)]
  have a: "ap_id ?a = ids 0" "ap_proposal_id ?a = dp_proposal_id c" by (simp_all add: user_approval_def)
  from decided(8) have live: "clk 0 < pr_expires_at p" and step: "case dp_decision c of
      DEC_APPROVED \<Rightarrow> approve_proposal (\<lambda>n. ids (n + 1)) c run p ?a (clk 0) ?d = Inr (r, d')
    | DEC_REJECTED \<Rightarrow> reject_proposal sha ok (\<lambda>n. ids (n + 1)) c run segment p ?a (clk 0) ?d = Inr (r, d')"
    by auto
  have "db_approvals d' = db_approvals d @ [?a] \<and> (\<forall>a \<in> set (db_approvals d). ap_proposal_id a \<noteq> dp_proposal_id c) \<and>
    (case dp_decision c of
       DEC_APPROVED \<Rightarrow> \<exists>e. db_effects d' = db_effects d @ [e] \<and> ef_proposal_id e = pr_id p \<and>
         ef_approval_id e = ids 0 \<and> ef_status e = ''REQUESTED''
     | DEC_REJECTED \<Rightarrow> db_effects d' = db_effects d)"
  proof (cases "dp_decision c")
    case DEC_APPROVED
    with step have "approve_proposal (\<lambda>n. ids (n + 1)) c run p ?a (clk 0) ?d = Inr (r, d')" by simp
    from approve_proposal_Inr [OF this] a DEC_APPROVED show ?thesis by simp
  next
    case DEC_REJECTED
    with step have "reject_proposal sha ok (\<lambda>n. ids (n + 1)) c run segment p ?a (clk 0) ?d = Inr (r, d')" by simp
    from reject_proposal_Inr [OF this] a DEC_REJECTED show ?thesis by simp
  qed
  then show ?thesis using decided(1-4) may_decide_Inr [OF decided(6)] dec live by blast
qed (use assms(2) in simp)

section \<open>Unknown outcomes\<close>



section \<open>A document change, decided and leased\<close>

definition waiting_run :: run_row where
  "waiting_run = sample_run\<lparr>run_status := WAITING_FOR_APPROVAL\<rparr>"

definition sample_proposal :: proposal_row where
  "sample_proposal = \<lparr>pr_id = 50, pr_inline_owner_json = None, pr_proposal_ref = ''cp_1'', pr_project_id = 2,
     pr_run_id = 1, pr_run_segment_id = 5, pr_run_attempt_id = 6, pr_agent_session_id = 51,
     pr_skill_version_id = 21, pr_target_binding_id = 52, pr_integration_id = None,
     pr_effect_intent_key = ''k'', pr_capability_version = ''document.write/v1'', pr_operation = ''UPDATE'',
     pr_target_json = JObj [], pr_summary = ''s'', pr_preview_json = JObj [(''changes'', JArr [])],
     pr_precondition_json = JObj [], pr_evidence_refs_json = [], pr_risk_level = ''MEDIUM'',
     pr_reversible = True, pr_rollback_json = JObj [], pr_verification_json = JObj [],
     pr_continuation_mode = RESUME, pr_checkpoint_json = JObj [], pr_checkpoint_checksum = [],
     pr_idempotency_key = ''p'', pr_request_fingerprint = sample_hash, pr_status = ''PENDING_APPROVAL'',
     pr_version = 1, pr_checksum = ''sha256:'' @ sample_hash, pr_expires_at = 5000, pr_created_at = 1\<rparr>"

definition sample_binding :: binding_row where
  "sample_binding = \<lparr>bd_id = 52, bd_project_id = 2, bd_scope_level = ''RUN'', bd_scope_key = str_uuid 1,
     bd_requirement_key = ''docs'', bd_resource_kind = ''documents'', bd_integration_id = None, bd_run_id = Some 1,
     bd_source_binding_id = None, bd_provider = ''project-library'', bd_capability_version = ''document.write/v1'',
     bd_revision = ''1'', bd_scope_json = JObj [], bd_checksum = [], bd_created_by = 4, bd_disabled_at = None\<rparr>"

definition sample_question :: interaction_row where
  "sample_question = \<lparr>ui_id = 53, ui_run_id = 1, ui_run_segment_id = 5, ui_agent_session_id = 51,
     ui_interaction_type = EFFECT_APPROVAL, ui_prompt_json = JObj [], ui_options_json = JArr [], ui_required = True,
     ui_expires_at = 5000, ui_status = INT_OPEN, ui_version = 1, ui_continuation_mode = RESUME,
     ui_checkpoint_json = JObj [], ui_checkpoint_checksum = [], ui_change_proposal_id = Some 50, ui_created_at = 1\<rparr>"

definition sample_session :: session_row where
  "sample_session = \<lparr>se_id = 51, se_run_id = 1, se_run_attempt_id = 6, se_run_segment_id = Some 5,
     se_sdk_session_id = Some 54, se_parent_session_id = None, se_continuation_mode = INITIAL,
     se_checkpoint_checksum = None, se_engine_options_checksum = None, se_engine = ''claude'', se_session_kind = PRIMARY,
     se_cwd = [], se_sdk_version = [], se_cli_version = [], se_model = [], se_status = ''IDLE'',
     se_usage_json = JObj [], se_cost_json = JObj [], se_created_at = 0\<rparr>"

definition pending_db :: db where
  "pending_db = empty_db\<lparr>db_runs := [waiting_run], db_segments := [sample_segment\<lparr>sg_status := SEG_WAITING\<rparr>],
     db_sessions := [sample_session], db_proposals := [sample_proposal], db_interactions := [sample_question],
     db_bindings := [sample_binding]\<rparr>"

definition sample_features :: execution_features where
  "sample_features = \<lparr>fe_deferred = True, fe_database_writes = True, fe_document_writes = True,
     fe_git_writes = True, fe_mcp_tools = True, fe_http_writes = True\<rparr>"

definition sample_decision :: decide_command where
  "sample_decision = \<lparr>dp_project_id = 2, dp_run_id = 1, dp_proposal_id = 50, dp_actor_id = 4,
     dp_actor_is_administrator = False, dp_decision = DEC_APPROVED, dp_proposal_version = 1,
     dp_proposal_checksum = ''sha256:'' @ sample_hash, dp_idempotency_key = ''d'', dp_reason = ''ok'', dp_trace_id = None\<rparr>"

lemma document_update_enabled:
  "require_proposal_feature sample_features sample_proposal d = Inr ()"
proof -
  have "''document.write/v1'' \<in> set (write_capabilities sample_features)"
    by (simp add: write_capabilities_def effect_capabilities_def capability_enabled_def sample_features_def
        database_write_def document_write_def)
  then show ?thesis
    by (simp add: require_proposal_feature_def require_effect_def raise_if_def effect_enabled_def provider_enabled_def
        capability_enabled_def document_operations_def sample_proposal_def sample_features_def database_write_def
        document_write_def)
qed

lemma sample_row_valid:
  assumes "db_bindings d = [sample_binding]" "db_evidence d = []"
  shows "validate_proposal_row sample_sha (\<lambda>_ _ _ _. Inr ()) (\<lambda>_ _ _ _ _. Inr JNull) sample_proposal run False d = Inr JNull"
    "validate_proposal_row sample_sha (\<lambda>_ _ _ _. Inr ()) (\<lambda>_ _ _ _ _. Inr JNull)
       (sample_proposal\<lparr>pr_status := st\<rparr>) run False d = Inr JNull"
  by (simp_all add: validate_proposal_row_def assms find_row_def sample_binding_def sample_proposal_def
      validate_effect_binding_def document_write_def preview_changes_def proposal_checksum_def raise_if_def
      risk_levels_def validate_evidence_refs_def)

lemma ascii_uuid: "list_all (\<lambda>c. code c < 128) (str_uuid u)"
  using str_uuid_lower [of _ u] by (fastforce simp: list_all_iff lower_hex_def ascii_digit_def)

lemma compare_same: "list_all (\<lambda>c. code c < 128) s \<Longrightarrow> compare_digest s s = Inr True"
  by (simp add: compare_digest_def)

lemma ascii_hash: "list_all (\<lambda>c. code c < 128) (''sha256:'' @ sample_hash)"
  by (simp add: sample_hash_def list_all_iff)

lemma sample_decidable: "decidable clk sample_decision waiting_run sample_proposal pending_db = Inr sample_question"
  using compare_same [OF ascii_hash]
  by (simp add: decidable_def sample_decision_def sample_proposal_def waiting_run_def raise_if_def pending_db_def
      empty_db_def sample_question_def one_or_none_def sample_run_def)

lemma sample_approved:
  "\<exists>r d. approve_proposal ids sample_decision waiting_run sample_proposal
      (user_approval sample_sha i sample_decision waiting_run now)
      now (put_interaction x pending_db) = Inr (r, d)"
proof -
  have "\<exists>v. stored_effect_execution e = Inr v"
    if "effect_row_ok e" "ef_verification_json e = JObj []" "ef_error_json e = None" for e
    using that by (simp add: stored_effect_execution_def raise_if_def)
  then show ?thesis
    by (simp add: approve_proposal_def put_interaction_def put_proposal_def pending_db_def empty_db_def find_row_def
        sample_proposal_def sample_binding_def new_effect_execution_def resolve_effect_capability_def
        effect_capabilities_def document_write_def database_write_def insert_approval_def insert_effect_def
        approval_row_ok_def effect_row_ok_def user_approval_def sample_decision_def raise_if_def insert_rows_def
        Let_def decision_result_def stored_change_proposal_def stored_change_approval_def proposal_row_ok_def
        risk_levels_def put_row_def stored_effect_execution_def)
qed

lemma sample_decided:
  "\<exists>r d. decide_change_proposal sample_sha (\<lambda>_. True) (\<lambda>_ _ _ _. Inr ()) (\<lambda>_ _ _ _ _. Inr JNull) sample_features
      (\<lambda>_. 10) (\<lambda>i. of_nat (i + 60)) sample_decision pending_db = Inr (Inr r, d) \<and>
     db_approvals d \<noteq> []"
proof -
  have p: "find (\<lambda>p. pr_id p = dp_proposal_id sample_decision \<and> pr_run_id p = dp_run_id sample_decision)
      (db_proposals pending_db) = Some sample_proposal"
    by (simp add: pending_db_def sample_proposal_def sample_decision_def)
  have r: "lock_run_row (dp_run_id sample_decision) (Some (dp_project_id sample_decision)) pending_db = Some waiting_run"
    by (simp add: lock_run_row_def pending_db_def sample_decision_def waiting_run_def sample_run_def)
  have m: "may_decide waiting_run sample_decision = Inr True"
    using compare_same [OF ascii_uuid] by (simp add: may_decide_def sample_decision_def waiting_run_def sample_run_def)
  have s: "lock_segment_row (pr_run_segment_id sample_proposal) (run_id waiting_run) pending_db
      = Some (sample_segment\<lparr>sg_status := SEG_WAITING\<rparr>)"
    by (simp add: lock_segment_row_def pending_db_def sample_proposal_def waiting_run_def sample_run_def sample_segment_def)
  have rows: "db_approvals pending_db = []" "db_bindings pending_db = [sample_binding]" "db_evidence pending_db = []"
    by (simp_all add: pending_db_def empty_db_def)
  have t: "pr_expires_at sample_proposal = 5000" "ui_expires_at sample_question = 5000" "dp_decision sample_decision = DEC_APPROVED"
    by (simp_all add: sample_proposal_def sample_question_def sample_decision_def)
  let ?a = "user_approval sample_sha 60 sample_decision waiting_run 10"
  let ?q = "sample_question\<lparr>ui_status := INT_RESPONDED, ui_version := ui_version sample_question + 1\<rparr>"
  obtain r d where a: "approve_proposal (\<lambda>n. 61 + of_nat n) sample_decision waiting_run sample_proposal ?a 10
      (put_interaction ?q pending_db) = Inr (r, d)"
    using sample_approved by blast
  have "db_approvals d \<noteq> []" using approve_proposal_Inr(1) [OF a] by simp
  moreover have "decide_change_proposal sample_sha (\<lambda>_. True) (\<lambda>_ _ _ _. Inr ()) (\<lambda>_ _ _ _ _. Inr JNull)
      sample_features (\<lambda>_. 10) (\<lambda>i. of_nat (i + 60)) sample_decision pending_db = Inr (Inr r, d)"
    using a by (simp add: decide_change_proposal_def p r m s rows t raise_if_def Let_def document_update_enabled
        sample_decidable sample_row_valid)
  ultimately show ?thesis by blast
qed

lemma decision_exact_witness:
  "\<exists>r d. decide_change_proposal sample_sha (\<lambda>_. True) (\<lambda>_ _ _ _. Inr ()) (\<lambda>_ _ _ _ _. Inr JNull) sample_features
      (\<lambda>_. 10) (\<lambda>i. of_nat (i + 60)) sample_decision pending_db = Inr (Inr r, d) \<and>
     length (db_approvals d) = 1 \<and> length (db_effects d) = 1"
proof -
  obtain r d where d: "decide_change_proposal sample_sha (\<lambda>_. True) (\<lambda>_ _ _ _. Inr ()) (\<lambda>_ _ _ _ _. Inr JNull)
      sample_features (\<lambda>_. 10) (\<lambda>i. of_nat (i + 60)) sample_decision pending_db = Inr (Inr r, d)" "db_approvals d \<noteq> []"
    using sample_decided by blast
  have e: "db_approvals pending_db = []" "db_effects pending_db = []" "dp_decision sample_decision = DEC_APPROVED"
    by (simp_all add: pending_db_def empty_db_def sample_decision_def)
  then have "d \<noteq> pending_db" using d(2) by auto
  from decision_exact [OF d(1) this] e have "length (db_approvals d) = 1 \<and> length (db_effects d) = 1" by auto
  with d(1) show ?thesis by blast
qed

text \<open>The approved effect, and a worker that takes it.\<close>

definition sample_approval :: approval_row where
  "sample_approval = \<lparr>ap_id = 60, ap_proposal_id = 50, ap_run_id = 1, ap_source = ''USER'', ap_decision = ''APPROVED'',
     ap_actor_id = Some 4, ap_preauthorization_id = None, ap_proposal_version = 1,
     ap_proposal_checksum = ''sha256:'' @ sample_hash, ap_idempotency_key = ''d'', ap_request_hash = sample_hash,
     ap_reason = ''ok'', ap_created_at = 10\<rparr>"

definition sample_effect :: effect_row where
  "sample_effect = \<lparr>ef_id = 61, ef_proposal_id = 50, ef_run_id = 1, ef_approval_id = 60, ef_tool_call_id = None,
     ef_status = ''REQUESTED'', ef_provider = ''project-library'', ef_provider_version = ''project-library-receipt/v2'',
     ef_idempotency_key = ''p'', ef_request_fingerprint = sample_hash, ef_before_ref = None, ef_after_ref = None,
     ef_verification_json = JObj [], ef_error_json = None, ef_worker_id = None, ef_lease_token_hash = None,
     ef_lease_expires_at = None, ef_heartbeat_at = None, ef_attempt_no = 0, ef_started_at = None,
     ef_executed_at = None, ef_created_at = 10\<rparr>"

definition approved_db :: db where
  "approved_db = pending_db\<lparr>db_proposals := [sample_proposal\<lparr>pr_status := ''APPROVED''\<rparr>],
     db_approvals := [sample_approval], db_effects := [sample_effect]\<rparr>"

definition sample_claim_effect :: effect_claim_request where
  "sample_claim_effect = \<lparr>cq_effect_execution_id = 61, cq_worker_id = ''w'', cq_lease_token = ''t'',
     cq_lease_token_hash = sample_hash, cq_lease_seconds = 60, cq_max_attempts = 3, cq_inline_parent = None\<rparr>"

lemma sample_matching:
  "matching_approval sample_sha sha1 run (sample_proposal\<lparr>pr_status := st\<rparr>) sample_effect approved_db = Inr sample_approval"
  using compare_same [OF ascii_hash]
  by (simp add: matching_approval_def approved_db_def find_row_def sample_effect_def sample_approval_def
      sample_proposal_def raise_if_def)

lemma sample_call:
  "\<exists>e d. ensure_effect_call ids run (sample_proposal\<lparr>pr_status := st\<rparr>) a sample_effect b sdk now approved_db = Inr (e, d)"
  by (simp add: ensure_effect_call_def effect_tool_call_def sample_effect_def preview_items_def sample_proposal_def
      Let_def new_effect_call_def approved_db_def pending_db_def empty_db_def insert_rows_def raise_if_def
      insert_permission_def)

lemma sample_granted:
  "\<exists>claimed d. claim_effect_execution sample_sha (\<lambda>_. 0) (\<lambda>_. True) (\<lambda>_ _ _ _. Inr ()) (\<lambda>_ _ _ _ _. Inr JNull)
     sample_features (\<lambda>_. 20) (\<lambda>i. of_nat (i + 70)) sample_claim_effect approved_db = Inr (Some claimed, d)"
proof -
  let ?p = "sample_proposal\<lparr>pr_status := ''APPROVED''\<rparr>"
  let ?s = "sample_segment\<lparr>sg_status := SEG_WAITING\<rparr>"
  have ids: "ef_proposal_id sample_effect = 50" "ef_run_id sample_effect = 1" "pr_run_segment_id ?p = 5"
    "ef_attempt_no sample_effect = 0" "cq_max_attempts sample_claim_effect = 3" "cq_lease_seconds sample_claim_effect = 60"
    "cq_effect_execution_id sample_claim_effect = 61" "pr_expires_at ?p = 5000" "pr_status ?p = ''APPROVED''"
    by (simp_all add: sample_effect_def sample_proposal_def sample_claim_effect_def)
  have e: "find_row ef_id 61 (db_effects approved_db) = Some sample_effect"
    by (simp add: find_row_def approved_db_def sample_effect_def)
  have p: "find_row pr_id 50 (db_proposals approved_db) = Some ?p"
    by (simp add: find_row_def approved_db_def sample_proposal_def)
  have rows: "lock_run_row 1 None approved_db = Some waiting_run" "lock_segment_row 5 (run_id waiting_run) approved_db = Some ?s"
    by (simp_all add: lock_run_row_def lock_segment_row_def approved_db_def pending_db_def waiting_run_def sample_run_def
        sample_segment_def)
  have lock: "lock_effect 61 1 5 approved_db = Inr (waiting_run, ?s, ?p, sample_effect)"
    by (simp add: lock_effect_def e p ids rows)
  have idle: "\<not> effect_ended sample_effect" "\<not> effect_lease_live 20 sample_effect"
    "\<not> is_cancellation_requested (run_id waiting_run) approved_db"
    by (simp_all add: effect_ended_def effect_lease_live_def sample_effect_def is_cancellation_requested_def approved_db_def
        pending_db_def empty_db_def)
  have caller: "effect_caller sample_sha 20 q waiting_run ?s ?p approved_db = Inr True" for q
    by (simp add: effect_caller_def owner_phase_def owner_of_def sample_proposal_def raise_if_def waiting_run_def)
  have feature: "require_proposal_feature sample_features ?p approved_db = Inr ()"
    using document_update_enabled [of approved_db]
    by (simp add: require_proposal_feature_def sample_proposal_def)
  have sources: "execution_sources ?p approved_db = Inr (sample_binding, None, 54)"
    by (simp add: execution_sources_def approved_db_def pending_db_def sample_proposal_def sample_binding_def
        sample_session_def find_row_def)
  have auth: "authorize_lease sample_sha (\<lambda>_. 0) (\<lambda>_ _ _ _. Inr ()) (\<lambda>_ _ _ _ _. Inr JNull) waiting_run ?p sample_effect
      approved_db = Inr (sample_approval, sample_binding, None, 54)"
  proof -
    have "db_bindings approved_db = [sample_binding]" "db_evidence approved_db = []"
      by (simp_all add: approved_db_def pending_db_def empty_db_def)
    from sample_row_valid(2) [OF this] show ?thesis by (simp add: authorize_lease_def sample_matching sources)
  qed
  have revision: "int_text (bd_revision sample_binding) = Some 1"
    by (simp add: sample_binding_def) code_simp
  show ?thesis
    using sample_call [of "\<lambda>i. of_nat (i + 70)" waiting_run "''APPROVED''" sample_approval sample_binding 54 20]
    by (auto simp: claim_effect_execution_def raise_if_def e p ids lock claim_locked_effect_def idle caller feature
        lease_effect_def auth Let_def effect_snapshot_def revision)
qed

lemma effect_lease_authorized_witness:
  "\<exists>(claimed :: claimed_effect) d. cx_attempt_no claimed \<le> 3 \<and>
     claim_effect_execution sample_sha (\<lambda>_. 0) (\<lambda>_. True) (\<lambda>_ _ _ _. Inr ()) (\<lambda>_ _ _ _ _. Inr JNull)
       sample_features (\<lambda>_. 20) (\<lambda>i. of_nat (i + 70)) sample_claim_effect approved_db = Inr (Some claimed, d)"
proof -
  obtain claimed d where c: "claim_effect_execution sample_sha (\<lambda>_. 0) (\<lambda>_. True) (\<lambda>_ _ _ _. Inr ())
      (\<lambda>_ _ _ _ _. Inr JNull) sample_features (\<lambda>_. 20) (\<lambda>i. of_nat (i + 70)) sample_claim_effect approved_db
      = Inr (Some claimed, d)" using sample_granted by blast
  have "distinct (map ef_id (db_effects approved_db))" by (simp add: approved_db_def)
  from effect_lease_authorized [OF this c] have "cx_attempt_no claimed \<le> cq_max_attempts sample_claim_effect" by blast
  then show ?thesis using c by (auto simp: sample_claim_effect_def)
qed






end
