(* ===== verification/Answer_Claims.thy ===== *)
theory Answer_Claims
  imports Sample Interaction_Ops
begin

text \<open>
  The properties of questions and answers, and of the redaction of what remote services report.
\<close>

section \<open>Redaction\<close>

text \<open>
  C34: the search for credentials is exact: \<^verbatim>\<open>find_sensitive_key\<close> answers \<open>None\<close> exactly when no entry,
  at any depth of the value, has a sensitive name (or is a harmless control identifier).
\<close>

theorem sensitive_search_exact:
  "find_sensitive_key p v = None \<longleftrightarrow> list_all (\<lambda>(k, w). \<not> sensitive_entry p k w) (json_entries v)"
  by (simp add: find_sensitive_key_None list_all_iff)






section \<open>Accepted answers\<close>

lemma answer_fields:
  assumes "validate_interaction_answer r = Inr v"
  shows "\<not> sensitive_payload r" "jget ''text'' v = jget ''text'' r"
    "jget ''selected_option_keys'' v = jget ''selected_option_keys'' r"
    "jget ''text'' v = Some t \<Longrightarrow> answer_text_ok t"
    "jget ''selected_option_keys'' v = Some t \<Longrightarrow> answer_keys_ok t"
    "set (map fst (obj_fields v)) \<subseteq> {''text'', ''selected_option_keys''}" "obj_fields v \<noteq> []"
proof -
  obtain kvs where a: "v = JObj (answer_entry ''text'' r @ answer_entry ''selected_option_keys'' r)"
    "\<And>t. jget ''text'' r = Some t \<Longrightarrow> answer_text_ok t"
    "\<And>t. jget ''selected_option_keys'' r = Some t \<Longrightarrow> answer_keys_ok t"
    "jget ''text'' r \<noteq> None \<or> jget ''selected_option_keys'' r \<noteq> None" "\<not> sensitive_payload r"
    using assms by (rule validate_interaction_answer_Inr) blast
  show t: "jget ''text'' v = jget ''text'' r" "jget ''selected_option_keys'' v = jget ''selected_option_keys'' r"
    by (auto simp: a(1) answer_entry_def split: option.split)
  show "\<not> sensitive_payload r" by (rule a(5))
  show "jget ''text'' v = Some t \<Longrightarrow> answer_text_ok t" "jget ''selected_option_keys'' v = Some t \<Longrightarrow> answer_keys_ok t"
    using t a(2,3) by simp_all
  show "set (map fst (obj_fields v)) \<subseteq> {''text'', ''selected_option_keys''}" "obj_fields v \<noteq> []"
    using a(4) by (auto simp: a(1) answer_entry_def split: option.splits)
qed

text \<open>
  C32: only well-formed answers are accepted. An accepted answer has a text of 1 to 10000 characters or a list of
  1 to 20 distinct option keys, or both, and nothing else; nothing sensitive was in what the user sent, and what is
  stored is what was sent. A choice names offered options only, and exactly one unless the question allows several;
  the other questions are answered by text alone; approvals are never answered this way.
\<close>

theorem accepted_answer:
  assumes "validate_interaction_response itype prompt options response = Inr v"
  shows "itype \<in> set ordinary_interaction_types \<and> \<not> sensitive_payload response \<and>
    set (map fst (obj_fields v)) \<subseteq> {''text'', ''selected_option_keys''} \<and> obj_fields v \<noteq> [] \<and>
    jget ''text'' v = jget ''text'' response \<and>
    jget ''selected_option_keys'' v = jget ''selected_option_keys'' response \<and>
    (case jget ''text'' v of None \<Rightarrow> True | Some t \<Rightarrow> answer_text_ok t) \<and>
    (case jget ''selected_option_keys'' v of None \<Rightarrow> itype \<noteq> CHOICE
     | Some w \<Rightarrow> itype = CHOICE \<and> answer_keys_ok w \<and>
         (\<exists>items ks multiple. w = JArr items \<and> emap (item_get ''key'') options = Inr ks \<and>
            set items \<subseteq> set (map (JStr \<circ> py_str) ks) \<and> item_get ''allow_multiple'' prompt = Inr multiple \<and>
            (truthy multiple \<or> length items = 1)))"
proof -
  from assms have itype: "itype \<in> set ordinary_interaction_types"
    and answer: "validate_interaction_answer response = Inr v"
    by (auto simp: validate_interaction_response_def require_ordinary_interaction_def ebind_Inr_iff Let_def raise_if_def
        split: if_splits option.splits json.splits)
  note a = answer_fields [OF answer]
  have "case jget ''selected_option_keys'' v of None \<Rightarrow> itype \<noteq> CHOICE
     | Some w \<Rightarrow> itype = CHOICE \<and>
         (\<exists>items ks multiple. w = JArr items \<and> emap (item_get ''key'') options = Inr ks \<and>
            set items \<subseteq> set (map (JStr \<circ> py_str) ks) \<and> item_get ''allow_multiple'' prompt = Inr multiple \<and>
            (truthy multiple \<or> length items = 1))"
  proof (cases "itype = CHOICE")
    case True
    from assms True answer obtain items ks multiple where "jget ''selected_option_keys'' v = Some (JArr items)"
      "emap (item_get ''key'') options = Inr ks" "list_all (\<lambda>i. i \<in> set (map (JStr \<circ> py_str) ks)) items"
      "item_get ''allow_multiple'' prompt = Inr multiple" "truthy multiple \<or> length items = 1"
      by (auto simp: validate_interaction_response_def ebind_Inr_iff Let_def split: option.splits json.splits)
    with True show ?thesis by (auto simp: list_all_iff)
  next
    case False
    with assms answer have "jget ''selected_option_keys'' v = None"
      by (auto simp: validate_interaction_response_def ebind_Inr_iff Let_def)
    with False show ?thesis by simp
  qed
  with itype a show ?thesis by (auto split: option.splits)
qed

definition sample_options :: "json list" where
  "sample_options = [JObj [(''key'', JStr ''yes''), (''label'', JStr ''Yes'')],
     JObj [(''key'', JStr ''no''), (''label'', JStr ''No'')]]"

definition sample_answer :: json where
  "sample_answer = JObj [(''selected_option_keys'', JArr [JStr ''no''])]"

lemma sample_accepted:
  "validate_interaction_response CHOICE (JObj [(''allow_multiple'', JBool False)]) sample_options sample_answer
     = Inr sample_answer"
  by code_simp

lemma accepted_answer_witness: "\<not> sensitive_payload sample_answer"
  using accepted_answer [OF sample_accepted] by blast

section \<open>One answer\<close>



















end
