(* ===== verification/Spec2Isabelle.thy ===== *)
theory Spec2Isabelle
  imports Schedule_Claims Schedule_Store_Claims Schedule_Fire_Claims Budget_Claims Run_Claims Attempt_Claims
    Creation_Claims Outbox_Claims Effect_Claims Answer_Claims
begin

text \<open>
  A verification development for the backend of SkillMind (\<^verbatim>\<open>src/SKM/backend/src/skillmind\<close>; every path below is
  relative to it). The backend executes tasks of versioned skills with an AI agent. A task becomes a \<^emph>\<open>run\<close>,
  created by a user or by a \<^emph>\<open>schedule\<close>; workers lease runs as \<^emph>\<open>attempts\<close> of \<^emph>\<open>segments\<close>, append the agent's
  events, may stop to ask a user a question, and propose \<^emph>\<open>effects\<close> (writes to external systems) that need an
  approval and a lease of their own; a \<^emph>\<open>budget\<close> ledger grants turns and money to every execution; messages
  leave through an \<^emph>\<open>outbox\<close>. All of this is state in one relational database, changed by short transactions
  of many concurrent processes. The development models those transactions and proves what they guarantee
  together.

  \<^bold>\<open>How the code is modelled.\<close> A table is a list of records, one record field per column that the code reads
  (\<open>Tables\<close>, from \<^verbatim>\<open>db/models.py\<close>), and \<open>db\<close> holds the tables. A repository method that runs inside
  \<^verbatim>\<open>session.begin()\<close> is a function \<open>\<dots> \<Rightarrow> db \<Rightarrow> (result \<times> db) res\<close>, where \<open>'a res\<close> is an exception class or a value:
  \<open>Inl\<close> is an exception, which rolls the transaction back, and an error that the code reports after it has
  committed is a value. Uniqueness and check constraints of the tables are tested where rows are flushed and
  raise \<open>IntegrityError\<close>. A row lock is the atomicity of the transaction; rows that \<^verbatim>\<open>SKIP LOCKED\<close> passes over are a
  parameter. The concurrency of the processes is the order of their transactions: \<open>commit_all\<close> (\<open>Prelude\<close>) executes
  any sequence of commands, an exception leaving the database unchanged, and the main properties quantify over
  all such sequences. The clock readings and fresh identifiers of a transaction are arguments (\<open>clk\<close>, \<open>ids\<close>),
  quantified over in every property.

  JSON values are a datatype (\<open>Json\<close>), instants are microseconds (\<open>Pytime\<close>), identifiers are 128-bit words,
  Python integers are \<open>int\<close>, decimal amounts are exact, and a Python text is a list of Latin-1 characters
  (\<open>Pytext\<close>, which says what follows for other characters). Digests, the time zone database, the conversion of
  integers to floats, schema validation, and the validators of providers are parameters; where a property
  relies on them the assumption is a hypothesis with a name (\<open>digest_ok\<close>, \<open>zone_ok\<close>).

  \<^bold>\<open>The theories.\<close>
  \<^item> Foundations: \<open>Prelude\<close> (exceptions, tables, the locales), \<open>Pytext\<close>, \<open>Pytime\<close>, \<open>Pyvalue\<close>, \<open>Json\<close> (also the
    canonical text of \<^verbatim>\<open>core/hashing.py\<close>), \<open>Canonical\<close> (what that text identifies), \<open>Tables\<close>.
  \<^item> Schedules: \<open>Cron\<close>, \<open>Cron_Search\<close> (\<^verbatim>\<open>schedules/cron.py\<close>), \<open>Schedule_Plan\<close> (\<^verbatim>\<open>domain.py\<close>, \<^verbatim>\<open>planning.py\<close>),
    \<open>Schedule_Snapshot\<close> (\<^verbatim>\<open>occurrence.py\<close>), \<open>Schedule_Store\<close> (\<^verbatim>\<open>repository.py\<close>, \<^verbatim>\<open>repository_occurrences.py\<close>,
    \<^verbatim>\<open>creation.py\<close>), \<open>Scheduled_Creation\<close> (\<^verbatim>\<open>runs/service.py\<close> for a scheduled run), \<open>Schedule_Tick\<close>
    (\<^verbatim>\<open>schedules/service.py\<close>); their proofs in \<open>Schedule_Inv\<close>, \<open>Schedule_Ops\<close>, \<open>Schedule_Claiming\<close>, \<open>Schedule_Fire_Ops\<close>.
  \<^item> Runs: \<open>Run_Domain\<close> (\<^verbatim>\<open>runs/domain.py\<close>), \<open>Creation\<close>, \<open>Creation_Codec\<close> (\<^verbatim>\<open>creation_request.py\<close>), \<open>Run_Base\<close>
    (\<^verbatim>\<open>repository_base.py\<close>), and \<^verbatim>\<open>runs/repository.py\<close> in \<open>Run_Create\<close>, \<open>Run_Lifecycle\<close>, \<open>Run_Claim\<close>, \<open>Run_Final\<close>,
    \<open>Outbox\<close>; their proofs in \<open>Run_Inv\<close>, \<open>Run_Ops\<close>, \<open>Run_Exec_Ops\<close>, \<open>Run_Final_Ops\<close>, \<open>Run_Commands\<close>.
  \<^item> Budget: \<open>Metering\<close> (\<^verbatim>\<open>agent/metering.py\<close>), \<open>Budget\<close> (\<^verbatim>\<open>runs/budget.py\<close>), \<open>Budget_Ledger\<close>, \<open>Budget_Settle\<close>
    (\<^verbatim>\<open>runs/repository_budgets.py\<close>); their proofs in \<open>Budget_Inv\<close>, \<open>Budget_Ops\<close>, \<open>Budget_Usage\<close>, \<open>Budget_Commands\<close>,
    \<open>Budget_Replay\<close>.
  \<^item> Effects: \<open>Effect_Outcome\<close> (\<^verbatim>\<open>effects/catalog.py\<close> and its neighbours), \<open>Approval\<close>, \<open>Approval_Run\<close>, \<open>Effect_End\<close>,
    \<open>Effect_Final\<close> (\<^verbatim>\<open>runs/repository_effects.py\<close>); their proofs in \<open>Approval_Ops\<close>, \<open>Effect_Ops\<close>.
  \<^item> Questions and answers: \<open>Interaction\<close> (\<^verbatim>\<open>runs/interaction.py\<close>), \<open>Interaction_Run\<close>
    (\<^verbatim>\<open>runs/repository_interactions.py\<close>), proofs in \<open>Interaction_Ops\<close>. Credentials: \<open>Redaction\<close> (\<^verbatim>\<open>core/redaction.py\<close>,
    \<^verbatim>\<open>integrations/mcp_errors.py\<close>).
  \<^item> \<open>Sample\<close> and the theories \<open>\<dots>_Claims\<close>: concrete data, the properties, and for each property with hypotheses a
    witness that applies it to that data.

  \<^bold>\<open>Interfaces.\<close> The locales of \<open>Prelude\<close> are the contracts the components share, each interpreted on the code's
  own definitions: \<open>lifecycle\<close> (status machines) by runs and schedules; \<open>transactional\<close> and \<open>transactional_history\<close>
  (an invariant kept, an order respected, by every committed transaction, hence by any sequence) by the
  budget ledger, the run repository (\<open>runs\<close>) and the schedule store on top of it (\<open>schedules\<close>); \<open>codec\<close> (what is
  stored is read back, and only valid values are read) by policies, metering values, requests and snapshots.
  \<open>effect_continuation\<close> (\<open>Run_Final_Ops\<close>) is what the end of an attempt needs from the effect component, interpreted in
  \<open>Effect_Ops\<close>.

  \<^bold>\<open>What is proved.\<close> For runs: the tables stay sound, what is final stays, the repository refines an abstract
  queue of keyed jobs (\<open>job_step\<close>), creation is idempotent, a claim is exclusive, a worker that lost its attempt is refused
  everywhere, a recorded cancellation wins, recovery leaves no expired lease, the outbox loses nothing. For
  the budget: accounts equal the sums of their reservations and never exceed the policy unless they are
  blocked, a start is granted once, repeated reports change nothing. For effects: a provider may only be called
  under an exact approval, and an unknown outcome stays recorded. For schedules: the next instant is the least
  one on the schedule, an occurrence is claimed, fired and settled once, the run count is exact, a tick
  reports only what it recorded. For the values: round trips, bounds and error classes.

  \<^bold>\<open>Bounds and fuel.\<close> The search for the next instant runs over \<open>max_search_days\<close> (four years, as in the code), and
  the property about \<open>None\<close> says what that means. The loops of the code become structural recursions over
  their counters or lists: the 1000 rounds of the missed count, the attempts of a tick, the rows of a batch.
  No other fuel is used; every function is total.

  \<^bold>\<open>Not modelled.\<close> Foreign keys, column widths and the column \<open>updated_at\<close> (written by every update and read by no
  modelled decision); messages of exceptions (only the class decides; the
  texts a tick stores are a parameter); logging and the cancellation of a worker's own task. Of the components:
  the HTTP API, the agent engine and its tools, the skill packages, documents and storage, the providers of
  effects and their reconciliation with remote systems, users and sessions, and the worker's process loops,
  which are input and output, calls into libraries, or read-only queries around the modelled transactions. Inside
  modelled components: the choice of sources and tools of a new run (\<^verbatim>\<open>_resolve_selected_sources\<close>) is a parameter of
  \<open>Scheduled_Creation\<close>, creation by a logged-in user is modelled from the repository on, and the suspension of a run for a proposal
  that is not inline (\<^verbatim>\<open>suspend_for_proposal\<close>) and the heartbeat of an effect are left out.
\<close>

end
